(* ===== verification/Prelude.thy ===== *)
theory Prelude
  imports Main "HOL-Library.List_Lexorder" "HOL-Library.Char_ord"
begin

text \<open>
  Shared vocabulary of the development: results of fallible code as values of a sum type,
  Python dictionaries built with \<open>setdefault\<close>, and the canonical form "one entry per key, in
  increasing key order" that several components of the program keep their data in.

  Python strings are modelled as HOL strings (lists of bytes, read as UTF-8). The program only
  compares them for equality and, in \<open>sorted\<close>, by code point; UTF-8 keeps both, so the
  lexicographic order of \<open>List_Lexorder\<close> is the order of the source.
\<close>

section \<open>Collections of facts\<close>

named_theorems rule_defs \<open>definitions of the transition rules and of their constructors\<close>
named_theorems effect_defs \<open>definitions of the effects of the transition rules\<close>
named_theorems frame \<open>which fields of a constructible machine state are empty in which state\<close>

section \<open>Results of fallible code\<close>

text \<open>\<open>Inl\<close> is a raised exception, \<open>Inr\<close> a returned value.\<close>

fun bind_result :: "'e + 'a \<Rightarrow> ('a \<Rightarrow> 'e + 'b) \<Rightarrow> 'e + 'b" where
  "bind_result (Inl e) f = Inl e"
| "bind_result (Inr a) f = f a"

definition guard_that :: "bool \<Rightarrow> 'e \<Rightarrow> 'e + unit" where
  "guard_that ok e = (if ok then Inr () else Inl e)"

fun guard_all :: "('e + unit) list \<Rightarrow> 'e + unit" where
  "guard_all [] = Inr ()"
| "guard_all (Inl e # _) = Inl e"
| "guard_all (Inr _ # gs) = guard_all gs"

lemma bind_result_eq_Inr:
  "bind_result r f = Inr b \<longleftrightarrow> (\<exists>a. r = Inr a \<and> f a = Inr b)"
  by (cases r) auto

lemma bind_result_eq_Inl:
  "bind_result r f = Inl e \<longleftrightarrow> r = Inl e \<or> (\<exists>a. r = Inr a \<and> f a = Inl e)"
  by (cases r) auto

lemma bind_unit_eq_Inr:
  "bind_result g (\<lambda>_::unit. r) = Inr b \<longleftrightarrow> g = Inr () \<and> r = Inr b"
  by (cases g) auto

lemma guard_that_Inr [simp]: "guard_that ok e = Inr u \<longleftrightarrow> ok"
  by (simp add: guard_that_def)

lemma guard_that_Inl [simp]: "guard_that ok e = Inl e' \<longleftrightarrow> \<not> ok \<and> e' = e"
  by (auto simp add: guard_that_def)

lemma guard_all_Cons:
  "guard_all (g # gs) = (case g of Inl e \<Rightarrow> Inl e | Inr _ \<Rightarrow> guard_all gs)"
  by (cases g) auto

lemma guard_all_Inr: "guard_all gs = Inr u \<longleftrightarrow> (\<forall>g \<in> set gs. g = Inr ())"
  by (induction gs) (auto simp: guard_all_Cons split: sum.splits)

section \<open>Dictionaries filled with setdefault\<close>

definition setdefault :: "('k \<times> 'v) list \<Rightarrow> 'k \<Rightarrow> 'v \<Rightarrow> ('k \<times> 'v) list" where
  "setdefault d k v = (if map_of d k = None then d @ [(k, v)] else d)"

fun setdefault_all :: "('v \<Rightarrow> 'k) \<Rightarrow> ('k \<times> 'v) list \<Rightarrow> 'v list \<Rightarrow> ('k \<times> 'v) list" where
  "setdefault_all key d [] = d"
| "setdefault_all key d (x # xs) = setdefault_all key (setdefault d (key x) x) xs"

text \<open>The first element of a list that has a given key.\<close>

fun first_with :: "('v \<Rightarrow> 'k) \<Rightarrow> 'k \<Rightarrow> 'v list \<Rightarrow> 'v option" where
  "first_with key k [] = None"
| "first_with key k (x # xs) = (if key x = k then Some x else first_with key k xs)"

lemma first_with_SomeD: "first_with key k xs = Some x \<Longrightarrow> x \<in> set xs \<and> key x = k"
  by (induction xs) (auto split: if_splits)

lemma first_with_None: "first_with key k xs = None \<longleftrightarrow> k \<notin> key ` set xs"
  by (induction xs) auto

lemma first_with_distinct:
  "distinct (map key xs) \<Longrightarrow> x \<in> set xs \<Longrightarrow> first_with key (key x) xs = Some x"
  by (induction xs) (auto simp: image_iff)

lemma map_of_setdefault:
  "map_of (setdefault d k v) j = (case map_of d j of None \<Rightarrow> (if j = k then Some v else None) | Some w \<Rightarrow> Some w)"
  by (auto simp: setdefault_def map_add_def split: option.splits)

lemma setdefault_keys: "fst ` set (setdefault d k v) = insert k (fst ` set d)"
  by (auto simp: setdefault_def image_iff dest: weak_map_of_SomeI map_of_SomeD split: if_splits)
     (metis fst_conv map_of_SomeD)

lemma setdefault_distinct: "distinct (map fst d) \<Longrightarrow> distinct (map fst (setdefault d k v))"
  by (auto simp: setdefault_def map_of_eq_None_iff)

lemma map_of_setdefault_all:
  "map_of (setdefault_all key d xs) k =
     (case map_of d k of None \<Rightarrow> first_with key k xs | Some w \<Rightarrow> Some w)"
  by (induction xs arbitrary: d) (auto simp: map_of_setdefault split: option.splits)

lemma setdefault_all_keys: "fst ` set (setdefault_all key d xs) = fst ` set d \<union> key ` set xs"
  by (induction xs arbitrary: d) (auto simp: setdefault_keys)

lemma setdefault_all_distinct:
  "distinct (map fst d) \<Longrightarrow> distinct (map fst (setdefault_all key d xs))"
  by (induction xs arbitrary: d) (auto simp: setdefault_distinct)

section \<open>Canonical order: one entry per key, keys increasing\<close>

definition canonicalize_by :: "('v \<Rightarrow> 'k::linorder) \<Rightarrow> 'v list \<Rightarrow> 'v list" where
  "canonicalize_by key xs =
     (let d = setdefault_all key [] xs in List.map_filter (map_of d) (sort (map fst d)))"

definition canonical_by :: "('v \<Rightarrow> 'k::linorder) \<Rightarrow> 'v list \<Rightarrow> bool" where
  "canonical_by key xs \<longleftrightarrow> sorted (map key xs) \<and> distinct (map key xs)"

lemma map_map_filter_keys:
  "(\<And>k. k \<in> set ks \<Longrightarrow> \<exists>x. f k = Some x \<and> key x = k) \<Longrightarrow> map key (List.map_filter f ks) = ks"
  by (induction ks) (fastforce simp: map_filter_simps split: option.splits)+

lemma set_map_filter': "set (List.map_filter f ks) = {x. \<exists>k \<in> set ks. f k = Some x}"
  by (induction ks) (auto simp: map_filter_simps split: option.splits)

lemma canonicalize_dict_keys:
  "k \<in> set (sort (map fst (setdefault_all key [] xs))) \<Longrightarrow>
   \<exists>x. map_of (setdefault_all key [] xs) k = Some x \<and> key x = k"
  using setdefault_all_keys [of key "[]" xs] first_with_None [of key k xs]
  by (auto simp: map_of_setdefault_all dest: first_with_SomeD)

lemma map_key_canonicalize:
  "map key (canonicalize_by key xs) = sort (map fst (setdefault_all key [] xs))"
  unfolding canonicalize_by_def Let_def
  by (rule map_map_filter_keys) (rule canonicalize_dict_keys)

lemma canonicalize_canonical: "canonical_by key (canonicalize_by key xs)"
  by (simp add: canonical_by_def map_key_canonicalize setdefault_all_distinct)

lemma key_set_canonicalize: "key ` set (canonicalize_by key xs) = key ` set xs"
proof -
  have "set (map key (canonicalize_by key xs)) = key ` set xs"
    unfolding map_key_canonicalize using setdefault_all_keys [of key "[]" xs] by simp
  then show ?thesis by simp
qed

lemma canonicalize_first:
  "x \<in> set (canonicalize_by key xs) \<longleftrightarrow> first_with key (key x) xs = Some x"
proof -
  have "x \<in> set (canonicalize_by key xs) \<longleftrightarrow>
    (\<exists>k \<in> key ` set xs. first_with key k xs = Some x)"
    using setdefault_all_keys [of key "[]" xs]
    by (simp add: canonicalize_by_def Let_def set_map_filter' map_of_setdefault_all)
  also have "\<dots> \<longleftrightarrow> first_with key (key x) xs = Some x"
    by (metis first_with_SomeD image_eqI)
  finally show ?thesis .
qed

lemma set_canonicalize_subset: "set (canonicalize_by key xs) \<subseteq> set xs"
  by (auto simp: canonicalize_first dest: first_with_SomeD)

lemma canonical_set_unique:
  "canonical_by key xs \<Longrightarrow> canonical_by key ys \<Longrightarrow> set xs = set ys \<Longrightarrow> xs = ys"
proof -
  assume xs: "canonical_by key xs" and ys: "canonical_by key ys" and eq: "set xs = set ys"
  have "map key xs = map key ys"
    using xs ys eq by (intro sorted_distinct_set_unique) (auto simp: canonical_by_def)
  moreover have "inj_on key (set xs \<union> set ys)"
    using xs eq by (simp add: canonical_by_def distinct_map)
  ultimately show ?thesis by (rule map_inj_on)
qed

lemma canonicalize_id: "canonical_by key xs \<Longrightarrow> canonicalize_by key xs = xs"
proof (rule canonical_set_unique [OF canonicalize_canonical])
  assume c: "canonical_by key xs"
  show "canonical_by key xs" by (rule c)
  have "x \<in> set (canonicalize_by key xs)" if "x \<in> set xs" for x
    using c that by (simp add: canonical_by_def canonicalize_first first_with_distinct)
  then show "set (canonicalize_by key xs) = set xs"
    using set_canonicalize_subset [of key xs] by blast
qed

lemma canonical_iff: "xs = canonicalize_by key xs \<longleftrightarrow> canonical_by key xs"
  using canonicalize_canonical canonicalize_id by metis

lemma canonicalize_idem [simp]:
  "canonicalize_by key (canonicalize_by key xs) = canonicalize_by key xs"
  by (rule canonicalize_id) (rule canonicalize_canonical)

lemma canonical_Nil [simp]: "canonical_by key []"
  by (simp add: canonical_by_def)

lemma canonical_single [simp]: "canonical_by key [x]"
  by (simp add: canonical_by_def)

lemma canonicalize_empty_iff [simp]: "canonicalize_by key xs = [] \<longleftrightarrow> xs = []"
  using key_set_canonicalize [of key xs] by (metis image_is_empty set_empty)

lemma canonical_filter: "canonical_by key xs \<Longrightarrow> canonical_by key (filter P xs)"
  unfolding canonical_by_def by (simp add: sorted_filter distinct_map_filter)

end
