(* ===== verification/States.thy ===== *)
theory States
  imports Prelude
begin

text \<open>
  \<open>domain/states.py\<close>: the 17 visible workflow states and their classification into terminal,
  resumable and active ones. The enumeration is an instance of the library's \<open>enum\<close> class, so
  \<open>UNIV\<close> is the source's \<open>frozenset(State)\<close> and the set differences compute.
\<close>

datatype state =
    S_RUNNING_REVIEW
  | S_CHANGES_REQUESTED
  | S_APPLYING_FIXES
  | S_CLARIFYING_REVIEW
  | S_REVIEWING_DECISION_REQUEST
  | S_AWAITING_USER_DECISION
  | S_AWAITING_TOOL_PERMISSION
  | S_WAITING_CI
  | S_GENERATING_REPORT
  | S_READY_FOR_HUMAN_MERGE
  | S_MERGING
  | S_MERGED
  | S_MERGE_FAILED
  | S_BLOCKED
  | S_FAILED
  | S_CANCELLED
  | S_REPORT_FAILED

instantiation state :: enum
begin

definition enum_state :: "state list" where
  "enum_state = [S_RUNNING_REVIEW, S_CHANGES_REQUESTED, S_APPLYING_FIXES, S_CLARIFYING_REVIEW,
     S_REVIEWING_DECISION_REQUEST, S_AWAITING_USER_DECISION, S_AWAITING_TOOL_PERMISSION,
     S_WAITING_CI, S_GENERATING_REPORT, S_READY_FOR_HUMAN_MERGE, S_MERGING, S_MERGED,
     S_MERGE_FAILED, S_BLOCKED, S_FAILED, S_CANCELLED, S_REPORT_FAILED]"

definition enum_all_state :: "(state \<Rightarrow> bool) \<Rightarrow> bool" where
  "enum_all_state P \<longleftrightarrow> list_all P enum_class.enum"

definition enum_ex_state :: "(state \<Rightarrow> bool) \<Rightarrow> bool" where
  "enum_ex_state P \<longleftrightarrow> list_ex P enum_class.enum"

instance
proof
  show univ: "UNIV = set (enum_class.enum :: state list)"
    unfolding enum_state_def by (rule UNIV_eq_I, rename_tac x, case_tac x) simp_all
  show "distinct (enum_class.enum :: state list)"
    by (simp add: enum_state_def)
  show "enum_class.enum_all P = Ball UNIV P" for P :: "state \<Rightarrow> bool"
    unfolding enum_all_state_def univ by (simp add: list_all_iff)
  show "enum_class.enum_ex P = Bex UNIV P" for P :: "state \<Rightarrow> bool"
    unfolding enum_ex_state_def univ by (simp add: list_ex_iff)
qed

end

definition TERMINAL_STATES :: "state set" where
  "TERMINAL_STATES = {S_MERGED, S_CANCELLED}"

definition RESUMABLE_STATES :: "state set" where
  "RESUMABLE_STATES =
     {S_WAITING_CI, S_AWAITING_USER_DECISION, S_AWAITING_TOOL_PERMISSION,
      S_READY_FOR_HUMAN_MERGE, S_BLOCKED, S_FAILED, S_REPORT_FAILED, S_MERGE_FAILED}"

definition ACTIVE_STATES :: "state set" where
  "ACTIVE_STATES = UNIV - TERMINAL_STATES - RESUMABLE_STATES"

lemma in_TERMINAL [simp]: "s \<in> TERMINAL_STATES \<longleftrightarrow> s = S_MERGED \<or> s = S_CANCELLED"
  by (auto simp: TERMINAL_STATES_def)

lemma in_RESUMABLE [simp]:
  "s \<in> RESUMABLE_STATES \<longleftrightarrow>
     s = S_WAITING_CI \<or> s = S_AWAITING_USER_DECISION \<or> s = S_AWAITING_TOOL_PERMISSION \<or>
     s = S_READY_FOR_HUMAN_MERGE \<or> s = S_BLOCKED \<or> s = S_FAILED \<or> s = S_REPORT_FAILED \<or>
     s = S_MERGE_FAILED"
  by (auto simp: RESUMABLE_STATES_def)

lemma in_ACTIVE [simp]:
  "s \<in> ACTIVE_STATES \<longleftrightarrow>
     s = S_RUNNING_REVIEW \<or> s = S_CHANGES_REQUESTED \<or> s = S_APPLYING_FIXES \<or>
     s = S_CLARIFYING_REVIEW \<or> s = S_REVIEWING_DECISION_REQUEST \<or> s = S_GENERATING_REPORT \<or>
     s = S_MERGING"
  by (cases s) (simp_all add: ACTIVE_STATES_def)

lemma classification_partition:
  "TERMINAL_STATES \<union> RESUMABLE_STATES \<union> ACTIVE_STATES = UNIV"
  "TERMINAL_STATES \<inter> RESUMABLE_STATES = {}"
  by (auto simp: ACTIVE_STATES_def)

end
