(* ===== verification/Values.thy ===== *)
theory Values
  imports States
begin

text \<open>
  The first half of \<open>domain/values.py\<close>: the structured errors, the opaque values that are only
  compared for equality, the finite discriminators, and the record and evidence value objects.
  Fields carry the prefix of their class, because HOL record fields share one name space.
\<close>

section \<open>Structured errors\<close>

text \<open>
  The free-text details of the exceptions are represented by what they say: the code of an
  invariant, the reason of a rejection, the defect of a registry. \<open>AttributeError\<close> and
  \<open>KeyError\<close> are the interpreter's own errors; they are branches of the model so that the
  absence of them can be proved.
\<close>

datatype reject_reason = NoMatchingRule | TerminalStateRejectsAll

datatype registry_defect =
    DuplicateRuleId string
  | TerminalOrigin string
  | SeveralRulesMatch "string list"

datatype domain_error =
    IllegalMachineStateError string
  | IllegalEventError string
  | TransitionRejected state string reject_reason
  | RegistryIntegrityError registry_defect
  | AttributeError
  | KeyError

section \<open>Opaque values\<close>

datatype opaque_binding = OpaqueBinding (binding_value: string)
datatype opaque_ref = OpaqueRef (ref_value: string)
datatype opaque_snapshot = OpaqueSnapshot (snapshot_value: string)
datatype opaque_fingerprint = OpaqueFingerprint (fingerprint_value: string)

text \<open>Bindings are sorted by their string, as \<open>sorted\<close> does with the dictionary's keys.\<close>

instantiation opaque_binding :: linorder
begin

definition less_eq_opaque_binding :: "opaque_binding \<Rightarrow> opaque_binding \<Rightarrow> bool" where
  "a \<le> b \<longleftrightarrow> binding_value a \<le> binding_value b"

definition less_opaque_binding :: "opaque_binding \<Rightarrow> opaque_binding \<Rightarrow> bool" where
  "a < b \<longleftrightarrow> binding_value a < binding_value b"

instance
  by standard (auto simp: less_eq_opaque_binding_def less_opaque_binding_def opaque_binding.expand)

end

section \<open>Finite discriminators\<close>

datatype record_kind =
    K_REVIEW_RESULT
  | K_FIX_RESULT
  | K_CLARIFICATION_QUESTION
  | K_CLARIFICATION_ANSWER
  | K_DECISION_REQUEST
  | K_DECISION_VERDICT
  | K_DECISION_BRIEF
  | K_DECISION_RECORD
  | K_EXTERNAL_DEPENDENCY
  | K_PERMISSION_BLOCK
  | K_CI_TIMEOUT
  | K_CI_CODE_FAILURE
  | K_FINAL_REPORT
  | K_INTEGRITY_INCIDENT
  | K_GATE_ANSWER
  | K_USER_DECISION
  | K_GATE_QUESTION
  | K_GATE_CHANGES
  | K_MERGE_APPROVAL
  | K_BLOCK_INTERVENTION
  | K_USER_CANCEL

definition USER_INPUT_RECORD_KINDS :: "record_kind set" where
  "USER_INPUT_RECORD_KINDS =
     {K_USER_DECISION, K_GATE_QUESTION, K_GATE_CHANGES, K_MERGE_APPROVAL, K_BLOCK_INTERVENTION,
      K_USER_CANCEL}"

definition INTERNAL_RECORD_KINDS :: "record_kind set" where
  "INTERNAL_RECORD_KINDS = UNIV - USER_INPUT_RECORD_KINDS"

datatype awaiting =
    A_CODEX_CODE_REVIEW
  | A_CODEX_CLARIFICATION
  | A_CODEX_DECISION_VERDICT
  | A_HOST_APPLY_FINDINGS
  | A_HOST_DRAFT_DECISION_REQUEST
  | A_HOST_DRAFT_DECISION_BRIEF
  | A_HOST_RECORD_DECISION
  | A_HOST_REVISE_DECISION_REQUEST
  | A_HOST_ANSWER_GATE_QUESTION
  | A_CI_RESULT
  | A_REPORT
  | A_MERGE_PRECONDITIONS
  | A_MERGE_OUTCOME_EXECUTE
  | A_MERGE_OUTCOME_CANCEL
  | A_MERGE_OUTCOME_FAILURE
  | A_USER_INPUT_DECISION
  | A_USER_INPUT_GATE
  | A_USER_INPUT_PERMISSION

definition MERGE_OUTCOME_AWAITINGS :: "awaiting set" where
  "MERGE_OUTCOME_AWAITINGS =
     {A_MERGE_OUTCOME_EXECUTE, A_MERGE_OUTCOME_CANCEL, A_MERGE_OUTCOME_FAILURE}"

fun AWAITING_HOME :: "awaiting \<Rightarrow> state set" where
  "AWAITING_HOME A_CODEX_CODE_REVIEW = {S_RUNNING_REVIEW}"
| "AWAITING_HOME A_CODEX_CLARIFICATION = {S_CLARIFYING_REVIEW}"
| "AWAITING_HOME A_CODEX_DECISION_VERDICT = {S_REVIEWING_DECISION_REQUEST}"
| "AWAITING_HOME A_HOST_APPLY_FINDINGS = {S_CHANGES_REQUESTED, S_APPLYING_FIXES}"
| "AWAITING_HOME A_HOST_DRAFT_DECISION_REQUEST = {S_REVIEWING_DECISION_REQUEST}"
| "AWAITING_HOME A_HOST_DRAFT_DECISION_BRIEF = {S_REVIEWING_DECISION_REQUEST}"
| "AWAITING_HOME A_HOST_RECORD_DECISION = {S_REVIEWING_DECISION_REQUEST}"
| "AWAITING_HOME A_HOST_REVISE_DECISION_REQUEST = {S_REVIEWING_DECISION_REQUEST}"
| "AWAITING_HOME A_HOST_ANSWER_GATE_QUESTION = {S_READY_FOR_HUMAN_MERGE}"
| "AWAITING_HOME A_CI_RESULT = {S_WAITING_CI}"
| "AWAITING_HOME A_REPORT = {S_GENERATING_REPORT}"
| "AWAITING_HOME A_MERGE_PRECONDITIONS = {S_MERGING}"
| "AWAITING_HOME A_MERGE_OUTCOME_EXECUTE = {S_MERGING}"
| "AWAITING_HOME A_MERGE_OUTCOME_CANCEL = {S_MERGING}"
| "AWAITING_HOME A_MERGE_OUTCOME_FAILURE = {S_MERGING}"
| "AWAITING_HOME A_USER_INPUT_DECISION = {S_AWAITING_USER_DECISION}"
| "AWAITING_HOME A_USER_INPUT_GATE = {S_READY_FOR_HUMAN_MERGE}"
| "AWAITING_HOME A_USER_INPUT_PERMISSION = {S_AWAITING_TOOL_PERMISSION}"

datatype progress = P_CONTINUE | P_LIMIT_REACHED | P_NO_PROGRESS

datatype budget = B_REVIEW_ROUND | B_CLARIFICATION_TURN

datatype incident_target = IT_MERGED | IT_CANCELLED

datatype incident_coverage = IC_COMPLETE | IC_REMAINDER

section \<open>Record and evidence value objects\<close>

record pending_record =
  pr_kind :: record_kind
  pr_binding :: opaque_binding
  pr_source_state :: state

record record_evidence =
  re_kind :: record_kind
  re_binding :: opaque_binding
  re_ref :: opaque_ref

record integrity_evidence_ref =
  ie_binding :: opaque_binding
  ie_descriptor :: opaque_ref
  ie_head :: opaque_ref

record progress_report =
  rp_progress :: progress
  rp_head :: opaque_ref
  rp_counter_snapshot :: opaque_snapshot
  rp_fingerprint :: opaque_fingerprint

record block_resolution_evidence =
  br_target_block_binding :: opaque_binding
  br_head :: opaque_ref
  br_record :: "record_evidence option"
  br_reason :: "progress option"
  br_budget :: "budget option"
  br_counter_snapshot :: "opaque_snapshot option"
  br_fingerprint :: "opaque_fingerprint option"
  br_violation_bindings :: "opaque_binding list option"

section \<open>The canonical violation set\<close>

text \<open>
  \<open>canonicalize_integrity\<close> removes repeated bindings (the first evidence of a binding stays) and
  sorts by binding.
\<close>

definition canonicalize_integrity :: "integrity_evidence_ref list \<Rightarrow> integrity_evidence_ref list" where
  "canonicalize_integrity refs = canonicalize_by ie_binding refs"

abbreviation canonical_violations :: "integrity_evidence_ref list \<Rightarrow> bool" where
  "canonical_violations \<equiv> canonical_by ie_binding"

lemma canonicalize_integrity_canonical [simp]: "canonical_violations (canonicalize_integrity refs)"
  by (simp add: canonicalize_integrity_def canonicalize_canonical)

lemma canonicalize_integrity_eq [simp]:
  "canonicalize_integrity refs = refs \<longleftrightarrow> canonical_violations refs"
  unfolding canonicalize_integrity_def using canonical_iff [of refs ie_binding] by auto

lemma canonicalize_integrity_Nil [simp]: "canonicalize_integrity refs = [] \<longleftrightarrow> refs = []"
  by (simp add: canonicalize_integrity_def)

lemma canonicalize_integrity_bindings [simp]:
  "ie_binding ` set (canonicalize_integrity refs) = ie_binding ` set refs"
  by (simp add: canonicalize_integrity_def key_set_canonicalize)

end
