(* ===== verification/Commands.thy ===== *)
theory Commands
  imports Values
begin

text \<open>
  \<open>domain/commands.py\<close>: the commands the state machine returns (it describes them, other
  components execute them), and the continuation of \<open>domain/values.py\<close> that a blocked run keeps.
\<close>

datatype codex_purpose = CP_CODE_REVIEW | CP_CLARIFICATION | CP_DECISION_VERDICT

datatype host_action =
    HA_APPLY_FINDINGS
  | HA_DRAFT_DECISION_REQUEST
  | HA_DRAFT_DECISION_BRIEF
  | HA_RECORD_DECISION
  | HA_REVISE_DECISION_REQUEST
  | HA_ANSWER_GATE_QUESTION

datatype command =
    RequestCodexReview codex_purpose
  | RequestHostAction host_action
  | PersistRecord record_kind opaque_binding
  | CheckCi
  | GenerateReport
  | HaltRun opaque_binding
  | VerifyMergePreconditions
  | ExecuteMerge
  | QueryMergeOutcome
  | InvalidateApprovals
  | RecordIntegrityIncident "opaque_binding list" "pending_record option"

text \<open>The class names of the commands, \<open>type(c).__name__\<close>.\<close>

datatype command_name =
    N_RequestCodexReview
  | N_RequestHostAction
  | N_PersistRecord
  | N_CheckCi
  | N_GenerateReport
  | N_HaltRun
  | N_VerifyMergePreconditions
  | N_ExecuteMerge
  | N_QueryMergeOutcome
  | N_InvalidateApprovals
  | N_RecordIntegrityIncident

fun command_type :: "command \<Rightarrow> command_name" where
  "command_type (RequestCodexReview _) = N_RequestCodexReview"
| "command_type (RequestHostAction _) = N_RequestHostAction"
| "command_type (PersistRecord _ _) = N_PersistRecord"
| "command_type CheckCi = N_CheckCi"
| "command_type GenerateReport = N_GenerateReport"
| "command_type (HaltRun _) = N_HaltRun"
| "command_type VerifyMergePreconditions = N_VerifyMergePreconditions"
| "command_type ExecuteMerge = N_ExecuteMerge"
| "command_type QueryMergeOutcome = N_QueryMergeOutcome"
| "command_type InvalidateApprovals = N_InvalidateApprovals"
| "command_type (RecordIntegrityIncident _ _) = N_RecordIntegrityIncident"

text \<open>
  The commands that start an agent, that is a Codex reviewer or work of the host. A predicate of
  the properties, not of the code.
\<close>

fun starts_agent :: "command \<Rightarrow> bool" where
  "starts_agent (RequestCodexReview _) = True"
| "starts_agent (RequestHostAction _) = True"
| "starts_agent _ = False"

record blocked_continuation =
  bc_resume_state :: state
  bc_commands :: "command list"
  bc_awaiting :: "awaiting option"

end
