(* ===== verification/Machine_State.thy ===== *)
theory Machine_State
  imports Commands
begin

text \<open>
  The second half of \<open>domain/values.py\<close>: the three kinds of block, the exclusive procedures and
  \<open>MachineState\<close> with the checks of its \<open>__post_init__\<close>. A dataclass with a \<open>__post_init__\<close> is a
  record together with a constructor function that returns the error or the record; an update by
  \<open>dataclasses.replace\<close> runs the same constructor function.
\<close>

section \<open>Blocks\<close>

record progress_block =
  pb_binding :: opaque_binding
  pb_head :: opaque_ref
  pb_continuation :: blocked_continuation
  pb_reason :: progress
  pb_budget :: budget
  pb_counter_snapshot :: opaque_snapshot
  pb_fingerprint :: opaque_fingerprint

definition progress_block_check :: "progress_block \<Rightarrow> domain_error + unit" where
  "progress_block_check b =
     guard_that (pb_reason b \<noteq> P_CONTINUE) (IllegalMachineStateError ''PROGRESS_BLOCK_REASON'')"

record external_dependency_block =
  xb_binding :: opaque_binding
  xb_head :: opaque_ref
  xb_continuation :: blocked_continuation
  xb_evidence :: record_evidence

record record_integrity_block =
  ri_violations :: "integrity_evidence_ref list"

definition integrity_block_check :: "record_integrity_block \<Rightarrow> domain_error + unit" where
  "integrity_block_check b =
     (let bindings = map (binding_value \<circ> ie_binding) (ri_violations b) in
      guard_all
        [guard_that (ri_violations b \<noteq> []) (IllegalMachineStateError ''INTEGRITY_BLOCK_EMPTY''),
         guard_that (\<not> (bindings \<noteq> sort bindings \<or> card (set bindings) \<noteq> length bindings))
           (IllegalMachineStateError ''INTEGRITY_BLOCK_ORDER'')])"

datatype block_context =
    ProgressBlock progress_block
  | ExternalDependencyBlock external_dependency_block
  | RecordIntegrityBlock record_integrity_block

definition representative_binding :: "record_integrity_block \<Rightarrow> opaque_binding option" where
  "representative_binding b =
     (case ri_violations b of [] \<Rightarrow> None | v # _ \<Rightarrow> Some (ie_binding v))"

definition representative_head :: "record_integrity_block \<Rightarrow> opaque_ref option" where
  "representative_head b =
     (case ri_violations b of [] \<Rightarrow> None | v # _ \<Rightarrow> Some (ie_head v))"

fun block_check :: "block_context \<Rightarrow> domain_error + unit" where
  "block_check (ProgressBlock b) = progress_block_check b"
| "block_check (ExternalDependencyBlock b) = Inr ()"
| "block_check (RecordIntegrityBlock b) = integrity_block_check b"

section \<open>Procedures\<close>

datatype procedure =
    NormalProcedure
  | CancellingProcedure opaque_binding
  | HaltingForBlockProcedure record_integrity_block opaque_binding
  | RecordingIncidentProcedure incident_target "pending_record option"

fun halting_check :: "record_integrity_block \<Rightarrow> opaque_binding \<Rightarrow> domain_error + unit" where
  "halting_check block attempt =
     guard_that (attempt \<in> ie_binding ` set (ri_violations block))
       (IllegalMachineStateError ''HALT_ATTEMPT_BINDING'')"

fun procedure_check :: "procedure \<Rightarrow> domain_error + unit" where
  "procedure_check (HaltingForBlockProcedure block attempt) =
     guard_all [integrity_block_check block, halting_check block attempt]"
| "procedure_check _ = Inr ()"

fun is_cancelling :: "procedure \<Rightarrow> bool" where
  "is_cancelling (CancellingProcedure _) = True"
| "is_cancelling _ = False"

fun is_halting :: "procedure \<Rightarrow> bool" where
  "is_halting (HaltingForBlockProcedure _ _) = True"
| "is_halting _ = False"

fun is_recording :: "procedure \<Rightarrow> bool" where
  "is_recording (RecordingIncidentProcedure _ _) = True"
| "is_recording _ = False"

section \<open>MachineState\<close>

record machine_state =
  ms_state :: state
  ms_procedure :: procedure
  ms_awaiting :: "awaiting option"
  ms_pending_record :: "pending_record option"
  ms_deferred_integrity :: "integrity_evidence_ref list"
  ms_return_to :: "state option"
  ms_recovery_to :: "state option"
  ms_block :: "block_context option"

text \<open>\<open>MachineState(state=s)\<close> with the default of every other field.\<close>

definition MachineState :: "state \<Rightarrow> machine_state" where
  "MachineState s =
     \<lparr>ms_state = s, ms_procedure = NormalProcedure, ms_awaiting = None, ms_pending_record = None,
      ms_deferred_integrity = [], ms_return_to = None, ms_recovery_to = None, ms_block = None\<rparr>"

abbreviation illegal :: "string \<Rightarrow> domain_error" where
  "illegal \<equiv> IllegalMachineStateError"

definition check_canonical_deferred :: "machine_state \<Rightarrow> domain_error + unit" where
  "check_canonical_deferred ms =
     guard_that (ms_deferred_integrity ms = canonicalize_integrity (ms_deferred_integrity ms))
       (illegal ''DEFERRED_CANONICAL'')"

definition check_terminal_bare :: "machine_state \<Rightarrow> domain_error + unit" where
  "check_terminal_bare ms =
     guard_that
       (\<not> (ms_state ms \<in> TERMINAL_STATES \<and>
            (ms_procedure ms \<noteq> NormalProcedure \<or> ms_awaiting ms \<noteq> None \<or>
             ms_pending_record ms \<noteq> None \<or> ms_deferred_integrity ms \<noteq> [] \<or>
             ms_return_to ms \<noteq> None \<or> ms_recovery_to ms \<noteq> None \<or> ms_block ms \<noteq> None)))
       (illegal ''TERMINAL_BARE'')"

definition check_block_scope :: "machine_state \<Rightarrow> domain_error + unit" where
  "check_block_scope ms =
     guard_all
       (guard_that ((ms_block ms \<noteq> None) = (ms_state ms = S_BLOCKED)) (illegal ''BLOCK_SCOPE'') #
        (if ms_state ms = S_BLOCKED then
           [guard_that (ms_awaiting ms = None) (illegal ''BLOCKED_NO_AWAITING''),
            guard_that (\<not> is_halting (ms_procedure ms)) (illegal ''BLOCKED_NO_HALT_GATE''),
            guard_that
              (\<not> (ms_procedure ms = NormalProcedure \<and>
                   (case ms_pending_record ms of None \<Rightarrow> False
                    | Some p \<Rightarrow> pr_kind p \<notin> {K_USER_CANCEL, K_BLOCK_INTERVENTION})))
              (illegal ''BLOCKED_PENDING_KIND'')]
         else []))"

definition check_recovery_scope :: "machine_state \<Rightarrow> domain_error + unit" where
  "check_recovery_scope ms =
     (case ms_recovery_to ms of None \<Rightarrow> Inr ()
      | Some r \<Rightarrow>
          guard_all
            [guard_that (ms_state ms = S_FAILED) (illegal ''RECOVERY_SCOPE''),
             guard_that (\<not> (r \<notin> ACTIVE_STATES \<or> r = S_MERGING)) (illegal ''RECOVERY_TARGET'')])"

definition check_return_scope :: "machine_state \<Rightarrow> domain_error + unit" where
  "check_return_scope ms =
     guard_all
       [guard_that ((ms_return_to ms \<noteq> None) = (ms_state ms = S_AWAITING_TOOL_PERMISSION))
          (illegal ''RETURN_SCOPE''),
        guard_that
          (case ms_return_to ms of None \<Rightarrow> True
           | Some r \<Rightarrow> r \<in> {S_RUNNING_REVIEW, S_APPLYING_FIXES})
          (illegal ''RETURN_TARGET'')]"

definition check_procedure_shape :: "machine_state \<Rightarrow> domain_error + unit" where
  "check_procedure_shape ms =
     guard_all
       ([guard_that (\<not> (ms_procedure ms \<noteq> NormalProcedure \<and> ms_awaiting ms \<noteq> None))
           (illegal ''PROCEDURE_NO_AWAITING''),
         guard_that (\<not> (is_cancelling (ms_procedure ms) \<and> ms_state ms = S_MERGING))
           (illegal ''MERGING_NO_CANCELLING'')] @
        (if is_halting (ms_procedure ms) then
           [guard_that (\<not> (ms_state ms \<notin> ACTIVE_STATES \<or> ms_state ms = S_MERGING))
              (illegal ''HALT_GATE_STATE''),
            guard_that (ms_pending_record ms = None) (illegal ''HALT_GATE_NO_PENDING''),
            guard_that (ms_deferred_integrity ms = []) (illegal ''HALT_GATE_NO_DEFERRED'')]
         else []) @
        (if is_recording (ms_procedure ms) then
           [guard_that (ms_deferred_integrity ms \<noteq> []) (illegal ''INCIDENT_NEEDS_DEFERRED''),
            guard_that
              (case ms_pending_record ms of None \<Rightarrow> True | Some p \<Rightarrow> pr_kind p = K_INTEGRITY_INCIDENT)
              (illegal ''INCIDENT_PENDING_KIND'')]
         else []))"

definition check_deferred_scope :: "machine_state \<Rightarrow> domain_error + unit" where
  "check_deferred_scope ms =
     (if ms_deferred_integrity ms = [] then Inr ()
      else if is_cancelling (ms_procedure ms) \<or> is_recording (ms_procedure ms) then Inr ()
      else if ms_procedure ms = NormalProcedure \<and> ms_state ms = S_MERGING \<and>
              (case ms_awaiting ms of None \<Rightarrow> False | Some a \<Rightarrow> a \<in> MERGE_OUTCOME_AWAITINGS)
           then Inr ()
      else Inl (illegal ''DEFERRED_SCOPE''))"

definition check_pending_home :: "machine_state \<Rightarrow> domain_error + unit" where
  "check_pending_home ms =
     (case ms_pending_record ms of None \<Rightarrow> Inr ()
      | Some p \<Rightarrow>
          guard_all
            [guard_that (\<not> (ms_state ms \<noteq> pr_source_state p \<and> ms_state ms \<noteq> S_FAILED))
               (illegal ''PENDING_HOME''),
             guard_that (\<not> (pr_kind p = K_INTEGRITY_INCIDENT \<and> \<not> is_recording (ms_procedure ms)))
               (illegal ''INCIDENT_PENDING_SCOPE''),
             guard_that (\<not> (ms_awaiting ms \<noteq> None \<and> pr_kind p \<noteq> K_USER_CANCEL))
               (illegal ''PENDING_AWAITING_EXCLUSIVE''),
             guard_that
               (\<not> (ms_state ms = S_FAILED \<and> pr_source_state p \<noteq> S_FAILED \<and>
                    ms_recovery_to ms \<noteq> Some (pr_source_state p)))
               (illegal ''FAILED_PENDING_RECOVERY'')])"

definition check_awaiting_home :: "machine_state \<Rightarrow> domain_error + unit" where
  "check_awaiting_home ms =
     (case ms_awaiting ms of None \<Rightarrow> Inr ()
      | Some a \<Rightarrow>
          guard_all
            [guard_that (\<not> (ms_state ms \<notin> AWAITING_HOME a \<and> ms_state ms \<noteq> S_FAILED))
               (illegal ''AWAITING_HOME''),
             guard_that
               (\<not> (ms_state ms = S_FAILED \<and>
                    (case ms_recovery_to ms of None \<Rightarrow> True | Some r \<Rightarrow> r \<notin> AWAITING_HOME a)))
               (illegal ''FAILED_AWAITING_RECOVERY'')])"

definition machine_state_post_init :: "machine_state \<Rightarrow> domain_error + unit" where
  "machine_state_post_init ms =
     guard_all
       [check_canonical_deferred ms, check_terminal_bare ms, check_block_scope ms,
        check_recovery_scope ms, check_return_scope ms, check_procedure_shape ms,
        check_deferred_scope ms, check_pending_home ms, check_awaiting_home ms]"

text \<open>Building a machine state, from its fields or by \<open>dataclasses.replace\<close>.\<close>

definition mk_machine_state :: "machine_state \<Rightarrow> domain_error + machine_state" where
  "mk_machine_state ms = bind_result (machine_state_post_init ms) (\<lambda>_. Inr ms)"

definition mk_integrity_block :: "integrity_evidence_ref list \<Rightarrow> domain_error + record_integrity_block" where
  "mk_integrity_block vs =
     (let b = \<lparr>ri_violations = vs\<rparr> in bind_result (integrity_block_check b) (\<lambda>_. Inr b))"

definition mk_progress_block :: "progress_block \<Rightarrow> domain_error + progress_block" where
  "mk_progress_block b = bind_result (progress_block_check b) (\<lambda>_. Inr b)"

definition mk_halting :: "record_integrity_block \<Rightarrow> opaque_binding \<Rightarrow> domain_error + procedure" where
  "mk_halting b attempt =
     bind_result (halting_check b attempt) (\<lambda>_. Inr (HaltingForBlockProcedure b attempt))"

section \<open>The states the constructors accept\<close>

text \<open>
  \<open>constructible\<close> says that every constructor involved in building the value returned: the
  machine state itself, its procedure and its block.
\<close>

definition constructible :: "machine_state \<Rightarrow> bool" where
  "constructible ms \<longleftrightarrow>
     procedure_check (ms_procedure ms) = Inr () \<and>
     (case ms_block ms of None \<Rightarrow> True | Some b \<Rightarrow> block_check b = Inr ()) \<and>
     machine_state_post_init ms = Inr ()"

subsection \<open>Each check as a formula\<close>

lemma guard_that_unit [simp]: "guard_that ok e = Inr () \<longleftrightarrow> ok"
  by simp

lemma sort_eq_iff: "xs = sort xs \<longleftrightarrow> sorted xs"
  by (metis sorted_sort sort_key_id_if_sorted map_ident)

lemma sorted_binding_values:
  "sorted (map (\<lambda>v. binding_value (ie_binding v)) vs) \<longleftrightarrow> sorted (map ie_binding vs)"
  by (simp add: sorted_iff_nth_mono_less less_eq_opaque_binding_def)

lemma distinct_binding_values:
  "distinct (map (\<lambda>v. binding_value (ie_binding v)) vs) \<longleftrightarrow> distinct (map ie_binding vs)"
  by (induction vs) (auto simp: image_iff opaque_binding.expand)

lemma integrity_block_check_Inr [simp]:
  "integrity_block_check b = Inr () \<longleftrightarrow> ri_violations b \<noteq> [] \<and> canonical_violations (ri_violations b)"
proof -
  have "card (set ks) \<noteq> length ks \<longleftrightarrow> \<not> distinct ks" for ks :: "string list"
    by (metis card_distinct distinct_card)
  then show ?thesis
    by (simp add: integrity_block_check_def guard_all_Inr sort_eq_iff canonical_by_def comp_def
        sorted_binding_values distinct_binding_values)
qed

lemma progress_block_check_Inr [simp]:
  "progress_block_check b = Inr () \<longleftrightarrow> pb_reason b \<noteq> P_CONTINUE"
  by (simp add: progress_block_check_def)

lemma check_canonical_deferred_Inr [simp]:
  "check_canonical_deferred ms = Inr () \<longleftrightarrow> canonical_violations (ms_deferred_integrity ms)"
  unfolding check_canonical_deferred_def guard_that_unit
  by (metis canonicalize_integrity_eq)

lemma check_terminal_bare_Inr [simp]:
  "check_terminal_bare ms = Inr () \<longleftrightarrow>
     (ms_state ms \<in> TERMINAL_STATES \<longrightarrow>
        ms_procedure ms = NormalProcedure \<and> ms_awaiting ms = None \<and> ms_pending_record ms = None \<and>
        ms_deferred_integrity ms = [] \<and> ms_return_to ms = None \<and> ms_recovery_to ms = None \<and>
        ms_block ms = None)"
  unfolding check_terminal_bare_def guard_that_unit by argo

lemma check_block_scope_Inr [simp]:
  "check_block_scope ms = Inr () \<longleftrightarrow>
     (ms_block ms = None \<longleftrightarrow> ms_state ms \<noteq> S_BLOCKED) \<and>
     (ms_state ms = S_BLOCKED \<longrightarrow>
        ms_awaiting ms = None \<and> \<not> is_halting (ms_procedure ms) \<and>
        (\<forall>p. ms_procedure ms = NormalProcedure \<and> ms_pending_record ms = Some p \<longrightarrow>
             pr_kind p = K_USER_CANCEL \<or> pr_kind p = K_BLOCK_INTERVENTION))"
  by (cases "ms_state ms = S_BLOCKED"; cases "ms_pending_record ms")
     (simp_all add: check_block_scope_def guard_all_Inr)

lemma check_recovery_scope_Inr [simp]:
  "check_recovery_scope ms = Inr () \<longleftrightarrow>
     (\<forall>r. ms_recovery_to ms = Some r \<longrightarrow>
        ms_state ms = S_FAILED \<and> r \<in> ACTIVE_STATES \<and> r \<noteq> S_MERGING)"
  by (auto simp: check_recovery_scope_def guard_all_Inr split: option.splits)

lemma check_return_scope_Inr [simp]:
  "check_return_scope ms = Inr () \<longleftrightarrow>
     (ms_return_to ms = None \<longleftrightarrow> ms_state ms \<noteq> S_AWAITING_TOOL_PERMISSION) \<and>
     (\<forall>r. ms_return_to ms = Some r \<longrightarrow> r = S_RUNNING_REVIEW \<or> r = S_APPLYING_FIXES)"
  by (auto simp: check_return_scope_def guard_all_Inr split: option.splits)

lemma check_procedure_shape_Inr [simp]:
  "check_procedure_shape ms = Inr () \<longleftrightarrow>
     (ms_procedure ms \<noteq> NormalProcedure \<longrightarrow> ms_awaiting ms = None) \<and>
     \<not> (is_cancelling (ms_procedure ms) \<and> ms_state ms = S_MERGING) \<and>
     (is_halting (ms_procedure ms) \<longrightarrow>
        ms_state ms \<in> ACTIVE_STATES \<and> ms_state ms \<noteq> S_MERGING \<and> ms_pending_record ms = None \<and>
        ms_deferred_integrity ms = []) \<and>
     (is_recording (ms_procedure ms) \<longrightarrow>
        ms_deferred_integrity ms \<noteq> [] \<and>
        (\<forall>p. ms_pending_record ms = Some p \<longrightarrow> pr_kind p = K_INTEGRITY_INCIDENT))"
  by (cases "ms_procedure ms"; cases "ms_pending_record ms")
     (simp_all add: check_procedure_shape_def guard_all_Inr del: in_ACTIVE)

lemma check_deferred_scope_Inr [simp]:
  "check_deferred_scope ms = Inr () \<longleftrightarrow>
     (ms_deferred_integrity ms \<noteq> [] \<longrightarrow>
        is_cancelling (ms_procedure ms) \<or> is_recording (ms_procedure ms) \<or>
        ms_procedure ms = NormalProcedure \<and> ms_state ms = S_MERGING \<and>
        (\<exists>a \<in> MERGE_OUTCOME_AWAITINGS. ms_awaiting ms = Some a))"
  by (auto simp: check_deferred_scope_def split: option.splits)

lemma check_pending_home_Inr [simp]:
  "check_pending_home ms = Inr () \<longleftrightarrow>
     (\<forall>p. ms_pending_record ms = Some p \<longrightarrow>
        (ms_state ms = pr_source_state p \<or> ms_state ms = S_FAILED) \<and>
        (pr_kind p = K_INTEGRITY_INCIDENT \<longrightarrow> is_recording (ms_procedure ms)) \<and>
        (ms_awaiting ms = None \<or> pr_kind p = K_USER_CANCEL) \<and>
        (ms_state ms = S_FAILED \<longrightarrow>
           pr_source_state p = S_FAILED \<or> ms_recovery_to ms = Some (pr_source_state p)))"
  by (cases "ms_pending_record ms") (simp_all add: check_pending_home_def guard_all_Inr de_Morgan_conj)

lemma check_awaiting_home_Inr [simp]:
  "check_awaiting_home ms = Inr () \<longleftrightarrow>
     (\<forall>a. ms_awaiting ms = Some a \<longrightarrow>
        (ms_state ms \<in> AWAITING_HOME a \<or> ms_state ms = S_FAILED) \<and>
        (ms_state ms = S_FAILED \<longrightarrow> (\<exists>r \<in> AWAITING_HOME a. ms_recovery_to ms = Some r)))"
  by (auto simp: check_awaiting_home_def guard_all_Inr split: option.splits)

lemma machine_state_post_init_Inr:
  "machine_state_post_init ms = Inr () \<longleftrightarrow>
     check_canonical_deferred ms = Inr () \<and> check_terminal_bare ms = Inr () \<and>
     check_block_scope ms = Inr () \<and> check_recovery_scope ms = Inr () \<and>
     check_return_scope ms = Inr () \<and> check_procedure_shape ms = Inr () \<and>
     check_deferred_scope ms = Inr () \<and> check_pending_home ms = Inr () \<and>
     check_awaiting_home ms = Inr ()"
  by (simp only: machine_state_post_init_def guard_all_Inr list.set ball_simps simp_thms)

lemma mk_machine_state_Inr:
  "mk_machine_state ms = Inr ms' \<longleftrightarrow> machine_state_post_init ms = Inr () \<and> ms' = ms"
  by (auto simp only: mk_machine_state_def bind_unit_eq_Inr sum.inject)

lemma mk_integrity_block_Inr:
  "mk_integrity_block vs = Inr b \<longleftrightarrow> vs \<noteq> [] \<and> canonical_violations vs \<and> b = \<lparr>ri_violations = vs\<rparr>"
  by (auto simp add: mk_integrity_block_def Let_def bind_unit_eq_Inr)

lemma mk_progress_block_Inr:
  "mk_progress_block b = Inr b' \<longleftrightarrow> pb_reason b \<noteq> P_CONTINUE \<and> b' = b"
  by (auto simp add: mk_progress_block_def bind_unit_eq_Inr)

lemma mk_halting_Inr:
  "mk_halting b a = Inr p \<longleftrightarrow>
     a \<in> ie_binding ` set (ri_violations b) \<and> p = HaltingForBlockProcedure b a"
  by (auto simp add: mk_halting_def bind_unit_eq_Inr)

subsection \<open>What a constructible state cannot hold\<close>

lemma constructible_checks:
  assumes "constructible ms"
  shows "procedure_check (ms_procedure ms) = Inr ()"
    and "check_canonical_deferred ms = Inr ()" and "check_terminal_bare ms = Inr ()"
    and "check_block_scope ms = Inr ()" and "check_recovery_scope ms = Inr ()"
    and "check_return_scope ms = Inr ()" and "check_procedure_shape ms = Inr ()"
    and "check_deferred_scope ms = Inr ()" and "check_pending_home ms = Inr ()"
    and "check_awaiting_home ms = Inr ()"
  using assms unfolding constructible_def machine_state_post_init_Inr by blast+

lemma constructible_block_check:
  "constructible ms \<Longrightarrow> ms_block ms = Some b \<Longrightarrow> block_check b = Inr ()"
  by (simp add: constructible_def)

lemma constructible_outcome:
  "constructible ms \<Longrightarrow> ms_procedure ms = NormalProcedure \<Longrightarrow> ms_deferred_integrity ms \<noteq> [] \<Longrightarrow>
   ms_state ms = S_MERGING \<and> (\<exists>a \<in> MERGE_OUTCOME_AWAITINGS. ms_awaiting ms = Some a)"
  using constructible_checks(8) [of ms] by simp

lemma frame_block [frame]: "constructible ms \<Longrightarrow> ms_state ms \<noteq> S_BLOCKED \<Longrightarrow> ms_block ms = None"
  using constructible_checks(4) [of ms] by simp

lemma frame_return [frame]:
  "constructible ms \<Longrightarrow> ms_state ms \<noteq> S_AWAITING_TOOL_PERMISSION \<Longrightarrow> ms_return_to ms = None"
  using constructible_checks(6) [of ms] by simp

lemma frame_recovery [frame]:
  "constructible ms \<Longrightarrow> ms_state ms \<noteq> S_FAILED \<Longrightarrow> ms_recovery_to ms = None"
  using constructible_checks(5) [of ms] by (cases "ms_recovery_to ms") simp_all

lemma frame_deferred [frame]:
  "constructible ms \<Longrightarrow> ms_procedure ms = NormalProcedure \<Longrightarrow> ms_state ms \<noteq> S_MERGING \<Longrightarrow>
   ms_deferred_integrity ms = []"
  using constructible_outcome by blast

text \<open>
  The states most effects produce: no procedure, no pending record, nothing to resume, and an
  expectation that belongs to the state.
\<close>

definition plain_target :: "state \<Rightarrow> awaiting option \<Rightarrow> bool" where
  "plain_target s a \<longleftrightarrow>
     s \<notin> {S_BLOCKED, S_AWAITING_TOOL_PERMISSION, S_FAILED} \<and>
     (case a of None \<Rightarrow> True | Some a' \<Rightarrow> s \<in> AWAITING_HOME a')"

lemma awaiting_home_not_terminal: "s \<in> AWAITING_HOME a \<Longrightarrow> s \<notin> TERMINAL_STATES"
  by (cases a) auto

lemma plain_post_init:
  assumes "plain_target s a"
  shows "machine_state_post_init (MachineState s\<lparr>ms_awaiting := a\<rparr>) = Inr ()"
  using assms awaiting_home_not_terminal [of s]
  unfolding machine_state_post_init_Inr plain_target_def
  by (cases a) (auto simp: MachineState_def simp del: in_TERMINAL)

lemma plain_constructible: "plain_target s a \<Longrightarrow> constructible (MachineState s\<lparr>ms_awaiting := a\<rparr>)"
  using plain_post_init [of s a] by (simp add: constructible_def MachineState_def)

end
