(* ===== verification/Events.thy ===== *)
theory Events
  imports Machine_State
begin

text \<open>
  \<open>domain/events.py\<close>: the events that enter the state machine, with the checks their constructors
  make. The Python class of an event, \<open>type(event)\<close>, is a value of \<open>event_type\<close>.
\<close>

datatype preflight_event = PreflightOk | PreflightNg

datatype event =
    RecordProduced record_kind opaque_binding
  | ReviewBlockingVerified record_evidence progress_report
  | ReviewApprovedVerified record_evidence
  | FixResultVerified record_evidence progress_report
  | ClarificationQuestionVerified record_evidence progress_report
  | ClarificationConfirmedVerified record_evidence
  | ClarificationRevisedVerified record_evidence
  | ClarificationWithdrawnVerified record_evidence
  | ClarificationEscalatedVerified record_evidence
  | DecisionRequestVerified record_evidence
  | VerdictAskUserVerified record_evidence
  | VerdictProceedVerified record_evidence
  | VerdictResubmitVerified record_evidence progress_report
  | DecisionBriefVerified record_evidence
  | DecisionRecordVerified record_evidence
  | UserDecisionVerified record_evidence
  | ExternalDependencyVerified record_evidence opaque_ref
  | ToolPermissionBlocked record_evidence
  | CiTimeoutRecorded record_evidence
  | CiCodeFailureVerified record_evidence progress_report
  | ReportVerified record_evidence
  | GateQuestionVerified record_evidence
  | GateAnswerVerified record_evidence
  | GateChangesVerified record_evidence
  | MergeApprovalVerified record_evidence
  | UserCancelVerified record_evidence
  | IntegrityIncidentVerified record_evidence "opaque_binding list"
  | FixStarted
  | PermissionResumeValidated
  | CiSucceeded
  | CiInfraFailure
  | CiResumeRequested
  | ReportFailed
  | ReporterRetryRequested
  | MergePreconditionsOk
  | MergePreconditionMismatch
  | MergeConfirmed
  | MergeNotExecutedConfirmed
  | MergeOutcomeUnknown
  | HeadChangedExternally
  | CancellationCompleted "opaque_binding option" "opaque_ref option"
  | BlockHaltCompleted opaque_binding
  | RecordIntegrityViolationDetected integrity_evidence_ref
  | RunFailed
  | ResumeValidated
  | ResumeFallbackRequired
  | ResumeSameHeadValidated
  | BlockResolvedLimitRaised block_resolution_evidence
  | BlockResolvedIntervention block_resolution_evidence
  | IntegrityRestoredValidated block_resolution_evidence
  | IntegritySalvageEstablished block_resolution_evidence

datatype event_type =
    ET_RecordProduced
  | ET_ReviewBlockingVerified
  | ET_ReviewApprovedVerified
  | ET_FixResultVerified
  | ET_ClarificationQuestionVerified
  | ET_ClarificationConfirmedVerified
  | ET_ClarificationRevisedVerified
  | ET_ClarificationWithdrawnVerified
  | ET_ClarificationEscalatedVerified
  | ET_DecisionRequestVerified
  | ET_VerdictAskUserVerified
  | ET_VerdictProceedVerified
  | ET_VerdictResubmitVerified
  | ET_DecisionBriefVerified
  | ET_DecisionRecordVerified
  | ET_UserDecisionVerified
  | ET_ExternalDependencyVerified
  | ET_ToolPermissionBlocked
  | ET_CiTimeoutRecorded
  | ET_CiCodeFailureVerified
  | ET_ReportVerified
  | ET_GateQuestionVerified
  | ET_GateAnswerVerified
  | ET_GateChangesVerified
  | ET_MergeApprovalVerified
  | ET_UserCancelVerified
  | ET_IntegrityIncidentVerified
  | ET_FixStarted
  | ET_PermissionResumeValidated
  | ET_CiSucceeded
  | ET_CiInfraFailure
  | ET_CiResumeRequested
  | ET_ReportFailed
  | ET_ReporterRetryRequested
  | ET_MergePreconditionsOk
  | ET_MergePreconditionMismatch
  | ET_MergeConfirmed
  | ET_MergeNotExecutedConfirmed
  | ET_MergeOutcomeUnknown
  | ET_HeadChangedExternally
  | ET_CancellationCompleted
  | ET_BlockHaltCompleted
  | ET_RecordIntegrityViolationDetected
  | ET_RunFailed
  | ET_ResumeValidated
  | ET_ResumeFallbackRequired
  | ET_ResumeSameHeadValidated
  | ET_BlockResolvedLimitRaised
  | ET_BlockResolvedIntervention
  | ET_IntegrityRestoredValidated
  | ET_IntegritySalvageEstablished

fun event_type_of :: "event \<Rightarrow> event_type" where
    "event_type_of (RecordProduced _ _) = ET_RecordProduced"
  | "event_type_of (ReviewBlockingVerified _ _) = ET_ReviewBlockingVerified"
  | "event_type_of (ReviewApprovedVerified _) = ET_ReviewApprovedVerified"
  | "event_type_of (FixResultVerified _ _) = ET_FixResultVerified"
  | "event_type_of (ClarificationQuestionVerified _ _) = ET_ClarificationQuestionVerified"
  | "event_type_of (ClarificationConfirmedVerified _) = ET_ClarificationConfirmedVerified"
  | "event_type_of (ClarificationRevisedVerified _) = ET_ClarificationRevisedVerified"
  | "event_type_of (ClarificationWithdrawnVerified _) = ET_ClarificationWithdrawnVerified"
  | "event_type_of (ClarificationEscalatedVerified _) = ET_ClarificationEscalatedVerified"
  | "event_type_of (DecisionRequestVerified _) = ET_DecisionRequestVerified"
  | "event_type_of (VerdictAskUserVerified _) = ET_VerdictAskUserVerified"
  | "event_type_of (VerdictProceedVerified _) = ET_VerdictProceedVerified"
  | "event_type_of (VerdictResubmitVerified _ _) = ET_VerdictResubmitVerified"
  | "event_type_of (DecisionBriefVerified _) = ET_DecisionBriefVerified"
  | "event_type_of (DecisionRecordVerified _) = ET_DecisionRecordVerified"
  | "event_type_of (UserDecisionVerified _) = ET_UserDecisionVerified"
  | "event_type_of (ExternalDependencyVerified _ _) = ET_ExternalDependencyVerified"
  | "event_type_of (ToolPermissionBlocked _) = ET_ToolPermissionBlocked"
  | "event_type_of (CiTimeoutRecorded _) = ET_CiTimeoutRecorded"
  | "event_type_of (CiCodeFailureVerified _ _) = ET_CiCodeFailureVerified"
  | "event_type_of (ReportVerified _) = ET_ReportVerified"
  | "event_type_of (GateQuestionVerified _) = ET_GateQuestionVerified"
  | "event_type_of (GateAnswerVerified _) = ET_GateAnswerVerified"
  | "event_type_of (GateChangesVerified _) = ET_GateChangesVerified"
  | "event_type_of (MergeApprovalVerified _) = ET_MergeApprovalVerified"
  | "event_type_of (UserCancelVerified _) = ET_UserCancelVerified"
  | "event_type_of (IntegrityIncidentVerified _ _) = ET_IntegrityIncidentVerified"
  | "event_type_of FixStarted = ET_FixStarted"
  | "event_type_of PermissionResumeValidated = ET_PermissionResumeValidated"
  | "event_type_of CiSucceeded = ET_CiSucceeded"
  | "event_type_of CiInfraFailure = ET_CiInfraFailure"
  | "event_type_of CiResumeRequested = ET_CiResumeRequested"
  | "event_type_of ReportFailed = ET_ReportFailed"
  | "event_type_of ReporterRetryRequested = ET_ReporterRetryRequested"
  | "event_type_of MergePreconditionsOk = ET_MergePreconditionsOk"
  | "event_type_of MergePreconditionMismatch = ET_MergePreconditionMismatch"
  | "event_type_of MergeConfirmed = ET_MergeConfirmed"
  | "event_type_of MergeNotExecutedConfirmed = ET_MergeNotExecutedConfirmed"
  | "event_type_of MergeOutcomeUnknown = ET_MergeOutcomeUnknown"
  | "event_type_of HeadChangedExternally = ET_HeadChangedExternally"
  | "event_type_of (CancellationCompleted _ _) = ET_CancellationCompleted"
  | "event_type_of (BlockHaltCompleted _) = ET_BlockHaltCompleted"
  | "event_type_of (RecordIntegrityViolationDetected _) = ET_RecordIntegrityViolationDetected"
  | "event_type_of RunFailed = ET_RunFailed"
  | "event_type_of ResumeValidated = ET_ResumeValidated"
  | "event_type_of ResumeFallbackRequired = ET_ResumeFallbackRequired"
  | "event_type_of ResumeSameHeadValidated = ET_ResumeSameHeadValidated"
  | "event_type_of (BlockResolvedLimitRaised _) = ET_BlockResolvedLimitRaised"
  | "event_type_of (BlockResolvedIntervention _) = ET_BlockResolvedIntervention"
  | "event_type_of (IntegrityRestoredValidated _) = ET_IntegrityRestoredValidated"
  | "event_type_of (IntegritySalvageEstablished _) = ET_IntegritySalvageEstablished"

text \<open>The class name an error message carries.\<close>

fun event_name :: "event_type \<Rightarrow> string" where
    "event_name ET_RecordProduced = ''RecordProduced''"
  | "event_name ET_ReviewBlockingVerified = ''ReviewBlockingVerified''"
  | "event_name ET_ReviewApprovedVerified = ''ReviewApprovedVerified''"
  | "event_name ET_FixResultVerified = ''FixResultVerified''"
  | "event_name ET_ClarificationQuestionVerified = ''ClarificationQuestionVerified''"
  | "event_name ET_ClarificationConfirmedVerified = ''ClarificationConfirmedVerified''"
  | "event_name ET_ClarificationRevisedVerified = ''ClarificationRevisedVerified''"
  | "event_name ET_ClarificationWithdrawnVerified = ''ClarificationWithdrawnVerified''"
  | "event_name ET_ClarificationEscalatedVerified = ''ClarificationEscalatedVerified''"
  | "event_name ET_DecisionRequestVerified = ''DecisionRequestVerified''"
  | "event_name ET_VerdictAskUserVerified = ''VerdictAskUserVerified''"
  | "event_name ET_VerdictProceedVerified = ''VerdictProceedVerified''"
  | "event_name ET_VerdictResubmitVerified = ''VerdictResubmitVerified''"
  | "event_name ET_DecisionBriefVerified = ''DecisionBriefVerified''"
  | "event_name ET_DecisionRecordVerified = ''DecisionRecordVerified''"
  | "event_name ET_UserDecisionVerified = ''UserDecisionVerified''"
  | "event_name ET_ExternalDependencyVerified = ''ExternalDependencyVerified''"
  | "event_name ET_ToolPermissionBlocked = ''ToolPermissionBlocked''"
  | "event_name ET_CiTimeoutRecorded = ''CiTimeoutRecorded''"
  | "event_name ET_CiCodeFailureVerified = ''CiCodeFailureVerified''"
  | "event_name ET_ReportVerified = ''ReportVerified''"
  | "event_name ET_GateQuestionVerified = ''GateQuestionVerified''"
  | "event_name ET_GateAnswerVerified = ''GateAnswerVerified''"
  | "event_name ET_GateChangesVerified = ''GateChangesVerified''"
  | "event_name ET_MergeApprovalVerified = ''MergeApprovalVerified''"
  | "event_name ET_UserCancelVerified = ''UserCancelVerified''"
  | "event_name ET_IntegrityIncidentVerified = ''IntegrityIncidentVerified''"
  | "event_name ET_FixStarted = ''FixStarted''"
  | "event_name ET_PermissionResumeValidated = ''PermissionResumeValidated''"
  | "event_name ET_CiSucceeded = ''CiSucceeded''"
  | "event_name ET_CiInfraFailure = ''CiInfraFailure''"
  | "event_name ET_CiResumeRequested = ''CiResumeRequested''"
  | "event_name ET_ReportFailed = ''ReportFailed''"
  | "event_name ET_ReporterRetryRequested = ''ReporterRetryRequested''"
  | "event_name ET_MergePreconditionsOk = ''MergePreconditionsOk''"
  | "event_name ET_MergePreconditionMismatch = ''MergePreconditionMismatch''"
  | "event_name ET_MergeConfirmed = ''MergeConfirmed''"
  | "event_name ET_MergeNotExecutedConfirmed = ''MergeNotExecutedConfirmed''"
  | "event_name ET_MergeOutcomeUnknown = ''MergeOutcomeUnknown''"
  | "event_name ET_HeadChangedExternally = ''HeadChangedExternally''"
  | "event_name ET_CancellationCompleted = ''CancellationCompleted''"
  | "event_name ET_BlockHaltCompleted = ''BlockHaltCompleted''"
  | "event_name ET_RecordIntegrityViolationDetected = ''RecordIntegrityViolationDetected''"
  | "event_name ET_RunFailed = ''RunFailed''"
  | "event_name ET_ResumeValidated = ''ResumeValidated''"
  | "event_name ET_ResumeFallbackRequired = ''ResumeFallbackRequired''"
  | "event_name ET_ResumeSameHeadValidated = ''ResumeSameHeadValidated''"
  | "event_name ET_BlockResolvedLimitRaised = ''BlockResolvedLimitRaised''"
  | "event_name ET_BlockResolvedIntervention = ''BlockResolvedIntervention''"
  | "event_name ET_IntegrityRestoredValidated = ''IntegrityRestoredValidated''"
  | "event_name ET_IntegritySalvageEstablished = ''IntegritySalvageEstablished''"

text \<open>
  The events of class \<open>_VerifiedEvent\<close> carry the evidence of a verified record, and each class
  expects one record kind.
\<close>

fun verified_evidence :: "event \<Rightarrow> record_evidence option" where
    "verified_evidence (ReviewBlockingVerified e _) = Some e"
  | "verified_evidence (ReviewApprovedVerified e) = Some e"
  | "verified_evidence (FixResultVerified e _) = Some e"
  | "verified_evidence (ClarificationQuestionVerified e _) = Some e"
  | "verified_evidence (ClarificationConfirmedVerified e) = Some e"
  | "verified_evidence (ClarificationRevisedVerified e) = Some e"
  | "verified_evidence (ClarificationWithdrawnVerified e) = Some e"
  | "verified_evidence (ClarificationEscalatedVerified e) = Some e"
  | "verified_evidence (DecisionRequestVerified e) = Some e"
  | "verified_evidence (VerdictAskUserVerified e) = Some e"
  | "verified_evidence (VerdictProceedVerified e) = Some e"
  | "verified_evidence (VerdictResubmitVerified e _) = Some e"
  | "verified_evidence (DecisionBriefVerified e) = Some e"
  | "verified_evidence (DecisionRecordVerified e) = Some e"
  | "verified_evidence (UserDecisionVerified e) = Some e"
  | "verified_evidence (ExternalDependencyVerified e _) = Some e"
  | "verified_evidence (ToolPermissionBlocked e) = Some e"
  | "verified_evidence (CiTimeoutRecorded e) = Some e"
  | "verified_evidence (CiCodeFailureVerified e _) = Some e"
  | "verified_evidence (ReportVerified e) = Some e"
  | "verified_evidence (GateQuestionVerified e) = Some e"
  | "verified_evidence (GateAnswerVerified e) = Some e"
  | "verified_evidence (GateChangesVerified e) = Some e"
  | "verified_evidence (MergeApprovalVerified e) = Some e"
  | "verified_evidence (UserCancelVerified e) = Some e"
  | "verified_evidence (IntegrityIncidentVerified e _) = Some e"
  | "verified_evidence _ = None"

fun EXPECTED_KIND :: "event_type \<Rightarrow> record_kind option" where
    "EXPECTED_KIND ET_ReviewBlockingVerified = Some K_REVIEW_RESULT"
  | "EXPECTED_KIND ET_ReviewApprovedVerified = Some K_REVIEW_RESULT"
  | "EXPECTED_KIND ET_FixResultVerified = Some K_FIX_RESULT"
  | "EXPECTED_KIND ET_ClarificationQuestionVerified = Some K_CLARIFICATION_QUESTION"
  | "EXPECTED_KIND ET_ClarificationConfirmedVerified = Some K_CLARIFICATION_ANSWER"
  | "EXPECTED_KIND ET_ClarificationRevisedVerified = Some K_CLARIFICATION_ANSWER"
  | "EXPECTED_KIND ET_ClarificationWithdrawnVerified = Some K_CLARIFICATION_ANSWER"
  | "EXPECTED_KIND ET_ClarificationEscalatedVerified = Some K_CLARIFICATION_ANSWER"
  | "EXPECTED_KIND ET_DecisionRequestVerified = Some K_DECISION_REQUEST"
  | "EXPECTED_KIND ET_VerdictAskUserVerified = Some K_DECISION_VERDICT"
  | "EXPECTED_KIND ET_VerdictProceedVerified = Some K_DECISION_VERDICT"
  | "EXPECTED_KIND ET_VerdictResubmitVerified = Some K_DECISION_VERDICT"
  | "EXPECTED_KIND ET_DecisionBriefVerified = Some K_DECISION_BRIEF"
  | "EXPECTED_KIND ET_DecisionRecordVerified = Some K_DECISION_RECORD"
  | "EXPECTED_KIND ET_UserDecisionVerified = Some K_USER_DECISION"
  | "EXPECTED_KIND ET_ExternalDependencyVerified = Some K_EXTERNAL_DEPENDENCY"
  | "EXPECTED_KIND ET_ToolPermissionBlocked = Some K_PERMISSION_BLOCK"
  | "EXPECTED_KIND ET_CiTimeoutRecorded = Some K_CI_TIMEOUT"
  | "EXPECTED_KIND ET_CiCodeFailureVerified = Some K_CI_CODE_FAILURE"
  | "EXPECTED_KIND ET_ReportVerified = Some K_FINAL_REPORT"
  | "EXPECTED_KIND ET_GateQuestionVerified = Some K_GATE_QUESTION"
  | "EXPECTED_KIND ET_GateAnswerVerified = Some K_GATE_ANSWER"
  | "EXPECTED_KIND ET_GateChangesVerified = Some K_GATE_CHANGES"
  | "EXPECTED_KIND ET_MergeApprovalVerified = Some K_MERGE_APPROVAL"
  | "EXPECTED_KIND ET_UserCancelVerified = Some K_USER_CANCEL"
  | "EXPECTED_KIND ET_IntegrityIncidentVerified = Some K_INTEGRITY_INCIDENT"
  | "EXPECTED_KIND _ = None"

text \<open>The \<open>report\<close> of the five event classes that have one.\<close>

fun event_report :: "event \<Rightarrow> progress_report option" where
    "event_report (ReviewBlockingVerified _ r) = Some r"
  | "event_report (FixResultVerified _ r) = Some r"
  | "event_report (ClarificationQuestionVerified _ r) = Some r"
  | "event_report (VerdictResubmitVerified _ r) = Some r"
  | "event_report (CiCodeFailureVerified _ r) = Some r"
  | "event_report _ = None"

text \<open>The \<open>resolution\<close> of the four event classes that have one.\<close>

fun event_resolution :: "event \<Rightarrow> block_resolution_evidence option" where
    "event_resolution (BlockResolvedLimitRaised r) = Some r"
  | "event_resolution (BlockResolvedIntervention r) = Some r"
  | "event_resolution (IntegrityRestoredValidated r) = Some r"
  | "event_resolution (IntegritySalvageEstablished r) = Some r"
  | "event_resolution _ = None"

section \<open>The checks of the event constructors\<close>

definition verified_event_check :: "event \<Rightarrow> domain_error + unit" where
  "verified_event_check e =
     (case verified_evidence e of None \<Rightarrow> Inr ()
      | Some ev \<Rightarrow>
          guard_that (EXPECTED_KIND (event_type_of e) = Some (re_kind ev))
            (IllegalEventError ''EVIDENCE_KIND''))"

fun cancellation_check :: "opaque_binding option \<Rightarrow> opaque_ref option \<Rightarrow> domain_error + unit" where
  "cancellation_check attempt emergency =
     guard_that (\<not> ((attempt = None) = (emergency = None)))
       (IllegalEventError ''CANCEL_COMPLETION_ORIGIN'')"

definition intervention_check :: "block_resolution_evidence \<Rightarrow> domain_error + unit" where
  "intervention_check r =
     guard_that
       (case br_record r of None \<Rightarrow> False | Some ev \<Rightarrow> re_kind ev = K_BLOCK_INTERVENTION)
       (IllegalEventError ''INTERVENTION_RECORD'')"

definition integrity_exit_check :: "block_resolution_evidence \<Rightarrow> domain_error + unit" where
  "integrity_exit_check r =
     guard_that
       (case br_violation_bindings r of None \<Rightarrow> False | Some bs \<Rightarrow> bs \<noteq> [])
       (IllegalEventError ''INTEGRITY_RESOLUTION_SET'')"

fun event_post_init :: "event \<Rightarrow> domain_error + unit" where
  "event_post_init (CancellationCompleted attempt emergency) = cancellation_check attempt emergency"
| "event_post_init (BlockResolvedIntervention r) = intervention_check r"
| "event_post_init (IntegrityRestoredValidated r) = integrity_exit_check r"
| "event_post_init (IntegritySalvageEstablished r) = integrity_exit_check r"
| "event_post_init e = verified_event_check e"

abbreviation legal_event :: "event \<Rightarrow> bool" where
  "legal_event e \<equiv> event_post_init e = Inr ()"

lemma legal_verified_kind:
  "legal_event e \<Longrightarrow> verified_evidence e = Some ev \<Longrightarrow> EXPECTED_KIND (event_type_of e) = Some (re_kind ev)"
  by (cases e) (simp_all add: verified_event_check_def)

lemma legal_verified_not_incident:
  "legal_event e \<Longrightarrow> verified_evidence e = Some ev \<Longrightarrow>
   event_type_of e \<noteq> ET_IntegrityIncidentVerified \<Longrightarrow> re_kind ev \<noteq> K_INTEGRITY_INCIDENT"
  using legal_verified_kind [of e ev] by (cases e) auto

end
