(* ===== verification/Ruledefs.thy ===== *)
theory Ruledefs
  imports Events
begin

text \<open>
  \<open>domain/_ruledefs.py\<close>: the guard key derived from a machine state and an event, the match part
  of a rule, the rule itself, and the tables the rules share.
\<close>

section \<open>Discriminators\<close>

datatype procedure_kind = PK_NORMAL | PK_CANCELLING | PK_HALTING_FOR_BLOCK | PK_RECORDING_INCIDENT

datatype pending_match = PM_ABSENT | PM_MATCH | PM_MISMATCH | PM_PRESENT

datatype binding_match = BM_MATCH | BM_MISMATCH

datatype block_kind = BK_PROGRESS | BK_EXTERNAL_DEPENDENCY | BK_RECORD_INTEGRITY

record guard_key =
  gk_procedure :: procedure_kind
  gk_awaiting :: "awaiting option"
  gk_pending :: pending_match
  gk_record_kind :: "record_kind option"
  gk_progress :: "progress option"
  gk_deferred_nonempty :: bool
  gk_binding :: "binding_match option"
  gk_block_kind :: "block_kind option"
  gk_block_reason :: "progress option"
  gk_coverage :: "incident_coverage option"
  gk_recovery_present :: bool

section \<open>The match part of a rule\<close>

text \<open>A component that is \<open>None\<close> matches everything.\<close>

record match_part =
  m_states :: "state set"
  m_event_type :: event_type
  m_procedures :: "procedure_kind set"
  m_awaiting :: "awaiting option set option"
  m_pending :: "pending_match set option"
  m_record_kinds :: "record_kind set option"
  m_progress :: "progress set option"
  m_deferred_nonempty :: "bool option"
  m_binding :: "binding_match set option"
  m_block_kinds :: "block_kind set option"
  m_block_reasons :: "progress set option"
  m_coverage :: "incident_coverage set option"
  m_recovery_present :: "bool option"

definition Match :: "state set \<Rightarrow> event_type \<Rightarrow> match_part" where
  "Match states et =
     \<lparr>m_states = states, m_event_type = et, m_procedures = {PK_NORMAL}, m_awaiting = None,
      m_pending = None, m_record_kinds = None, m_progress = None, m_deferred_nonempty = None,
      m_binding = None, m_block_kinds = None, m_block_reasons = None, m_coverage = None,
      m_recovery_present = None\<rparr>"

text \<open>\<open>self.x is None or key.x in self.x\<close>, with \<open>key.x\<close> a value or, when optional, \<open>None\<close>.\<close>

definition any_or_in :: "'a \<Rightarrow> 'a set option \<Rightarrow> bool" where
  "any_or_in v spec = (case spec of None \<Rightarrow> True | Some vs \<Rightarrow> v \<in> vs)"

definition any_or_some_in :: "'a option \<Rightarrow> 'a set option \<Rightarrow> bool" where
  "any_or_some_in v spec =
     (case spec of None \<Rightarrow> True
      | Some vs \<Rightarrow> (case v of None \<Rightarrow> False | Some v' \<Rightarrow> v' \<in> vs))"

definition any_or_eq :: "bool \<Rightarrow> bool option \<Rightarrow> bool" where
  "any_or_eq v spec = (case spec of None \<Rightarrow> True | Some b \<Rightarrow> v = b)"

definition matches :: "match_part \<Rightarrow> state \<Rightarrow> event_type \<Rightarrow> guard_key \<Rightarrow> bool" where
  "matches m s et key \<longleftrightarrow>
     s \<in> m_states m \<and>
     et = m_event_type m \<and>
     gk_procedure key \<in> m_procedures m \<and>
     any_or_in (gk_awaiting key) (m_awaiting m) \<and>
     any_or_in (gk_pending key) (m_pending m) \<and>
     any_or_some_in (gk_record_kind key) (m_record_kinds m) \<and>
     any_or_some_in (gk_progress key) (m_progress m) \<and>
     any_or_eq (gk_deferred_nonempty key) (m_deferred_nonempty m) \<and>
     any_or_some_in (gk_binding key) (m_binding m) \<and>
     any_or_some_in (gk_block_kind key) (m_block_kinds m) \<and>
     any_or_some_in (gk_block_reason key) (m_block_reasons m) \<and>
     any_or_some_in (gk_coverage key) (m_coverage m) \<and>
     any_or_eq (gk_recovery_present key) (m_recovery_present m)"

section \<open>Rules\<close>

type_synonym step_result = "domain_error + machine_state \<times> command list"

type_synonym effect = "machine_state \<Rightarrow> event \<Rightarrow> step_result"

text \<open>
  What a rule declares for the generated transition table: the strings of \<open>to_state\<close> that are
  state names, and one constructor for each of the other labels; likewise for \<open>command_names\<close>.
\<close>

datatype to_state_decl =
    ToState state
  | SameState
  | SameStateCancelling
  | SameStateIncident
  | SameStateHaltGate
  | SameStateIncidentContinued
  | MergingIncident
  | ReturnToState
  | PendingSourceState
  | RecoveryState
  | IncidentTargetState
  | ContinuationState

datatype commands_decl =
    Commands "command_name list"
  | ReturnToDriveCommands
  | AwaitingCommands
  | RecoveryDriveCommands
  | SavedCommands

record rule =
  rule_id :: string
  rule_section :: string
  rule_match :: match_part
  rule_effect :: effect
  rule_to_state :: to_state_decl
  rule_command_names :: commands_decl

section \<open>Deriving the guard key\<close>

fun procedure_kind_of :: "procedure \<Rightarrow> procedure_kind" where
  "procedure_kind_of (CancellingProcedure _) = PK_CANCELLING"
| "procedure_kind_of (HaltingForBlockProcedure _ _) = PK_HALTING_FOR_BLOCK"
| "procedure_kind_of (RecordingIncidentProcedure _ _) = PK_RECORDING_INCIDENT"
| "procedure_kind_of NormalProcedure = PK_NORMAL"

definition pending_vs_evidence :: "machine_state \<Rightarrow> record_evidence option \<Rightarrow> pending_match" where
  "pending_vs_evidence ms ev =
     (case ms_pending_record ms of None \<Rightarrow> PM_ABSENT
      | Some p \<Rightarrow>
          (case ev of None \<Rightarrow> PM_MISMATCH
           | Some r \<Rightarrow>
               if pr_kind p = re_kind r \<and> pr_binding p = re_binding r then PM_MATCH
               else PM_MISMATCH))"

definition derive_pending :: "machine_state \<Rightarrow> event \<Rightarrow> pending_match" where
  "derive_pending ms e =
     (case verified_evidence e of Some ev \<Rightarrow> pending_vs_evidence ms (Some ev)
      | None \<Rightarrow>
          (case e of BlockResolvedIntervention r \<Rightarrow> pending_vs_evidence ms (br_record r)
           | _ \<Rightarrow> if ms_pending_record ms = None then PM_ABSENT else PM_PRESENT))"

fun block_binding :: "block_context \<Rightarrow> opaque_binding option" where
  "block_binding (RecordIntegrityBlock b) = representative_binding b"
| "block_binding (ProgressBlock b) = Some (pb_binding b)"
| "block_binding (ExternalDependencyBlock b) = Some (xb_binding b)"

fun block_head :: "block_context \<Rightarrow> opaque_ref option" where
  "block_head (RecordIntegrityBlock b) = representative_head b"
| "block_head (ProgressBlock b) = Some (pb_head b)"
| "block_head (ExternalDependencyBlock b) = Some (xb_head b)"

fun expected_report ::
  "block_context \<Rightarrow> progress option \<times> budget option \<times> opaque_snapshot option \<times> opaque_fingerprint option"
where
  "expected_report (ProgressBlock b) =
     (Some (pb_reason b), Some (pb_budget b), Some (pb_counter_snapshot b), Some (pb_fingerprint b))"
| "expected_report _ = (None, None, None, None)"

fun expected_violations :: "block_context \<Rightarrow> opaque_binding list option" where
  "expected_violations (RecordIntegrityBlock b) = Some (map ie_binding (ri_violations b))"
| "expected_violations _ = None"

definition resolution_matches :: "machine_state \<Rightarrow> block_resolution_evidence \<Rightarrow> binding_match" where
  "resolution_matches ms res =
     (case ms_block ms of None \<Rightarrow> BM_MISMATCH
      | Some block \<Rightarrow>
          if Some (br_target_block_binding res) \<noteq> block_binding block \<or>
             Some (br_head res) \<noteq> block_head block then BM_MISMATCH
          else if (br_reason res, br_budget res, br_counter_snapshot res, br_fingerprint res)
                  \<noteq> expected_report block then BM_MISMATCH
          else if br_violation_bindings res \<noteq> expected_violations block then BM_MISMATCH
          else BM_MATCH)"

definition binding_match_of :: "bool \<Rightarrow> binding_match option" where
  "binding_match_of matched = Some (if matched then BM_MATCH else BM_MISMATCH)"

fun derive_binding :: "machine_state \<Rightarrow> event \<Rightarrow> binding_match option" where
  "derive_binding ms (CancellationCompleted attempt emergency) =
     binding_match_of
       (case ms_procedure ms of
          CancellingProcedure b \<Rightarrow> attempt = Some b
        | NormalProcedure \<Rightarrow> emergency \<noteq> None
        | _ \<Rightarrow> False)"
| "derive_binding ms (BlockHaltCompleted attempt) =
     binding_match_of
       (case ms_procedure ms of HaltingForBlockProcedure _ b \<Rightarrow> attempt = b | _ \<Rightarrow> False)"
| "derive_binding ms e =
     (case event_resolution e of None \<Rightarrow> None | Some r \<Rightarrow> Some (resolution_matches ms r))"

fun derive_coverage :: "machine_state \<Rightarrow> event \<Rightarrow> incident_coverage option" where
  "derive_coverage ms (IntegrityIncidentVerified ev recorded) =
     Some (if set (map ie_binding (ms_deferred_integrity ms)) \<subseteq> set recorded
           then IC_COMPLETE else IC_REMAINDER)"
| "derive_coverage ms _ = None"

fun block_kind_of :: "block_context \<Rightarrow> block_kind" where
  "block_kind_of (ProgressBlock _) = BK_PROGRESS"
| "block_kind_of (ExternalDependencyBlock _) = BK_EXTERNAL_DEPENDENCY"
| "block_kind_of (RecordIntegrityBlock _) = BK_RECORD_INTEGRITY"

fun block_reason_of :: "block_context \<Rightarrow> progress option" where
  "block_reason_of (ProgressBlock b) = Some (pb_reason b)"
| "block_reason_of _ = None"

fun produced_kind :: "event \<Rightarrow> record_kind option" where
  "produced_kind (RecordProduced k _) = Some k"
| "produced_kind _ = None"

definition derive_guard_key :: "machine_state \<Rightarrow> event \<Rightarrow> guard_key" where
  "derive_guard_key ms e =
     \<lparr>gk_procedure = procedure_kind_of (ms_procedure ms),
      gk_awaiting = ms_awaiting ms,
      gk_pending = derive_pending ms e,
      gk_record_kind = produced_kind e,
      gk_progress = map_option rp_progress (event_report e),
      gk_deferred_nonempty = (ms_deferred_integrity ms \<noteq> []),
      gk_binding = derive_binding ms e,
      gk_block_kind = map_option block_kind_of (ms_block ms),
      gk_block_reason = (case ms_block ms of None \<Rightarrow> None | Some b \<Rightarrow> block_reason_of b),
      gk_coverage = derive_coverage ms e,
      gk_recovery_present = (ms_recovery_to ms \<noteq> None)\<rparr>"

section \<open>Shared tables\<close>

fun AWAITING_COMMANDS :: "awaiting \<Rightarrow> command list" where
  "AWAITING_COMMANDS A_CODEX_CODE_REVIEW = [RequestCodexReview CP_CODE_REVIEW]"
| "AWAITING_COMMANDS A_CODEX_CLARIFICATION = [RequestCodexReview CP_CLARIFICATION]"
| "AWAITING_COMMANDS A_CODEX_DECISION_VERDICT = [RequestCodexReview CP_DECISION_VERDICT]"
| "AWAITING_COMMANDS A_HOST_APPLY_FINDINGS = [RequestHostAction HA_APPLY_FINDINGS]"
| "AWAITING_COMMANDS A_HOST_DRAFT_DECISION_REQUEST = [RequestHostAction HA_DRAFT_DECISION_REQUEST]"
| "AWAITING_COMMANDS A_HOST_DRAFT_DECISION_BRIEF = [RequestHostAction HA_DRAFT_DECISION_BRIEF]"
| "AWAITING_COMMANDS A_HOST_RECORD_DECISION = [RequestHostAction HA_RECORD_DECISION]"
| "AWAITING_COMMANDS A_HOST_REVISE_DECISION_REQUEST = [RequestHostAction HA_REVISE_DECISION_REQUEST]"
| "AWAITING_COMMANDS A_HOST_ANSWER_GATE_QUESTION = [RequestHostAction HA_ANSWER_GATE_QUESTION]"
| "AWAITING_COMMANDS A_CI_RESULT = [CheckCi]"
| "AWAITING_COMMANDS A_REPORT = [GenerateReport]"
| "AWAITING_COMMANDS A_MERGE_PRECONDITIONS = [VerifyMergePreconditions]"
| "AWAITING_COMMANDS A_MERGE_OUTCOME_EXECUTE = [QueryMergeOutcome]"
| "AWAITING_COMMANDS A_MERGE_OUTCOME_CANCEL = [QueryMergeOutcome]"
| "AWAITING_COMMANDS A_MERGE_OUTCOME_FAILURE = [QueryMergeOutcome]"
| "AWAITING_COMMANDS A_USER_INPUT_DECISION = []"
| "AWAITING_COMMANDS A_USER_INPUT_GATE = []"
| "AWAITING_COMMANDS A_USER_INPUT_PERMISSION = []"

text \<open>A missing key of the dictionary is \<open>None\<close>; reading it raises \<open>KeyError\<close>.\<close>

fun DRIVE_TABLE :: "state \<Rightarrow> (command list \<times> awaiting) option" where
  "DRIVE_TABLE S_RUNNING_REVIEW = Some ([RequestCodexReview CP_CODE_REVIEW], A_CODEX_CODE_REVIEW)"
| "DRIVE_TABLE S_CHANGES_REQUESTED = Some ([RequestHostAction HA_APPLY_FINDINGS], A_HOST_APPLY_FINDINGS)"
| "DRIVE_TABLE S_APPLYING_FIXES = Some ([RequestHostAction HA_APPLY_FINDINGS], A_HOST_APPLY_FINDINGS)"
| "DRIVE_TABLE S_CLARIFYING_REVIEW = Some ([RequestCodexReview CP_CLARIFICATION], A_CODEX_CLARIFICATION)"
| "DRIVE_TABLE S_REVIEWING_DECISION_REQUEST =
     Some ([RequestCodexReview CP_DECISION_VERDICT], A_CODEX_DECISION_VERDICT)"
| "DRIVE_TABLE S_GENERATING_REPORT = Some ([GenerateReport], A_REPORT)"
| "DRIVE_TABLE _ = None"

datatype budget_use = Consumes | JudgesOnly

fun BUDGET_EVENTS :: "event_type \<Rightarrow> (budget \<times> budget_use) option" where
  "BUDGET_EVENTS ET_ReviewBlockingVerified = Some (B_REVIEW_ROUND, Consumes)"
| "BUDGET_EVENTS ET_CiCodeFailureVerified = Some (B_REVIEW_ROUND, Consumes)"
| "BUDGET_EVENTS ET_FixResultVerified = Some (B_REVIEW_ROUND, JudgesOnly)"
| "BUDGET_EVENTS ET_ClarificationQuestionVerified = Some (B_CLARIFICATION_TURN, Consumes)"
| "BUDGET_EVENTS ET_VerdictResubmitVerified = Some (B_CLARIFICATION_TURN, Consumes)"
| "BUDGET_EVENTS _ = None"

section \<open>Building results\<close>

text \<open>
  The end of most effects: run the constructor of the new machine state and return it with the
  commands.
\<close>

definition returning :: "machine_state \<Rightarrow> command list \<Rightarrow> step_result" where
  "returning ms cs = bind_result (mk_machine_state ms) (\<lambda>ms'. Inr (ms', cs))"

lemma returning_Inr:
  "returning ms cs = Inr r \<longleftrightarrow> machine_state_post_init ms = Inr () \<and> r = (ms, cs)"
  by (auto simp: returning_def bind_result_eq_Inr mk_machine_state_Inr)

lemma returning_ok: "machine_state_post_init ms = Inr () \<Longrightarrow> returning ms cs = Inr (ms, cs)"
  by (simp add: returning_Inr)

end
