(* ===== verification/Rules_Workflow.thy ===== *)
theory Rules_Workflow
  imports Ruledefs
begin

text \<open>
  \<open>domain/_rules_workflow.py\<close>: the produced records, review, fix, clarification, decision, CI,
  report and gate rules, and the entry into a block when the progress bound is reached. Each rule
  of the source's tuples is a constant \<open>rule_<id>\<close>; the descriptions, which only the generated
  documentation shows, are left out.
\<close>

definition NON_TERMINAL :: "state set" where
  "NON_TERMINAL = UNIV - TERMINAL_STATES"

lemma in_NON_TERMINAL [simp]: "s \<in> NON_TERMINAL \<longleftrightarrow> s \<notin> TERMINAL_STATES"
  by (simp add: NON_TERMINAL_def)

abbreviation ABSENT :: "pending_match set" where "ABSENT \<equiv> {PM_ABSENT}"
abbreviation MATCHED :: "pending_match set" where "MATCHED \<equiv> {PM_MATCH}"
abbreviation BOUNDED :: "progress set" where "BOUNDED \<equiv> {P_LIMIT_REACHED, P_NO_PROGRESS}"

definition names :: "command list \<Rightarrow> commands_decl" where
  "names cs = Commands (map command_type cs)"

section \<open>Effects\<close>

text \<open>\<open>ms.state if to is None else to\<close>\<close>

definition target_state :: "state option \<Rightarrow> machine_state \<Rightarrow> state" where
  "target_state to ms = (case to of None \<Rightarrow> ms_state ms | Some s \<Rightarrow> s)"

definition target_decl :: "state option \<Rightarrow> to_state_decl" where
  "target_decl to = (case to of None \<Rightarrow> SameState | Some s \<Rightarrow> ToState s)"

definition advance :: "state option \<Rightarrow> awaiting option \<Rightarrow> command list \<Rightarrow> effect" where
  "advance to awaiting_after cs ms e =
     returning
       (ms\<lparr>ms_state := target_state to ms, ms_awaiting := awaiting_after, ms_pending_record := None\<rparr>)
       cs"

fun produced_effect :: "bool \<Rightarrow> effect" where
  "produced_effect keep_awaiting ms (RecordProduced kind b) =
     returning
       (ms\<lparr>ms_awaiting := (if keep_awaiting then ms_awaiting ms else None),
            ms_pending_record :=
              Some \<lparr>pr_kind = kind, pr_binding = b, pr_source_state = ms_state ms\<rparr>\<rparr>)
       [PersistRecord kind b]"
| "produced_effect keep_awaiting ms e = Inl AttributeError"

section \<open>The PRODUCED rules\<close>

definition produced_rule ::
  "string \<Rightarrow> record_kind \<Rightarrow> state set \<Rightarrow> awaiting option set \<Rightarrow> rule" where
  "produced_rule rid kind states awaitings =
     \<lparr>rule_id = rid, rule_section = ''record'',
      rule_match =
        (Match states ET_RecordProduced)
          \<lparr>m_awaiting := Some awaitings, m_pending := Some ABSENT, m_record_kinds := Some {kind}\<rparr>,
      rule_effect = produced_effect False,
      rule_to_state = SameState, rule_command_names = Commands [N_PersistRecord]\<rparr>"

definition rule_P_01 :: rule where
  "rule_P_01 =
     produced_rule ''P-01'' K_REVIEW_RESULT {S_RUNNING_REVIEW} {Some A_CODEX_CODE_REVIEW}"

definition rule_P_02 :: rule where
  "rule_P_02 =
     produced_rule ''P-02'' K_FIX_RESULT {S_APPLYING_FIXES} {Some A_HOST_APPLY_FINDINGS}"

definition rule_P_03 :: rule where
  "rule_P_03 =
     produced_rule ''P-03'' K_CLARIFICATION_QUESTION {S_CHANGES_REQUESTED} {Some A_HOST_APPLY_FINDINGS}"

definition rule_P_04 :: rule where
  "rule_P_04 =
     produced_rule ''P-04'' K_CLARIFICATION_ANSWER {S_CLARIFYING_REVIEW} {Some A_CODEX_CLARIFICATION}"

definition rule_P_05 :: rule where
  "rule_P_05 =
     produced_rule ''P-05'' K_DECISION_REQUEST {S_APPLYING_FIXES} {Some A_HOST_APPLY_FINDINGS}"

definition rule_P_06 :: rule where
  "rule_P_06 =
     produced_rule ''P-06'' K_DECISION_REQUEST {S_REVIEWING_DECISION_REQUEST} {Some A_HOST_DRAFT_DECISION_REQUEST, Some A_HOST_REVISE_DECISION_REQUEST}"

definition rule_P_07 :: rule where
  "rule_P_07 =
     produced_rule ''P-07'' K_DECISION_VERDICT {S_REVIEWING_DECISION_REQUEST} {Some A_CODEX_DECISION_VERDICT}"

definition rule_P_08 :: rule where
  "rule_P_08 =
     produced_rule ''P-08'' K_DECISION_BRIEF {S_REVIEWING_DECISION_REQUEST} {Some A_HOST_DRAFT_DECISION_BRIEF}"

definition rule_P_09 :: rule where
  "rule_P_09 =
     produced_rule ''P-09'' K_DECISION_RECORD {S_REVIEWING_DECISION_REQUEST} {Some A_HOST_RECORD_DECISION}"

definition rule_P_10 :: rule where
  "rule_P_10 =
     produced_rule ''P-10'' K_EXTERNAL_DEPENDENCY {S_APPLYING_FIXES} {Some A_HOST_APPLY_FINDINGS}"

definition rule_P_11 :: rule where
  "rule_P_11 =
     produced_rule ''P-11'' K_PERMISSION_BLOCK {S_RUNNING_REVIEW} {Some A_CODEX_CODE_REVIEW}"

definition rule_P_12 :: rule where
  "rule_P_12 =
     produced_rule ''P-12'' K_PERMISSION_BLOCK {S_APPLYING_FIXES} {Some A_HOST_APPLY_FINDINGS}"

definition rule_P_13 :: rule where
  "rule_P_13 =
     produced_rule ''P-13'' K_CI_TIMEOUT {S_WAITING_CI} {Some A_CI_RESULT}"

definition rule_P_14 :: rule where
  "rule_P_14 =
     produced_rule ''P-14'' K_CI_CODE_FAILURE {S_WAITING_CI} {Some A_CI_RESULT}"

definition rule_P_15 :: rule where
  "rule_P_15 =
     produced_rule ''P-15'' K_FINAL_REPORT {S_GENERATING_REPORT} {Some A_REPORT}"

definition rule_P_16 :: rule where
  "rule_P_16 =
     produced_rule ''P-16'' K_GATE_ANSWER {S_READY_FOR_HUMAN_MERGE} {Some A_HOST_ANSWER_GATE_QUESTION}"

definition rule_P_17 :: rule where
  "rule_P_17 =
     produced_rule ''P-17'' K_USER_DECISION {S_AWAITING_USER_DECISION} {Some A_USER_INPUT_DECISION}"

definition rule_P_18 :: rule where
  "rule_P_18 =
     produced_rule ''P-18'' K_GATE_QUESTION {S_READY_FOR_HUMAN_MERGE} {Some A_USER_INPUT_GATE}"

definition rule_P_19 :: rule where
  "rule_P_19 =
     produced_rule ''P-19'' K_GATE_CHANGES {S_READY_FOR_HUMAN_MERGE} {Some A_USER_INPUT_GATE}"

definition rule_P_20 :: rule where
  "rule_P_20 =
     produced_rule ''P-20'' K_MERGE_APPROVAL {S_READY_FOR_HUMAN_MERGE} {Some A_USER_INPUT_GATE}"

definition rule_P_22 :: rule where
  "rule_P_22 =
     \<lparr>rule_id = ''P-22'', rule_section = ''record'',
      rule_match =
        (Match {S_BLOCKED} ET_RecordProduced)
          \<lparr>m_pending := Some ABSENT, m_record_kinds := Some {K_BLOCK_INTERVENTION},
             m_block_kinds := Some {BK_PROGRESS},
             m_block_reasons := Some {P_NO_PROGRESS}\<rparr>,
      rule_effect = produced_effect True,
      rule_to_state = SameState, rule_command_names = Commands [N_PersistRecord]\<rparr>"

definition rule_P_23 :: rule where
  "rule_P_23 =
     \<lparr>rule_id = ''P-23'', rule_section = ''record'',
      rule_match =
        (Match {S_BLOCKED} ET_RecordProduced)
          \<lparr>m_pending := Some ABSENT, m_record_kinds := Some {K_BLOCK_INTERVENTION},
             m_block_kinds := Some {BK_EXTERNAL_DEPENDENCY}\<rparr>,
      rule_effect = produced_effect True,
      rule_to_state = SameState, rule_command_names = Commands [N_PersistRecord]\<rparr>"

definition rule_P_21 :: rule where
  "rule_P_21 =
     \<lparr>rule_id = ''P-21'', rule_section = ''record'',
      rule_match =
        (Match NON_TERMINAL ET_RecordProduced)
          \<lparr>m_pending := Some ABSENT, m_record_kinds := Some {K_USER_CANCEL}\<rparr>,
      rule_effect = produced_effect True,
      rule_to_state = SameState, rule_command_names = Commands [N_PersistRecord]\<rparr>"

definition PRODUCED_RULES :: "rule list" where
  "PRODUCED_RULES =
     [rule_P_01, rule_P_02, rule_P_03, rule_P_04, rule_P_05,
      rule_P_06, rule_P_07, rule_P_08, rule_P_09, rule_P_10,
      rule_P_11, rule_P_12, rule_P_13, rule_P_14, rule_P_15,
      rule_P_16, rule_P_17, rule_P_18, rule_P_19, rule_P_20,
      rule_P_22, rule_P_23, rule_P_21]"

section \<open>Rule constructors\<close>

definition verified_rule ::
  "string \<Rightarrow> string \<Rightarrow> event_type \<Rightarrow> state set \<Rightarrow> state option \<Rightarrow> awaiting option \<Rightarrow> command list \<Rightarrow>
   progress set option \<Rightarrow> rule" where
  "verified_rule rid sec et from_states to awaiting_after cs prog =
     \<lparr>rule_id = rid, rule_section = sec,
      rule_match = (Match from_states et)\<lparr>m_pending := Some MATCHED, m_progress := prog\<rparr>,
      rule_effect = advance to awaiting_after cs,
      rule_to_state = target_decl to, rule_command_names = names cs\<rparr>"

definition external_rule ::
  "string \<Rightarrow> string \<Rightarrow> event_type \<Rightarrow> state set \<Rightarrow> awaiting \<Rightarrow> state option \<Rightarrow> awaiting option \<Rightarrow>
   command list \<Rightarrow> rule" where
  "external_rule rid sec et from_states awaiting_guard to awaiting_after cs =
     \<lparr>rule_id = rid, rule_section = sec,
      rule_match =
        (Match from_states et)\<lparr>m_awaiting := Some {Some awaiting_guard}, m_pending := Some ABSENT\<rparr>,
      rule_effect = advance to awaiting_after cs,
      rule_to_state = target_decl to, rule_command_names = names cs\<rparr>"

definition response_rule ::
  "string \<Rightarrow> string \<Rightarrow> event_type \<Rightarrow> state set \<Rightarrow> awaiting \<Rightarrow> state option \<Rightarrow> awaiting option \<Rightarrow>
   command list \<Rightarrow> rule" where
  "response_rule rid sec et from_states awaiting_guard to awaiting_after cs =
     \<lparr>rule_id = rid, rule_section = sec,
      rule_match =
        (Match from_states et)\<lparr>m_awaiting := Some {Some awaiting_guard}, m_pending := Some ABSENT\<rparr>,
      rule_effect = advance to awaiting_after cs,
      rule_to_state = target_decl to, rule_command_names = names cs\<rparr>"

text \<open>
  The block of \<open>_progress_block_rule\<close>. The budget is read from \<open>BUDGET_EVENTS\<close> when the rule is
  built; a missing entry is the \<open>KeyError\<close> of that lookup.
\<close>

definition progress_block_effect ::
  "event_type \<Rightarrow> blocked_continuation \<Rightarrow> command list \<Rightarrow> effect" where
  "progress_block_effect et continuation entry ms e =
     (case BUDGET_EVENTS et of None \<Rightarrow> Inl KeyError
      | Some (b, _) \<Rightarrow>
          (case (verified_evidence e, event_report e) of
             (Some ev, Some r) \<Rightarrow>
               bind_result
                 (mk_progress_block
                    \<lparr>pb_binding = re_binding ev, pb_head = rp_head r, pb_continuation = continuation,
                     pb_reason = rp_progress r, pb_budget = b,
                     pb_counter_snapshot = rp_counter_snapshot r, pb_fingerprint = rp_fingerprint r\<rparr>)
                 (\<lambda>block.
                    returning
                      (ms\<lparr>ms_state := S_BLOCKED, ms_awaiting := None, ms_pending_record := None,
                           ms_block := Some (ProgressBlock block)\<rparr>)
                      entry)
           | _ \<Rightarrow> Inl AttributeError))"

definition progress_block_rule ::
  "string \<Rightarrow> event_type \<Rightarrow> state set \<Rightarrow> blocked_continuation \<Rightarrow> command list \<Rightarrow> rule" where
  "progress_block_rule rid et from_states continuation entry =
     \<lparr>rule_id = rid, rule_section = ''progress'',
      rule_match = (Match from_states et)\<lparr>m_pending := Some MATCHED, m_progress := Some BOUNDED\<rparr>,
      rule_effect = progress_block_effect et continuation entry,
      rule_to_state = ToState S_BLOCKED, rule_command_names = names entry\<rparr>"

section \<open>Continuations and the remaining effects\<close>

definition HOST_APPLY :: "command list" where
  "HOST_APPLY = [RequestHostAction HA_APPLY_FINDINGS]"

definition CODEX_REVIEW :: "command list" where
  "CODEX_REVIEW = [RequestCodexReview CP_CODE_REVIEW]"

definition CONT_REVIEW_BLOCKING :: blocked_continuation where
  "CONT_REVIEW_BLOCKING =
     \<lparr>bc_resume_state = S_CHANGES_REQUESTED, bc_commands = HOST_APPLY,
      bc_awaiting = Some A_HOST_APPLY_FINDINGS\<rparr>"

definition CONT_CLARIFICATION :: blocked_continuation where
  "CONT_CLARIFICATION =
     \<lparr>bc_resume_state = S_CLARIFYING_REVIEW, bc_commands = [RequestCodexReview CP_CLARIFICATION],
      bc_awaiting = Some A_CODEX_CLARIFICATION\<rparr>"

definition CONT_FIX_RESULT :: blocked_continuation where
  "CONT_FIX_RESULT =
     \<lparr>bc_resume_state = S_RUNNING_REVIEW, bc_commands = CODEX_REVIEW,
      bc_awaiting = Some A_CODEX_CODE_REVIEW\<rparr>"

definition CONT_RESUBMIT :: blocked_continuation where
  "CONT_RESUBMIT =
     \<lparr>bc_resume_state = S_REVIEWING_DECISION_REQUEST,
      bc_commands = [RequestHostAction HA_REVISE_DECISION_REQUEST],
      bc_awaiting = Some A_HOST_REVISE_DECISION_REQUEST\<rparr>"

definition CONT_CI_CODE_FAILURE :: blocked_continuation where
  "CONT_CI_CODE_FAILURE =
     \<lparr>bc_resume_state = S_CHANGES_REQUESTED, bc_commands = InvalidateApprovals # HOST_APPLY,
      bc_awaiting = Some A_HOST_APPLY_FINDINGS\<rparr>"

definition CONT_EXTERNAL_DEPENDENCY :: blocked_continuation where
  "CONT_EXTERNAL_DEPENDENCY =
     \<lparr>bc_resume_state = S_APPLYING_FIXES, bc_commands = HOST_APPLY,
      bc_awaiting = Some A_HOST_APPLY_FINDINGS\<rparr>"

definition BLOCKED_CONTINUATIONS :: "(string \<times> blocked_continuation) list" where
  "BLOCKED_CONTINUATIONS =
     [(''REVIEW_BLOCKING'', CONT_REVIEW_BLOCKING), (''CLARIFICATION'', CONT_CLARIFICATION),
      (''FIX_RESULT'', CONT_FIX_RESULT), (''RESUBMIT'', CONT_RESUBMIT),
      (''CI_CODE_FAILURE'', CONT_CI_CODE_FAILURE),
      (''EXTERNAL_DEPENDENCY'', CONT_EXTERNAL_DEPENDENCY)]"

definition permission_effect :: "state \<Rightarrow> effect" where
  "permission_effect return_to ms e =
     returning
       (ms\<lparr>ms_state := S_AWAITING_TOOL_PERMISSION, ms_awaiting := Some A_USER_INPUT_PERMISSION,
            ms_pending_record := None, ms_return_to := Some return_to\<rparr>)
       []"

definition permission_resume_effect :: effect where
  "permission_resume_effect ms e =
     (case ms_return_to ms of None \<Rightarrow> Inl KeyError
      | Some r \<Rightarrow>
          (case DRIVE_TABLE r of None \<Rightarrow> Inl KeyError
           | Some (cs, a) \<Rightarrow>
               returning (ms\<lparr>ms_state := r, ms_awaiting := Some a, ms_return_to := None\<rparr>) cs))"

fun external_dependency_effect :: effect where
  "external_dependency_effect ms (ExternalDependencyVerified ev head) =
     returning
       (ms\<lparr>ms_state := S_BLOCKED, ms_awaiting := None, ms_pending_record := None,
            ms_block :=
              Some (ExternalDependencyBlock
                \<lparr>xb_binding = re_binding ev, xb_head = head,
                 xb_continuation = CONT_EXTERNAL_DEPENDENCY, xb_evidence = ev\<rparr>)\<rparr>)
       []"
| "external_dependency_effect ms e = Inl AttributeError"

section \<open>The workflow rules\<close>

definition rule_T_03 :: rule where
  "rule_T_03 =
     verified_rule ''T-03'' ''workflow'' ET_ReviewBlockingVerified {S_RUNNING_REVIEW} (Some S_CHANGES_REQUESTED) (Some A_HOST_APPLY_FINDINGS)
       (HOST_APPLY) (Some {P_CONTINUE})"

definition rule_T_B03 :: rule where
  "rule_T_B03 =
     progress_block_rule ''T-B03'' ET_ReviewBlockingVerified {S_RUNNING_REVIEW} CONT_REVIEW_BLOCKING ([])"

definition rule_T_04 :: rule where
  "rule_T_04 =
     verified_rule ''T-04'' ''workflow'' ET_ReviewApprovedVerified {S_RUNNING_REVIEW} (Some S_WAITING_CI) (Some A_CI_RESULT)
       ([CheckCi]) None"

definition rule_T_05 :: rule where
  "rule_T_05 =
     \<lparr>rule_id = ''T-05'', rule_section = ''workflow'',
      rule_match = (Match {S_RUNNING_REVIEW} ET_ToolPermissionBlocked)\<lparr>m_pending := Some MATCHED\<rparr>,
      rule_effect = permission_effect S_RUNNING_REVIEW,
      rule_to_state = ToState S_AWAITING_TOOL_PERMISSION, rule_command_names = Commands []\<rparr>"

definition rule_T_06 :: rule where
  "rule_T_06 =
     response_rule ''T-06'' ''workflow'' ET_FixStarted {S_CHANGES_REQUESTED} A_HOST_APPLY_FINDINGS (Some S_APPLYING_FIXES) (Some A_HOST_APPLY_FINDINGS)
       ([])"

definition rule_T_07 :: rule where
  "rule_T_07 =
     verified_rule ''T-07'' ''workflow'' ET_ClarificationQuestionVerified {S_CHANGES_REQUESTED} (Some S_CLARIFYING_REVIEW) (Some A_CODEX_CLARIFICATION)
       ([RequestCodexReview CP_CLARIFICATION]) (Some {P_CONTINUE})"

definition rule_T_B07 :: rule where
  "rule_T_B07 =
     progress_block_rule ''T-B07'' ET_ClarificationQuestionVerified {S_CHANGES_REQUESTED} CONT_CLARIFICATION ([])"

definition rule_T_08a :: rule where
  "rule_T_08a =
     verified_rule ''T-08a'' ''workflow'' ET_ClarificationConfirmedVerified {S_CLARIFYING_REVIEW} (Some S_CHANGES_REQUESTED) (Some A_HOST_APPLY_FINDINGS)
       (HOST_APPLY) None"

definition rule_T_08b :: rule where
  "rule_T_08b =
     verified_rule ''T-08b'' ''workflow'' ET_ClarificationRevisedVerified {S_CLARIFYING_REVIEW} (Some S_CHANGES_REQUESTED) (Some A_HOST_APPLY_FINDINGS)
       (HOST_APPLY) None"

definition rule_T_09 :: rule where
  "rule_T_09 =
     verified_rule ''T-09'' ''workflow'' ET_ClarificationWithdrawnVerified {S_CLARIFYING_REVIEW} (Some S_RUNNING_REVIEW) (Some A_CODEX_CODE_REVIEW)
       (CODEX_REVIEW) None"

definition rule_T_10 :: rule where
  "rule_T_10 =
     verified_rule ''T-10'' ''decision'' ET_ClarificationEscalatedVerified {S_CLARIFYING_REVIEW} (Some S_REVIEWING_DECISION_REQUEST) (Some A_HOST_DRAFT_DECISION_REQUEST)
       ([RequestHostAction HA_DRAFT_DECISION_REQUEST]) None"

definition rule_T_11 :: rule where
  "rule_T_11 =
     verified_rule ''T-11'' ''workflow'' ET_FixResultVerified {S_APPLYING_FIXES} (Some S_RUNNING_REVIEW) (Some A_CODEX_CODE_REVIEW)
       (CODEX_REVIEW) (Some {P_CONTINUE})"

definition rule_T_B11 :: rule where
  "rule_T_B11 =
     progress_block_rule ''T-B11'' ET_FixResultVerified {S_APPLYING_FIXES} CONT_FIX_RESULT ([])"

definition rule_T_12 :: rule where
  "rule_T_12 =
     verified_rule ''T-12'' ''decision'' ET_DecisionRequestVerified {S_APPLYING_FIXES} (Some S_REVIEWING_DECISION_REQUEST) (Some A_CODEX_DECISION_VERDICT)
       ([RequestCodexReview CP_DECISION_VERDICT]) None"

definition rule_T_13 :: rule where
  "rule_T_13 =
     \<lparr>rule_id = ''T-13'', rule_section = ''workflow'',
      rule_match = (Match {S_APPLYING_FIXES} ET_ToolPermissionBlocked)\<lparr>m_pending := Some MATCHED\<rparr>,
      rule_effect = permission_effect S_APPLYING_FIXES,
      rule_to_state = ToState S_AWAITING_TOOL_PERMISSION, rule_command_names = Commands []\<rparr>"

definition rule_T_14 :: rule where
  "rule_T_14 =
     verified_rule ''T-14'' ''decision'' ET_DecisionRequestVerified {S_REVIEWING_DECISION_REQUEST} None (Some A_CODEX_DECISION_VERDICT)
       ([RequestCodexReview CP_DECISION_VERDICT]) None"

definition rule_T_15 :: rule where
  "rule_T_15 =
     verified_rule ''T-15'' ''decision'' ET_VerdictAskUserVerified {S_REVIEWING_DECISION_REQUEST} None (Some A_HOST_DRAFT_DECISION_BRIEF)
       ([RequestHostAction HA_DRAFT_DECISION_BRIEF]) None"

definition rule_T_16 :: rule where
  "rule_T_16 =
     verified_rule ''T-16'' ''decision'' ET_DecisionBriefVerified {S_REVIEWING_DECISION_REQUEST} (Some S_AWAITING_USER_DECISION) (Some A_USER_INPUT_DECISION)
       ([]) None"

definition rule_T_17 :: rule where
  "rule_T_17 =
     verified_rule ''T-17'' ''decision'' ET_VerdictProceedVerified {S_REVIEWING_DECISION_REQUEST} None (Some A_HOST_RECORD_DECISION)
       ([RequestHostAction HA_RECORD_DECISION]) None"

definition rule_T_18 :: rule where
  "rule_T_18 =
     verified_rule ''T-18'' ''decision'' ET_DecisionRecordVerified {S_REVIEWING_DECISION_REQUEST} (Some S_APPLYING_FIXES) (Some A_HOST_APPLY_FINDINGS)
       (HOST_APPLY) None"

definition rule_T_19 :: rule where
  "rule_T_19 =
     verified_rule ''T-19'' ''decision'' ET_VerdictResubmitVerified {S_REVIEWING_DECISION_REQUEST} None (Some A_HOST_REVISE_DECISION_REQUEST)
       ([RequestHostAction HA_REVISE_DECISION_REQUEST]) (Some {P_CONTINUE})"

definition rule_T_B19 :: rule where
  "rule_T_B19 =
     progress_block_rule ''T-B19'' ET_VerdictResubmitVerified {S_REVIEWING_DECISION_REQUEST} CONT_RESUBMIT ([])"

definition rule_T_20a :: rule where
  "rule_T_20a =
     verified_rule ''T-20a'' ''decision'' ET_UserDecisionVerified {S_AWAITING_USER_DECISION} (Some S_APPLYING_FIXES) (Some A_HOST_APPLY_FINDINGS)
       (HOST_APPLY) None"

definition rule_T_20b :: rule where
  "rule_T_20b =
     external_rule ''T-20b'' ''decision'' ET_UserDecisionVerified {S_AWAITING_USER_DECISION} A_USER_INPUT_DECISION (Some S_APPLYING_FIXES) (Some A_HOST_APPLY_FINDINGS)
       (HOST_APPLY)"

definition rule_T_21 :: rule where
  "rule_T_21 =
     \<lparr>rule_id = ''T-21'', rule_section = ''workflow'',
      rule_match = (Match {S_AWAITING_TOOL_PERMISSION} ET_PermissionResumeValidated)
          \<lparr>m_awaiting := Some {Some A_USER_INPUT_PERMISSION}, m_pending := Some ABSENT\<rparr>,
      rule_effect = permission_resume_effect,
      rule_to_state = ReturnToState, rule_command_names = ReturnToDriveCommands\<rparr>"

definition rule_T_22 :: rule where
  "rule_T_22 =
     response_rule ''T-22'' ''ci'' ET_CiSucceeded {S_WAITING_CI} A_CI_RESULT (Some S_GENERATING_REPORT) (Some A_REPORT)
       ([GenerateReport])"

definition rule_T_23 :: rule where
  "rule_T_23 =
     verified_rule ''T-23'' ''ci'' ET_CiCodeFailureVerified {S_WAITING_CI} (Some S_CHANGES_REQUESTED) (Some A_HOST_APPLY_FINDINGS)
       (InvalidateApprovals # HOST_APPLY) (Some {P_CONTINUE})"

definition rule_T_B23 :: rule where
  "rule_T_B23 =
     progress_block_rule ''T-B23'' ET_CiCodeFailureVerified {S_WAITING_CI} CONT_CI_CODE_FAILURE ([InvalidateApprovals])"

definition rule_T_24 :: rule where
  "rule_T_24 =
     response_rule ''T-24'' ''ci'' ET_CiInfraFailure {S_WAITING_CI} A_CI_RESULT None (Some A_CI_RESULT)
       ([CheckCi])"

definition rule_T_25 :: rule where
  "rule_T_25 =
     verified_rule ''T-25'' ''ci'' ET_CiTimeoutRecorded {S_WAITING_CI} None None
       ([]) None"

definition rule_T_26 :: rule where
  "rule_T_26 =
     \<lparr>rule_id = ''T-26'', rule_section = ''ci'',
      rule_match = (Match {S_WAITING_CI} ET_HeadChangedExternally)\<lparr>m_pending := Some ABSENT\<rparr>,
      rule_effect = advance (Some S_RUNNING_REVIEW) (Some A_CODEX_CODE_REVIEW)
          (InvalidateApprovals # CODEX_REVIEW),
      rule_to_state = ToState S_RUNNING_REVIEW, rule_command_names = Commands [N_InvalidateApprovals, N_RequestCodexReview]\<rparr>"

definition rule_T_27 :: rule where
  "rule_T_27 =
     verified_rule ''T-27'' ''report'' ET_ReportVerified {S_GENERATING_REPORT} (Some S_READY_FOR_HUMAN_MERGE) (Some A_USER_INPUT_GATE)
       ([]) None"

definition rule_T_28 :: rule where
  "rule_T_28 =
     response_rule ''T-28'' ''report'' ET_ReportFailed {S_GENERATING_REPORT} A_REPORT (Some S_REPORT_FAILED) None
       ([])"

definition rule_T_29a :: rule where
  "rule_T_29a =
     verified_rule ''T-29a'' ''gate'' ET_GateQuestionVerified {S_READY_FOR_HUMAN_MERGE} None (Some A_HOST_ANSWER_GATE_QUESTION)
       ([RequestHostAction HA_ANSWER_GATE_QUESTION]) None"

definition rule_T_29b :: rule where
  "rule_T_29b =
     external_rule ''T-29b'' ''gate'' ET_GateQuestionVerified {S_READY_FOR_HUMAN_MERGE} A_USER_INPUT_GATE None (Some A_HOST_ANSWER_GATE_QUESTION)
       ([RequestHostAction HA_ANSWER_GATE_QUESTION])"

definition rule_T_30 :: rule where
  "rule_T_30 =
     verified_rule ''T-30'' ''gate'' ET_GateAnswerVerified {S_READY_FOR_HUMAN_MERGE} None (Some A_USER_INPUT_GATE)
       ([]) None"

definition rule_T_31a :: rule where
  "rule_T_31a =
     verified_rule ''T-31a'' ''gate'' ET_GateChangesVerified {S_READY_FOR_HUMAN_MERGE} (Some S_CHANGES_REQUESTED) (Some A_HOST_APPLY_FINDINGS)
       (InvalidateApprovals # HOST_APPLY) None"

definition rule_T_31b :: rule where
  "rule_T_31b =
     external_rule ''T-31b'' ''gate'' ET_GateChangesVerified {S_READY_FOR_HUMAN_MERGE} A_USER_INPUT_GATE (Some S_CHANGES_REQUESTED) (Some A_HOST_APPLY_FINDINGS)
       (InvalidateApprovals # HOST_APPLY)"

definition rule_T_33 :: rule where
  "rule_T_33 =
     \<lparr>rule_id = ''T-33'', rule_section = ''gate'',
      rule_match = (Match {S_READY_FOR_HUMAN_MERGE} ET_HeadChangedExternally)\<lparr>m_pending := Some ABSENT\<rparr>,
      rule_effect = advance (Some S_RUNNING_REVIEW) (Some A_CODEX_CODE_REVIEW)
          (InvalidateApprovals # CODEX_REVIEW),
      rule_to_state = ToState S_RUNNING_REVIEW, rule_command_names = Commands [N_InvalidateApprovals, N_RequestCodexReview]\<rparr>"

definition rule_T_43 :: rule where
  "rule_T_43 =
     \<lparr>rule_id = ''T-43'', rule_section = ''workflow'',
      rule_match = (Match {S_APPLYING_FIXES} ET_ExternalDependencyVerified)\<lparr>m_pending := Some MATCHED\<rparr>,
      rule_effect = external_dependency_effect,
      rule_to_state = ToState S_BLOCKED, rule_command_names = Commands []\<rparr>"

definition WORKFLOW_RULES :: "rule list" where
  "WORKFLOW_RULES =
     [rule_T_03, rule_T_B03, rule_T_04, rule_T_05, rule_T_06,
      rule_T_07, rule_T_B07, rule_T_08a, rule_T_08b, rule_T_09,
      rule_T_10, rule_T_11, rule_T_B11, rule_T_12, rule_T_13,
      rule_T_14, rule_T_15, rule_T_16, rule_T_17, rule_T_18,
      rule_T_19, rule_T_B19, rule_T_20a, rule_T_20b, rule_T_21,
      rule_T_22, rule_T_23, rule_T_B23, rule_T_24, rule_T_25,
      rule_T_26, rule_T_27, rule_T_28, rule_T_29a, rule_T_29b,
      rule_T_30, rule_T_31a, rule_T_31b, rule_T_33, rule_T_43]"

lemmas workflow_rule_defs =
  rule_P_01_def rule_P_02_def rule_P_03_def rule_P_04_def
  rule_P_05_def rule_P_06_def rule_P_07_def rule_P_08_def
  rule_P_09_def rule_P_10_def rule_P_11_def rule_P_12_def
  rule_P_13_def rule_P_14_def rule_P_15_def rule_P_16_def
  rule_P_17_def rule_P_18_def rule_P_19_def rule_P_20_def
  rule_P_22_def rule_P_23_def rule_P_21_def rule_T_03_def
  rule_T_B03_def rule_T_04_def rule_T_05_def rule_T_06_def
  rule_T_07_def rule_T_B07_def rule_T_08a_def rule_T_08b_def
  rule_T_09_def rule_T_10_def rule_T_11_def rule_T_B11_def
  rule_T_12_def rule_T_13_def rule_T_14_def rule_T_15_def
  rule_T_16_def rule_T_17_def rule_T_18_def rule_T_19_def
  rule_T_B19_def rule_T_20a_def rule_T_20b_def rule_T_21_def
  rule_T_22_def rule_T_23_def rule_T_B23_def rule_T_24_def
  rule_T_25_def rule_T_26_def rule_T_27_def rule_T_28_def
  rule_T_29a_def rule_T_29b_def rule_T_30_def rule_T_31a_def
  rule_T_31b_def rule_T_33_def rule_T_43_def

end
