(* ===== verification/Rules_Recovery.thy ===== *)
theory Rules_Recovery
  imports Rules_Workflow
begin

text \<open>
  \<open>domain/_rules_recovery.py\<close>: the merge transaction, cancellation, failure, the reissue rules
  that hold while a procedure is in progress, and resumption.
\<close>

definition MERGE_OUTCOME :: "awaiting option set" where
  "MERGE_OUTCOME =
     {Some A_MERGE_OUTCOME_EXECUTE, Some A_MERGE_OUTCOME_CANCEL, Some A_MERGE_OUTCOME_FAILURE}"

definition ANY_AWAITING :: "awaiting option set" where
  "ANY_AWAITING = - {None}"

lemma in_MERGE_OUTCOME [simp]:
  "a \<in> MERGE_OUTCOME \<longleftrightarrow> (\<exists>b \<in> MERGE_OUTCOME_AWAITINGS. a = Some b)"
  by (auto simp: MERGE_OUTCOME_def MERGE_OUTCOME_AWAITINGS_def)

lemma in_ANY_AWAITING [simp]: "a \<in> ANY_AWAITING \<longleftrightarrow> a \<noteq> None"
  by (simp add: ANY_AWAITING_def)

definition RESUME_EVENTS :: "event_type list" where
  "RESUME_EVENTS =
     [ET_ResumeValidated, ET_ResumeFallbackRequired, ET_ResumeSameHeadValidated,
      ET_CiResumeRequested, ET_PermissionResumeValidated, ET_ReporterRetryRequested]"

section \<open>The merge transaction\<close>

definition fresh_review_effect :: effect where
  "fresh_review_effect ms e =
     returning (MachineState S_RUNNING_REVIEW\<lparr>ms_awaiting := Some A_CODEX_CODE_REVIEW\<rparr>)
       [InvalidateApprovals, RequestCodexReview CP_CODE_REVIEW]"

definition to_merging :: effect where
  "to_merging ms e =
     returning
       (ms\<lparr>ms_state := S_MERGING, ms_awaiting := Some A_MERGE_PRECONDITIONS, ms_pending_record := None\<rparr>)
       [VerifyMergePreconditions]"

definition merge_effect :: "state option \<Rightarrow> awaiting option \<Rightarrow> command list \<Rightarrow> effect" where
  "merge_effect to awaiting_after cs ms e =
     (case to of
        Some t \<Rightarrow>
          if t \<in> TERMINAL_STATES then returning (MachineState t) cs
          else returning (ms\<lparr>ms_state := t, ms_awaiting := awaiting_after\<rparr>) cs
      | None \<Rightarrow> returning (ms\<lparr>ms_awaiting := awaiting_after\<rparr>) cs)"

definition cancel_query_effect :: effect where
  "cancel_query_effect ms e =
     returning (ms\<lparr>ms_awaiting := Some A_MERGE_OUTCOME_CANCEL, ms_pending_record := None\<rparr>)
       [QueryMergeOutcome]"

definition same_head_effect :: effect where
  "same_head_effect ms e =
     returning (ms\<lparr>ms_state := S_READY_FOR_HUMAN_MERGE, ms_awaiting := Some A_USER_INPUT_GATE\<rparr>) []"

definition rule_M_32a :: rule where
  "rule_M_32a =
     \<lparr>rule_id = ''M-32a'', rule_section = ''merge'',
      rule_match = (Match {S_READY_FOR_HUMAN_MERGE} ET_MergeApprovalVerified)
          \<lparr>m_pending := Some MATCHED\<rparr>,
      rule_effect = to_merging,
      rule_to_state = ToState S_MERGING, rule_command_names = Commands [N_VerifyMergePreconditions]\<rparr>"

definition rule_M_32b :: rule where
  "rule_M_32b =
     \<lparr>rule_id = ''M-32b'', rule_section = ''merge'',
      rule_match = (Match {S_READY_FOR_HUMAN_MERGE} ET_MergeApprovalVerified)
          \<lparr>m_awaiting := Some {Some A_USER_INPUT_GATE}, m_pending := Some ABSENT\<rparr>,
      rule_effect = to_merging,
      rule_to_state = ToState S_MERGING, rule_command_names = Commands [N_VerifyMergePreconditions]\<rparr>"

definition rule_M_34 :: rule where
  "rule_M_34 =
     \<lparr>rule_id = ''M-34'', rule_section = ''merge'',
      rule_match = (Match {S_MERGING} ET_MergePreconditionsOk)
          \<lparr>m_awaiting := Some {Some A_MERGE_PRECONDITIONS}, m_pending := Some ABSENT\<rparr>,
      rule_effect = merge_effect None (Some A_MERGE_OUTCOME_EXECUTE) [ExecuteMerge],
      rule_to_state = ToState S_MERGING, rule_command_names = Commands [N_ExecuteMerge]\<rparr>"

definition rule_M_35 :: rule where
  "rule_M_35 =
     \<lparr>rule_id = ''M-35'', rule_section = ''merge'',
      rule_match = (Match {S_MERGING} ET_MergePreconditionMismatch)
          \<lparr>m_awaiting := Some {Some A_MERGE_PRECONDITIONS}, m_pending := Some ABSENT\<rparr>,
      rule_effect = merge_effect (Some S_MERGE_FAILED) None [],
      rule_to_state = ToState S_MERGE_FAILED, rule_command_names = Commands []\<rparr>"

definition rule_M_36 :: rule where
  "rule_M_36 =
     \<lparr>rule_id = ''M-36'', rule_section = ''merge'',
      rule_match = (Match {S_MERGING} ET_HeadChangedExternally)
          \<lparr>m_awaiting := Some {Some A_MERGE_PRECONDITIONS}, m_pending := Some ABSENT\<rparr>,
      rule_effect = fresh_review_effect,
      rule_to_state = ToState S_RUNNING_REVIEW, rule_command_names = Commands [N_InvalidateApprovals, N_RequestCodexReview]\<rparr>"

definition rule_M_37 :: rule where
  "rule_M_37 =
     \<lparr>rule_id = ''M-37'', rule_section = ''merge'',
      rule_match = (Match {S_MERGING} ET_MergeConfirmed)
          \<lparr>m_awaiting := Some MERGE_OUTCOME, m_pending := Some ABSENT, m_deferred_nonempty := Some False\<rparr>,
      rule_effect = merge_effect (Some S_MERGED) None [],
      rule_to_state = ToState S_MERGED, rule_command_names = Commands []\<rparr>"

definition rule_M_38 :: rule where
  "rule_M_38 =
     \<lparr>rule_id = ''M-38'', rule_section = ''merge'',
      rule_match = (Match {S_MERGING} ET_MergeNotExecutedConfirmed)
          \<lparr>m_awaiting := Some {Some A_MERGE_OUTCOME_CANCEL}, m_pending := Some ABSENT, m_deferred_nonempty := Some False\<rparr>,
      rule_effect = merge_effect (Some S_CANCELLED) None [],
      rule_to_state = ToState S_CANCELLED, rule_command_names = Commands []\<rparr>"

definition rule_M_39 :: rule where
  "rule_M_39 =
     \<lparr>rule_id = ''M-39'', rule_section = ''merge'',
      rule_match = (Match {S_MERGING} ET_MergeNotExecutedConfirmed)
          \<lparr>m_awaiting := Some {Some A_MERGE_OUTCOME_FAILURE}, m_pending := Some ABSENT, m_deferred_nonempty := Some False\<rparr>,
      rule_effect = merge_effect (Some S_MERGE_FAILED) None [],
      rule_to_state = ToState S_MERGE_FAILED, rule_command_names = Commands []\<rparr>"

definition rule_M_40 :: rule where
  "rule_M_40 =
     \<lparr>rule_id = ''M-40'', rule_section = ''merge'',
      rule_match = (Match {S_MERGING} ET_MergeOutcomeUnknown)
          \<lparr>m_awaiting := Some MERGE_OUTCOME, m_pending := Some ABSENT, m_deferred_nonempty := Some False\<rparr>,
      rule_effect = merge_effect (Some S_MERGE_FAILED) None [],
      rule_to_state = ToState S_MERGE_FAILED, rule_command_names = Commands []\<rparr>"

definition rule_M_41a :: rule where
  "rule_M_41a =
     \<lparr>rule_id = ''M-41a'', rule_section = ''merge'',
      rule_match = (Match {S_MERGING} ET_UserCancelVerified)
          \<lparr>m_pending := Some MATCHED\<rparr>,
      rule_effect = cancel_query_effect,
      rule_to_state = ToState S_MERGING, rule_command_names = Commands [N_QueryMergeOutcome]\<rparr>"

definition rule_M_41b :: rule where
  "rule_M_41b =
     \<lparr>rule_id = ''M-41b'', rule_section = ''merge'',
      rule_match = (Match {S_MERGING} ET_UserCancelVerified)
          \<lparr>m_pending := Some ABSENT\<rparr>,
      rule_effect = cancel_query_effect,
      rule_to_state = ToState S_MERGING, rule_command_names = Commands [N_QueryMergeOutcome]\<rparr>"

definition rule_M_42 :: rule where
  "rule_M_42 =
     \<lparr>rule_id = ''M-42'', rule_section = ''merge'',
      rule_match = (Match {S_MERGING} ET_RunFailed)
          \<lparr>m_awaiting := Some (insert (Some A_MERGE_PRECONDITIONS) MERGE_OUTCOME)\<rparr>,
      rule_effect = merge_effect None (Some A_MERGE_OUTCOME_FAILURE) [QueryMergeOutcome],
      rule_to_state = ToState S_MERGING, rule_command_names = Commands [N_QueryMergeOutcome]\<rparr>"

definition rule_M_SH :: rule where
  "rule_M_SH =
     \<lparr>rule_id = ''M-SH'', rule_section = ''merge'',
      rule_match = (Match {S_MERGE_FAILED} ET_ResumeSameHeadValidated)
          \<lparr>m_pending := Some ABSENT\<rparr>,
      rule_effect = same_head_effect,
      rule_to_state = ToState S_READY_FOR_HUMAN_MERGE, rule_command_names = Commands []\<rparr>"

definition rule_M_HC :: rule where
  "rule_M_HC =
     \<lparr>rule_id = ''M-HC'', rule_section = ''merge'',
      rule_match = (Match {S_MERGE_FAILED} ET_HeadChangedExternally)
          \<lparr>m_pending := Some ABSENT\<rparr>,
      rule_effect = fresh_review_effect,
      rule_to_state = ToState S_RUNNING_REVIEW, rule_command_names = Commands [N_InvalidateApprovals, N_RequestCodexReview]\<rparr>"

definition MERGE_RULES :: "rule list" where
  "MERGE_RULES =
     [rule_M_32a, rule_M_32b, rule_M_34, rule_M_35, rule_M_36,
      rule_M_37, rule_M_38, rule_M_39, rule_M_40, rule_M_41a,
      rule_M_41b, rule_M_42, rule_M_SH, rule_M_HC]"

section \<open>Cancellation and failure\<close>

text \<open>\<open>e.evidence.binding\<close> of the cancel event; other events have no such attribute.\<close>

definition start_cancel :: "bool \<Rightarrow> effect" where
  "start_cancel consume_pending ms e =
     (case verified_evidence e of None \<Rightarrow> Inl AttributeError
      | Some ev \<Rightarrow>
          returning
            (ms\<lparr>ms_procedure := CancellingProcedure (re_binding ev), ms_awaiting := None,
                 ms_pending_record := (if consume_pending then None else ms_pending_record ms)\<rparr>)
            [HaltRun (re_binding ev)])"

definition bare_cancelled_effect :: effect where
  "bare_cancelled_effect ms e = returning (MachineState S_CANCELLED) []"

definition deferred_bindings :: "machine_state \<Rightarrow> opaque_binding list" where
  "deferred_bindings ms = map ie_binding (ms_deferred_integrity ms)"

definition cancel_completed_to_incident :: effect where
  "cancel_completed_to_incident ms e =
     (let audit = ms_pending_record ms in
      returning
        (ms\<lparr>ms_procedure := RecordingIncidentProcedure IT_CANCELLED audit, ms_pending_record := None\<rparr>)
        [RecordIntegrityIncident (deferred_bindings ms) audit])"

definition fail_to_recovery :: effect where
  "fail_to_recovery ms e =
     returning (ms\<lparr>ms_state := S_FAILED, ms_recovery_to := Some (ms_state ms)\<rparr>) []"

text \<open>\<open>lambda ms, event: (ms, cs)\<close>: the state is returned as it is, no constructor runs.\<close>

definition unchanged_effect :: "command list \<Rightarrow> effect" where
  "unchanged_effect cs ms e = Inr (ms, cs)"

definition rule_C_01 :: rule where
  "rule_C_01 =
     \<lparr>rule_id = ''C-01'', rule_section = ''cancel'',
      rule_match = (Match (NON_TERMINAL - {S_MERGING}) ET_UserCancelVerified)
          \<lparr>m_pending := Some MATCHED\<rparr>,
      rule_effect = start_cancel True,
      rule_to_state = SameStateCancelling, rule_command_names = Commands [N_HaltRun]\<rparr>"

definition rule_C_02 :: rule where
  "rule_C_02 =
     \<lparr>rule_id = ''C-02'', rule_section = ''cancel'',
      rule_match = (Match (NON_TERMINAL - {S_MERGING}) ET_UserCancelVerified)
          \<lparr>m_pending := Some {PM_ABSENT, PM_MISMATCH}\<rparr>,
      rule_effect = start_cancel False,
      rule_to_state = SameStateCancelling, rule_command_names = Commands [N_HaltRun]\<rparr>"

definition rule_C_03 :: rule where
  "rule_C_03 =
     \<lparr>rule_id = ''C-03'', rule_section = ''cancel'',
      rule_match = (Match (NON_TERMINAL - {S_MERGING}) ET_CancellationCompleted)
          \<lparr>m_procedures := {PK_CANCELLING}, m_binding := Some {BM_MATCH}, m_deferred_nonempty := Some False\<rparr>,
      rule_effect = bare_cancelled_effect,
      rule_to_state = ToState S_CANCELLED, rule_command_names = Commands []\<rparr>"

definition rule_C_04 :: rule where
  "rule_C_04 =
     \<lparr>rule_id = ''C-04'', rule_section = ''cancel'',
      rule_match = (Match (NON_TERMINAL - {S_MERGING}) ET_CancellationCompleted)
          \<lparr>m_procedures := {PK_CANCELLING}, m_binding := Some {BM_MATCH}, m_deferred_nonempty := Some True\<rparr>,
      rule_effect = cancel_completed_to_incident,
      rule_to_state = SameStateIncident, rule_command_names = Commands [N_RecordIntegrityIncident]\<rparr>"

definition rule_C_05 :: rule where
  "rule_C_05 =
     \<lparr>rule_id = ''C-05'', rule_section = ''cancel'',
      rule_match = (Match (NON_TERMINAL - {S_MERGING}) ET_CancellationCompleted)
          \<lparr>m_procedures := {PK_NORMAL}, m_binding := Some {BM_MATCH}, m_deferred_nonempty := Some False\<rparr>,
      rule_effect = bare_cancelled_effect,
      rule_to_state = ToState S_CANCELLED, rule_command_names = Commands []\<rparr>"

definition CANCEL_RULES :: "rule list" where
  "CANCEL_RULES =
     [rule_C_01, rule_C_02, rule_C_03, rule_C_04, rule_C_05]"

definition rule_F_01 :: rule where
  "rule_F_01 =
     \<lparr>rule_id = ''F-01'', rule_section = ''failure'',
      rule_match = (Match (ACTIVE_STATES - {S_MERGING}) ET_RunFailed)
          \<lparr>m_procedures := {PK_NORMAL}\<rparr>,
      rule_effect = fail_to_recovery,
      rule_to_state = ToState S_FAILED, rule_command_names = Commands []\<rparr>"

definition rule_F_02 :: rule where
  "rule_F_02 =
     \<lparr>rule_id = ''F-02'', rule_section = ''failure'',
      rule_match = (Match RESUMABLE_STATES ET_RunFailed)
          \<lparr>m_procedures := {PK_NORMAL}\<rparr>,
      rule_effect = unchanged_effect [],
      rule_to_state = SameState, rule_command_names = Commands []\<rparr>"

definition FAILURE_RULES :: "rule list" where
  "FAILURE_RULES =
     [rule_F_01, rule_F_02]"

section \<open>Reissue while a procedure is in progress\<close>

definition reissue_halt_for_cancel :: effect where
  "reissue_halt_for_cancel ms e =
     (case ms_procedure ms of CancellingProcedure b \<Rightarrow> Inr (ms, [HaltRun b]) | _ \<Rightarrow> Inl AttributeError)"

definition reissue_halt_for_block :: effect where
  "reissue_halt_for_block ms e =
     (case ms_procedure ms of HaltingForBlockProcedure _ b \<Rightarrow> Inr (ms, [HaltRun b])
      | _ \<Rightarrow> Inl AttributeError)"

definition reissue_incident_request :: effect where
  "reissue_incident_request ms e =
     (case ms_procedure ms of
        RecordingIncidentProcedure _ audit \<Rightarrow>
          Inr (ms, [RecordIntegrityIncident (deferred_bindings ms) audit])
      | _ \<Rightarrow> Inl AttributeError)"

definition reissue_persist :: effect where
  "reissue_persist ms e =
     (case ms_pending_record ms of Some p \<Rightarrow> Inr (ms, [PersistRecord (pr_kind p) (pr_binding p)])
      | None \<Rightarrow> Inl AttributeError)"

definition procedure_rule_cancel :: "string \<Rightarrow> event_type \<Rightarrow> rule" where
  "procedure_rule_cancel index et =
     \<lparr>rule_id = ''X-C'' @ index, rule_section = ''procedure'',
      rule_match = (Match (NON_TERMINAL - {S_MERGING}) et)\<lparr>m_procedures := {PK_CANCELLING}\<rparr>,
      rule_effect = reissue_halt_for_cancel,
      rule_to_state = SameState, rule_command_names = Commands [N_HaltRun]\<rparr>"

definition procedure_rule_halt :: "string \<Rightarrow> event_type \<Rightarrow> rule" where
  "procedure_rule_halt index et =
     \<lparr>rule_id = ''X-H'' @ index, rule_section = ''procedure'',
      rule_match = (Match (ACTIVE_STATES - {S_MERGING}) et)\<lparr>m_procedures := {PK_HALTING_FOR_BLOCK}\<rparr>,
      rule_effect = reissue_halt_for_block,
      rule_to_state = SameState, rule_command_names = Commands [N_HaltRun]\<rparr>"

definition procedure_rule_incident_request :: "string \<Rightarrow> event_type \<Rightarrow> rule" where
  "procedure_rule_incident_request index et =
     \<lparr>rule_id = ''X-I'' @ index @ ''a'', rule_section = ''procedure'',
      rule_match =
        (Match NON_TERMINAL et)\<lparr>m_procedures := {PK_RECORDING_INCIDENT}, m_pending := Some ABSENT\<rparr>,
      rule_effect = reissue_incident_request,
      rule_to_state = SameState, rule_command_names = Commands [N_RecordIntegrityIncident]\<rparr>"

definition procedure_rule_incident_persist :: "string \<Rightarrow> event_type \<Rightarrow> rule" where
  "procedure_rule_incident_persist index et =
     \<lparr>rule_id = ''X-I'' @ index @ ''b'', rule_section = ''procedure'',
      rule_match =
        (Match NON_TERMINAL et)
          \<lparr>m_procedures := {PK_RECORDING_INCIDENT}, m_pending := Some {PM_PRESENT}\<rparr>,
      rule_effect = reissue_persist,
      rule_to_state = SameState, rule_command_names = Commands [N_PersistRecord]\<rparr>"

text \<open>\<open>enumerate\<close> over the failure event and the resume events, with the index as a string.\<close>

definition PROCEDURE_EVENTS :: "(string \<times> event_type) list" where
  "PROCEDURE_EVENTS =
     zip [''0'', ''1'', ''2'', ''3'', ''4'', ''5'', ''6''] (ET_RunFailed # RESUME_EVENTS)"

definition PROCEDURE_RULES :: "rule list" where
  "PROCEDURE_RULES =
     concat (map (\<lambda>(index, et).
       [procedure_rule_cancel index et, procedure_rule_halt index et,
        procedure_rule_incident_request index et, procedure_rule_incident_persist index et])
       PROCEDURE_EVENTS)"

section \<open>Resumption without a procedure\<close>

definition resume_pending :: effect where
  "resume_pending ms e =
     (case ms_pending_record ms of None \<Rightarrow> Inl AttributeError
      | Some p \<Rightarrow>
          returning
            (ms\<lparr>ms_state := pr_source_state p,
                 ms_recovery_to := (if pr_source_state p = ms_state ms then ms_recovery_to ms else None)\<rparr>)
            [PersistRecord (pr_kind p) (pr_binding p)])"

text \<open>
  \<open>cast\<close> does not check anything: a missing value would be looked up as the key \<open>None\<close>, or become
  the \<open>state\<close> field. The guards exclude it; the branch is the error of the lookup.
\<close>

definition resume_awaiting_failed :: effect where
  "resume_awaiting_failed ms e =
     (case (ms_recovery_to ms, ms_awaiting ms) of
        (Some r, Some a) \<Rightarrow>
          returning (ms\<lparr>ms_state := r, ms_recovery_to := None\<rparr>) (AWAITING_COMMANDS a)
      | _ \<Rightarrow> Inl KeyError)"

definition resume_awaiting_live :: effect where
  "resume_awaiting_live ms e =
     (case ms_awaiting ms of Some a \<Rightarrow> Inr (ms, AWAITING_COMMANDS a) | None \<Rightarrow> Inl KeyError)"

definition resume_drive :: effect where
  "resume_drive ms e =
     (case ms_recovery_to ms of None \<Rightarrow> Inl KeyError
      | Some r \<Rightarrow>
          (case DRIVE_TABLE r of None \<Rightarrow> Inl KeyError
           | Some (cs, a) \<Rightarrow>
               returning (ms\<lparr>ms_state := r, ms_awaiting := Some a, ms_recovery_to := None\<rparr>) cs))"

definition resume_ci_effect :: effect where
  "resume_ci_effect ms e =
     returning (ms\<lparr>ms_awaiting := Some A_CI_RESULT\<rparr>) (AWAITING_COMMANDS A_CI_RESULT)"

definition report_retry_effect :: effect where
  "report_retry_effect ms e =
     returning (ms\<lparr>ms_state := S_GENERATING_REPORT, ms_awaiting := Some A_REPORT\<rparr>)
       (AWAITING_COMMANDS A_REPORT)"

definition rule_R_P :: rule where
  "rule_R_P =
     \<lparr>rule_id = ''R-P'', rule_section = ''resume'',
      rule_match = (Match NON_TERMINAL ET_ResumeValidated)
          \<lparr>m_pending := Some {PM_PRESENT}\<rparr>,
      rule_effect = resume_pending,
      rule_to_state = PendingSourceState, rule_command_names = Commands [N_PersistRecord]\<rparr>"

definition rule_R_A1 :: rule where
  "rule_R_A1 =
     \<lparr>rule_id = ''R-A1'', rule_section = ''resume'',
      rule_match = (Match {S_FAILED} ET_ResumeValidated)
          \<lparr>m_awaiting := Some ANY_AWAITING, m_pending := Some ABSENT, m_recovery_present := Some True\<rparr>,
      rule_effect = resume_awaiting_failed,
      rule_to_state = RecoveryState, rule_command_names = AwaitingCommands\<rparr>"

definition rule_R_A2 :: rule where
  "rule_R_A2 =
     \<lparr>rule_id = ''R-A2'', rule_section = ''resume'',
      rule_match = (Match (NON_TERMINAL - {S_FAILED, S_BLOCKED}) ET_ResumeValidated)
          \<lparr>m_awaiting := Some ANY_AWAITING, m_pending := Some ABSENT\<rparr>,
      rule_effect = resume_awaiting_live,
      rule_to_state = SameState, rule_command_names = AwaitingCommands\<rparr>"

definition rule_R_D :: rule where
  "rule_R_D =
     \<lparr>rule_id = ''R-D'', rule_section = ''resume'',
      rule_match = (Match {S_FAILED} ET_ResumeValidated)
          \<lparr>m_awaiting := Some {None}, m_pending := Some ABSENT, m_recovery_present := Some True\<rparr>,
      rule_effect = resume_drive,
      rule_to_state = RecoveryState, rule_command_names = RecoveryDriveCommands\<rparr>"

definition rule_R_B :: rule where
  "rule_R_B =
     \<lparr>rule_id = ''R-B'', rule_section = ''resume'',
      rule_match = (Match {S_BLOCKED} ET_ResumeValidated)
          \<lparr>m_pending := Some ABSENT\<rparr>,
      rule_effect = unchanged_effect [],
      rule_to_state = ToState S_BLOCKED, rule_command_names = Commands []\<rparr>"

definition rule_R_F :: rule where
  "rule_R_F =
     \<lparr>rule_id = ''R-F'', rule_section = ''resume'',
      rule_match = (Match {S_FAILED} ET_ResumeFallbackRequired)
          \<lparr>m_recovery_present := Some True\<rparr>,
      rule_effect = fresh_review_effect,
      rule_to_state = ToState S_RUNNING_REVIEW, rule_command_names = Commands [N_InvalidateApprovals, N_RequestCodexReview]\<rparr>"

definition rule_R_FB :: rule where
  "rule_R_FB =
     \<lparr>rule_id = ''R-FB'', rule_section = ''resume'',
      rule_match = (Match {S_BLOCKED} ET_ResumeFallbackRequired)
          \<lparr>m_block_kinds := Some {BK_PROGRESS, BK_EXTERNAL_DEPENDENCY}\<rparr>,
      rule_effect = fresh_review_effect,
      rule_to_state = ToState S_RUNNING_REVIEW, rule_command_names = Commands [N_InvalidateApprovals, N_RequestCodexReview]\<rparr>"

definition rule_R_CI :: rule where
  "rule_R_CI =
     \<lparr>rule_id = ''R-CI'', rule_section = ''resume'',
      rule_match = (Match {S_WAITING_CI} ET_CiResumeRequested)
          \<lparr>m_awaiting := Some {None, Some A_CI_RESULT}, m_pending := Some ABSENT\<rparr>,
      rule_effect = resume_ci_effect,
      rule_to_state = ToState S_WAITING_CI, rule_command_names = Commands [N_CheckCi]\<rparr>"

definition rule_R_RT :: rule where
  "rule_R_RT =
     \<lparr>rule_id = ''R-RT'', rule_section = ''resume'',
      rule_match = (Match {S_REPORT_FAILED} ET_ReporterRetryRequested)
          \<lparr>m_awaiting := Some {None}, m_pending := Some ABSENT\<rparr>,
      rule_effect = report_retry_effect,
      rule_to_state = ToState S_GENERATING_REPORT, rule_command_names = Commands [N_GenerateReport]\<rparr>"

definition RESUME_RULES :: "rule list" where
  "RESUME_RULES =
     [rule_R_P, rule_R_A1, rule_R_A2, rule_R_D, rule_R_B,
      rule_R_F, rule_R_FB, rule_R_CI, rule_R_RT]"

definition RECOVERY_RULES :: "rule list" where
  "RECOVERY_RULES =
     MERGE_RULES @ CANCEL_RULES @ FAILURE_RULES @ PROCEDURE_RULES @ RESUME_RULES"

lemmas recovery_rule_defs =
  rule_M_32a_def rule_M_32b_def rule_M_34_def rule_M_35_def
  rule_M_36_def rule_M_37_def rule_M_38_def rule_M_39_def
  rule_M_40_def rule_M_41a_def rule_M_41b_def rule_M_42_def
  rule_M_SH_def rule_M_HC_def rule_C_01_def rule_C_02_def
  rule_C_03_def rule_C_04_def rule_C_05_def rule_F_01_def
  rule_F_02_def rule_R_P_def rule_R_A1_def rule_R_A2_def
  rule_R_D_def rule_R_B_def rule_R_F_def rule_R_FB_def
  rule_R_CI_def rule_R_RT_def
  procedure_rule_cancel_def procedure_rule_halt_def procedure_rule_incident_request_def
  procedure_rule_incident_persist_def

end
