(* ===== verification/Rules_Integrity.thy ===== *)
theory Rules_Integrity
  imports Rules_Recovery
begin

text \<open>
  \<open>domain/_rules_integrity.py\<close>: detection of violations of the record chain, the incident record
  that must precede a terminal state, the halt gate, and the ways out of a block.
\<close>

section \<open>Detection\<close>

definition union_deferred :: "machine_state \<Rightarrow> integrity_evidence_ref \<Rightarrow> integrity_evidence_ref list" where
  "union_deferred ms ev = canonicalize_integrity (ms_deferred_integrity ms @ [ev])"

definition INVALIDATE :: "command list" where
  "INVALIDATE = [InvalidateApprovals]"

fun detect_union_effect :: "command list \<Rightarrow> effect" where
  "detect_union_effect extra ms (RecordIntegrityViolationDetected ev) =
     returning (ms\<lparr>ms_deferred_integrity := union_deferred ms ev\<rparr>) (INVALIDATE @ extra)"
| "detect_union_effect extra ms e = Inl AttributeError"

fun detect_direct_block_effect :: effect where
  "detect_direct_block_effect ms (RecordIntegrityViolationDetected ev) =
     bind_result (mk_integrity_block [ev]) (\<lambda>b.
       returning (MachineState S_BLOCKED\<lparr>ms_block := Some (RecordIntegrityBlock b)\<rparr>) INVALIDATE)"
| "detect_direct_block_effect ms e = Inl AttributeError"

fun detect_halt_gate_effect :: effect where
  "detect_halt_gate_effect ms (RecordIntegrityViolationDetected ev) =
     bind_result (mk_integrity_block [ev]) (\<lambda>b.
     bind_result (mk_halting b (ie_binding ev)) (\<lambda>p.
       returning
         (ms\<lparr>ms_procedure := p, ms_awaiting := None, ms_pending_record := None,
              ms_deferred_integrity := []\<rparr>)
         (INVALIDATE @ [HaltRun (ie_binding ev)])))"
| "detect_halt_gate_effect ms e = Inl AttributeError"

fun detect_blocked_union_effect :: effect where
  "detect_blocked_union_effect ms (RecordIntegrityViolationDetected ev) =
     (case ms_block ms of
        Some (RecordIntegrityBlock b) \<Rightarrow>
          bind_result (mk_integrity_block (canonicalize_integrity (ri_violations b @ [ev]))) (\<lambda>merged.
            returning (ms\<lparr>ms_block := Some (RecordIntegrityBlock merged)\<rparr>) INVALIDATE)
      | _ \<Rightarrow> Inl AttributeError)"
| "detect_blocked_union_effect ms e = Inl AttributeError"

fun detect_halt_gate_union_effect :: effect where
  "detect_halt_gate_union_effect ms (RecordIntegrityViolationDetected ev) =
     (case ms_procedure ms of
        HaltingForBlockProcedure b attempt \<Rightarrow>
          bind_result (mk_integrity_block (canonicalize_integrity (ri_violations b @ [ev]))) (\<lambda>merged.
          bind_result (mk_halting merged attempt) (\<lambda>p.
            returning (ms\<lparr>ms_procedure := p\<rparr>) INVALIDATE))
      | _ \<Rightarrow> Inl AttributeError)"
| "detect_halt_gate_union_effect ms e = Inl AttributeError"

definition rule_I_D1 :: rule where
  "rule_I_D1 =
     \<lparr>rule_id = ''I-D1'', rule_section = ''integrity'',
      rule_match = (Match NON_TERMINAL ET_RecordIntegrityViolationDetected)
          \<lparr>m_procedures := {PK_RECORDING_INCIDENT}\<rparr>,
      rule_effect = detect_union_effect [],
      rule_to_state = SameState, rule_command_names = Commands [N_InvalidateApprovals]\<rparr>"

definition rule_I_D2 :: rule where
  "rule_I_D2 =
     \<lparr>rule_id = ''I-D2'', rule_section = ''integrity'',
      rule_match = (Match (NON_TERMINAL - {S_MERGING}) ET_RecordIntegrityViolationDetected)
          \<lparr>m_procedures := {PK_CANCELLING}\<rparr>,
      rule_effect = detect_union_effect [],
      rule_to_state = SameState, rule_command_names = Commands [N_InvalidateApprovals]\<rparr>"

definition rule_I_D3 :: rule where
  "rule_I_D3 =
     \<lparr>rule_id = ''I-D3'', rule_section = ''integrity'',
      rule_match = (Match {S_MERGING} ET_RecordIntegrityViolationDetected)
          \<lparr>m_awaiting := Some MERGE_OUTCOME\<rparr>,
      rule_effect = detect_union_effect [QueryMergeOutcome],
      rule_to_state = ToState S_MERGING, rule_command_names = Commands [N_InvalidateApprovals, N_QueryMergeOutcome]\<rparr>"

definition rule_I_D4 :: rule where
  "rule_I_D4 =
     \<lparr>rule_id = ''I-D4'', rule_section = ''integrity'',
      rule_match = (Match {S_MERGING} ET_RecordIntegrityViolationDetected)
          \<lparr>m_awaiting := Some {Some A_MERGE_PRECONDITIONS}\<rparr>,
      rule_effect = detect_direct_block_effect,
      rule_to_state = ToState S_BLOCKED, rule_command_names = Commands [N_InvalidateApprovals]\<rparr>"

definition rule_I_D5 :: rule where
  "rule_I_D5 =
     \<lparr>rule_id = ''I-D5'', rule_section = ''integrity'',
      rule_match = (Match (ACTIVE_STATES - {S_MERGING}) ET_RecordIntegrityViolationDetected),
      rule_effect = detect_halt_gate_effect,
      rule_to_state = SameStateHaltGate, rule_command_names = Commands [N_InvalidateApprovals, N_HaltRun]\<rparr>"

definition rule_I_D5u :: rule where
  "rule_I_D5u =
     \<lparr>rule_id = ''I-D5u'', rule_section = ''integrity'',
      rule_match = (Match (ACTIVE_STATES - {S_MERGING}) ET_RecordIntegrityViolationDetected)
          \<lparr>m_procedures := {PK_HALTING_FOR_BLOCK}\<rparr>,
      rule_effect = detect_halt_gate_union_effect,
      rule_to_state = SameStateHaltGate, rule_command_names = Commands [N_InvalidateApprovals]\<rparr>"

definition rule_I_D6 :: rule where
  "rule_I_D6 =
     \<lparr>rule_id = ''I-D6'', rule_section = ''integrity'',
      rule_match = (Match (RESUMABLE_STATES - {S_BLOCKED}) ET_RecordIntegrityViolationDetected),
      rule_effect = detect_direct_block_effect,
      rule_to_state = ToState S_BLOCKED, rule_command_names = Commands [N_InvalidateApprovals]\<rparr>"

definition rule_I_D7 :: rule where
  "rule_I_D7 =
     \<lparr>rule_id = ''I-D7'', rule_section = ''integrity'',
      rule_match = (Match {S_BLOCKED} ET_RecordIntegrityViolationDetected)
          \<lparr>m_block_kinds := Some {BK_RECORD_INTEGRITY}\<rparr>,
      rule_effect = detect_blocked_union_effect,
      rule_to_state = ToState S_BLOCKED, rule_command_names = Commands [N_InvalidateApprovals]\<rparr>"

definition rule_I_D8 :: rule where
  "rule_I_D8 =
     \<lparr>rule_id = ''I-D8'', rule_section = ''integrity'',
      rule_match = (Match {S_BLOCKED} ET_RecordIntegrityViolationDetected)
          \<lparr>m_block_kinds := Some {BK_PROGRESS, BK_EXTERNAL_DEPENDENCY}\<rparr>,
      rule_effect = detect_direct_block_effect,
      rule_to_state = ToState S_BLOCKED, rule_command_names = Commands [N_InvalidateApprovals]\<rparr>"

definition DETECTION_RULES :: "rule list" where
  "DETECTION_RULES =
     [rule_I_D1, rule_I_D2, rule_I_D3, rule_I_D4, rule_I_D5,
      rule_I_D5u, rule_I_D6, rule_I_D7, rule_I_D8]"

section \<open>The incident record\<close>

fun incident_produced_effect :: effect where
  "incident_produced_effect ms (RecordProduced kind b) =
     returning
       (ms\<lparr>ms_pending_record :=
              Some \<lparr>pr_kind = kind, pr_binding = b, pr_source_state = ms_state ms\<rparr>\<rparr>)
       [PersistRecord kind b]"
| "incident_produced_effect ms e = Inl AttributeError"

definition incident_complete_effect :: effect where
  "incident_complete_effect ms e =
     (case ms_procedure ms of
        RecordingIncidentProcedure target _ \<Rightarrow>
          returning (MachineState (if target = IT_MERGED then S_MERGED else S_CANCELLED)) []
      | _ \<Rightarrow> Inl AttributeError)"

fun incident_remainder_effect :: effect where
  "incident_remainder_effect ms (IntegrityIncidentVerified ev recorded) =
     (case ms_procedure ms of
        RecordingIncidentProcedure _ audit \<Rightarrow>
          (let remaining =
                 filter (\<lambda>r. ie_binding r \<notin> set recorded) (ms_deferred_integrity ms) in
           returning (ms\<lparr>ms_pending_record := None, ms_deferred_integrity := remaining\<rparr>)
             [RecordIntegrityIncident (map ie_binding remaining) audit])
      | _ \<Rightarrow> Inl AttributeError)"
| "incident_remainder_effect ms e = Inl AttributeError"

definition rule_I_P :: rule where
  "rule_I_P =
     \<lparr>rule_id = ''I-P'', rule_section = ''incident'',
      rule_match = (Match NON_TERMINAL ET_RecordProduced)
          \<lparr>m_procedures := {PK_RECORDING_INCIDENT}, m_pending := Some ABSENT, m_record_kinds := Some {K_INTEGRITY_INCIDENT}\<rparr>,
      rule_effect = incident_produced_effect,
      rule_to_state = SameState, rule_command_names = Commands [N_PersistRecord]\<rparr>"

definition rule_I_VC :: rule where
  "rule_I_VC =
     \<lparr>rule_id = ''I-VC'', rule_section = ''incident'',
      rule_match = (Match NON_TERMINAL ET_IntegrityIncidentVerified)
          \<lparr>m_procedures := {PK_RECORDING_INCIDENT}, m_pending := Some MATCHED, m_coverage := Some {IC_COMPLETE}\<rparr>,
      rule_effect = incident_complete_effect,
      rule_to_state = IncidentTargetState, rule_command_names = Commands []\<rparr>"

definition rule_I_VR :: rule where
  "rule_I_VR =
     \<lparr>rule_id = ''I-VR'', rule_section = ''incident'',
      rule_match = (Match NON_TERMINAL ET_IntegrityIncidentVerified)
          \<lparr>m_procedures := {PK_RECORDING_INCIDENT}, m_pending := Some MATCHED, m_coverage := Some {IC_REMAINDER}\<rparr>,
      rule_effect = incident_remainder_effect,
      rule_to_state = SameStateIncidentContinued, rule_command_names = Commands [N_RecordIntegrityIncident]\<rparr>"

definition INCIDENT_RULES :: "rule list" where
  "INCIDENT_RULES =
     [rule_I_P, rule_I_VC, rule_I_VR]"

section \<open>Merge outcomes with deferred violations\<close>

definition outcome_to_incident :: "incident_target \<Rightarrow> effect" where
  "outcome_to_incident target ms e =
     returning
       (ms\<lparr>ms_procedure := RecordingIncidentProcedure target None, ms_awaiting := None\<rparr>)
       [RecordIntegrityIncident (deferred_bindings ms) None]"

definition outcome_failure_to_block :: effect where
  "outcome_failure_to_block ms e =
     bind_result (mk_integrity_block (ms_deferred_integrity ms)) (\<lambda>b.
       returning (MachineState S_BLOCKED\<lparr>ms_block := Some (RecordIntegrityBlock b)\<rparr>) [])"

definition rule_I_46 :: rule where
  "rule_I_46 =
     \<lparr>rule_id = ''I-46'', rule_section = ''incident'',
      rule_match = (Match {S_MERGING} ET_MergeConfirmed)
          \<lparr>m_awaiting := Some MERGE_OUTCOME, m_pending := Some ABSENT, m_deferred_nonempty := Some True\<rparr>,
      rule_effect = outcome_to_incident IT_MERGED,
      rule_to_state = MergingIncident, rule_command_names = Commands [N_RecordIntegrityIncident]\<rparr>"

definition rule_I_47 :: rule where
  "rule_I_47 =
     \<lparr>rule_id = ''I-47'', rule_section = ''incident'',
      rule_match = (Match {S_MERGING} ET_MergeNotExecutedConfirmed)
          \<lparr>m_awaiting := Some {Some A_MERGE_OUTCOME_CANCEL}, m_pending := Some ABSENT, m_deferred_nonempty := Some True\<rparr>,
      rule_effect = outcome_to_incident IT_CANCELLED,
      rule_to_state = MergingIncident, rule_command_names = Commands [N_RecordIntegrityIncident]\<rparr>"

definition rule_I_48 :: rule where
  "rule_I_48 =
     \<lparr>rule_id = ''I-48'', rule_section = ''incident'',
      rule_match = (Match {S_MERGING} ET_MergeNotExecutedConfirmed)
          \<lparr>m_awaiting := Some {Some A_MERGE_OUTCOME_FAILURE}, m_pending := Some ABSENT, m_deferred_nonempty := Some True\<rparr>,
      rule_effect = outcome_failure_to_block,
      rule_to_state = ToState S_BLOCKED, rule_command_names = Commands []\<rparr>"

definition rule_I_49 :: rule where
  "rule_I_49 =
     \<lparr>rule_id = ''I-49'', rule_section = ''incident'',
      rule_match = (Match {S_MERGING} ET_MergeOutcomeUnknown)
          \<lparr>m_awaiting := Some MERGE_OUTCOME, m_pending := Some ABSENT, m_deferred_nonempty := Some True\<rparr>,
      rule_effect = unchanged_effect [QueryMergeOutcome],
      rule_to_state = ToState S_MERGING, rule_command_names = Commands [N_QueryMergeOutcome]\<rparr>"

definition MERGE_INTEGRITY_RULES :: "rule list" where
  "MERGE_INTEGRITY_RULES =
     [rule_I_46, rule_I_47, rule_I_48, rule_I_49]"

section \<open>The halt gate and the ways out of a block\<close>

definition halt_completed_effect :: effect where
  "halt_completed_effect ms e =
     (case ms_procedure ms of
        HaltingForBlockProcedure b _ \<Rightarrow>
          returning (MachineState S_BLOCKED\<lparr>ms_block := Some (RecordIntegrityBlock b)\<rparr>) []
      | _ \<Rightarrow> Inl AttributeError)"

fun block_continuation :: "block_context \<Rightarrow> blocked_continuation option" where
  "block_continuation (ProgressBlock b) = Some (pb_continuation b)"
| "block_continuation (ExternalDependencyBlock b) = Some (xb_continuation b)"
| "block_continuation (RecordIntegrityBlock b) = None"

definition replay_continuation :: effect where
  "replay_continuation ms e =
     (case ms_block ms of None \<Rightarrow> Inl AttributeError
      | Some block \<Rightarrow>
          (case block_continuation block of None \<Rightarrow> Inl AttributeError
           | Some c \<Rightarrow>
               returning (MachineState (bc_resume_state c)\<lparr>ms_awaiting := bc_awaiting c\<rparr>)
                 (bc_commands c)))"

definition integrity_exit_effect :: effect where
  "integrity_exit_effect ms e =
     returning (MachineState S_RUNNING_REVIEW\<lparr>ms_awaiting := Some A_CODEX_CODE_REVIEW\<rparr>)
       [InvalidateApprovals, RequestCodexReview CP_CODE_REVIEW]"

definition rule_B_HC :: rule where
  "rule_B_HC =
     \<lparr>rule_id = ''B-HC'', rule_section = ''integrity'',
      rule_match = (Match (ACTIVE_STATES - {S_MERGING}) ET_BlockHaltCompleted)
          \<lparr>m_procedures := {PK_HALTING_FOR_BLOCK}, m_binding := Some {BM_MATCH}\<rparr>,
      rule_effect = halt_completed_effect,
      rule_to_state = ToState S_BLOCKED, rule_command_names = Commands []\<rparr>"

definition rule_B_LR :: rule where
  "rule_B_LR =
     \<lparr>rule_id = ''B-LR'', rule_section = ''block'',
      rule_match = (Match {S_BLOCKED} ET_BlockResolvedLimitRaised)
          \<lparr>m_pending := Some ABSENT, m_binding := Some {BM_MATCH}, m_block_kinds := Some {BK_PROGRESS}, m_block_reasons := Some {P_LIMIT_REACHED}\<rparr>,
      rule_effect = replay_continuation,
      rule_to_state = ContinuationState, rule_command_names = SavedCommands\<rparr>"

definition rule_B_IV1 :: rule where
  "rule_B_IV1 =
     \<lparr>rule_id = ''B-IV1'', rule_section = ''block'',
      rule_match = (Match {S_BLOCKED} ET_BlockResolvedIntervention)
          \<lparr>m_pending := Some {PM_MATCH, PM_ABSENT}, m_binding := Some {BM_MATCH}, m_block_kinds := Some {BK_PROGRESS}, m_block_reasons := Some {P_NO_PROGRESS}\<rparr>,
      rule_effect = replay_continuation,
      rule_to_state = ContinuationState, rule_command_names = SavedCommands\<rparr>"

definition rule_B_IV2 :: rule where
  "rule_B_IV2 =
     \<lparr>rule_id = ''B-IV2'', rule_section = ''block'',
      rule_match = (Match {S_BLOCKED} ET_BlockResolvedIntervention)
          \<lparr>m_pending := Some {PM_MATCH, PM_ABSENT}, m_binding := Some {BM_MATCH}, m_block_kinds := Some {BK_EXTERNAL_DEPENDENCY}\<rparr>,
      rule_effect = replay_continuation,
      rule_to_state = ContinuationState, rule_command_names = SavedCommands\<rparr>"

definition rule_B_RS :: rule where
  "rule_B_RS =
     \<lparr>rule_id = ''B-RS'', rule_section = ''block'',
      rule_match = (Match {S_BLOCKED} ET_IntegrityRestoredValidated)
          \<lparr>m_pending := Some ABSENT, m_binding := Some {BM_MATCH}, m_block_kinds := Some {BK_RECORD_INTEGRITY}\<rparr>,
      rule_effect = integrity_exit_effect,
      rule_to_state = ToState S_RUNNING_REVIEW, rule_command_names = Commands [N_InvalidateApprovals, N_RequestCodexReview]\<rparr>"

definition rule_B_SV :: rule where
  "rule_B_SV =
     \<lparr>rule_id = ''B-SV'', rule_section = ''block'',
      rule_match = (Match {S_BLOCKED} ET_IntegritySalvageEstablished)
          \<lparr>m_pending := Some ABSENT, m_binding := Some {BM_MATCH}, m_block_kinds := Some {BK_RECORD_INTEGRITY}\<rparr>,
      rule_effect = integrity_exit_effect,
      rule_to_state = ToState S_RUNNING_REVIEW, rule_command_names = Commands [N_InvalidateApprovals, N_RequestCodexReview]\<rparr>"

definition BLOCK_RESOLUTION_RULES :: "rule list" where
  "BLOCK_RESOLUTION_RULES =
     [rule_B_HC, rule_B_LR, rule_B_IV1, rule_B_IV2, rule_B_RS,
      rule_B_SV]"

definition INTEGRITY_RULES :: "rule list" where
  "INTEGRITY_RULES =
     DETECTION_RULES @ INCIDENT_RULES @ MERGE_INTEGRITY_RULES @ BLOCK_RESOLUTION_RULES"

lemmas integrity_rule_defs =
  rule_I_D1_def rule_I_D2_def rule_I_D3_def rule_I_D4_def
  rule_I_D5_def rule_I_D5u_def rule_I_D6_def rule_I_D7_def
  rule_I_D8_def rule_I_P_def rule_I_VC_def rule_I_VR_def
  rule_I_46_def rule_I_47_def rule_I_48_def rule_I_49_def
  rule_B_HC_def rule_B_LR_def rule_B_IV1_def rule_B_IV2_def
  rule_B_RS_def rule_B_SV_def

end
