(* ===== verification/Machine.thy ===== *)
theory Machine
  imports Rules_Integrity
begin

text \<open>
  \<open>domain/machine.py\<close>: the registry of all rules, its self check, the index by event class, the
  selection of the one rule that matches, \<open>initialize\<close> and \<open>transition\<close>.
\<close>

definition REGISTRY :: "rule list" where
  "REGISTRY = PRODUCED_RULES @ WORKFLOW_RULES @ RECOVERY_RULES @ INTEGRITY_RULES"

fun check_registry_from :: "string set \<Rightarrow> rule list \<Rightarrow> domain_error + unit" where
  "check_registry_from seen [] = Inr ()"
| "check_registry_from seen (r # rs) =
     (if rule_id r \<in> seen then Inl (RegistryIntegrityError (DuplicateRuleId (rule_id r)))
      else if m_states (rule_match r) \<inter> TERMINAL_STATES \<noteq> {}
           then Inl (RegistryIntegrityError (TerminalOrigin (rule_id r)))
      else check_registry_from (insert (rule_id r) seen) rs)"

definition check_registry :: "rule list \<Rightarrow> domain_error + unit" where
  "check_registry rules = check_registry_from {} rules"

fun build_index :: "(event_type \<rightharpoonup> rule list) \<Rightarrow> rule list \<Rightarrow> (event_type \<rightharpoonup> rule list)" where
  "build_index idx [] = idx"
| "build_index idx (r # rs) =
     (let et = m_event_type (rule_match r);
          old = (case idx et of None \<Rightarrow> [] | Some rs' \<Rightarrow> rs')
      in build_index (idx(et \<mapsto> old @ [r])) rs)"

definition INDEX :: "event_type \<rightharpoonup> rule list" where
  "INDEX = build_index Map.empty REGISTRY"

text \<open>\<open>_INDEX.get(type(event), ())\<close>\<close>

definition rules_for :: "event_type \<Rightarrow> rule list" where
  "rules_for et = (case INDEX et of None \<Rightarrow> [] | Some rs \<Rightarrow> rs)"

definition initialize :: "preflight_event \<Rightarrow> domain_error + machine_state \<times> command list" where
  "initialize e =
     (if e = PreflightOk
      then returning (MachineState S_RUNNING_REVIEW\<lparr>ms_awaiting := Some A_CODEX_CODE_REVIEW\<rparr>)
             [RequestCodexReview CP_CODE_REVIEW]
      else returning (MachineState S_FAILED) [])"

definition rule_matches :: "rule \<Rightarrow> machine_state \<Rightarrow> event \<Rightarrow> bool" where
  "rule_matches r ms e \<longleftrightarrow>
     matches (rule_match r) (ms_state ms) (event_type_of e) (derive_guard_key ms e)"

definition rejected :: "machine_state \<Rightarrow> event \<Rightarrow> reject_reason \<Rightarrow> domain_error" where
  "rejected ms e why = TransitionRejected (ms_state ms) (event_name (event_type_of e)) why"

definition select_rule :: "rule list \<Rightarrow> machine_state \<Rightarrow> event \<Rightarrow> domain_error + rule" where
  "select_rule rules ms e =
     (let matched = filter (\<lambda>r. rule_matches r ms e) rules in
      case matched of
        [] \<Rightarrow> Inl (rejected ms e NoMatchingRule)
      | [r] \<Rightarrow> Inr r
      | _ \<Rightarrow> Inl (RegistryIntegrityError (SeveralRulesMatch (map rule_id matched))))"

definition transition :: "machine_state \<Rightarrow> event \<Rightarrow> step_result" where
  "transition ms e =
     (if ms_state ms \<in> TERMINAL_STATES then Inl (rejected ms e TerminalStateRejectsAll)
      else bind_result (select_rule (rules_for (event_type_of e)) ms e) (\<lambda>r. rule_effect r ms e))"

section \<open>The index\<close>

lemma build_index_lookup:
  "(case build_index idx rs et of None \<Rightarrow> [] | Some rs' \<Rightarrow> rs') =
   (case idx et of None \<Rightarrow> [] | Some rs' \<Rightarrow> rs') @ filter (\<lambda>r. m_event_type (rule_match r) = et) rs"
  by (induction rs arbitrary: idx) (auto simp: Let_def split: option.splits)

lemma rules_for_filter: "rules_for et = filter (\<lambda>r. m_event_type (rule_match r) = et) REGISTRY"
  using build_index_lookup [of Map.empty REGISTRY et] by (simp add: rules_for_def INDEX_def)

lemma rules_for_subset: "r \<in> set (rules_for et) \<Longrightarrow> r \<in> set REGISTRY \<and> m_event_type (rule_match r) = et"
  by (simp add: rules_for_filter)

lemmas rule_constructor_defs =
  produced_rule_def verified_rule_def external_rule_def response_rule_def progress_block_rule_def

lemmas all_rule_defs =
  workflow_rule_defs recovery_rule_defs integrity_rule_defs rule_constructor_defs

lemma PROCEDURE_RULES_eq:
  "PROCEDURE_RULES =
     [procedure_rule_cancel ''0'' ET_RunFailed,
      procedure_rule_halt ''0'' ET_RunFailed,
      procedure_rule_incident_request ''0'' ET_RunFailed,
      procedure_rule_incident_persist ''0'' ET_RunFailed,
      procedure_rule_cancel ''1'' ET_ResumeValidated,
      procedure_rule_halt ''1'' ET_ResumeValidated,
      procedure_rule_incident_request ''1'' ET_ResumeValidated,
      procedure_rule_incident_persist ''1'' ET_ResumeValidated,
      procedure_rule_cancel ''2'' ET_ResumeFallbackRequired,
      procedure_rule_halt ''2'' ET_ResumeFallbackRequired,
      procedure_rule_incident_request ''2'' ET_ResumeFallbackRequired,
      procedure_rule_incident_persist ''2'' ET_ResumeFallbackRequired,
      procedure_rule_cancel ''3'' ET_ResumeSameHeadValidated,
      procedure_rule_halt ''3'' ET_ResumeSameHeadValidated,
      procedure_rule_incident_request ''3'' ET_ResumeSameHeadValidated,
      procedure_rule_incident_persist ''3'' ET_ResumeSameHeadValidated,
      procedure_rule_cancel ''4'' ET_CiResumeRequested,
      procedure_rule_halt ''4'' ET_CiResumeRequested,
      procedure_rule_incident_request ''4'' ET_CiResumeRequested,
      procedure_rule_incident_persist ''4'' ET_CiResumeRequested,
      procedure_rule_cancel ''5'' ET_PermissionResumeValidated,
      procedure_rule_halt ''5'' ET_PermissionResumeValidated,
      procedure_rule_incident_request ''5'' ET_PermissionResumeValidated,
      procedure_rule_incident_persist ''5'' ET_PermissionResumeValidated,
      procedure_rule_cancel ''6'' ET_ReporterRetryRequested,
      procedure_rule_halt ''6'' ET_ReporterRetryRequested,
      procedure_rule_incident_request ''6'' ET_ReporterRetryRequested,
      procedure_rule_incident_persist ''6'' ET_ReporterRetryRequested]"
  by (simp add: PROCEDURE_RULES_def PROCEDURE_EVENTS_def RESUME_EVENTS_def)

lemmas registry_defs =
  REGISTRY_def PRODUCED_RULES_def WORKFLOW_RULES_def RECOVERY_RULES_def INTEGRITY_RULES_def
  MERGE_RULES_def CANCEL_RULES_def FAILURE_RULES_def PROCEDURE_RULES_eq RESUME_RULES_def
  DETECTION_RULES_def INCIDENT_RULES_def MERGE_INTEGRITY_RULES_def BLOCK_RESOLUTION_RULES_def

lemma rule_event_type:
  "m_event_type (rule_match rule_P_01) = ET_RecordProduced"
  "m_event_type (rule_match rule_P_02) = ET_RecordProduced"
  "m_event_type (rule_match rule_P_03) = ET_RecordProduced"
  "m_event_type (rule_match rule_P_04) = ET_RecordProduced"
  "m_event_type (rule_match rule_P_05) = ET_RecordProduced"
  "m_event_type (rule_match rule_P_06) = ET_RecordProduced"
  "m_event_type (rule_match rule_P_07) = ET_RecordProduced"
  "m_event_type (rule_match rule_P_08) = ET_RecordProduced"
  "m_event_type (rule_match rule_P_09) = ET_RecordProduced"
  "m_event_type (rule_match rule_P_10) = ET_RecordProduced"
  "m_event_type (rule_match rule_P_11) = ET_RecordProduced"
  "m_event_type (rule_match rule_P_12) = ET_RecordProduced"
  "m_event_type (rule_match rule_P_13) = ET_RecordProduced"
  "m_event_type (rule_match rule_P_14) = ET_RecordProduced"
  "m_event_type (rule_match rule_P_15) = ET_RecordProduced"
  "m_event_type (rule_match rule_P_16) = ET_RecordProduced"
  "m_event_type (rule_match rule_P_17) = ET_RecordProduced"
  "m_event_type (rule_match rule_P_18) = ET_RecordProduced"
  "m_event_type (rule_match rule_P_19) = ET_RecordProduced"
  "m_event_type (rule_match rule_P_20) = ET_RecordProduced"
  "m_event_type (rule_match rule_P_22) = ET_RecordProduced"
  "m_event_type (rule_match rule_P_23) = ET_RecordProduced"
  "m_event_type (rule_match rule_P_21) = ET_RecordProduced"
  "m_event_type (rule_match rule_T_03) = ET_ReviewBlockingVerified"
  "m_event_type (rule_match rule_T_B03) = ET_ReviewBlockingVerified"
  "m_event_type (rule_match rule_T_04) = ET_ReviewApprovedVerified"
  "m_event_type (rule_match rule_T_05) = ET_ToolPermissionBlocked"
  "m_event_type (rule_match rule_T_06) = ET_FixStarted"
  "m_event_type (rule_match rule_T_07) = ET_ClarificationQuestionVerified"
  "m_event_type (rule_match rule_T_B07) = ET_ClarificationQuestionVerified"
  "m_event_type (rule_match rule_T_08a) = ET_ClarificationConfirmedVerified"
  "m_event_type (rule_match rule_T_08b) = ET_ClarificationRevisedVerified"
  "m_event_type (rule_match rule_T_09) = ET_ClarificationWithdrawnVerified"
  "m_event_type (rule_match rule_T_10) = ET_ClarificationEscalatedVerified"
  "m_event_type (rule_match rule_T_11) = ET_FixResultVerified"
  "m_event_type (rule_match rule_T_B11) = ET_FixResultVerified"
  "m_event_type (rule_match rule_T_12) = ET_DecisionRequestVerified"
  "m_event_type (rule_match rule_T_13) = ET_ToolPermissionBlocked"
  "m_event_type (rule_match rule_T_14) = ET_DecisionRequestVerified"
  "m_event_type (rule_match rule_T_15) = ET_VerdictAskUserVerified"
  "m_event_type (rule_match rule_T_16) = ET_DecisionBriefVerified"
  "m_event_type (rule_match rule_T_17) = ET_VerdictProceedVerified"
  "m_event_type (rule_match rule_T_18) = ET_DecisionRecordVerified"
  "m_event_type (rule_match rule_T_19) = ET_VerdictResubmitVerified"
  "m_event_type (rule_match rule_T_B19) = ET_VerdictResubmitVerified"
  "m_event_type (rule_match rule_T_20a) = ET_UserDecisionVerified"
  "m_event_type (rule_match rule_T_20b) = ET_UserDecisionVerified"
  "m_event_type (rule_match rule_T_21) = ET_PermissionResumeValidated"
  "m_event_type (rule_match rule_T_22) = ET_CiSucceeded"
  "m_event_type (rule_match rule_T_23) = ET_CiCodeFailureVerified"
  "m_event_type (rule_match rule_T_B23) = ET_CiCodeFailureVerified"
  "m_event_type (rule_match rule_T_24) = ET_CiInfraFailure"
  "m_event_type (rule_match rule_T_25) = ET_CiTimeoutRecorded"
  "m_event_type (rule_match rule_T_26) = ET_HeadChangedExternally"
  "m_event_type (rule_match rule_T_27) = ET_ReportVerified"
  "m_event_type (rule_match rule_T_28) = ET_ReportFailed"
  "m_event_type (rule_match rule_T_29a) = ET_GateQuestionVerified"
  "m_event_type (rule_match rule_T_29b) = ET_GateQuestionVerified"
  "m_event_type (rule_match rule_T_30) = ET_GateAnswerVerified"
  "m_event_type (rule_match rule_T_31a) = ET_GateChangesVerified"
  "m_event_type (rule_match rule_T_31b) = ET_GateChangesVerified"
  "m_event_type (rule_match rule_T_33) = ET_HeadChangedExternally"
  "m_event_type (rule_match rule_T_43) = ET_ExternalDependencyVerified"
  "m_event_type (rule_match rule_M_32a) = ET_MergeApprovalVerified"
  "m_event_type (rule_match rule_M_32b) = ET_MergeApprovalVerified"
  "m_event_type (rule_match rule_M_34) = ET_MergePreconditionsOk"
  "m_event_type (rule_match rule_M_35) = ET_MergePreconditionMismatch"
  "m_event_type (rule_match rule_M_36) = ET_HeadChangedExternally"
  "m_event_type (rule_match rule_M_37) = ET_MergeConfirmed"
  "m_event_type (rule_match rule_M_38) = ET_MergeNotExecutedConfirmed"
  "m_event_type (rule_match rule_M_39) = ET_MergeNotExecutedConfirmed"
  "m_event_type (rule_match rule_M_40) = ET_MergeOutcomeUnknown"
  "m_event_type (rule_match rule_M_41a) = ET_UserCancelVerified"
  "m_event_type (rule_match rule_M_41b) = ET_UserCancelVerified"
  "m_event_type (rule_match rule_M_42) = ET_RunFailed"
  "m_event_type (rule_match rule_M_SH) = ET_ResumeSameHeadValidated"
  "m_event_type (rule_match rule_M_HC) = ET_HeadChangedExternally"
  "m_event_type (rule_match rule_C_01) = ET_UserCancelVerified"
  "m_event_type (rule_match rule_C_02) = ET_UserCancelVerified"
  "m_event_type (rule_match rule_C_03) = ET_CancellationCompleted"
  "m_event_type (rule_match rule_C_04) = ET_CancellationCompleted"
  "m_event_type (rule_match rule_C_05) = ET_CancellationCompleted"
  "m_event_type (rule_match rule_F_01) = ET_RunFailed"
  "m_event_type (rule_match rule_F_02) = ET_RunFailed"
  "m_event_type (rule_match rule_R_P) = ET_ResumeValidated"
  "m_event_type (rule_match rule_R_A1) = ET_ResumeValidated"
  "m_event_type (rule_match rule_R_A2) = ET_ResumeValidated"
  "m_event_type (rule_match rule_R_D) = ET_ResumeValidated"
  "m_event_type (rule_match rule_R_B) = ET_ResumeValidated"
  "m_event_type (rule_match rule_R_F) = ET_ResumeFallbackRequired"
  "m_event_type (rule_match rule_R_FB) = ET_ResumeFallbackRequired"
  "m_event_type (rule_match rule_R_CI) = ET_CiResumeRequested"
  "m_event_type (rule_match rule_R_RT) = ET_ReporterRetryRequested"
  "m_event_type (rule_match rule_I_D1) = ET_RecordIntegrityViolationDetected"
  "m_event_type (rule_match rule_I_D2) = ET_RecordIntegrityViolationDetected"
  "m_event_type (rule_match rule_I_D3) = ET_RecordIntegrityViolationDetected"
  "m_event_type (rule_match rule_I_D4) = ET_RecordIntegrityViolationDetected"
  "m_event_type (rule_match rule_I_D5) = ET_RecordIntegrityViolationDetected"
  "m_event_type (rule_match rule_I_D5u) = ET_RecordIntegrityViolationDetected"
  "m_event_type (rule_match rule_I_D6) = ET_RecordIntegrityViolationDetected"
  "m_event_type (rule_match rule_I_D7) = ET_RecordIntegrityViolationDetected"
  "m_event_type (rule_match rule_I_D8) = ET_RecordIntegrityViolationDetected"
  "m_event_type (rule_match rule_I_P) = ET_RecordProduced"
  "m_event_type (rule_match rule_I_VC) = ET_IntegrityIncidentVerified"
  "m_event_type (rule_match rule_I_VR) = ET_IntegrityIncidentVerified"
  "m_event_type (rule_match rule_I_46) = ET_MergeConfirmed"
  "m_event_type (rule_match rule_I_47) = ET_MergeNotExecutedConfirmed"
  "m_event_type (rule_match rule_I_48) = ET_MergeNotExecutedConfirmed"
  "m_event_type (rule_match rule_I_49) = ET_MergeOutcomeUnknown"
  "m_event_type (rule_match rule_B_HC) = ET_BlockHaltCompleted"
  "m_event_type (rule_match rule_B_LR) = ET_BlockResolvedLimitRaised"
  "m_event_type (rule_match rule_B_IV1) = ET_BlockResolvedIntervention"
  "m_event_type (rule_match rule_B_IV2) = ET_BlockResolvedIntervention"
  "m_event_type (rule_match rule_B_RS) = ET_IntegrityRestoredValidated"
  "m_event_type (rule_match rule_B_SV) = ET_IntegritySalvageEstablished"
  "m_event_type (rule_match (procedure_rule_cancel i et)) = et"
  "m_event_type (rule_match (procedure_rule_halt i et)) = et"
  "m_event_type (rule_match (procedure_rule_incident_request i et)) = et"
  "m_event_type (rule_match (procedure_rule_incident_persist i et)) = et"
  by (simp_all add: all_rule_defs Match_def)

text \<open>The rules of each event class.\<close>

lemma rules_for_simps:
  "rules_for ET_RecordProduced =
      [rule_P_01,
       rule_P_02,
       rule_P_03,
       rule_P_04,
       rule_P_05,
       rule_P_06,
       rule_P_07,
       rule_P_08,
       rule_P_09,
       rule_P_10,
       rule_P_11,
       rule_P_12,
       rule_P_13,
       rule_P_14,
       rule_P_15,
       rule_P_16,
       rule_P_17,
       rule_P_18,
       rule_P_19,
       rule_P_20,
       rule_P_22,
       rule_P_23,
       rule_P_21,
       rule_I_P]"
  "rules_for ET_ReviewBlockingVerified =
      [rule_T_03,
       rule_T_B03]"
  "rules_for ET_ReviewApprovedVerified =
      [rule_T_04]"
  "rules_for ET_FixResultVerified =
      [rule_T_11,
       rule_T_B11]"
  "rules_for ET_ClarificationQuestionVerified =
      [rule_T_07,
       rule_T_B07]"
  "rules_for ET_ClarificationConfirmedVerified =
      [rule_T_08a]"
  "rules_for ET_ClarificationRevisedVerified =
      [rule_T_08b]"
  "rules_for ET_ClarificationWithdrawnVerified =
      [rule_T_09]"
  "rules_for ET_ClarificationEscalatedVerified =
      [rule_T_10]"
  "rules_for ET_DecisionRequestVerified =
      [rule_T_12,
       rule_T_14]"
  "rules_for ET_VerdictAskUserVerified =
      [rule_T_15]"
  "rules_for ET_VerdictProceedVerified =
      [rule_T_17]"
  "rules_for ET_VerdictResubmitVerified =
      [rule_T_19,
       rule_T_B19]"
  "rules_for ET_DecisionBriefVerified =
      [rule_T_16]"
  "rules_for ET_DecisionRecordVerified =
      [rule_T_18]"
  "rules_for ET_UserDecisionVerified =
      [rule_T_20a,
       rule_T_20b]"
  "rules_for ET_ExternalDependencyVerified =
      [rule_T_43]"
  "rules_for ET_ToolPermissionBlocked =
      [rule_T_05,
       rule_T_13]"
  "rules_for ET_CiTimeoutRecorded =
      [rule_T_25]"
  "rules_for ET_CiCodeFailureVerified =
      [rule_T_23,
       rule_T_B23]"
  "rules_for ET_ReportVerified =
      [rule_T_27]"
  "rules_for ET_GateQuestionVerified =
      [rule_T_29a,
       rule_T_29b]"
  "rules_for ET_GateAnswerVerified =
      [rule_T_30]"
  "rules_for ET_GateChangesVerified =
      [rule_T_31a,
       rule_T_31b]"
  "rules_for ET_MergeApprovalVerified =
      [rule_M_32a,
       rule_M_32b]"
  "rules_for ET_UserCancelVerified =
      [rule_M_41a,
       rule_M_41b,
       rule_C_01,
       rule_C_02]"
  "rules_for ET_IntegrityIncidentVerified =
      [rule_I_VC,
       rule_I_VR]"
  "rules_for ET_FixStarted =
      [rule_T_06]"
  "rules_for ET_PermissionResumeValidated =
      [rule_T_21,
       procedure_rule_cancel ''5'' ET_PermissionResumeValidated,
       procedure_rule_halt ''5'' ET_PermissionResumeValidated,
       procedure_rule_incident_request ''5'' ET_PermissionResumeValidated,
       procedure_rule_incident_persist ''5'' ET_PermissionResumeValidated]"
  "rules_for ET_CiSucceeded =
      [rule_T_22]"
  "rules_for ET_CiInfraFailure =
      [rule_T_24]"
  "rules_for ET_CiResumeRequested =
      [procedure_rule_cancel ''4'' ET_CiResumeRequested,
       procedure_rule_halt ''4'' ET_CiResumeRequested,
       procedure_rule_incident_request ''4'' ET_CiResumeRequested,
       procedure_rule_incident_persist ''4'' ET_CiResumeRequested,
       rule_R_CI]"
  "rules_for ET_ReportFailed =
      [rule_T_28]"
  "rules_for ET_ReporterRetryRequested =
      [procedure_rule_cancel ''6'' ET_ReporterRetryRequested,
       procedure_rule_halt ''6'' ET_ReporterRetryRequested,
       procedure_rule_incident_request ''6'' ET_ReporterRetryRequested,
       procedure_rule_incident_persist ''6'' ET_ReporterRetryRequested,
       rule_R_RT]"
  "rules_for ET_MergePreconditionsOk =
      [rule_M_34]"
  "rules_for ET_MergePreconditionMismatch =
      [rule_M_35]"
  "rules_for ET_MergeConfirmed =
      [rule_M_37,
       rule_I_46]"
  "rules_for ET_MergeNotExecutedConfirmed =
      [rule_M_38,
       rule_M_39,
       rule_I_47,
       rule_I_48]"
  "rules_for ET_MergeOutcomeUnknown =
      [rule_M_40,
       rule_I_49]"
  "rules_for ET_HeadChangedExternally =
      [rule_T_26,
       rule_T_33,
       rule_M_36,
       rule_M_HC]"
  "rules_for ET_CancellationCompleted =
      [rule_C_03,
       rule_C_04,
       rule_C_05]"
  "rules_for ET_BlockHaltCompleted =
      [rule_B_HC]"
  "rules_for ET_RecordIntegrityViolationDetected =
      [rule_I_D1,
       rule_I_D2,
       rule_I_D3,
       rule_I_D4,
       rule_I_D5,
       rule_I_D5u,
       rule_I_D6,
       rule_I_D7,
       rule_I_D8]"
  "rules_for ET_RunFailed =
      [rule_M_42,
       rule_F_01,
       rule_F_02,
       procedure_rule_cancel ''0'' ET_RunFailed,
       procedure_rule_halt ''0'' ET_RunFailed,
       procedure_rule_incident_request ''0'' ET_RunFailed,
       procedure_rule_incident_persist ''0'' ET_RunFailed]"
  "rules_for ET_ResumeValidated =
      [procedure_rule_cancel ''1'' ET_ResumeValidated,
       procedure_rule_halt ''1'' ET_ResumeValidated,
       procedure_rule_incident_request ''1'' ET_ResumeValidated,
       procedure_rule_incident_persist ''1'' ET_ResumeValidated,
       rule_R_P,
       rule_R_A1,
       rule_R_A2,
       rule_R_D,
       rule_R_B]"
  "rules_for ET_ResumeFallbackRequired =
      [procedure_rule_cancel ''2'' ET_ResumeFallbackRequired,
       procedure_rule_halt ''2'' ET_ResumeFallbackRequired,
       procedure_rule_incident_request ''2'' ET_ResumeFallbackRequired,
       procedure_rule_incident_persist ''2'' ET_ResumeFallbackRequired,
       rule_R_F,
       rule_R_FB]"
  "rules_for ET_ResumeSameHeadValidated =
      [rule_M_SH,
       procedure_rule_cancel ''3'' ET_ResumeSameHeadValidated,
       procedure_rule_halt ''3'' ET_ResumeSameHeadValidated,
       procedure_rule_incident_request ''3'' ET_ResumeSameHeadValidated,
       procedure_rule_incident_persist ''3'' ET_ResumeSameHeadValidated]"
  "rules_for ET_BlockResolvedLimitRaised =
      [rule_B_LR]"
  "rules_for ET_BlockResolvedIntervention =
      [rule_B_IV1,
       rule_B_IV2]"
  "rules_for ET_IntegrityRestoredValidated =
      [rule_B_RS]"
  "rules_for ET_IntegritySalvageEstablished =
      [rule_B_SV]"
  by (simp_all add: rules_for_filter registry_defs rule_event_type)

end
