(* ===== verification/Interfaces.thy ===== *)
theory Interfaces
  imports Prelude
begin

text \<open>
  The interfaces of the development, as locales over their operations. A table of guarded entries
  from which at most one is selected; and a transition function with an invariant, runs of it and
  the states it reaches. The domain state machine interprets them.
\<close>

section \<open>Selection from a table of exclusive entries\<close>

locale exclusive_table =
  fixes table :: "'t \<Rightarrow> 'r list"
    and hits :: "'r \<Rightarrow> 'k \<Rightarrow> bool"
  assumes exclusive: "sorted_wrt (\<lambda>r r'. \<not> (hits r k \<and> hits r' k)) (table t)"
begin

lemma at_most_one: "length (filter (\<lambda>r. hits r k) (table t)) \<le> 1"
proof -
  have "length (filter (\<lambda>r. hits r k) xs) \<le> 1"
    if "sorted_wrt (\<lambda>r r'. \<not> (hits r k \<and> hits r' k)) xs" for xs
    using that
  proof (induction xs)
    case Nil
    then show ?case by simp
  next
    case (Cons x xs)
    show ?case
    proof (cases "hits x k")
      case True
      with Cons.prems have "filter (\<lambda>r. hits r k) xs = []"
        by (auto simp: filter_empty_conv)
      then show ?thesis by simp
    next
      case False
      with Cons show ?thesis by simp
    qed
  qed
  then show ?thesis using exclusive by blast
qed

lemma only_hit: "r \<in> set (table t) \<Longrightarrow> hits r k \<Longrightarrow> filter (\<lambda>r. hits r k) (table t) = [r]"
proof -
  assume r: "r \<in> set (table t)" "hits r k"
  then have "r \<in> set (filter (\<lambda>r. hits r k) (table t))" by simp
  then show ?thesis
    using at_most_one [of k t] by (cases "filter (\<lambda>r. hits r k) (table t)") auto
qed

lemma same_hit:
  "r \<in> set (table t) \<Longrightarrow> hits r k \<Longrightarrow> r' \<in> set (table t) \<Longrightarrow> hits r' k \<Longrightarrow> r = r'"
  using only_hit [of r t k] only_hit [of r' t k] by simp

end

section \<open>Runs of a transition function\<close>

text \<open>A run is the list of its steps: the event, the commands returned and the state after it.\<close>

fun is_run ::
  "('s \<Rightarrow> 'e \<Rightarrow> 'err + 's \<times> 'c list) \<Rightarrow> ('e \<Rightarrow> bool) \<Rightarrow> 's \<Rightarrow> ('e \<times> 'c list \<times> 's) list \<Rightarrow> bool"
where
  "is_run step legal s [] = True"
| "is_run step legal s ((e, cs, s') # t) =
     (legal e \<and> step s e = Inr (s', cs) \<and> is_run step legal s' t)"

fun run_end :: "'s \<Rightarrow> ('e \<times> 'c list \<times> 's) list \<Rightarrow> 's" where
  "run_end s [] = s"
| "run_end s ((e, cs, s') # t) = run_end s' t"

lemma run_end_append [simp]: "run_end s (t @ u) = run_end (run_end s t) u"
  by (induction t arbitrary: s) auto

lemma is_run_append [simp]:
  "is_run step legal s (t @ u) \<longleftrightarrow> is_run step legal s t \<and> is_run step legal (run_end s t) u"
  by (induction t arbitrary: s) auto

inductive reach ::
  "('s \<Rightarrow> 'e \<Rightarrow> 'err + 's \<times> 'c list) \<Rightarrow> ('e \<Rightarrow> bool) \<Rightarrow> ('s \<Rightarrow> bool) \<Rightarrow> 's \<Rightarrow> bool"
  for step legal initial
where
  reach_init: "initial s \<Longrightarrow> reach step legal initial s"
| reach_step: "reach step legal initial s \<Longrightarrow> legal e \<Longrightarrow> step s e = Inr (s', cs) \<Longrightarrow>
    reach step legal initial s'"

lemma reach_run: "reach step legal initial s \<Longrightarrow> is_run step legal s t \<Longrightarrow> reach step legal initial (run_end s t)"
  by (induction t arbitrary: s) (auto, blast intro: reach_step)

lemma reach_iff_run:
  "reach step legal initial s \<longleftrightarrow>
     (\<exists>s0 t. initial s0 \<and> is_run step legal s0 t \<and> run_end s0 t = s)"
proof
  assume "reach step legal initial s"
  then show "\<exists>s0 t. initial s0 \<and> is_run step legal s0 t \<and> run_end s0 t = s"
  proof (induction rule: reach.induct)
    case (reach_init s)
    then have "initial s \<and> is_run step legal s [] \<and> run_end s [] = s" by simp
    then show ?case by blast
  next
    case (reach_step s e s' cs)
    then obtain s0 t where t: "initial s0" "is_run step legal s0 t" "run_end s0 t = s" by blast
    with reach_step have "is_run step legal s0 (t @ [(e, cs, s')])" by simp
    moreover have "run_end s0 (t @ [(e, cs, s')]) = s'" by simp
    ultimately show ?case using t(1) by blast
  qed
qed (blast intro: reach.reach_init reach_run)

locale step_system =
  fixes step :: "'s \<Rightarrow> 'e \<Rightarrow> 'err + 's \<times> 'c list"
    and legal :: "'e \<Rightarrow> bool"
    and inv :: "'s \<Rightarrow> bool"
  assumes step_inv: "inv s \<Longrightarrow> legal e \<Longrightarrow> step s e = Inr (s', cs) \<Longrightarrow> inv s'"
begin

lemma run_inv: "inv s \<Longrightarrow> is_run step legal s t \<Longrightarrow> inv (run_end s t)"
  by (induction t arbitrary: s) (auto, blast intro: step_inv)

lemma reach_inv: "(\<And>s. initial s \<Longrightarrow> inv s) \<Longrightarrow> reach step legal initial s \<Longrightarrow> inv s"
proof (rotate_tac, induction rule: reach.induct)
  case (reach_step s e s' cs)
  then show ?case by (blast intro: step_inv)
qed

lemma run_states_inv: "inv s \<Longrightarrow> is_run step legal s t \<Longrightarrow> (e, cs, s') \<in> set t \<Longrightarrow> inv s'"
proof (induction t arbitrary: s)
  case (Cons x t)
  obtain e1 c1 s1 where x: "x = (e1, c1, s1)" by (cases x)
  with Cons.prems have s1: "is_run step legal s1 t" and step: "legal e1" "step s e1 = Inr (s1, c1)"
    by auto
  have "inv s1" using step_inv [OF Cons.prems(1) step] .
  then show ?case using Cons.IH [OF _ s1] Cons.prems(3) x by auto
qed simp

end

text \<open>A step system whose only errors are rejections of the input.\<close>

locale safe_step_system = step_system step legal inv
  for step :: "'s \<Rightarrow> 'e \<Rightarrow> 'err + 's \<times> 'c list"
    and legal :: "'e \<Rightarrow> bool"
    and inv :: "'s \<Rightarrow> bool" +
  fixes rejection :: "'s \<Rightarrow> 'err \<Rightarrow> bool"
  assumes step_safe: "inv s \<Longrightarrow> legal e \<Longrightarrow> step s e = Inl err \<Longrightarrow> rejection s err"
begin

lemma progress:
  "inv s \<Longrightarrow> legal e \<Longrightarrow> (\<exists>s' cs. step s e = Inr (s', cs) \<and> inv s') \<or> (\<exists>err. step s e = Inl err \<and> rejection s err)"
  by (cases "step s e") (auto intro: step_inv step_safe)

end

end
