(* ===== verification/Registry_Checks.thy ===== *)
theory Registry_Checks
  imports Machine Interfaces
begin

text \<open>
  The self check of the registry, and the exclusiveness of its guards: two rules of one event class
  never match the same machine state and event. The check of a pair is a comparison of the two
  match parts, which the simplifier evaluates for all pairs of each event class.
\<close>

section \<open>Disjoint match parts\<close>

definition sets_disjoint :: "'a set option \<Rightarrow> 'a set option \<Rightarrow> bool" where
  "sets_disjoint a b =
     (case (a, b) of (Some A, Some B) \<Rightarrow> (\<forall>x \<in> A. x \<notin> B) | _ \<Rightarrow> False)"

definition flags_disjoint :: "bool option \<Rightarrow> bool option \<Rightarrow> bool" where
  "flags_disjoint a b = (case (a, b) of (Some x, Some y) \<Rightarrow> x \<noteq> y | _ \<Rightarrow> False)"

definition guards_disjoint :: "match_part \<Rightarrow> match_part \<Rightarrow> bool" where
  "guards_disjoint m n \<longleftrightarrow>
     (\<forall>s \<in> m_states m. s \<notin> m_states n) \<or>
     (\<forall>p \<in> m_procedures m. p \<notin> m_procedures n) \<or>
     sets_disjoint (m_awaiting m) (m_awaiting n) \<or>
     sets_disjoint (m_pending m) (m_pending n) \<or>
     sets_disjoint (m_record_kinds m) (m_record_kinds n) \<or>
     sets_disjoint (m_progress m) (m_progress n) \<or>
     flags_disjoint (m_deferred_nonempty m) (m_deferred_nonempty n) \<or>
     sets_disjoint (m_block_kinds m) (m_block_kinds n) \<or>
     sets_disjoint (m_coverage m) (m_coverage n)"

lemma sets_disjoint_any: "sets_disjoint a b \<Longrightarrow> \<not> (any_or_in v a \<and> any_or_in v b)"
  by (auto simp: sets_disjoint_def any_or_in_def split: option.splits)

lemma sets_disjoint_some: "sets_disjoint a b \<Longrightarrow> \<not> (any_or_some_in v a \<and> any_or_some_in v b)"
  by (auto simp: sets_disjoint_def any_or_some_in_def split: option.splits)

lemma flags_disjoint_any: "flags_disjoint a b \<Longrightarrow> \<not> (any_or_eq v a \<and> any_or_eq v b)"
  by (auto simp: flags_disjoint_def any_or_eq_def split: option.splits)

lemma guards_disjoint_sound:
  assumes "guards_disjoint m n"
  shows "\<not> (matches m s et key \<and> matches n s et key)"
  using assms unfolding guards_disjoint_def matches_def
  using sets_disjoint_any sets_disjoint_some flags_disjoint_any by metis

section \<open>Every event class\<close>

fun pairwise_disjoint :: "rule list \<Rightarrow> bool" where
  "pairwise_disjoint [] = True"
| "pairwise_disjoint (r # rs) =
     (list_all (\<lambda>r'. guards_disjoint (rule_match r) (rule_match r')) rs \<and> pairwise_disjoint rs)"

lemmas guard_eval =
  guards_disjoint_def sets_disjoint_def flags_disjoint_def Match_def MERGE_OUTCOME_def

lemma rules_for_disjoint: "pairwise_disjoint (rules_for et)"
  by (cases et)
     (simp_all add: rules_for_simps all_rule_defs guard_eval NON_TERMINAL_def TERMINAL_STATES_def
        RESUMABLE_STATES_def ANY_AWAITING_def del: in_NON_TERMINAL, auto)

lemma pairwise_disjoint_exclusive:
  "pairwise_disjoint rs \<Longrightarrow>
   sorted_wrt (\<lambda>r r'. \<not> (rule_matches r (fst k) (snd k) \<and> rule_matches r' (fst k) (snd k))) rs"
  by (induction rs) (auto simp: list_all_iff rule_matches_def dest: guards_disjoint_sound)

interpretation registry: exclusive_table rules_for "\<lambda>r k. rule_matches r (fst k) (snd k)"
  by unfold_locales (rule pairwise_disjoint_exclusive [OF rules_for_disjoint])

section \<open>The self check\<close>

lemma check_registry_ok: "check_registry REGISTRY = Inr ()"
  by (simp add: check_registry_def registry_defs all_rule_defs Match_def) auto

section \<open>What transition does\<close>

lemma check_registry_from_states:
  "check_registry_from seen rs = Inr () \<Longrightarrow> r \<in> set rs \<Longrightarrow> m_states (rule_match r) \<inter> TERMINAL_STATES = {}"
  by (induction seen rs rule: check_registry_from.induct) (auto split: if_splits)

lemma check_registry_from_ids:
  "check_registry_from seen rs = Inr () \<Longrightarrow>
   distinct (map rule_id rs) \<and> rule_id ` set rs \<inter> seen = {}"
  by (induction seen rs rule: check_registry_from.induct) (auto split: if_splits)

lemma rule_not_terminal:
  "r \<in> set REGISTRY \<Longrightarrow> rule_matches r ms e \<Longrightarrow> ms_state ms \<notin> TERMINAL_STATES"
  using check_registry_from_states [of "{}" REGISTRY r] check_registry_ok
  by (auto simp: check_registry_def rule_matches_def matches_def)

lemma transition_by_rule:
  assumes "r \<in> set (rules_for (event_type_of e))" and "rule_matches r ms e"
  shows "transition ms e = rule_effect r ms e"
proof -
  have "filter (\<lambda>r. rule_matches r ms e) (rules_for (event_type_of e)) = [r]"
    using registry.only_hit [of r "event_type_of e" "(ms, e)"] assms by simp
  moreover have "ms_state ms \<notin> TERMINAL_STATES"
    using assms rules_for_subset rule_not_terminal by blast
  ultimately show ?thesis by (simp add: transition_def select_rule_def del: in_TERMINAL)
qed

lemma transition_by_rule':
  "r \<in> set REGISTRY \<Longrightarrow> rule_matches r ms e \<Longrightarrow> transition ms e = rule_effect r ms e"
  using transition_by_rule [of r e ms] by (simp add: rules_for_filter rule_matches_def matches_def)

lemma no_rule_rejected:
  "ms_state ms \<notin> TERMINAL_STATES \<Longrightarrow>
   (\<And>r. r \<in> set (rules_for (event_type_of e)) \<Longrightarrow> \<not> rule_matches r ms e) \<Longrightarrow>
   transition ms e = Inl (rejected ms e NoMatchingRule)"
  by (simp add: transition_def select_rule_def filter_empty_conv [THEN iffD2] del: in_TERMINAL)

lemma terminal_rejected:
  "ms_state ms \<in> TERMINAL_STATES \<Longrightarrow> transition ms e = Inl (rejected ms e TerminalStateRejectsAll)"
  by (simp add: transition_def del: in_TERMINAL)

text \<open>The three ways a transition goes.\<close>

lemma transition_cases:
  obtains (terminal) "ms_state ms \<in> TERMINAL_STATES"
      "transition ms e = Inl (rejected ms e TerminalStateRejectsAll)"
    | (unmatched) "ms_state ms \<notin> TERMINAL_STATES"
      "transition ms e = Inl (rejected ms e NoMatchingRule)"
      "\<And>r. r \<in> set REGISTRY \<Longrightarrow> \<not> rule_matches r ms e"
    | (rule) r where "ms_state ms \<notin> TERMINAL_STATES" "r \<in> set (rules_for (event_type_of e))"
      "rule_matches r ms e" "transition ms e = rule_effect r ms e"
proof (cases "ms_state ms \<in> TERMINAL_STATES")
  case True
  then show ?thesis using terminal terminal_rejected by blast
next
  case False
  show ?thesis
  proof (cases "\<exists>r \<in> set (rules_for (event_type_of e)). rule_matches r ms e")
    case True
    with False show ?thesis using rule transition_by_rule by blast
  next
    case none: False
    then have "\<not> rule_matches r ms e" if "r \<in> set REGISTRY" for r
      using that by (auto simp: rules_for_filter rule_matches_def matches_def)
    with False none show ?thesis using unmatched no_rule_rejected by blast
  qed
qed

lemma transition_accepted:
  assumes "transition ms e = Inr x"
  obtains r where "r \<in> set (rules_for (event_type_of e))" "rule_matches r ms e"
    "rule_effect r ms e = Inr x" "ms_state ms \<notin> TERMINAL_STATES"
  using assms by (cases rule: transition_cases [of ms e]) auto

end
