(* ===== verification/Machine_Invariant.thy ===== *)
theory Machine_Invariant
  imports Registry_Checks
begin

text \<open>
  The invariant of the machine states a run goes through, and its preservation by every rule. A
  rule is sound when, wherever it matches, its effect returns normally, the new state satisfies
  the invariant, and the state and commands are the ones the rule declares for the transition
  table. One lemma per effect shows soundness from conditions on the rule's data; the registry
  follows by applying them to its 143 rules.
\<close>

section \<open>The invariant\<close>

definition registry_continuations :: "blocked_continuation set" where
  "registry_continuations = snd ` set BLOCKED_CONTINUATIONS"

definition machine_inv :: "machine_state \<Rightarrow> bool" where
  "machine_inv ms \<longleftrightarrow>
     constructible ms \<and>
     (case ms_block ms of None \<Rightarrow> True
      | Some b \<Rightarrow> (case block_continuation b of None \<Rightarrow> True | Some c \<Rightarrow> c \<in> registry_continuations)) \<and>
     (ms_state ms = S_MERGING \<and> ms_procedure ms = NormalProcedure \<longrightarrow> ms_awaiting ms \<noteq> None)"

lemma machine_inv_constructible: "machine_inv ms \<Longrightarrow> constructible ms"
  by (simp add: machine_inv_def)

lemma continuation_plain: "c \<in> registry_continuations \<Longrightarrow> plain_target (bc_resume_state c) (bc_awaiting c)"
  by (auto simp: registry_continuations_def BLOCKED_CONTINUATIONS_def plain_target_def
      CONT_REVIEW_BLOCKING_def CONT_CLARIFICATION_def CONT_FIX_RESULT_def CONT_RESUBMIT_def
      CONT_CI_CODE_FAILURE_def CONT_EXTERNAL_DEPENDENCY_def)

lemma continuation_not_merging: "c \<in> registry_continuations \<Longrightarrow> bc_resume_state c \<noteq> S_MERGING"
  by (auto simp: registry_continuations_def BLOCKED_CONTINUATIONS_def
      CONT_REVIEW_BLOCKING_def CONT_CLARIFICATION_def CONT_FIX_RESULT_def CONT_RESUBMIT_def
      CONT_CI_CODE_FAILURE_def CONT_EXTERNAL_DEPENDENCY_def)

lemma plain_inv:
  "plain_target s a \<Longrightarrow> s \<noteq> S_MERGING \<or> a \<noteq> None \<Longrightarrow> machine_inv (MachineState s\<lparr>ms_awaiting := a\<rparr>)"
  using plain_constructible [of s a] by (auto simp: machine_inv_def MachineState_def)

section \<open>What the rules declare\<close>

fun to_state_ok :: "to_state_decl \<Rightarrow> machine_state \<Rightarrow> machine_state \<Rightarrow> bool" where
  "to_state_ok (ToState s) ms ms' = (ms_state ms' = s)"
| "to_state_ok SameState ms ms' = (ms_state ms' = ms_state ms)"
| "to_state_ok SameStateCancelling ms ms' =
     (ms_state ms' = ms_state ms \<and> is_cancelling (ms_procedure ms'))"
| "to_state_ok SameStateIncident ms ms' =
     (ms_state ms' = ms_state ms \<and> is_recording (ms_procedure ms'))"
| "to_state_ok SameStateHaltGate ms ms' =
     (ms_state ms' = ms_state ms \<and> is_halting (ms_procedure ms'))"
| "to_state_ok SameStateIncidentContinued ms ms' =
     (ms_state ms' = ms_state ms \<and> is_recording (ms_procedure ms'))"
| "to_state_ok MergingIncident ms ms' =
     (ms_state ms' = S_MERGING \<and> is_recording (ms_procedure ms'))"
| "to_state_ok ReturnToState ms ms' = (ms_return_to ms = Some (ms_state ms'))"
| "to_state_ok PendingSourceState ms ms' =
     (\<exists>p. ms_pending_record ms = Some p \<and> ms_state ms' = pr_source_state p)"
| "to_state_ok RecoveryState ms ms' = (ms_recovery_to ms = Some (ms_state ms'))"
| "to_state_ok IncidentTargetState ms ms' =
     (\<exists>t a. ms_procedure ms = RecordingIncidentProcedure t a \<and>
            ms_state ms' = (if t = IT_MERGED then S_MERGED else S_CANCELLED))"
| "to_state_ok ContinuationState ms ms' =
     (\<exists>b c. ms_block ms = Some b \<and> block_continuation b = Some c \<and> ms_state ms' = bc_resume_state c)"

fun commands_ok :: "commands_decl \<Rightarrow> machine_state \<Rightarrow> command list \<Rightarrow> bool" where
  "commands_ok (Commands ns) ms cs = (map command_type cs = ns)"
| "commands_ok ReturnToDriveCommands ms cs =
     (\<exists>r a. ms_return_to ms = Some r \<and> DRIVE_TABLE r = Some (cs, a))"
| "commands_ok AwaitingCommands ms cs = (\<exists>a. ms_awaiting ms = Some a \<and> cs = AWAITING_COMMANDS a)"
| "commands_ok RecoveryDriveCommands ms cs =
     (\<exists>r a. ms_recovery_to ms = Some r \<and> DRIVE_TABLE r = Some (cs, a))"
| "commands_ok SavedCommands ms cs =
     (\<exists>b c. ms_block ms = Some b \<and> block_continuation b = Some c \<and> cs = bc_commands c)"

definition sound_result :: "rule \<Rightarrow> machine_state \<Rightarrow> step_result \<Rightarrow> bool" where
  "sound_result r ms res \<longleftrightarrow>
     (\<exists>ms' cs. res = Inr (ms', cs) \<and> machine_inv ms' \<and> to_state_ok (rule_to_state r) ms ms' \<and>
        commands_ok (rule_command_names r) ms cs)"

definition sound_rule :: "rule \<Rightarrow> bool" where
  "sound_rule r \<longleftrightarrow>
     (\<forall>ms e. machine_inv ms \<longrightarrow> legal_event e \<longrightarrow> rule_matches r ms e \<longrightarrow>
        sound_result r ms (rule_effect r ms e))"

lemma sound_returning:
  "machine_state_post_init ms' = Inr () \<Longrightarrow> machine_inv ms' \<Longrightarrow>
   to_state_ok (rule_to_state r) ms ms' \<Longrightarrow> commands_ok (rule_command_names r) ms cs \<Longrightarrow>
   sound_result r ms (returning ms' cs)"
  by (simp add: sound_result_def returning_ok)

lemma machine_inv_post_init: "machine_inv ms \<Longrightarrow> machine_state_post_init ms = Inr ()"
  by (simp add: machine_inv_def constructible_def)

lemma sound_returning_inv:
  "machine_inv ms' \<Longrightarrow> to_state_ok (rule_to_state r) ms ms' \<Longrightarrow>
   commands_ok (rule_command_names r) ms cs \<Longrightarrow> sound_result r ms (returning ms' cs)"
  by (simp add: sound_returning machine_inv_post_init)

section \<open>Reading a match\<close>

lemma procedure_kind_iff [simp]:
  "procedure_kind_of p = PK_NORMAL \<longleftrightarrow> p = NormalProcedure"
  "procedure_kind_of p = PK_CANCELLING \<longleftrightarrow> (\<exists>b. p = CancellingProcedure b)"
  "procedure_kind_of p = PK_HALTING_FOR_BLOCK \<longleftrightarrow> (\<exists>b a. p = HaltingForBlockProcedure b a)"
  "procedure_kind_of p = PK_RECORDING_INCIDENT \<longleftrightarrow> (\<exists>t a. p = RecordingIncidentProcedure t a)"
  by (cases p; simp)+

lemma match_facts:
  assumes "rule_matches r ms e"
  shows "ms_state ms \<in> m_states (rule_match r)"
    and "event_type_of e = m_event_type (rule_match r)"
    and "procedure_kind_of (ms_procedure ms) \<in> m_procedures (rule_match r)"
    and "any_or_in (ms_awaiting ms) (m_awaiting (rule_match r))"
    and "any_or_in (derive_pending ms e) (m_pending (rule_match r))"
    and "any_or_some_in (produced_kind e) (m_record_kinds (rule_match r))"
    and "any_or_some_in (map_option rp_progress (event_report e)) (m_progress (rule_match r))"
    and "any_or_eq (ms_deferred_integrity ms \<noteq> []) (m_deferred_nonempty (rule_match r))"
    and "any_or_some_in (derive_binding ms e) (m_binding (rule_match r))"
    and "any_or_some_in (map_option block_kind_of (ms_block ms)) (m_block_kinds (rule_match r))"
    and "any_or_some_in (case ms_block ms of None \<Rightarrow> None | Some b \<Rightarrow> block_reason_of b)
           (m_block_reasons (rule_match r))"
    and "any_or_some_in (derive_coverage ms e) (m_coverage (rule_match r))"
    and "any_or_eq (ms_recovery_to ms \<noteq> None) (m_recovery_present (rule_match r))"
  using assms by (simp_all add: rule_matches_def matches_def derive_guard_key_def)

lemma any_some [simp]: "any_or_in v (Some A) \<longleftrightarrow> v \<in> A" "any_or_in v None"
  by (simp_all add: any_or_in_def)

lemma any_some_some [simp]:
  "any_or_some_in v (Some A) \<longleftrightarrow> (\<exists>x \<in> A. v = Some x)" "any_or_some_in v None"
  by (auto simp: any_or_some_in_def split: option.splits)

lemma any_eq_some [simp]: "any_or_eq v (Some b) \<longleftrightarrow> v = b" "any_or_eq v None"
  by (simp_all add: any_or_eq_def)

lemma pending_absent [simp]: "derive_pending ms e = PM_ABSENT \<longleftrightarrow> ms_pending_record ms = None"
  by (auto simp: derive_pending_def pending_vs_evidence_def split: option.splits event.splits if_splits)

lemma pending_present: "derive_pending ms e = PM_PRESENT \<Longrightarrow> ms_pending_record ms \<noteq> None"
  by (auto simp: derive_pending_def pending_vs_evidence_def split: option.splits event.splits if_splits)

text \<open>The record evidence an event carries: its own, or the one of an intervention.\<close>

fun carried_evidence :: "event \<Rightarrow> record_evidence option" where
  "carried_evidence (BlockResolvedIntervention r) = br_record r"
| "carried_evidence e = verified_evidence e"

lemma pending_match:
  "derive_pending ms e = PM_MATCH \<Longrightarrow>
   \<exists>p ev. ms_pending_record ms = Some p \<and> carried_evidence e = Some ev \<and>
          pr_kind p = re_kind ev \<and> pr_binding p = re_binding ev"
  by (cases e)
     (auto simp: derive_pending_def pending_vs_evidence_def split: option.splits if_splits)

section \<open>Soundness of the effects\<close>

text \<open>A state without block, procedure and anything to resume becomes a plain state.\<close>

definition simple_source :: "state \<Rightarrow> bool" where
  "simple_source s \<longleftrightarrow>
     s \<notin> {S_BLOCKED, S_AWAITING_TOOL_PERMISSION, S_FAILED, S_MERGING, S_MERGED, S_CANCELLED}"

lemma simple_source_update:
  assumes inv: "machine_inv ms" and normal: "ms_procedure ms = NormalProcedure"
    and simple: "simple_source (ms_state ms)"
  shows "ms\<lparr>ms_state := s, ms_awaiting := a, ms_pending_record := None\<rparr> = MachineState s\<lparr>ms_awaiting := a\<rparr>"
proof -
  have c: "constructible ms" using inv by (rule machine_inv_constructible)
  show ?thesis
    using frame_block [OF c] frame_return [OF c] frame_recovery [OF c] frame_deferred [OF c] normal simple
    by (simp add: simple_source_def MachineState_def)
qed

definition advance_ok :: "state set \<Rightarrow> state option \<Rightarrow> awaiting option \<Rightarrow> bool" where
  "advance_ok from to a \<longleftrightarrow>
     (\<forall>s \<in> from. simple_source s \<and>
        (let t = (case to of None \<Rightarrow> s | Some t \<Rightarrow> t) in plain_target t a \<and> (t \<noteq> S_MERGING \<or> a \<noteq> None)))"

lemma sound_advance:
  assumes "rule_effect r = advance to a cs" and "advance_ok (m_states (rule_match r)) to a"
    and "m_procedures (rule_match r) = {PK_NORMAL}"
    and "rule_to_state r = target_decl to" and "rule_command_names r = names cs"
  shows "sound_rule r"
  unfolding sound_rule_def
proof (intro allI impI)
  fix ms e assume inv: "machine_inv ms" and m: "rule_matches r ms e"
  let ?t = "target_state to ms"
  from match_facts(1,3) [OF m] assms
  have n: "ms_procedure ms = NormalProcedure" and s: "simple_source (ms_state ms)"
    and t: "plain_target ?t a" "?t \<noteq> S_MERGING \<or> a \<noteq> None"
    by (auto simp: advance_ok_def target_state_def Let_def split: option.splits)
  show "sound_result r ms (rule_effect r ms e)"
    unfolding assms(1) advance_def simple_source_update [OF inv n s]
    by (rule sound_returning_inv [OF plain_inv [OF t]])
       (auto simp: assms target_decl_def target_state_def names_def MachineState_def split: option.splits)
qed

text \<open>A record is produced: the pending slot is filled.\<close>

lemma pending_filled_inv:
  assumes inv: "machine_inv ms" and normal: "ms_procedure ms = NormalProcedure"
    and nt: "ms_state ms \<notin> TERMINAL_STATES"
    and a: "a = ms_awaiting ms \<and> k = K_USER_CANCEL \<or>
            a = None \<and> ms_state ms \<noteq> S_MERGING \<or>
            ms_state ms = S_BLOCKED \<and> k = K_BLOCK_INTERVENTION \<and> a = ms_awaiting ms"
    and k: "k \<noteq> K_INTEGRITY_INCIDENT"
    and blocked: "ms_state ms = S_BLOCKED \<Longrightarrow> k = K_USER_CANCEL \<or> k = K_BLOCK_INTERVENTION"
  shows "machine_inv (ms\<lparr>ms_awaiting := a,
    ms_pending_record := Some \<lparr>pr_kind = k, pr_binding = b, pr_source_state = ms_state ms\<rparr>\<rparr>)"
proof -
  have c: "constructible ms" using inv by (rule machine_inv_constructible)
  have blocked_none: "ms_state ms = S_BLOCKED \<Longrightarrow> ms_awaiting ms = None"
    using constructible_checks(4) [OF c] by simp
  have outcome: "ms_state ms \<noteq> S_MERGING \<Longrightarrow> ms_deferred_integrity ms = []"
    using frame_deferred [OF c] normal by blast
  let ?ms = "ms\<lparr>ms_awaiting := a,
    ms_pending_record := Some \<lparr>pr_kind = k, pr_binding = b, pr_source_state = ms_state ms\<rparr>\<rparr>"
  note cc = constructible_checks [OF c]
  have awaiting: "a = None \<or> a = ms_awaiting ms" using a by blast
  have "check_canonical_deferred ?ms = Inr ()" using cc(2) by simp
  moreover have "check_terminal_bare ?ms = Inr ()" using nt by simp
  moreover have "check_block_scope ?ms = Inr ()"
    using cc(4) blocked blocked_none awaiting normal by auto
  moreover have "check_recovery_scope ?ms = Inr ()" using cc(5) by (simp del: in_ACTIVE)
  moreover have "check_return_scope ?ms = Inr ()" using cc(6) by simp
  moreover have "check_procedure_shape ?ms = Inr ()" using normal by simp
  moreover have "check_deferred_scope ?ms = Inr ()"
    using cc(8) outcome normal a by (cases "ms_state ms = S_MERGING") auto
  moreover have "check_pending_home ?ms = Inr ()"
    using k a blocked_none by auto
  moreover have "check_awaiting_home ?ms = Inr ()" using cc(10) awaiting by auto
  ultimately have "machine_state_post_init ?ms = Inr ()"
    unfolding machine_state_post_init_Inr by blast
  then show ?thesis using inv a unfolding machine_inv_def constructible_def by auto
qed

lemma sound_produced:
  "kind \<noteq> K_INTEGRITY_INCIDENT \<Longrightarrow>
   (\<And>s. s \<in> states \<Longrightarrow> simple_source s) \<Longrightarrow> sound_rule (produced_rule rid kind states awaitings)"
  unfolding sound_rule_def
proof (intro allI impI)
  fix ms e
  assume k: "kind \<noteq> K_INTEGRITY_INCIDENT" and st: "\<And>s. s \<in> states \<Longrightarrow> simple_source s"
    and inv: "machine_inv ms" and m: "rule_matches (produced_rule rid kind states awaitings) ms e"
  from match_facts [OF m] obtain b where e: "e = RecordProduced kind b"
    and n: "ms_procedure ms = NormalProcedure" and s: "simple_source (ms_state ms)"
    using st by (cases e) (auto simp: produced_rule_def Match_def)
  show "sound_result (produced_rule rid kind states awaitings) ms
    (rule_effect (produced_rule rid kind states awaitings) ms e)"
    using pending_filled_inv [OF inv n, of None kind b] k s
    by (auto simp: produced_rule_def e simple_source_def intro!: sound_returning_inv)
qed

text \<open>A rule that never looks at the event or the pending record beyond its guard.\<close>

lemma sound_ruleI:
  "(\<And>ms e. machine_inv ms \<Longrightarrow> legal_event e \<Longrightarrow> rule_matches r ms e \<Longrightarrow>
     sound_result r ms (rule_effect r ms e)) \<Longrightarrow> sound_rule r"
  by (simp add: sound_rule_def)

lemma sound_produced_keep:
  assumes "rule_effect r = produced_effect True" and "m_procedures (rule_match r) = {PK_NORMAL}"
    and "m_event_type (rule_match r) = ET_RecordProduced"
    and "m_states (rule_match r) \<inter> TERMINAL_STATES = {}"
    and kind: "m_record_kinds (rule_match r) = Some {k}"
    and k: "k = K_USER_CANCEL \<or> k = K_BLOCK_INTERVENTION \<and> m_states (rule_match r) = {S_BLOCKED}"
    and decl: "rule_to_state r = SameState" "rule_command_names r = Commands [N_PersistRecord]"
  shows "sound_rule r"
proof (rule sound_ruleI)
  fix ms e assume inv: "machine_inv ms" and m: "rule_matches r ms e"
  from match_facts [OF m] assms obtain b where e: "e = RecordProduced k b"
    and n: "ms_procedure ms = NormalProcedure" and nt: "ms_state ms \<notin> TERMINAL_STATES"
    and st: "k = K_USER_CANCEL \<or> k = K_BLOCK_INTERVENTION \<and> ms_state ms = S_BLOCKED"
    by (cases e) (auto simp del: in_TERMINAL)
  have "machine_inv (ms\<lparr>ms_awaiting := ms_awaiting ms,
      ms_pending_record := Some \<lparr>pr_kind = k, pr_binding = b, pr_source_state = ms_state ms\<rparr>\<rparr>)"
    by (rule pending_filled_inv [OF inv n nt]) (use st in auto)
  then show "sound_result r ms (rule_effect r ms e)"
    by (auto simp: assms e intro!: sound_returning_inv)
qed

section \<open>Entering and leaving a block\<close>

lemma blocked_inv:
  assumes "block_check b = Inr ()"
    and "case block_continuation b of None \<Rightarrow> True | Some c \<Rightarrow> c \<in> registry_continuations"
  shows "machine_inv (MachineState S_BLOCKED\<lparr>ms_block := Some b\<rparr>)"
  using assms by (auto simp: machine_inv_def constructible_def machine_state_post_init_Inr MachineState_def)

lemma simple_source_block:
  assumes inv: "machine_inv ms" and normal: "ms_procedure ms = NormalProcedure"
    and simple: "simple_source (ms_state ms)"
  shows "ms\<lparr>ms_state := S_BLOCKED, ms_awaiting := None, ms_pending_record := None, ms_block := b\<rparr> =
    MachineState S_BLOCKED\<lparr>ms_block := b\<rparr>"
  using simple_source_update [OF assms, where s = S_BLOCKED and a = None] by (simp add: MachineState_def)

lemma table_continuation:
  "CONT_REVIEW_BLOCKING \<in> registry_continuations" "CONT_CLARIFICATION \<in> registry_continuations"
  "CONT_FIX_RESULT \<in> registry_continuations" "CONT_RESUBMIT \<in> registry_continuations"
  "CONT_CI_CODE_FAILURE \<in> registry_continuations" "CONT_EXTERNAL_DEPENDENCY \<in> registry_continuations"
  by (simp_all add: registry_continuations_def BLOCKED_CONTINUATIONS_def)

lemma sound_progress_block:
  assumes "BUDGET_EVENTS et \<noteq> None" and "c \<in> registry_continuations"
    and "\<And>s. s \<in> from \<Longrightarrow> simple_source s"
  shows "sound_rule (progress_block_rule rid et from c entry)"
proof (rule sound_ruleI)
  fix ms e let ?r = "progress_block_rule rid et from c entry"
  assume inv: "machine_inv ms" and m: "rule_matches ?r ms e"
  from match_facts [OF m] have n: "ms_procedure ms = NormalProcedure"
    and s: "simple_source (ms_state ms)" and et: "event_type_of e = et"
    and pm: "derive_pending ms e = PM_MATCH"
    and "\<exists>r. event_report e = Some r \<and> rp_progress r \<in> BOUNDED"
    using assms(3) by (auto simp: progress_block_rule_def Match_def)
  then obtain rep where rep: "event_report e = Some rep" "rp_progress rep \<noteq> P_CONTINUE" by auto
  then obtain ev where ev: "verified_evidence e = Some ev" by (cases e) auto
  obtain b u where b: "BUDGET_EVENTS et = Some (b, u)" using assms(1) by auto
  show "sound_result ?r ms (rule_effect ?r ms e)"
    unfolding progress_block_rule_def progress_block_effect_def
    using rep ev b blocked_inv [of "ProgressBlock
      \<lparr>pb_binding = re_binding ev, pb_head = rp_head rep, pb_continuation = c,
       pb_reason = rp_progress rep, pb_budget = b,
       pb_counter_snapshot = rp_counter_snapshot rep, pb_fingerprint = rp_fingerprint rep\<rparr>"] assms(2)
    by (auto simp: mk_progress_block_Inr [THEN iffD2] simple_source_block [OF inv n s] names_def
        MachineState_def intro!: sound_returning_inv)
qed

lemma sound_external_dependency: "sound_rule rule_T_43"
proof (rule sound_ruleI)
  fix ms e assume inv: "machine_inv ms" and m: "rule_matches rule_T_43 ms e"
  from match_facts [OF m] obtain ev h where e: "e = ExternalDependencyVerified ev h"
    and n: "ms_procedure ms = NormalProcedure" and s: "simple_source (ms_state ms)"
    by (cases e) (auto simp: rule_T_43_def Match_def simple_source_def)
  show "sound_result rule_T_43 ms (rule_effect rule_T_43 ms e)"
    using blocked_inv [of "ExternalDependencyBlock \<lparr>xb_binding = re_binding ev, xb_head = h,
        xb_continuation = CONT_EXTERNAL_DEPENDENCY, xb_evidence = ev\<rparr>"] table_continuation
    by (auto simp: rule_T_43_def e simple_source_block [OF inv n s] MachineState_def
        intro!: sound_returning_inv)
qed

section \<open>Tool permission\<close>

lemma sound_permission:
  assumes "rule_effect r = permission_effect s" and "s = S_RUNNING_REVIEW \<or> s = S_APPLYING_FIXES"
    and "m_states (rule_match r) = {s}" and "m_procedures (rule_match r) = {PK_NORMAL}"
    and "rule_to_state r = ToState S_AWAITING_TOOL_PERMISSION" and "rule_command_names r = Commands []"
  shows "sound_rule r"
proof (rule sound_ruleI)
  fix ms e assume inv: "machine_inv ms" and m: "rule_matches r ms e"
  from match_facts(1,3) [OF m] assms have n: "ms_procedure ms = NormalProcedure"
    and s: "simple_source (ms_state ms)" by (auto simp: simple_source_def)
  have eq: "ms\<lparr>ms_state := S_AWAITING_TOOL_PERMISSION, ms_awaiting := Some A_USER_INPUT_PERMISSION,
      ms_pending_record := None, ms_return_to := Some s\<rparr> =
    MachineState S_AWAITING_TOOL_PERMISSION
      \<lparr>ms_awaiting := Some A_USER_INPUT_PERMISSION, ms_return_to := Some s\<rparr>"
    using simple_source_update
      [OF inv n s, where s = S_AWAITING_TOOL_PERMISSION and a = "Some A_USER_INPUT_PERMISSION"]
    by (simp add: MachineState_def)
  show "sound_result r ms (rule_effect r ms e)"
    unfolding assms(1) permission_effect_def eq
    by (rule sound_returning_inv)
       (use assms in \<open>auto simp: machine_inv_def constructible_def machine_state_post_init_Inr MachineState_def\<close>)
qed

lemma drive_table_home:
  "DRIVE_TABLE s = Some (cs, a) \<Longrightarrow> s \<in> AWAITING_HOME a \<and> s \<in> ACTIVE_STATES \<and> s \<noteq> S_MERGING"
  by (cases s) auto

lemma drive_table_total: "s \<in> ACTIVE_STATES \<Longrightarrow> s \<noteq> S_MERGING \<Longrightarrow> \<exists>cs a. DRIVE_TABLE s = Some (cs, a)"
  by (cases s) auto

lemma drive_plain: "DRIVE_TABLE s = Some (cs, a) \<Longrightarrow> plain_target s (Some a)"
  by (cases s) (auto simp: plain_target_def)

lemma sound_permission_resume: "sound_rule rule_T_21"
proof (rule sound_ruleI)
  fix ms e assume inv: "machine_inv ms" and m: "rule_matches rule_T_21 ms e"
  have c: "constructible ms" using inv by (rule machine_inv_constructible)
  from match_facts [OF m] have n: "ms_procedure ms = NormalProcedure"
    and st: "ms_state ms = S_AWAITING_TOOL_PERMISSION" and p: "ms_pending_record ms = None"
    by (simp_all add: rule_T_21_def Match_def)
  obtain r where r: "ms_return_to ms = Some r" "r = S_RUNNING_REVIEW \<or> r = S_APPLYING_FIXES"
    using constructible_checks(6) [OF c] st by (cases "ms_return_to ms") auto
  then obtain cs a where d: "DRIVE_TABLE r = Some (cs, a)" by auto
  have eq: "ms\<lparr>ms_state := r, ms_awaiting := Some a, ms_return_to := None\<rparr> =
      MachineState r\<lparr>ms_awaiting := Some a\<rparr>"
    using frame_block [OF c] frame_recovery [OF c] frame_deferred [OF c] n st p
    by (simp add: MachineState_def)
  show "sound_result rule_T_21 ms (rule_effect rule_T_21 ms e)"
    using plain_inv [OF drive_plain [OF d]] d r
    by (auto simp: rule_T_21_def permission_resume_effect_def eq MachineState_def
        intro!: sound_returning_inv)
qed

section \<open>The workflow rules are sound\<close>

lemma sound_produced_kept: "sound_rule rule_P_22" "sound_rule rule_P_23"
  by (rule sound_produced_keep [where k = K_BLOCK_INTERVENTION];
      simp add: rule_P_22_def rule_P_23_def Match_def)+

lemma sound_produced_cancel: "sound_rule rule_P_21"
  by (rule sound_produced_keep [where k = K_USER_CANCEL])
     (simp_all add: rule_P_21_def Match_def NON_TERMINAL_def Diff_Int_distrib2)

lemma sound_produced_rules: "list_all sound_rule PRODUCED_RULES"
proof -
  have "sound_rule (produced_rule i k {s} a)" if "k \<noteq> K_INTEGRITY_INCIDENT" "simple_source s" for i k s a
    using that by (intro sound_produced) auto
  then show ?thesis
    unfolding PRODUCED_RULES_def list.pred_inject
    by (intro conjI TrueI sound_produced_kept sound_produced_cancel)
       (simp_all add: simple_source_def rule_P_01_def rule_P_02_def rule_P_03_def rule_P_04_def
         rule_P_05_def rule_P_06_def rule_P_07_def rule_P_08_def rule_P_09_def rule_P_10_def
         rule_P_11_def rule_P_12_def rule_P_13_def rule_P_14_def rule_P_15_def rule_P_16_def
         rule_P_17_def rule_P_18_def rule_P_19_def rule_P_20_def)
qed

end
