(* ===== verification/Soundness_Workflow.thy ===== *)
theory Soundness_Workflow
  imports Machine_Invariant
begin

text \<open>
  The workflow rules and the rules of the merge transaction, cancellation, failure and resumption
  are sound: each lemma reads the guard of a rule and shows that its effect leads to a state the
  constructors accept.
\<close>

section \<open>Workflow rules\<close>

lemma sound_verified: "advance_ok from to a \<Longrightarrow> sound_rule (verified_rule rid sec et from to a cs prog)"
  by (rule sound_advance) (simp_all add: verified_rule_def Match_def)

lemma sound_external: "advance_ok from to a \<Longrightarrow> sound_rule (external_rule rid sec et from aw to a cs)"
  by (rule sound_advance) (simp_all add: external_rule_def Match_def)

lemma sound_response: "advance_ok from to a \<Longrightarrow> sound_rule (response_rule rid sec et from aw to a cs)"
  by (rule sound_advance) (simp_all add: response_rule_def Match_def)

lemma sound_head_changed: "sound_rule rule_T_26" "sound_rule rule_T_33"
  by (rule sound_advance [where to = "Some S_RUNNING_REVIEW" and a = "Some A_CODEX_CODE_REVIEW"
        and cs = "InvalidateApprovals # CODEX_REVIEW"];
      simp add: rule_T_26_def rule_T_33_def Match_def advance_ok_def simple_source_def plain_target_def
        target_decl_def names_def CODEX_REVIEW_def)+

lemma sound_permission_rules: "sound_rule rule_T_05" "sound_rule rule_T_13"
   apply (rule sound_permission [where s = S_RUNNING_REVIEW]; simp add: rule_T_05_def Match_def)
  apply (rule sound_permission [where s = S_APPLYING_FIXES]; simp add: rule_T_13_def Match_def)
  done

lemma sound_progress_rules:
  "sound_rule rule_T_B03" "sound_rule rule_T_B07" "sound_rule rule_T_B11" "sound_rule rule_T_B19"
  "sound_rule rule_T_B23"
  unfolding rule_T_B03_def rule_T_B07_def rule_T_B11_def rule_T_B19_def rule_T_B23_def
  by (rule sound_progress_block; simp add: table_continuation simple_source_def)+

lemma sound_workflow_rules: "list_all sound_rule WORKFLOW_RULES"
proof -
  note rules = sound_verified sound_external sound_response
  show ?thesis
    unfolding WORKFLOW_RULES_def list.pred_inject
    apply (intro conjI sound_head_changed sound_permission_rules sound_progress_rules
        sound_permission_resume sound_external_dependency)
    apply (simp_all only: workflow_rule_defs)
    apply (rule rules; simp add: advance_ok_def simple_source_def plain_target_def)+
    apply simp
    done
qed

section \<open>The merge transaction\<close>

lemma fresh_review_inv: "machine_inv (MachineState S_RUNNING_REVIEW\<lparr>ms_awaiting := Some A_CODEX_CODE_REVIEW\<rparr>)"
  by (rule plain_inv) (simp_all add: plain_target_def)

lemma terminal_inv: "t \<in> TERMINAL_STATES \<Longrightarrow> machine_inv (MachineState t)"
  using plain_inv [of t None] by (auto simp: plain_target_def MachineState_def)

lemma merging_state:
  assumes inv: "machine_inv ms" and n: "ms_procedure ms = NormalProcedure"
    and s: "ms_state ms = S_MERGING"
  shows "ms_return_to ms = None" "ms_recovery_to ms = None" "ms_block ms = None"
    "ms_awaiting ms \<noteq> None"
    "\<And>p. ms_pending_record ms = Some p \<Longrightarrow> pr_kind p = K_USER_CANCEL \<and> pr_source_state p = S_MERGING"
    "canonical_violations (ms_deferred_integrity ms)"
proof -
  have c: "constructible ms" using inv by (rule machine_inv_constructible)
  show "ms_return_to ms = None" "ms_recovery_to ms = None" "ms_block ms = None"
    using frame_block [OF c] frame_return [OF c] frame_recovery [OF c] s by auto
  show a: "ms_awaiting ms \<noteq> None" using inv n s by (simp add: machine_inv_def)
  show "pr_kind p = K_USER_CANCEL \<and> pr_source_state p = S_MERGING" if "ms_pending_record ms = Some p" for p
    using constructible_checks(9) [OF c] a s that by auto
  show "canonical_violations (ms_deferred_integrity ms)"
    using constructible_checks(2) [OF c] by simp
qed

text \<open>Within the merge transaction only the awaited outcome, the pending cancel and the deferred
  violations change.\<close>

lemma merging_inv:
  assumes "a \<in> MERGE_OUTCOME_AWAITINGS \<or> a = A_MERGE_PRECONDITIONS \<and> ds = []"
    and "\<And>p. pend = Some p \<Longrightarrow> pr_kind p = K_USER_CANCEL \<and> pr_source_state p = S_MERGING"
    and "canonical_violations ds"
  shows "machine_inv (MachineState S_MERGING
    \<lparr>ms_awaiting := Some a, ms_pending_record := pend, ms_deferred_integrity := ds\<rparr>)"
proof -
  let ?ms = "MachineState S_MERGING
    \<lparr>ms_awaiting := Some a, ms_pending_record := pend, ms_deferred_integrity := ds\<rparr>"
  have "S_MERGING \<in> AWAITING_HOME a" using assms(1) by (auto simp: MERGE_OUTCOME_AWAITINGS_def)
  then have "machine_state_post_init ?ms = Inr ()"
    unfolding machine_state_post_init_Inr
    using assms by (cases pend) (auto simp: MachineState_def)
  then show ?thesis by (simp add: machine_inv_def constructible_def MachineState_def)
qed

lemma merging_keep:
  assumes inv: "machine_inv ms" and n: "ms_procedure ms = NormalProcedure" and s: "ms_state ms = S_MERGING"
    and same: "ms_procedure ms' = NormalProcedure" "ms_state ms' = S_MERGING"
      "ms_return_to ms' = ms_return_to ms" "ms_recovery_to ms' = ms_recovery_to ms"
      "ms_block ms' = ms_block ms"
    and a: "ms_awaiting ms' = Some a" "a \<in> MERGE_OUTCOME_AWAITINGS"
    and p: "ms_pending_record ms' = None \<or> ms_pending_record ms' = ms_pending_record ms"
    and d: "canonical_violations (ms_deferred_integrity ms')"
  shows "machine_inv ms'"
proof -
  note ms = merging_state [OF inv n s]
  have eq: "ms' = MachineState S_MERGING
    \<lparr>ms_awaiting := Some a, ms_pending_record := ms_pending_record ms',
     ms_deferred_integrity := ms_deferred_integrity ms'\<rparr>"
    by (rule machine_state.equality) (simp_all add: MachineState_def same a ms(1-3))
  show ?thesis
    by (subst eq, rule merging_inv) (use a p d ms(5) in auto)
qed

lemma sound_merge_start: "sound_rule rule_M_32a" "sound_rule rule_M_32b"
proof -
  have "sound_rule r" if r: "rule_effect r = to_merging" "m_states (rule_match r) = {S_READY_FOR_HUMAN_MERGE}"
    "m_procedures (rule_match r) = {PK_NORMAL}" "rule_to_state r = ToState S_MERGING"
    "rule_command_names r = Commands [N_VerifyMergePreconditions]" for r
  proof (rule sound_ruleI)
    fix ms e assume inv: "machine_inv ms" and m: "rule_matches r ms e"
    from match_facts(1,3) [OF m] r have n: "ms_procedure ms = NormalProcedure"
      and s: "simple_source (ms_state ms)" by (auto simp: simple_source_def)
    show "sound_result r ms (rule_effect r ms e)"
      unfolding r(1) to_merging_def simple_source_update [OF inv n s]
      by (rule sound_returning_inv [OF plain_inv])
         (auto simp: r plain_target_def MachineState_def)
  qed
  then show "sound_rule rule_M_32a" "sound_rule rule_M_32b"
    by (simp_all add: rule_M_32a_def rule_M_32b_def Match_def)
qed

lemma sound_merge_terminal:
  assumes "rule_effect r = merge_effect (Some t) a cs" and "t \<in> TERMINAL_STATES"
    and "rule_to_state r = ToState t" and "rule_command_names r = names cs"
  shows "sound_rule r"
proof (rule sound_ruleI)
  fix ms e
  show "sound_result r ms (rule_effect r ms e)"
    unfolding assms(1) merge_effect_def option.case if_P [OF assms(2)]
    by (rule sound_returning_inv [OF terminal_inv [OF assms(2)]])
       (simp_all add: assms names_def MachineState_def)
qed

lemma sound_merge_stay:
  assumes "rule_effect r = merge_effect None (Some a) cs" and "m_states (rule_match r) = {S_MERGING}"
    and "m_procedures (rule_match r) = {PK_NORMAL}" and "a \<in> MERGE_OUTCOME_AWAITINGS"
    and "rule_to_state r = ToState S_MERGING" and "rule_command_names r = names cs"
  shows "sound_rule r"
proof (rule sound_ruleI)
  fix ms e assume inv: "machine_inv ms" and m: "rule_matches r ms e"
  from match_facts(1,3) [OF m] assms have n: "ms_procedure ms = NormalProcedure"
    and s: "ms_state ms = S_MERGING" by auto
  have "machine_inv (ms\<lparr>ms_awaiting := Some a\<rparr>)"
    by (rule merging_keep [OF inv n s, where a = a])
       (simp_all add: n s assms(4) merging_state(6) [OF inv n s] del: in_MERGE_OUTCOME)
  then show "sound_result r ms (rule_effect r ms e)"
    unfolding assms(1) merge_effect_def option.case
    by (rule sound_returning_inv) (simp_all add: assms s names_def)
qed

lemma sound_merge_failed:
  assumes "rule_effect r = merge_effect (Some S_MERGE_FAILED) None []"
    and "m_states (rule_match r) = {S_MERGING}" and "m_procedures (rule_match r) = {PK_NORMAL}"
    and "m_pending (rule_match r) = Some ABSENT"
    and "m_deferred_nonempty (rule_match r) = Some False \<or>
         m_awaiting (rule_match r) = Some {Some A_MERGE_PRECONDITIONS}"
    and "rule_to_state r = ToState S_MERGE_FAILED" and "rule_command_names r = Commands []"
  shows "sound_rule r"
proof (rule sound_ruleI)
  fix ms e assume inv: "machine_inv ms" and m: "rule_matches r ms e"
  from match_facts(1,3) [OF m] assms have n: "ms_procedure ms = NormalProcedure"
    and s: "ms_state ms = S_MERGING" by auto
  have p: "ms_pending_record ms = None" using match_facts(5) [OF m] assms(4) by simp
  have d: "ms_deferred_integrity ms = []"
    using assms(5)
  proof
    assume "m_deferred_nonempty (rule_match r) = Some False"
    then show ?thesis using match_facts(8) [OF m] by simp
  next
    assume "m_awaiting (rule_match r) = Some {Some A_MERGE_PRECONDITIONS}"
    then have "ms_awaiting ms = Some A_MERGE_PRECONDITIONS" using match_facts(4) [OF m] by simp
    then show ?thesis
      using constructible_checks(8) [OF machine_inv_constructible [OF inv]] n
      by (auto simp: MERGE_OUTCOME_AWAITINGS_def)
  qed
  have "ms\<lparr>ms_state := S_MERGE_FAILED, ms_awaiting := None\<rparr> = MachineState S_MERGE_FAILED"
    by (rule machine_state.equality)
       (simp_all add: MachineState_def n p d merging_state(1-3) [OF inv n s])
  then show "sound_result r ms (rule_effect r ms e)"
    using plain_inv [of S_MERGE_FAILED None]
    by (auto simp: assms merge_effect_def plain_target_def MachineState_def intro!: sound_returning_inv)
qed

lemma sound_cancel_query: "sound_rule rule_M_41a" "sound_rule rule_M_41b"
proof -
  have "sound_rule r" if r: "rule_effect r = cancel_query_effect" "m_states (rule_match r) = {S_MERGING}"
    "m_procedures (rule_match r) = {PK_NORMAL}" "rule_to_state r = ToState S_MERGING"
    "rule_command_names r = Commands [N_QueryMergeOutcome]" for r
  proof (rule sound_ruleI)
    fix ms e assume inv: "machine_inv ms" and m: "rule_matches r ms e"
    from match_facts(1,3) [OF m] r have n: "ms_procedure ms = NormalProcedure"
      and s: "ms_state ms = S_MERGING" by auto
    have "machine_inv (ms\<lparr>ms_awaiting := Some A_MERGE_OUTCOME_CANCEL, ms_pending_record := None\<rparr>)"
      by (rule merging_keep [OF inv n s, where a = A_MERGE_OUTCOME_CANCEL])
         (simp_all add: n s merging_state(6) [OF inv n s] MERGE_OUTCOME_AWAITINGS_def)
    then show "sound_result r ms (rule_effect r ms e)"
      unfolding r(1) cancel_query_effect_def
      by (rule sound_returning_inv) (simp_all add: r s)
  qed
  then show "sound_rule rule_M_41a" "sound_rule rule_M_41b"
    by (simp_all add: rule_M_41a_def rule_M_41b_def Match_def)
qed

lemma sound_fresh_review:
  "rule_effect r = fresh_review_effect \<or> rule_effect r = integrity_exit_effect \<Longrightarrow>
   rule_to_state r = ToState S_RUNNING_REVIEW \<Longrightarrow>
   rule_command_names r = Commands [N_InvalidateApprovals, N_RequestCodexReview] \<Longrightarrow> sound_rule r"
  using fresh_review_inv
  by (intro sound_ruleI)
     (auto simp: fresh_review_effect_def integrity_exit_effect_def MachineState_def intro!: sound_returning_inv)

lemma sound_same_head: "sound_rule rule_M_SH"
proof (rule sound_ruleI)
  fix ms e assume inv: "machine_inv ms" and m: "rule_matches rule_M_SH ms e"
  from match_facts [OF m] have n: "ms_procedure ms = NormalProcedure"
    and s: "simple_source (ms_state ms)" and p: "ms_pending_record ms = None"
    by (auto simp: rule_M_SH_def Match_def simple_source_def)
  have "ms\<lparr>ms_state := S_READY_FOR_HUMAN_MERGE, ms_awaiting := Some A_USER_INPUT_GATE\<rparr> =
    MachineState S_READY_FOR_HUMAN_MERGE\<lparr>ms_awaiting := Some A_USER_INPUT_GATE\<rparr>"
    using simple_source_update [OF inv n s, where s = S_READY_FOR_HUMAN_MERGE and a = "Some A_USER_INPUT_GATE"]
    by (rule subst) (rule machine_state.equality, simp_all add: p)
  then show "sound_result rule_M_SH ms (rule_effect rule_M_SH ms e)"
    using plain_inv [of S_READY_FOR_HUMAN_MERGE "Some A_USER_INPUT_GATE"]
    by (auto simp: rule_M_SH_def same_head_effect_def plain_target_def MachineState_def
        intro!: sound_returning_inv)
qed

lemma sound_merge_rules: "list_all sound_rule MERGE_RULES"
proof -
  have "sound_rule rule_M_37" "sound_rule rule_M_38"
    by (rule sound_merge_terminal; simp add: rule_M_37_def rule_M_38_def names_def)+
  moreover have "sound_rule rule_M_34"
    by (rule sound_merge_stay [where cs = "[ExecuteMerge]" and a = A_MERGE_OUTCOME_EXECUTE])
       (simp_all add: rule_M_34_def Match_def names_def MERGE_OUTCOME_AWAITINGS_def)
  moreover have "sound_rule rule_M_42"
    by (rule sound_merge_stay [where cs = "[QueryMergeOutcome]" and a = A_MERGE_OUTCOME_FAILURE])
       (simp_all add: rule_M_42_def Match_def names_def MERGE_OUTCOME_AWAITINGS_def)
  moreover have "sound_rule rule_M_35" "sound_rule rule_M_39" "sound_rule rule_M_40"
    by (rule sound_merge_failed; simp add: rule_M_35_def rule_M_39_def rule_M_40_def Match_def)+
  moreover have "sound_rule rule_M_36" "sound_rule rule_M_HC"
    by (rule sound_fresh_review; simp add: rule_M_36_def rule_M_HC_def)+
  ultimately show ?thesis
    by (simp add: MERGE_RULES_def sound_merge_start sound_cancel_query sound_same_head)
qed

end
