(* ===== verification/Soundness_Recovery.thy ===== *)
theory Soundness_Recovery
  imports Soundness_Workflow
begin

text \<open>
  Cancellation, failure, the reissue rules and resumption are sound.
\<close>

section \<open>A cancellation or an incident record in progress\<close>

text \<open>
  The state, the block and what there is to resume stay; a pending record is the old one or one of
  this state, and it is an incident record exactly when an incident is being recorded.
\<close>

lemma in_procedure_inv:
  assumes inv: "machine_inv ms"
    and same: "ms_state ms' = ms_state ms" "ms_return_to ms' = ms_return_to ms"
      "ms_recovery_to ms' = ms_recovery_to ms" "ms_block ms' = ms_block ms"
    and proc: "is_cancelling (ms_procedure ms') \<and> ms_state ms \<noteq> S_MERGING \<or>
      is_recording (ms_procedure ms') \<and> ms_deferred_integrity ms' \<noteq> []"
    and nt: "ms_state ms \<notin> TERMINAL_STATES" and a: "ms_awaiting ms' = None"
    and pend: "\<And>p. ms_pending_record ms' = Some p \<Longrightarrow>
      (ms_pending_record ms = Some p \<or> pr_source_state p = ms_state ms) \<and>
      (pr_kind p = K_INTEGRITY_INCIDENT \<longleftrightarrow> is_recording (ms_procedure ms'))"
    and can: "canonical_violations (ms_deferred_integrity ms')"
  shows "machine_inv ms'"
proof -
  have c: "constructible ms" using inv by (rule machine_inv_constructible)
  note cc = constructible_checks [OF c]
  have shape: "ms_procedure ms' \<noteq> NormalProcedure" "\<not> is_halting (ms_procedure ms')"
    "procedure_check (ms_procedure ms') = Inr ()"
    using proc by (cases "ms_procedure ms'"; simp)+
  have "check_canonical_deferred ms' = Inr ()" using can by simp
  moreover have "check_terminal_bare ms' = Inr ()" using nt same by simp
  moreover have "check_block_scope ms' = Inr ()" using cc(4) same a shape by simp
  moreover have "check_recovery_scope ms' = Inr ()" using cc(5) same by (simp del: in_ACTIVE)
  moreover have "check_return_scope ms' = Inr ()" using cc(6) same by simp
  moreover have "check_procedure_shape ms' = Inr ()"
    using proc same a pend by (cases "ms_procedure ms'") simp_all
  moreover have "check_deferred_scope ms' = Inr ()" using proc by auto
  moreover have "check_pending_home ms' = Inr ()"
    using cc(9) pend same a by (cases "ms_pending_record ms'") auto
  moreover have "check_awaiting_home ms' = Inr ()" using a by simp
  ultimately have "machine_state_post_init ms' = Inr ()"
    unfolding machine_state_post_init_Inr by blast
  then show ?thesis
    using inv shape same unfolding machine_inv_def constructible_def by simp
qed

lemma normal_pending_kind:
  "machine_inv ms \<Longrightarrow> \<not> is_recording (ms_procedure ms) \<Longrightarrow> ms_pending_record ms = Some p \<Longrightarrow>
   pr_kind p \<noteq> K_INTEGRITY_INCIDENT"
  using constructible_checks(9) [of ms] by (auto simp: machine_inv_def)

lemma recording_facts:
  assumes "machine_inv ms" and "is_recording (ms_procedure ms)"
  shows "ms_awaiting ms = None" "ms_deferred_integrity ms \<noteq> []" "ms_state ms \<notin> TERMINAL_STATES"
    "\<And>p. ms_pending_record ms = Some p \<Longrightarrow> pr_kind p = K_INTEGRITY_INCIDENT"
  using assms constructible_checks(3,7) [of ms] by (auto simp: machine_inv_def)

lemma cancelling_facts:
  assumes "machine_inv ms" and "is_cancelling (ms_procedure ms)"
  shows "ms_awaiting ms = None" "ms_state ms \<noteq> S_MERGING" "ms_state ms \<notin> TERMINAL_STATES"
  using assms constructible_checks(3,7) [of ms] by (auto simp: machine_inv_def)

lemma deferred_canonical: "machine_inv ms \<Longrightarrow> canonical_violations (ms_deferred_integrity ms)"
  using constructible_checks(2) [of ms] by (simp add: machine_inv_def)

section \<open>Cancellation\<close>

lemma sound_start_cancel:
  assumes "rule_effect r = start_cancel consume" and "m_states (rule_match r) = NON_TERMINAL - {S_MERGING}"
    and "m_procedures (rule_match r) = {PK_NORMAL}" and "m_event_type (rule_match r) = ET_UserCancelVerified"
    and "rule_to_state r = SameStateCancelling" and "rule_command_names r = Commands [N_HaltRun]"
  shows "sound_rule r"
proof (rule sound_ruleI)
  fix ms e assume inv: "machine_inv ms" and m: "rule_matches r ms e"
  from match_facts(1-3) [OF m] assms obtain ev where e: "e = UserCancelVerified ev"
    and n: "ms_procedure ms = NormalProcedure"
    and s: "ms_state ms \<notin> TERMINAL_STATES" "ms_state ms \<noteq> S_MERGING"
    by (cases e) (auto simp del: in_TERMINAL)
  let ?ms = "ms\<lparr>ms_procedure := CancellingProcedure (re_binding ev), ms_awaiting := None,
    ms_pending_record := (if consume then None else ms_pending_record ms)\<rparr>"
  have "machine_inv ?ms"
    by (rule in_procedure_inv [OF inv])
       (use s n normal_pending_kind [OF inv] deferred_canonical [OF inv] in
         \<open>auto simp del: in_TERMINAL split: if_splits\<close>)
  then show "sound_result r ms (rule_effect r ms e)"
    unfolding assms(1) start_cancel_def e verified_evidence.simps option.case
    by (rule sound_returning_inv) (simp_all add: assms)
qed

lemma sound_bare_cancelled:
  "rule_effect r = bare_cancelled_effect \<Longrightarrow> rule_to_state r = ToState S_CANCELLED \<Longrightarrow>
   rule_command_names r = Commands [] \<Longrightarrow> sound_rule r"
  using terminal_inv [of S_CANCELLED]
  by (intro sound_ruleI) (simp add: bare_cancelled_effect_def MachineState_def sound_returning_inv)

lemma sound_cancel_to_incident: "sound_rule rule_C_04"
proof (rule sound_ruleI)
  fix ms e assume inv: "machine_inv ms" and m: "rule_matches rule_C_04 ms e"
  have s: "ms_state ms \<notin> TERMINAL_STATES" and d: "ms_deferred_integrity ms \<noteq> []"
    and p: "is_cancelling (ms_procedure ms)"
    using match_facts(1,3,8) [OF m] by (auto simp: rule_C_04_def Match_def)
  have "machine_inv (ms\<lparr>ms_procedure := RecordingIncidentProcedure IT_CANCELLED (ms_pending_record ms),
      ms_pending_record := None\<rparr>)"
    by (rule in_procedure_inv [OF inv])
       (use s d cancelling_facts [OF inv p] deferred_canonical [OF inv] in \<open>simp_all del: in_TERMINAL\<close>)
  then show "sound_result rule_C_04 ms (rule_effect rule_C_04 ms e)"
    by (simp add: rule_C_04_def cancel_completed_to_incident_def Let_def sound_returning_inv)
qed

lemma sound_cancel_rules: "list_all sound_rule CANCEL_RULES"
proof -
  have "sound_rule rule_C_01" "sound_rule rule_C_02"
     apply (rule sound_start_cancel [where consume = True]; simp add: rule_C_01_def Match_def)
    apply (rule sound_start_cancel [where consume = False]; simp add: rule_C_02_def Match_def)
    done
  moreover have "sound_rule rule_C_03" "sound_rule rule_C_05"
    by (rule sound_bare_cancelled; simp add: rule_C_03_def rule_C_05_def)+
  ultimately show ?thesis by (simp add: CANCEL_RULES_def sound_cancel_to_incident)
qed

section \<open>Failure\<close>

lemma failed_inv:
  assumes inv: "machine_inv ms" and n: "ms_procedure ms = NormalProcedure"
    and s: "ms_state ms \<in> ACTIVE_STATES" "ms_state ms \<noteq> S_MERGING"
  shows "machine_inv (ms\<lparr>ms_state := S_FAILED, ms_recovery_to := Some (ms_state ms)\<rparr>)"
proof -
  have c: "constructible ms" using inv by (rule machine_inv_constructible)
  note cc = constructible_checks [OF c]
  let ?ms = "ms\<lparr>ms_state := S_FAILED, ms_recovery_to := Some (ms_state ms)\<rparr>"
  have st: "ms_state ms \<notin> {S_BLOCKED, S_AWAITING_TOOL_PERMISSION, S_FAILED}" using s by auto
  have frames: "ms_block ms = None" "ms_return_to ms = None" "ms_deferred_integrity ms = []"
    using frame_block [OF c] frame_return [OF c] frame_deferred [OF c n] s st by auto
  have "check_canonical_deferred ?ms = Inr ()" "check_terminal_bare ?ms = Inr ()"
    "check_block_scope ?ms = Inr ()" "check_return_scope ?ms = Inr ()"
    "check_procedure_shape ?ms = Inr ()" "check_deferred_scope ?ms = Inr ()"
    using frames n by simp_all
  moreover have "check_recovery_scope ?ms = Inr ()" using s by (simp del: in_ACTIVE)
  moreover have "check_pending_home ?ms = Inr ()" using cc(9) st by simp
  moreover have "check_awaiting_home ?ms = Inr ()" using cc(10) st by simp
  ultimately have "machine_state_post_init ?ms = Inr ()"
    unfolding machine_state_post_init_Inr by blast
  then show ?thesis using n frames by (simp add: machine_inv_def constructible_def)
qed

lemma sound_unchanged:
  assumes "rule_effect r = unchanged_effect cs" and "rule_command_names r = names cs"
    and "rule_to_state r = SameState \<or> rule_to_state r = ToState s \<and> m_states (rule_match r) = {s}"
  shows "sound_rule r"
proof (rule sound_ruleI)
  fix ms e assume "machine_inv ms" and m: "rule_matches r ms e"
  then show "sound_result r ms (rule_effect r ms e)"
    using assms match_facts(1) [OF m] by (auto simp: sound_result_def unchanged_effect_def names_def)
qed

lemma sound_failure_rules: "list_all sound_rule FAILURE_RULES"
proof -
  have "sound_rule rule_F_01"
  proof (rule sound_ruleI)
    fix ms e assume inv: "machine_inv ms" and m: "rule_matches rule_F_01 ms e"
    have "machine_inv (ms\<lparr>ms_state := S_FAILED, ms_recovery_to := Some (ms_state ms)\<rparr>)"
      using match_facts(1,3) [OF m]
      by (intro failed_inv [OF inv]) (auto simp: rule_F_01_def Match_def simp del: in_ACTIVE)
    then show "sound_result rule_F_01 ms (rule_effect rule_F_01 ms e)"
      by (simp add: rule_F_01_def fail_to_recovery_def sound_returning_inv)
  qed
  moreover have "sound_rule rule_F_02"
    by (rule sound_unchanged [where cs = "[]"]) (simp_all add: rule_F_02_def names_def)
  ultimately show ?thesis by (simp add: FAILURE_RULES_def)
qed

section \<open>Reissue while a procedure is in progress\<close>

lemma sound_reissue:
  assumes "rule_to_state r = SameState" and "rule_command_names r = Commands ns"
    and "\<And>ms e. machine_inv ms \<Longrightarrow> rule_matches r ms e \<Longrightarrow>
      \<exists>cs. rule_effect r ms e = Inr (ms, cs) \<and> map command_type cs = ns"
  shows "sound_rule r"
  using assms by (intro sound_ruleI) (fastforce simp: sound_result_def)

lemma sound_reissue_cancel: "sound_rule (procedure_rule_cancel i et)"
  by (rule sound_reissue)
     (auto simp: procedure_rule_cancel_def reissue_halt_for_cancel_def Match_def dest!: match_facts(3))

lemma sound_reissue_halt: "sound_rule (procedure_rule_halt i et)"
  by (rule sound_reissue)
     (auto simp: procedure_rule_halt_def reissue_halt_for_block_def Match_def dest!: match_facts(3))

lemma sound_reissue_incident_request: "sound_rule (procedure_rule_incident_request i et)"
  by (rule sound_reissue)
     (auto simp: procedure_rule_incident_request_def reissue_incident_request_def Match_def
       dest!: match_facts(3))

lemma sound_reissue_persist: "sound_rule (procedure_rule_incident_persist i et)"
  by (rule sound_reissue)
     (auto simp: procedure_rule_incident_persist_def reissue_persist_def Match_def
       dest!: match_facts(5) pending_present)

lemma sound_procedure_rules: "list_all sound_rule PROCEDURE_RULES"
  by (auto simp: PROCEDURE_RULES_def list_all_iff sound_reissue_cancel sound_reissue_halt
      sound_reissue_incident_request sound_reissue_persist)

section \<open>Resumption\<close>

lemma recovery_facts:
  assumes "machine_inv ms" and "ms_recovery_to ms = Some r"
  shows "ms_state ms = S_FAILED" "r \<in> ACTIVE_STATES" "r \<noteq> S_MERGING" "r \<notin> TERMINAL_STATES"
    "r \<notin> {S_BLOCKED, S_AWAITING_TOOL_PERMISSION, S_FAILED}"
  using assms constructible_checks(5) [of ms] by (auto simp: machine_inv_def)

lemma failed_plain:
  assumes inv: "machine_inv ms" and n: "ms_procedure ms = NormalProcedure"
    and s: "ms_state ms = S_FAILED" and p: "ms_pending_record ms = None"
  shows "ms\<lparr>ms_state := r, ms_awaiting := a, ms_recovery_to := None\<rparr> = MachineState r\<lparr>ms_awaiting := a\<rparr>"
proof -
  have c: "constructible ms" using inv by (rule machine_inv_constructible)
  show ?thesis
    by (rule machine_state.equality)
       (simp_all add: MachineState_def n p frame_block [OF c] frame_return [OF c] frame_deferred [OF c n] s)
qed

lemma resumed_pending_inv:
  assumes inv: "machine_inv ms" and n: "ms_procedure ms = NormalProcedure"
    and p: "ms_pending_record ms = Some p" and differs: "pr_source_state p \<noteq> ms_state ms"
  shows "machine_inv (ms\<lparr>ms_state := pr_source_state p, ms_recovery_to := None\<rparr>)"
proof -
  have c: "constructible ms" using inv by (rule machine_inv_constructible)
  note cc = constructible_checks [OF c]
  have s: "ms_state ms = S_FAILED" and r: "ms_recovery_to ms = Some (pr_source_state p)"
    using cc(9) p differs by auto
  note rf = recovery_facts [OF inv r]
  have frames: "ms_block ms = None" "ms_return_to ms = None" "ms_deferred_integrity ms = []"
    using frame_block [OF c] frame_return [OF c] frame_deferred [OF c n] s by auto
  let ?ms = "ms\<lparr>ms_state := pr_source_state p, ms_recovery_to := None\<rparr>"
  have "check_canonical_deferred ?ms = Inr ()" "check_block_scope ?ms = Inr ()"
    "check_recovery_scope ?ms = Inr ()" "check_return_scope ?ms = Inr ()"
    "check_procedure_shape ?ms = Inr ()" "check_deferred_scope ?ms = Inr ()"
    using frames n rf(5) by simp_all
  moreover have "check_terminal_bare ?ms = Inr ()" using rf(4) by simp
  moreover have "check_pending_home ?ms = Inr ()" using cc(9) p rf(5) by simp
  moreover have "check_awaiting_home ?ms = Inr ()" using cc(10) s r rf(5) by auto
  ultimately have "machine_state_post_init ?ms = Inr ()"
    unfolding machine_state_post_init_Inr by blast
  then show ?thesis using n frames rf(3) by (simp add: machine_inv_def constructible_def)
qed

lemma sound_resume_pending: "sound_rule rule_R_P"
proof (rule sound_ruleI)
  fix ms e assume inv: "machine_inv ms" and m: "rule_matches rule_R_P ms e"
  have n: "ms_procedure ms = NormalProcedure" and "derive_pending ms e = PM_PRESENT"
    using match_facts(3,5) [OF m] by (auto simp: rule_R_P_def Match_def)
  then obtain p where p: "ms_pending_record ms = Some p" using pending_present by blast
  have "machine_inv (ms\<lparr>ms_state := pr_source_state p,
      ms_recovery_to := (if pr_source_state p = ms_state ms then ms_recovery_to ms else None)\<rparr>)"
    using resumed_pending_inv [OF inv n p] inv by (cases "pr_source_state p = ms_state ms") auto
  then show "sound_result rule_R_P ms (rule_effect rule_R_P ms e)"
    by (simp add: rule_R_P_def resume_pending_def p sound_returning_inv)
qed

lemma sound_resume_failed: "sound_rule rule_R_A1" "sound_rule rule_R_D"
proof -
  show "sound_rule rule_R_A1"
  proof (rule sound_ruleI)
    fix ms e assume inv: "machine_inv ms" and m: "rule_matches rule_R_A1 ms e"
    have n: "ms_procedure ms = NormalProcedure" and s: "ms_state ms = S_FAILED"
      and p: "ms_pending_record ms = None" and "ms_recovery_to ms \<noteq> None" "ms_awaiting ms \<noteq> None"
      using match_facts(1,3-5,13) [OF m] by (auto simp: rule_R_A1_def Match_def)
    then obtain r a where r: "ms_recovery_to ms = Some r" and a: "ms_awaiting ms = Some a" by blast
    have home: "r \<in> AWAITING_HOME a"
      using constructible_checks(10) [OF machine_inv_constructible [OF inv]] s r a by auto
    have "ms\<lparr>ms_state := r, ms_recovery_to := None\<rparr> = MachineState r\<lparr>ms_awaiting := Some a\<rparr>"
      using failed_plain [OF inv n s p, where r = r and a = "Some a"]
      by (rule subst) (rule machine_state.equality, simp_all add: a)
    moreover have "machine_inv (MachineState r\<lparr>ms_awaiting := Some a\<rparr>)"
      using home recovery_facts [OF inv r] by (intro plain_inv) (simp_all add: plain_target_def)
    ultimately show "sound_result rule_R_A1 ms (rule_effect rule_R_A1 ms e)"
      by (simp add: rule_R_A1_def resume_awaiting_failed_def r a MachineState_def sound_returning_inv)
  qed
  show "sound_rule rule_R_D"
  proof (rule sound_ruleI)
    fix ms e assume inv: "machine_inv ms" and m: "rule_matches rule_R_D ms e"
    have n: "ms_procedure ms = NormalProcedure" and s: "ms_state ms = S_FAILED"
      and p: "ms_pending_record ms = None" and "ms_recovery_to ms \<noteq> None"
      using match_facts(1,3-5,13) [OF m] by (auto simp: rule_R_D_def Match_def)
    then obtain r where r: "ms_recovery_to ms = Some r" by blast
    obtain cs a where d: "DRIVE_TABLE r = Some (cs, a)"
      using drive_table_total recovery_facts [OF inv r] by blast
    show "sound_result rule_R_D ms (rule_effect rule_R_D ms e)"
      using plain_inv [OF drive_plain [OF d]] recovery_facts(3) [OF inv r]
      by (simp add: rule_R_D_def resume_drive_def r d failed_plain [OF inv n s p] MachineState_def
          sound_returning_inv)
  qed
qed

lemma sound_resume_live: "sound_rule rule_R_A2"
proof (rule sound_ruleI)
  fix ms e assume inv: "machine_inv ms" and m: "rule_matches rule_R_A2 ms e"
  obtain a where "ms_awaiting ms = Some a"
    using match_facts(4) [OF m] by (auto simp: rule_R_A2_def Match_def)
  then show "sound_result rule_R_A2 ms (rule_effect rule_R_A2 ms e)"
    using inv by (simp add: rule_R_A2_def resume_awaiting_live_def sound_result_def)
qed

lemma sound_resume_simple: "sound_rule rule_R_CI" "sound_rule rule_R_RT"
proof -
  show "sound_rule rule_R_CI"
  proof (rule sound_ruleI)
    fix ms e assume inv: "machine_inv ms" and m: "rule_matches rule_R_CI ms e"
    have n: "ms_procedure ms = NormalProcedure" and st: "ms_state ms = S_WAITING_CI"
      and p: "ms_pending_record ms = None"
      using match_facts(1,3,5) [OF m] by (auto simp: rule_R_CI_def Match_def)
    have s: "simple_source (ms_state ms)" by (simp add: st simple_source_def)
    have "ms\<lparr>ms_awaiting := Some A_CI_RESULT\<rparr> = MachineState S_WAITING_CI\<lparr>ms_awaiting := Some A_CI_RESULT\<rparr>"
      using simple_source_update [OF inv n s, where s = S_WAITING_CI and a = "Some A_CI_RESULT"]
      by (rule subst) (rule machine_state.equality, simp_all add: p st)
    then show "sound_result rule_R_CI ms (rule_effect rule_R_CI ms e)"
      using plain_inv [of S_WAITING_CI "Some A_CI_RESULT"]
      by (simp add: rule_R_CI_def resume_ci_effect_def plain_target_def MachineState_def
          sound_returning_inv)
  qed
  show "sound_rule rule_R_RT"
  proof (rule sound_ruleI)
    fix ms e assume inv: "machine_inv ms" and m: "rule_matches rule_R_RT ms e"
    have n: "ms_procedure ms = NormalProcedure" and s: "simple_source (ms_state ms)"
      and p: "ms_pending_record ms = None"
      using match_facts(1,3,5) [OF m] by (auto simp: rule_R_RT_def Match_def simple_source_def)
    have "ms\<lparr>ms_state := S_GENERATING_REPORT, ms_awaiting := Some A_REPORT\<rparr> =
        MachineState S_GENERATING_REPORT\<lparr>ms_awaiting := Some A_REPORT\<rparr>"
      using simple_source_update [OF inv n s, where s = S_GENERATING_REPORT and a = "Some A_REPORT"]
      by (rule subst) (rule machine_state.equality, simp_all add: p)
    then show "sound_result rule_R_RT ms (rule_effect rule_R_RT ms e)"
      using plain_inv [of S_GENERATING_REPORT "Some A_REPORT"]
      by (simp add: rule_R_RT_def report_retry_effect_def plain_target_def MachineState_def
          sound_returning_inv)
  qed
qed

lemma sound_resume_rules: "list_all sound_rule RESUME_RULES"
proof -
  have "sound_rule rule_R_F" "sound_rule rule_R_FB"
    by (rule sound_fresh_review; simp add: rule_R_F_def rule_R_FB_def)+
  moreover have "sound_rule rule_R_B"
    by (rule sound_unchanged [where cs = "[]" and s = S_BLOCKED])
       (simp_all add: rule_R_B_def Match_def names_def)
  ultimately show ?thesis
    by (simp add: RESUME_RULES_def sound_resume_pending sound_resume_failed sound_resume_live
        sound_resume_simple)
qed

lemma sound_recovery_rules: "list_all sound_rule RECOVERY_RULES"
  by (simp add: RECOVERY_RULES_def sound_merge_rules sound_cancel_rules sound_failure_rules
      sound_procedure_rules sound_resume_rules)

end
