(* ===== verification/Soundness_Integrity.thy ===== *)
theory Soundness_Integrity
  imports Soundness_Recovery
begin

text \<open>
  Detection, the incident record, the halt gate and the ways out of a block are sound; with them
  every rule of the registry is.
\<close>

section \<open>Detection\<close>

lemma block_kind_iff [simp]:
  "block_kind_of x = BK_PROGRESS \<longleftrightarrow> (\<exists>b. x = ProgressBlock b)"
  "block_kind_of x = BK_EXTERNAL_DEPENDENCY \<longleftrightarrow> (\<exists>b. x = ExternalDependencyBlock b)"
  "block_kind_of x = BK_RECORD_INTEGRITY \<longleftrightarrow> (\<exists>b. x = RecordIntegrityBlock b)"
  by (cases x; simp)+

lemma union_deferred_facts [simp]:
  "canonical_violations (union_deferred ms ev)" "union_deferred ms ev \<noteq> []"
  by (simp_all add: union_deferred_def)

lemma detected:
  "event_type_of e = ET_RecordIntegrityViolationDetected \<Longrightarrow> \<exists>ev. e = RecordIntegrityViolationDetected ev"
  by (cases e) auto

lemma integrity_block_inv:
  "integrity_block_check b = Inr () \<Longrightarrow>
   machine_inv (MachineState S_BLOCKED\<lparr>ms_block := Some (RecordIntegrityBlock b)\<rparr>)"
  by (rule blocked_inv) (simp_all)

lemma sound_detect_union: "sound_rule rule_I_D1" "sound_rule rule_I_D2"
proof -
  show "sound_rule rule_I_D1"
  proof (rule sound_ruleI)
    fix ms e assume inv: "machine_inv ms" and m: "rule_matches rule_I_D1 ms e"
    have p: "is_recording (ms_procedure ms)" and "event_type_of e = ET_RecordIntegrityViolationDetected"
      using match_facts(2,3) [OF m] by (auto simp: rule_I_D1_def Match_def)
    then obtain ev where e: "e = RecordIntegrityViolationDetected ev" using detected by blast
    have "machine_inv (ms\<lparr>ms_deferred_integrity := union_deferred ms ev\<rparr>)"
      by (rule in_procedure_inv [OF inv])
         (use p recording_facts [OF inv p] in \<open>simp_all del: in_TERMINAL\<close>)
    then show "sound_result rule_I_D1 ms (rule_effect rule_I_D1 ms e)"
      by (simp add: rule_I_D1_def e INVALIDATE_def sound_returning_inv)
  qed
  show "sound_rule rule_I_D2"
  proof (rule sound_ruleI)
    fix ms e assume inv: "machine_inv ms" and m: "rule_matches rule_I_D2 ms e"
    have p: "is_cancelling (ms_procedure ms)" and "event_type_of e = ET_RecordIntegrityViolationDetected"
      using match_facts(2,3) [OF m] by (auto simp: rule_I_D2_def Match_def)
    then obtain ev where e: "e = RecordIntegrityViolationDetected ev" using detected by blast
    have "\<not> is_recording (ms_procedure ms)" using p by (cases "ms_procedure ms") auto
    then have "machine_inv (ms\<lparr>ms_deferred_integrity := union_deferred ms ev\<rparr>)"
      by (intro in_procedure_inv [OF inv])
         (use p cancelling_facts [OF inv p] normal_pending_kind [OF inv] in \<open>auto simp del: in_TERMINAL\<close>)
    then show "sound_result rule_I_D2 ms (rule_effect rule_I_D2 ms e)"
      by (simp add: rule_I_D2_def e INVALIDATE_def sound_returning_inv)
  qed
qed

lemma sound_detect_merging: "sound_rule rule_I_D3"
proof (rule sound_ruleI)
  fix ms e assume inv: "machine_inv ms" and m: "rule_matches rule_I_D3 ms e"
  have n: "ms_procedure ms = NormalProcedure" and s: "ms_state ms = S_MERGING"
    and "event_type_of e = ET_RecordIntegrityViolationDetected"
    and "\<exists>a \<in> MERGE_OUTCOME_AWAITINGS. ms_awaiting ms = Some a"
    using match_facts(1-4) [OF m] by (auto simp: rule_I_D3_def Match_def)
  then obtain ev a where e: "e = RecordIntegrityViolationDetected ev"
    and a: "ms_awaiting ms = Some a" "a \<in> MERGE_OUTCOME_AWAITINGS" using detected by blast
  have "machine_inv (ms\<lparr>ms_deferred_integrity := union_deferred ms ev\<rparr>)"
    by (rule merging_keep [OF inv n s, where a = a]) (simp_all add: n s a)
  then show "sound_result rule_I_D3 ms (rule_effect rule_I_D3 ms e)"
    by (simp add: rule_I_D3_def e s INVALIDATE_def sound_returning_inv)
qed

lemma sound_detect_direct:
  assumes "rule_effect r = detect_direct_block_effect"
    and "m_event_type (rule_match r) = ET_RecordIntegrityViolationDetected"
    and "rule_to_state r = ToState S_BLOCKED" and "rule_command_names r = Commands [N_InvalidateApprovals]"
  shows "sound_rule r"
proof (rule sound_ruleI)
  fix ms e assume m: "rule_matches r ms e"
  obtain ev where e: "e = RecordIntegrityViolationDetected ev"
    using match_facts(2) [OF m] assms detected by auto
  have "mk_integrity_block [ev] = Inr \<lparr>ri_violations = [ev]\<rparr>"
    by (simp add: mk_integrity_block_Inr)
  then show "sound_result r ms (rule_effect r ms e)"
    using integrity_block_inv [of "\<lparr>ri_violations = [ev]\<rparr>"]
    by (simp add: assms e INVALIDATE_def MachineState_def sound_returning_inv)
qed

text \<open>The halt gate keeps the state and empties the slots.\<close>

lemma halting_inv:
  assumes inv: "machine_inv ms" and s: "ms_state ms \<in> ACTIVE_STATES" "ms_state ms \<noteq> S_MERGING"
    and b: "integrity_block_check b = Inr ()" "a \<in> ie_binding ` set (ri_violations b)"
  shows "machine_inv (ms\<lparr>ms_procedure := HaltingForBlockProcedure b a, ms_awaiting := None,
    ms_pending_record := None, ms_deferred_integrity := []\<rparr>)"
proof -
  have c: "constructible ms" using inv by (rule machine_inv_constructible)
  have st: "ms_state ms \<notin> {S_BLOCKED, S_AWAITING_TOOL_PERMISSION, S_FAILED}" using s by auto
  have frames: "ms_block ms = None" "ms_return_to ms = None" "ms_recovery_to ms = None"
    using frame_block [OF c] frame_return [OF c] frame_recovery [OF c] st by auto
  let ?ms = "ms\<lparr>ms_procedure := HaltingForBlockProcedure b a, ms_awaiting := None,
    ms_pending_record := None, ms_deferred_integrity := []\<rparr>"
  have "check_canonical_deferred ?ms = Inr ()" "check_recovery_scope ?ms = Inr ()"
    "check_deferred_scope ?ms = Inr ()" "check_pending_home ?ms = Inr ()" "check_awaiting_home ?ms = Inr ()"
    using frames by simp_all
  moreover have "check_terminal_bare ?ms = Inr ()" "check_block_scope ?ms = Inr ()"
    "check_return_scope ?ms = Inr ()"
    using frames s st by auto
  moreover have "check_procedure_shape ?ms = Inr ()" using s by (simp del: in_ACTIVE)
  ultimately have "machine_state_post_init ?ms = Inr ()"
    unfolding machine_state_post_init_Inr by blast
  then show ?thesis using b frames by (auto simp: machine_inv_def constructible_def guard_all_Inr)
qed

lemma sound_halt_gate: "sound_rule rule_I_D5"
proof (rule sound_ruleI)
  fix ms e assume inv: "machine_inv ms" and m: "rule_matches rule_I_D5 ms e"
  have s: "ms_state ms \<in> ACTIVE_STATES" "ms_state ms \<noteq> S_MERGING"
    and "event_type_of e = ET_RecordIntegrityViolationDetected"
    using match_facts(1,2) [OF m] by (simp_all add: rule_I_D5_def Match_def del: in_ACTIVE)
  then obtain ev where e: "e = RecordIntegrityViolationDetected ev" using detected by blast
  let ?b = "\<lparr>ri_violations = [ev]\<rparr>"
  have "mk_integrity_block [ev] = Inr ?b"
    "mk_halting ?b (ie_binding ev) = Inr (HaltingForBlockProcedure ?b (ie_binding ev))"
    by (simp_all add: mk_integrity_block_Inr mk_halting_Inr)
  then show "sound_result rule_I_D5 ms (rule_effect rule_I_D5 ms e)"
    using halting_inv [OF inv s, of ?b "ie_binding ev"]
    by (simp add: rule_I_D5_def e INVALIDATE_def sound_returning_inv)
qed

lemma sound_halt_gate_union: "sound_rule rule_I_D5u"
proof (rule sound_ruleI)
  fix ms e assume inv: "machine_inv ms" and m: "rule_matches rule_I_D5u ms e"
  have c: "constructible ms" using inv by (rule machine_inv_constructible)
  have s: "ms_state ms \<in> ACTIVE_STATES" "ms_state ms \<noteq> S_MERGING"
    using match_facts(1) [OF m] by (simp_all add: rule_I_D5u_def Match_def del: in_ACTIVE)
  obtain ev b a where e: "e = RecordIntegrityViolationDetected ev"
    and p: "ms_procedure ms = HaltingForBlockProcedure b a"
    using match_facts(2,3) [OF m] detected [of e] by (auto simp: rule_I_D5u_def Match_def)
  let ?vs = "canonicalize_integrity (ri_violations b @ [ev])" let ?b = "\<lparr>ri_violations = ?vs\<rparr>"
  have a: "a \<in> ie_binding ` set (ri_violations ?b)"
    using constructible_checks(1) [OF c] p by (auto simp: guard_all_Inr)
  then have mk: "mk_integrity_block ?vs = Inr ?b" "mk_halting ?b a = Inr (HaltingForBlockProcedure ?b a)"
    by (simp_all add: mk_integrity_block_Inr mk_halting_Inr)
  have "ms\<lparr>ms_procedure := HaltingForBlockProcedure ?b a, ms_awaiting := None,
      ms_pending_record := None, ms_deferred_integrity := []\<rparr> =
    ms\<lparr>ms_procedure := HaltingForBlockProcedure ?b a\<rparr>"
    using constructible_checks(7) [OF c] p by (intro machine_state.equality) simp_all
  then have "machine_inv (ms\<lparr>ms_procedure := HaltingForBlockProcedure ?b a\<rparr>)"
    using halting_inv [OF inv s, of ?b a] a by simp
  then show "sound_result rule_I_D5u ms (rule_effect rule_I_D5u ms e)"
    using mk by (simp add: rule_I_D5u_def e p INVALIDATE_def sound_returning_inv)
qed

lemma sound_detect_blocked: "sound_rule rule_I_D7"
proof (rule sound_ruleI)
  fix ms e assume inv: "machine_inv ms" and m: "rule_matches rule_I_D7 ms e"
  have s: "ms_state ms = S_BLOCKED" and "event_type_of e = ET_RecordIntegrityViolationDetected"
    and "\<exists>b. ms_block ms = Some (RecordIntegrityBlock b)"
    using match_facts(1,2,10) [OF m] by (auto simp: rule_I_D7_def Match_def)
  then obtain ev b where e: "e = RecordIntegrityViolationDetected ev"
    and b: "ms_block ms = Some (RecordIntegrityBlock b)" using detected by blast
  let ?vs = "canonicalize_integrity (ri_violations b @ [ev])" let ?b = "\<lparr>ri_violations = ?vs\<rparr>"
  let ?ms = "ms\<lparr>ms_block := Some (RecordIntegrityBlock ?b)\<rparr>"
  note cc = constructible_checks [OF machine_inv_constructible [OF inv]]
  have same: "check_canonical_deferred ?ms = check_canonical_deferred ms"
    "check_recovery_scope ?ms = check_recovery_scope ms" "check_return_scope ?ms = check_return_scope ms"
    "check_procedure_shape ?ms = check_procedure_shape ms"
    "check_deferred_scope ?ms = check_deferred_scope ms" "check_pending_home ?ms = check_pending_home ms"
    "check_awaiting_home ?ms = check_awaiting_home ms"
    by (simp_all add: check_canonical_deferred_def check_recovery_scope_def check_return_scope_def
        check_procedure_shape_def check_deferred_scope_def check_pending_home_def
        check_awaiting_home_def cong: option.case_cong)
  have "check_terminal_bare ?ms = Inr ()" "check_block_scope ?ms = Inr ()"
    using s cc(4) by simp_all
  then have "machine_state_post_init ?ms = Inr ()"
    unfolding machine_state_post_init_Inr same using cc by blast
  then have "machine_inv ?ms" using cc(1) s by (simp add: machine_inv_def constructible_def)
  moreover have "mk_integrity_block ?vs = Inr ?b" by (simp add: mk_integrity_block_Inr)
  ultimately show "sound_result rule_I_D7 ms (rule_effect rule_I_D7 ms e)"
    by (simp add: rule_I_D7_def e b s INVALIDATE_def sound_returning_inv)
qed

lemma sound_detection_rules: "list_all sound_rule DETECTION_RULES"
proof -
  have "sound_rule rule_I_D4" "sound_rule rule_I_D6" "sound_rule rule_I_D8"
    by (rule sound_detect_direct; simp add: rule_I_D4_def rule_I_D6_def rule_I_D8_def Match_def)+
  then show ?thesis
    by (simp add: DETECTION_RULES_def sound_detect_union sound_detect_merging sound_halt_gate
        sound_halt_gate_union sound_detect_blocked)
qed

section \<open>The incident record\<close>

lemma sound_incident_produced: "sound_rule rule_I_P"
proof (rule sound_ruleI)
  fix ms e assume inv: "machine_inv ms" and m: "rule_matches rule_I_P ms e"
  have p: "is_recording (ms_procedure ms)" using match_facts(3) [OF m] by (auto simp: rule_I_P_def Match_def)
  obtain b where e: "e = RecordProduced K_INTEGRITY_INCIDENT b"
    using match_facts(2,6) [OF m] by (cases e) (auto simp: rule_I_P_def Match_def)
  have "machine_inv (ms\<lparr>ms_pending_record :=
      Some \<lparr>pr_kind = K_INTEGRITY_INCIDENT, pr_binding = b, pr_source_state = ms_state ms\<rparr>\<rparr>)"
    by (rule in_procedure_inv [OF inv])
       (use p recording_facts [OF inv p] deferred_canonical [OF inv] in \<open>auto simp del: in_TERMINAL\<close>)
  then show "sound_result rule_I_P ms (rule_effect rule_I_P ms e)"
    by (simp add: rule_I_P_def e sound_returning_inv)
qed

lemma sound_incident_complete: "sound_rule rule_I_VC"
proof (rule sound_ruleI)
  fix ms e assume m: "rule_matches rule_I_VC ms e"
  obtain t a where "ms_procedure ms = RecordingIncidentProcedure t a"
    using match_facts(3) [OF m] by (auto simp: rule_I_VC_def Match_def)
  then show "sound_result rule_I_VC ms (rule_effect rule_I_VC ms e)"
    using terminal_inv [of S_MERGED] terminal_inv [of S_CANCELLED]
    by (simp add: rule_I_VC_def incident_complete_effect_def MachineState_def sound_returning_inv)
qed

lemma remainder_nonempty:
  "derive_coverage ms (IntegrityIncidentVerified ev recorded) = Some IC_REMAINDER \<Longrightarrow>
   filter (\<lambda>r. ie_binding r \<notin> set recorded) (ms_deferred_integrity ms) \<noteq> []"
  by (auto simp: filter_empty_conv split: if_splits)

lemma sound_incident_remainder: "sound_rule rule_I_VR"
proof (rule sound_ruleI)
  fix ms e assume inv: "machine_inv ms" and m: "rule_matches rule_I_VR ms e"
  obtain t a where q: "ms_procedure ms = RecordingIncidentProcedure t a"
    using match_facts(3) [OF m] by (auto simp: rule_I_VR_def Match_def)
  then have p: "is_recording (ms_procedure ms)" by simp
  obtain ev recorded where e: "e = IntegrityIncidentVerified ev recorded"
    using match_facts(2) [OF m] by (cases e) (auto simp: rule_I_VR_def Match_def)
  let ?rest = "filter (\<lambda>r. ie_binding r \<notin> set recorded) (ms_deferred_integrity ms)"
  have "derive_coverage ms e = Some IC_REMAINDER"
    using match_facts(12) [OF m] by (simp add: rule_I_VR_def Match_def)
  then have rest: "?rest \<noteq> []" unfolding e by (rule remainder_nonempty)
  have "machine_inv (ms\<lparr>ms_pending_record := None, ms_deferred_integrity := ?rest\<rparr>)"
    by (rule in_procedure_inv [OF inv])
       (use p rest recording_facts [OF inv p] canonical_filter [OF deferred_canonical [OF inv]]
         in \<open>simp_all del: in_TERMINAL\<close>)
  then show "sound_result rule_I_VR ms (rule_effect rule_I_VR ms e)"
    by (simp add: rule_I_VR_def e q Let_def sound_returning_inv)
qed

section \<open>Merge outcomes with deferred violations\<close>

lemma sound_outcome_to_incident:
  assumes "rule_effect r = outcome_to_incident t" and "m_states (rule_match r) = {S_MERGING}"
    and "m_procedures (rule_match r) = {PK_NORMAL}" and "m_pending (rule_match r) = Some ABSENT"
    and "m_deferred_nonempty (rule_match r) = Some True"
    and "rule_to_state r = MergingIncident" and "rule_command_names r = Commands [N_RecordIntegrityIncident]"
  shows "sound_rule r"
proof (rule sound_ruleI)
  fix ms e assume inv: "machine_inv ms" and m: "rule_matches r ms e"
  have s: "ms_state ms = S_MERGING" and p: "ms_pending_record ms = None"
    and d: "ms_deferred_integrity ms \<noteq> []"
    using match_facts(1,5,8) [OF m] by (simp_all add: assms)
  have "machine_inv (ms\<lparr>ms_procedure := RecordingIncidentProcedure t None, ms_awaiting := None\<rparr>)"
    by (rule in_procedure_inv [OF inv]) (use s p d deferred_canonical [OF inv] in simp_all)
  then show "sound_result r ms (rule_effect r ms e)"
    by (simp add: assms outcome_to_incident_def s sound_returning_inv)
qed

lemma sound_outcome_to_block: "sound_rule rule_I_48"
proof (rule sound_ruleI)
  fix ms e assume inv: "machine_inv ms" and m: "rule_matches rule_I_48 ms e"
  have "ms_deferred_integrity ms \<noteq> []"
    using match_facts(8) [OF m] by (simp add: rule_I_48_def Match_def)
  then have "mk_integrity_block (ms_deferred_integrity ms) = Inr \<lparr>ri_violations = ms_deferred_integrity ms\<rparr>"
    "integrity_block_check \<lparr>ri_violations = ms_deferred_integrity ms\<rparr> = Inr ()"
    using deferred_canonical [OF inv] by (simp_all add: mk_integrity_block_Inr)
  then show "sound_result rule_I_48 ms (rule_effect rule_I_48 ms e)"
    using integrity_block_inv
    by (simp add: rule_I_48_def outcome_failure_to_block_def MachineState_def sound_returning_inv)
qed

section \<open>The halt gate and the ways out of a block\<close>

lemma sound_halt_completed: "sound_rule rule_B_HC"
proof (rule sound_ruleI)
  fix ms e assume inv: "machine_inv ms" and m: "rule_matches rule_B_HC ms e"
  obtain b a where p: "ms_procedure ms = HaltingForBlockProcedure b a"
    using match_facts(3) [OF m] by (auto simp: rule_B_HC_def Match_def)
  have "integrity_block_check b = Inr ()"
    using constructible_checks(1) [OF machine_inv_constructible [OF inv]] p by (simp add: guard_all_Inr)
  then show "sound_result rule_B_HC ms (rule_effect rule_B_HC ms e)"
    using integrity_block_inv [of b]
    by (simp add: rule_B_HC_def halt_completed_effect_def p MachineState_def sound_returning_inv)
qed

lemma sound_replay:
  assumes "rule_effect r = replay_continuation"
    and "m_block_kinds (rule_match r) = Some {BK_PROGRESS} \<or>
         m_block_kinds (rule_match r) = Some {BK_EXTERNAL_DEPENDENCY}"
    and "rule_to_state r = ContinuationState" and "rule_command_names r = SavedCommands"
  shows "sound_rule r"
proof (rule sound_ruleI)
  fix ms e assume inv: "machine_inv ms" and m: "rule_matches r ms e"
  obtain b c where b: "ms_block ms = Some b" "block_continuation b = Some c"
    using match_facts(10) [OF m] assms(2) by auto
  have c: "c \<in> registry_continuations" using inv b by (simp add: machine_inv_def)
  show "sound_result r ms (rule_effect r ms e)"
    using plain_inv [OF continuation_plain [OF c]] continuation_not_merging [OF c]
    by (simp add: assms replay_continuation_def b MachineState_def sound_returning_inv)
qed

lemma sound_integrity_rules: "list_all sound_rule INTEGRITY_RULES"
proof -
  have "sound_rule rule_I_46"
    by (rule sound_outcome_to_incident [where t = IT_MERGED]) (simp_all add: rule_I_46_def Match_def)
  moreover have "sound_rule rule_I_47"
    by (rule sound_outcome_to_incident [where t = IT_CANCELLED]) (simp_all add: rule_I_47_def Match_def)
  moreover have "sound_rule rule_I_49"
    by (rule sound_unchanged [where cs = "[QueryMergeOutcome]" and s = S_MERGING])
       (simp_all add: rule_I_49_def Match_def names_def)
  moreover have "sound_rule rule_B_LR" "sound_rule rule_B_IV1" "sound_rule rule_B_IV2"
    by (rule sound_replay; simp add: rule_B_LR_def rule_B_IV1_def rule_B_IV2_def Match_def)+
  moreover have "sound_rule rule_B_RS" "sound_rule rule_B_SV"
    by (rule sound_fresh_review; simp add: rule_B_RS_def rule_B_SV_def)+
  ultimately show ?thesis
    by (simp add: INTEGRITY_RULES_def INCIDENT_RULES_def MERGE_INTEGRITY_RULES_def
        BLOCK_RESOLUTION_RULES_def sound_detection_rules sound_incident_produced
        sound_incident_complete sound_incident_remainder sound_outcome_to_block sound_halt_completed)
qed

theorem sound_registry: "list_all sound_rule REGISTRY"
  by (simp add: REGISTRY_def sound_produced_rules sound_workflow_rules sound_recovery_rules
      sound_integrity_rules)

end
