(* ===== verification/Machine_Safety.thy ===== *)
theory Machine_Safety
  imports Soundness_Integrity
begin

text \<open>
  The state machine as an instance of the interfaces: its runs, its reachable states, the
  invariant along them, and what an accepted step says about the state and the commands it leads to.
\<close>

section \<open>Initial and reachable states\<close>

definition initial :: "machine_state \<Rightarrow> bool" where
  "initial ms \<longleftrightarrow>
     list_ex (\<lambda>e. case initialize e of Inl _ \<Rightarrow> False | Inr (ms', _) \<Rightarrow> ms' = ms) [PreflightOk, PreflightNg]"

abbreviation machine_run :: "machine_state \<Rightarrow> (event \<times> command list \<times> machine_state) list \<Rightarrow> bool" where
  "machine_run \<equiv> is_run transition (\<lambda>e. legal_event e)"

abbreviation reachable :: "machine_state \<Rightarrow> bool" where
  "reachable \<equiv> reach transition (\<lambda>e. legal_event e) initial"

lemma initialize_ok:
  "initialize PreflightOk =
     Inr (MachineState S_RUNNING_REVIEW\<lparr>ms_awaiting := Some A_CODEX_CODE_REVIEW\<rparr>,
          [RequestCodexReview CP_CODE_REVIEW])"
  using fresh_review_inv by (simp add: initialize_def returning_ok machine_inv_post_init)

lemma failed_bare_inv: "machine_inv (MachineState S_FAILED)"
  by (simp add: machine_inv_def constructible_def machine_state_post_init_Inr MachineState_def)

lemma initialize_ng: "initialize PreflightNg = Inr (MachineState S_FAILED, [])"
  using failed_bare_inv by (simp add: initialize_def returning_ok machine_inv_post_init)

lemma initial_iff:
  "initial ms \<longleftrightarrow>
     ms = MachineState S_RUNNING_REVIEW\<lparr>ms_awaiting := Some A_CODEX_CODE_REVIEW\<rparr> \<or> ms = MachineState S_FAILED"
  by (auto simp: initial_def initialize_ok initialize_ng)

lemma initial_inv: "initial ms \<Longrightarrow> machine_inv ms"
  using fresh_review_inv failed_bare_inv by (auto simp: initial_iff)

section \<open>The transition function keeps the invariant\<close>

lemma registry_sound:
  "r \<in> set REGISTRY \<Longrightarrow> machine_inv ms \<Longrightarrow> legal_event e \<Longrightarrow> rule_matches r ms e \<Longrightarrow>
   sound_result r ms (rule_effect r ms e)"
  using sound_registry by (simp add: list_all_iff sound_rule_def)

lemma transition_sound:
  assumes "machine_inv ms" and "legal_event e" and "transition ms e = Inr (ms', cs)"
  obtains r where "r \<in> set REGISTRY" "rule_matches r ms e" "machine_inv ms'"
    "to_state_ok (rule_to_state r) ms ms'" "commands_ok (rule_command_names r) ms cs"
    "rule_effect r ms e = Inr (ms', cs)" "m_event_type (rule_match r) = event_type_of e"
proof -
  obtain r where r: "r \<in> set (rules_for (event_type_of e))" "rule_matches r ms e"
    "rule_effect r ms e = Inr (ms', cs)"
    using assms(3) by (rule transition_accepted)
  then have reg: "r \<in> set REGISTRY" "m_event_type (rule_match r) = event_type_of e"
    by (auto simp: rules_for_filter)
  then have "sound_result r ms (Inr (ms', cs))"
    using registry_sound [OF _ assms(1,2) r(2)] r(3) by simp
  then show ?thesis using that r reg by (simp add: sound_result_def)
qed

lemma transition_inv:
  "machine_inv ms \<Longrightarrow> legal_event e \<Longrightarrow> transition ms e = Inr (ms', cs) \<Longrightarrow> machine_inv ms'"
  by (erule (2) transition_sound)

definition rejection :: "machine_state \<Rightarrow> domain_error \<Rightarrow> bool" where
  "rejection ms err \<longleftrightarrow>
     (case err of TransitionRejected s _ why \<Rightarrow>
        s = ms_state ms \<and> (why = TerminalStateRejectsAll \<longleftrightarrow> ms_state ms \<in> TERMINAL_STATES)
      | _ \<Rightarrow> False)"

lemma transition_error:
  assumes "machine_inv ms" and "legal_event e" and "transition ms e = Inl err"
  shows "rejection ms err"
proof (cases rule: transition_cases [of ms e])
  case (rule r)
  then have "r \<in> set REGISTRY" using rules_for_subset by blast
  then have "sound_result r ms (transition ms e)"
    using registry_sound [OF _ assms(1,2) rule(3)] rule(4) by simp
  then show ?thesis using assms by (simp add: sound_result_def)
qed (use assms in \<open>auto simp: rejected_def rejection_def\<close>)

interpretation machine: safe_step_system transition "\<lambda>e. legal_event e" machine_inv rejection
  by unfold_locales (use transition_inv transition_error in blast)+

lemma reachable_inv: "reachable ms \<Longrightarrow> machine_inv ms"
  by (rule machine.reach_inv [OF initial_inv])

lemma reachable_step:
  "reachable ms \<Longrightarrow> legal_event e \<Longrightarrow> transition ms e = Inr (ms', cs) \<Longrightarrow> reachable ms'"
  by (rule reach_step)

end
