(* ===== verification/Lifecycle.thy ===== *)
theory Lifecycle
  imports Machine_Safety
begin

text \<open>
  An abstract specification of the life of a run: its phase, the violations that have to be
  recorded before it ends, and the violations a block holds. The detailed machine, with its 17
  states, awaiting slots and pending records, refines it; what the program promises about merging,
  cancelling and violations is then proved on the 30 steps of the specification.
\<close>

section \<open>The specification\<close>

datatype phase =
    Open
  | Merging awaiting
  | Cancelling opaque_binding
  | Halting opaque_binding
  | Recording incident_target
  | Done incident_target

record lifecycle =
  lc_phase :: phase
  lc_open :: "opaque_binding set"
  lc_held :: "opaque_binding set"

definition Life :: "phase \<Rightarrow> opaque_binding set \<Rightarrow> opaque_binding set \<Rightarrow> lifecycle" where
  "Life p d b = \<lparr>lc_phase = p, lc_open = d, lc_held = b\<rparr>"

text \<open>Events that neither end a run nor touch the merge transaction, a procedure or a violation.\<close>

definition ordinary :: "event \<Rightarrow> bool" where
  "ordinary e \<longleftrightarrow>
     event_type_of e \<notin>
       {ET_MergeApprovalVerified, ET_MergePreconditionsOk, ET_MergePreconditionMismatch,
        ET_MergeConfirmed, ET_MergeNotExecutedConfirmed, ET_MergeOutcomeUnknown,
        ET_UserCancelVerified, ET_CancellationCompleted, ET_BlockHaltCompleted,
        ET_RecordIntegrityViolationDetected, ET_IntegrityIncidentVerified,
        ET_IntegrityRestoredValidated, ET_IntegritySalvageEstablished}"

text \<open>Events that a procedure answers by repeating its request.\<close>

definition reissued :: "event \<Rightarrow> bool" where
  "reissued e \<longleftrightarrow> event_type_of e \<in> set (ET_RunFailed # RESUME_EVENTS)"

abbreviation outcome :: "awaiting \<Rightarrow> bool" where
  "outcome a \<equiv> a \<in> MERGE_OUTCOME_AWAITINGS"

inductive lifecycle_step :: "lifecycle \<Rightarrow> event \<Rightarrow> lifecycle \<Rightarrow> bool" where
  work: "ordinary e \<Longrightarrow> lifecycle_step (Life Open {} b) e (Life Open {} b)"
| approve: "lifecycle_step (Life Open {} {}) (MergeApprovalVerified ev) (Life (Merging A_MERGE_PRECONDITIONS) {} {})"
| execute: "lifecycle_step (Life (Merging A_MERGE_PRECONDITIONS) {} {}) MergePreconditionsOk
     (Life (Merging A_MERGE_OUTCOME_EXECUTE) {} {})"
| mismatch: "lifecycle_step (Life (Merging A_MERGE_PRECONDITIONS) {} {}) MergePreconditionMismatch (Life Open {} {})"
| moved: "lifecycle_step (Life (Merging A_MERGE_PRECONDITIONS) {} {}) HeadChangedExternally (Life Open {} {})"
| not_merged: "lifecycle_step (Life (Merging A_MERGE_OUTCOME_FAILURE) d {}) MergeNotExecutedConfirmed (Life Open {} d)"
| unknown: "outcome a \<Longrightarrow> lifecycle_step (Life (Merging a) {} {}) MergeOutcomeUnknown (Life Open {} {})"
| ask_again: "outcome a \<Longrightarrow> d \<noteq> {} \<Longrightarrow>
     lifecycle_step (Life (Merging a) d {}) MergeOutcomeUnknown (Life (Merging a) d {})"
| cancel_merge: "lifecycle_step (Life (Merging a) d {}) (UserCancelVerified ev)
     (Life (Merging A_MERGE_OUTCOME_CANCEL) d {})"
| fail_merge: "lifecycle_step (Life (Merging a) d {}) RunFailed (Life (Merging A_MERGE_OUTCOME_FAILURE) d {})"
| merged: "outcome a \<Longrightarrow> lifecycle_step (Life (Merging a) {} {}) MergeConfirmed (Life (Done IT_MERGED) {} {})"
| not_executed: "lifecycle_step (Life (Merging A_MERGE_OUTCOME_CANCEL) {} {}) MergeNotExecutedConfirmed
     (Life (Done IT_CANCELLED) {} {})"
| merged_incident: "outcome a \<Longrightarrow> d \<noteq> {} \<Longrightarrow>
     lifecycle_step (Life (Merging a) d {}) MergeConfirmed (Life (Recording IT_MERGED) d {})"
| not_executed_incident: "d \<noteq> {} \<Longrightarrow>
     lifecycle_step (Life (Merging A_MERGE_OUTCOME_CANCEL) d {}) MergeNotExecutedConfirmed
       (Life (Recording IT_CANCELLED) d {})"
| stay_merging: "event_type_of e \<in> {ET_RecordProduced, ET_ResumeValidated} \<Longrightarrow>
     lifecycle_step (Life (Merging a) d {}) e (Life (Merging a) d {})"
| cancel: "lifecycle_step (Life Open {} b) (UserCancelVerified ev) (Life (Cancelling (re_binding ev)) {} b)"
| cancelled: "lifecycle_step (Life (Cancelling c) {} b) (CancellationCompleted (Some c) em)
     (Life (Done IT_CANCELLED) {} {})"
| cancelled_incident: "d \<noteq> {} \<Longrightarrow>
     lifecycle_step (Life (Cancelling c) d b) (CancellationCompleted (Some c) em)
       (Life (Recording IT_CANCELLED) d b)"
| emergency: "lifecycle_step (Life Open {} b) (CancellationCompleted None (Some em)) (Life (Done IT_CANCELLED) {} {})"
| detect_open: "lifecycle_step (Life Open {} b) (RecordIntegrityViolationDetected v)
     (Life Open {} (insert (ie_binding v) b))"
| detect_halt: "lifecycle_step (Life Open {} {}) (RecordIntegrityViolationDetected v)
     (Life (Halting (ie_binding v)) {ie_binding v} {})"
| detect_merging: "outcome a \<Longrightarrow>
     lifecycle_step (Life (Merging a) d {}) (RecordIntegrityViolationDetected v)
       (Life (Merging a) (insert (ie_binding v) d) {})"
| detect_preconditions:
    "lifecycle_step (Life (Merging A_MERGE_PRECONDITIONS) {} {}) (RecordIntegrityViolationDetected v)
       (Life Open {} {ie_binding v})"
| detect_procedure: "p = Cancelling c \<or> p = Halting c \<or> p = Recording t \<Longrightarrow>
     lifecycle_step (Life p d b) (RecordIntegrityViolationDetected v) (Life p (insert (ie_binding v) d) b)"
| halted: "lifecycle_step (Life (Halting a) d {}) (BlockHaltCompleted a) (Life Open {} d)"
| reissue: "p = Cancelling c \<or> p = Halting c \<or> p = Recording t \<Longrightarrow> reissued e \<Longrightarrow>
     lifecycle_step (Life p d b) e (Life p d b)"
| incident_produced: "lifecycle_step (Life (Recording t) d b) (RecordProduced K_INTEGRITY_INCIDENT c) (Life (Recording t) d b)"
| incident_complete: "d \<subseteq> set vs \<Longrightarrow>
     lifecycle_step (Life (Recording t) d b) (IntegrityIncidentVerified ev vs) (Life (Done t) {} {})"
| incident_remainder: "\<not> d \<subseteq> set vs \<Longrightarrow>
     lifecycle_step (Life (Recording t) d b) (IntegrityIncidentVerified ev vs) (Life (Recording t) (d - set vs) b)"
| integrity_exit: "e = IntegrityRestoredValidated r \<or> e = IntegritySalvageEstablished r \<Longrightarrow>
     br_violation_bindings r = Some vs \<Longrightarrow> b = set vs \<Longrightarrow> b \<noteq> {} \<Longrightarrow>
     lifecycle_step (Life Open {} b) e (Life Open {} {})"

section \<open>The abstraction of a machine state\<close>

definition bindings_of :: "integrity_evidence_ref list \<Rightarrow> opaque_binding set" where
  "bindings_of vs = ie_binding ` set vs"

definition phase_of :: "machine_state \<Rightarrow> phase" where
  "phase_of ms =
     (case ms_procedure ms of
        CancellingProcedure b \<Rightarrow> Cancelling b
      | HaltingForBlockProcedure _ a \<Rightarrow> Halting a
      | RecordingIncidentProcedure t _ \<Rightarrow> Recording t
      | NormalProcedure \<Rightarrow>
          if ms_state ms = S_MERGED then Done IT_MERGED
          else if ms_state ms = S_CANCELLED then Done IT_CANCELLED
          else if ms_state ms = S_MERGING then
            (case ms_awaiting ms of Some a \<Rightarrow> Merging a | None \<Rightarrow> Open)
          else Open)"

definition open_violations :: "machine_state \<Rightarrow> opaque_binding set" where
  "open_violations ms =
     bindings_of (ms_deferred_integrity ms) \<union>
     (case ms_procedure ms of HaltingForBlockProcedure b _ \<Rightarrow> bindings_of (ri_violations b) | _ \<Rightarrow> {})"

definition held_violations :: "machine_state \<Rightarrow> opaque_binding set" where
  "held_violations ms =
     (case ms_block ms of Some (RecordIntegrityBlock b) \<Rightarrow> bindings_of (ri_violations b) | _ \<Rightarrow> {})"

definition life :: "machine_state \<Rightarrow> lifecycle" where
  "life ms = Life (phase_of ms) (open_violations ms) (held_violations ms)"

end
