(* ===== verification/Lifecycle_Rules.thy ===== *)
theory Lifecycle_Rules
  imports Lifecycle
begin

text \<open>
  Which rules act in which phase of the specification, and the rules that are quiet: they keep the
  procedure, the violations a block holds, and stay out of the merge transaction.
\<close>

section \<open>The rules of each phase\<close>

lemma cancelling_rules:
  "r \<in> set REGISTRY \<Longrightarrow> PK_CANCELLING \<in> m_procedures (rule_match r) \<Longrightarrow>
   r \<in> {rule_C_03, rule_C_04, rule_I_D2} \<or>
   (\<exists>i et. et \<in> set (ET_RunFailed # RESUME_EVENTS) \<and> r = procedure_rule_cancel i et)"
  apply (simp add: registry_defs)
  apply (elim disjE; (simp add: all_rule_defs Match_def; fail)?; (simp add: RESUME_EVENTS_def; blast)?)
  done

lemma halting_rules:
  "r \<in> set REGISTRY \<Longrightarrow> PK_HALTING_FOR_BLOCK \<in> m_procedures (rule_match r) \<Longrightarrow>
   r \<in> {rule_B_HC, rule_I_D5u} \<or>
   (\<exists>i et. et \<in> set (ET_RunFailed # RESUME_EVENTS) \<and> r = procedure_rule_halt i et)"
  apply (simp add: registry_defs)
  apply (elim disjE; (simp add: all_rule_defs Match_def; fail)?; (simp add: RESUME_EVENTS_def; blast)?)
  done

lemma recording_rules:
  "r \<in> set REGISTRY \<Longrightarrow> PK_RECORDING_INCIDENT \<in> m_procedures (rule_match r) \<Longrightarrow>
   r \<in> {rule_I_D1, rule_I_P, rule_I_VC, rule_I_VR} \<or>
   (\<exists>i et. et \<in> set (ET_RunFailed # RESUME_EVENTS) \<and>
      (r = procedure_rule_incident_request i et \<or> r = procedure_rule_incident_persist i et))"
  apply (simp add: registry_defs)
  apply (elim disjE; (simp add: all_rule_defs Match_def; fail)?; (simp add: RESUME_EVENTS_def; blast)?)
  done

lemma merging_rules:
  "r \<in> set REGISTRY \<Longrightarrow> S_MERGING \<in> m_states (rule_match r) \<Longrightarrow> PK_NORMAL \<in> m_procedures (rule_match r) \<Longrightarrow>
   r \<in> {rule_P_21, rule_M_34, rule_M_35, rule_M_36, rule_M_37, rule_M_38, rule_M_39, rule_M_40,
     rule_M_41a, rule_M_41b, rule_M_42, rule_R_P, rule_R_A2, rule_I_D3, rule_I_D4, rule_I_46,
     rule_I_47, rule_I_48, rule_I_49}"
  apply (simp add: registry_defs)
  apply (elim disjE; (simp; fail)?; simp add: all_rule_defs Match_def)
  done

text \<open>The rules of an open run that are not ordinary.\<close>

definition ordinary_type :: "event_type \<Rightarrow> bool" where
  "ordinary_type et \<longleftrightarrow>
     et \<notin>
       {ET_MergeApprovalVerified, ET_MergePreconditionsOk, ET_MergePreconditionMismatch,
        ET_MergeConfirmed, ET_MergeNotExecutedConfirmed, ET_MergeOutcomeUnknown,
        ET_UserCancelVerified, ET_CancellationCompleted, ET_BlockHaltCompleted,
        ET_RecordIntegrityViolationDetected, ET_IntegrityIncidentVerified,
        ET_IntegrityRestoredValidated, ET_IntegritySalvageEstablished}"

lemma ordinary_type: "ordinary e \<longleftrightarrow> ordinary_type (event_type_of e)"
  by (simp add: ordinary_def ordinary_type_def)

lemma open_rules:
  "r \<in> set REGISTRY \<Longrightarrow> PK_NORMAL \<in> m_procedures (rule_match r) \<Longrightarrow>
   \<exists>s \<in> m_states (rule_match r). s \<noteq> S_MERGING \<Longrightarrow> \<not> ordinary_type (m_event_type (rule_match r)) \<Longrightarrow>
   r \<in> {rule_M_32a, rule_M_32b, rule_C_01, rule_C_02, rule_C_05, rule_I_D5, rule_I_D6, rule_I_D7,
     rule_I_D8, rule_B_RS, rule_B_SV}"
  apply (simp add: registry_defs)
  apply (elim disjE; (simp; fail)?; simp add: all_rule_defs ordinary_type_def Match_def)
  done

section \<open>Quiet rules\<close>

lemma held_cong: "ms_block ms' = ms_block ms \<Longrightarrow> held_violations ms' = held_violations ms"
  by (simp add: held_violations_def)

definition outside_merge :: "to_state_decl \<Rightarrow> bool" where
  "outside_merge d \<longleftrightarrow> d \<notin> {ToState S_MERGING, ToState S_MERGED, ToState S_CANCELLED, MergingIncident,
     IncidentTargetState}"

definition quiet :: "rule \<Rightarrow> bool" where
  "quiet r \<longleftrightarrow> outside_merge (rule_to_state r) \<and>
     (\<forall>ms e ms' cs. rule_matches r ms e \<longrightarrow> rule_effect r ms e = Inr (ms', cs) \<longrightarrow>
        ms_procedure ms' = ms_procedure ms \<and>
        (ms_block ms' = ms_block ms \<or>
         held_violations ms' = {} \<and> (ms_state ms \<noteq> S_BLOCKED \<or> held_violations ms = {})))"

lemma quiet_I:
  "outside_merge (rule_to_state r) \<Longrightarrow>
   (\<And>ms e ms' cs. rule_matches r ms e \<Longrightarrow> rule_effect r ms e = Inr (ms', cs) \<Longrightarrow>
      ms_procedure ms' = ms_procedure ms \<and>
      (ms_block ms' = ms_block ms \<or>
       held_violations ms' = {} \<and> (ms_state ms \<noteq> S_BLOCKED \<or> held_violations ms = {}))) \<Longrightarrow> quiet r"
  by (simp add: quiet_def)

lemma quiet_keep:
  "outside_merge (rule_to_state r) \<Longrightarrow>
   (\<And>ms e ms' cs. rule_effect r ms e = Inr (ms', cs) \<Longrightarrow>
      ms_procedure ms' = ms_procedure ms \<and> ms_block ms' = ms_block ms) \<Longrightarrow> quiet r"
  by (simp add: quiet_def)

lemma quiet_advance: "rule_effect r = advance to a cs \<Longrightarrow> outside_merge (rule_to_state r) \<Longrightarrow> quiet r"
  by (rule quiet_keep) (auto simp: advance_def returning_Inr)

lemma produced_effect_Inr:
  "produced_effect k ms e = Inr (ms', cs) \<Longrightarrow>
   ms_procedure ms' = ms_procedure ms \<and> ms_block ms' = ms_block ms \<and> ms_state ms' = ms_state ms"
  by (cases e) (auto simp: returning_Inr)

lemma quiet_produced: "rule_effect r = produced_effect k \<Longrightarrow> outside_merge (rule_to_state r) \<Longrightarrow> quiet r"
  by (rule quiet_keep) (auto dest: produced_effect_Inr)

lemma outside_target: "outside_merge (target_decl to) \<longleftrightarrow> to \<notin> {Some S_MERGING, Some S_MERGED, Some S_CANCELLED}"
  by (cases to) (auto simp: target_decl_def outside_merge_def)

lemma quiet_produced_rule: "quiet (produced_rule i k s a)"
  by (rule quiet_produced [where k = False]) (simp_all add: produced_rule_def outside_merge_def)

lemma quiet_table_rules:
  "to \<notin> {Some S_MERGING, Some S_MERGED, Some S_CANCELLED} \<Longrightarrow> quiet (verified_rule i sec et from to a cs p)"
  "to \<notin> {Some S_MERGING, Some S_MERGED, Some S_CANCELLED} \<Longrightarrow> quiet (external_rule i sec et from aw to a cs)"
  "to \<notin> {Some S_MERGING, Some S_MERGED, Some S_CANCELLED} \<Longrightarrow> quiet (response_rule i sec et from aw to a cs)"
  by (rule quiet_advance; simp add: verified_rule_def external_rule_def response_rule_def outside_target)+

lemma quiet_progress: "S_BLOCKED \<notin> from \<Longrightarrow> quiet (progress_block_rule i et from c entry)"
  by (rule quiet_I)
     (auto simp: progress_block_rule_def progress_block_effect_def outside_merge_def returning_Inr
       bind_result_eq_Inr held_violations_def Match_def split: option.splits dest: match_facts(1))

lemma quiet_external_dependency: "quiet rule_T_43"
proof (rule quiet_I)
  fix ms e ms' cs
  assume m: "rule_matches rule_T_43 ms e" and eff: "rule_effect rule_T_43 ms e = Inr (ms', cs)"
  show "ms_procedure ms' = ms_procedure ms \<and>
    (ms_block ms' = ms_block ms \<or>
     held_violations ms' = {} \<and> (ms_state ms \<noteq> S_BLOCKED \<or> held_violations ms = {}))"
    using match_facts(1) [OF m] eff
    by (cases e) (auto simp: rule_T_43_def Match_def returning_Inr held_violations_def)
qed (simp add: rule_T_43_def outside_merge_def)

lemma quiet_reset:
  assumes "outside_merge (rule_to_state r)" and "m_procedures (rule_match r) = {PK_NORMAL}"
    and "\<And>ms e ms' cs. rule_effect r ms e = Inr (ms', cs) \<Longrightarrow> \<exists>s a. ms' = MachineState s\<lparr>ms_awaiting := a\<rparr>"
    and "S_BLOCKED \<notin> m_states (rule_match r) \<or>
      (\<exists>K. m_block_kinds (rule_match r) = Some K \<and> K \<subseteq> {BK_PROGRESS, BK_EXTERNAL_DEPENDENCY})"
  shows "quiet r"
proof (rule quiet_I)
  fix ms e ms' cs
  assume m: "rule_matches r ms e" and eff: "rule_effect r ms e = Inr (ms', cs)"
  obtain s a where ms': "ms' = MachineState s\<lparr>ms_awaiting := a\<rparr>" using assms(3) [OF eff] by blast
  have "ms_state ms \<noteq> S_BLOCKED \<or> held_violations ms = {}"
    using assms(4) match_facts(1,10) [OF m]
    by (auto simp: held_violations_def split: option.splits block_context.splits)
  then show "ms_procedure ms' = ms_procedure ms \<and>
    (ms_block ms' = ms_block ms \<or>
     held_violations ms' = {} \<and> (ms_state ms \<noteq> S_BLOCKED \<or> held_violations ms = {}))"
    using match_facts(3) [OF m] assms(2) by (simp add: ms' MachineState_def held_violations_def)
qed (fact assms)

lemma fresh_review_reset:
  "fresh_review_effect ms e = Inr (ms', cs) \<Longrightarrow> \<exists>s a. ms' = MachineState s\<lparr>ms_awaiting := a\<rparr>"
  "replay_continuation ms e = Inr (ms', cs) \<Longrightarrow> \<exists>s a. ms' = MachineState s\<lparr>ms_awaiting := a\<rparr>"
  by (auto simp: fresh_review_effect_def replay_continuation_def returning_Inr split: option.splits)

lemmas keep_effects =
  permission_effect_def permission_resume_effect_def same_head_effect_def fail_to_recovery_def
  unchanged_effect_def resume_pending_def resume_awaiting_failed_def resume_awaiting_live_def
  resume_drive_def resume_ci_effect_def report_retry_effect_def

lemma quiet_keepers:
  "quiet rule_T_05" "quiet rule_T_13" "quiet rule_T_21" "quiet rule_M_SH" "quiet rule_F_01"
  "quiet rule_F_02" "quiet rule_R_P" "quiet rule_R_A1" "quiet rule_R_A2" "quiet rule_R_D"
  "quiet rule_R_B" "quiet rule_R_CI" "quiet rule_R_RT"
  by (rule quiet_keep;
      auto simp: keep_effects rule_T_05_def rule_T_13_def rule_T_21_def rule_M_SH_def rule_F_01_def
        rule_F_02_def rule_R_P_def rule_R_A1_def rule_R_A2_def rule_R_D_def rule_R_B_def rule_R_CI_def
        rule_R_RT_def outside_merge_def returning_Inr split: option.splits)+

lemma quiet_resetters:
  "quiet rule_M_HC" "quiet rule_R_F" "quiet rule_R_FB" "quiet rule_B_LR" "quiet rule_B_IV1" "quiet rule_B_IV2"
  by (rule quiet_reset;
      simp add: rule_M_HC_def rule_R_F_def rule_R_FB_def rule_B_LR_def rule_B_IV1_def rule_B_IV2_def
        Match_def outside_merge_def fresh_review_reset)+

lemma quiet_more:
  "quiet rule_P_21" "quiet rule_P_22" "quiet rule_P_23"
    apply (rule quiet_produced [where k = True]; simp add: rule_P_21_def outside_merge_def)
   apply (rule quiet_produced [where k = True]; simp add: rule_P_22_def outside_merge_def)
  apply (rule quiet_produced [where k = True]; simp add: rule_P_23_def outside_merge_def)
  done

lemma quiet_head: "quiet rule_T_26" "quiet rule_T_33"
  by (rule quiet_advance [where to = "Some S_RUNNING_REVIEW" and a = "Some A_CODEX_CODE_REVIEW"
        and cs = "InvalidateApprovals # CODEX_REVIEW"];
      simp add: rule_T_26_def rule_T_33_def outside_merge_def)+

lemma quiet_workflow_rules: "list_all quiet (PRODUCED_RULES @ WORKFLOW_RULES)"
  unfolding PRODUCED_RULES_def WORKFLOW_RULES_def append.simps list.pred_inject
  apply (intro conjI quiet_keepers quiet_head quiet_more quiet_external_dependency)
  apply (simp_all only: workflow_rule_defs list.pred_inject)
  apply (rule quiet_produced_rule quiet_table_rules quiet_progress; simp)+
  done

text \<open>Every ordinary rule of an open run is quiet.\<close>

lemma ordinary_quiet:
  "r \<in> set REGISTRY \<Longrightarrow> PK_NORMAL \<in> m_procedures (rule_match r) \<Longrightarrow>
   \<exists>s \<in> m_states (rule_match r). s \<noteq> S_MERGING \<Longrightarrow> ordinary_type (m_event_type (rule_match r)) \<Longrightarrow> quiet r"
proof -
  assume r: "r \<in> set REGISTRY" "PK_NORMAL \<in> m_procedures (rule_match r)"
    "\<exists>s \<in> m_states (rule_match r). s \<noteq> S_MERGING" "ordinary_type (m_event_type (rule_match r))"
  from r(1) consider "r \<in> set (PRODUCED_RULES @ WORKFLOW_RULES)" | "r \<in> set PROCEDURE_RULES"
    | "r \<in> set (MERGE_RULES @ CANCEL_RULES @ FAILURE_RULES @ RESUME_RULES)" | "r \<in> set INTEGRITY_RULES"
    by (auto simp: REGISTRY_def RECOVERY_RULES_def)
  then show ?thesis
  proof cases
    case 1
    then show ?thesis using quiet_workflow_rules by (simp add: list_all_iff)
  next
    case 2
    then show ?thesis using r(2)
      by (auto simp: PROCEDURE_RULES_def procedure_rule_cancel_def procedure_rule_halt_def
          procedure_rule_incident_request_def procedure_rule_incident_persist_def Match_def)
  next
    case 3
    then show ?thesis
      using r(2-4) unfolding set_append Un_iff MERGE_RULES_def CANCEL_RULES_def FAILURE_RULES_def RESUME_RULES_def
        list.set insert_iff empty_iff
      by (elim disjE FalseE; (simp add: quiet_keepers quiet_resetters; fail)?;
          simp add: recovery_rule_defs Match_def ordinary_type_def)
  next
    case 4
    then show ?thesis
      using r(2-4) unfolding INTEGRITY_RULES_def DETECTION_RULES_def INCIDENT_RULES_def
        MERGE_INTEGRITY_RULES_def BLOCK_RESOLUTION_RULES_def set_append Un_iff list.set insert_iff empty_iff
      by (elim disjE FalseE; (simp add: quiet_keepers quiet_resetters; fail)?;
          simp add: integrity_rule_defs Match_def ordinary_type_def)
  qed
qed

end
