(* ===== verification/Lifecycle_Refinement.thy ===== *)
theory Lifecycle_Refinement
  imports Lifecycle_Rules
begin

text \<open>
  Every accepted step of the machine is a step of the specification between the abstracted states.
\<close>

section \<open>The abstraction in each phase\<close>

lemma held_not_blocked: "machine_inv ms \<Longrightarrow> ms_state ms \<noteq> S_BLOCKED \<Longrightarrow> held_violations ms = {}"
  using frame_block [of ms] machine_inv_constructible [of ms] by (simp add: held_violations_def)

lemma life_open:
  assumes "machine_inv ms" and "ms_procedure ms = NormalProcedure"
    and "ms_state ms \<noteq> S_MERGING" and "ms_state ms \<notin> TERMINAL_STATES"
  shows "life ms = Life Open {} (held_violations ms)"
  using assms frame_deferred [of ms] machine_inv_constructible [of ms]
  by (simp add: life_def phase_of_def open_violations_def bindings_of_def)

lemma life_merging:
  assumes "machine_inv ms" and "ms_procedure ms = NormalProcedure" and "ms_state ms = S_MERGING"
    and "ms_awaiting ms = Some a"
  shows "life ms = Life (Merging a) (bindings_of (ms_deferred_integrity ms)) {}"
  using assms held_not_blocked [of ms] by (simp add: life_def phase_of_def open_violations_def)

lemma life_preconditions:
  assumes "machine_inv ms" and "ms_procedure ms = NormalProcedure" and "ms_state ms = S_MERGING"
    and "ms_awaiting ms = Some A_MERGE_PRECONDITIONS"
  shows "life ms = Life (Merging A_MERGE_PRECONDITIONS) {} {}" "ms_deferred_integrity ms = []"
proof -
  show "ms_deferred_integrity ms = []"
    using constructible_checks(8) [OF machine_inv_constructible [OF assms(1)]] assms
    by (auto simp: MERGE_OUTCOME_AWAITINGS_def)
  then show "life ms = Life (Merging A_MERGE_PRECONDITIONS) {} {}"
    using life_merging [OF assms] by (simp add: bindings_of_def)
qed

lemma life_procedure:
  "ms_procedure ms = CancellingProcedure c \<Longrightarrow>
     life ms = Life (Cancelling c) (bindings_of (ms_deferred_integrity ms)) (held_violations ms)"
  "ms_procedure ms = RecordingIncidentProcedure t p \<Longrightarrow>
     life ms = Life (Recording t) (bindings_of (ms_deferred_integrity ms)) (held_violations ms)"
  by (simp_all add: life_def phase_of_def open_violations_def)

lemma life_halting:
  assumes "machine_inv ms" and "ms_procedure ms = HaltingForBlockProcedure b a"
  shows "life ms = Life (Halting a) (bindings_of (ri_violations b)) {}"
proof -
  have "ms_deferred_integrity ms = []" "ms_state ms \<noteq> S_BLOCKED"
    using constructible_checks(4,7) [OF machine_inv_constructible [OF assms(1)]] assms(2) by auto
  then show ?thesis
    using assms held_not_blocked [of ms]
    by (simp add: life_def phase_of_def open_violations_def bindings_of_def)
qed

lemma life_plain:
  "s \<notin> TERMINAL_STATES \<Longrightarrow> s \<noteq> S_MERGING \<Longrightarrow> life (MachineState s\<lparr>ms_awaiting := a\<rparr>) = Life Open {} {}"
  "life (MachineState S_MERGED) = Life (Done IT_MERGED) {} {}"
  "life (MachineState S_CANCELLED) = Life (Done IT_CANCELLED) {} {}"
  "life (MachineState S_BLOCKED\<lparr>ms_block := Some (RecordIntegrityBlock b)\<rparr>) =
     Life Open {} (bindings_of (ri_violations b))"
  by (simp_all add: life_def phase_of_def open_violations_def held_violations_def MachineState_def
      bindings_of_def)

lemma bindings_union: "bindings_of (union_deferred ms v) = insert (ie_binding v) (bindings_of (ms_deferred_integrity ms))"
  by (simp add: bindings_of_def union_deferred_def)

lemma bindings_canonicalize [simp]:
  "bindings_of (canonicalize_integrity (vs @ [v])) = insert (ie_binding v) (bindings_of vs)"
  by (simp add: bindings_of_def)

lemma bindings_empty [simp]: "bindings_of vs = {} \<longleftrightarrow> vs = []" "bindings_of [] = {}"
  by (simp_all add: bindings_of_def)

section \<open>An accepted step, with its rule\<close>

text \<open>The facts a step offers: the invariant on both sides, the rule, its guard and its effect.\<close>

definition taken :: "rule \<Rightarrow> machine_state \<Rightarrow> event \<Rightarrow> machine_state \<Rightarrow> command list \<Rightarrow> bool" where
  "taken r ms e ms' cs \<longleftrightarrow>
     r \<in> set REGISTRY \<and> machine_inv ms \<and> legal_event e \<and> rule_matches r ms e \<and>
     rule_effect r ms e = Inr (ms', cs) \<and> machine_inv ms' \<and> to_state_ok (rule_to_state r) ms ms' \<and>
     commands_ok (rule_command_names r) ms cs"

lemma accepted_taken:
  assumes "machine_inv ms" and "legal_event e" and "transition ms e = Inr (ms', cs)"
  obtains r where "taken r ms e ms' cs"
  using transition_sound [OF assms] assms by (metis taken_def)

lemma taken_facts:
  assumes "taken r ms e ms' cs"
  shows "r \<in> set REGISTRY" "machine_inv ms" "legal_event e" "rule_matches r ms e"
    "rule_effect r ms e = Inr (ms', cs)" "machine_inv ms'" "to_state_ok (rule_to_state r) ms ms'"
    "commands_ok (rule_command_names r) ms cs" "ms_state ms \<in> m_states (rule_match r)"
    "event_type_of e = m_event_type (rule_match r)"
    "procedure_kind_of (ms_procedure ms) \<in> m_procedures (rule_match r)"
    "ms_state ms \<notin> TERMINAL_STATES"
  using assms match_facts(1-3) [of r ms e] rule_not_terminal [of r ms e] by (simp_all add: taken_def del: in_TERMINAL)

section \<open>Ordinary work\<close>

lemma outside_merge_target:
  assumes "machine_inv ms" and "outside_merge d" and "to_state_ok d ms ms'"
    and "ms_state ms \<noteq> S_MERGING" and "ms_state ms \<notin> TERMINAL_STATES"
  shows "ms_state ms' \<noteq> S_MERGING \<and> ms_state ms' \<notin> TERMINAL_STATES"
proof -
  have c: "constructible ms" using assms(1) by (rule machine_inv_constructible)
  have return: "ms_return_to ms = Some r \<Longrightarrow> r = S_RUNNING_REVIEW \<or> r = S_APPLYING_FIXES" for r
    using constructible_checks(6) [OF c] by simp
  have recovery: "ms_recovery_to ms = Some r \<Longrightarrow> r \<noteq> S_MERGING \<and> r \<notin> TERMINAL_STATES" for r
    using recovery_facts [OF assms(1)] by blast
  have pending: "ms_pending_record ms = Some p \<Longrightarrow>
      pr_source_state p \<noteq> S_MERGING \<and> pr_source_state p \<notin> TERMINAL_STATES" for p
    using constructible_checks(9) [OF c] recovery assms(4,5) by fastforce
  have continuation: "ms_block ms = Some b \<Longrightarrow> block_continuation b = Some k \<Longrightarrow>
      bc_resume_state k \<noteq> S_MERGING \<and> bc_resume_state k \<notin> TERMINAL_STATES" for b k
    using assms(1) continuation_not_merging [of k]
    by (auto simp: machine_inv_def registry_continuations_def BLOCKED_CONTINUATIONS_def
        CONT_REVIEW_BLOCKING_def CONT_CLARIFICATION_def CONT_FIX_RESULT_def CONT_RESUBMIT_def
        CONT_CI_CODE_FAILURE_def CONT_EXTERNAL_DEPENDENCY_def)
  show ?thesis
    using assms(2-5)
    by (cases d) (auto simp: outside_merge_def dest: return recovery pending continuation
        simp del: in_TERMINAL, auto dest: return)
qed

lemma open_work_step:
  assumes t: "taken r ms e ms' cs" and n: "ms_procedure ms = NormalProcedure"
    and s: "ms_state ms \<noteq> S_MERGING" and o: "ordinary e"
  shows "lifecycle_step (life ms) e (life ms')"
proof -
  note f = taken_facts [OF t]
  have "quiet r"
    using f(1,9-11) n s o by (intro ordinary_quiet) (auto simp: ordinary_type)
  then have om: "outside_merge (rule_to_state r)" and n': "ms_procedure ms' = NormalProcedure"
    and b: "ms_block ms' = ms_block ms \<or>
      held_violations ms' = {} \<and> (ms_state ms \<noteq> S_BLOCKED \<or> held_violations ms = {})"
    using f(4,5) n unfolding quiet_def by auto
  have held: "held_violations ms' = held_violations ms"
    using b held_cong held_not_blocked [OF f(2)] by metis
  have s': "ms_state ms' \<noteq> S_MERGING" "ms_state ms' \<notin> TERMINAL_STATES"
    using outside_merge_target [OF f(2) om f(7) s f(12)] by auto
  show ?thesis
    unfolding life_open [OF f(2) n s f(12)] life_open [OF f(6) n' s'] held
    using o by (rule work)
qed

section \<open>The other steps of an open run\<close>

lemma open_special_step:
  assumes t: "taken r ms e ms' cs" and n: "ms_procedure ms = NormalProcedure"
    and s: "ms_state ms \<noteq> S_MERGING" and o: "\<not> ordinary e"
  shows "lifecycle_step (life ms) e (life ms')"
proof -
  note f = taken_facts [OF t]
  note m = match_facts [OF f(4)]
  note lo = life_open [OF f(2) n s f(12)]
  have d: "ms_deferred_integrity ms = []"
    using frame_deferred [OF machine_inv_constructible [OF f(2)] n s] .
  have "r \<in> {rule_M_32a, rule_M_32b, rule_C_01, rule_C_02, rule_C_05, rule_I_D5, rule_I_D6,
      rule_I_D7, rule_I_D8, rule_B_RS, rule_B_SV}"
    using f(1,9-11) n s o by (intro open_rules) (auto simp: ordinary_type)
  then consider (approve) "r \<in> {rule_M_32a, rule_M_32b}" | (cancel) "r \<in> {rule_C_01, rule_C_02}"
    | (emergency) "r = rule_C_05" | (halt) "r = rule_I_D5" | (direct) "r \<in> {rule_I_D6, rule_I_D8}"
    | (union) "r = rule_I_D7" | (exit) "r \<in> {rule_B_RS, rule_B_SV}" by blast
  then show ?thesis
  proof cases
    case approve
    then have eff: "rule_effect r = to_merging" and st: "ms_state ms = S_READY_FOR_HUMAN_MERGE"
      and et: "event_type_of e = ET_MergeApprovalVerified"
      using m(1,2) by (auto simp: rule_M_32a_def rule_M_32b_def Match_def)
    then obtain ev where e: "e = MergeApprovalVerified ev" by (cases e) auto
    have ms': "ms_state ms' = S_MERGING" "ms_procedure ms' = NormalProcedure"
      "ms_awaiting ms' = Some A_MERGE_PRECONDITIONS"
      using f(5) n by (auto simp: eff to_merging_def returning_Inr)
    show ?thesis
      using life_preconditions(1) [OF f(6) ms'(2,1,3)] held_not_blocked [OF f(2)] st
      by (simp add: lo e lifecycle_step.approve)
  next
    case cancel
    then have et: "event_type_of e = ET_UserCancelVerified"
      and eff: "rule_effect r = start_cancel True \<or> rule_effect r = start_cancel False"
      using m(2) by (auto simp: rule_C_01_def rule_C_02_def Match_def)
    then obtain ev where e: "e = UserCancelVerified ev" by (cases e) auto
    have ms': "ms_procedure ms' = CancellingProcedure (re_binding ev)"
      "ms_deferred_integrity ms' = ms_deferred_integrity ms" "ms_block ms' = ms_block ms"
      using f(5) eff by (auto simp: e start_cancel_def returning_Inr)
    show ?thesis
      using life_procedure(1) [OF ms'(1)] held_cong [OF ms'(3)]
      by (simp add: lo e ms' d lifecycle_step.cancel)
  next
    case emergency
    then have et: "event_type_of e = ET_CancellationCompleted"
      using m(2) by (simp add: rule_C_05_def Match_def)
    then obtain at em where e: "e = CancellationCompleted at em" by (cases e) auto
    have "em \<noteq> None"
      using m(9) n emergency by (auto simp: e rule_C_05_def Match_def binding_match_of_def split: if_splits)
    then obtain em' where "em = Some em'" "at = None" using f(3) by (auto simp: e)
    moreover have "ms' = MachineState S_CANCELLED"
      using f(5) emergency by (simp add: rule_C_05_def bare_cancelled_effect_def returning_Inr)
    ultimately show ?thesis by (simp add: lo e life_plain lifecycle_step.emergency)
  next
    case halt
    then have et: "event_type_of e = ET_RecordIntegrityViolationDetected" and st: "ms_state ms \<in> ACTIVE_STATES"
      using m(1,2) by (simp_all add: rule_I_D5_def Match_def del: in_ACTIVE)
    then obtain v where e: "e = RecordIntegrityViolationDetected v" using detected by blast
    have "ms_procedure ms' = HaltingForBlockProcedure \<lparr>ri_violations = [v]\<rparr> (ie_binding v)"
      using f(5) halt by (auto simp: e rule_I_D5_def bind_result_eq_Inr mk_integrity_block_Inr mk_halting_Inr
          returning_Inr)
    moreover have "held_violations ms = {}" using held_not_blocked [OF f(2)] st by auto
    ultimately show ?thesis
      using life_halting [OF f(6)] lifecycle_step.detect_halt by (simp add: lo e bindings_of_def)
  next
    case direct
    then have et: "event_type_of e = ET_RecordIntegrityViolationDetected"
      and eff: "rule_effect r = detect_direct_block_effect"
      and held: "held_violations ms = {}"
      using m(1,2,10) held_not_blocked [OF f(2)]
      by (auto simp: rule_I_D6_def rule_I_D8_def Match_def held_violations_def)
    then obtain v where e: "e = RecordIntegrityViolationDetected v" using detected by blast
    have "ms' = MachineState S_BLOCKED\<lparr>ms_block := Some (RecordIntegrityBlock \<lparr>ri_violations = [v]\<rparr>)\<rparr>"
      using f(5) by (auto simp: eff e bind_result_eq_Inr mk_integrity_block_Inr returning_Inr)
    then show ?thesis
      using lifecycle_step.detect_open [of "{}" v] by (simp add: lo e held life_plain bindings_of_def)
  next
    case union
    then have et: "event_type_of e = ET_RecordIntegrityViolationDetected"
      and st: "ms_state ms = S_BLOCKED" and "\<exists>b. ms_block ms = Some (RecordIntegrityBlock b)"
      using m(1,2,10) by (auto simp: rule_I_D7_def Match_def)
    then obtain v b where e: "e = RecordIntegrityViolationDetected v"
      and b: "ms_block ms = Some (RecordIntegrityBlock b)" using detected by blast
    have ms': "ms' = ms\<lparr>ms_block := Some (RecordIntegrityBlock
        \<lparr>ri_violations = canonicalize_integrity (ri_violations b @ [v])\<rparr>)\<rparr>"
      using f(5) union by (auto simp: rule_I_D7_def e b bind_result_eq_Inr mk_integrity_block_Inr returning_Inr)
    have "life ms' = Life Open {} (insert (ie_binding v) (bindings_of (ri_violations b)))"
      using n st d by (simp add: ms' life_def phase_of_def open_violations_def held_violations_def)
    then show ?thesis
      using lifecycle_step.detect_open [of "bindings_of (ri_violations b)" v]
      by (simp add: lo e held_violations_def b)
  next
    case exit
    then have "event_type_of e \<in> {ET_IntegrityRestoredValidated, ET_IntegritySalvageEstablished}"
      and eff: "rule_effect r = integrity_exit_effect"
      and "\<exists>b. ms_block ms = Some (RecordIntegrityBlock b)" and bm: "derive_binding ms e = Some BM_MATCH"
      using m(2,9,10) by (auto simp: rule_B_RS_def rule_B_SV_def Match_def)
    then obtain x b where e: "e = IntegrityRestoredValidated x \<or> e = IntegritySalvageEstablished x"
      and b: "ms_block ms = Some (RecordIntegrityBlock b)" by (cases e) auto
    have "br_violation_bindings x = Some (map ie_binding (ri_violations b))"
      using bm e by (auto simp: resolution_matches_def b split: if_splits)
    moreover have "ri_violations b \<noteq> []"
      using constructible_block_check [OF machine_inv_constructible [OF f(2)] b] by simp
    moreover have "ms' = MachineState S_RUNNING_REVIEW\<lparr>ms_awaiting := Some A_CODEX_CODE_REVIEW\<rparr>"
      using f(5) by (simp add: eff integrity_exit_effect_def returning_Inr)
    ultimately show ?thesis
      using lifecycle_step.integrity_exit [OF e, of "map ie_binding (ri_violations b)" "bindings_of (ri_violations b)"]
      by (simp add: lo life_plain held_violations_def b bindings_of_def)
  qed
qed

section \<open>Steps of the merge transaction\<close>

lemma merging_step:
  assumes t: "taken r ms e ms' cs" and n: "ms_procedure ms = NormalProcedure" and s: "ms_state ms = S_MERGING"
  shows "lifecycle_step (life ms) e (life ms')"
proof -
  note f = taken_facts [OF t]
  note m = match_facts [OF f(4)]
  obtain a where a: "ms_awaiting ms = Some a" using merging_state(4) [OF f(2) n s] by blast
  let ?d = "bindings_of (ms_deferred_integrity ms)"
  note lm = life_merging [OF f(2) n s a]
  have stay: "life ms' = Life (Merging a') (bindings_of (ms_deferred_integrity ms')) {}"
    if "ms_procedure ms' = NormalProcedure" "ms_state ms' = S_MERGING" "ms_awaiting ms' = Some a'" for a'
    using life_merging [OF f(6) that] .
  have no_deferred: "?d = {}" if "a = A_MERGE_PRECONDITIONS"
    using life_preconditions(2) [OF f(2) n s] a that by simp
  have "r \<in> {rule_P_21, rule_M_34, rule_M_35, rule_M_36, rule_M_37, rule_M_38, rule_M_39, rule_M_40,
     rule_M_41a, rule_M_41b, rule_M_42, rule_R_P, rule_R_A2, rule_I_D3, rule_I_D4, rule_I_46,
     rule_I_47, rule_I_48, rule_I_49}"
    using f(1,9,11) n s by (intro merging_rules) auto
  then consider (keep) "r \<in> {rule_P_21, rule_R_P, rule_R_A2}" | (query) "r \<in> {rule_M_41a, rule_M_41b, rule_M_42}"
    | (pre) "r \<in> {rule_M_34, rule_M_35, rule_M_36, rule_I_D4}"
    | (finished) "r \<in> {rule_M_37, rule_M_38, rule_M_39, rule_M_40}"
    | (deferred) "r \<in> {rule_I_46, rule_I_47, rule_I_48, rule_I_49}" | (detect) "r = rule_I_D3" by blast
  then show ?thesis
  proof cases
    case keep
    then have et: "event_type_of e \<in> {ET_RecordProduced, ET_ResumeValidated}"
      using m(2) by (auto simp: rule_P_21_def rule_R_P_def rule_R_A2_def Match_def)
    have "ms_procedure ms' = NormalProcedure \<and> ms_state ms' = S_MERGING \<and> ms_awaiting ms' = Some a \<and>
      ms_deferred_integrity ms' = ms_deferred_integrity ms"
      using keep f(5) n s a merging_state(5) [OF f(2) n s]
      by (cases e)
         (auto simp: rule_P_21_def rule_R_P_def rule_R_A2_def returning_Inr resume_pending_def
           resume_awaiting_live_def split: option.splits)
    then show ?thesis using stay [of a] lifecycle_step.stay_merging [OF et] by (simp add: lm)
  next
    case query
    then show ?thesis
    proof (elim insertE emptyE)
      assume r: "r = rule_M_42"
      have "e = RunFailed" using m(2) by (cases e) (simp_all add: r rule_M_42_def Match_def)
      then show ?thesis
        using f(5) n s stay [of A_MERGE_OUTCOME_FAILURE] lifecycle_step.fail_merge
        by (auto simp: r rule_M_42_def merge_effect_def returning_Inr lm)
    next
      assume r: "r = rule_M_41a"
      obtain ev where "e = UserCancelVerified ev" using m(2) by (cases e) (simp_all add: r rule_M_41a_def Match_def)
      then show ?thesis
        using f(5) n s stay [of A_MERGE_OUTCOME_CANCEL] lifecycle_step.cancel_merge
        by (auto simp: r rule_M_41a_def cancel_query_effect_def returning_Inr lm)
    next
      assume r: "r = rule_M_41b"
      obtain ev where "e = UserCancelVerified ev" using m(2) by (cases e) (simp_all add: r rule_M_41b_def Match_def)
      then show ?thesis
        using f(5) n s stay [of A_MERGE_OUTCOME_CANCEL] lifecycle_step.cancel_merge
        by (auto simp: r rule_M_41b_def cancel_query_effect_def returning_Inr lm)
    qed
  next
    case pre
    then have "a = A_MERGE_PRECONDITIONS"
      using m(4) a by (auto simp: rule_M_34_def rule_M_35_def rule_M_36_def rule_I_D4_def Match_def)
    then have l: "life ms = Life (Merging A_MERGE_PRECONDITIONS) {} {}"
      and d: "ms_deferred_integrity ms = []" using lm no_deferred by simp_all
    from pre show ?thesis
    proof (elim insertE emptyE)
      assume r: "r = rule_M_34"
      have "e = MergePreconditionsOk" using m(2) by (cases e) (simp_all add: r rule_M_34_def Match_def)
      then show ?thesis
        using f(5) n s d stay [of A_MERGE_OUTCOME_EXECUTE] lifecycle_step.execute
        by (auto simp: r rule_M_34_def merge_effect_def returning_Inr l)
    next
      assume r: "r = rule_M_35"
      have e: "e = MergePreconditionMismatch" using m(2) by (cases e) (simp_all add: r rule_M_35_def Match_def)
      have "ms_procedure ms' = NormalProcedure" "ms_state ms' = S_MERGE_FAILED"
        using f(5) n by (auto simp: r rule_M_35_def merge_effect_def returning_Inr)
      then show ?thesis
        using life_open [OF f(6)] held_not_blocked [OF f(6)] lifecycle_step.mismatch by (simp add: l e)
    next
      assume r: "r = rule_M_36"
      have "e = HeadChangedExternally" using m(2) by (cases e) (simp_all add: r rule_M_36_def Match_def)
      then show ?thesis
        using f(5) lifecycle_step.moved
        by (auto simp: r rule_M_36_def fresh_review_effect_def returning_Inr l life_plain)
    next
      assume r: "r = rule_I_D4"
      obtain v where e: "e = RecordIntegrityViolationDetected v"
        using m(2) detected [of e] by (auto simp: r rule_I_D4_def Match_def)
      then show ?thesis
        using f(5) lifecycle_step.detect_preconditions [of v]
        by (auto simp: r rule_I_D4_def bind_result_eq_Inr mk_integrity_block_Inr returning_Inr l life_plain
            bindings_of_def)
    qed
  next
    case finished
    then have d: "?d = {}" and o: "outcome a"
      using m(4,8) a by (auto simp: rule_M_37_def rule_M_38_def rule_M_39_def rule_M_40_def Match_def
          MERGE_OUTCOME_AWAITINGS_def)
    from finished show ?thesis
    proof (elim insertE emptyE)
      assume r: "r = rule_M_37"
      have "e = MergeConfirmed" using m(2) by (cases e) (simp_all add: r rule_M_37_def Match_def)
      then show ?thesis
        using f(5) d lifecycle_step.merged [OF o]
        by (auto simp: r rule_M_37_def merge_effect_def returning_Inr lm life_plain)
    next
      assume r: "r = rule_M_38"
      have "e = MergeNotExecutedConfirmed" "a = A_MERGE_OUTCOME_CANCEL"
        using m(2,4) a by (cases e; simp add: r rule_M_38_def Match_def)+
      then show ?thesis
        using f(5) d lifecycle_step.not_executed
        by (auto simp: r rule_M_38_def merge_effect_def returning_Inr lm life_plain)
    next
      assume r: "r = rule_M_39"
      have e: "e = MergeNotExecutedConfirmed" "a = A_MERGE_OUTCOME_FAILURE"
        using m(2,4) a by (cases e; simp add: r rule_M_39_def Match_def)+
      have "ms_procedure ms' = NormalProcedure" "ms_state ms' = S_MERGE_FAILED"
        using f(5) n by (auto simp: r rule_M_39_def merge_effect_def returning_Inr)
      then show ?thesis
        using life_open [OF f(6)] held_not_blocked [OF f(6)] lifecycle_step.not_merged [of "{}"] d
        by (simp add: lm e)
    next
      assume r: "r = rule_M_40"
      have e: "e = MergeOutcomeUnknown" using m(2) by (cases e) (simp_all add: r rule_M_40_def Match_def)
      have "ms_procedure ms' = NormalProcedure" "ms_state ms' = S_MERGE_FAILED"
        using f(5) n by (auto simp: r rule_M_40_def merge_effect_def returning_Inr)
      then show ?thesis
        using life_open [OF f(6)] held_not_blocked [OF f(6)] lifecycle_step.unknown [OF o] d
        by (simp add: lm e)
    qed
  next
    case deferred
    then have d: "?d \<noteq> {}" and o: "outcome a"
      using m(4,8) a by (auto simp: rule_I_46_def rule_I_47_def rule_I_48_def rule_I_49_def Match_def
          MERGE_OUTCOME_AWAITINGS_def)
    have held: "held_violations ms = {}" using held_not_blocked [OF f(2)] s by simp
    from deferred show ?thesis
    proof (elim insertE emptyE)
      assume r: "r = rule_I_46"
      have "e = MergeConfirmed" using m(2) by (cases e) (simp_all add: r rule_I_46_def Match_def)
      then show ?thesis
        using f(5) d held lifecycle_step.merged_incident [OF o d]
        by (auto simp: r rule_I_46_def outcome_to_incident_def returning_Inr lm life_procedure(2) held_violations_def)
    next
      assume r: "r = rule_I_47"
      have "e = MergeNotExecutedConfirmed" "a = A_MERGE_OUTCOME_CANCEL"
        using m(2,4) a by (cases e; simp add: r rule_I_47_def Match_def)+
      then show ?thesis
        using f(5) d held lifecycle_step.not_executed_incident [OF d]
        by (auto simp: r rule_I_47_def outcome_to_incident_def returning_Inr lm life_procedure(2) held_violations_def)
    next
      assume r: "r = rule_I_48"
      have "e = MergeNotExecutedConfirmed" "a = A_MERGE_OUTCOME_FAILURE"
        using m(2,4) a by (cases e; simp add: r rule_I_48_def Match_def)+
      then show ?thesis
        using f(5) lifecycle_step.not_merged [of ?d]
        by (auto simp: r rule_I_48_def outcome_failure_to_block_def bind_result_eq_Inr mk_integrity_block_Inr
            returning_Inr lm life_plain)
    next
      assume r: "r = rule_I_49"
      have "e = MergeOutcomeUnknown" using m(2) by (cases e) (simp_all add: r rule_I_49_def Match_def)
      then show ?thesis
        using f(5) lifecycle_step.ask_again [OF o d] lm
        by (auto simp: r rule_I_49_def unchanged_effect_def)
    qed
  next
    case detect
    then have et: "event_type_of e = ET_RecordIntegrityViolationDetected" and o: "outcome a"
      using m(2,4) a by (auto simp: rule_I_D3_def Match_def)
    then obtain v where e: "e = RecordIntegrityViolationDetected v" using detected by blast
    have "ms' = ms\<lparr>ms_deferred_integrity := union_deferred ms v\<rparr>"
      using f(5) detect by (auto simp: e rule_I_D3_def returning_Inr)
    then show ?thesis
      using stay [of a] n s a lifecycle_step.detect_merging [OF o] by (simp add: lm e bindings_union)
  qed
qed

section \<open>Steps of a procedure\<close>

lemma reissue_cancel_Inr:
  "rule_effect (procedure_rule_cancel i et) ms e = Inr (ms', cs) \<Longrightarrow> ms' = ms"
  "rule_effect (procedure_rule_halt i et) ms e = Inr (ms', cs) \<Longrightarrow> ms' = ms"
  "rule_effect (procedure_rule_incident_request i et) ms e = Inr (ms', cs) \<Longrightarrow> ms' = ms"
  "rule_effect (procedure_rule_incident_persist i et) ms e = Inr (ms', cs) \<Longrightarrow> ms' = ms"
  by (auto simp: procedure_rule_cancel_def procedure_rule_halt_def procedure_rule_incident_request_def
      procedure_rule_incident_persist_def reissue_halt_for_cancel_def reissue_halt_for_block_def
      reissue_incident_request_def reissue_persist_def split: procedure.splits option.splits)

lemma reissue_event:
  "et \<in> set (ET_RunFailed # RESUME_EVENTS) \<Longrightarrow>
   event_type_of e = m_event_type (rule_match (procedure_rule_cancel i et)) \<or>
   event_type_of e = m_event_type (rule_match (procedure_rule_halt i et)) \<or>
   event_type_of e = m_event_type (rule_match (procedure_rule_incident_request i et)) \<or>
   event_type_of e = m_event_type (rule_match (procedure_rule_incident_persist i et)) \<Longrightarrow> reissued e"
  by (auto simp: reissued_def rule_event_type)

lemma cancelling_step:
  assumes t: "taken r ms e ms' cs" and p: "ms_procedure ms = CancellingProcedure c"
  shows "lifecycle_step (life ms) e (life ms')"
proof -
  note f = taken_facts [OF t]
  note m = match_facts [OF f(4)]
  note l = life_procedure(1) [OF p]
  have "r \<in> {rule_C_03, rule_C_04, rule_I_D2} \<or>
   (\<exists>i et. et \<in> set (ET_RunFailed # RESUME_EVENTS) \<and> r = procedure_rule_cancel i et)"
    using f(1,11) p by (intro cancelling_rules) auto
  then consider (complete) "r \<in> {rule_C_03, rule_C_04}" | (detect) "r = rule_I_D2"
    | (again) i et where "et \<in> set (ET_RunFailed # RESUME_EVENTS)" "r = procedure_rule_cancel i et" by blast
  then show ?thesis
  proof cases
    case complete
    then have "event_type_of e = ET_CancellationCompleted" "derive_binding ms e = Some BM_MATCH"
      using m(2,9) by (auto simp: rule_C_03_def rule_C_04_def Match_def)
    then obtain em where e: "e = CancellationCompleted (Some c) em"
      using p by (cases e) (auto simp: binding_match_of_def split: if_splits)
    show ?thesis
    proof (cases "r = rule_C_03")
      case True
      have d: "ms_deferred_integrity ms = []" using m(8) True by (simp add: rule_C_03_def Match_def)
      have "ms' = MachineState S_CANCELLED"
        using f(5) True by (simp add: rule_C_03_def bare_cancelled_effect_def returning_Inr)
      then show ?thesis by (simp add: l e d life_plain lifecycle_step.cancelled)
    next
      case False
      then have r: "r = rule_C_04" using complete by simp
      have d: "bindings_of (ms_deferred_integrity ms) \<noteq> {}" using m(8) r by (simp add: rule_C_04_def Match_def)
      have ms': "ms_procedure ms' = RecordingIncidentProcedure IT_CANCELLED (ms_pending_record ms)"
        "ms_deferred_integrity ms' = ms_deferred_integrity ms" "ms_block ms' = ms_block ms"
        using f(5) r by (auto simp: rule_C_04_def cancel_completed_to_incident_def Let_def returning_Inr)
      show ?thesis
        using lifecycle_step.cancelled_incident [OF d]
        by (simp add: l e life_procedure(2) [OF ms'(1)] ms'(2) held_cong [OF ms'(3)])
    qed
  next
    case detect
    then obtain v where e: "e = RecordIntegrityViolationDetected v"
      using m(2) detected [of e] by (auto simp: rule_I_D2_def Match_def)
    have "ms' = ms\<lparr>ms_deferred_integrity := union_deferred ms v\<rparr>"
      using f(5) by (auto simp: detect e rule_I_D2_def returning_Inr)
    then show ?thesis
      using lifecycle_step.detect_procedure [of "Cancelling c"] p
      by (simp add: l e life_procedure(1) bindings_union held_violations_def)
  next
    case again
    then have "ms' = ms" using reissue_cancel_Inr(1) f(5) by auto
    moreover have "reissued e" using again f(10) by (auto intro: reissue_event)
    ultimately show ?thesis
      using lifecycle_step.reissue [where p = "Cancelling c" and e = e] by (simp add: l)
  qed
qed

lemma halting_step:
  assumes t: "taken r ms e ms' cs" and p: "ms_procedure ms = HaltingForBlockProcedure b a"
  shows "lifecycle_step (life ms) e (life ms')"
proof -
  note f = taken_facts [OF t]
  note m = match_facts [OF f(4)]
  note l = life_halting [OF f(2) p]
  have "r \<in> {rule_B_HC, rule_I_D5u} \<or>
   (\<exists>i et. et \<in> set (ET_RunFailed # RESUME_EVENTS) \<and> r = procedure_rule_halt i et)"
    using f(1,11) p by (intro halting_rules) auto
  then consider (complete) "r = rule_B_HC" | (detect) "r = rule_I_D5u"
    | (again) i et where "et \<in> set (ET_RunFailed # RESUME_EVENTS)" "r = procedure_rule_halt i et" by blast
  then show ?thesis
  proof cases
    case complete
    then have "event_type_of e = ET_BlockHaltCompleted" "derive_binding ms e = Some BM_MATCH"
      using m(2,9) by (auto simp: rule_B_HC_def Match_def)
    then have e: "e = BlockHaltCompleted a"
      using p by (cases e) (auto simp: binding_match_of_def split: if_splits)
    have "ms' = MachineState S_BLOCKED\<lparr>ms_block := Some (RecordIntegrityBlock b)\<rparr>"
      using f(5) complete p by (simp add: rule_B_HC_def halt_completed_effect_def returning_Inr)
    then show ?thesis by (simp add: l e life_plain lifecycle_step.halted)
  next
    case detect
    then obtain v where e: "e = RecordIntegrityViolationDetected v"
      using m(2) detected [of e] by (auto simp: rule_I_D5u_def Match_def)
    have "ms_procedure ms' = HaltingForBlockProcedure
        \<lparr>ri_violations = canonicalize_integrity (ri_violations b @ [v])\<rparr> a"
      using f(5) p by (auto simp: detect e rule_I_D5u_def bind_result_eq_Inr mk_integrity_block_Inr
          mk_halting_Inr returning_Inr)
    then show ?thesis
      using lifecycle_step.detect_procedure [of "Halting a"] life_halting [OF f(6)] by (simp add: l e)
  next
    case again
    then have "ms' = ms" using reissue_cancel_Inr(2) f(5) by auto
    moreover have "reissued e" using again f(10) by (auto intro: reissue_event)
    ultimately show ?thesis
      using lifecycle_step.reissue [where p = "Halting a" and e = e] by (simp add: l)
  qed
qed

lemma recording_step:
  assumes t: "taken r ms e ms' cs" and p: "ms_procedure ms = RecordingIncidentProcedure g audit"
  shows "lifecycle_step (life ms) e (life ms')"
proof -
  note f = taken_facts [OF t]
  note m = match_facts [OF f(4)]
  note l = life_procedure(2) [OF p]
  let ?d = "bindings_of (ms_deferred_integrity ms)"
  have "r \<in> {rule_I_D1, rule_I_P, rule_I_VC, rule_I_VR} \<or>
   (\<exists>i et. et \<in> set (ET_RunFailed # RESUME_EVENTS) \<and>
      (r = procedure_rule_incident_request i et \<or> r = procedure_rule_incident_persist i et))"
    using f(1,11) p by (intro recording_rules) auto
  then consider (detect) "r = rule_I_D1" | (produced) "r = rule_I_P" | (complete) "r = rule_I_VC"
    | (rest) "r = rule_I_VR"
    | (again) i et where "et \<in> set (ET_RunFailed # RESUME_EVENTS)"
        "r = procedure_rule_incident_request i et \<or> r = procedure_rule_incident_persist i et" by blast
  then show ?thesis
  proof cases
    case detect
    then obtain v where e: "e = RecordIntegrityViolationDetected v"
      using m(2) detected [of e] by (auto simp: rule_I_D1_def Match_def)
    have "ms' = ms\<lparr>ms_deferred_integrity := union_deferred ms v\<rparr>"
      using f(5) by (auto simp: detect e rule_I_D1_def returning_Inr)
    then show ?thesis
      using lifecycle_step.detect_procedure [of "Recording g"] p
      by (simp add: l e life_procedure(2) bindings_union held_violations_def)
  next
    case produced
    then obtain c where e: "e = RecordProduced K_INTEGRITY_INCIDENT c"
      using m(2,6) by (cases e) (auto simp: rule_I_P_def Match_def)
    have "ms_procedure ms' = ms_procedure ms" "ms_deferred_integrity ms' = ms_deferred_integrity ms"
      "ms_block ms' = ms_block ms"
      using f(5) by (auto simp: produced e rule_I_P_def returning_Inr)
    then show ?thesis
      using lifecycle_step.incident_produced p life_procedure(2) [of ms'] held_cong [of ms' ms]
      by (simp add: l e)
  next
    case complete
    then obtain ev vs where e: "e = IntegrityIncidentVerified ev vs"
      using m(2) by (cases e) (auto simp: rule_I_VC_def Match_def)
    have "derive_coverage ms e = Some IC_COMPLETE"
      using m(12) complete by (simp add: rule_I_VC_def Match_def)
    then have "?d \<subseteq> set vs" by (simp add: e bindings_of_def split: if_splits)
    moreover have "ms' = MachineState (if g = IT_MERGED then S_MERGED else S_CANCELLED)"
      using f(5) complete p by (simp add: rule_I_VC_def incident_complete_effect_def returning_Inr)
    ultimately show ?thesis
      using lifecycle_step.incident_complete [of ?d vs g] by (cases g) (simp_all add: l e life_plain)
  next
    case rest
    then obtain ev vs where e: "e = IntegrityIncidentVerified ev vs"
      using m(2) by (cases e) (auto simp: rule_I_VR_def Match_def)
    have "derive_coverage ms e = Some IC_REMAINDER"
      using m(12) rest by (simp add: rule_I_VR_def Match_def)
    then have n: "\<not> ?d \<subseteq> set vs" by (simp add: e bindings_of_def split: if_splits)
    have ms': "ms' = ms\<lparr>ms_pending_record := None,
        ms_deferred_integrity := filter (\<lambda>x. ie_binding x \<notin> set vs) (ms_deferred_integrity ms)\<rparr>"
      using f(5) rest p by (simp add: e rule_I_VR_def Let_def returning_Inr)
    have "bindings_of (ms_deferred_integrity ms') = ?d - set vs"
      by (auto simp: ms' bindings_of_def)
    then have "life ms' = Life (Recording g) (?d - set vs) (held_violations ms)"
      using p by (simp add: life_procedure(2) ms' held_violations_def)
    then show ?thesis
      using lifecycle_step.incident_remainder [OF n] by (simp add: l e)
  next
    case again
    then have "ms' = ms" using reissue_cancel_Inr(3,4) f(5) by auto
    moreover have "reissued e" using again f(10) by (auto intro: reissue_event)
    ultimately show ?thesis
      using lifecycle_step.reissue [where p = "Recording g" and e = e] by (simp add: l)
  qed
qed

section \<open>The refinement\<close>

lemma machine_refines_lifecycle:
  assumes "machine_inv ms" and "legal_event e" and "transition ms e = Inr (ms', cs)"
  shows "lifecycle_step (life ms) e (life ms')"
proof -
  obtain r where t: "taken r ms e ms' cs" using assms by (rule accepted_taken)
  show ?thesis
  proof (cases "ms_procedure ms")
    case NormalProcedure
    then show ?thesis
      using open_work_step [OF t] open_special_step [OF t] merging_step [OF t] by blast
  qed (use cancelling_step [OF t] halting_step [OF t] recording_step [OF t] in blast)+
qed

end
