(* ===== verification/Machine_Commands.thy ===== *)
theory Machine_Commands
  imports Lifecycle_Refinement
begin

text \<open>
  Which commands the rules emit. The declared command names bound the commands of a step, so a
  question about all 143 rules is answered on their declarations; what an agent start leaves in the
  state is shown for the families of effects.
\<close>

section \<open>Bounds on the commands of a rule\<close>

fun names_bound :: "commands_decl \<Rightarrow> command_name set" where
  "names_bound (Commands ns) = set ns"
| "names_bound ReturnToDriveCommands = {N_RequestCodexReview, N_RequestHostAction}"
| "names_bound AwaitingCommands =
     {N_RequestCodexReview, N_RequestHostAction, N_CheckCi, N_GenerateReport,
      N_VerifyMergePreconditions, N_QueryMergeOutcome}"
| "names_bound RecoveryDriveCommands = {N_RequestCodexReview, N_RequestHostAction, N_GenerateReport}"
| "names_bound SavedCommands = {N_RequestCodexReview, N_RequestHostAction, N_InvalidateApprovals}"

lemma awaiting_names: "command_type ` set (AWAITING_COMMANDS a) \<subseteq> names_bound AwaitingCommands"
  by (cases a) simp_all

lemma drive_names: "DRIVE_TABLE s = Some (cs, a) \<Longrightarrow> command_type ` set cs \<subseteq> names_bound RecoveryDriveCommands"
  by (cases s) auto

lemma return_names:
  "s = S_RUNNING_REVIEW \<or> s = S_APPLYING_FIXES \<Longrightarrow> DRIVE_TABLE s = Some (cs, a) \<Longrightarrow>
   command_type ` set cs \<subseteq> names_bound ReturnToDriveCommands"
  by auto

lemma saved_names: "c \<in> registry_continuations \<Longrightarrow> command_type ` set (bc_commands c) \<subseteq> names_bound SavedCommands"
  by (auto simp: registry_continuations_def BLOCKED_CONTINUATIONS_def
      CONT_REVIEW_BLOCKING_def CONT_CLARIFICATION_def CONT_FIX_RESULT_def CONT_RESUBMIT_def
      CONT_CI_CODE_FAILURE_def CONT_EXTERNAL_DEPENDENCY_def HOST_APPLY_def CODEX_REVIEW_def)

lemma commands_bound:
  assumes "machine_inv ms" and "commands_ok d ms cs"
  shows "command_type ` set cs \<subseteq> names_bound d"
proof (cases d)
  case (Commands ns)
  then have "command_type ` set cs = set ns" using assms(2) by (metis commands_ok.simps(1) set_map)
  then show ?thesis using Commands by simp
next
  case ReturnToDriveCommands
  then show ?thesis
    using assms return_names constructible_checks(6) [OF machine_inv_constructible [OF assms(1)]] by fastforce
next
  case AwaitingCommands
  then show ?thesis using assms awaiting_names by fastforce
next
  case RecoveryDriveCommands
  then show ?thesis using assms drive_names by fastforce
next
  case SavedCommands
  then obtain b c where "ms_block ms = Some b" "block_continuation b = Some c" "cs = bc_commands c"
    using assms(2) by auto
  moreover from this have "c \<in> registry_continuations" using assms(1) by (simp add: machine_inv_def)
  ultimately show ?thesis using saved_names SavedCommands by simp
qed

lemma taken_command:
  "taken r ms e ms' cs \<Longrightarrow> c \<in> set cs \<Longrightarrow> command_type c \<in> names_bound (rule_command_names r)"
  using commands_bound taken_facts(2,8) by blast

lemmas declared_commands = names_def HOST_APPLY_def CODEX_REVIEW_def

section \<open>The merge command\<close>

lemma execute_rule:
  "r \<in> set REGISTRY \<Longrightarrow> N_ExecuteMerge \<in> names_bound (rule_command_names r) \<Longrightarrow> r = rule_M_34"
  apply (simp add: registry_defs)
  apply (elim disjE; simp add: all_rule_defs declared_commands)
  done

lemma command_type_execute [simp]: "command_type c = N_ExecuteMerge \<longleftrightarrow> c = ExecuteMerge"
  by (cases c) simp_all

lemma execute_merge_step:
  assumes t: "taken r ms e ms' cs" and x: "ExecuteMerge \<in> set cs"
  shows "e = MergePreconditionsOk \<and> ms_state ms = S_MERGING \<and> ms_procedure ms = NormalProcedure \<and>
    ms_awaiting ms = Some A_MERGE_PRECONDITIONS \<and> ms_pending_record ms = None \<and>
    ms_deferred_integrity ms = [] \<and> cs = [ExecuteMerge] \<and>
    ms' = ms\<lparr>ms_awaiting := Some A_MERGE_OUTCOME_EXECUTE\<rparr>"
proof -
  note f = taken_facts [OF t]
  have "N_ExecuteMerge \<in> names_bound (rule_command_names r)" using taken_command [OF t x] by simp
  then have r: "r = rule_M_34" by (rule execute_rule [OF f(1)])
  note m = match_facts [OF f(4) [unfolded r]]
  have "e = MergePreconditionsOk" using m(2) by (cases e) (simp_all add: rule_M_34_def Match_def)
  moreover have s: "ms_procedure ms = NormalProcedure" "ms_state ms = S_MERGING"
    "ms_awaiting ms = Some A_MERGE_PRECONDITIONS" and "ms_pending_record ms = None"
    using m(1,3-5) by (simp_all add: rule_M_34_def Match_def)
  moreover have "ms_deferred_integrity ms = []" using life_preconditions(2) [OF f(2) s] .
  moreover have "cs = [ExecuteMerge] \<and> ms' = ms\<lparr>ms_awaiting := Some A_MERGE_OUTCOME_EXECUTE\<rparr>"
    using f(5) by (simp add: r rule_M_34_def merge_effect_def returning_Inr)
  ultimately show ?thesis by blast
qed

section \<open>Procedures start nothing\<close>

definition procedure_commands :: "command_name set" where
  "procedure_commands = {N_HaltRun, N_RecordIntegrityIncident, N_PersistRecord, N_InvalidateApprovals}"

lemma procedure_command_step:
  assumes t: "taken r ms e ms' cs" and p: "ms_procedure ms \<noteq> NormalProcedure" and c: "c \<in> set cs"
  shows "command_type c \<in> procedure_commands"
proof -
  note f = taken_facts [OF t]
  have "\<exists>i et. r \<in> {rule_C_03, rule_C_04, rule_I_D2, rule_B_HC, rule_I_D5u, rule_I_D1, rule_I_P,
      rule_I_VC, rule_I_VR, procedure_rule_cancel i et, procedure_rule_halt i et,
      procedure_rule_incident_request i et, procedure_rule_incident_persist i et}"
    using f(11) p cancelling_rules [OF f(1)] halting_rules [OF f(1)] recording_rules [OF f(1)]
    by (cases "ms_procedure ms") (simp_all, blast+)
  then have "names_bound (rule_command_names r) \<subseteq> procedure_commands"
    by (auto simp: rule_C_03_def rule_C_04_def rule_I_D2_def rule_B_HC_def rule_I_D5u_def rule_I_D1_def
        rule_I_P_def rule_I_VC_def rule_I_VR_def procedure_rule_cancel_def procedure_rule_halt_def
        procedure_rule_incident_request_def procedure_rule_incident_persist_def procedure_commands_def)
  then show ?thesis using taken_command [OF t c] by blast
qed

section \<open>What starting an agent leaves in the state\<close>

text \<open>
  An agent is started only in a state that waits for exactly this agent and has no record pending.
\<close>

definition starts_ok :: "machine_state \<Rightarrow> command list \<Rightarrow> bool" where
  "starts_ok ms cs \<longleftrightarrow>
     list_all (\<lambda>c. starts_agent c \<longrightarrow>
        ms_pending_record ms = None \<and>
        (case ms_awaiting ms of None \<Rightarrow> False | Some a \<Rightarrow> AWAITING_COMMANDS a = [c])) cs"

definition starting :: "rule \<Rightarrow> bool" where
  "starting r \<longleftrightarrow> (\<forall>ms e ms' cs. machine_inv ms \<longrightarrow> rule_matches r ms e \<longrightarrow>
     rule_effect r ms e = Inr (ms', cs) \<longrightarrow> starts_ok ms' cs)"

lemma starting_I:
  "(\<And>ms e ms' cs. machine_inv ms \<Longrightarrow> rule_matches r ms e \<Longrightarrow> rule_effect r ms e = Inr (ms', cs) \<Longrightarrow>
     starts_ok ms' cs) \<Longrightarrow> starting r"
  by (simp add: starting_def)

definition table_starts :: "awaiting option \<Rightarrow> command list \<Rightarrow> bool" where
  "table_starts a cs \<longleftrightarrow> list_all (\<lambda>c. starts_agent c \<longrightarrow>
     (case a of None \<Rightarrow> False | Some a' \<Rightarrow> AWAITING_COMMANDS a' = [c])) cs"

lemma starts_none: "\<forall>c \<in> set cs. \<not> starts_agent c \<Longrightarrow> starts_ok ms cs"
  by (simp add: starts_ok_def list_all_iff)

lemma starting_advance: "rule_effect r = advance to a cs \<Longrightarrow> table_starts a cs \<Longrightarrow> starting r"
  by (rule starting_I) (auto simp: advance_def returning_Inr starts_ok_def table_starts_def)

lemma starting_tables:
  "table_starts a cs \<Longrightarrow> starting (verified_rule i sec et from to a cs p)"
  "table_starts a cs \<Longrightarrow> starting (external_rule i sec et from aw to a cs)"
  "table_starts a cs \<Longrightarrow> starting (response_rule i sec et from aw to a cs)"
  by (rule starting_advance; simp add: verified_rule_def external_rule_def response_rule_def)+

lemma awaiting_starts: "table_starts (Some a) (AWAITING_COMMANDS a)"
  by (cases a) (simp_all add: table_starts_def)

lemma drive_awaiting: "DRIVE_TABLE s = Some (cs, a) \<Longrightarrow> AWAITING_COMMANDS a = cs"
  by (cases s) auto

lemma continuation_starts: "c \<in> registry_continuations \<Longrightarrow> table_starts (bc_awaiting c) (bc_commands c)"
  by (auto simp: registry_continuations_def BLOCKED_CONTINUATIONS_def
      CONT_REVIEW_BLOCKING_def CONT_CLARIFICATION_def CONT_FIX_RESULT_def CONT_RESUBMIT_def
      CONT_CI_CODE_FAILURE_def CONT_EXTERNAL_DEPENDENCY_def HOST_APPLY_def CODEX_REVIEW_def
      table_starts_def)

lemma starts_ok_table:
  "ms_pending_record ms = None \<Longrightarrow> starts_ok ms cs \<longleftrightarrow> table_starts (ms_awaiting ms) cs"
  by (simp add: starts_ok_def table_starts_def)

lemma starting_fresh:
  "rule_effect r = fresh_review_effect \<or> rule_effect r = integrity_exit_effect \<Longrightarrow> starting r"
  by (rule starting_I)
     (auto simp: fresh_review_effect_def integrity_exit_effect_def returning_Inr starts_ok_def MachineState_def)

lemma starting_replay: "rule_effect r = replay_continuation \<Longrightarrow> starting r"
proof (rule starting_I)
  fix ms e ms' cs
  assume eff: "rule_effect r = replay_continuation" and inv: "machine_inv ms"
    and res: "rule_effect r ms e = Inr (ms', cs)"
  then obtain b c where b: "ms_block ms = Some b" "block_continuation b = Some c"
    and ms': "ms' = MachineState (bc_resume_state c)\<lparr>ms_awaiting := bc_awaiting c\<rparr>" "cs = bc_commands c"
    by (auto simp: replay_continuation_def returning_Inr split: option.splits)
  have "c \<in> registry_continuations" using inv b by (simp add: machine_inv_def)
  then show "starts_ok ms' cs"
    using continuation_starts by (simp add: ms' starts_ok_table MachineState_def)
qed

lemma starting_resumed: "starting rule_T_21" "starting rule_R_A1" "starting rule_R_A2" "starting rule_R_D"
proof -
  have table: "starts_ok ms' cs"
    if "ms_pending_record ms' = None" "ms_awaiting ms' = Some a" "AWAITING_COMMANDS a = cs" for ms' cs a
    using that awaiting_starts [of a] by (simp add: starts_ok_table)
  show "starting rule_T_21"
    by (rule starting_I)
       (auto simp: rule_T_21_def permission_resume_effect_def returning_Inr Match_def dest!: match_facts(5)
         intro!: table dest: drive_awaiting split: option.splits)
  show "starting rule_R_A1"
    by (rule starting_I)
       (auto simp: rule_R_A1_def resume_awaiting_failed_def returning_Inr Match_def dest!: match_facts(5)
         intro!: table split: option.splits)
  show "starting rule_R_A2"
    by (rule starting_I)
       (auto simp: rule_R_A2_def resume_awaiting_live_def returning_Inr Match_def dest!: match_facts(5)
         intro!: table split: option.splits)
  show "starting rule_R_D"
    by (rule starting_I)
       (auto simp: rule_R_D_def resume_drive_def returning_Inr Match_def dest!: match_facts(5)
         intro!: table dest: drive_awaiting split: option.splits)
qed

lemma command_agent: "starts_agent c \<longleftrightarrow> command_type c \<in> {N_RequestCodexReview, N_RequestHostAction}"
  by (cases c) simp_all

text \<open>Each rule either declares no agent start or starts agents as required.\<close>

definition starts_rule :: "rule \<Rightarrow> bool" where
  "starts_rule r \<longleftrightarrow>
     starting r \<or> names_bound (rule_command_names r) \<inter> {N_RequestCodexReview, N_RequestHostAction} = {}"

lemma starts_produced: "list_all starts_rule PRODUCED_RULES"
  by (simp add: PRODUCED_RULES_def workflow_rule_defs produced_rule_def starts_rule_def)

lemma starting_head: "starting rule_T_26" "starting rule_T_33"
  by (rule starting_advance [where to = "Some S_RUNNING_REVIEW" and a = "Some A_CODEX_CODE_REVIEW"
        and cs = "InvalidateApprovals # CODEX_REVIEW"];
      simp add: rule_T_26_def rule_T_33_def table_starts_def declared_commands)+

lemma starts_rule_I:
  "starting r \<Longrightarrow> starts_rule r"
  "names_bound (rule_command_names r) \<inter> {N_RequestCodexReview, N_RequestHostAction} = {} \<Longrightarrow> starts_rule r"
  by (simp_all add: starts_rule_def)

lemma starts_workflow: "list_all starts_rule WORKFLOW_RULES"
proof -
  have tables: "starts_rule (verified_rule i sec et src to a cs p)"
    "starts_rule (external_rule i sec et src aw to a cs)"
    "starts_rule (response_rule i sec et src aw to a cs)" if "table_starts a cs" for i sec et src aw to a cs p
    using that by (simp_all add: starts_rule_I starting_tables)
  have block: "starts_rule (progress_block_rule i et src c entry)"
    if "list_all (\<lambda>c. \<not> starts_agent c) entry" for i et src c entry
    using that by (intro starts_rule_I(2)) (auto simp: progress_block_rule_def names_def list_all_iff command_agent)
  have others: "starts_rule rule_T_05" "starts_rule rule_T_13" "starts_rule rule_T_43"
    by (simp_all add: starts_rule_def rule_T_05_def rule_T_13_def rule_T_43_def)
  show ?thesis
    unfolding WORKFLOW_RULES_def list.pred_inject
    apply (intro conjI others starts_rule_I(1) [OF starting_resumed(1)] starts_rule_I(1) [OF starting_head(1)]
        starts_rule_I(1) [OF starting_head(2)])
    apply (simp_all only: workflow_rule_defs list.pred_inject)
    apply (rule tables block; simp add: table_starts_def declared_commands)+
    done
qed

lemma starts_recovery: "list_all starts_rule RECOVERY_RULES"
proof -
  have fresh: "starting rule_M_36" "starting rule_M_HC" "starting rule_R_F" "starting rule_R_FB"
    by (rule starting_fresh; simp add: rule_M_36_def rule_M_HC_def rule_R_F_def rule_R_FB_def)+
  have "list_all starts_rule (MERGE_RULES @ RESUME_RULES)"
    by (simp add: MERGE_RULES_def RESUME_RULES_def starts_rule_I(1) fresh starting_resumed)
       (simp add: starts_rule_def recovery_rule_defs)
  moreover have "list_all starts_rule (CANCEL_RULES @ FAILURE_RULES)"
    by (simp add: CANCEL_RULES_def FAILURE_RULES_def starts_rule_def recovery_rule_defs)
  moreover have "list_all starts_rule PROCEDURE_RULES"
    by (auto simp: PROCEDURE_RULES_def list_all_iff starts_rule_def recovery_rule_defs)
  ultimately show ?thesis by (simp add: RECOVERY_RULES_def)
qed

lemma starts_integrity: "list_all starts_rule INTEGRITY_RULES"
proof -
  have exits: "starting rule_B_RS" "starting rule_B_SV"
    by (rule starting_fresh; simp add: rule_B_RS_def rule_B_SV_def)+
  have replays: "starting rule_B_LR" "starting rule_B_IV1" "starting rule_B_IV2"
    by (rule starting_replay; simp add: rule_B_LR_def rule_B_IV1_def rule_B_IV2_def)+
  show ?thesis
    by (simp add: INTEGRITY_RULES_def DETECTION_RULES_def INCIDENT_RULES_def MERGE_INTEGRITY_RULES_def
        BLOCK_RESOLUTION_RULES_def starts_rule_I(1) exits replays)
       (simp add: starts_rule_def integrity_rule_defs)
qed

lemma starts_registry: "r \<in> set REGISTRY \<Longrightarrow> starts_rule r"
  using starts_produced starts_workflow starts_recovery starts_integrity
  by (auto simp: REGISTRY_def list_all_iff)

lemma agent_start_step:
  assumes t: "taken r ms e ms' cs"
  shows "starts_ok ms' cs"
proof (cases "\<exists>c \<in> set cs. starts_agent c")
  case False
  then show ?thesis using starts_none by blast
next
  case True
  then have "\<not> names_bound (rule_command_names r) \<inter> {N_RequestCodexReview, N_RequestHostAction} = {}"
    using taken_command [OF t] command_agent by blast
  then have "starting r" using starts_registry [OF taken_facts(1) [OF t]] unfolding starts_rule_def by blast
  then show ?thesis using taken_facts(2,4,5) [OF t] by (simp add: starting_def)
qed

end
