(* ===== verification/Lifecycle_Laws.thy ===== *)
theory Lifecycle_Laws
  imports Machine_Commands
begin

text \<open>
  What the specification promises, read off its steps, and what that means for runs of the machine.
\<close>

section \<open>Laws of the specification\<close>

lemma Life_simps [simp]: "lc_phase (Life p d b) = p" "lc_open (Life p d b) = d" "lc_held (Life p d b) = b"
  by (simp_all add: Life_def)

lemma step_to_merging:
  "lifecycle_step l e l' \<Longrightarrow> lc_phase l' = Merging a' \<Longrightarrow>
   (\<exists>ev. e = MergeApprovalVerified ev) \<and> lc_phase l = Open \<or> (\<exists>a. lc_phase l = Merging a)"
  by (erule lifecycle_step.cases) auto

lemma step_to_merged:
  "lifecycle_step l e l' \<Longrightarrow> lc_phase l' = Recording IT_MERGED \<or> lc_phase l' = Done IT_MERGED \<Longrightarrow>
   e = MergeConfirmed \<and> (\<exists>a. lc_phase l = Merging a \<and> outcome a) \<or> lc_phase l = Recording IT_MERGED"
  by (erule lifecycle_step.cases) auto

lemma step_open_kept:
  "lifecycle_step l e l' \<Longrightarrow> v \<in> lc_open l \<Longrightarrow> v \<notin> lc_open l' \<union> lc_held l' \<Longrightarrow>
   \<exists>ev vs. e = IntegrityIncidentVerified ev vs \<and> v \<in> set vs"
  by (erule lifecycle_step.cases) auto

lemma step_held_kept:
  "lifecycle_step l e l' \<Longrightarrow> v \<in> lc_held l \<Longrightarrow> v \<notin> lc_held l' \<Longrightarrow>
   (\<exists>r vs. (e = IntegrityRestoredValidated r \<or> e = IntegritySalvageEstablished r) \<and>
      br_violation_bindings r = Some vs \<and> v \<in> set vs) \<or> (\<exists>t. lc_phase l' = Done t)"
  by (erule lifecycle_step.cases) auto

lemma step_to_done:
  "lifecycle_step l e l' \<Longrightarrow> lc_phase l' = Done t \<Longrightarrow>
   lc_open l = {} \<and>
     (e = MergeConfirmed \<and> t = IT_MERGED \<and> (\<exists>a. lc_phase l = Merging a \<and> outcome a) \<or>
      e = MergeNotExecutedConfirmed \<and> t = IT_CANCELLED \<and> lc_phase l = Merging A_MERGE_OUTCOME_CANCEL \<or>
      (\<exists>c em. e = CancellationCompleted (Some c) em \<and> t = IT_CANCELLED \<and> lc_phase l = Cancelling c) \<or>
      (\<exists>em. e = CancellationCompleted None (Some em) \<and> t = IT_CANCELLED \<and> lc_phase l = Open)) \<or>
   (\<exists>ev vs. e = IntegrityIncidentVerified ev vs \<and> lc_phase l = Recording t \<and> lc_open l \<subseteq> set vs)"
  by (erule lifecycle_step.cases) auto

lemma step_detect:
  "lifecycle_step l (RecordIntegrityViolationDetected v) l' \<Longrightarrow>
   lc_open l' \<union> lc_held l' = insert (ie_binding v) (lc_open l \<union> lc_held l)"
  by (erule lifecycle_step.cases) (auto simp: ordinary_def reissued_def RESUME_EVENTS_def)

lemma step_halting:
  "lifecycle_step l e l' \<Longrightarrow> lc_phase l = Halting a \<Longrightarrow>
   lc_phase l' = Halting a \<and> lc_open l \<subseteq> lc_open l' \<or>
   e = BlockHaltCompleted a \<and> lc_phase l' = Open \<and> lc_open l' = {} \<and> lc_held l' = lc_open l"
  by (erule lifecycle_step.cases) auto

lemma step_cancelling:
  "lifecycle_step l e l' \<Longrightarrow> lc_phase l = Cancelling c \<Longrightarrow>
   lc_phase l' = Cancelling c \<and> lc_open l \<subseteq> lc_open l' \<or>
   (\<exists>em. e = CancellationCompleted (Some c) em) \<and>
     (if lc_open l = {} then lc_phase l' = Done IT_CANCELLED
      else lc_phase l' = Recording IT_CANCELLED \<and> lc_open l' = lc_open l)"
  by (erule lifecycle_step.cases) auto

lemma step_recording:
  "lifecycle_step l e l' \<Longrightarrow> lc_phase l = Recording t \<Longrightarrow>
   lc_phase l' = Recording t \<and>
     (lc_open l \<subseteq> lc_open l' \<or> (\<exists>ev vs. e = IntegrityIncidentVerified ev vs \<and> lc_open l' = lc_open l - set vs)) \<or>
   (\<exists>ev vs. e = IntegrityIncidentVerified ev vs \<and> lc_open l \<subseteq> set vs) \<and> lc_phase l' = Done t"
  by (erule lifecycle_step.cases) auto

section \<open>Phases and states\<close>

lemma phase_life [simp]: "lc_phase (life ms) = phase_of ms" "lc_open (life ms) = open_violations ms"
  "lc_held (life ms) = held_violations ms"
  by (simp_all add: life_def)

lemma phase_merging:
  "machine_inv ms \<Longrightarrow>
   (\<exists>a. phase_of ms = Merging a) \<longleftrightarrow> ms_state ms = S_MERGING \<and> ms_procedure ms = NormalProcedure"
  using merging_state(4) [of ms] by (auto simp: phase_of_def split: procedure.splits)

lemma phase_merging_eq:
  "phase_of ms = Merging a \<longleftrightarrow>
     ms_state ms = S_MERGING \<and> ms_procedure ms = NormalProcedure \<and> ms_awaiting ms = Some a"
  by (auto simp: phase_of_def split: procedure.splits option.splits)

lemma phase_done:
  "machine_inv ms \<Longrightarrow> phase_of ms = Done t \<longleftrightarrow> ms_state ms = (if t = IT_MERGED then S_MERGED else S_CANCELLED)"
  using constructible_checks(3) [OF machine_inv_constructible, of ms]
  by (cases t) (auto simp: phase_of_def split: procedure.splits option.splits)

lemma phase_procedure:
  "phase_of ms = Halting a \<longleftrightarrow> (\<exists>b. ms_procedure ms = HaltingForBlockProcedure b a)"
  "phase_of ms = Cancelling c \<longleftrightarrow> ms_procedure ms = CancellingProcedure c"
  "phase_of ms = Recording t \<longleftrightarrow> (\<exists>p. ms_procedure ms = RecordingIncidentProcedure t p)"
  by (auto simp: phase_of_def split: procedure.splits option.splits)

section \<open>How a run reaches MERGED\<close>

text \<open>
  The steps of a run since the last approval: while the run is in the merge transaction, or records
  the incident of a confirmed merge, or has merged, it contains an approval after which every state
  is \<open>MERGING\<close> up to the confirmation.
\<close>

type_synonym trace = "(event \<times> command list \<times> machine_state) list"

definition approved_trace :: "trace \<Rightarrow> bool" where
  "approved_trace t \<longleftrightarrow> (\<exists>t1 ev cs s t2. t = t1 @ (MergeApprovalVerified ev, cs, s) # t2 \<and>
     list_all (\<lambda>(e, cs, s). ms_state s = S_MERGING) ((MergeApprovalVerified ev, cs, s) # t2))"

definition confirmed_trace :: "trace \<Rightarrow> bool" where
  "confirmed_trace t \<longleftrightarrow> (\<exists>t1 cs s t2. t = t1 @ (MergeConfirmed, cs, s) # t2 \<and> approved_trace t1)"

lemma approved_extend: "approved_trace t \<Longrightarrow> ms_state s = S_MERGING \<Longrightarrow> approved_trace (t @ [(e, cs, s)])"
  unfolding approved_trace_def by (elim exE conjE) (rule exI, rule exI, rule exI, rule exI, rule exI, auto)

lemma confirmed_extend: "confirmed_trace t \<Longrightarrow> confirmed_trace (t @ u)"
  unfolding confirmed_trace_def by (metis append.assoc append_Cons)

lemma approved_here: "ms_state s = S_MERGING \<Longrightarrow> approved_trace (t @ [(MergeApprovalVerified ev, cs, s)])"
  unfolding approved_trace_def by (intro exI [of _ t] exI [of _ ev] exI [of _ cs] exI [of _ s] exI [of _ "[]"]) simp

lemma merge_history:
  assumes "initial s0" and "machine_run s0 t"
  shows "((\<exists>a. phase_of (run_end s0 t) = Merging a) \<longrightarrow> approved_trace t) \<and>
    (phase_of (run_end s0 t) = Recording IT_MERGED \<or> phase_of (run_end s0 t) = Done IT_MERGED \<longrightarrow>
       confirmed_trace t)"
  using assms(2)
proof (induction t rule: rev_induct)
  case Nil
  show ?case using assms(1) by (auto simp: initial_iff phase_of_def MachineState_def)
next
  case (snoc x t)
  obtain e cs s' where x: "x = (e, cs, s')" by (cases x)
  let ?s = "run_end s0 t"
  from snoc.prems x have run: "machine_run s0 t" and legal: "legal_event e" and step: "transition ?s e = Inr (s', cs)"
    by auto
  have inv: "machine_inv ?s" using machine.run_inv [OF initial_inv [OF assms(1)] run] .
  have inv': "machine_inv s'" using transition_inv [OF inv legal step] .
  have l: "lifecycle_step (life ?s) e (life s')" using machine_refines_lifecycle [OF inv legal step] .
  note IH = snoc.IH [OF run]
  have "approved_trace (t @ [x])" if "phase_of s' = Merging a" for a
    using step_to_merging [OF l] that IH approved_extend [of t s' e cs] approved_here [of s' t _ cs]
    by (auto simp: x phase_merging_eq)
  moreover have "confirmed_trace (t @ [x])" if "phase_of s' = Recording IT_MERGED \<or> phase_of s' = Done IT_MERGED"
  proof (cases "phase_of ?s = Recording IT_MERGED")
    case True
    then show ?thesis using IH confirmed_extend by blast
  next
    case False
    then have "e = MergeConfirmed" "\<exists>a. phase_of ?s = Merging a" using step_to_merged [OF l] that by auto
    then show ?thesis using IH unfolding x confirmed_trace_def by blast
  qed
  ultimately show ?case by (auto simp: x)
qed

end
