(* ===== verification/Resumption.thy ===== *)
theory Resumption
  imports Lifecycle_Laws
begin

text \<open>
  Failure and resumption: what a resume does in each state, that repeating it changes nothing, and
  that a failed run comes back to the state it failed in.
\<close>

lemmas match_eval =
  rule_matches_def matches_def derive_guard_key_def Match_def derive_pending_def

section \<open>Resume, by state\<close>

lemma resume_by_pending:
  assumes n: "ms_procedure ms = NormalProcedure" and nt: "ms_state ms \<notin> TERMINAL_STATES"
    and p: "ms_pending_record ms = Some p"
  shows "transition ms ResumeValidated = resume_pending ms ResumeValidated"
proof -
  have "rule_matches rule_R_P ms ResumeValidated"
    using n nt p by (simp add: match_eval rule_R_P_def)
  then show ?thesis
    using transition_by_rule [of rule_R_P ResumeValidated ms] by (simp add: rules_for_simps rule_R_P_def)
qed

lemma resume_failed_awaiting:
  assumes n: "ms_procedure ms = NormalProcedure" and s: "ms_state ms = S_FAILED"
    and p: "ms_pending_record ms = None" and r: "ms_recovery_to ms = Some r" and a: "ms_awaiting ms = Some a"
  shows "transition ms ResumeValidated = returning (ms\<lparr>ms_state := r, ms_recovery_to := None\<rparr>) (AWAITING_COMMANDS a)"
proof -
  have "rule_matches rule_R_A1 ms ResumeValidated"
    using assms by (simp add: match_eval rule_R_A1_def)
  then show ?thesis
    using transition_by_rule [of rule_R_A1 ResumeValidated ms] r a
    by (simp add: rules_for_simps rule_R_A1_def resume_awaiting_failed_def)
qed

lemma resume_live_awaiting:
  assumes n: "ms_procedure ms = NormalProcedure" and s: "ms_state ms \<notin> {S_FAILED, S_BLOCKED}"
    and nt: "ms_state ms \<notin> TERMINAL_STATES"
    and p: "ms_pending_record ms = None" and a: "ms_awaiting ms = Some a"
  shows "transition ms ResumeValidated = Inr (ms, AWAITING_COMMANDS a)"
proof -
  have "rule_matches rule_R_A2 ms ResumeValidated"
    using assms by (simp add: match_eval rule_R_A2_def)
  then show ?thesis
    using transition_by_rule [of rule_R_A2 ResumeValidated ms] a
    by (simp add: rules_for_simps rule_R_A2_def resume_awaiting_live_def)
qed

lemma resume_failed_drive:
  assumes n: "ms_procedure ms = NormalProcedure" and s: "ms_state ms = S_FAILED"
    and p: "ms_pending_record ms = None" and r: "ms_recovery_to ms = Some r" and a: "ms_awaiting ms = None"
    and d: "DRIVE_TABLE r = Some (cs, a')"
  shows "transition ms ResumeValidated =
    returning (ms\<lparr>ms_state := r, ms_awaiting := Some a', ms_recovery_to := None\<rparr>) cs"
proof -
  have "rule_matches rule_R_D ms ResumeValidated"
    using assms by (simp add: match_eval rule_R_D_def)
  then show ?thesis
    using transition_by_rule [of rule_R_D ResumeValidated ms] r d
    by (simp add: rules_for_simps rule_R_D_def resume_drive_def)
qed

section \<open>Repeating a resume changes nothing\<close>

lemma resume_rules:
  "r \<in> set REGISTRY \<Longrightarrow> m_event_type (rule_match r) = ET_ResumeValidated \<Longrightarrow>
   r \<in> {procedure_rule_cancel ''1'' ET_ResumeValidated, procedure_rule_halt ''1'' ET_ResumeValidated,
     procedure_rule_incident_request ''1'' ET_ResumeValidated,
     procedure_rule_incident_persist ''1'' ET_ResumeValidated,
     rule_R_P, rule_R_A1, rule_R_A2, rule_R_D, rule_R_B}"
proof -
  assume "r \<in> set REGISTRY" "m_event_type (rule_match r) = ET_ResumeValidated"
  then have "r \<in> set (rules_for ET_ResumeValidated)" by (simp add: rules_for_filter)
  then show ?thesis by (simp add: rules_for_simps)
qed

lemma resume_fixpoint:
  assumes inv: "machine_inv ms" and step: "transition ms ResumeValidated = Inr (ms', cs)"
  shows "transition ms' ResumeValidated = Inr (ms', cs)"
proof -
  have "legal_event ResumeValidated" by (simp add: verified_event_check_def)
  then obtain r where t: "taken r ms ResumeValidated ms' cs" using accepted_taken inv step by blast
  note f = taken_facts [OF t]
  note m = match_facts [OF f(4)]
  have same: ?thesis if "ms' = ms" using that step by simp
  have post: "machine_state_post_init ms' = Inr ()" using f(6) machine_inv_post_init by blast
  consider (proc) "ms' = ms" | (pending) "r = rule_R_P" | (awaiting) "r = rule_R_A1" | (drive) "r = rule_R_D"
    using resume_rules [OF f(1)] f(5,10) reissue_cancel_Inr
    by (auto simp: rule_R_A2_def resume_awaiting_live_def rule_R_B_def unchanged_effect_def split: option.splits)
  then show ?thesis
  proof cases
    case pending
    then obtain p where n: "ms_procedure ms = NormalProcedure" and p: "ms_pending_record ms = Some p"
      and res: "resume_pending ms ResumeValidated = Inr (ms', cs)"
      using m(3,5) f(5) pending_present by (auto simp: rule_R_P_def Match_def)
    have ms': "ms' = ms\<lparr>ms_state := pr_source_state p,
        ms_recovery_to := (if pr_source_state p = ms_state ms then ms_recovery_to ms else None)\<rparr>"
      and cs: "cs = [PersistRecord (pr_kind p) (pr_binding p)]"
      using res p by (auto simp: resume_pending_def returning_Inr)
    have nt: "ms_state ms' \<notin> TERMINAL_STATES"
      using constructible_checks(3) [OF machine_inv_constructible [OF f(6)]] p by (auto simp: ms')
    have "resume_pending ms' ResumeValidated = returning ms' cs"
      by (simp add: resume_pending_def cs ms' p)
    then show ?thesis
      using resume_by_pending [of ms' p] n p nt post by (simp add: ms' returning_ok)
  next
    case awaiting
    have "ms_procedure ms = NormalProcedure" "ms_state ms = S_FAILED" "ms_pending_record ms = None"
      using m(1,3,5) awaiting by (auto simp: rule_R_A1_def Match_def)
    moreover obtain r a where ra: "ms_recovery_to ms = Some r" "ms_awaiting ms = Some a"
      and ms': "ms' = ms\<lparr>ms_state := r, ms_recovery_to := None\<rparr>" "cs = AWAITING_COMMANDS a"
      using f(5) awaiting by (auto simp: rule_R_A1_def resume_awaiting_failed_def returning_Inr split: option.splits)
    ultimately show ?thesis
      using resume_live_awaiting [of ms' a] recovery_facts [OF inv ra(1)] by (simp add: ms')
  next
    case drive
    have "ms_procedure ms = NormalProcedure" "ms_pending_record ms = None"
      using m(3,5) drive by (auto simp: rule_R_D_def Match_def)
    moreover obtain r a where r: "ms_recovery_to ms = Some r" "DRIVE_TABLE r = Some (cs, a)"
      and ms': "ms' = ms\<lparr>ms_state := r, ms_awaiting := Some a, ms_recovery_to := None\<rparr>"
      using f(5) drive by (auto simp: rule_R_D_def resume_drive_def returning_Inr split: option.splits)
    ultimately show ?thesis
      using resume_live_awaiting [of ms' a] recovery_facts [OF inv r(1)] drive_awaiting [OF r(2)]
      by (simp add: ms')
  qed (fact same)
qed

section \<open>Failure and resumption\<close>

definition failed :: "machine_state \<Rightarrow> machine_state" where
  "failed ms = ms\<lparr>ms_state := S_FAILED, ms_recovery_to := Some (ms_state ms)\<rparr>"

lemma fail_step:
  assumes inv: "machine_inv ms" and n: "ms_procedure ms = NormalProcedure"
    and s: "ms_state ms \<in> ACTIVE_STATES" "ms_state ms \<noteq> S_MERGING"
  shows "transition ms RunFailed = Inr (failed ms, [])"
proof -
  have "rule_matches rule_F_01 ms RunFailed"
    using n s by (simp add: match_eval rule_F_01_def del: in_ACTIVE)
  then show ?thesis
    using transition_by_rule [of rule_F_01 RunFailed ms] failed_inv [OF assms]
    by (simp add: rules_for_simps rule_F_01_def fail_to_recovery_def failed_def returning_ok machine_inv_post_init)
qed

lemma restored: "ms_recovery_to ms = None \<Longrightarrow> failed ms\<lparr>ms_state := ms_state ms, ms_recovery_to := None\<rparr> = ms"
  by (simp add: failed_def)

text \<open>What the resumed run is told to do: persist the record, repeat the request, or start over.\<close>

definition resumed :: "machine_state \<Rightarrow> machine_state \<times> command list" where
  "resumed ms =
     (case ms_pending_record ms of
        Some p \<Rightarrow> (ms, [PersistRecord (pr_kind p) (pr_binding p)])
      | None \<Rightarrow>
          (case ms_awaiting ms of
             Some a \<Rightarrow> (ms, AWAITING_COMMANDS a)
           | None \<Rightarrow>
               (case DRIVE_TABLE (ms_state ms) of
                  Some (cs, a) \<Rightarrow> (ms\<lparr>ms_awaiting := Some a\<rparr>, cs)
                | None \<Rightarrow> (ms, []))))"

lemma fail_then_resume:
  assumes inv: "machine_inv ms" and n: "ms_procedure ms = NormalProcedure"
    and s: "ms_state ms \<in> ACTIVE_STATES" "ms_state ms \<noteq> S_MERGING"
  shows "transition (failed ms) ResumeValidated = Inr (resumed ms)"
proof -
  have c: "constructible ms" using inv by (rule machine_inv_constructible)
  have st: "ms_state ms \<noteq> S_FAILED" using s by auto
  have rec: "ms_recovery_to ms = None" using frame_recovery [OF c st] .
  have post: "machine_state_post_init ms = Inr ()" using machine_inv_post_init [OF inv] .
  have fs: "ms_procedure (failed ms) = NormalProcedure" "ms_state (failed ms) = S_FAILED"
    "ms_recovery_to (failed ms) = Some (ms_state ms)" "ms_pending_record (failed ms) = ms_pending_record ms"
    "ms_awaiting (failed ms) = ms_awaiting ms"
    using n by (simp_all add: failed_def)
  show ?thesis
  proof (cases "ms_pending_record ms")
    case (Some p)
    have src: "pr_source_state p = ms_state ms" using constructible_checks(9) [OF c] Some st by auto
    have "transition (failed ms) ResumeValidated = resume_pending (failed ms) ResumeValidated"
      using resume_by_pending [of "failed ms" p] fs Some by simp
    also have "\<dots> = returning ms [PersistRecord (pr_kind p) (pr_binding p)]"
      using restored [OF rec] fs Some src st by (simp add: resume_pending_def)
    finally show ?thesis using post Some by (simp add: returning_ok resumed_def)
  next
    case None
    show ?thesis
    proof (cases "ms_awaiting ms")
      case (Some a)
      then show ?thesis
        using resume_failed_awaiting [of "failed ms" "ms_state ms" a] fs None restored [OF rec] post
        by (simp add: returning_ok resumed_def)
    next
      case awaiting: None
      obtain cs a where d: "DRIVE_TABLE (ms_state ms) = Some (cs, a)" using drive_table_total s by blast
      have eq: "failed ms\<lparr>ms_state := ms_state ms, ms_awaiting := Some a, ms_recovery_to := None\<rparr> =
          ms\<lparr>ms_awaiting := Some a\<rparr>"
        using rec by (simp add: failed_def)
      have "ms\<lparr>ms_awaiting := Some a\<rparr> = MachineState (ms_state ms)\<lparr>ms_awaiting := Some a\<rparr>"
        using n None rec frame_block [OF c] frame_return [OF c] frame_deferred [OF c n] s
        by (intro machine_state.equality) (auto simp: MachineState_def)
      then have "machine_state_post_init (ms\<lparr>ms_awaiting := Some a\<rparr>) = Inr ()"
        using plain_post_init [OF drive_plain [OF d]] by simp
      then show ?thesis
        using resume_failed_drive [of "failed ms" "ms_state ms" cs a] fs None awaiting d eq
        by (simp add: returning_ok resumed_def)
    qed
  qed
qed

end
