(* ===== verification/Blocks.thy ===== *)
theory Blocks
  imports Resumption
begin

text \<open>
  Entering a block and leaving it. A report that the progress bound is reached leads to \<open>BLOCKED\<close>;
  the resolution of that block leads to the very state and commands the run would have continued
  with. And a detected violation is accepted in every state of a run.
\<close>

section \<open>The same event with another report\<close>

fun with_report :: "event \<Rightarrow> progress_report \<Rightarrow> event" where
  "with_report (ReviewBlockingVerified ev _) r = ReviewBlockingVerified ev r"
| "with_report (FixResultVerified ev _) r = FixResultVerified ev r"
| "with_report (ClarificationQuestionVerified ev _) r = ClarificationQuestionVerified ev r"
| "with_report (VerdictResubmitVerified ev _) r = VerdictResubmitVerified ev r"
| "with_report (CiCodeFailureVerified ev _) r = CiCodeFailureVerified ev r"
| "with_report e _ = e"

lemma with_report_facts:
  assumes "event_report e = Some rep"
  shows "event_type_of (with_report e r) = event_type_of e"
    "verified_evidence (with_report e r) = verified_evidence e"
    "event_report (with_report e r) = Some r" "verified_evidence e \<noteq> None"
    "derive_pending ms (with_report e r) = derive_pending ms e"
  using assms by (cases e; simp add: derive_pending_def)+

text \<open>The evidence that resolves a progress block, and the event that carries it.\<close>

definition resolution_of :: "progress_block \<Rightarrow> record_evidence option \<Rightarrow> block_resolution_evidence" where
  "resolution_of b rec =
     \<lparr>br_target_block_binding = pb_binding b, br_head = pb_head b, br_record = rec,
      br_reason = Some (pb_reason b), br_budget = Some (pb_budget b),
      br_counter_snapshot = Some (pb_counter_snapshot b), br_fingerprint = Some (pb_fingerprint b),
      br_violation_bindings = None\<rparr>"

definition unblock :: "progress_block \<Rightarrow> record_evidence \<Rightarrow> event" where
  "unblock b ev =
     (if pb_reason b = P_LIMIT_REACHED then BlockResolvedLimitRaised (resolution_of b None)
      else BlockResolvedIntervention (resolution_of b (Some ev)))"

definition blocked_by :: "progress_block \<Rightarrow> machine_state" where
  "blocked_by b = MachineState S_BLOCKED\<lparr>ms_block := Some (ProgressBlock b)\<rparr>"

lemma unblock_legal: "re_kind ev = K_BLOCK_INTERVENTION \<Longrightarrow> legal_event (unblock b ev)"
  by (simp add: unblock_def resolution_of_def intervention_check_def verified_event_check_def)

lemma unblock_step:
  assumes r: "pb_reason b \<noteq> P_CONTINUE" and c: "pb_continuation b \<in> registry_continuations"
  shows "transition (blocked_by b) (unblock b ev) =
    Inr (MachineState (bc_resume_state (pb_continuation b))\<lparr>ms_awaiting := bc_awaiting (pb_continuation b)\<rparr>,
         bc_commands (pb_continuation b))"
proof -
  have plain: "machine_state_post_init (MachineState (bc_resume_state (pb_continuation b))
      \<lparr>ms_awaiting := bc_awaiting (pb_continuation b)\<rparr>) = Inr ()"
    using plain_post_init [OF continuation_plain [OF c]] .
  show ?thesis
  proof (cases "pb_reason b")
    case P_LIMIT_REACHED
    then have "rule_matches rule_B_LR (blocked_by b) (unblock b ev)"
      by (simp add: match_eval rule_B_LR_def unblock_def blocked_by_def resolution_of_def
          resolution_matches_def MachineState_def)
    then show ?thesis
      using transition_by_rule [of rule_B_LR "unblock b ev" "blocked_by b"] P_LIMIT_REACHED plain
      by (simp add: unblock_def rules_for_simps rule_B_LR_def replay_continuation_def blocked_by_def
          returning_ok)
  next
    case P_NO_PROGRESS
    then have "rule_matches rule_B_IV1 (blocked_by b) (unblock b ev)"
      by (simp add: match_eval rule_B_IV1_def unblock_def blocked_by_def resolution_of_def
          resolution_matches_def MachineState_def pending_vs_evidence_def)
    then show ?thesis
      using transition_by_rule [of rule_B_IV1 "unblock b ev" "blocked_by b"] P_NO_PROGRESS plain
      by (simp add: unblock_def rules_for_simps rule_B_IV1_def replay_continuation_def blocked_by_def
          returning_ok)
  qed (use r in simp)
qed

section \<open>Blocking is transparent\<close>

text \<open>
  What the five pairs of rules share: the rule that continues and the rule that blocks have the same
  guard up to the progress, and the continuation kept by the block is the target of the first.
\<close>

definition block_pair :: "event_type \<Rightarrow> state \<Rightarrow> state option \<Rightarrow> blocked_continuation \<Rightarrow> command list \<Rightarrow> bool" where
  "block_pair et src to c entry \<longleftrightarrow>
     (\<exists>i sec i'. rules_for et =
        [verified_rule i sec et {src} to (bc_awaiting c) (bc_commands c) (Some {P_CONTINUE}),
         progress_block_rule i' et {src} c entry]) \<and>
     simple_source src \<and> (case to of None \<Rightarrow> src | Some s \<Rightarrow> s) = bc_resume_state c \<and>
     c \<in> registry_continuations \<and> BUDGET_EVENTS et \<noteq> None \<and> list_all (\<lambda>x. \<not> starts_agent x) entry"

lemma block_pair_I:
  "rules_for et =
     [verified_rule i sec et {src} to a cs (Some {P_CONTINUE}), progress_block_rule i' et {src} c entry] \<Longrightarrow>
   a = bc_awaiting c \<Longrightarrow> cs = bc_commands c \<Longrightarrow> simple_source src \<Longrightarrow>
   (case to of None \<Rightarrow> src | Some s \<Rightarrow> s) = bc_resume_state c \<Longrightarrow> c \<in> registry_continuations \<Longrightarrow>
   BUDGET_EVENTS et \<noteq> None \<Longrightarrow> list_all (\<lambda>x. \<not> starts_agent x) entry \<Longrightarrow> block_pair et src to c entry"
  unfolding block_pair_def by blast

lemmas continuation_defs =
  CONT_REVIEW_BLOCKING_def CONT_CLARIFICATION_def CONT_FIX_RESULT_def CONT_RESUBMIT_def
  CONT_CI_CODE_FAILURE_def

lemma block_pairs:
  "block_pair ET_ReviewBlockingVerified S_RUNNING_REVIEW (Some S_CHANGES_REQUESTED) CONT_REVIEW_BLOCKING []"
  "block_pair ET_FixResultVerified S_APPLYING_FIXES (Some S_RUNNING_REVIEW) CONT_FIX_RESULT []"
  "block_pair ET_ClarificationQuestionVerified S_CHANGES_REQUESTED (Some S_CLARIFYING_REVIEW) CONT_CLARIFICATION []"
  "block_pair ET_VerdictResubmitVerified S_REVIEWING_DECISION_REQUEST None CONT_RESUBMIT []"
  "block_pair ET_CiCodeFailureVerified S_WAITING_CI (Some S_CHANGES_REQUESTED) CONT_CI_CODE_FAILURE [InvalidateApprovals]"
proof -
  show "block_pair ET_ReviewBlockingVerified S_RUNNING_REVIEW (Some S_CHANGES_REQUESTED) CONT_REVIEW_BLOCKING []"
    by (rule block_pair_I [OF rules_for_simps(2) [unfolded rule_T_03_def rule_T_B03_def]])
       (simp_all add: simple_source_def table_continuation, simp_all add: continuation_defs)
  show "block_pair ET_FixResultVerified S_APPLYING_FIXES (Some S_RUNNING_REVIEW) CONT_FIX_RESULT []"
    by (rule block_pair_I [OF rules_for_simps(4) [unfolded rule_T_11_def rule_T_B11_def]])
       (simp_all add: simple_source_def table_continuation, simp_all add: continuation_defs)
  show "block_pair ET_ClarificationQuestionVerified S_CHANGES_REQUESTED (Some S_CLARIFYING_REVIEW) CONT_CLARIFICATION []"
    by (rule block_pair_I [OF rules_for_simps(5) [unfolded rule_T_07_def rule_T_B07_def]])
       (simp_all add: simple_source_def table_continuation, simp_all add: continuation_defs)
  show "block_pair ET_VerdictResubmitVerified S_REVIEWING_DECISION_REQUEST None CONT_RESUBMIT []"
    by (rule block_pair_I [OF rules_for_simps(13) [unfolded rule_T_19_def rule_T_B19_def]])
       (simp_all add: simple_source_def table_continuation, simp_all add: continuation_defs)
  show "block_pair ET_CiCodeFailureVerified S_WAITING_CI (Some S_CHANGES_REQUESTED) CONT_CI_CODE_FAILURE [InvalidateApprovals]"
    by (rule block_pair_I [OF rules_for_simps(20) [unfolded rule_T_23_def rule_T_B23_def]])
       (simp_all add: simple_source_def table_continuation, simp_all add: continuation_defs)
qed

lemma pair_of_report:
  "event_report e = Some rep \<Longrightarrow> \<exists>src to c entry. block_pair (event_type_of e) src to c entry"
  using block_pairs by (cases e) auto

text \<open>The block a bounded report leads to.\<close>

lemma bounded_then_resolved:
  assumes inv: "machine_inv ms" and rep: "event_report e = Some rep" "rp_progress rep = P_CONTINUE"
    and step: "transition ms e = Inr (ms1, cs1)"
    and r: "rp_progress r \<noteq> P_CONTINUE"
  shows "\<exists>b cs2. transition ms (with_report e r) = Inr (blocked_by b, cs2) \<and>
    list_all (\<lambda>c. \<not> starts_agent c) cs2 \<and> pb_reason b = rp_progress r \<and>
    transition (blocked_by b) (unblock b ev) = Inr (ms1, cs1)"
proof -
  obtain src to c entry where pair: "block_pair (event_type_of e) src to c entry"
    using pair_of_report [OF rep(1)] by blast
  let ?et = "event_type_of e"
  obtain i sec i' where rules: "rules_for ?et =
      [verified_rule i sec ?et {src} to (bc_awaiting c) (bc_commands c) (Some {P_CONTINUE}),
       progress_block_rule i' ?et {src} c entry]" (is "_ = [?r1, ?r2]")
    and src: "simple_source src" and target: "(case to of None \<Rightarrow> src | Some s \<Rightarrow> s) = bc_resume_state c"
    and c: "c \<in> registry_continuations" and budget: "BUDGET_EVENTS ?et \<noteq> None"
    and entry: "list_all (\<lambda>x. \<not> starts_agent x) entry"
    using pair unfolding block_pair_def by blast
  note wr = with_report_facts [OF rep(1)]
  obtain q where q: "q \<in> set (rules_for ?et)" "rule_matches q ms e" "rule_effect q ms e = Inr (ms1, cs1)"
    using step by (rule transition_accepted)
  have "q \<noteq> ?r2"
    using match_facts(7) [OF q(2)] rep by (auto simp: progress_block_rule_def Match_def)
  then have q1: "q = ?r1" using q(1) by (simp add: rules)
  note m = match_facts [OF q(2) [unfolded q1]]
  have n: "ms_procedure ms = NormalProcedure" and s: "ms_state ms = src"
    and pm: "derive_pending ms e = PM_MATCH"
    using m(1,3,5) by (simp_all add: verified_rule_def Match_def)
  have s': "simple_source (ms_state ms)" using s src by simp
  have ms1: "ms1 = MachineState (bc_resume_state c)\<lparr>ms_awaiting := bc_awaiting c\<rparr>" "cs1 = bc_commands c"
    using q(3) target s simple_source_update [OF inv n s']
    by (auto simp: q1 verified_rule_def advance_def target_state_def returning_Inr)
  obtain v where v: "verified_evidence e = Some v" using wr(4) by blast
  obtain b u where b: "BUDGET_EVENTS ?et = Some (b, u)" using budget by auto
  let ?b = "\<lparr>pb_binding = re_binding v, pb_head = rp_head r, pb_continuation = c,
    pb_reason = rp_progress r, pb_budget = b,
    pb_counter_snapshot = rp_counter_snapshot r, pb_fingerprint = rp_fingerprint r\<rparr>"
  have "rule_matches ?r2 ms (with_report e r)"
    using wr s n pm r
    by (cases "rp_progress r")
       (auto simp: rule_matches_def matches_def derive_guard_key_def progress_block_rule_def Match_def)
  then have "transition ms (with_report e r) = rule_effect ?r2 ms (with_report e r)"
    using transition_by_rule [of ?r2 "with_report e r" ms] wr rules by simp
  also have "\<dots> = returning (blocked_by ?b) entry"
    using wr v b r simple_source_block [OF inv n s']
    by (simp add: progress_block_rule_def progress_block_effect_def mk_progress_block_Inr [THEN iffD2]
        blocked_by_def)
  also have "\<dots> = Inr (blocked_by ?b, entry)"
    using blocked_inv [of "ProgressBlock ?b"] r c
    by (simp add: blocked_by_def returning_ok machine_inv_post_init)
  finally show ?thesis
    using unblock_step [of ?b ev] r c entry ms1 by (intro exI [of _ ?b] exI [of _ entry]) simp
qed

section \<open>Detection is accepted in every state\<close>

lemma detection_rule:
  assumes inv: "machine_inv ms" and nt: "ms_state ms \<notin> TERMINAL_STATES"
  shows "\<exists>r \<in> set DETECTION_RULES. rule_matches r ms (RecordIntegrityViolationDetected v)"
proof -
  note cc = constructible_checks [OF machine_inv_constructible [OF inv]]
  let ?e = "RecordIntegrityViolationDetected v"
  note eval = match_eval rule_I_D1_def rule_I_D2_def rule_I_D3_def rule_I_D4_def rule_I_D5_def
    rule_I_D5u_def rule_I_D6_def rule_I_D7_def rule_I_D8_def
  have rules: "rule_I_D1 \<in> set DETECTION_RULES" "rule_I_D2 \<in> set DETECTION_RULES"
    "rule_I_D3 \<in> set DETECTION_RULES" "rule_I_D4 \<in> set DETECTION_RULES" "rule_I_D5 \<in> set DETECTION_RULES"
    "rule_I_D5u \<in> set DETECTION_RULES" "rule_I_D6 \<in> set DETECTION_RULES" "rule_I_D7 \<in> set DETECTION_RULES"
    "rule_I_D8 \<in> set DETECTION_RULES" by (simp_all add: DETECTION_RULES_def)
  show ?thesis
  proof (cases "ms_procedure ms")
    case (RecordingIncidentProcedure t a)
    then have "rule_matches rule_I_D1 ms ?e" using nt by (simp add: eval)
    then show ?thesis using rules by blast
  next
    case (CancellingProcedure c)
    then have "rule_matches rule_I_D2 ms ?e" using nt cc(7) by (simp add: eval)
    then show ?thesis using rules by blast
  next
    case (HaltingForBlockProcedure b a)
    then have "rule_matches rule_I_D5u ms ?e" using cc(7) by (simp add: eval del: in_ACTIVE)
    then show ?thesis using rules by blast
  next
    case NormalProcedure
    consider (merging) "ms_state ms = S_MERGING" | (active) "ms_state ms \<in> ACTIVE_STATES" "ms_state ms \<noteq> S_MERGING"
      | (blocked) "ms_state ms = S_BLOCKED" | (resumable) "ms_state ms \<in> RESUMABLE_STATES" "ms_state ms \<noteq> S_BLOCKED"
      using nt by (auto simp: ACTIVE_STATES_def simp del: in_ACTIVE)
    then show ?thesis
    proof cases
      case merging
      then obtain a where a: "ms_awaiting ms = Some a" using merging_state(4) [OF inv NormalProcedure] by blast
      then have "S_MERGING \<in> AWAITING_HOME a" using cc(10) merging by auto
      then have "outcome a \<or> a = A_MERGE_PRECONDITIONS" by (cases a) (auto simp: MERGE_OUTCOME_AWAITINGS_def)
      then have "rule_matches rule_I_D3 ms ?e \<or> rule_matches rule_I_D4 ms ?e"
        using NormalProcedure merging a by (auto simp: eval)
      then show ?thesis using rules by blast
    next
      case active
      then have "rule_matches rule_I_D5 ms ?e" using NormalProcedure by (simp add: eval del: in_ACTIVE)
      then show ?thesis using rules by blast
    next
      case resumable
      then have "rule_matches rule_I_D6 ms ?e" using NormalProcedure by (simp add: eval del: in_RESUMABLE)
      then show ?thesis using rules by blast
    next
      case blocked
      then obtain b where "ms_block ms = Some b" using cc(4) by auto
      then have "rule_matches rule_I_D7 ms ?e \<or> rule_matches rule_I_D8 ms ?e"
        using NormalProcedure blocked by (cases b) (simp_all add: eval)
      then show ?thesis using rules by blast
    qed
  qed
qed

lemma detection_commands:
  "r \<in> set DETECTION_RULES \<Longrightarrow> rule_effect r ms (RecordIntegrityViolationDetected v) = Inr (ms', cs) \<Longrightarrow>
   \<exists>cs'. cs = InvalidateApprovals # cs' \<and>
     list_all (\<lambda>c. command_type c \<in> {N_HaltRun, N_QueryMergeOutcome}) cs'"
  by (auto simp: DETECTION_RULES_def rule_I_D1_def rule_I_D2_def rule_I_D3_def rule_I_D4_def rule_I_D5_def
      rule_I_D5u_def rule_I_D6_def rule_I_D7_def rule_I_D8_def INVALIDATE_def returning_Inr bind_result_eq_Inr
      split: option.splits block_context.splits procedure.splits)

lemma detection_accepted:
  assumes inv: "machine_inv ms" and nt: "ms_state ms \<notin> TERMINAL_STATES"
  shows "\<exists>ms' cs. transition ms (RecordIntegrityViolationDetected v) = Inr (ms', InvalidateApprovals # cs) \<and>
    list_all (\<lambda>c. command_type c \<in> {N_HaltRun, N_QueryMergeOutcome}) cs \<and>
    open_violations ms' \<union> held_violations ms' =
      insert (ie_binding v) (open_violations ms \<union> held_violations ms)"
proof -
  let ?e = "RecordIntegrityViolationDetected v"
  obtain r where r: "r \<in> set DETECTION_RULES" "rule_matches r ms ?e" using detection_rule [OF assms] by blast
  then have reg: "r \<in> set REGISTRY" by (simp add: REGISTRY_def INTEGRITY_RULES_def)
  have legal: "legal_event ?e" by (simp add: verified_event_check_def)
  have eff: "transition ms ?e = rule_effect r ms ?e" using transition_by_rule' [OF reg r(2)] .
  obtain ms' cs where res: "rule_effect r ms ?e = Inr (ms', cs)"
    using registry_sound [OF reg inv legal r(2)] by (auto simp: sound_result_def)
  have "lifecycle_step (life ms) ?e (life ms')"
    using machine_refines_lifecycle [OF inv legal] eff res by simp
  then show ?thesis
    using detection_commands [OF r(1) res] step_detect eff res by fastforce
qed

end
