(* ===== verification/Escape.thy ===== *)
theory Escape
  imports Blocks
begin

text \<open>
  No run is stuck: from every state of the invariant that is not terminal, at most four legal
  events lead to a terminal state.
\<close>

definition finishes :: "nat \<Rightarrow> machine_state \<Rightarrow> bool" where
  "finishes n ms \<longleftrightarrow>
     (\<exists>t. machine_run ms t \<and> length t \<le> n \<and> ms_state (run_end ms t) \<in> TERMINAL_STATES)"

lemma finishes_terminal: "ms_state ms \<in> TERMINAL_STATES \<Longrightarrow> finishes n ms"
  unfolding finishes_def by (rule exI [of _ "[]"]) simp

lemma finishes_step:
  assumes "legal_event e" and "transition ms e = Inr (ms', cs)" and "finishes n ms'"
  shows "finishes (Suc n) ms"
proof -
  obtain t where "machine_run ms' t" "length t \<le> n" "ms_state (run_end ms' t) \<in> TERMINAL_STATES"
    using assms(3) unfolding finishes_def by blast
  then show ?thesis
    unfolding finishes_def using assms(1,2) by (intro exI [of _ "(e, cs, ms') # t"]) simp
qed

lemma finishes_mono: "finishes n ms \<Longrightarrow> n \<le> m \<Longrightarrow> finishes m ms"
  unfolding finishes_def by (meson le_trans)

text \<open>A matching rule takes a step that keeps the invariant.\<close>

lemma rule_step:
  assumes "r \<in> set (rules_for (event_type_of e))" and "machine_inv ms" and "legal_event e"
    and "rule_matches r ms e"
  obtains ms' cs where "transition ms e = Inr (ms', cs)" "rule_effect r ms e = Inr (ms', cs)" "machine_inv ms'"
proof -
  have "r \<in> set REGISTRY" using assms(1) rules_for_subset by blast
  then have "sound_result r ms (rule_effect r ms e)" using registry_sound assms by blast
  then show ?thesis
    using that transition_by_rule [OF assms(1,4)] by (auto simp: sound_result_def)
qed

definition incident_evidence :: "opaque_binding \<Rightarrow> record_evidence" where
  "incident_evidence b = \<lparr>re_kind = K_INTEGRITY_INCIDENT, re_binding = b, re_ref = OpaqueRef ''''\<rparr>"

definition cancel_evidence :: "opaque_binding \<Rightarrow> record_evidence" where
  "cancel_evidence b = \<lparr>re_kind = K_USER_CANCEL, re_binding = b, re_ref = OpaqueRef ''''\<rparr>"

lemma legal_simple:
  "legal_event (UserCancelVerified (cancel_evidence b))"
  "legal_event (IntegrityIncidentVerified (incident_evidence b) vs)"
  "legal_event (RecordProduced k b)" "legal_event MergeNotExecutedConfirmed"
  "legal_event (BlockHaltCompleted b)" "legal_event (CancellationCompleted (Some b) None)"
  by (simp_all add: verified_event_check_def cancel_evidence_def incident_evidence_def)

lemma finish_recording_pending:
  assumes inv: "machine_inv ms" and q: "ms_procedure ms = RecordingIncidentProcedure t a"
    and p: "ms_pending_record ms = Some p"
  shows "finishes 1 ms"
proof -
  let ?e = "IntegrityIncidentVerified (incident_evidence (pr_binding p)) (deferred_bindings ms)"
  have nt: "ms_state ms \<notin> TERMINAL_STATES" "pr_kind p = K_INTEGRITY_INCIDENT"
    using recording_facts(3,4) [OF inv] q p by auto
  have "rule_matches rule_I_VC ms ?e"
    using q p nt by (simp add: match_eval rule_I_VC_def pending_vs_evidence_def incident_evidence_def
        deferred_bindings_def)
  then obtain ms' cs where "transition ms ?e = Inr (ms', cs)" "rule_effect rule_I_VC ms ?e = Inr (ms', cs)"
    by (rule rule_step [rotated 3]) (simp_all add: rules_for_simps inv verified_event_check_def incident_evidence_def)
  moreover from this have "ms_state ms' \<in> TERMINAL_STATES"
    using q by (auto simp: rule_I_VC_def incident_complete_effect_def returning_Inr MachineState_def)
  ultimately show ?thesis
    using finishes_step [OF legal_simple(2) _ finishes_terminal, of ms _ _ ms' cs 0] by simp
qed

lemma finish_recording:
  assumes inv: "machine_inv ms" and q: "ms_procedure ms = RecordingIncidentProcedure t a"
  shows "finishes 2 ms"
proof (cases "ms_pending_record ms")
  case (Some p)
  then show ?thesis using finish_recording_pending [OF assms] finishes_mono by fastforce
next
  case None
  let ?e = "RecordProduced K_INTEGRITY_INCIDENT (OpaqueBinding '''')"
  have nt: "ms_state ms \<notin> TERMINAL_STATES" using recording_facts(3) [OF inv] q by auto
  have "rule_matches rule_I_P ms ?e" using q None nt by (simp add: match_eval rule_I_P_def)
  then obtain ms' cs where s: "transition ms ?e = Inr (ms', cs)" "rule_effect rule_I_P ms ?e = Inr (ms', cs)"
    "machine_inv ms'"
    by (rule rule_step [rotated 3]) (simp_all add: rules_for_simps inv verified_event_check_def)
  then have "ms_procedure ms' = RecordingIncidentProcedure t a" "ms_pending_record ms' \<noteq> None"
    using q by (auto simp: rule_I_P_def returning_Inr)
  then have "finishes 1 ms'" using finish_recording_pending [OF s(3)] by blast
  then have "finishes (Suc 1) ms" by (rule finishes_step [OF legal_simple(3) s(1)])
  then show ?thesis by (simp add: numeral_2_eq_2)
qed

lemma finish_cancelling:
  assumes inv: "machine_inv ms" and q: "ms_procedure ms = CancellingProcedure c"
  shows "finishes (if ms_deferred_integrity ms = [] then 1 else 3) ms"
proof -
  let ?e = "CancellationCompleted (Some c) None"
  have nt: "ms_state ms \<notin> TERMINAL_STATES" "ms_state ms \<noteq> S_MERGING"
    using cancelling_facts(2,3) [OF inv] q by auto
  show ?thesis
  proof (cases "ms_deferred_integrity ms = []")
    case True
    have "rule_matches rule_C_03 ms ?e"
      using q nt True by (simp add: match_eval rule_C_03_def binding_match_of_def)
    then obtain ms' cs where "transition ms ?e = Inr (ms', cs)" "rule_effect rule_C_03 ms ?e = Inr (ms', cs)"
      by (rule rule_step [rotated 3]) (simp_all add: rules_for_simps inv)
    moreover from this have "ms_state ms' \<in> TERMINAL_STATES"
      by (auto simp: rule_C_03_def bare_cancelled_effect_def returning_Inr MachineState_def)
    ultimately show ?thesis
      using finishes_step [OF legal_simple(6) _ finishes_terminal, of ms c ms' cs 0] True by simp
  next
    case False
    have "rule_matches rule_C_04 ms ?e"
      using q nt False by (simp add: match_eval rule_C_04_def binding_match_of_def)
    then obtain ms' cs where s: "transition ms ?e = Inr (ms', cs)"
      "rule_effect rule_C_04 ms ?e = Inr (ms', cs)" "machine_inv ms'"
      by (rule rule_step [rotated 3]) (simp_all add: rules_for_simps inv)
    then have "ms_procedure ms' = RecordingIncidentProcedure IT_CANCELLED (ms_pending_record ms)"
      by (auto simp: rule_C_04_def cancel_completed_to_incident_def Let_def returning_Inr)
    then have "finishes 2 ms'" by (rule finish_recording [OF s(3)])
    then have "finishes (Suc 2) ms" by (rule finishes_step [OF legal_simple(6) s(1)])
    then show ?thesis using False by (simp add: numeral_3_eq_3 numeral_2_eq_2)
  qed
qed

lemma finish_open:
  assumes inv: "machine_inv ms" and n: "ms_procedure ms = NormalProcedure"
    and nt: "ms_state ms \<notin> TERMINAL_STATES" and s: "ms_state ms \<noteq> S_MERGING"
  shows "finishes 2 ms"
proof -
  let ?b = "OpaqueBinding ''''" let ?e = "UserCancelVerified (cancel_evidence ?b)"
  have d: "ms_deferred_integrity ms = []" using frame_deferred [OF machine_inv_constructible [OF inv] n s] .
  have "rule_matches rule_C_01 ms ?e \<or> rule_matches rule_C_02 ms ?e"
    using n nt s
    by (auto simp: match_eval rule_C_01_def rule_C_02_def pending_vs_evidence_def cancel_evidence_def
        split: option.splits)
  then obtain r where r: "r \<in> {rule_C_01, rule_C_02}" "rule_matches r ms ?e" by blast
  then obtain ms' cs where st: "transition ms ?e = Inr (ms', cs)" "rule_effect r ms ?e = Inr (ms', cs)"
    "machine_inv ms'"
    by (rule_tac rule_step [rotated 3]) (auto simp: rules_for_simps inv verified_event_check_def cancel_evidence_def)
  then have "ms_procedure ms' = CancellingProcedure ?b" "ms_deferred_integrity ms' = []"
    using r(1) d by (auto simp: rule_C_01_def rule_C_02_def start_cancel_def cancel_evidence_def returning_Inr)
  then have "finishes 1 ms'" using finish_cancelling [OF st(3)] by simp
  then have "finishes (Suc 1) ms" by (rule finishes_step [OF legal_simple(1) st(1)])
  then show ?thesis by (simp add: numeral_2_eq_2)
qed

lemma finish_halting:
  assumes inv: "machine_inv ms" and q: "ms_procedure ms = HaltingForBlockProcedure b a"
  shows "finishes 3 ms"
proof -
  let ?e = "BlockHaltCompleted a"
  have s: "ms_state ms \<in> ACTIVE_STATES" "ms_state ms \<noteq> S_MERGING"
    using constructible_checks(7) [OF machine_inv_constructible [OF inv]] q by auto
  have "rule_matches rule_B_HC ms ?e"
    using q s by (simp add: match_eval rule_B_HC_def binding_match_of_def del: in_ACTIVE)
  then obtain ms' cs where st: "transition ms ?e = Inr (ms', cs)" "rule_effect rule_B_HC ms ?e = Inr (ms', cs)"
    "machine_inv ms'"
    by (rule rule_step [rotated 3]) (simp_all add: rules_for_simps inv verified_event_check_def)
  then have "ms' = MachineState S_BLOCKED\<lparr>ms_block := Some (RecordIntegrityBlock b)\<rparr>"
    using q by (simp add: rule_B_HC_def halt_completed_effect_def returning_Inr)
  then have "finishes 2 ms'" using finish_open [OF st(3)] by (simp add: MachineState_def)
  then have "finishes (Suc 2) ms" by (rule finishes_step [OF legal_simple(5) st(1)])
  then show ?thesis by (simp add: numeral_3_eq_3 numeral_2_eq_2)
qed

lemma finish_cancel_outcome:
  assumes inv: "machine_inv ms" and n: "ms_procedure ms = NormalProcedure" and s: "ms_state ms = S_MERGING"
    and a: "ms_awaiting ms = Some A_MERGE_OUTCOME_CANCEL" and p: "ms_pending_record ms = None"
  shows "finishes 3 ms"
proof -
  let ?e = MergeNotExecutedConfirmed
  show ?thesis
  proof (cases "ms_deferred_integrity ms = []")
    case True
    then have "rule_matches rule_M_38 ms ?e" using n s a p by (simp add: match_eval rule_M_38_def)
    then obtain ms' cs where "transition ms ?e = Inr (ms', cs)" "rule_effect rule_M_38 ms ?e = Inr (ms', cs)"
      by (rule rule_step [rotated 3]) (simp_all add: rules_for_simps inv verified_event_check_def)
    moreover from this have "ms_state ms' \<in> TERMINAL_STATES"
      by (auto simp: rule_M_38_def merge_effect_def returning_Inr MachineState_def)
    ultimately have "finishes (Suc 0) ms" by (intro finishes_step [OF legal_simple(4)] finishes_terminal)
    then show ?thesis using finishes_mono by fastforce
  next
    case False
    then have "rule_matches rule_I_47 ms ?e" using n s a p by (simp add: match_eval rule_I_47_def)
    then obtain ms' cs where st: "transition ms ?e = Inr (ms', cs)" "rule_effect rule_I_47 ms ?e = Inr (ms', cs)"
      "machine_inv ms'"
      by (rule rule_step [rotated 3]) (simp_all add: rules_for_simps inv verified_event_check_def)
    then have "ms_procedure ms' = RecordingIncidentProcedure IT_CANCELLED None"
      by (auto simp: rule_I_47_def outcome_to_incident_def returning_Inr)
    then have "finishes 2 ms'" by (rule finish_recording [OF st(3)])
    then have "finishes (Suc 2) ms" by (rule finishes_step [OF legal_simple(4) st(1)])
    then show ?thesis by (simp add: numeral_3_eq_3 numeral_2_eq_2)
  qed
qed

lemma finish_merging:
  assumes inv: "machine_inv ms" and n: "ms_procedure ms = NormalProcedure" and s: "ms_state ms = S_MERGING"
  shows "finishes 4 ms"
proof -
  let ?b = "case ms_pending_record ms of None \<Rightarrow> OpaqueBinding '''' | Some p \<Rightarrow> pr_binding p"
  let ?e = "UserCancelVerified (cancel_evidence ?b)"
  have "rule_matches rule_M_41a ms ?e \<or> rule_matches rule_M_41b ms ?e"
    using n s merging_state(5) [OF inv n s]
    by (cases "ms_pending_record ms")
       (simp_all add: match_eval rule_M_41a_def rule_M_41b_def pending_vs_evidence_def cancel_evidence_def)
  then obtain r where r: "r \<in> {rule_M_41a, rule_M_41b}" "rule_matches r ms ?e" by blast
  then obtain ms' cs where st: "transition ms ?e = Inr (ms', cs)" "rule_effect r ms ?e = Inr (ms', cs)"
    "machine_inv ms'"
    by (rule_tac rule_step [rotated 3]) (auto simp: rules_for_simps inv verified_event_check_def cancel_evidence_def)
  then have "ms_procedure ms' = NormalProcedure" "ms_state ms' = S_MERGING"
    "ms_awaiting ms' = Some A_MERGE_OUTCOME_CANCEL" "ms_pending_record ms' = None"
    using r(1) n s by (auto simp: rule_M_41a_def rule_M_41b_def cancel_query_effect_def returning_Inr)
  then have "finishes 3 ms'" by (rule finish_cancel_outcome [OF st(3)])
  then have "finishes (Suc 3) ms" by (rule finishes_step [OF legal_simple(1) st(1)])
  then show ?thesis by simp
qed

lemma always_finishes: "machine_inv ms \<Longrightarrow> finishes 4 ms"
proof (cases "ms_state ms \<in> TERMINAL_STATES")
  case False
  assume inv: "machine_inv ms"
  show ?thesis
  proof (cases "ms_procedure ms")
    case NormalProcedure
    then show ?thesis
      using finish_open [OF inv] finish_merging [OF inv] False finishes_mono [of 2 ms 4] by fastforce
  next
    case (CancellingProcedure c)
    then show ?thesis using finish_cancelling [OF inv] finishes_mono [of _ ms 4] by fastforce
  next
    case (HaltingForBlockProcedure b a)
    then show ?thesis using finish_halting [OF inv] finishes_mono [of 3 ms 4] by fastforce
  next
    case (RecordingIncidentProcedure t a)
    then show ?thesis using finish_recording [OF inv] finishes_mono [of 2 ms 4] by fastforce
  qed
qed (simp add: finishes_terminal)

end
