(* ===== verification/Scenarios.thy ===== *)
theory Scenarios
  imports Escape
begin

text \<open>
  Concrete runs. \<open>play\<close> feeds a list of events to the machine; the simplifier evaluates it with the
  equations \<open>run_eval\<close>. The scenarios visit all 17 states and the procedures, and serve as concrete
  instances of the properties.
\<close>

fun play :: "machine_state \<Rightarrow> event list \<Rightarrow> domain_error + machine_state" where
  "play ms [] = Inr ms"
| "play ms (e # es) = bind_result (transition ms e) (\<lambda>(ms', cs). play ms' es)"

lemma play_reachable:
  "reachable ms \<Longrightarrow> list_all (\<lambda>e. legal_event e) es \<Longrightarrow> play ms es = Inr ms' \<Longrightarrow> reachable ms'"
proof (induction es arbitrary: ms)
  case (Cons e es)
  from Cons.prems(3) obtain ms1 cs where step: "transition ms e = Inr (ms1, cs)" "play ms1 es = Inr ms'"
    by (auto simp: bind_result_eq_Inr)
  have legal: "legal_event e" "list_all (\<lambda>e. legal_event e) es" using Cons.prems(2) by simp_all
  show ?case using Cons.IH [OF reachable_step [OF Cons.prems(1) legal(1) step(1)] legal(2) step(2)] .
qed simp

fun trace_of :: "machine_state \<Rightarrow> event list \<Rightarrow> trace" where
  "trace_of ms [] = []"
| "trace_of ms (e # es) =
     (case transition ms e of Inl _ \<Rightarrow> [] | Inr (ms', cs) \<Rightarrow> (e, cs, ms') # trace_of ms' es)"

lemma trace_of_run:
  "list_all (\<lambda>e. legal_event e) es \<Longrightarrow> play ms es = Inr ms' \<Longrightarrow>
   machine_run ms (trace_of ms es) \<and> run_end ms (trace_of ms es) = ms'"
  by (induction es arbitrary: ms) (auto simp: bind_result_eq_Inr)

section \<open>Evaluation\<close>

lemma mk_progress_block_ok: "pb_reason b \<noteq> P_CONTINUE \<Longrightarrow> mk_progress_block b = Inr b"
  by (simp add: mk_progress_block_Inr)

lemma mk_integrity_block_ok:
  "vs \<noteq> [] \<Longrightarrow> canonical_violations vs \<Longrightarrow> mk_integrity_block vs = Inr \<lparr>ri_violations = vs\<rparr>"
  by (simp add: mk_integrity_block_Inr)

lemma mk_halting_ok:
  "a \<in> ie_binding ` set (ri_violations b) \<Longrightarrow> mk_halting b a = Inr (HaltingForBlockProcedure b a)"
  by (simp add: mk_halting_Inr)

lemmas run_eval =
  transition_def select_rule_def rules_for_simps rule_matches_def matches_def derive_guard_key_def
  Match_def derive_pending_def pending_vs_evidence_def all_rule_defs produced_rule_def
  verified_rule_def external_rule_def response_rule_def progress_block_rule_def
  progress_block_effect_def advance_def target_state_def returning_ok machine_state_post_init_Inr
  MachineState_def to_merging_def merge_effect_def MERGE_OUTCOME_AWAITINGS_def permission_effect_def
  permission_resume_effect_def start_cancel_def bare_cancelled_effect_def binding_match_of_def
  resolution_matches_def mk_progress_block_ok mk_integrity_block_ok mk_halting_ok
  halt_completed_effect_def cancel_completed_to_incident_def fail_to_recovery_def Let_def

section \<open>The events of the scenarios\<close>

definition bn :: opaque_binding where "bn = OpaqueBinding ''b''"

definition evidence_of :: "record_kind \<Rightarrow> record_evidence" where
  "evidence_of k = \<lparr>re_kind = k, re_binding = bn, re_ref = OpaqueRef ''r''\<rparr>"

definition report_with :: "progress \<Rightarrow> progress_report" where
  "report_with p =
     \<lparr>rp_progress = p, rp_head = OpaqueRef ''h'', rp_counter_snapshot = OpaqueSnapshot ''1'',
      rp_fingerprint = OpaqueFingerprint ''f''\<rparr>"

definition violation :: "string \<Rightarrow> integrity_evidence_ref" where
  "violation b = \<lparr>ie_binding = OpaqueBinding b, ie_descriptor = OpaqueRef ''d'', ie_head = OpaqueRef ''h''\<rparr>"

definition start_state :: machine_state where
  "start_state = MachineState S_RUNNING_REVIEW\<lparr>ms_awaiting := Some A_CODEX_CODE_REVIEW\<rparr>"

lemma start_reachable: "reachable start_state" "reachable (MachineState S_FAILED)"
  by (auto intro!: reach_init simp: initial_iff start_state_def)

lemmas event_eval = bn_def evidence_of_def report_with_def violation_def start_state_def

definition to_changes :: "event list" where
  "to_changes =
     [RecordProduced K_REVIEW_RESULT bn,
      ReviewBlockingVerified (evidence_of K_REVIEW_RESULT) (report_with P_CONTINUE)]"

definition to_ci :: "event list" where
  "to_ci = [RecordProduced K_REVIEW_RESULT bn, ReviewApprovedVerified (evidence_of K_REVIEW_RESULT)]"

definition to_gate :: "event list" where
  "to_gate = to_ci @
     [CiSucceeded, RecordProduced K_FINAL_REPORT bn, ReportVerified (evidence_of K_FINAL_REPORT)]"

definition to_merge :: "event list" where
  "to_merge = to_gate @
     [RecordProduced K_MERGE_APPROVAL bn, MergeApprovalVerified (evidence_of K_MERGE_APPROVAL)]"

definition to_decision :: "event list" where
  "to_decision = to_changes @
     [FixStarted, RecordProduced K_DECISION_REQUEST bn, DecisionRequestVerified (evidence_of K_DECISION_REQUEST)]"

definition to_block :: "event list" where
  "to_block =
     [RecordProduced K_REVIEW_RESULT bn,
      ReviewBlockingVerified (evidence_of K_REVIEW_RESULT) (report_with P_LIMIT_REACHED)]"

text \<open>A run to each of the 17 states.\<close>

fun scenario :: "state \<Rightarrow> event list" where
  "scenario S_RUNNING_REVIEW = []"
| "scenario S_CHANGES_REQUESTED = to_changes"
| "scenario S_APPLYING_FIXES = to_changes @ [FixStarted]"
| "scenario S_CLARIFYING_REVIEW = to_changes @
     [RecordProduced K_CLARIFICATION_QUESTION bn,
      ClarificationQuestionVerified (evidence_of K_CLARIFICATION_QUESTION) (report_with P_CONTINUE)]"
| "scenario S_REVIEWING_DECISION_REQUEST = to_decision"
| "scenario S_AWAITING_USER_DECISION = to_decision @
     [RecordProduced K_DECISION_VERDICT bn, VerdictAskUserVerified (evidence_of K_DECISION_VERDICT),
      RecordProduced K_DECISION_BRIEF bn, DecisionBriefVerified (evidence_of K_DECISION_BRIEF)]"
| "scenario S_AWAITING_TOOL_PERMISSION =
     [RecordProduced K_PERMISSION_BLOCK bn, ToolPermissionBlocked (evidence_of K_PERMISSION_BLOCK)]"
| "scenario S_WAITING_CI = to_ci"
| "scenario S_GENERATING_REPORT = to_ci @ [CiSucceeded]"
| "scenario S_READY_FOR_HUMAN_MERGE = to_gate"
| "scenario S_MERGING = to_merge"
| "scenario S_MERGED = to_merge @ [MergePreconditionsOk, MergeConfirmed]"
| "scenario S_MERGE_FAILED = to_merge @ [MergePreconditionMismatch]"
| "scenario S_BLOCKED = to_block"
| "scenario S_FAILED = [RunFailed]"
| "scenario S_CANCELLED = [UserCancelVerified (evidence_of K_USER_CANCEL), CancellationCompleted (Some bn) None]"
| "scenario S_REPORT_FAILED = to_ci @ [CiSucceeded, ReportFailed]"

lemmas scenario_eval = to_changes_def to_ci_def to_gate_def to_merge_def to_decision_def to_block_def

lemma scenario_legal: "list_all (\<lambda>e. legal_event e) (scenario s)"
  by (cases s) (simp_all add: scenario_eval event_eval verified_event_check_def)

lemma play_append: "play ms (es @ fs) = bind_result (play ms es) (\<lambda>ms'. play ms' fs)"
proof (induction es arbitrary: ms)
  case (Cons e es)
  show ?case using Cons.IH by (cases "transition ms e") (simp_all add: case_prod_beta)
qed simp

text \<open>Where the shared prefixes lead.\<close>

lemma play_prefixes:
  "play start_state to_changes =
     Inr (MachineState S_CHANGES_REQUESTED\<lparr>ms_awaiting := Some A_HOST_APPLY_FINDINGS\<rparr>)"
  "play start_state to_ci = Inr (MachineState S_WAITING_CI\<lparr>ms_awaiting := Some A_CI_RESULT\<rparr>)"
  by (simp_all add: to_changes_def to_ci_def event_eval run_eval names_def)

lemma play_gate: "play start_state to_gate = Inr (MachineState S_READY_FOR_HUMAN_MERGE\<lparr>ms_awaiting := Some A_USER_INPUT_GATE\<rparr>)"
  by (simp add: to_gate_def play_append play_prefixes) (simp add: event_eval run_eval)

lemma play_merge: "play start_state to_merge = Inr (MachineState S_MERGING\<lparr>ms_awaiting := Some A_MERGE_PRECONDITIONS\<rparr>)"
  by (simp add: to_merge_def play_append play_gate) (simp add: event_eval run_eval)

lemma play_decision:
  "play start_state to_decision =
     Inr (MachineState S_REVIEWING_DECISION_REQUEST\<lparr>ms_awaiting := Some A_CODEX_DECISION_VERDICT\<rparr>)"
  by (simp add: to_decision_def play_append play_prefixes) (simp add: event_eval run_eval)

lemma scenario_state: "\<exists>ms. play start_state (scenario s) = Inr ms \<and> ms_state ms = s"
proof (cases s)
  case S_RUNNING_REVIEW
  then show ?thesis by (simp add: start_state_def MachineState_def)
qed (simp_all add: play_append play_prefixes play_gate play_merge play_decision,
     simp_all add: to_block_def event_eval run_eval names_def CONT_REVIEW_BLOCKING_def)

end
