(* ===== verification/Record_Slot.thy ===== *)
theory Record_Slot
  imports Scenarios
begin

text \<open>
  The pending record slot and the restarts of the review: a produced record fills the empty slot, a
  verified event is accepted only with the evidence of the record in the slot, and a changed head
  or a resume fallback starts a fresh review.
\<close>

section \<open>Producing a record\<close>

lemma produced_rules:
  "r \<in> set (rules_for ET_RecordProduced) \<Longrightarrow>
   m_pending (rule_match r) = Some ABSENT \<and>
   rule_effect r \<in> {produced_effect True, produced_effect False, incident_produced_effect}"
  unfolding rules_for_simps list.set insert_iff empty_iff
  by (elim disjE FalseE; simp add: all_rule_defs produced_rule_def Match_def)

lemma produced_step:
  assumes "transition ms (RecordProduced k b) = Inr (ms', cs)"
  shows "ms_pending_record ms = None \<and>
    ms_pending_record ms' = Some \<lparr>pr_kind = k, pr_binding = b, pr_source_state = ms_state ms\<rparr> \<and>
    ms_state ms' = ms_state ms \<and> ms_procedure ms' = ms_procedure ms \<and> cs = [PersistRecord k b]"
proof -
  obtain r where r: "r \<in> set (rules_for ET_RecordProduced)" "rule_matches r ms (RecordProduced k b)"
    "rule_effect r ms (RecordProduced k b) = Inr (ms', cs)"
    using assms by (rule transition_accepted) simp
  then show ?thesis
    using produced_rules [OF r(1)] match_facts(5) [OF r(2)] by (auto simp: returning_Inr)
qed

section \<open>Consuming a record\<close>

definition direct_types :: "event_type set" where
  "direct_types =
     {ET_UserDecisionVerified, ET_GateQuestionVerified, ET_GateChangesVerified,
      ET_MergeApprovalVerified, ET_UserCancelVerified}"

lemma verified_rules:
  "r \<in> set REGISTRY \<Longrightarrow> EXPECTED_KIND (m_event_type (rule_match r)) \<noteq> None \<Longrightarrow>
   m_pending (rule_match r) = Some MATCHED \<or>
   m_pending (rule_match r) = Some ABSENT \<and> m_event_type (rule_match r) \<in> direct_types \<or>
   m_event_type (rule_match r) = ET_UserCancelVerified"
  apply (simp add: registry_defs)
  apply (elim disjE; simp add: all_rule_defs produced_rule_def verified_rule_def external_rule_def
      response_rule_def progress_block_rule_def direct_types_def Match_def)
  done

lemma verified_type: "verified_evidence e = Some ev \<Longrightarrow> EXPECTED_KIND (event_type_of e) \<noteq> None"
  by (cases e) auto

lemma verified_carried: "verified_evidence e = Some ev \<Longrightarrow> carried_evidence e = Some ev"
  by (cases e) auto

lemma verified_step:
  assumes "transition ms e = Inr (ms', cs)" and ev: "verified_evidence e = Some ev"
  shows "(\<exists>p. ms_pending_record ms = Some p \<and> pr_kind p = re_kind ev \<and> pr_binding p = re_binding ev) \<or>
    ms_pending_record ms = None \<and> event_type_of e \<in> direct_types \<or>
    event_type_of e = ET_UserCancelVerified"
proof -
  obtain r where r: "r \<in> set (rules_for (event_type_of e))" "rule_matches r ms e"
    using assms(1) by (rule transition_accepted)
  then have "r \<in> set REGISTRY" "m_event_type (rule_match r) = event_type_of e"
    by (auto simp: rules_for_filter)
  then show ?thesis
    using verified_rules [of r] verified_type [OF ev] match_facts(5) [OF r(2)] pending_match [of ms e]
      verified_carried [OF ev]
    by fastforce
qed

section \<open>A fresh review\<close>

lemma fresh_step:
  assumes inv: "machine_inv ms" and n: "ms_procedure ms = NormalProcedure"
    and e: "e = HeadChangedExternally \<or> e = ResumeFallbackRequired"
    and step: "transition ms e = Inr (ms', cs)"
  shows "ms' = start_state \<and> cs = [InvalidateApprovals, RequestCodexReview CP_CODE_REVIEW]"
proof -
  obtain r where r: "r \<in> set (rules_for (event_type_of e))" "rule_matches r ms e"
    "rule_effect r ms e = Inr (ms', cs)"
    using step by (rule transition_accepted)
  have "r \<in> {rule_T_26, rule_T_33, rule_M_36, rule_M_HC, rule_R_F, rule_R_FB}"
    using e r(1) match_facts(3) [OF r(2)] n
    by (auto simp: rules_for_simps procedure_rule_cancel_def procedure_rule_halt_def
        procedure_rule_incident_request_def procedure_rule_incident_persist_def Match_def)
  then consider "r = rule_T_26" | "r = rule_T_33" | "rule_effect r = fresh_review_effect"
    by (auto simp: rule_M_36_def rule_M_HC_def rule_R_F_def rule_R_FB_def)
  then show ?thesis
  proof cases
    case 1
    then have "simple_source (ms_state ms)"
      using match_facts(1) [OF r(2)] by (simp add: rule_T_26_def Match_def simple_source_def)
    then show ?thesis
      using r(3) 1 simple_source_update [OF inv n]
      by (simp add: rule_T_26_def advance_def target_state_def returning_Inr start_state_def CODEX_REVIEW_def)
  next
    case 2
    then have "simple_source (ms_state ms)"
      using match_facts(1) [OF r(2)] by (simp add: rule_T_33_def Match_def simple_source_def)
    then show ?thesis
      using r(3) 2 simple_source_update [OF inv n]
      by (simp add: rule_T_33_def advance_def target_state_def returning_Inr start_state_def CODEX_REVIEW_def)
  next
    case 3
    then show ?thesis using r(3) by (simp add: fresh_review_effect_def returning_Inr start_state_def)
  qed
qed

section \<open>Tool permission\<close>

lemma permission_blocked:
  assumes inv: "machine_inv ms" and step: "transition ms (ToolPermissionBlocked ev) = Inr (ms1, cs1)"
  shows "cs1 = [] \<and> (ms_state ms = S_RUNNING_REVIEW \<or> ms_state ms = S_APPLYING_FIXES) \<and>
    ms1 = MachineState S_AWAITING_TOOL_PERMISSION
      \<lparr>ms_awaiting := Some A_USER_INPUT_PERMISSION, ms_return_to := Some (ms_state ms)\<rparr>"
proof -
  obtain r where r: "r \<in> set (rules_for ET_ToolPermissionBlocked)"
    "rule_matches r ms (ToolPermissionBlocked ev)" "rule_effect r ms (ToolPermissionBlocked ev) = Inr (ms1, cs1)"
    using step by (rule transition_accepted) simp
  then have "r = rule_T_05 \<or> r = rule_T_13" by (simp add: rules_for_simps)
  then have eff: "rule_effect r = permission_effect (ms_state ms)" and n: "ms_procedure ms = NormalProcedure"
    and st: "ms_state ms = S_RUNNING_REVIEW \<or> ms_state ms = S_APPLYING_FIXES"
    using match_facts(1,3) [OF r(2)] by (auto simp: rule_T_05_def rule_T_13_def Match_def)
  have s: "simple_source (ms_state ms)" using st by (auto simp: simple_source_def)
  have "ms\<lparr>ms_state := S_AWAITING_TOOL_PERMISSION, ms_awaiting := Some A_USER_INPUT_PERMISSION,
      ms_pending_record := None, ms_return_to := Some (ms_state ms)\<rparr> =
    MachineState S_AWAITING_TOOL_PERMISSION
      \<lparr>ms_awaiting := Some A_USER_INPUT_PERMISSION, ms_return_to := Some (ms_state ms)\<rparr>"
    using simple_source_update
      [OF inv n s, where s = S_AWAITING_TOOL_PERMISSION and a = "Some A_USER_INPUT_PERMISSION"]
    by (simp add: MachineState_def)
  then show ?thesis using r(3) st by (simp add: eff permission_effect_def returning_Inr)
qed

lemma permission_resumed:
  assumes "DRIVE_TABLE s = Some (cs, a)"
  shows "transition (MachineState S_AWAITING_TOOL_PERMISSION
      \<lparr>ms_awaiting := Some A_USER_INPUT_PERMISSION, ms_return_to := Some s\<rparr>) PermissionResumeValidated =
    Inr (MachineState s\<lparr>ms_awaiting := Some a\<rparr>, cs)"
proof -
  let ?ms = "MachineState S_AWAITING_TOOL_PERMISSION
      \<lparr>ms_awaiting := Some A_USER_INPUT_PERMISSION, ms_return_to := Some s\<rparr>"
  have "rule_matches rule_T_21 ?ms PermissionResumeValidated"
    by (simp add: match_eval rule_T_21_def MachineState_def)
  then have "transition ?ms PermissionResumeValidated = permission_resume_effect ?ms PermissionResumeValidated"
    using transition_by_rule [of rule_T_21 PermissionResumeValidated ?ms] by (simp add: rules_for_simps rule_T_21_def)
  also have "\<dots> = returning (MachineState s\<lparr>ms_awaiting := Some a\<rparr>) cs"
    using assms by (simp add: permission_resume_effect_def MachineState_def)
  finally show ?thesis using plain_post_init [OF drive_plain [OF assms]] by (simp add: returning_ok)
qed

section \<open>A run that never started\<close>

lemma no_recovery_rejects:
  assumes n: "ms_procedure ms = NormalProcedure" and s: "ms_state ms = S_FAILED"
    and r: "ms_recovery_to ms = None" and p: "ms_pending_record ms = None"
    and e: "event_type_of e \<in> set RESUME_EVENTS"
  shows "transition ms e = Inl (rejected ms e NoMatchingRule)"
proof (rule no_rule_rejected)
  fix q assume "q \<in> set (rules_for (event_type_of e))"
  moreover have "\<not> rule_matches q ms e"
    if "m_states (rule_match q) \<inter> {S_FAILED} = {} \<or> PK_NORMAL \<notin> m_procedures (rule_match q) \<or>
      m_recovery_present (rule_match q) = Some True \<or> m_pending (rule_match q) = Some {PM_PRESENT}" for q
    using that n s r p match_facts(1,3,5,13) [of q ms e] pending_present [of ms e] by auto
  ultimately show "\<not> rule_matches q ms e"
    using e by (auto simp: RESUME_EVENTS_def rules_for_simps recovery_rule_defs rule_T_21_def Match_def)
qed (simp add: s)

section \<open>The order of detections\<close>

lemma canonicalize_union:
  "canonicalize_by key (canonicalize_by key xs @ [x]) = canonicalize_by key (xs @ [x])"
proof (rule canonical_set_unique [OF canonicalize_canonical canonicalize_canonical])
  have first: "first_with key k (canonicalize_by key xs) = first_with key k xs" for k
  proof (cases "first_with key k xs")
    case None
    then have "first_with key k (canonicalize_by key xs) = None"
      unfolding first_with_None key_set_canonicalize .
    then show ?thesis using None by simp
  next
    case (Some y)
    then have y: "key y = k" using first_with_SomeD by metis
    with Some have "y \<in> set (canonicalize_by key xs)" by (simp add: canonicalize_first)
    then show ?thesis
      using first_with_distinct [of key "canonicalize_by key xs" y] canonicalize_canonical [of key xs] Some y
      by (simp add: canonical_by_def)
  qed
  have append: "first_with key k (ys @ [x]) =
      (case first_with key k ys of None \<Rightarrow> if key x = k then Some x else None | Some y \<Rightarrow> Some y)" for k ys
    by (induction ys) auto
  show "set (canonicalize_by key (canonicalize_by key xs @ [x])) = set (canonicalize_by key (xs @ [x]))"
    by (auto simp: canonicalize_first append first)
qed

lemma canonicalize_swap:
  assumes "key x \<noteq> key y"
  shows "canonicalize_by key (xs @ [x, y]) = canonicalize_by key (xs @ [y, x])"
proof (rule canonical_set_unique [OF canonicalize_canonical canonicalize_canonical])
  have "first_with key k (xs @ [x, y]) = first_with key k (xs @ [y, x])" for k
    using assms by (induction xs) auto
  then show "set (canonicalize_by key (xs @ [x, y])) = set (canonicalize_by key (xs @ [y, x]))"
    by (auto simp: canonicalize_first)
qed

lemma canonicalize_again:
  assumes "key y = key x"
  shows "canonicalize_by key (xs @ [x, y]) = canonicalize_by key (xs @ [x])"
proof (rule canonical_set_unique [OF canonicalize_canonical canonicalize_canonical])
  have "first_with key k (xs @ [x, y]) = first_with key k (xs @ [x])" for k
    using assms by (induction xs) auto
  then show "set (canonicalize_by key (xs @ [x, y])) = set (canonicalize_by key (xs @ [x]))"
    by (auto simp: canonicalize_first)
qed

text \<open>Two detections with different bindings commute; a second one with the same binding is ignored.\<close>

lemma union_twice:
  "union_deferred (ms\<lparr>ms_deferred_integrity := union_deferred ms v\<rparr>) w =
     canonicalize_integrity (ms_deferred_integrity ms @ [v, w])"
  using canonicalize_union [of ie_binding "ms_deferred_integrity ms @ [v]" w]
  by (simp add: union_deferred_def canonicalize_integrity_def)

end
