(* ===== verification/Machine_Properties.thy ===== *)
theory Machine_Properties
  imports Record_Slot
begin

text \<open>
  The properties of the domain state machine: safety of the transition function, what a merge, a
  cancellation and a terminal state require, the fate of detected violations, and the round trips
  of failure, blocking and permission. Each is followed by an instance where it has hypotheses.
\<close>

section \<open>Reachable instances\<close>

lemma start_play: "list_all (\<lambda>e. legal_event e) es \<Longrightarrow> play start_state es = Inr ms \<Longrightarrow> reachable ms"
  using play_reachable [OF start_reachable(1)] .

lemmas legal_eval = verified_event_check_def event_eval scenario_eval intervention_check_def

definition merging_state :: machine_state where
  "merging_state = MachineState S_MERGING\<lparr>ms_awaiting := Some A_MERGE_PRECONDITIONS\<rparr>"

lemma merging_reachable: "reachable merging_state"
  unfolding merging_state_def by (rule start_play [OF _ play_merge]) (simp add: legal_eval)

lemma changes_reachable: "reachable (MachineState S_CHANGES_REQUESTED\<lparr>ms_awaiting := Some A_HOST_APPLY_FINDINGS\<rparr>)"
  by (rule start_play [OF _ play_prefixes(1)]) (simp add: legal_eval)

definition halting_state :: machine_state where
  "halting_state = MachineState S_RUNNING_REVIEW
     \<lparr>ms_procedure := HaltingForBlockProcedure \<lparr>ri_violations = [violation ''v'']\<rparr> (OpaqueBinding ''v'')\<rparr>"

definition detect_v :: event where "detect_v = RecordIntegrityViolationDetected (violation ''v'')"

lemma halting_play: "play start_state [detect_v] = Inr halting_state"
  by (simp add: detect_v_def halting_state_def event_eval run_eval)

lemma halting_reachable: "reachable halting_state"
  by (rule start_play [OF _ halting_play]) (simp add: detect_v_def legal_eval)

definition held_state :: machine_state where
  "held_state = MachineState S_BLOCKED
     \<lparr>ms_block := Some (RecordIntegrityBlock \<lparr>ri_violations = [violation ''v'']\<rparr>)\<rparr>"

lemma held_play: "play start_state [detect_v, BlockHaltCompleted (OpaqueBinding ''v'')] = Inr held_state"
  by (simp add: detect_v_def held_state_def event_eval run_eval)

lemma held_reachable: "reachable held_state"
  by (rule start_play [OF _ held_play]) (simp add: detect_v_def legal_eval)

definition cancelling_state :: machine_state where
  "cancelling_state = MachineState S_RUNNING_REVIEW\<lparr>ms_procedure := CancellingProcedure bn\<rparr>"

lemma cancelling_play: "play start_state [UserCancelVerified (evidence_of K_USER_CANCEL)] = Inr cancelling_state"
  by (simp add: cancelling_state_def event_eval run_eval)

lemma cancelling_reachable: "reachable cancelling_state"
  by (rule start_play [OF _ cancelling_play]) (simp add: legal_eval)

definition recording_state :: machine_state where
  "recording_state = MachineState S_RUNNING_REVIEW
     \<lparr>ms_procedure := RecordingIncidentProcedure IT_CANCELLED None,
      ms_deferred_integrity := [violation ''v'']\<rparr>"

lemma union_single: "union_deferred (ms\<lparr>ms_deferred_integrity := []\<rparr>) v = [v]"
  by (simp add: union_deferred_def)

lemma recording_play:
  "play cancelling_state [detect_v, CancellationCompleted (Some bn) None] = Inr recording_state"
  by (simp add: detect_v_def cancelling_state_def recording_state_def event_eval run_eval union_deferred_def
      INVALIDATE_def)

lemma recording_reachable: "reachable recording_state"
  by (rule play_reachable [OF cancelling_reachable _ recording_play]) (simp add: detect_v_def legal_eval)

section \<open>Safety of the transition function\<close>

text \<open>C1. In a reachable state every legal event either is accepted and leads to a reachable state
  that the constructor of \<open>MachineState\<close> accepts, or is rejected with the reason that fits the state.
  No illegal machine state, no missing table entry and no ambiguous rule ever comes up.\<close>

theorem transition_safe:
  assumes "reachable ms" and "legal_event e"
  shows "(\<exists>ms' cs. transition ms e = Inr (ms', cs) \<and> reachable ms' \<and> constructible ms') \<or>
    transition ms e =
      Inl (rejected ms e (if ms_state ms \<in> TERMINAL_STATES then TerminalStateRejectsAll else NoMatchingRule))"
proof (cases "transition ms e")
  case (Inr x)
  then show ?thesis
    using reachable_step [OF assms] transition_inv [OF reachable_inv [OF assms(1)] assms(2)]
      machine_inv_constructible by (cases x) blast
next
  case (Inl err)
  have "rule_effect r ms e \<noteq> Inl err" if "r \<in> set (rules_for (event_type_of e))" "rule_matches r ms e" for r
    using registry_sound [OF rules_for_subset [OF that(1), THEN conjunct1] reachable_inv [OF assms(1)] assms(2) that(2)]
    by (auto simp: sound_result_def)
  then show ?thesis
    using Inl by (cases rule: transition_cases [of ms e]) auto
qed

theorem transition_safe_witness:
  "(\<exists>ms' cs. transition halting_state RunFailed = Inr (ms', cs) \<and> reachable ms' \<and> constructible ms') \<or>
   transition halting_state RunFailed = Inl (rejected halting_state RunFailed NoMatchingRule)"
  using transition_safe [OF halting_reachable, of RunFailed]
  by (simp add: verified_event_check_def halting_state_def MachineState_def)

text \<open>At most one rule of the whole registry matches, not only of those of the class of the event.\<close>

lemma matching_in_class:
  "filter (\<lambda>r. rule_matches r ms e) REGISTRY = filter (\<lambda>r. rule_matches r ms e) (rules_for (event_type_of e))"
  unfolding rules_for_filter filter_filter
  by (rule filter_cong) (auto simp: rule_matches_def matches_def)

lemma matching_at_most_one: "length (filter (\<lambda>r. rule_matches r ms e) REGISTRY) \<le> 1"
  using registry.at_most_one [of "(ms, e)" "event_type_of e"] unfolding matching_in_class by simp

lemma matching_only:
  "r \<in> set REGISTRY \<Longrightarrow> rule_matches r ms e \<Longrightarrow> filter (\<lambda>r. rule_matches r ms e) REGISTRY = [r]"
proof -
  assume "r \<in> set REGISTRY" "rule_matches r ms e"
  then have "r \<in> set (filter (\<lambda>r. rule_matches r ms e) REGISTRY)" by simp
  then show ?thesis
    using matching_at_most_one [of ms e] by (cases "filter (\<lambda>r. rule_matches r ms e) REGISTRY") auto
qed

text \<open>C2. For every machine state and event, reachable or not, at most one of the 143 rules matches,
  so the selection never reports an ambiguous registry.\<close>

theorem at_most_one_rule:
  "length (filter (\<lambda>r. rule_matches r ms e) REGISTRY) \<le> 1 \<and>
   select_rule (rules_for (event_type_of e)) ms e \<noteq> Inl (RegistryIntegrityError d)"
proof -
  have "select_rule (rules_for (event_type_of e)) ms e \<noteq> Inl (RegistryIntegrityError d)"
    using matching_at_most_one [of ms e] unfolding matching_in_class
    by (cases "filter (\<lambda>r. rule_matches r ms e) (rules_for (event_type_of e))")
       (auto simp: select_rule_def rejected_def Let_def)
  then show ?thesis using matching_at_most_one by blast
qed

text \<open>C3. An accepted step is the effect of the one rule of the registry that matches, and the new state and the
  commands are those that this rule declares in \<open>to_state\<close> and \<open>command_names\<close>, from which the transition table
  of the documentation is generated.\<close>

theorem accepted_as_declared:
  assumes "reachable ms" and "legal_event e" and "transition ms e = Inr (ms', cs)"
  shows "\<exists>r. filter (\<lambda>r. rule_matches r ms e) REGISTRY = [r] \<and> rule_effect r ms e = Inr (ms', cs) \<and>
    to_state_ok (rule_to_state r) ms ms' \<and> commands_ok (rule_command_names r) ms cs"
proof -
  obtain r where t: "taken r ms e ms' cs"
    using accepted_taken [OF reachable_inv [OF assms(1)] assms(2,3)] .
  note f = taken_facts [OF t]
  show ?thesis using matching_only [OF f(1,4)] f(5,7,8) by blast
qed

theorem accepted_as_declared_witness:
  "\<exists>r. filter (\<lambda>r. rule_matches r start_state detect_v) REGISTRY = [r] \<and>
    to_state_ok (rule_to_state r) start_state halting_state \<and>
    commands_ok (rule_command_names r) start_state [InvalidateApprovals, HaltRun (OpaqueBinding ''v'')]"
proof -
  have "transition start_state detect_v = Inr (halting_state, [InvalidateApprovals, HaltRun (OpaqueBinding ''v'')])"
    by (simp add: detect_v_def halting_state_def event_eval run_eval INVALIDATE_def)
  moreover have "legal_event detect_v" by (simp add: detect_v_def verified_event_check_def)
  ultimately show ?thesis using accepted_as_declared [OF start_reachable(1)] by blast
qed

section \<open>Merging\<close>

text \<open>C4. A run from an initial state that reaches \<open>MERGED\<close> contains a verified merge approval, after
  which it stays in \<open>MERGING\<close> up to a confirmation that the merge took place.\<close>

theorem merged_only_after_approval:
  assumes "initial s0" and "machine_run s0 t" and "ms_state (run_end s0 t) = S_MERGED"
  shows "\<exists>t1 ev cs s t2 cs' s' t3.
    t = t1 @ (MergeApprovalVerified ev, cs, s) # t2 @ (MergeConfirmed, cs', s') # t3 \<and>
    list_all (\<lambda>(e, cs, s). ms_state s = S_MERGING) ((MergeApprovalVerified ev, cs, s) # t2)"
proof -
  have "phase_of (run_end s0 t) = Done IT_MERGED"
    using phase_done [of "run_end s0 t" IT_MERGED] machine.run_inv [OF initial_inv [OF assms(1)] assms(2)]
      assms(3) by simp
  then have "confirmed_trace t" using merge_history [OF assms(1,2)] by blast
  then show ?thesis unfolding confirmed_trace_def approved_trace_def by fastforce
qed

theorem merged_only_after_approval_witness:
  "\<exists>t1 ev cs s t2 cs' s' t3.
    trace_of start_state (scenario S_MERGED) =
      t1 @ (MergeApprovalVerified ev, cs, s) # t2 @ (MergeConfirmed, cs', s') # t3"
proof -
  obtain ms where "play start_state (scenario S_MERGED) = Inr ms" "ms_state ms = S_MERGED"
    using scenario_state by blast
  moreover have "initial start_state" by (simp add: initial_iff start_state_def)
  ultimately show ?thesis
    using merged_only_after_approval [of start_state "trace_of start_state (scenario S_MERGED)"]
      trace_of_run [OF scenario_legal] by fastforce
qed

text \<open>C5. The merge command is emitted by one step only: in \<open>MERGING\<close>, after the preconditions were
  requested, when they are reported satisfied, with no record pending, no procedure and no deferred
  violation; the step only moves the awaited value on.\<close>

theorem execute_merge_only_checked:
  assumes "reachable ms" and "legal_event e" and "transition ms e = Inr (ms', cs)"
    and "ExecuteMerge \<in> set cs"
  shows "e = MergePreconditionsOk \<and> ms_state ms = S_MERGING \<and> ms_procedure ms = NormalProcedure \<and>
    ms_awaiting ms = Some A_MERGE_PRECONDITIONS \<and> ms_pending_record ms = None \<and>
    ms_deferred_integrity ms = [] \<and> cs = [ExecuteMerge] \<and>
    ms' = ms\<lparr>ms_awaiting := Some A_MERGE_OUTCOME_EXECUTE\<rparr>"
  using accepted_taken [OF reachable_inv [OF assms(1)] assms(2,3)] execute_merge_step [OF _ assms(4)] by metis

theorem execute_merge_only_checked_witness:
  "transition merging_state MergePreconditionsOk =
     Inr (merging_state\<lparr>ms_awaiting := Some A_MERGE_OUTCOME_EXECUTE\<rparr>, [ExecuteMerge]) \<and>
   ms_pending_record merging_state = None"
proof -
  have "transition merging_state MergePreconditionsOk =
      Inr (merging_state\<lparr>ms_awaiting := Some A_MERGE_OUTCOME_EXECUTE\<rparr>, [ExecuteMerge])"
    by (simp add: merging_state_def run_eval)
  then show ?thesis
    using execute_merge_only_checked [OF merging_reachable, of MergePreconditionsOk]
    by (simp add: verified_event_check_def)
qed

section \<open>Detected violations\<close>

text \<open>C6. A violation that still has to be recorded leaves the state only through a verified incident
  record that lists it; every other accepted step keeps it, in the deferred set or in the block.\<close>

theorem open_violation_kept:
  assumes "reachable ms" and "legal_event e" and "transition ms e = Inr (ms', cs)"
    and "v \<in> open_violations ms" and "v \<notin> open_violations ms' \<union> held_violations ms'"
  shows "\<exists>ev recorded. e = IntegrityIncidentVerified ev recorded \<and> v \<in> set recorded"
  using step_open_kept [OF machine_refines_lifecycle [OF reachable_inv [OF assms(1)] assms(2,3)]] assms(4,5)
  by simp

theorem open_violation_kept_witness:
  "OpaqueBinding ''v'' \<in> open_violations halting_state \<and>
   OpaqueBinding ''v'' \<in> open_violations held_state \<union> held_violations held_state"
proof -
  let ?e = "BlockHaltCompleted (OpaqueBinding ''v'')"
  have step: "transition halting_state ?e = Inr (held_state, [])"
    by (simp add: halting_state_def held_state_def event_eval run_eval)
  have v: "OpaqueBinding ''v'' \<in> open_violations halting_state"
    by (simp add: open_violations_def halting_state_def violation_def MachineState_def bindings_of_def)
  have "legal_event ?e" by (simp add: verified_event_check_def)
  then show ?thesis using open_violation_kept [OF halting_reachable _ step v] v by blast
qed

text \<open>C7. A violation held by a block leaves it only when a verified integrity exit names it in its
  resolution, or when the run ends.\<close>

theorem held_violation_kept:
  assumes "reachable ms" and "legal_event e" and "transition ms e = Inr (ms', cs)"
    and "v \<in> held_violations ms" and "v \<notin> held_violations ms'"
  shows "(\<exists>r vs. (e = IntegrityRestoredValidated r \<or> e = IntegritySalvageEstablished r) \<and>
      br_violation_bindings r = Some vs \<and> v \<in> set vs) \<or> ms_state ms' \<in> TERMINAL_STATES"
proof -
  have inv: "machine_inv ms'" using transition_inv [OF reachable_inv [OF assms(1)] assms(2,3)] .
  have "(\<exists>r vs. (e = IntegrityRestoredValidated r \<or> e = IntegritySalvageEstablished r) \<and>
      br_violation_bindings r = Some vs \<and> v \<in> set vs) \<or> (\<exists>t. phase_of ms' = Done t)"
    using step_held_kept [OF machine_refines_lifecycle [OF reachable_inv [OF assms(1)] assms(2,3)]] assms(4,5)
    by simp
  then show ?thesis using phase_done [OF inv] by (metis in_TERMINAL)
qed

definition restore_v :: event where
  "restore_v = IntegrityRestoredValidated
     \<lparr>br_target_block_binding = OpaqueBinding ''v'', br_head = OpaqueRef ''h'', br_record = None,
      br_reason = None, br_budget = None, br_counter_snapshot = None, br_fingerprint = None,
      br_violation_bindings = Some [OpaqueBinding ''v'']\<rparr>"

theorem held_violation_kept_witness:
  "transition held_state restore_v =
     Inr (start_state, [InvalidateApprovals, RequestCodexReview CP_CODE_REVIEW]) \<and>
   (\<exists>r vs. restore_v = IntegrityRestoredValidated r \<and> br_violation_bindings r = Some vs)"
proof -
  have step: "transition held_state restore_v =
      Inr (start_state, [InvalidateApprovals, RequestCodexReview CP_CODE_REVIEW])"
    by (simp add: restore_v_def held_state_def event_eval run_eval representative_binding_def
        representative_head_def integrity_exit_effect_def)
  have "OpaqueBinding ''v'' \<in> held_violations held_state" "OpaqueBinding ''v'' \<notin> held_violations start_state"
    by (simp_all add: held_violations_def held_state_def start_state_def violation_def MachineState_def bindings_of_def)
  then show ?thesis
    using held_violation_kept [OF held_reachable _ step, of "OpaqueBinding ''v''"] step
    by (auto simp: restore_v_def integrity_exit_check_def start_state_def MachineState_def)
qed

text \<open>C8. A detected violation is accepted in every reachable state that is not terminal, whatever the
  procedure; the step first invalidates the approvals, starts nothing else than a halt or an outcome
  query, and adds exactly the detected binding to the violations of the run.\<close>

theorem detection_always_accepted:
  assumes "reachable ms" and "ms_state ms \<notin> TERMINAL_STATES"
  shows "\<exists>ms' cs. transition ms (RecordIntegrityViolationDetected v) = Inr (ms', InvalidateApprovals # cs) \<and>
    list_all (\<lambda>c. command_type c \<in> {N_HaltRun, N_QueryMergeOutcome}) cs \<and>
    open_violations ms' \<union> held_violations ms' =
      insert (ie_binding v) (open_violations ms \<union> held_violations ms)"
  by (rule detection_accepted [OF reachable_inv [OF assms(1)] assms(2)])

theorem detection_always_accepted_witness:
  "\<exists>ms' cs. transition held_state (RecordIntegrityViolationDetected (violation ''w'')) =
     Inr (ms', InvalidateApprovals # cs)"
  using detection_always_accepted [OF held_reachable, of "violation ''w''"]
  by (auto simp: held_state_def MachineState_def)

text \<open>C9. From every reachable state at most four legal events lead to a terminal state: no run is
  stuck, whatever was detected, pending, failed or blocked.\<close>

theorem can_always_finish:
  assumes "reachable ms"
  shows "\<exists>t. machine_run ms t \<and> length t \<le> 4 \<and> ms_state (run_end ms t) \<in> TERMINAL_STATES"
  using always_finishes [OF reachable_inv [OF assms]] unfolding finishes_def .

theorem can_always_finish_witness:
  "\<exists>t. machine_run recording_state t \<and> length t \<le> 4 \<and> ms_state (run_end recording_state t) \<in> TERMINAL_STATES"
  by (rule can_always_finish [OF recording_reachable])

end
