(* ===== verification/Machine_Protocols.thy ===== *)
theory Machine_Protocols
  imports Machine_Properties
begin

text \<open>
  Further properties of the state machine: the steps of a procedure, when agents are started, how procedures run to their end,
  blocking, failure and resumption, the record slot, and the registry itself.
\<close>

section \<open>The steps of a procedure\<close>

text \<open>The completion of a cancellation: the run is cancelled, or the incident is requested.\<close>

lemma cancel_completion:
  assumes inv: "machine_inv ms" and q: "ms_procedure ms = CancellingProcedure c"
  shows "transition ms (CancellationCompleted (Some c) None) =
    Inr (if ms_deferred_integrity ms = [] then (MachineState S_CANCELLED, [])
         else (ms\<lparr>ms_procedure := RecordingIncidentProcedure IT_CANCELLED (ms_pending_record ms), ms_pending_record := None\<rparr>,
               [RecordIntegrityIncident (deferred_bindings ms) (ms_pending_record ms)]))"
proof -
  let ?e = "CancellationCompleted (Some c) None"
  let ?r = "if ms_deferred_integrity ms = [] then rule_C_03 else rule_C_04"
  have nt: "ms_state ms \<notin> TERMINAL_STATES" "ms_state ms \<noteq> S_MERGING"
    using cancelling_facts(2,3) [OF inv] q by auto
  have "rule_matches ?r ms ?e"
    using q nt by (simp add: match_eval rule_C_03_def rule_C_04_def binding_match_of_def)
  then obtain ms' cs where "transition ms ?e = Inr (ms', cs)" "rule_effect ?r ms ?e = Inr (ms', cs)"
    by (rule rule_step [rotated 3]) (simp_all add: rules_for_simps inv)
  then show ?thesis
    by (auto simp: rule_C_03_def rule_C_04_def bare_cancelled_effect_def cancel_completed_to_incident_def returning_Inr
        Let_def split: if_splits)
qed

text \<open>A verified incident record is accepted exactly when it is the pending record.\<close>

lemma incident_verified_accepted:
  assumes inv: "machine_inv ms" and q: "ms_procedure ms = RecordingIncidentProcedure t audit"
    and legal: "legal_event (IntegrityIncidentVerified ev vs)"
  shows "(\<exists>x. transition ms (IntegrityIncidentVerified ev vs) = Inr x) \<longleftrightarrow>
    (\<exists>p. ms_pending_record ms = Some p \<and> pr_kind p = re_kind ev \<and> pr_binding p = re_binding ev)"
proof
  let ?e = "IntegrityIncidentVerified ev vs"
  assume "\<exists>x. transition ms ?e = Inr x"
  then obtain x where "transition ms ?e = Inr x" ..
  then obtain r where "r \<in> set (rules_for (event_type_of ?e))" "rule_matches r ms ?e" by (rule transition_accepted)
  then have "derive_pending ms ?e = PM_MATCH"
    using match_facts(5) [of r ms ?e] by (auto simp: rules_for_simps rule_I_VC_def rule_I_VR_def Match_def)
  then show "\<exists>p. ms_pending_record ms = Some p \<and> pr_kind p = re_kind ev \<and> pr_binding p = re_binding ev"
    by (auto simp: derive_pending_def pending_vs_evidence_def split: option.splits if_splits)
next
  let ?e = "IntegrityIncidentVerified ev vs"
  let ?r = "if set (deferred_bindings ms) \<subseteq> set vs then rule_I_VC else rule_I_VR"
  assume "\<exists>p. ms_pending_record ms = Some p \<and> pr_kind p = re_kind ev \<and> pr_binding p = re_binding ev"
  then obtain p where p: "ms_pending_record ms = Some p" "pr_kind p = re_kind ev" "pr_binding p = re_binding ev" by blast
  have nt: "ms_state ms \<notin> TERMINAL_STATES" using recording_facts(3) [OF inv] q by auto
  have "rule_matches ?r ms ?e"
    using q p nt by (simp add: match_eval rule_I_VC_def rule_I_VR_def pending_vs_evidence_def deferred_bindings_def)
  then show "\<exists>x. transition ms ?e = Inr x"
    by (rule rule_step [rotated 3]) (use legal in \<open>simp_all add: rules_for_simps inv\<close>)
qed

text \<open>The steps while an incident is recorded.\<close>

lemma recording_incident_step:
  assumes inv: "machine_inv ms" and legal: "legal_event e" and step: "transition ms e = Inr (ms', cs)"
    and q: "ms_procedure ms = RecordingIncidentProcedure t audit"
  shows "(\<exists>ev vs. e = IntegrityIncidentVerified ev vs \<and> set (deferred_bindings ms) \<subseteq> set vs) \<and>
      ms' = MachineState (if t = IT_MERGED then S_MERGED else S_CANCELLED) \<and> cs = [] \<or>
    (\<exists>ev vs. e = IntegrityIncidentVerified ev vs \<and> \<not> set (deferred_bindings ms) \<subseteq> set vs \<and>
      set (deferred_bindings ms') = set (deferred_bindings ms) - set vs) \<and>
      ms_procedure ms' = RecordingIncidentProcedure t audit \<and>
      cs = [RecordIntegrityIncident (deferred_bindings ms') audit] \<or>
    (\<nexists>ev vs. e = IntegrityIncidentVerified ev vs) \<and> ms_procedure ms' = RecordingIncidentProcedure t audit \<and>
      set (deferred_bindings ms) \<subseteq> set (deferred_bindings ms')"
proof -
  obtain r where t: "taken r ms e ms' cs" using accepted_taken [OF inv legal step] .
  note f = taken_facts [OF t]
  note m = match_facts [OF f(4)]
  have "r \<in> {rule_I_D1, rule_I_P, rule_I_VC, rule_I_VR} \<or>
   (\<exists>i et. et \<in> set (ET_RunFailed # RESUME_EVENTS) \<and>
      (r = procedure_rule_incident_request i et \<or> r = procedure_rule_incident_persist i et))"
    using f(1,11) q by (intro recording_rules) auto
  then consider (detect) "r = rule_I_D1" | (produced) "r = rule_I_P" | (complete) "r = rule_I_VC" | (rest) "r = rule_I_VR"
    | (again) i et where "et \<in> set (ET_RunFailed # RESUME_EVENTS)"
        "r = procedure_rule_incident_request i et \<or> r = procedure_rule_incident_persist i et" by blast
  then show ?thesis
  proof cases
    case detect
    then obtain v where "e = RecordIntegrityViolationDetected v"
      using m(2) detected [of e] by (auto simp: rule_I_D1_def Match_def)
    then show ?thesis using f(5) q bindings_union [of ms v]
      by (auto simp: detect rule_I_D1_def returning_Inr deferred_bindings_def bindings_of_def)
  next
    case produced
    then obtain c where "e = RecordProduced K_INTEGRITY_INCIDENT c"
      using m(2,6) by (cases e) (auto simp: rule_I_P_def Match_def)
    then show ?thesis using f(5) q by (auto simp: produced rule_I_P_def returning_Inr deferred_bindings_def)
  next
    case complete
    then obtain ev vs where "e = IntegrityIncidentVerified ev vs"
      using m(2) by (cases e) (auto simp: rule_I_VC_def Match_def)
    then show ?thesis using f(5) q m(12)
      by (auto simp: complete rule_I_VC_def Match_def incident_complete_effect_def returning_Inr deferred_bindings_def
          split: if_splits)
  next
    case rest
    then obtain ev vs where "e = IntegrityIncidentVerified ev vs"
      using m(2) by (cases e) (auto simp: rule_I_VR_def Match_def)
    then show ?thesis using f(5) q m(12)
      by (auto simp: rest rule_I_VR_def Match_def returning_Inr deferred_bindings_def Let_def split: if_splits)
  next
    case again
    then have "event_type_of e \<in> set (ET_RunFailed # RESUME_EVENTS)"
      using f(10) by (auto simp: procedure_rule_incident_request_def procedure_rule_incident_persist_def Match_def)
    then have "\<nexists>ev vs. e = IntegrityIncidentVerified ev vs" by (auto simp: RESUME_EVENTS_def)
    moreover have "ms' = ms" using f(5) again
      by (auto simp: procedure_rule_incident_request_def procedure_rule_incident_persist_def reissue_incident_request_def
          reissue_persist_def returning_Inr split: procedure.splits option.splits)
    ultimately show ?thesis using q by simp
  qed
qed

text \<open>What a procedure asks for, and asks for again when the run fails.\<close>

definition procedure_request :: "machine_state \<Rightarrow> command list" where
  "procedure_request ms =
     (case ms_procedure ms of
        NormalProcedure \<Rightarrow> []
      | CancellingProcedure b \<Rightarrow> [HaltRun b]
      | HaltingForBlockProcedure _ b \<Rightarrow> [HaltRun b]
      | RecordingIncidentProcedure _ audit \<Rightarrow>
          (case ms_pending_record ms of
             Some p \<Rightarrow> [PersistRecord (pr_kind p) (pr_binding p)]
           | None \<Rightarrow> [RecordIntegrityIncident (deferred_bindings ms) audit]))"

lemma failure_repeats_request:
  assumes inv: "machine_inv ms" and q: "ms_procedure ms \<noteq> NormalProcedure"
  shows "transition ms RunFailed = Inr (ms, procedure_request ms)"
proof -
  let ?r = "case ms_procedure ms of
      HaltingForBlockProcedure b a \<Rightarrow> procedure_rule_halt ''0'' ET_RunFailed
    | RecordingIncidentProcedure t a \<Rightarrow>
        (if ms_pending_record ms = None then procedure_rule_incident_request ''0'' ET_RunFailed
         else procedure_rule_incident_persist ''0'' ET_RunFailed)
    | _ \<Rightarrow> procedure_rule_cancel ''0'' ET_RunFailed"
  have "rule_matches ?r ms RunFailed"
  proof (cases "ms_procedure ms")
    case (CancellingProcedure c)
    then show ?thesis using cancelling_facts(2,3) [OF inv] by (simp add: match_eval procedure_rule_cancel_def)
  next
    case (HaltingForBlockProcedure b a)
    then have "ms_state ms \<in> ACTIVE_STATES" "ms_state ms \<noteq> S_MERGING"
      using constructible_checks(7) [OF machine_inv_constructible [OF inv]] by auto
    then show ?thesis using HaltingForBlockProcedure by (simp add: match_eval procedure_rule_halt_def del: in_ACTIVE)
  next
    case (RecordingIncidentProcedure t a)
    then show ?thesis using recording_facts(3) [OF inv]
      by (auto simp: match_eval procedure_rule_incident_request_def procedure_rule_incident_persist_def)
  qed (use q in simp)
  then have "transition ms RunFailed = rule_effect ?r ms RunFailed"
    by (intro transition_by_rule) (simp_all add: rules_for_simps split: procedure.split)
  then show ?thesis using q
    by (auto simp: procedure_request_def procedure_rule_cancel_def procedure_rule_halt_def
        procedure_rule_incident_request_def procedure_rule_incident_persist_def reissue_halt_for_cancel_def
        reissue_halt_for_block_def reissue_incident_request_def reissue_persist_def split: procedure.splits)
qed

lemma failure_kept:
  assumes inv: "machine_inv ms" and n: "ms_procedure ms = NormalProcedure" and s: "ms_state ms \<in> RESUMABLE_STATES"
  shows "transition ms RunFailed = Inr (ms, [])"
proof -
  have "rule_matches rule_F_02 ms RunFailed" using n s by (simp add: match_eval rule_F_02_def)
  then show ?thesis using transition_by_rule [of rule_F_02 RunFailed ms]
    by (simp add: rules_for_simps rule_F_02_def unchanged_effect_def)
qed

section \<open>Agents\<close>

text \<open>C10. An agent (a Codex reviewer or work of the host) is started only by a step into a state that has
  no record pending and no procedure in progress and waits for exactly this agent.\<close>

theorem agent_start_gate:
  assumes "reachable ms" and "legal_event e" and "transition ms e = Inr (ms', cs)"
    and "c \<in> set cs" and "starts_agent c"
  shows "ms_pending_record ms' = None \<and> ms_procedure ms' = NormalProcedure \<and>
    (\<exists>a. ms_awaiting ms' = Some a \<and> AWAITING_COMMANDS a = [c])"
proof -
  obtain r where t: "taken r ms e ms' cs"
    using accepted_taken [OF reachable_inv [OF assms(1)] assms(2,3)] .
  have "starts_ok ms' cs" using agent_start_step [OF t] .
  then have "ms_pending_record ms' = None \<and> (\<exists>a. ms_awaiting ms' = Some a \<and> AWAITING_COMMANDS a = [c])"
    using assms(4,5) by (auto simp: starts_ok_def list_all_iff split: option.splits)
  moreover from this have "ms_procedure ms' = NormalProcedure"
    using constructible_checks(7) [OF machine_inv_constructible [OF taken_facts(6) [OF t]]] by auto
  ultimately show ?thesis by blast
qed

lemma restart_held:
  "transition held_state restore_v = Inr (start_state, [InvalidateApprovals, RequestCodexReview CP_CODE_REVIEW])"
  by (simp add: restore_v_def held_state_def event_eval run_eval representative_binding_def
      representative_head_def integrity_exit_effect_def)

lemma restore_legal: "legal_event restore_v"
  by (simp add: restore_v_def integrity_exit_check_def)

theorem agent_start_gate_witness:
  "ms_pending_record start_state = None \<and> ms_procedure start_state = NormalProcedure \<and>
   (\<exists>a. ms_awaiting start_state = Some a \<and> AWAITING_COMMANDS a = [RequestCodexReview CP_CODE_REVIEW])"
  using agent_start_gate [OF held_reachable restore_legal restart_held, of "RequestCodexReview CP_CODE_REVIEW"]
  by simp

text \<open>C11. While a cancellation, a halt or an incident record is in progress, an accepted step emits only
  halt, incident, persist and invalidation commands: no agent, no CI check, no report, no merge.\<close>

theorem procedure_starts_nothing:
  assumes "reachable ms" and "legal_event e" and "transition ms e = Inr (ms', cs)"
    and "ms_procedure ms \<noteq> NormalProcedure" and "c \<in> set cs"
  shows "command_type c \<in> {N_HaltRun, N_RecordIntegrityIncident, N_PersistRecord, N_InvalidateApprovals}"
  using accepted_taken [OF reachable_inv [OF assms(1)] assms(2,3)]
    procedure_command_step [OF _ assms(4,5)] unfolding procedure_commands_def by metis

theorem procedure_starts_nothing_witness:
  "transition recording_state RunFailed =
     Inr (recording_state, [RecordIntegrityIncident [OpaqueBinding ''v''] None]) \<and>
   command_type (RecordIntegrityIncident [OpaqueBinding ''v''] None) \<in>
     {N_HaltRun, N_RecordIntegrityIncident, N_PersistRecord, N_InvalidateApprovals}"
proof -
  have "transition recording_state RunFailed =
      Inr (recording_state, [RecordIntegrityIncident [OpaqueBinding ''v''] None])"
    by (simp add: recording_state_def event_eval run_eval reissue_incident_request_def deferred_bindings_def)
  then show ?thesis
    using procedure_starts_nothing [OF recording_reachable, of RunFailed]
    by (simp add: verified_event_check_def recording_state_def MachineState_def)
qed

section \<open>The life of a run\<close>

text \<open>C12. The machine refines the specification of the life of a run: an accepted step of a reachable
  state is a step of the specification between the abstracted states.\<close>

theorem refines_lifecycle:
  assumes "reachable ms" and "legal_event e" and "transition ms e = Inr (ms', cs)"
  shows "lifecycle_step (life ms) e (life ms')"
  by (rule machine_refines_lifecycle [OF reachable_inv [OF assms(1)] assms(2,3)])

theorem refines_lifecycle_witness:
  "lifecycle_step (life held_state) restore_v (life start_state)"
  by (rule refines_lifecycle [OF held_reachable restore_legal restart_held])

text \<open>C13. The ways into a terminal state: a confirmed merge; the confirmation that a cancelled merge was
  not executed; the completion of the cancellation in progress, or of an emergency one; or a verified
  incident record that covers every violation still to be recorded. In the other cases none is.\<close>

theorem ways_to_terminal:
  assumes "reachable ms" and "legal_event e" and "transition ms e = Inr (ms', cs)"
    and "ms_state ms' \<in> TERMINAL_STATES"
  shows
    "open_violations ms = {} \<and>
       (e = MergeConfirmed \<and> ms_state ms = S_MERGING \<and> ms_state ms' = S_MERGED \<or>
        e = MergeNotExecutedConfirmed \<and> ms_state ms = S_MERGING \<and>
          ms_awaiting ms = Some A_MERGE_OUTCOME_CANCEL \<and> ms_state ms' = S_CANCELLED \<or>
        (\<exists>c em. e = CancellationCompleted (Some c) em \<and> ms_procedure ms = CancellingProcedure c \<and>
           ms_state ms' = S_CANCELLED) \<or>
        (\<exists>em. e = CancellationCompleted None (Some em) \<and> ms_state ms' = S_CANCELLED)) \<or>
     (\<exists>ev recorded t audit. e = IntegrityIncidentVerified ev recorded \<and>
        ms_procedure ms = RecordingIncidentProcedure t audit \<and> open_violations ms \<subseteq> set recorded \<and>
        ms_state ms' = (if t = IT_MERGED then S_MERGED else S_CANCELLED))"
proof -
  have inv: "machine_inv ms" "machine_inv ms'"
    using reachable_inv [OF assms(1)] transition_inv [OF reachable_inv [OF assms(1)] assms(2,3)] .
  obtain t where t: "ms_state ms' = (if t = IT_MERGED then S_MERGED else S_CANCELLED)"
    using assms(4) that [of IT_MERGED] that [of IT_CANCELLED] by auto
  then have "phase_of ms' = Done t" using phase_done [OF inv(2)] by simp
  then show ?thesis
    using step_to_done [OF machine_refines_lifecycle [OF inv(1) assms(2,3)], of t] t
    unfolding phase_life phase_procedure phase_merging_eq by fastforce
qed

theorem ways_to_terminal_witness:
  "transition cancelling_state (CancellationCompleted (Some bn) None) = Inr (MachineState S_CANCELLED, []) \<and>
   open_violations cancelling_state = {}"
proof -
  have "transition cancelling_state (CancellationCompleted (Some bn) None) = Inr (MachineState S_CANCELLED, [])"
    by (simp add: cancelling_state_def event_eval run_eval)
  then show ?thesis
    using ways_to_terminal [OF cancelling_reachable, of "CancellationCompleted (Some bn) None"]
    by (auto simp: MachineState_def)
qed

text \<open>C14. During a halt the identity of the attempt never changes and no violation is lost, however many
  are detected; the halt ends only when the completion of this attempt is reported, and then the block
  holds exactly the violations collected.\<close>

theorem halt_attempt_stable:
  assumes "reachable ms" and "legal_event e" and "transition ms e = Inr (ms', cs)"
    and "ms_procedure ms = HaltingForBlockProcedure b a"
  shows "(\<exists>b'. ms_procedure ms' = HaltingForBlockProcedure b' a \<and>
      ie_binding ` set (ri_violations b) \<subseteq> ie_binding ` set (ri_violations b')) \<or>
    e = BlockHaltCompleted a \<and> ms_procedure ms' = NormalProcedure \<and> open_violations ms' = {} \<and>
      held_violations ms' = ie_binding ` set (ri_violations b)"
proof -
  have inv: "machine_inv ms" "machine_inv ms'"
    using reachable_inv [OF assms(1)] transition_inv [OF reachable_inv [OF assms(1)] assms(2,3)] .
  have vs: "open_violations ms = ie_binding ` set (ri_violations b)"
    using life_halting [OF inv(1) assms(4)] phase_life(2) [of ms] by (simp add: bindings_of_def)
  have "phase_of ms' = Halting a \<and> open_violations ms \<subseteq> open_violations ms' \<or>
    e = BlockHaltCompleted a \<and> phase_of ms' = Open \<and> open_violations ms' = {} \<and>
      held_violations ms' = open_violations ms"
    using step_halting [OF machine_refines_lifecycle [OF inv(1) assms(2,3)], of a] assms(4)
    by (simp add: phase_procedure)
  then show ?thesis
  proof
    assume h: "phase_of ms' = Halting a \<and> open_violations ms \<subseteq> open_violations ms'"
    then obtain b' where b': "ms_procedure ms' = HaltingForBlockProcedure b' a"
      by (auto simp: phase_procedure)
    then have "open_violations ms' = ie_binding ` set (ri_violations b')"
      using life_halting [OF inv(2) b'] phase_life(2) [of ms'] by (simp add: bindings_of_def)
    then show ?thesis using h b' vs by auto
  next
    assume "e = BlockHaltCompleted a \<and> phase_of ms' = Open \<and> open_violations ms' = {} \<and>
      held_violations ms' = open_violations ms"
    then show ?thesis using vs by (auto simp: phase_of_def split: procedure.splits)
  qed
qed

theorem halt_attempt_stable_witness:
  "transition halting_state (BlockHaltCompleted (OpaqueBinding ''v'')) = Inr (held_state, []) \<and>
   held_violations held_state = {OpaqueBinding ''v''}"
proof -
  have step: "transition halting_state (BlockHaltCompleted (OpaqueBinding ''v'')) = Inr (held_state, [])"
    by (simp add: halting_state_def held_state_def event_eval run_eval)
  have legal: "legal_event (BlockHaltCompleted (OpaqueBinding ''v''))" by (simp add: verified_event_check_def)
  have "held_violations held_state = ie_binding ` set (ri_violations \<lparr>ri_violations = [violation ''v'']\<rparr>)"
    using halt_attempt_stable [OF halting_reachable legal step,
        of "\<lparr>ri_violations = [violation ''v'']\<rparr>" "OpaqueBinding ''v''"]
    by (auto simp: halting_state_def held_state_def MachineState_def)
  then show ?thesis using step by (simp add: violation_def)
qed

text \<open>C15. A cancellation in progress keeps its attempt and loses no violation with every step but its own completion,
  and its completion is accepted: then the run is cancelled and nothing is requested, or, when violations were detected
  meanwhile, the incident is recorded first and the command that asks for it lists exactly these violations.\<close>

theorem cancellation_protocol:
  assumes "reachable ms" and "ms_procedure ms = CancellingProcedure c"
  shows "transition ms (CancellationCompleted (Some c) None) =
      Inr (if open_violations ms = {} then (MachineState S_CANCELLED, [])
           else (ms\<lparr>ms_procedure := RecordingIncidentProcedure IT_CANCELLED (ms_pending_record ms), ms_pending_record := None\<rparr>,
                 [RecordIntegrityIncident (deferred_bindings ms) (ms_pending_record ms)])) \<and>
    set (deferred_bindings ms) = open_violations ms \<and>
    (legal_event e \<and> transition ms e = Inr (ms', cs) \<and> e \<noteq> CancellationCompleted (Some c) None \<longrightarrow>
       ms_procedure ms' = CancellingProcedure c \<and> open_violations ms \<subseteq> open_violations ms')"
proof (intro conjI impI)
  have inv: "machine_inv ms" by (rule reachable_inv [OF assms(1)])
  show listed: "set (deferred_bindings ms) = open_violations ms"
    using life_procedure(1) [OF assms(2)] phase_life(2) [of ms] by (simp add: deferred_bindings_def bindings_of_def)
  then show "transition ms (CancellationCompleted (Some c) None) =
      Inr (if open_violations ms = {} then (MachineState S_CANCELLED, [])
           else (ms\<lparr>ms_procedure := RecordingIncidentProcedure IT_CANCELLED (ms_pending_record ms), ms_pending_record := None\<rparr>,
                 [RecordIntegrityIncident (deferred_bindings ms) (ms_pending_record ms)]))"
    using cancel_completion [OF inv assms(2)] by (auto simp: deferred_bindings_def)
  assume other: "legal_event e \<and> transition ms e = Inr (ms', cs) \<and> e \<noteq> CancellationCompleted (Some c) None"
  then have "e \<noteq> CancellationCompleted (Some c) em" for em by (cases em) auto
  then have "phase_of ms' = Cancelling c \<and> open_violations ms \<subseteq> open_violations ms'"
    using step_cancelling [OF machine_refines_lifecycle [OF inv], of e ms' cs c] other assms(2)
    by (auto simp: phase_procedure)
  then show "ms_procedure ms' = CancellingProcedure c" "open_violations ms \<subseteq> open_violations ms'"
    by (simp_all add: phase_procedure)
qed

definition violated_state :: machine_state where
  "violated_state = cancelling_state\<lparr>ms_deferred_integrity := [violation ''v'']\<rparr>"

lemma violated_reachable: "reachable violated_state"
proof (rule play_reachable [OF cancelling_reachable])
  show "play cancelling_state [detect_v] = Inr violated_state"
    by (simp add: detect_v_def cancelling_state_def violated_state_def event_eval run_eval union_deferred_def INVALIDATE_def)
qed (simp add: detect_v_def legal_eval)

theorem cancellation_protocol_witness:
  "transition violated_state (CancellationCompleted (Some bn) None) =
     Inr (recording_state, [RecordIntegrityIncident [OpaqueBinding ''v''] None])"
proof -
  have q: "ms_procedure violated_state = CancellingProcedure bn" "deferred_bindings violated_state = [OpaqueBinding ''v'']"
    by (simp_all add: violated_state_def cancelling_state_def deferred_bindings_def violation_def)
  then have "open_violations violated_state \<noteq> {}" using cancellation_protocol [OF violated_reachable q(1)] by auto
  then show ?thesis
    using cancellation_protocol [OF violated_reachable q(1)] q(2)
    by (simp add: violated_state_def cancelling_state_def recording_state_def MachineState_def)
qed

text \<open>C16. While an incident is recorded, a violation is dropped only when a verified incident record lists it. Such a
  record is accepted exactly when it is the pending one; if it covers all violations that are left, the run ends, in the
  state the incident was recorded for and with no command; otherwise the procedure goes on with exactly the others, and
  the next incident is requested, which lists them.\<close>

theorem incident_protocol:
  assumes "reachable ms" and "ms_procedure ms = RecordingIncidentProcedure t audit"
    and "legal_event e"
  shows "(transition ms e = Inr (ms', cs) \<longrightarrow>
      (if \<exists>ev vs. e = IntegrityIncidentVerified ev vs \<and> open_violations ms \<subseteq> set vs
       then ms' = MachineState (if t = IT_MERGED then S_MERGED else S_CANCELLED) \<and> cs = []
       else ms_procedure ms' = RecordingIncidentProcedure t audit \<and>
         (case e of
            IntegrityIncidentVerified ev vs \<Rightarrow>
              open_violations ms' = open_violations ms - set vs \<and> set (deferred_bindings ms') = open_violations ms' \<and>
              cs = [RecordIntegrityIncident (deferred_bindings ms') audit]
          | _ \<Rightarrow> open_violations ms \<subseteq> open_violations ms'))) \<and>
    (\<forall>ev vs. e = IntegrityIncidentVerified ev vs \<longrightarrow>
      ((\<exists>x. transition ms e = Inr x) \<longleftrightarrow>
       (\<exists>p. ms_pending_record ms = Some p \<and> pr_kind p = re_kind ev \<and> pr_binding p = re_binding ev)))"
proof (intro conjI allI impI)
  have inv: "machine_inv ms" by (rule reachable_inv [OF assms(1)])
  have listed: "open_violations s = set (deferred_bindings s)" if "ms_procedure s = RecordingIncidentProcedure t audit" for s
    using life_procedure(2) [OF that] phase_life(2) [of s] by (simp add: deferred_bindings_def bindings_of_def)
  show "if \<exists>ev vs. e = IntegrityIncidentVerified ev vs \<and> open_violations ms \<subseteq> set vs
       then ms' = MachineState (if t = IT_MERGED then S_MERGED else S_CANCELLED) \<and> cs = []
       else ms_procedure ms' = RecordingIncidentProcedure t audit \<and>
         (case e of
            IntegrityIncidentVerified ev vs \<Rightarrow>
              open_violations ms' = open_violations ms - set vs \<and> set (deferred_bindings ms') = open_violations ms' \<and>
              cs = [RecordIntegrityIncident (deferred_bindings ms') audit]
          | _ \<Rightarrow> open_violations ms \<subseteq> open_violations ms')"
    if "transition ms e = Inr (ms', cs)"
    using recording_incident_step [OF inv assms(3) that assms(2)] listed [OF assms(2)] listed [of ms']
    by (auto split: event.split)
  show "(\<exists>x. transition ms e = Inr x) \<longleftrightarrow>
       (\<exists>p. ms_pending_record ms = Some p \<and> pr_kind p = re_kind ev \<and> pr_binding p = re_binding ev)"
    if "e = IntegrityIncidentVerified ev vs" for ev vs
    using incident_verified_accepted [OF inv assms(2)] assms(3) that by simp
qed

definition recorded_state :: machine_state where
  "recorded_state = recording_state\<lparr>ms_pending_record :=
     Some \<lparr>pr_kind = K_INTEGRITY_INCIDENT, pr_binding = bn, pr_source_state = S_RUNNING_REVIEW\<rparr>\<rparr>"

lemma recorded_reachable: "reachable recorded_state"
proof (rule play_reachable [OF recording_reachable])
  show "play recording_state [RecordProduced K_INTEGRITY_INCIDENT bn] = Inr recorded_state"
    by (simp add: recording_state_def recorded_state_def event_eval run_eval)
qed (simp add: legal_eval)

theorem incident_protocol_witness:
  "transition recorded_state (IntegrityIncidentVerified (evidence_of K_INTEGRITY_INCIDENT) [OpaqueBinding ''v'']) =
     Inr (MachineState S_CANCELLED, [])"
proof -
  let ?e = "IntegrityIncidentVerified (evidence_of K_INTEGRITY_INCIDENT) [OpaqueBinding ''v'']"
  have q: "ms_procedure recorded_state = RecordingIncidentProcedure IT_CANCELLED None"
    by (simp add: recorded_state_def recording_state_def)
  have legal: "legal_event ?e" by (simp add: verified_event_check_def evidence_of_def)
  have "open_violations recorded_state = {OpaqueBinding ''v''}"
    using life_procedure(2) [OF q] phase_life(2) [of recorded_state]
    by (simp add: recorded_state_def recording_state_def bindings_of_def violation_def)
  moreover have "\<exists>p. ms_pending_record recorded_state = Some p \<and> pr_kind p = re_kind (evidence_of K_INTEGRITY_INCIDENT) \<and>
      pr_binding p = re_binding (evidence_of K_INTEGRITY_INCIDENT)"
    by (simp add: recorded_state_def evidence_of_def)
  then have "\<exists>x. transition recorded_state ?e = Inr x" using incident_protocol [OF recorded_reachable q legal] by blast
  then obtain ms' cs where "transition recorded_state ?e = Inr (ms', cs)" by auto
  ultimately show ?thesis using incident_protocol [OF recorded_reachable q legal, of ms' cs] by simp
qed

text \<open>Terminal states are final: every event is rejected there, and a run from one has no step.\<close>

theorem terminal_final:
  assumes "ms_state ms \<in> TERMINAL_STATES"
  shows "transition ms e = Inl (rejected ms e TerminalStateRejectsAll) \<and> (machine_run ms t \<longleftrightarrow> t = [])"
proof -
  have "t = []" if "machine_run ms t"
    using that terminal_rejected [OF assms] by (cases t) auto
  then show ?thesis using terminal_rejected [OF assms] by auto
qed

theorem terminal_final_witness:
  "transition (MachineState S_MERGED) RunFailed =
     Inl (TransitionRejected S_MERGED ''RunFailed'' TerminalStateRejectsAll)"
  using terminal_final [of "MachineState S_MERGED" RunFailed] by (simp add: rejected_def MachineState_def)

end
