(* ===== verification/Machine_Roundtrips.thy ===== *)
theory Machine_Roundtrips
  imports Machine_Protocols
begin

text \<open>
  Round trips and equivalences of the state machine: blocking and resolution, failure and resumption,
  tool permission, the record slot, the set of violations, and the registry with its index.
\<close>

section \<open>Blocking, failure and permission\<close>

text \<open>C17. Blocking is transparent: where an event with the report \<open>CONTINUE\<close> is accepted, the same event with
  a report that the bound is reached leads to \<open>BLOCKED\<close> without starting an agent, and the resolution
  of that block leads to the state and the commands the run would have continued with.\<close>

theorem block_is_transparent:
  assumes "reachable ms" and "event_report e = Some rep" and "rp_progress rep = P_CONTINUE"
    and "transition ms e = Inr (ms1, cs1)" and "rp_progress r \<noteq> P_CONTINUE"
  shows "\<exists>b cs2. transition ms (with_report e r) = Inr (blocked_by b, cs2) \<and>
    list_all (\<lambda>c. \<not> starts_agent c) cs2 \<and> pb_reason b = rp_progress r \<and>
    transition (blocked_by b) (unblock b ev) = Inr (ms1, cs1)"
  by (rule bounded_then_resolved [OF reachable_inv [OF assms(1)] assms(2-5)])

definition reviewed_state :: machine_state where
  "reviewed_state = MachineState S_RUNNING_REVIEW\<lparr>ms_pending_record :=
     Some \<lparr>pr_kind = K_REVIEW_RESULT, pr_binding = bn, pr_source_state = S_RUNNING_REVIEW\<rparr>\<rparr>"

lemma reviewed_play: "play start_state [RecordProduced K_REVIEW_RESULT bn] = Inr reviewed_state"
  by (simp add: reviewed_state_def event_eval run_eval)

lemma reviewed_reachable: "reachable reviewed_state"
  by (rule start_play [OF _ reviewed_play]) (simp add: legal_eval)

theorem block_is_transparent_witness:
  "\<exists>b cs2. transition reviewed_state
      (ReviewBlockingVerified (evidence_of K_REVIEW_RESULT) (report_with P_NO_PROGRESS)) = Inr (blocked_by b, cs2) \<and>
    pb_reason b = P_NO_PROGRESS \<and>
    transition (blocked_by b) (unblock b (evidence_of K_BLOCK_INTERVENTION)) =
      Inr (MachineState S_CHANGES_REQUESTED\<lparr>ms_awaiting := Some A_HOST_APPLY_FINDINGS\<rparr>, HOST_APPLY)"
proof -
  have step: "transition reviewed_state
      (ReviewBlockingVerified (evidence_of K_REVIEW_RESULT) (report_with P_CONTINUE)) =
    Inr (MachineState S_CHANGES_REQUESTED\<lparr>ms_awaiting := Some A_HOST_APPLY_FINDINGS\<rparr>, HOST_APPLY)"
    by (simp add: reviewed_state_def event_eval run_eval)
  show ?thesis
    using block_is_transparent [OF reviewed_reachable _ _ step, of "report_with P_CONTINUE"
        "report_with P_NO_PROGRESS" "evidence_of K_BLOCK_INTERVENTION"]
    by (auto simp: report_with_def)
qed

text \<open>C18. When no procedure is in progress, a failure in an active state outside the merge transaction emits nothing, and
  the resume of the failed run restores the state: it persists the pending record again, repeats the request the run was
  waiting for, or, when there was neither, drives the state afresh; in a resumable state a failure changes nothing and
  emits nothing. While a procedure is in progress, a failure changes nothing and repeats the request of the procedure.\<close>

theorem fail_resume_roundtrip:
  assumes "reachable ms"
  shows "(ms_procedure ms = NormalProcedure \<and> ms_state ms \<in> ACTIVE_STATES \<and> ms_state ms \<noteq> S_MERGING \<longrightarrow>
      transition ms RunFailed = Inr (failed ms, []) \<and> transition (failed ms) ResumeValidated = Inr (resumed ms)) \<and>
    (ms_procedure ms = NormalProcedure \<and> ms_state ms \<in> RESUMABLE_STATES \<longrightarrow> transition ms RunFailed = Inr (ms, [])) \<and>
    (ms_procedure ms \<noteq> NormalProcedure \<longrightarrow> transition ms RunFailed = Inr (ms, procedure_request ms))"
  using fail_step [OF reachable_inv [OF assms]] fail_then_resume [OF reachable_inv [OF assms]]
    failure_kept [OF reachable_inv [OF assms]] failure_repeats_request [OF reachable_inv [OF assms]] by blast

theorem fail_resume_roundtrip_witness:
  "transition (failed reviewed_state) ResumeValidated = Inr (reviewed_state, [PersistRecord K_REVIEW_RESULT bn]) \<and>
   transition recording_state RunFailed = Inr (recording_state, [RecordIntegrityIncident [OpaqueBinding ''v''] None])"
proof (rule conjI)
  show "transition (failed reviewed_state) ResumeValidated = Inr (reviewed_state, [PersistRecord K_REVIEW_RESULT bn])"
    using fail_resume_roundtrip [OF reviewed_reachable]
    by (simp add: reviewed_state_def MachineState_def resumed_def)
  show "transition recording_state RunFailed = Inr (recording_state, [RecordIntegrityIncident [OpaqueBinding ''v''] None])"
    using fail_resume_roundtrip [OF recording_reachable]
    by (simp add: recording_state_def MachineState_def procedure_request_def deferred_bindings_def violation_def)
qed

text \<open>Repeating a resume changes nothing: after an accepted resume the same event leads to the same
  state with the same commands, in every phase of a run.\<close>

theorem resume_idempotent:
  assumes "reachable ms" and "transition ms ResumeValidated = Inr (ms', cs)"
  shows "transition ms' ResumeValidated = Inr (ms', cs)"
  by (rule resume_fixpoint [OF reachable_inv [OF assms(1)] assms(2)])

theorem resume_idempotent_witness:
  "transition halting_state ResumeValidated = Inr (halting_state, [HaltRun (OpaqueBinding ''v'')])"
proof -
  have "transition halting_state ResumeValidated = Inr (halting_state, [HaltRun (OpaqueBinding ''v'')])"
    by (simp add: halting_state_def event_eval run_eval reissue_halt_for_block_def)
  then show ?thesis by (rule resume_idempotent [OF halting_reachable])
qed

text \<open>A run blocked on a tool permission emits nothing, remembers the state it came from, and its
  resume re-enters this state with the commands that drive it.\<close>

lemma permission_roundtrip:
  assumes "reachable ms" and "transition ms (ToolPermissionBlocked ev) = Inr (ms1, cs1)"
    and "DRIVE_TABLE (ms_state ms) = Some (cs, a)"
  shows "cs1 = [] \<and> ms_state ms1 = S_AWAITING_TOOL_PERMISSION \<and> ms_return_to ms1 = Some (ms_state ms) \<and>
    transition ms1 PermissionResumeValidated = Inr (MachineState (ms_state ms)\<lparr>ms_awaiting := Some a\<rparr>, cs)"
  using permission_blocked [OF reachable_inv [OF assms(1)] assms(2)] permission_resumed [OF assms(3)]
  by (simp add: MachineState_def)

definition permission_state :: machine_state where
  "permission_state = MachineState S_RUNNING_REVIEW\<lparr>ms_pending_record :=
     Some \<lparr>pr_kind = K_PERMISSION_BLOCK, pr_binding = bn, pr_source_state = S_RUNNING_REVIEW\<rparr>\<rparr>"

lemma permission_play: "play start_state [RecordProduced K_PERMISSION_BLOCK bn] = Inr permission_state"
  by (simp add: permission_state_def event_eval run_eval)

lemma permission_roundtrip_instance:
  "\<exists>ms1. transition permission_state (ToolPermissionBlocked (evidence_of K_PERMISSION_BLOCK)) = Inr (ms1, []) \<and>
    transition ms1 PermissionResumeValidated = Inr (start_state, [RequestCodexReview CP_CODE_REVIEW])"
proof -
  have r: "reachable permission_state"
    by (rule start_play [OF _ permission_play]) (simp add: legal_eval)
  obtain ms1 where step: "transition permission_state (ToolPermissionBlocked (evidence_of K_PERMISSION_BLOCK)) = Inr (ms1, [])"
    by (simp add: permission_state_def event_eval run_eval)
  show ?thesis
    using permission_roundtrip [OF r step, of "[RequestCodexReview CP_CODE_REVIEW]" A_CODEX_CODE_REVIEW] step
    by (auto simp: permission_state_def MachineState_def start_state_def)
qed

section \<open>Records and restarts\<close>

text \<open>A produced record fills the empty slot with its kind, its binding and the state it came from, and
  the only command is to persist it; with a record pending, none is accepted.\<close>

theorem produced_fills_slot:
  assumes "transition ms (RecordProduced k b) = Inr (ms', cs)"
  shows "ms_pending_record ms = None \<and>
    ms_pending_record ms' = Some \<lparr>pr_kind = k, pr_binding = b, pr_source_state = ms_state ms\<rparr> \<and>
    ms_state ms' = ms_state ms \<and> ms_procedure ms' = ms_procedure ms \<and> cs = [PersistRecord k b]"
  by (rule produced_step [OF assms])

theorem produced_fills_slot_witness:
  "transition start_state (RecordProduced K_REVIEW_RESULT bn) = Inr (reviewed_state, [PersistRecord K_REVIEW_RESULT bn]) \<and>
   ms_pending_record reviewed_state =
     Some \<lparr>pr_kind = K_REVIEW_RESULT, pr_binding = bn, pr_source_state = ms_state start_state\<rparr>"
proof -
  have "transition start_state (RecordProduced K_REVIEW_RESULT bn) = Inr (reviewed_state, [PersistRecord K_REVIEW_RESULT bn])"
    by (simp add: reviewed_state_def event_eval run_eval)
  then show ?thesis using produced_fills_slot by blast
qed

text \<open>An event that carries the evidence of a verified record is accepted only when the record in the
  slot has the same kind and binding, or the slot is empty and the event is one of the five direct
  answers of a person, or it is a cancellation.\<close>

theorem verified_needs_record:
  assumes "transition ms e = Inr (ms', cs)" and "verified_evidence e = Some ev"
  shows "(\<exists>p. ms_pending_record ms = Some p \<and> pr_kind p = re_kind ev \<and> pr_binding p = re_binding ev) \<or>
    ms_pending_record ms = None \<and> event_type_of e \<in>
      {ET_UserDecisionVerified, ET_GateQuestionVerified, ET_GateChangesVerified, ET_MergeApprovalVerified,
       ET_UserCancelVerified} \<or>
    event_type_of e = ET_UserCancelVerified"
  using verified_step [OF assms] unfolding direct_types_def .

theorem verified_needs_record_witness:
  "\<exists>p. ms_pending_record reviewed_state = Some p \<and> pr_kind p = K_REVIEW_RESULT \<and> pr_binding p = bn"
proof -
  obtain ms' cs where "transition reviewed_state (ReviewApprovedVerified (evidence_of K_REVIEW_RESULT)) = Inr (ms', cs)"
    by (simp add: reviewed_state_def event_eval run_eval)
  from verified_needs_record [OF this] show ?thesis by (auto simp: evidence_of_def)
qed

text \<open>A head that changed outside the run, and the fallback of a resume, start a fresh review: whatever
  the state was, the approvals are invalidated, the review is requested and nothing else is kept.\<close>

theorem fresh_review_restart:
  assumes "reachable ms" and "ms_procedure ms = NormalProcedure"
    and "e = HeadChangedExternally \<or> e = ResumeFallbackRequired" and "transition ms e = Inr (ms', cs)"
  shows "ms' = MachineState S_RUNNING_REVIEW\<lparr>ms_awaiting := Some A_CODEX_CODE_REVIEW\<rparr> \<and>
    cs = [InvalidateApprovals, RequestCodexReview CP_CODE_REVIEW]"
  using fresh_step [OF reachable_inv [OF assms(1)] assms(2-4)] unfolding start_state_def .

theorem fresh_review_restart_witness:
  "transition merging_state HeadChangedExternally =
     Inr (start_state, [InvalidateApprovals, RequestCodexReview CP_CODE_REVIEW])"
proof -
  obtain ms' cs where step: "transition merging_state HeadChangedExternally = Inr (ms', cs)"
    by (simp add: merging_state_def run_eval fresh_review_effect_def)
  have "ms_procedure merging_state = NormalProcedure" by (simp add: merging_state_def MachineState_def)
  from fresh_review_restart [OF merging_reachable this _ step] step show ?thesis by (simp add: start_state_def)
qed

text \<open>A run whose preflight failed has nothing to recover: every resume event is rejected.\<close>

theorem failed_preflight_not_resumable:
  assumes "ms_state ms = S_FAILED" and "ms_recovery_to ms = None" and "ms_pending_record ms = None"
    and "ms_procedure ms = NormalProcedure" and "event_type_of e \<in> set RESUME_EVENTS"
  shows "transition ms e = Inl (rejected ms e NoMatchingRule)"
  by (rule no_recovery_rejects [OF assms(4,1,2,3,5)])

theorem failed_preflight_not_resumable_witness:
  "initialize PreflightNg = Inr (MachineState S_FAILED, []) \<and>
   transition (MachineState S_FAILED) ResumeValidated =
     Inl (TransitionRejected S_FAILED ''ResumeValidated'' NoMatchingRule)"
  using failed_preflight_not_resumable [of "MachineState S_FAILED" ResumeValidated] initialize_ng
  by (simp add: rejected_def MachineState_def RESUME_EVENTS_def)

section \<open>The set of violations\<close>

text \<open>\<open>canonicalize_integrity\<close> returns its input without repeated bindings, in increasing order of the
  binding, keeps every binding and for each the evidence that came first, and changes nothing when
  applied again.\<close>

theorem canonicalize_laws:
  "sorted (map ie_binding (canonicalize_integrity vs)) \<and> distinct (map ie_binding (canonicalize_integrity vs)) \<and>
   ie_binding ` set (canonicalize_integrity vs) = ie_binding ` set vs \<and>
   (v \<in> set (canonicalize_integrity vs) \<longleftrightarrow> first_with ie_binding (ie_binding v) vs = Some v) \<and>
   canonicalize_integrity (canonicalize_integrity vs) = canonicalize_integrity vs"
  using canonicalize_integrity_canonical [of vs] canonicalize_first [of v ie_binding vs]
  by (simp add: canonical_by_def canonicalize_integrity_def key_set_canonicalize)

text \<open>The order of detections does not matter: two detections with different bindings commute, and one
  with a binding already detected changes nothing.\<close>

theorem detections_commute:
  assumes "ie_binding v \<noteq> ie_binding w"
  shows "union_deferred (ms\<lparr>ms_deferred_integrity := union_deferred ms v\<rparr>) w =
      union_deferred (ms\<lparr>ms_deferred_integrity := union_deferred ms w\<rparr>) v \<and>
    union_deferred (ms\<lparr>ms_deferred_integrity := union_deferred ms v\<rparr>)
      \<lparr>ie_binding = ie_binding v, ie_descriptor = d, ie_head = h\<rparr> = union_deferred ms v"
  unfolding union_twice
  using canonicalize_swap [where key = ie_binding and xs = "ms_deferred_integrity ms", OF assms]
    canonicalize_again [of ie_binding "\<lparr>ie_binding = ie_binding v, ie_descriptor = d, ie_head = h\<rparr>" v
      "ms_deferred_integrity ms"]
  by (simp add: union_deferred_def canonicalize_integrity_def)

theorem detections_commute_witness:
  "union_deferred (recording_state\<lparr>ms_deferred_integrity := union_deferred recording_state (violation ''b'')\<rparr>) (violation ''a'') =
   union_deferred (recording_state\<lparr>ms_deferred_integrity := union_deferred recording_state (violation ''a'')\<rparr>) (violation ''b'')"
  using detections_commute [of "violation ''b''" "violation ''a''" recording_state] by (simp add: violation_def)

section \<open>The registry\<close>

text \<open>The registry passes its own check: the 143 rules have different ids and none starts in a terminal
  state; and the index finds for every event class exactly the rules of this class, in registry order.\<close>

theorem registry_checked:
  "check_registry REGISTRY = Inr () \<and> length REGISTRY = 143 \<and>
   rules_for et = filter (\<lambda>r. m_event_type (rule_match r) = et) REGISTRY"
  using check_registry_ok rules_for_filter by (simp add: registry_defs)

text \<open>Every one of the 17 states is reachable by legal events.\<close>

theorem every_state_reachable: "\<exists>ms. reachable ms \<and> ms_state ms = s"
  using scenario_state [of s] start_play [OF scenario_legal] by blast

section \<open>Violations that no incident records\<close>








end
