(* ===== verification/Utf8.thy ===== *)
theory Utf8
  imports "HOL-Library.Sublist" "HOL-Library.Char_ord" "HOL-Library.List_Lexorder" Prelude
begin

text \<open>
  Text. A Python string is modelled by its UTF-8 bytes, a list of characters: the length is the
  number of bytes that \<open>len(s.encode("utf-8"))\<close> counts, the lexicographic order is the order of code
  points, and concatenation, prefix, suffix and replacement of ASCII text are the same on both sides.
  This theory holds the operations of \<open>str\<close> and the character classes of \<open>re\<close> that the program uses.
\<close>

section \<open>Case\<close>

definition upper_char :: "char \<Rightarrow> char" where
  "upper_char c = (if CHR ''a'' \<le> c \<and> c \<le> CHR ''z'' then char_of (of_char c - (32::nat)) else c)"

definition lower_char :: "char \<Rightarrow> char" where
  "lower_char c = (if CHR ''A'' \<le> c \<and> c \<le> CHR ''Z'' then char_of (of_char c + (32::nat)) else c)"

text \<open>
  \<open>str.upper\<close> maps seventeen code points outside ASCII to text with ASCII letters: the sharp s, the
  dotless i, the long s, the ligatures and some letters with a combining mark. They are listed with
  what they become. The other code points outside ASCII become text without an ASCII character; as the program
  only searches ASCII text in the result, they stand for themselves here.
\<close>

definition upper_table :: "(string \<times> string) list" where
  "upper_table =
     [([CHR 0xC3, CHR 0x9F], ''SS''),
      ([CHR 0xC4, CHR 0xB1], ''I''),
      ([CHR 0xC5, CHR 0x89], [CHR 0xCA, CHR 0xBC, CHR ''N'']),
      ([CHR 0xC5, CHR 0xBF], ''S''),
      ([CHR 0xC7, CHR 0xB0], [CHR ''J'', CHR 0xCC, CHR 0x8C]),
      ([CHR 0xE1, CHR 0xBA, CHR 0x96], [CHR ''H'', CHR 0xCC, CHR 0xB1]),
      ([CHR 0xE1, CHR 0xBA, CHR 0x97], [CHR ''T'', CHR 0xCC, CHR 0x88]),
      ([CHR 0xE1, CHR 0xBA, CHR 0x98], [CHR ''W'', CHR 0xCC, CHR 0x8A]),
      ([CHR 0xE1, CHR 0xBA, CHR 0x99], [CHR ''Y'', CHR 0xCC, CHR 0x8A]),
      ([CHR 0xE1, CHR 0xBA, CHR 0x9A], [CHR ''A'', CHR 0xCA, CHR 0xBE]),
      ([CHR 0xEF, CHR 0xAC, CHR 0x80], ''FF''),
      ([CHR 0xEF, CHR 0xAC, CHR 0x81], ''FI''),
      ([CHR 0xEF, CHR 0xAC, CHR 0x82], ''FL''),
      ([CHR 0xEF, CHR 0xAC, CHR 0x83], ''FFI''),
      ([CHR 0xEF, CHR 0xAC, CHR 0x84], ''FFL''),
      ([CHR 0xEF, CHR 0xAC, CHR 0x85], ''ST''),
      ([CHR 0xEF, CHR 0xAC, CHR 0x86], ''ST'')]"

fun strip_entry :: "(string \<times> string) list \<Rightarrow> string \<Rightarrow> (string \<times> string) option" where
  "strip_entry [] s = None"
| "strip_entry ((p, u) # t) s = (if prefix p s then Some (u, drop (length p) s) else strip_entry t s)"

lemma strip_entry_shorter:
  "strip_entry t s = Some (u, rest) \<Longrightarrow> list_all (\<lambda>(p, u). p \<noteq> []) t \<Longrightarrow> s \<noteq> [] \<Longrightarrow> length rest < length s"
  by (induction t s rule: strip_entry.induct) (auto split: if_splits)

lemma upper_table_nonempty: "list_all (\<lambda>(p, u). p \<noteq> []) upper_table"
  by (simp add: upper_table_def)

function upper :: "string \<Rightarrow> string" where
  "upper [] = []"
| "upper (c # cs) =
     (case strip_entry upper_table (c # cs) of
        Some (u, rest) \<Rightarrow> u @ upper rest
      | None \<Rightarrow> upper_char c # upper cs)"
  by pat_completeness auto

termination upper
  by (relation "measure length") (auto dest: strip_entry_shorter [OF _ upper_table_nonempty])

text \<open>
  \<open>str.lower\<close>, on the ASCII letters. The two code points outside ASCII that lower-case to text with an
  ASCII letter give \<open>i\<close> and \<open>k\<close>, which no text the program compares with contains.
\<close>

definition lower :: "string \<Rightarrow> string" where
  "lower s = map lower_char s"

section \<open>Search\<close>

fun contains :: "string \<Rightarrow> string \<Rightarrow> bool" where
  "contains t [] \<longleftrightarrow> t = []"
| "contains t (c # cs) \<longleftrightarrow> prefix t (c # cs) \<or> contains t cs"

text \<open>\<open>s.count(t)\<close>: the occurrences of a non-empty \<open>t\<close>, from the left, without overlap.\<close>

function occurrences :: "string \<Rightarrow> string \<Rightarrow> nat" where
  "occurrences t [] = 0"
| "occurrences t (c # cs) =
     (if prefix t (c # cs) then Suc (occurrences t (drop (length t - 1) cs)) else occurrences t cs)"
  by pat_completeness auto

termination occurrences by (relation "measure (\<lambda>(t, s). length s)") auto

text \<open>\<open>s.rstrip(chr(10))\<close> and the removal of trailing white space.\<close>

definition newline :: char where "newline = CHR 0x0A"

definition carriage_return :: char where "carriage_return = CHR 0x0D"

definition rstrip_newlines :: "string \<Rightarrow> string" where
  "rstrip_newlines s = rev (dropWhile (\<lambda>c. c = newline) (rev s))"

section \<open>White space\<close>

text \<open>The code points for which \<open>str.isspace\<close> holds; these are the ones \<open>\s\<close> matches and \<open>str.strip\<close> removes.\<close>

definition space_points :: "string list" where
  "space_points =
     [[CHR 0x09], [CHR 0x0A], [CHR 0x0B], [CHR 0x0C], [CHR 0x0D], [CHR 0x1C], [CHR 0x1D], [CHR 0x1E],
      [CHR 0x1F], [CHR 0x20], [CHR 0xC2, CHR 0x85], [CHR 0xC2, CHR 0xA0], [CHR 0xE1, CHR 0x9A, CHR 0x80]] @
     map (\<lambda>n. [CHR 0xE2, CHR 0x80, char_of (128 + n :: nat)]) [0..<11] @
     [[CHR 0xE2, CHR 0x80, CHR 0xA8], [CHR 0xE2, CHR 0x80, CHR 0xA9], [CHR 0xE2, CHR 0x80, CHR 0xAF],
      [CHR 0xE2, CHR 0x81, CHR 0x9F], [CHR 0xE3, CHR 0x80, CHR 0x80]]"

text \<open>Each written backwards, for the end of a text read backwards.\<close>

definition space_table :: "(string \<times> string) list" where
  "space_table = map (\<lambda>s. (rev s, [])) space_points"

lemma space_table_nonempty: "list_all (\<lambda>(p, u). p \<noteq> []) space_table"
  by (simp add: space_table_def space_points_def upt_rec)

function strip_spaces :: "string \<Rightarrow> string" where
  "strip_spaces [] = []"
| "strip_spaces (c # cs) =
     (case strip_entry space_table (c # cs) of Some (u, rest) \<Rightarrow> strip_spaces rest | None \<Rightarrow> c # cs)"
  by pat_completeness auto

termination strip_spaces
  by (relation "measure length") (auto dest: strip_entry_shorter [OF _ space_table_nonempty])

definition rstrip_spaces :: "string \<Rightarrow> string" where
  "rstrip_spaces s = rev (strip_spaces (rev s))"

definition leading_spaces :: "(string \<times> string) list" where
  "leading_spaces = map (\<lambda>s. (s, [])) space_points"

lemma leading_spaces_nonempty: "list_all (\<lambda>(p, u). p \<noteq> []) leading_spaces"
  by (simp add: leading_spaces_def space_points_def upt_rec)

function lstrip_spaces :: "string \<Rightarrow> string" where
  "lstrip_spaces [] = []"
| "lstrip_spaces (c # cs) =
     (case strip_entry leading_spaces (c # cs) of Some (u, rest) \<Rightarrow> lstrip_spaces rest | None \<Rightarrow> c # cs)"
  by pat_completeness auto

termination lstrip_spaces
  by (relation "measure length") (auto dest: strip_entry_shorter [OF _ leading_spaces_nonempty])

text \<open>\<open>s.strip()\<close>\<close>

definition strip_text :: "string \<Rightarrow> string" where "strip_text s = rstrip_spaces (lstrip_spaces s)"

section \<open>Bytes and code points\<close>

text \<open>\<open>len(s)\<close> counts code points: the bytes that do not continue one.\<close>

definition continuation :: "char \<Rightarrow> bool" where "continuation c \<longleftrightarrow> CHR 0x80 \<le> c \<and> c < CHR 0xC0"

definition code_points :: "string \<Rightarrow> nat" where
  "code_points s = length (filter (\<lambda>c. \<not> continuation c) s)"

text \<open>The bytes that \<open>bytes.decode("utf-8")\<close> accepts.\<close>

fun utf8_ok :: "string \<Rightarrow> bool" where
  "utf8_ok [] \<longleftrightarrow> True"
| "utf8_ok (a # s) \<longleftrightarrow>
     (if a < CHR 0x80 then utf8_ok s
      else
        (case s of
           [] \<Rightarrow> False
         | b # s2 \<Rightarrow>
             if CHR 0xC2 \<le> a \<and> a < CHR 0xE0 then continuation b \<and> utf8_ok s2
             else
               (case s2 of
                  [] \<Rightarrow> False
                | c # s3 \<Rightarrow>
                    if CHR 0xE0 \<le> a \<and> a < CHR 0xF0
                    then continuation b \<and> (a = CHR 0xE0 \<longrightarrow> CHR 0xA0 \<le> b) \<and> (a = CHR 0xED \<longrightarrow> b < CHR 0xA0) \<and>
                      continuation c \<and> utf8_ok s3
                    else
                      (case s3 of
                         [] \<Rightarrow> False
                       | d # s4 \<Rightarrow>
                           CHR 0xF0 \<le> a \<and> a < CHR 0xF5 \<and> continuation b \<and> (a = CHR 0xF0 \<longrightarrow> CHR 0x90 \<le> b) \<and>
                           (a = CHR 0xF4 \<longrightarrow> b < CHR 0x90) \<and> continuation c \<and> continuation d \<and> utf8_ok s4))))"

section \<open>Character classes\<close>

definition digit :: "char \<Rightarrow> bool" where "digit c \<longleftrightarrow> CHR ''0'' \<le> c \<and> c \<le> CHR ''9''"

definition letter :: "char \<Rightarrow> bool" where
  "letter c \<longleftrightarrow> c \<le> CHR ''Z'' \<and> CHR ''A'' \<le> c \<or> c \<le> CHR ''z'' \<and> CHR ''a'' \<le> c"

definition hex_digit :: "char \<Rightarrow> bool" where
  "hex_digit c \<longleftrightarrow> digit c \<or> CHR ''a'' \<le> c \<and> c \<le> CHR ''f''"

text \<open>\<open>re.compile(r"[0-9a-f]{n}\Z").fullmatch\<close>\<close>

definition is_hex :: "nat \<Rightarrow> string \<Rightarrow> bool" where
  "is_hex n s \<longleftrightarrow> length s = n \<and> list_all hex_digit s"

section \<open>Decimal numbers\<close>

definition digit_char :: "nat \<Rightarrow> char" where "digit_char n = char_of (48 + n)"

fun show_nat :: "nat \<Rightarrow> string" where
  "show_nat n = (if n < 10 then [digit_char n] else show_nat (n div 10) @ [digit_char (n mod 10)])"

declare show_nat.simps [simp del]

definition show_int :: "int \<Rightarrow> string" where
  "show_int i = (if i < 0 then CHR ''-'' # show_nat (nat (- i)) else show_nat (nat i))"

text \<open>The format \<open>08d\<close> of a number that is not negative.\<close>

definition padded :: "nat \<Rightarrow> string" where
  "padded n = replicate (8 - length (show_nat n)) CHR ''0'' @ show_nat n"

end
