(* ===== verification/Utf8_Laws.thy ===== *)
theory Utf8_Laws
  imports Utf8
begin

text \<open>
  Search and upper-casing of texts put together at an ASCII character: what a part contains, and how often, is what
  the whole contains.
\<close>

definition ascii :: "char \<Rightarrow> bool" where "ascii c \<longleftrightarrow> c < CHR 0x80"

section \<open>Search\<close>

lemma contains_prefix: "prefix t s \<Longrightarrow> contains t s"
  by (cases s) auto

lemma contains_append: "contains t s \<Longrightarrow> contains t (r @ s)"
  by (induction r) auto

lemma contains_iff: "contains t s \<longleftrightarrow> (\<exists>a b. s = a @ t @ b)"
proof
  show "contains t s \<Longrightarrow> \<exists>a b. s = a @ t @ b"
  proof (induction s)
    case (Cons c s)
    then consider "prefix t (c # s)" | "contains t s" by auto
    then show ?case
      by cases (metis append_Nil prefix_def, metis Cons.IH append_Cons)
  qed auto
  show "\<exists>a b. s = a @ t @ b \<Longrightarrow> contains t s"
    using contains_append contains_prefix by fastforce
qed

lemma occurrences_zero: "t \<noteq> [] \<Longrightarrow> occurrences t s = 0 \<longleftrightarrow> \<not> contains t s"
  by (induction t s rule: occurrences.induct) auto

lemma prefix_separated: "c \<notin> set t \<Longrightarrow> prefix t (xs @ c # ys) \<longleftrightarrow> prefix t xs"
proof (induction t arbitrary: xs)
  case (Cons a t)
  then show ?case by (cases xs) auto
qed simp

lemma occurrences_separated:
  assumes "t \<noteq> []" and "c \<notin> set t"
  shows "occurrences t (xs @ c # ys) = occurrences t xs + occurrences t ys"
  using assms
proof (induction t xs rule: occurrences.induct)
  case (1 t)
  then show ?case by (cases t) auto
next
  case (2 t x xs)
  have same: "prefix t (x # xs @ c # ys) \<longleftrightarrow> prefix t (x # xs)"
    using prefix_separated [OF 2(4), of "x # xs" ys] by simp
  show ?case
  proof (cases "prefix t (x # xs)")
    case True
    then have "length t - 1 \<le> length xs" using prefix_length_le [OF True] by simp
    then show ?thesis using True 2 same by simp
  qed (use 2 same in simp)
qed

section \<open>Upper case\<close>

lemma strip_entry_separated:
  "list_all (\<lambda>(p, u). c \<notin> set p) table \<Longrightarrow>
   strip_entry table (xs @ c # ys) = map_option (\<lambda>(u, r). (u, r @ c # ys)) (strip_entry table xs)"
proof (induction table xs rule: strip_entry.induct)
  case (2 p u t s)
  then have "prefix p (s @ c # ys) \<longleftrightarrow> prefix p s" by (simp add: prefix_separated)
  then show ?case using 2 prefix_length_le [of p s] by auto
qed simp

lemma upper_table_not_ascii: "list_all (\<lambda>(p, u). p \<noteq> [] \<and> list_all (\<lambda>c. \<not> ascii c) p) upper_table"
  by (simp add: upper_table_def ascii_def)

lemma ascii_not_special: "ascii c \<Longrightarrow> list_all (\<lambda>(p, u). c \<notin> set p) upper_table"
  using upper_table_not_ascii by (fastforce simp: list_all_iff)

lemma strip_entry_ascii:
  assumes "ascii c"
  shows "strip_entry upper_table (c # s) = None"
proof -
  have "strip_entry t [] = None" if "list_all (\<lambda>(p, u). p \<noteq> []) t" for t
    using that by (induction t) auto
  then show ?thesis
    using strip_entry_separated [OF ascii_not_special [OF assms], of "[]" s] upper_table_nonempty by simp
qed

lemma upper_ascii: "ascii c \<Longrightarrow> upper (c # s) = upper_char c # upper s"
  by (simp only: upper.simps strip_entry_ascii option.case)

lemma upper_separated: "ascii c \<Longrightarrow> upper (xs @ c # s) = upper xs @ upper_char c # upper s"
proof (induction xs rule: upper.induct)
  case 1
  then show ?case by (simp add: upper_ascii del: upper.simps(2))
next
  case (2 x xs)
  have "strip_entry upper_table (x # xs @ c # s) =
      map_option (\<lambda>(u, r). (u, r @ c # s)) (strip_entry upper_table (x # xs))"
    using strip_entry_separated [OF ascii_not_special [OF 2(3)], of "x # xs" s] by simp
  then show ?case using 2 by (auto simp del: strip_entry.simps split: option.split)
qed

definition plain_upper :: "string \<Rightarrow> bool" where
  "plain_upper t \<longleftrightarrow> list_all (\<lambda>c. ascii c \<and> upper_char c = c) t"

lemma upper_plain: "plain_upper t \<Longrightarrow> upper (t @ s) = t @ upper s"
  by (induction t) (simp_all add: plain_upper_def upper_ascii del: upper.simps)

lemma contains_upper:
  assumes "plain_upper t" and "t \<noteq> []" and "contains t s"
  shows "contains t (upper s)"
proof -
  obtain a b where s: "s = a @ t @ b" using assms(3) contains_iff by blast
  obtain c t' where t: "t = c # t'" using assms(2) by (cases t) auto
  have "ascii c" "upper_char c = c" "plain_upper t'" using assms(1) t by (auto simp: plain_upper_def)
  then have "upper s = upper a @ t @ upper b"
    using s t upper_separated [of c a "t' @ b"] upper_plain [of t' b] by simp
  then show ?thesis using contains_iff by blast
qed

end
