(* ===== verification/Json.thy ===== *)
theory Json
  imports "HOL-Library.AList" Utf8
begin

text \<open>
  The part of the standard library's \<open>json\<close> that the program uses: \<open>json.dumps\<close> with sorted keys, compact
  separators and text outside ASCII left as it is, and \<open>json.loads\<close>.

  An object is the list of its items in insertion order, with distinct keys. A float is kept as the
  text that \<open>json.dumps\<close> writes for it; how the text of a float literal is obtained and how deep the
  interpreter may still recurse are arguments, collected in the record \<open>interpreter\<close>. Its third field
  says whether the constants \<open>NaN\<close>, \<open>Infinity\<close> and \<open>-Infinity\<close> are read; with a \<open>parse_constant\<close> that raises
  \<open>ValueError\<close> they are refused like any other unexpected text.
\<close>

section \<open>Values\<close>

datatype json =
    JNull
  | JBool bool
  | JInt int
  | JFloat string
  | JStr string
  | JArr "json list"
  | JObj "(string \<times> json) list"

record interpreter =
  recursion_budget :: nat
  float_text :: "string \<Rightarrow> string"
  accepts_constants :: bool

datatype json_error = ValueError | RecursionError

section \<open>Writing\<close>

definition hex_char :: "nat \<Rightarrow> char" where
  "hex_char n = (if n < 10 then char_of (48 + n) else char_of (87 + n))"

definition escape_char :: "char \<Rightarrow> string" where
  "escape_char c =
     (if c = CHR 0x22 then [CHR 0x5C, CHR 0x22]
      else if c = CHR 0x5C then [CHR 0x5C, CHR 0x5C]
      else if c = CHR 0x0A then [CHR 0x5C, CHR ''n'']
      else if c = CHR 0x0D then [CHR 0x5C, CHR ''r'']
      else if c = CHR 0x09 then [CHR 0x5C, CHR ''t'']
      else if c = CHR 0x0C then [CHR 0x5C, CHR ''f'']
      else if c = CHR 0x08 then [CHR 0x5C, CHR ''b'']
      else if c < CHR 0x20
        then [CHR 0x5C, CHR ''u'', CHR ''0'', CHR ''0'', hex_char (of_char c div 16), hex_char (of_char c mod 16)]
      else [c])"

definition quoted :: "string \<Rightarrow> string" where
  "quoted s = CHR 0x22 # concat (map escape_char s) @ [CHR 0x22]"

fun joined :: "string list \<Rightarrow> string" where
  "joined [] = []"
| "joined [s] = s"
| "joined (s # t) = s @ CHR '','' # joined t"

lemma size_value_of_items: "(k, v) \<in> set kvs \<Longrightarrow> size v < size_list (size_prod size size) kvs"
  by (induction kvs) auto

text \<open>\<open>json.dumps(v, sort_keys=True, separators=(",", ":"), ensure_ascii=False)\<close>\<close>

function dumps :: "json \<Rightarrow> string" where
  "dumps JNull = ''null''"
| "dumps (JBool b) = (if b then ''true'' else ''false'')"
| "dumps (JInt i) = show_int i"
| "dumps (JFloat t) = t"
| "dumps (JStr s) = quoted s"
| "dumps (JArr vs) = CHR ''['' # joined (map dumps vs) @ '']''"
| "dumps (JObj kvs) =
     CHR ''{'' # joined (map (\<lambda>(k, v). quoted k @ CHR '':'' # dumps v) (sort_key fst kvs)) @ ''}''"
  by pat_completeness auto

termination dumps
  by (relation "measure size") (auto dest: size_value_of_items simp: less_Suc_eq_le size_list_estimation')

section \<open>Reading\<close>

definition json_space :: "char \<Rightarrow> bool" where
  "json_space c \<longleftrightarrow> c \<in> {CHR 0x20, CHR 0x09, CHR 0x0A, CHR 0x0D}"

definition skip_space :: "string \<Rightarrow> string" where "skip_space s = dropWhile json_space s"

definition hex_value :: "char \<Rightarrow> nat option" where
  "hex_value c =
     (if digit c then Some (of_char c - 48)
      else if CHR ''a'' \<le> c \<and> c \<le> CHR ''f'' then Some (of_char c - 87)
      else if CHR ''A'' \<le> c \<and> c \<le> CHR ''F'' then Some (of_char c - 55)
      else None)"

fun hex4 :: "string \<Rightarrow> (nat \<times> string) option" where
  "hex4 (a # b # c # d # rest) =
     (case (hex_value a, hex_value b, hex_value c, hex_value d) of
        (Some w, Some x, Some y, Some z) \<Rightarrow> Some (((w * 16 + x) * 16 + y) * 16 + z, rest)
      | _ \<Rightarrow> None)"
| "hex4 _ = None"

text \<open>The bytes of a code point; a lone surrogate, which a Python string may contain, has three.\<close>

definition utf8_bytes :: "nat \<Rightarrow> string" where
  "utf8_bytes n =
     (if n < 128 then [char_of n]
      else if n < 2048 then [char_of (192 + n div 64), char_of (128 + n mod 64)]
      else if n < 65536
        then [char_of (224 + n div 4096), char_of (128 + n div 64 mod 64), char_of (128 + n mod 64)]
      else [char_of (240 + n div 262144), char_of (128 + n div 4096 mod 64),
            char_of (128 + n div 64 mod 64), char_of (128 + n mod 64)])"

definition low_surrogate :: "string \<Rightarrow> (nat \<times> string) option" where
  "low_surrogate s =
     (if prefix [CHR 0x5C, CHR ''u''] s
      then (case hex4 (drop 2 s) of
              Some (n, rest) \<Rightarrow> if 56320 \<le> n \<and> n < 57344 then Some (n, rest) else None
            | None \<Rightarrow> None)
      else None)"

text \<open>The character an escape sequence stands for, and what follows it.\<close>

definition unescape :: "string \<Rightarrow> (string \<times> string) option" where
  "unescape s =
     (case s of [] \<Rightarrow> None
      | c # rest \<Rightarrow>
          if c \<in> {CHR 0x22, CHR 0x5C, CHR ''/''} then Some ([c], rest)
          else if c = CHR ''n'' then Some ([CHR 0x0A], rest)
          else if c = CHR ''r'' then Some ([CHR 0x0D], rest)
          else if c = CHR ''t'' then Some ([CHR 0x09], rest)
          else if c = CHR ''f'' then Some ([CHR 0x0C], rest)
          else if c = CHR ''b'' then Some ([CHR 0x08], rest)
          else if c = CHR ''u'' then
            (case hex4 rest of None \<Rightarrow> None
             | Some (n, rest') \<Rightarrow>
                 (case (if 55296 \<le> n \<and> n < 56320 then low_surrogate rest' else None) of
                    Some (m, rest'') \<Rightarrow> Some (utf8_bytes (65536 + (n - 55296) * 1024 + (m - 56320)), rest'')
                  | None \<Rightarrow> Some (utf8_bytes n, rest')))
          else None)"

lemma hex4_shorter: "hex4 s = Some (n, r) \<Longrightarrow> length r < length s"
  by (induction s rule: hex4.induct) (auto split: option.splits)

lemma unescape_shorter: "unescape s = Some (t, r) \<Longrightarrow> length r < length s"
  by (fastforce simp: unescape_def low_surrogate_def dest!: hex4_shorter
      split: list.splits if_splits option.splits)

text \<open>The rest of a string after its opening quote: its text and what follows the closing quote.\<close>

function scan_string :: "string \<Rightarrow> (string \<times> string) option" where
  "scan_string [] = None"
| "scan_string (c # cs) =
     (if c = CHR 0x22 then Some ([], cs)
      else if c = CHR 0x5C then
        (case unescape cs of None \<Rightarrow> None
         | Some (t, rest) \<Rightarrow> map_option (\<lambda>(u, r). (t @ u, r)) (scan_string rest))
      else if c < CHR 0x20 then None
      else map_option (\<lambda>(u, r). (c # u, r)) (scan_string cs))"
  by pat_completeness auto

termination scan_string by (relation "measure length") (auto dest: unescape_shorter)

text \<open>
  A number: the digits before a point or an exponent, and what follows the number. A number with a
  point or an exponent is a float. An integer of more than 4300 digits is refused by \<open>int\<close>.
\<close>

definition scan_digits :: "string \<Rightarrow> (string \<times> string) option" where
  "scan_digits s =
     (let ds = takeWhile digit s in
      if ds = [] then None
      else if hd ds = CHR ''0'' then Some ([CHR ''0''], tl s)
      else Some (ds, dropWhile digit s))"

definition scan_fraction :: "string \<Rightarrow> string \<times> string" where
  "scan_fraction s =
     (case s of [] \<Rightarrow> ([], s)
      | c # cs \<Rightarrow>
          if c = CHR ''.'' \<and> takeWhile digit cs \<noteq> [] then (c # takeWhile digit cs, dropWhile digit cs)
          else ([], s))"

definition scan_sign :: "string \<Rightarrow> string \<times> string" where
  "scan_sign s =
     (case s of [] \<Rightarrow> ([], s)
      | c # cs \<Rightarrow> if c \<in> {CHR ''+'', CHR ''-''} then ([c], cs) else ([], s))"

definition scan_exponent :: "string \<Rightarrow> string \<times> string" where
  "scan_exponent s =
     (case s of [] \<Rightarrow> ([], s)
      | c # cs \<Rightarrow>
          if c \<in> {CHR ''e'', CHR ''E''} \<and> takeWhile digit (snd (scan_sign cs)) \<noteq> []
          then (c # fst (scan_sign cs) @ takeWhile digit (snd (scan_sign cs)), dropWhile digit (snd (scan_sign cs)))
          else ([], s))"

fun read_nat :: "nat \<Rightarrow> string \<Rightarrow> nat" where
  "read_nat n [] = n"
| "read_nat n (c # cs) = read_nat (10 * n + (of_char c - 48)) cs"

definition max_int_digits :: nat where "max_int_digits = 4300"

definition scan_number :: "interpreter \<Rightarrow> string \<Rightarrow> json_error + json \<times> string" where
  "scan_number py s =
     (let negative = prefix ''-'' s; s1 = (if negative then drop 1 s else s) in
      case scan_digits s1 of None \<Rightarrow> Inl ValueError
      | Some (ds, s2) \<Rightarrow>
          (let (fraction, s3) = scan_fraction s2; (exponent, s4) = scan_exponent s3 in
           if fraction @ exponent \<noteq> []
           then Inr (JFloat (float_text py ((if negative then ''-'' else []) @ ds @ fraction @ exponent)), s4)
           else if max_int_digits < length ds then Inl ValueError
           else Inr (JInt ((if negative then -1 else 1) * int (read_nat 0 ds)), s4)))"

fun scan_literal :: "(string \<times> json) list \<Rightarrow> string \<Rightarrow> (json \<times> string) option" where
  "scan_literal [] s = None"
| "scan_literal ((p, v) # t) s = (if prefix p s then Some (v, drop (length p) s) else scan_literal t s)"

definition literals :: "interpreter \<Rightarrow> (string \<times> json) list" where
  "literals py =
     [(''null'', JNull), (''true'', JBool True), (''false'', JBool False)] @
     (if accepts_constants py
      then [(''NaN'', JFloat ''NaN''), (''Infinity'', JFloat ''Infinity''), (''-Infinity'', JFloat ''-Infinity'')]
      else [])"

text \<open>A value that is neither text, nor an array, nor an object.\<close>

definition scan_simple :: "interpreter \<Rightarrow> string \<Rightarrow> json_error + json \<times> string" where
  "scan_simple py s =
     (case scan_literal (literals py) s of Some r \<Rightarrow> Inr r | None \<Rightarrow> scan_number py s)"

text \<open>The items of an object into a dictionary: a repeated key keeps its place and takes the last value.\<close>

definition dict_of :: "(string \<times> json) list \<Rightarrow> (string \<times> json) list" where
  "dict_of kvs = fold (\<lambda>(k, v). AList.update k v) kvs []"

text \<open>
  The mutually recursive reading of a value, of the items of an object after the brace or a comma, and
  of the values of an array. Every object and every array takes one level of recursion. The tests on the
  length of what is left are there for the termination proof; \<open>parse_shorter\<close> in \<open>Json_Laws\<close> shows that they
  always succeed.
\<close>

function parse_value :: "interpreter \<Rightarrow> nat \<Rightarrow> string \<Rightarrow> json_error + json \<times> string"
  and parse_items :: "interpreter \<Rightarrow> nat \<Rightarrow> string \<Rightarrow> json_error + (string \<times> json) list \<times> string"
  and parse_elements :: "interpreter \<Rightarrow> nat \<Rightarrow> string \<Rightarrow> json_error + json list \<times> string"
where
  "parse_value py d s =
     (case s of [] \<Rightarrow> Inl ValueError
      | c # cs \<Rightarrow>
          if c = CHR 0x22 then
            (case scan_string cs of None \<Rightarrow> Inl ValueError | Some (t, r) \<Rightarrow> Inr (JStr t, r))
          else if c = CHR ''{'' then
            (if d = 0 then Inl RecursionError
             else if prefix ''}'' (skip_space cs) then Inr (JObj [], drop 1 (skip_space cs))
             else case parse_items py (d - 1) (skip_space cs) of Inl e \<Rightarrow> Inl e
                  | Inr (kvs, r) \<Rightarrow> Inr (JObj (dict_of kvs), r))
          else if c = CHR ''['' then
            (if d = 0 then Inl RecursionError
             else if prefix '']'' (skip_space cs) then Inr (JArr [], drop 1 (skip_space cs))
             else case parse_elements py (d - 1) (skip_space cs) of Inl e \<Rightarrow> Inl e
                  | Inr (vs, r) \<Rightarrow> Inr (JArr vs, r))
          else scan_simple py s)"
| "parse_items py d s =
     (case s of [] \<Rightarrow> Inl ValueError
      | c # cs \<Rightarrow>
          if c \<noteq> CHR 0x22 then Inl ValueError
          else case scan_string cs of None \<Rightarrow> Inl ValueError
          | Some (k, r1) \<Rightarrow>
              if \<not> prefix '':'' (skip_space r1) \<or> length r1 \<ge> length s then Inl ValueError
              else case parse_value py d (skip_space (drop 1 (skip_space r1))) of Inl e \<Rightarrow> Inl e
              | Inr (v, r2) \<Rightarrow>
                  if prefix ''}'' (skip_space r2) then Inr ([(k, v)], drop 1 (skip_space r2))
                  else if prefix '','' (skip_space r2) \<and> length r2 < length s then
                    (case parse_items py d (skip_space (drop 1 (skip_space r2))) of Inl e \<Rightarrow> Inl e
                     | Inr (kvs, r) \<Rightarrow> Inr ((k, v) # kvs, r))
                  else Inl ValueError)"
| "parse_elements py d s =
     (case parse_value py d s of Inl e \<Rightarrow> Inl e
      | Inr (v, r2) \<Rightarrow>
          if prefix '']'' (skip_space r2) then Inr ([v], drop 1 (skip_space r2))
          else if prefix '','' (skip_space r2) \<and> length r2 < length s then
            (case parse_elements py d (skip_space (drop 1 (skip_space r2))) of Inl e \<Rightarrow> Inl e
             | Inr (vs, r) \<Rightarrow> Inr (v # vs, r))
          else Inl ValueError)"
  by pat_completeness auto

lemma skip_space_le: "length (skip_space s) \<le> length s"
  by (simp add: skip_space_def length_dropWhile_le)

lemma skip_space_less: "s = c # cs \<Longrightarrow> length (skip_space cs) < length s"
  using skip_space_le [of cs] by simp

lemma skip_separator_less:
  assumes "prefix [c] (skip_space r)" and "length r < length s"
  shows "length (skip_space (drop 1 (skip_space r))) < length s"
  using assms skip_space_le [of r] skip_space_le [of "drop 1 (skip_space r)"] by (cases "skip_space r") auto

termination parse_value
proof (relation "measures [\<lambda>x. case x of Inl (py, d, s) \<Rightarrow> length s | Inr (Inl (py, d, s)) \<Rightarrow> length s
      | Inr (Inr (py, d, s)) \<Rightarrow> length s, \<lambda>x. case x of Inr (Inr _) \<Rightarrow> 1 | _ \<Rightarrow> 0]", goal_cases)
  case 1
  show ?case by (rule wf_measures)
next
  case (2 py d s c cs)
  then show ?case using skip_space_less [of s c cs] by (simp add: measures_less)
next
  case (3 py d s c cs)
  then show ?case using skip_space_less [of s c cs] by (simp add: measures_less)
next
  case (4 py d s c cs x k r1)
  then show ?case using skip_separator_less [of "CHR '':''" r1 s] by (auto intro!: measures_less)
next
  case (5 py d s c cs x k r1 y v r2)
  then show ?case using skip_separator_less [of "CHR '',''" r2 s] by (auto intro!: measures_less)
next
  case (6 py d s)
  show ?case by (simp add: measures_lesseq)
next
  case (7 py d s y v r2)
  then show ?case using skip_separator_less [of "CHR '',''" r2 s] by (auto intro!: measures_less)
qed

declare parse_value.simps [simp del] parse_items.simps [simp del] parse_elements.simps [simp del]

text \<open>\<open>json.loads(s)\<close>\<close>

definition loads :: "interpreter \<Rightarrow> string \<Rightarrow> json_error + json" where
  "loads py s =
     (case parse_value py (recursion_budget py) (skip_space s) of Inl e \<Rightarrow> Inl e
      | Inr (v, r) \<Rightarrow> if skip_space r = [] then Inr v else Inl ValueError)"

end
