(* ===== verification/Json_Laws.thy ===== *)
theory Json_Laws
  imports Json
begin

text \<open>Every part of the JSON reader leaves less text than it was given.\<close>

lemma scan_string_shorter: "scan_string s = Some (t, r) \<Longrightarrow> length r < length s"
proof (induction s arbitrary: t r rule: scan_string.induct)
  case (2 c cs)
  then show ?case by (fastforce split: if_splits option.splits dest: unescape_shorter)
qed simp

lemma scan_digits_shorter: "scan_digits s = Some (ds, r) \<Longrightarrow> length r < length s"
  by (cases s) (auto simp: scan_digits_def Let_def length_dropWhile_le less_Suc_eq_le split: if_splits)

lemma scan_tail_shorter: "length (snd (scan_fraction s)) \<le> length s" "length (snd (scan_sign s)) \<le> length s"
  "length (snd (scan_exponent s)) \<le> length s"
proof -
  show "length (snd (scan_fraction s)) \<le> length s"
    by (auto simp: scan_fraction_def split: list.split intro: le_SucI length_dropWhile_le)
  show sign: "length (snd (scan_sign s)) \<le> length s" for s
    by (auto simp: scan_sign_def split: list.split)
  show "length (snd (scan_exponent s)) \<le> length s"
    using le_trans [OF length_dropWhile_le sign] by (auto simp: scan_exponent_def split: list.split intro: le_SucI)
qed

lemma scan_simple_shorter:
  assumes "scan_simple py s = Inr (v, r)" and "s \<noteq> []"
  shows "length r < length s"
proof (cases "scan_literal (literals py) s")
  case None
  then have number: "scan_number py s = Inr (v, r)" using assms(1) by (simp add: scan_simple_def)
  let ?s1 = "if prefix ''-'' s then drop 1 s else s"
  obtain ds s2 where ds: "scan_digits ?s1 = Some (ds, s2)"
    using number by (cases "scan_digits ?s1") (auto simp: scan_number_def Let_def)
  have "r = snd (scan_exponent (snd (scan_fraction s2)))"
    using number ds by (auto simp: scan_number_def Let_def case_prod_unfold split: if_splits)
  then have "length r \<le> length s2" using scan_tail_shorter le_trans by metis
  then show ?thesis using scan_digits_shorter [OF ds] by (auto split: if_splits)
next
  case (Some w)
  have "scan_literal t s = Some (v, r) \<Longrightarrow> list_all (\<lambda>(p, u). p \<noteq> []) t \<Longrightarrow> length r < length s" for t
    using assms(2) by (induction t) (auto split: if_splits)
  from this [of "literals py"] show ?thesis using Some assms(1) by (simp add: scan_simple_def literals_def)
qed

lemma drop_space_shorter: "prefix [c] (skip_space r) \<Longrightarrow> length (drop 1 (skip_space r)) < length r"
  using skip_space_le [of r] by (cases "skip_space r") auto

text \<open>What is left after a value, after items or after elements is shorter, so the tests on lengths succeed.\<close>

lemma parse_shorter:
  "parse_value py d s = Inr (v, r) \<Longrightarrow> length r < length s"
  "parse_items py d s = Inr (kvs, r) \<Longrightarrow> length r < length s"
  "parse_elements py d s = Inr (vs, r) \<Longrightarrow> length r < length s"
proof (induction py d s and py d s and py d s arbitrary: v r and kvs r and vs r
    rule: parse_value_parse_items_parse_elements.induct)
  case (1 py d s)
  show ?case
  proof (cases s)
    case (Cons c cs)
    show ?thesis
      using 1 skip_space_le [of cs]
      by (fastforce simp: parse_value.simps [of py d "c # cs"] Cons split: if_split_asm option.split_asm sum.split_asm
          dest: scan_string_shorter scan_simple_shorter drop_space_shorter)
  qed (use 1 in \<open>simp add: parse_value.simps\<close>)
next
  case (2 py d s)
  show ?case
  proof (cases s)
    case (Cons c cs)
    from 2(3) obtain k r1 v r2 where key: "c = CHR 0x22" "scan_string cs = Some (k, r1)" "prefix '':'' (skip_space r1)"
        "length r1 < length s"
      and val: "parse_value py d (skip_space (drop 1 (skip_space r1))) = Inr (v, r2)"
      and rest: "prefix ''}'' (skip_space r2) \<and> r = drop 1 (skip_space r2) \<or>
        \<not> prefix ''}'' (skip_space r2) \<and> prefix '','' (skip_space r2) \<and> length r2 < length s \<and>
        (\<exists>kvs'. parse_items py d (skip_space (drop 1 (skip_space r2))) = Inr (kvs', r))"
      by (auto simp: parse_items.simps [of py d "c # cs"] Cons split: if_split_asm option.split_asm sum.split_asm)
    have "length r2 < length (skip_space (drop 1 (skip_space r1)))" using 2(1) key val Cons by auto
    then have "length r2 < length s"
      using skip_space_le [of "drop 1 (skip_space r1)"] drop_space_shorter [OF key(3)] key(4) by linarith
    then show ?thesis
      using rest drop_space_shorter [of "CHR ''}''" r2] drop_space_shorter [of "CHR '',''" r2]
        skip_space_le [of "drop 1 (skip_space r2)"] 2(2) key val Cons by fastforce
  qed (use 2 in \<open>simp add: parse_items.simps\<close>)
next
  case (3 py d s)
  from 3(3) obtain v r2 where val: "parse_value py d s = Inr (v, r2)"
    and rest: "prefix '']'' (skip_space r2) \<and> r = drop 1 (skip_space r2) \<or>
      \<not> prefix '']'' (skip_space r2) \<and> prefix '','' (skip_space r2) \<and> length r2 < length s \<and>
      (\<exists>vs'. parse_elements py d (skip_space (drop 1 (skip_space r2))) = Inr (vs', r))"
    by (auto simp: parse_elements.simps [of py d s] split: if_split_asm sum.split_asm)
  have "length r2 < length s" using 3(1) val by blast
  then show ?case
    using rest drop_space_shorter [of "CHR '']''" r2] drop_space_shorter [of "CHR '',''" r2]
      skip_space_le [of "drop 1 (skip_space r2)"] 3(2) val by fastforce
qed

end
