(* ===== verification/Json_Roundtrip.thy ===== *)
theory Json_Roundtrip
  imports Json_Laws
begin

text \<open>
  Reading back what was written: \<open>loads\<close> of the compact text of a flat object, one whose values are
  strings and integers, is the object with its items in the order of the keys.
\<close>

section \<open>Strings\<close>

lemma hex_value_char: "n < 16 \<Longrightarrow> hex_value (hex_char n) = Some n"
proof -
  have "\<forall>n \<in> set [0..<16]. hex_value (hex_char n) = Some n" by code_simp
  then show "n < 16 \<Longrightarrow> ?thesis" by simp
qed

lemma less_char_nat: "c < d \<longleftrightarrow> (of_char c :: nat) < of_char d"
  by (simp add: less_char_def)

lemma unescape_control:
  assumes "c < CHR 0x20"
  shows "unescape (CHR ''u'' # CHR ''0'' # CHR ''0'' # hex_char (of_char c div 16) # hex_char (of_char c mod 16) # r) =
    Some ([c], r)"
proof -
  have n: "(of_char c :: nat) < 32" using assms by (simp add: less_char_nat)
  then have d: "hex_value (hex_char (of_char c div 16)) = Some (of_char c div 16)"
    "hex_value (hex_char (of_char c mod 16)) = Some (of_char c mod 16)"
    by (auto intro: hex_value_char)
  have z: "hex_value CHR ''0'' = Some 0" by (simp add: hex_value_def digit_def)
  have "of_char c div 16 * 16 + of_char c mod 16 = (of_char c :: nat)" by simp
  then show ?thesis using n by (simp add: unescape_def d z utf8_bytes_def)
qed

lemma scan_escaped: "scan_string (escape_char c @ s) = map_option (\<lambda>(u, r). (c # u, r)) (scan_string s)"
proof (cases "c < CHR 0x20")
  case True
  then show ?thesis
    using unescape_control [OF True, of s]
    by (auto simp: escape_char_def unescape_def)
next
  case False
  then show ?thesis by (auto simp: escape_char_def unescape_def)
qed

lemma scan_quoted: "scan_string (concat (map escape_char s) @ CHR 0x22 # r) = Some (s, r)"
  by (induction s) (simp_all add: scan_escaped)

section \<open>Integers\<close>

lemma digit_char_values:
  "n < 10 \<Longrightarrow> digit (digit_char n) \<and> of_char (digit_char n) - (48::nat) = n \<and>
    (digit_char n = CHR ''0'' \<longleftrightarrow> n = 0)"
proof -
  have "\<forall>n \<in> set [0..<10]. digit (digit_char n) \<and> of_char (digit_char n) - (48::nat) = n \<and>
    (digit_char n = CHR ''0'' \<longleftrightarrow> n = 0)" by code_simp
  then show "n < 10 \<Longrightarrow> ?thesis" by simp
qed

lemma show_nat_nonempty [simp]: "show_nat n \<noteq> []"
  by (subst show_nat.simps) simp

lemma show_nat_digits: "list_all digit (show_nat n)"
proof (induction n rule: show_nat.induct)
  case (1 n)
  then show ?case by (subst show_nat.simps) (auto simp: digit_char_values)
qed

lemma read_nat_append: "read_nat m (s @ t) = read_nat (read_nat m s) t"
  by (induction s arbitrary: m) auto

lemma read_show_nat: "read_nat 0 (show_nat n) = n"
proof (induction n rule: show_nat.induct)
  case (1 n)
  then show ?case
    by (subst show_nat.simps) (auto simp: digit_char_values read_nat_append)
qed

lemma show_nat_zero: "hd (show_nat n) = CHR ''0'' \<longleftrightarrow> n = 0"
proof (induction n rule: show_nat.induct)
  case (1 n)
  then show ?case by (subst show_nat.simps) (auto simp: digit_char_values)
qed

lemma takeWhile_digits:
  assumes "list_all digit ds" and "\<not> digit c"
  shows "takeWhile digit (ds @ c # r) = ds" and "dropWhile digit (ds @ c # r) = c # r"
  using assms by (induction ds) auto

lemma show_zero: "show_nat 0 = ''0''"
  using digit_char_values [of 0] by (simp add: show_nat.simps)

lemma scan_digits_show:
  assumes "\<not> digit c"
  shows "scan_digits (show_nat n @ c # r) = Some (show_nat n, c # r)"
proof (cases "n = 0")
  case True
  then show ?thesis using assms by (simp add: scan_digits_def show_zero digit_def Let_def)
next
  case False
  then show ?thesis
    using takeWhile_digits [OF show_nat_digits assms] show_nat_zero [of n] by (simp add: scan_digits_def Let_def)
qed

definition stops_number :: "char \<Rightarrow> bool" where
  "stops_number c \<longleftrightarrow> \<not> digit c \<and> c \<notin> {CHR ''.'', CHR ''e'', CHR ''E''}"

lemma not_minus_digits: "list_all digit ds \<Longrightarrow> ds \<noteq> [] \<Longrightarrow> \<not> prefix ''-'' (ds @ s)"
  by (cases ds) (auto simp: digit_def)

lemma scan_int:
  assumes "stops_number c" and "length (show_nat (nat \<bar>i\<bar>)) \<le> max_int_digits"
  shows "scan_number py (show_int i @ c # r) = Inr (JInt i, c # r)"
proof -
  have c: "\<not> digit c" "scan_fraction (c # r) = ([], c # r)" "scan_exponent (c # r) = ([], c # r)"
    using assms(1) by (auto simp: stops_number_def scan_fraction_def scan_exponent_def)
  show ?thesis
  proof (cases "i < 0")
    case True
    then have "nat \<bar>i\<bar> = nat (- i)" by simp
    then show ?thesis
      using True assms(2) c scan_digits_show [OF c(1), of "nat (- i)" r]
      by (simp add: scan_number_def show_int_def read_show_nat)
  next
    case False
    then have "nat \<bar>i\<bar> = nat i" by simp
    then show ?thesis
      using False assms(2) c scan_digits_show [OF c(1), of "nat i" r]
        not_minus_digits [OF show_nat_digits show_nat_nonempty, of "nat i" "c # r"]
      by (simp add: scan_number_def show_int_def read_show_nat Let_def)
  qed
qed

lemma digit_neq: "digit c \<Longrightarrow> c \<notin> set (CHR 0x22 # ''ntfNI-[{'')"
proof -
  have "\<not> list_ex digit (CHR 0x22 # ''ntfNI-[{'')" by code_simp
  then show "digit c \<Longrightarrow> ?thesis" unfolding list_ex_iff by blast
qed

lemma digit_not_literal:
  assumes "digit c"
  shows "scan_literal (literals py) (c # s) = None" and "scan_literal (literals py) (CHR ''-'' # c # s) = None"
  using digit_neq [OF assms] by (simp_all add: literals_def eq_commute [of _ c])

lemma show_int_cases: "\<exists>c s. digit c \<and> (show_int i = c # s \<or> show_int i = CHR ''-'' # c # s)"
proof -
  have "\<exists>c s. digit c \<and> show_nat n = c # s" for n
    using show_nat_digits [of n] show_nat_nonempty [of n] by (cases "show_nat n") auto
  then show ?thesis by (fastforce simp: show_int_def)
qed

lemma scan_simple_int:
  assumes "stops_number c" and "length (show_nat (nat \<bar>i\<bar>)) \<le> max_int_digits"
  shows "scan_simple py (show_int i @ c # r) = Inr (JInt i, c # r)"
proof -
  have "scan_literal (literals py) (show_int i @ c # r) = None"
    using show_int_cases [of i] digit_not_literal by fastforce
  then show ?thesis using scan_int [OF assms] by (simp add: scan_simple_def)
qed

section \<open>Flat objects\<close>

definition flat_value :: "json \<Rightarrow> bool" where
  "flat_value v =
     (case v of JStr s \<Rightarrow> True | JInt i \<Rightarrow> length (show_nat (nat \<bar>i\<bar>)) \<le> max_int_digits | _ \<Rightarrow> False)"

abbreviation flat :: "(string \<times> json) list \<Rightarrow> bool" where
  "flat kvs \<equiv> list_all (\<lambda>(k, v). flat_value v) kvs"

abbreviation item :: "string \<times> json \<Rightarrow> string" where
  "item \<equiv> \<lambda>(k, v). quoted k @ CHR '':'' # dumps v"

lemma parse_flat_value:
  assumes "flat_value v" and "stops_number c"
  shows "parse_value py d (dumps v @ c # r) = Inr (v, c # r)"
proof (cases v)
  case (JStr s)
  then show ?thesis by (simp add: parse_value.simps quoted_def scan_quoted)
next
  case (JInt i)
  have "length (show_nat (nat \<bar>i\<bar>)) \<le> max_int_digits" using assms(1) JInt by (simp add: flat_value_def)
  note simple = scan_simple_int [OF assms(2) this]
  obtain a s where a: "show_int i = a # s" "a \<noteq> CHR 0x22" "a \<noteq> CHR ''{''" "a \<noteq> CHR ''[''"
    using show_int_cases [of i] by (fastforce dest: digit_neq)
  show ?thesis using JInt a simple [of py r] by (simp add: parse_value.simps)
qed (use assms(1) in \<open>simp_all add: flat_value_def\<close>)

lemma skip_nonspace [simp]: "\<not> json_space c \<Longrightarrow> skip_space (c # s) = c # s"
  by (simp add: skip_space_def)

lemma json_space_simps [simp]:
  "\<not> json_space CHR 0x22" "\<not> json_space CHR '':''" "\<not> json_space CHR '',''" "\<not> json_space CHR ''}''"
  "\<not> json_space CHR ''{''"
  by (simp_all add: json_space_def)

lemma flat_value_nonspace: "flat_value v \<Longrightarrow> skip_space (dumps v @ s) = dumps v @ s"
proof (cases v)
  case (JInt i)
  have "\<not> list_ex digit [CHR 0x20, CHR 0x09, CHR 0x0A, CHR 0x0D]" by code_simp
  then have "digit c \<Longrightarrow> \<not> json_space c" for c by (auto simp: json_space_def)
  moreover have "\<not> json_space CHR ''-''" by (simp add: json_space_def)
  ultimately show ?thesis using JInt show_int_cases [of i] by fastforce
qed (simp_all add: flat_value_def quoted_def)

lemma stops_number_simps [simp]: "stops_number CHR '',''" "stops_number CHR ''}''"
  by (simp_all add: stops_number_def digit_def)

lemma parse_item:
  assumes "flat_value v" and "stops_number c" and "\<not> json_space c"
  shows "parse_items py d (item (k, v) @ c # r) =
    (if c = CHR ''}'' then Inr ([(k, v)], r)
     else if c = CHR '','' then
       (case parse_items py d (skip_space r) of Inl e \<Rightarrow> Inl e | Inr (kvs, r') \<Rightarrow> Inr ((k, v) # kvs, r'))
     else Inl ValueError)"
  using assms scan_quoted [of k "CHR '':'' # dumps v @ c # r"]
  by (simp add: parse_items.simps [of py d "CHR 0x22 # s" for s] quoted_def flat_value_nonspace parse_flat_value
      del: concat.simps)

lemma parse_flat_items:
  "kvs \<noteq> [] \<Longrightarrow> flat kvs \<Longrightarrow> parse_items py d (joined (map item kvs) @ CHR ''}'' # r) = Inr (kvs, r)"
proof (induction kvs rule: induct_list012)
  case (2 x)
  then show ?case using parse_item [of "snd x" "CHR ''}''" py d "fst x" r] by (cases x) simp
next
  case (3 x y kvs)
  obtain k v where x: "x = (k, v)" by (cases x)
  let ?r = "joined (map item (y # kvs)) @ CHR ''}'' # r"
  have "\<exists>s. ?r = CHR 0x22 # s" by (cases y; cases kvs) (auto simp: quoted_def)
  then have "skip_space ?r = ?r" by auto
  then show ?case
    using 3 parse_item [of v "CHR '',''" py d k ?r] by (simp add: x)
qed simp

lemma dict_of_distinct:
  "distinct (map fst kvs) \<Longrightarrow> dict_of kvs = kvs"
proof -
  have "distinct (map fst (acc @ kvs)) \<Longrightarrow> fold (\<lambda>(k, v). AList.update k v) kvs acc = acc @ kvs" for acc
  proof (induction kvs arbitrary: acc)
    case (Cons x kvs)
    have "k \<notin> fst ` set a \<Longrightarrow> AList.update k v a = a @ [(k, v)]" for k and v :: json and a :: "(string \<times> json) list"
      by (induction a) auto
    then show ?case using Cons.IH [of "acc @ [x]"] Cons.prems by (cases x) auto
  qed simp
  from this [of "[]"] show "distinct (map fst kvs) \<Longrightarrow> ?thesis" by (simp add: dict_of_def)
qed

theorem loads_dumps:
  assumes "flat kvs" and "distinct (map fst kvs)" and "0 < recursion_budget py"
  shows "loads py (dumps (JObj kvs)) = Inr (JObj (sort_key fst kvs))"
proof (cases "kvs = []")
  case True
  then show ?thesis using assms(3) by (simp add: loads_def parse_value.simps skip_space_def)
next
  case False
  let ?s = "sort_key fst kvs"
  let ?r = "joined (map item ?s) @ ''}''"
  have s: "?s \<noteq> []" "flat ?s" "distinct (map fst ?s)"
    using False assms(1,2) by (auto simp: list_all_iff distinct_map inj_on_def simp flip: set_empty)
  obtain u where u: "?r = CHR 0x22 # u"
    using s(1) by (cases "?s"; cases "tl ?s") (auto simp: quoted_def)
  have "parse_items py d ?r = Inr (?s, [])" for d using parse_flat_items [OF s(1,2), of py d "[]"] by simp
  then show ?thesis
    using assms(3) u
    by (simp add: loads_def parse_value.simps skip_space_def dict_of_distinct [OF s(3)])
qed

end
