(* ===== verification/Sha256.thy ===== *)
theory Sha256
  imports "HOL-Library.Word" Json
begin

text \<open>
  \<open>hashlib.sha256(data).hexdigest()\<close>: the hash the program identifies texts and records by, on words of
  32 bits, as FIPS 180-4 defines it. What is proved of it is the form of its result.
\<close>

unbundle bit_operations_syntax

type_synonym word32 = "32 word"

definition rotr :: "nat \<Rightarrow> word32 \<Rightarrow> word32" where "rotr n x = word_rotr n x"

text \<open>The words that a text of hexadecimal digits writes, eight digits each.\<close>

fun hex_words :: "string \<Rightarrow> word32 list" where
  "hex_words (a # b # c # d # e # f # g # h # s) =
     foldl (\<lambda>w x. 16 * w + of_nat (the (hex_value x))) 0 [a, b, c, d, e, f, g, h] # hex_words s"
| "hex_words _ = []"

definition round_constants :: "word32 list" where
  "round_constants =
     hex_words ''428a2f9871374491b5c0fbcfe9b5dba53956c25b59f111f1923f82a4ab1c5ed5'' @
     hex_words ''d807aa9812835b01243185be550c7dc372be5d7480deb1fe9bdc06a7c19bf174'' @
     hex_words ''e49b69c1efbe47860fc19dc6240ca1cc2de92c6f4a7484aa5cb0a9dc76f988da'' @
     hex_words ''983e5152a831c66db00327c8bf597fc7c6e00bf3d5a7914706ca635114292967'' @
     hex_words ''27b70a852e1b21384d2c6dfc53380d13650a7354766a0abb81c2c92e92722c85'' @
     hex_words ''a2bfe8a1a81a664bc24b8b70c76c51a3d192e819d6990624f40e3585106aa070'' @
     hex_words ''19a4c1161e376c082748774c34b0bcb5391c0cb34ed8aa4a5b9cca4f682e6ff3'' @
     hex_words ''748f82ee78a5636f84c878148cc7020890befffaa4506cebbef9a3f7c67178f2''"

definition initial_hash :: "word32 list" where
  "initial_hash =
     [0x6a09e667, 0xbb67ae85, 0x3c6ef372, 0xa54ff53a, 0x510e527f, 0x9b05688c, 0x1f83d9ab, 0x5be0cd19]"

text \<open>The message, one bit 1, zeros, and the length in bits as eight bytes: a multiple of 64 bytes.\<close>

definition padding :: "string \<Rightarrow> string" where
  "padding s =
     s @ [CHR 0x80] @ replicate ((119 - length s mod 64) mod 64) CHR 0x00 @
     map (\<lambda>i. char_of (8 * length s div 256 ^ i)) (rev [0..<8])"

fun words_of :: "string \<Rightarrow> word32 list" where
  "words_of (a # b # c # d # s) =
     (((of_char a * 256 + of_char b) * 256 + of_char c) * 256 + of_char d) # words_of s"
| "words_of _ = []"

text \<open>The message schedule, newest word first.\<close>

fun schedule :: "nat \<Rightarrow> word32 list \<Rightarrow> word32 list" where
  "schedule 0 ws = ws"
| "schedule (Suc n) ws =
     (let w2 = ws ! 1; w7 = ws ! 6; w15 = ws ! 14; w16 = ws ! 15;
          s0 = rotr 7 w15 XOR rotr 18 w15 XOR drop_bit 3 w15;
          s1 = rotr 17 w2 XOR rotr 19 w2 XOR drop_bit 10 w2 in
      schedule n ((w16 + s0 + w7 + s1) # ws))"

fun compress_round :: "word32 list \<Rightarrow> word32 \<times> word32 \<Rightarrow> word32 list" where
  "compress_round [a, b, c, d, e, f, g, h] (k, w) =
     (let s1 = rotr 6 e XOR rotr 11 e XOR rotr 25 e;
          ch = (e AND f) XOR (NOT e AND g);
          t1 = h + s1 + ch + k + w;
          s0 = rotr 2 a XOR rotr 13 a XOR rotr 22 a;
          maj = (a AND b) XOR (a AND c) XOR (b AND c);
          t2 = s0 + maj in
      [t1 + t2, a, b, c, d + t1, e, f, g])"
| "compress_round st _ = st"

definition compress :: "word32 list \<Rightarrow> word32 list \<Rightarrow> word32 list" where
  "compress st block =
     map2 (+) st (foldl compress_round st (zip round_constants (rev (schedule 48 (rev block)))))"

fun compress_all :: "nat \<Rightarrow> word32 list \<Rightarrow> word32 list \<Rightarrow> word32 list" where
  "compress_all 0 st ws = st"
| "compress_all (Suc n) st ws = compress_all n (compress st (take 16 ws)) (drop 16 ws)"

definition word_hex :: "word32 \<Rightarrow> string" where
  "word_hex w = map (\<lambda>i. hex_char (unat (drop_bit (4 * i) w) mod 16)) (rev [0..<8])"

definition sha256_hex :: "string \<Rightarrow> string" where
  "sha256_hex s =
     (let ws = words_of (padding s) in
      concat (map word_hex (compress_all (length ws div 16) initial_hash ws)))"

section \<open>The form of a hash\<close>

lemma length_compress_round [simp]: "length (compress_round st kw) = length st"
  by (induction st kw rule: compress_round.induct) (simp_all add: Let_def)

lemma length_rounds: "length (foldl compress_round st kws) = length st"
  by (induction kws arbitrary: st) simp_all

lemma length_compress_all: "length (compress_all n st ws) = length st"
  by (induction n st ws rule: compress_all.induct) (simp_all add: compress_def length_rounds)

lemma hex_digit_char: "n < 16 \<Longrightarrow> hex_digit (hex_char n)"
proof -
  have "\<forall>n \<in> set [0..<16]. hex_digit (hex_char n)" by code_simp
  then show "n < 16 \<Longrightarrow> ?thesis" by simp
qed

lemma word_hex_form: "length (word_hex w) = 8" "list_all hex_digit (word_hex w)"
  unfolding word_hex_def list_all_iff set_map by (simp, blast intro: hex_digit_char mod_less_divisor zero_less_numeral)

lemma hex_form: "length (concat (map word_hex ws)) = 8 * length ws" "list_all hex_digit (concat (map word_hex ws))"
  by (induction ws) (simp_all add: word_hex_form)

lemma sha256_form [simp]: "is_hex 64 (sha256_hex s)"
  by (simp add: sha256_hex_def is_hex_def Let_def hex_form length_compress_all initial_hash_def)

end
