(* ===== verification/Projection.thy ===== *)
theory Projection
  imports Sha256 Values
begin

text \<open>
  \<open>schema/projection.py\<close>: the scalar values of a record that its marker carries, what each kind of record
  projects, the hashes that identify a payload and a body, the binding of a record, and the reading of a
  projection back from a marker. \<open>build_record_projection\<close>, which needs the schemas, follows in \<open>Projection_Build\<close>.
\<close>

section \<open>Kinds\<close>

fun kind_value :: "record_kind \<Rightarrow> string" where
  "kind_value K_REVIEW_RESULT = ''REVIEW_RESULT''"
| "kind_value K_FIX_RESULT = ''FIX_RESULT''"
| "kind_value K_CLARIFICATION_QUESTION = ''CLARIFICATION_QUESTION''"
| "kind_value K_CLARIFICATION_ANSWER = ''CLARIFICATION_ANSWER''"
| "kind_value K_DECISION_REQUEST = ''DECISION_REQUEST''"
| "kind_value K_DECISION_VERDICT = ''DECISION_VERDICT''"
| "kind_value K_DECISION_BRIEF = ''DECISION_BRIEF''"
| "kind_value K_DECISION_RECORD = ''DECISION_RECORD''"
| "kind_value K_EXTERNAL_DEPENDENCY = ''EXTERNAL_DEPENDENCY''"
| "kind_value K_PERMISSION_BLOCK = ''PERMISSION_BLOCK''"
| "kind_value K_CI_TIMEOUT = ''CI_TIMEOUT''"
| "kind_value K_CI_CODE_FAILURE = ''CI_CODE_FAILURE''"
| "kind_value K_FINAL_REPORT = ''FINAL_REPORT''"
| "kind_value K_INTEGRITY_INCIDENT = ''INTEGRITY_INCIDENT''"
| "kind_value K_GATE_ANSWER = ''GATE_ANSWER''"
| "kind_value K_USER_DECISION = ''USER_DECISION''"
| "kind_value K_GATE_QUESTION = ''GATE_QUESTION''"
| "kind_value K_GATE_CHANGES = ''GATE_CHANGES''"
| "kind_value K_MERGE_APPROVAL = ''MERGE_APPROVAL''"
| "kind_value K_BLOCK_INTERVENTION = ''BLOCK_INTERVENTION''"
| "kind_value K_USER_CANCEL = ''USER_CANCEL''"

definition all_kinds :: "record_kind list" where
  "all_kinds =
     [K_REVIEW_RESULT, K_FIX_RESULT, K_CLARIFICATION_QUESTION, K_CLARIFICATION_ANSWER, K_DECISION_REQUEST,
      K_DECISION_VERDICT, K_DECISION_BRIEF, K_DECISION_RECORD, K_EXTERNAL_DEPENDENCY, K_PERMISSION_BLOCK,
      K_CI_TIMEOUT, K_CI_CODE_FAILURE, K_FINAL_REPORT, K_INTEGRITY_INCIDENT, K_GATE_ANSWER, K_USER_DECISION,
      K_GATE_QUESTION, K_GATE_CHANGES, K_MERGE_APPROVAL, K_BLOCK_INTERVENTION, K_USER_CANCEL]"

text \<open>\<open>RecordKind(value)\<close>, which raises \<open>ValueError\<close> for an unknown value.\<close>

definition kind_of_value :: "string \<Rightarrow> record_kind option" where
  "kind_of_value s = find (\<lambda>k. kind_value k = s) all_kinds"

lemma all_kinds_complete: "k \<in> set all_kinds"
  by (cases k) (simp_all add: all_kinds_def)

lemma kind_of_value [simp]: "kind_of_value (kind_value k) = Some k"
  by (cases k) (simp_all add: kind_of_value_def all_kinds_def)

section \<open>Projection keys and specifications\<close>

definition RESULT_KEY :: string where "RESULT_KEY = ''res''"
definition ROUND_KEY :: string where "ROUND_KEY = ''round''"
definition TURN_KEY :: string where "TURN_KEY = ''turn''"
definition FINGERPRINT_KEY :: string where "FINGERPRINT_KEY = ''fp''"
definition SUBJECT_KEY :: string where "SUBJECT_KEY = ''sid''"
definition TARGET_KEY :: string where "TARGET_KEY = ''tgt''"
definition PAYLOAD_HASH_KEY :: string where "PAYLOAD_HASH_KEY = ''pay''"
definition DIGEST_KEY :: string where "DIGEST_KEY = ''dig''"
definition COUNT_KEY :: string where "COUNT_KEY = ''cnt''"

lemmas projection_key_defs =
  RESULT_KEY_def ROUND_KEY_def TURN_KEY_def FINGERPRINT_KEY_def SUBJECT_KEY_def TARGET_KEY_def
  PAYLOAD_HASH_KEY_def DIGEST_KEY_def COUNT_KEY_def

definition PROJECTION_KEYS :: "string set" where
  "PROJECTION_KEYS =
     {RESULT_KEY, ROUND_KEY, TURN_KEY, FINGERPRINT_KEY, SUBJECT_KEY, TARGET_KEY, PAYLOAD_HASH_KEY, DIGEST_KEY,
      COUNT_KEY}"

definition INTEGER_KEYS :: "string set" where "INTEGER_KEYS = {ROUND_KEY, TURN_KEY, COUNT_KEY}"

record projection_field =
  pf_key :: string
  pf_source :: string
  pf_required :: bool

record projection_spec =
  ps_fields :: "projection_field list"
  ps_digest_source :: "string option"
  ps_head_source :: "string option"

definition field_of :: "string \<Rightarrow> string \<Rightarrow> projection_field" where
  "field_of key source = \<lparr>pf_key = key, pf_source = source, pf_required = True\<rparr>"

definition optional_field :: "string \<Rightarrow> string \<Rightarrow> projection_field" where
  "optional_field key source = \<lparr>pf_key = key, pf_source = source, pf_required = False\<rparr>"

definition spec_for :: "projection_field list \<Rightarrow> string \<Rightarrow> projection_spec" where
  "spec_for fs head = \<lparr>ps_fields = fs, ps_digest_source = None, ps_head_source = Some head\<rparr>"

fun PROJECTION_SPECS :: "record_kind \<Rightarrow> projection_spec" where
  "PROJECTION_SPECS K_REVIEW_RESULT =
     spec_for [field_of RESULT_KEY ''verdict'', field_of ROUND_KEY ''round''] ''target_head_sha''"
| "PROJECTION_SPECS K_FIX_RESULT = spec_for [] ''pushed_head_sha''"
| "PROJECTION_SPECS K_CLARIFICATION_QUESTION =
     spec_for [field_of TURN_KEY ''turn'', field_of FINGERPRINT_KEY ''fingerprint'',
       field_of TARGET_KEY ''target_finding''] ''target_head_sha''"
| "PROJECTION_SPECS K_CLARIFICATION_ANSWER =
     spec_for [field_of RESULT_KEY ''result'', field_of TURN_KEY ''turn'',
       field_of FINGERPRINT_KEY ''fingerprint''] ''target_head_sha''"
| "PROJECTION_SPECS K_DECISION_REQUEST = spec_for [] ''target_head_sha''"
| "PROJECTION_SPECS K_DECISION_VERDICT =
     spec_for [field_of RESULT_KEY ''verdict'', optional_field FINGERPRINT_KEY ''fingerprint''] ''target_head_sha''"
| "PROJECTION_SPECS K_DECISION_BRIEF = spec_for [field_of SUBJECT_KEY ''decision_id''] ''target_head_sha''"
| "PROJECTION_SPECS K_DECISION_RECORD =
     spec_for [field_of SUBJECT_KEY ''decision_id'', field_of RESULT_KEY ''verdict''] ''target_head_sha''"
| "PROJECTION_SPECS K_EXTERNAL_DEPENDENCY = spec_for [] ''target_head_sha''"
| "PROJECTION_SPECS K_PERMISSION_BLOCK = spec_for [field_of SUBJECT_KEY ''permission_id''] ''target_head_sha''"
| "PROJECTION_SPECS K_CI_TIMEOUT = spec_for [] ''target_head_sha''"
| "PROJECTION_SPECS K_CI_CODE_FAILURE = spec_for [] ''target_head_sha''"
| "PROJECTION_SPECS K_FINAL_REPORT = spec_for [] ''approved_head_sha''"
| "PROJECTION_SPECS K_INTEGRITY_INCIDENT =
     \<lparr>ps_fields = [], ps_digest_source = Some ''violation_bindings'', ps_head_source = None\<rparr>"
| "PROJECTION_SPECS K_GATE_ANSWER = spec_for [] ''target_head_sha''"
| "PROJECTION_SPECS K_USER_DECISION = spec_for [field_of SUBJECT_KEY ''decision_id''] ''target_head_sha''"
| "PROJECTION_SPECS K_GATE_QUESTION = spec_for [] ''target_head_sha''"
| "PROJECTION_SPECS K_GATE_CHANGES = spec_for [] ''target_head_sha''"
| "PROJECTION_SPECS K_MERGE_APPROVAL = spec_for [field_of RESULT_KEY ''merge_method''] ''approved_head_sha''"
| "PROJECTION_SPECS K_BLOCK_INTERVENTION =
     spec_for [field_of TARGET_KEY ''target_block_binding''] ''target_head_sha''"
| "PROJECTION_SPECS K_USER_CANCEL = spec_for [] ''target_head_sha''"

definition spec_keys :: "projection_spec \<Rightarrow> string set" where
  "spec_keys spec =
     set (map pf_key (ps_fields spec)) \<union> {PAYLOAD_HASH_KEY} \<union>
     (if ps_digest_source spec = None then {} else {DIGEST_KEY, COUNT_KEY})"

section \<open>The vocabulary of results\<close>

definition REVIEW_VERDICTS :: "string list" where "REVIEW_VERDICTS = [''APPROVED'', ''CHANGES_REQUESTED'']"

definition CLARIFICATION_RESULTS :: "string list" where
  "CLARIFICATION_RESULTS =
     [''CONFIRMED'', ''REVISED'', ''WITHDRAWN'', ''MORE_EVIDENCE_REQUIRED'', ''USER_DECISION_REQUIRED'']"

definition DECISION_VERDICTS :: "string list" where
  "DECISION_VERDICTS = [''ASK_USER'', ''PROCEED_WITH_RECORD'', ''REVISE_AND_RESUBMIT'']"

definition MERGE_METHODS :: "string list" where "MERGE_METHODS = [''merge'', ''squash'', ''rebase'']"

text \<open>The \<open>enum\<close> of the field of the kind's schema that is projected to \<open>res\<close>.\<close>

fun result_vocabulary :: "record_kind \<Rightarrow> string list option" where
  "result_vocabulary K_REVIEW_RESULT = Some REVIEW_VERDICTS"
| "result_vocabulary K_CLARIFICATION_ANSWER = Some CLARIFICATION_RESULTS"
| "result_vocabulary K_DECISION_VERDICT = Some DECISION_VERDICTS"
| "result_vocabulary K_DECISION_RECORD = Some DECISION_VERDICTS"
| "result_vocabulary K_MERGE_APPROVAL = Some MERGE_METHODS"
| "result_vocabulary _ = None"

lemma result_vocabulary_fields:
  "result_vocabulary k \<noteq> None \<longleftrightarrow> RESULT_KEY \<in> set (map pf_key (ps_fields (PROJECTION_SPECS k)))"
  by (cases k) (simp_all add: spec_for_def field_of_def optional_field_def projection_key_defs)

section \<open>Hashes and the binding of a record\<close>

definition canonical_json :: "json \<Rightarrow> string" where "canonical_json v = dumps v"

definition canonical_payload_hash :: "(string \<times> json) list \<Rightarrow> string" where
  "canonical_payload_hash payload = sha256_hex (canonical_json (JObj payload))"

text \<open>\<open>normalize_newlines\<close> of \<open>transport/render.py\<close>: carriage return and line feed, or a carriage return alone, become a line feed.\<close>

function normalize_newlines :: "string \<Rightarrow> string" where
  "normalize_newlines [] = []"
| "normalize_newlines (c # cs) =
     (if c = carriage_return
      then newline # normalize_newlines (if cs \<noteq> [] \<and> hd cs = newline then tl cs else cs)
      else c # normalize_newlines cs)"
  by pat_completeness auto

termination normalize_newlines by (relation "measure length") auto

definition normalize_body_for_hash :: "string \<Rightarrow> string" where
  "normalize_body_for_hash body = rstrip_newlines (normalize_newlines body)"

definition semantic_payload_hash :: "string \<Rightarrow> (string \<times> json) list \<Rightarrow> (string \<times> json) list \<Rightarrow> string" where
  "semantic_payload_hash body payload projection =
     sha256_hex (canonical_json (JObj
       [(''body'', JStr (normalize_body_for_hash body)),
        (''payload'', JStr (canonical_payload_hash payload)),
        (''projection'', JObj projection)]))"

definition canonical_set_digest :: "string list \<Rightarrow> string \<times> nat" where
  "canonical_set_digest values =
     (let unique = sort (remdups values) in
      (sha256_hex (canonical_json (JArr (map JStr unique))), length unique))"

datatype projection_error = ProjectionError string

definition run_id_char :: "char \<Rightarrow> bool" where
  "run_id_char c \<longleftrightarrow> letter c \<or> digit c \<or> c \<in> {CHR ''.'', CHR ''_'', CHR ''-''}"

definition run_id_form :: "string \<Rightarrow> bool" where
  "run_id_form s \<longleftrightarrow>
     (case s of [] \<Rightarrow> False
      | c # cs \<Rightarrow> (letter c \<or> digit c) \<and> list_all run_id_char cs \<and> length cs \<le> 63)"

definition validate_run_id :: "string \<Rightarrow> projection_error + string" where
  "validate_run_id s = (if run_id_form s then Inr s else Inl (ProjectionError ''run_id''))"

definition derive_record_binding ::
  "string \<Rightarrow> int \<Rightarrow> record_kind \<Rightarrow> string \<Rightarrow> string \<Rightarrow> projection_error + string" where
  "derive_record_binding run_id seq kind head_sha payload_hash =
     bind_result (validate_run_id run_id) (\<lambda>_.
     if seq < 1 then Inl (ProjectionError ''seq'')
     else if \<not> is_hex 40 head_sha then Inl (ProjectionError ''head_sha'')
     else if \<not> is_hex 64 payload_hash then Inl (ProjectionError ''payload_hash'')
     else
       (let material = canonical_json (JObj
              [(''head'', JStr head_sha), (''kind'', JStr (kind_value kind)), (''pay'', JStr payload_hash),
               (''run'', JStr run_id), (''seq'', JInt seq)]) in
        Inr (''cr:'' @ run_id @ '':'' @ padded (nat seq) @ '':'' @ sha256_hex material)))"

section \<open>Reading a projection\<close>

record decoded_projection =
  dp_payload_hash :: string
  dp_result :: "string option"
  dp_round :: "int option"
  dp_turn :: "int option"
  dp_fingerprint :: "string option"
  dp_subject_id :: "string option"
  dp_target :: "string option"
  dp_digest :: "string option"
  dp_count :: "int option"

definition decoded_value :: "string \<Rightarrow> json \<Rightarrow> json option" where
  "decoded_value key v =
     (if key \<in> INTEGER_KEYS then (case v of JInt i \<Rightarrow> if i < 1 then None else Some v | _ \<Rightarrow> None)
      else
        (case v of JStr s \<Rightarrow>
             if s = [] then None
             else if key \<in> {PAYLOAD_HASH_KEY, DIGEST_KEY} \<and> \<not> is_hex 64 s then None
             else Some v
         | _ \<Rightarrow> None))"

definition as_int :: "json option \<Rightarrow> int option" where
  "as_int v = (case v of Some (JInt i) \<Rightarrow> Some i | _ \<Rightarrow> None)"

definition as_str :: "json option \<Rightarrow> string option" where
  "as_str v = (case v of Some (JStr s) \<Rightarrow> Some s | _ \<Rightarrow> None)"

text \<open>The reason of a refusal is given by a name instead of a sentence.\<close>

definition decode_record_projection :: "record_kind \<Rightarrow> (string \<times> json) list \<Rightarrow> string + decoded_projection" where
  "decode_record_projection kind payload =
     (let spec = PROJECTION_SPECS kind;
          present = filter (\<lambda>(k, v). k \<in> PROJECTION_KEYS) payload;
          decoded = map_of present;
          result = as_str (decoded RESULT_KEY) in
      if \<not> list_all (\<lambda>(k, v). k \<in> spec_keys spec) present then Inl ''unexpected projection key''
      else if \<not> list_all (\<lambda>(k, v). decoded_value k v \<noteq> None) present then Inl ''projection value''
      else
        (case as_str (decoded PAYLOAD_HASH_KEY) of None \<Rightarrow> Inl ''payload hash missing''
         | Some hash \<Rightarrow>
             if \<not> list_all (\<lambda>f. pf_required f \<longrightarrow> decoded (pf_key f) \<noteq> None) (ps_fields spec)
             then Inl ''projection key missing''
             else if ps_digest_source spec \<noteq> None \<and> (decoded DIGEST_KEY = None \<or> decoded COUNT_KEY = None)
             then Inl ''digest missing''
             else if (case (result_vocabulary kind, result) of
                        (Some words, Some r) \<Rightarrow> r \<notin> set words | _ \<Rightarrow> False)
             then Inl ''result vocabulary''
             else Inr
               \<lparr>dp_payload_hash = hash, dp_result = result,
                dp_round = as_int (decoded ROUND_KEY), dp_turn = as_int (decoded TURN_KEY),
                dp_fingerprint = as_str (decoded FINGERPRINT_KEY),
                dp_subject_id = as_str (decoded SUBJECT_KEY), dp_target = as_str (decoded TARGET_KEY),
                dp_digest = as_str (decoded DIGEST_KEY), dp_count = as_int (decoded COUNT_KEY)\<rparr>))"

text \<open>Reading depends on the items only as a dictionary, not on their order.\<close>

lemma decode_cong:
  assumes "map_of p = map_of q" and "distinct (map fst p)" and "distinct (map fst q)"
  shows "decode_record_projection kind p = decode_record_projection kind q"
proof -
  have items: "set p = set q"
    using assms map_of_eq_Some_iff by (metis (no_types, lifting) subsetI subset_antisym surj_pair)
  have "map_of (filter (\<lambda>(k, v). k \<in> A) p) = map_of (filter (\<lambda>(k, v). k \<in> A) q)" for A
  proof -
    have "distinct (map fst (filter (\<lambda>(k, v). k \<in> A) p))" "distinct (map fst (filter (\<lambda>(k, v). k \<in> A) q))"
      using assms(2,3) by (auto simp: distinct_map_filter)
    then show ?thesis using items by (intro map_of_inject_set [THEN iffD2]) auto
  qed
  then show ?thesis unfolding decode_record_projection_def Let_def list_all_iff set_filter items by (simp only:)
qed

end
