(* ===== verification/Marker.thy ===== *)
theory Marker
  imports Projection
begin

text \<open>
  \<open>transport/marker.py\<close>: the reserved marker, one HTML comment at the end of a comment body that carries
  the machine-readable part of a record, how it is attached and extracted, and how the marker token in a body
  written by an agent is escaped.
\<close>

section \<open>Constants\<close>

definition MARKER_TOKEN :: string where "MARKER_TOKEN = ''CC_REVIEW_META''"
lemma MARKER_TOKEN_nonempty [simp]: "MARKER_TOKEN \<noteq> []"
  by (simp add: MARKER_TOKEN_def)

definition MARKER_VERSION :: string where "MARKER_VERSION = ''v1''"
definition ESCAPED_TOKEN :: string where "ESCAPED_TOKEN = ''CC~REVIEW~META''"
definition MAX_PAYLOAD_BYTES :: nat where "MAX_PAYLOAD_BYTES = 2048"

definition STRUCTURAL_PAYLOAD_KEYS :: "string set" where
  "STRUCTURAL_PAYLOAD_KEYS = {''key'', ''kind'', ''run'', ''head'', ''seq'', ''prev'', ''audit_prev''}"

definition ALLOWED_PAYLOAD_KEYS :: "string set" where
  "ALLOWED_PAYLOAD_KEYS = STRUCTURAL_PAYLOAD_KEYS \<union> PROJECTION_KEYS"

section \<open>Escaping\<close>

text \<open>
  One code point against one upper-case letter or underscore under \<open>re.IGNORECASE\<close>. The dotted and the dotless
  i outside ASCII match the letter \<open>I\<close>; no other code point outside ASCII matches a character of the token.
\<close>

fun match_letter :: "char \<Rightarrow> string \<Rightarrow> string option" where
  "match_letter t [] = None"
| "match_letter t (c # cs) =
     (if upper_char c = t then Some cs
      else if t = CHR ''I'' \<and> (prefix [CHR 0xC4, CHR 0xB0] (c # cs) \<or> prefix [CHR 0xC4, CHR 0xB1] (c # cs))
        then Some (drop 2 (c # cs))
      else None)"

fun match_ignorecase :: "string \<Rightarrow> string \<Rightarrow> string option" where
  "match_ignorecase [] s = Some s"
| "match_ignorecase (t # ts) s =
     (case match_letter t s of None \<Rightarrow> None | Some rest \<Rightarrow> match_ignorecase ts rest)"

lemma match_letter_shorter: "match_letter t s = Some r \<Longrightarrow> length r < length s"
  by (cases s) (auto split: if_splits)

lemma match_ignorecase_shorter: "match_ignorecase ts s = Some r \<Longrightarrow> ts \<noteq> [] \<Longrightarrow> length r < length s"
proof (induction ts s rule: match_ignorecase.induct)
  case (2 t ts s)
  then show ?case by (cases ts) (auto dest!: match_letter_shorter split: option.splits)
qed simp

text \<open>\<open>_TOKEN_PATTERN.subn(ESCAPED_TOKEN, body)\<close>\<close>

function escape_tokens :: "string \<Rightarrow> string \<times> nat" where
  "escape_tokens [] = ([], 0)"
| "escape_tokens (c # cs) =
     (case match_ignorecase MARKER_TOKEN (c # cs) of
        Some rest \<Rightarrow> (let (text, n) = escape_tokens rest in (ESCAPED_TOKEN @ text, Suc n))
      | None \<Rightarrow> (let (text, n) = escape_tokens cs in (c # text, n)))"
  by pat_completeness auto

termination escape_tokens
  by (relation "measure length") (auto dest: match_ignorecase_shorter)

record sanitized_body =
  sb_text :: string
  sb_escaped_count :: nat

definition sanitize_agent_body :: "string \<Rightarrow> sanitized_body" where
  "sanitize_agent_body body =
     (let (text, n) = escape_tokens body in \<lparr>sb_text = text, sb_escaped_count = n\<rparr>)"

section \<open>Attaching\<close>

text \<open>The \<open>TransportError\<close> of a marker, with the stage; all of them are permanent.\<close>

datatype marker_error = MarkerKey | MarkerValue | MarkerTooLarge

definition marker_value_ok :: "json \<Rightarrow> bool" where
  "marker_value_ok v = (case v of JStr _ \<Rightarrow> True | JInt _ \<Rightarrow> True | _ \<Rightarrow> False)"

fun check_marker_items :: "(string \<times> json) list \<Rightarrow> marker_error + unit" where
  "check_marker_items [] = Inr ()"
| "check_marker_items ((k, v) # items) =
     (if k \<notin> ALLOWED_PAYLOAD_KEYS then Inl MarkerKey
      else if \<not> marker_value_ok v then Inl MarkerValue
      else check_marker_items items)"

definition marker_open :: string where "marker_open = ''<!-- '' @ MARKER_TOKEN @ '':'' @ MARKER_VERSION @ '' ''"

definition marker_close :: string where "marker_close = '' -->''"

definition marker_line :: "string \<Rightarrow> string" where
  "marker_line encoded = marker_open @ encoded @ marker_close"

definition attach_marker :: "string \<Rightarrow> (string \<times> json) list \<Rightarrow> marker_error + string" where
  "attach_marker body payload =
     bind_result (check_marker_items payload) (\<lambda>_.
       (let encoded = dumps (JObj payload) in
        if MAX_PAYLOAD_BYTES < length encoded then Inl MarkerTooLarge
        else Inr (rstrip_newlines body @ [newline, newline] @ marker_line encoded)))"

section \<open>Extracting\<close>

record extracted_marker =
  em_raw_json :: string
  em_payload :: "(string \<times> json) list option"

text \<open>
  The group of \<open>_MARKER_PATTERN\<close>, in the text before the closing \<open>-->\<close>, which ends in a brace: what follows the
  leftmost opening that an object can follow.
\<close>

fun marker_group :: "string \<Rightarrow> string option" where
  "marker_group [] = None"
| "marker_group (c # cs) =
     (let rest = drop (length marker_open) (c # cs) in
      if prefix marker_open (c # cs) \<and> prefix ''{'' rest \<and> 2 \<le> length rest then Some rest
      else marker_group cs)"

definition match_marker :: "string \<Rightarrow> string option" where
  "match_marker body =
     (let text = rstrip_spaces body in
      if suffix (''}'' @ marker_close) text then marker_group (take (length text - length marker_close) text)
      else None)"

text \<open>
  \<open>extract_marker\<close> catches the \<open>ValueError\<close> of \<open>json.loads\<close>. A \<open>RecursionError\<close>, which nesting beyond the
  recursion limit of the interpreter raises, is not caught.
\<close>

definition extract_marker :: "interpreter \<Rightarrow> string \<Rightarrow> json_error + extracted_marker option" where
  "extract_marker py body =
     (case match_marker body of None \<Rightarrow> Inr None
      | Some raw \<Rightarrow>
          (case loads (py\<lparr>accepts_constants := True\<rparr>) raw of
             Inr (JObj kvs) \<Rightarrow> Inr (Some \<lparr>em_raw_json = raw, em_payload = Some kvs\<rparr>)
           | Inr _ \<Rightarrow> Inr (Some \<lparr>em_raw_json = raw, em_payload = None\<rparr>)
           | Inl ValueError \<Rightarrow> Inr (Some \<lparr>em_raw_json = raw, em_payload = None\<rparr>)
           | Inl RecursionError \<Rightarrow> Inl RecursionError))"

end
