(* ===== verification/Conversation.thy ===== *)
theory Conversation
  imports Marker
begin

text \<open>
  \<open>transport/conversation.py\<close>: a comment of a conversation as it was observed, with the hash of its body and the
  marker at its end, read from the JSON that GitHub answers; and the search for the comment that carries a
  given record.
\<close>

record unverified_comment =
  uc_comment_id :: string
  uc_url :: string
  uc_author_login :: "string option"
  uc_created_at :: string
  uc_updated_at :: string
  uc_body :: string
  uc_reply_to :: "string option"
  uc_review_id :: "string option"
  uc_body_hash :: string
  uc_marker :: "extracted_marker option"

text \<open>
  A text is its UTF-8 bytes. A lone surrogate, which only an escape of JSON can bring in, is kept as three bytes here and hashed;
  \<open>str.encode\<close> raises \<open>UnicodeEncodeError\<close> on it.
\<close>

definition body_hash_of :: "string \<Rightarrow> string" where
  "body_hash_of text = sha256_hex text"

text \<open>\<open>TransportError("metadata", ...)\<close>, or the \<open>RecursionError\<close> that \<open>extract_marker\<close> lets through.\<close>

datatype comment_error = MetadataError | CommentRecursionError

definition require_str :: "(string \<times> json) list \<Rightarrow> string \<Rightarrow> comment_error + string" where
  "require_str items k = (case map_of items k of Some (JStr s) \<Rightarrow> Inr s | _ \<Rightarrow> Inl MetadataError)"

definition optional_id :: "(string \<times> json) list \<Rightarrow> string \<Rightarrow> comment_error + string option" where
  "optional_id items k =
     (case map_of items k of
        None \<Rightarrow> Inr None
      | Some JNull \<Rightarrow> Inr None
      | Some (JInt i) \<Rightarrow> Inr (Some (show_int i))
      | Some (JStr s) \<Rightarrow> Inr (Some s)
      | _ \<Rightarrow> Inl MetadataError)"

definition author_login_of :: "(string \<times> json) list \<Rightarrow> comment_error + string option" where
  "author_login_of items =
     (case map_of items ''user'' of
        None \<Rightarrow> Inr None
      | Some JNull \<Rightarrow> Inr None
      | Some (JObj user) \<Rightarrow> bind_result (require_str user ''login'') (\<lambda>s. Inr (Some s))
      | _ \<Rightarrow> Inl MetadataError)"

definition marker_of :: "interpreter \<Rightarrow> string \<Rightarrow> comment_error + extracted_marker option" where
  "marker_of py body =
     (case extract_marker py body of Inl _ \<Rightarrow> Inl CommentRecursionError | Inr marker \<Rightarrow> Inr marker)"

fun comment_from_json :: "interpreter \<Rightarrow> json \<Rightarrow> comment_error + unverified_comment" where
  "comment_from_json py (JObj items) =
     (case map_of items ''id'' of
        Some (JInt raw_id) \<Rightarrow>
          bind_result (author_login_of items) (\<lambda>author.
          bind_result (require_str items ''body'') (\<lambda>body.
          bind_result (require_str items ''html_url'') (\<lambda>url.
          bind_result (require_str items ''created_at'') (\<lambda>created.
          bind_result (require_str items ''updated_at'') (\<lambda>updated.
          bind_result (optional_id items ''in_reply_to_id'') (\<lambda>reply_to.
          bind_result (optional_id items ''pull_request_review_id'') (\<lambda>review_id.
          bind_result (marker_of py body) (\<lambda>marker.
            Inr \<lparr>uc_comment_id = show_int raw_id, uc_url = url, uc_author_login = author,
                 uc_created_at = created, uc_updated_at = updated, uc_body = body, uc_reply_to = reply_to,
                 uc_review_id = review_id, uc_body_hash = body_hash_of body, uc_marker = marker\<rparr>))))))))
      | _ \<Rightarrow> Inl MetadataError)"
| "comment_from_json py _ = Inl MetadataError"

text \<open>What the comments built by \<open>comment_from_json\<close> have in common.\<close>

definition observed :: "interpreter \<Rightarrow> unverified_comment \<Rightarrow> bool" where
  "observed py c \<longleftrightarrow>
     uc_body_hash c = body_hash_of (uc_body c) \<and> extract_marker py (uc_body c) = Inr (uc_marker c)"

lemma bind_result_Inr: "bind_result r f = Inr y \<longleftrightarrow> (\<exists>x. r = Inr x \<and> f x = Inr y)"
  by (cases r) auto

lemma marker_of_Inr: "marker_of py body = Inr m \<longleftrightarrow> extract_marker py body = Inr m"
  by (simp add: marker_of_def split: sum.splits)

lemma comment_observed: "comment_from_json py data = Inr c \<Longrightarrow> observed py c"
  by (cases data) (auto simp: observed_def bind_result_Inr marker_of_Inr split: option.split_asm json.split_asm)

section \<open>Searching\<close>

text \<open>\<open>TransportError("marker", ...)\<close>\<close>

datatype key_error = NoMarker | NoKey | KeyRecursionError

definition require_marker_key :: "interpreter \<Rightarrow> string \<Rightarrow> key_error + string" where
  "require_marker_key py body =
     (case extract_marker py body of Inl _ \<Rightarrow> Inl KeyRecursionError
      | Inr None \<Rightarrow> Inl NoMarker
      | Inr (Some m) \<Rightarrow>
          (case em_payload m of None \<Rightarrow> Inl NoMarker
           | Some items \<Rightarrow>
               (case map_of items ''key'' of
                  Some (JStr k) \<Rightarrow> if k = [] then Inl NoKey else Inr k
                | _ \<Rightarrow> Inl NoKey)))"

definition carries :: "string \<Rightarrow> string \<Rightarrow> unverified_comment \<Rightarrow> bool" where
  "carries key expected_hash c \<longleftrightarrow>
     (case uc_marker c of None \<Rightarrow> False
      | Some m \<Rightarrow>
          (case em_payload m of None \<Rightarrow> False
           | Some items \<Rightarrow> map_of items ''key'' = Some (JStr key) \<and> uc_body_hash c = expected_hash))"

definition find_comment_by_marker :: "unverified_comment list \<Rightarrow> string \<Rightarrow> string \<Rightarrow> unverified_comment option" where
  "find_comment_by_marker comments key expected_hash = find (carries key expected_hash) comments"

end
