(* ===== verification/Record_Chain.thy ===== *)
theory Record_Chain
  imports "HOL-Library.Product_Lexorder" Conversation
begin

text \<open>
  \<open>identity/actor.py\<close> and \<open>identity/record_chain.py\<close>: who wrote a comment, the payload of the marker of a
  record, and the verification of the chain of records of a run. The reasons of a refusal and the stages of an
  \<open>IdentityError\<close> are given by names instead of sentences.
\<close>

section \<open>Actors\<close>

datatype actor_class = ActorUser | ActorBot | ActorInvalid | ActorMissing

record resolved_actor =
  ra_klass :: actor_class
  ra_login :: "string option"
  ra_raw_login :: "string option"

definition login_form :: "string \<Rightarrow> bool" where
  "login_form s \<longleftrightarrow> s \<noteq> [] \<and> list_all (\<lambda>c. letter c \<or> digit c \<or> c = CHR ''-'') s"

definition normalize_login :: "string \<Rightarrow> string" where "normalize_login raw = lower raw"

definition resolve_actor :: "string option \<Rightarrow> resolved_actor" where
  "resolve_actor author =
     (case author of
        None \<Rightarrow> \<lparr>ra_klass = ActorMissing, ra_login = None, ra_raw_login = None\<rparr>
      | Some s \<Rightarrow>
          if suffix ''[bot]'' (lower s) then \<lparr>ra_klass = ActorBot, ra_login = None, ra_raw_login = Some s\<rparr>
          else if \<not> login_form s then \<lparr>ra_klass = ActorInvalid, ra_login = None, ra_raw_login = Some s\<rparr>
          else \<lparr>ra_klass = ActorUser, ra_login = Some (normalize_login s), ra_raw_login = Some s\<rparr>)"

text \<open>\<open>IdentityError\<close> with its stage, or a \<open>KeyError\<close> of a dictionary.\<close>

datatype identity_error = IdentityError string | IdentityKeyError

fun normalized_logins :: "string \<Rightarrow> string list \<Rightarrow> identity_error + string set" where
  "normalized_logins stage [] = Inr {}"
| "normalized_logins stage (raw # rest) =
     (case ra_login (resolve_actor (Some raw)) of
        None \<Rightarrow> Inl (IdentityError stage)
      | Some login \<Rightarrow> bind_result (normalized_logins stage rest) (\<lambda>logins. Inr (insert login logins)))"

text \<open>\<open>ProducerAllowlist(logins=frozenset(raws))\<close>\<close>

definition producer_allowlist :: "string list \<Rightarrow> identity_error + string set" where
  "producer_allowlist raws =
     (if raws = [] then Inl (IdentityError ''producer'') else normalized_logins ''producer'' raws)"

section \<open>Checkpoint and results\<close>

record known_record =
  kr_seq :: int
  kr_comment_id :: string
  kr_body_hash :: string

record chain_checkpoint =
  cc_high_water_mark :: int
  cc_known_records :: "known_record list"

definition chain_checkpoint_check :: "chain_checkpoint \<Rightarrow> identity_error + unit" where
  "chain_checkpoint_check cp =
     guard_that
       (0 \<le> cc_high_water_mark cp \<and>
        distinct (map kr_seq (cc_known_records cp)) \<and> distinct (map kr_comment_id (cc_known_records cp)) \<and>
        list_all (\<lambda>k. 1 \<le> kr_seq k \<and> kr_seq k \<le> cc_high_water_mark cp) (cc_known_records cp))
       (IdentityError ''checkpoint'')"

record chain_payload =
  cp_key :: string
  cp_kind :: record_kind
  cp_run :: string
  cp_head :: string
  cp_seq :: int
  cp_prev :: "string option"
  cp_projection :: decoded_projection
  cp_audit_prev :: "int option"

record verified_record =
  vr_seq :: int
  vr_kind :: record_kind
  vr_key :: string
  vr_comment_id :: string
  vr_url :: string
  vr_body :: string
  vr_body_hash :: string
  vr_author_login :: string
  vr_head_sha :: string
  vr_created_at :: string
  vr_projection :: decoded_projection

record chain_verification =
  cv_records :: "verified_record list"
  cv_violations :: "integrity_evidence_ref list"
  cv_max_seq :: int
  cv_assurance_high_water :: int

definition is_intact :: "chain_verification \<Rightarrow> bool" where "is_intact v \<longleftrightarrow> cv_violations v = []"

section \<open>The marker of a record\<close>

definition is_hash :: "string \<Rightarrow> bool" where "is_hash s \<longleftrightarrow> is_hex 64 s"

text \<open>The anchor and the previous hash are values of a JSON object, or absent.\<close>

definition audit_link_error :: "record_kind \<Rightarrow> int \<Rightarrow> json option \<Rightarrow> json option \<Rightarrow> string option" where
  "audit_link_error kind seq anchor previous =
     (if kind \<noteq> K_INTEGRITY_INCIDENT then Some ''audit_prev kind''
      else
        (case anchor of
           Some (JInt a) \<Rightarrow>
             if \<not> (0 \<le> a \<and> a < seq) then Some ''audit_prev range''
             else if a = 0
             then (if previous = None \<or> previous = Some JNull then None else Some ''audit_prev 0 with prev'')
             else
               (case previous of
                  Some (JStr p) \<Rightarrow> if is_hash p then None else Some ''audit_prev without prev''
                | _ \<Rightarrow> Some ''audit_prev without prev'')
         | _ \<Rightarrow> Some ''audit_prev range''))"

fun add_projection :: "(string \<times> json) list \<Rightarrow> (string \<times> json) list \<Rightarrow> identity_error + (string \<times> json) list" where
  "add_projection payload [] = Inr payload"
| "add_projection payload ((k, v) # items) =
     (if k \<in> STRUCTURAL_PAYLOAD_KEYS then Inl (IdentityError ''compose'')
      else add_projection (AList.update k v payload) items)"

definition compose_record_marker_payload ::
  "string \<Rightarrow> record_kind \<Rightarrow> string \<Rightarrow> string \<Rightarrow> int \<Rightarrow> string option \<Rightarrow> (string \<times> json) list \<Rightarrow> int option \<Rightarrow>
   identity_error + (string \<times> json) list" where
  "compose_record_marker_payload key kind run_id head_sha seq prev projection audit_prev =
     (if key = [] \<or> run_id = [] \<or> head_sha = [] then Inl (IdentityError ''compose'')
      else if seq < 1 then Inl (IdentityError ''compose'')
      else if (case audit_prev of
                 Some a \<Rightarrow> audit_link_error kind seq (Some (JInt a)) (map_option JStr prev) \<noteq> None
               | None \<Rightarrow> (seq = 1) \<noteq> (prev = None))
        then Inl (IdentityError ''compose'')
      else if (case prev of Some p \<Rightarrow> \<not> is_hash p | None \<Rightarrow> False) then Inl (IdentityError ''compose'')
      else
        bind_result
          (add_projection
            ([(''key'', JStr key), (''kind'', JStr (kind_value kind)), (''run'', JStr run_id),
              (''head'', JStr head_sha), (''seq'', JInt seq)] @
             (case audit_prev of Some a \<Rightarrow> [(''audit_prev'', JInt a)] | None \<Rightarrow> []) @
             (case prev of Some p \<Rightarrow> [(''prev'', JStr p)] | None \<Rightarrow> []))
            projection)
          (\<lambda>payload. if MAX_PAYLOAD_BYTES < length (dumps (JObj payload)) then Inl (IdentityError ''compose'')
             else Inr payload))"

definition nonempty_str :: "(string \<times> json) list \<Rightarrow> string \<Rightarrow> string option" where
  "nonempty_str items k =
     (case map_of items k of Some (JStr s) \<Rightarrow> if s = [] then None else Some s | _ \<Rightarrow> None)"

text \<open>The structural part of a marker: the dictionary keeps its keys, so a key that occurs is one that \<open>in\<close> finds.\<close>

definition parse_payload :: "(string \<times> json) list \<Rightarrow> string + chain_payload" where
  "parse_payload items =
     (if \<not> fst ` set items \<subseteq> ALLOWED_PAYLOAD_KEYS then Inl ''marker key''
      else
        (case (nonempty_str items ''key'', nonempty_str items ''kind'', nonempty_str items ''run'',
               nonempty_str items ''head'') of
           (Some key, Some kind_text, Some run, Some head) \<Rightarrow>
             (case map_of items ''seq'' of
                Some (JInt seq) \<Rightarrow>
                  if seq < 1 then Inl ''marker seq''
                  else
                    (case kind_of_value kind_text of
                       None \<Rightarrow> Inl ''marker kind''
                     | Some kind \<Rightarrow>
                         (let prev = map_of items ''prev''; anchor = map_of items ''audit_prev'' in
                          case (if anchor \<noteq> None
                                then
                                  (case audit_link_error kind seq anchor prev of
                                     Some e \<Rightarrow> Some e
                                   | None \<Rightarrow>
                                       if anchor = Some (JInt 0) \<and> prev \<noteq> None
                                       then Some ''audit_prev 0 with prev'' else None)
                                else if seq = 1
                                then (if prev \<noteq> None then Some ''genesis with prev'' else None)
                                else
                                  (case prev of
                                     Some (JStr p) \<Rightarrow> if is_hash p then None else Some ''marker prev''
                                   | _ \<Rightarrow> Some ''marker prev'')) of
                            Some e \<Rightarrow> Inl e
                          | None \<Rightarrow>
                              bind_result (decode_record_projection kind items) (\<lambda>projection.
                                Inr \<lparr>cp_key = key, cp_kind = kind, cp_run = run, cp_head = head,
                                     cp_seq = seq, cp_prev = as_str prev, cp_projection = projection,
                                     cp_audit_prev = as_int anchor\<rparr>)))
              | _ \<Rightarrow> Inl ''marker seq'')
         | _ \<Rightarrow> Inl ''marker field''))"

definition parse_record_marker :: "unverified_comment \<Rightarrow> string + chain_payload" where
  "parse_record_marker c =
     (case uc_marker c of
        None \<Rightarrow> Inl ''marker not last''
      | Some m \<Rightarrow>
          if occurrences MARKER_TOKEN (upper (uc_body c)) \<noteq> 1 then Inl ''marker repeated''
          else
            (case em_payload m of
               None \<Rightarrow> Inl ''marker json''
             | Some items \<Rightarrow>
                 if MAX_PAYLOAD_BYTES < length (em_raw_json m) then Inl ''marker too large''
                 else if em_raw_json m \<noteq> dumps (JObj items) then Inl ''marker not canonical''
                 else if \<not> suffix (newline # marker_line (em_raw_json m)) (uc_body c) then Inl ''marker not own line''
                 else parse_payload items))"

section \<open>Probes\<close>

datatype probe_outcome = ProbeFound unverified_comment | ProbeMissing string

section \<open>Violations\<close>

definition violation_ref ::
  "string \<Rightarrow> string \<Rightarrow> string \<Rightarrow> string \<Rightarrow> (string \<times> json) list \<Rightarrow> integrity_evidence_ref" where
  "violation_ref condition run_id subject detection_head fs =
     \<lparr>ie_binding = OpaqueBinding (''iv:'' @ condition @ '':'' @ run_id @ '':'' @ subject),
      ie_descriptor = OpaqueRef (dumps (JObj (AList.update ''type'' (JStr condition) fs))),
      ie_head = OpaqueRef detection_head\<rparr>"

abbreviation comment_subject :: "string \<Rightarrow> string" where "comment_subject cid \<equiv> CHR ''c'' # cid"

abbreviation seq_subject :: "int \<Rightarrow> string" where "seq_subject seq \<equiv> CHR ''s'' # padded (nat seq)"

section \<open>The verification of a chain\<close>

record candidate =
  ca_comment :: unverified_comment
  ca_payload :: chain_payload
  ca_author_login :: string

text \<open>\<open>_dedupe\<close>: of the observations of a comment the one updated last, the first of equals.\<close>

definition add_observation ::
  "unverified_comment \<Rightarrow> (string \<times> unverified_comment) list \<Rightarrow> (string \<times> unverified_comment) list" where
  "add_observation c pool =
     (case map_of pool (uc_comment_id c) of
        None \<Rightarrow> AList.update (uc_comment_id c) c pool
      | Some e \<Rightarrow> if uc_updated_at c > uc_updated_at e then AList.update (uc_comment_id c) c pool else pool)"

definition probed_comments :: "(string \<times> probe_outcome) list \<Rightarrow> unverified_comment list" where
  "probed_comments probes = List.map_filter (\<lambda>(i, p). case p of ProbeFound c \<Rightarrow> Some c | ProbeMissing _ \<Rightarrow> None) probes"

definition dedupe ::
  "unverified_comment list \<Rightarrow> (string \<times> probe_outcome) list \<Rightarrow> (string \<times> unverified_comment) list" where
  "dedupe comments probes = fold add_observation (comments @ probed_comments probes) []"

text \<open>One comment of the pool: not a record of the run, a violation, or a candidate.\<close>

datatype classified = Unrelated | Violating integrity_evidence_ref | Candidate candidate

definition classify :: "string \<Rightarrow> string \<Rightarrow> string set \<Rightarrow> unverified_comment \<Rightarrow> classified" where
  "classify run_id detection_head producers c =
     (if \<not> contains MARKER_TOKEN (upper (uc_body c)) then Unrelated
      else
        (case parse_record_marker c of
           Inl reason \<Rightarrow>
             Violating (violation_ref ''marker'' run_id (comment_subject (uc_comment_id c)) detection_head
               [(''comment_id'', JStr (uc_comment_id c)), (''reason'', JStr reason)])
         | Inr p \<Rightarrow>
             if cp_run p \<noteq> run_id then Unrelated
             else
               (case ra_login (resolve_actor (uc_author_login c)) of
                  Some login \<Rightarrow>
                    if login \<in> producers
                    then Candidate \<lparr>ca_comment = c, ca_payload = p, ca_author_login = login\<rparr>
                    else Violating (violation_ref ''actor'' run_id (comment_subject (uc_comment_id c)) detection_head
                      [(''comment_id'', JStr (uc_comment_id c)), (''seq'', JInt (cp_seq p))])
                | None \<Rightarrow>
                    Violating (violation_ref ''actor'' run_id (comment_subject (uc_comment_id c)) detection_head
                      [(''comment_id'', JStr (uc_comment_id c)), (''seq'', JInt (cp_seq p))]))))"

definition violating :: "classified list \<Rightarrow> integrity_evidence_ref list" where
  "violating cs = List.map_filter (\<lambda>c. case c of Violating v \<Rightarrow> Some v | _ \<Rightarrow> None) cs"

definition candidates_of :: "classified list \<Rightarrow> candidate list" where
  "candidates_of cs = List.map_filter (\<lambda>c. case c of Candidate x \<Rightarrow> Some x | _ \<Rightarrow> None) cs"

text \<open>\<open>by_seq.setdefault(seq, []).append(candidate)\<close>\<close>

fun append_to :: "'k \<Rightarrow> 'v \<Rightarrow> ('k \<times> 'v list) list \<Rightarrow> ('k \<times> 'v list) list" where
  "append_to k v [] = [(k, [v])]"
| "append_to k v ((k', vs) # m) = (if k = k' then (k', vs @ [v]) # m else (k', vs) # append_to k v m)"

definition by_seq :: "candidate list \<Rightarrow> (int \<times> candidate list) list" where
  "by_seq cs = fold (\<lambda>c. append_to (cp_seq (ca_payload c)) c) cs []"

definition signature :: "candidate \<Rightarrow> string \<times> string" where
  "signature c = (cp_key (ca_payload c), uc_body_hash (ca_comment c))"

definition canonical_key :: "candidate \<Rightarrow> string \<times> nat \<times> string" where
  "canonical_key c =
     (uc_created_at (ca_comment c), length (uc_comment_id (ca_comment c)), uc_comment_id (ca_comment c))"

definition conflicting :: "candidate list \<Rightarrow> bool" where
  "conflicting entries \<longleftrightarrow> 1 < length (remdups (map signature entries))"

definition canonical_of :: "(int \<times> candidate list) list \<Rightarrow> (int \<times> candidate) list" where
  "canonical_of groups =
     map (\<lambda>(seq, entries). (seq, arg_min_list canonical_key entries)) (filter (\<lambda>(seq, entries). \<not> conflicting entries) groups)"

definition conflict_violations ::
  "string \<Rightarrow> string \<Rightarrow> (int \<times> candidate list) list \<Rightarrow> integrity_evidence_ref list" where
  "conflict_violations run_id detection_head groups =
     map (\<lambda>(seq, entries). violation_ref ''seqconflict'' run_id (seq_subject seq) detection_head
            [(''seq'', JInt seq),
             (''comment_ids'', JArr (map JStr (sort (map (\<lambda>c. uc_comment_id (ca_comment c)) entries))))])
       (filter (\<lambda>(seq, entries). conflicting entries) groups)"

definition edited :: "candidate \<Rightarrow> bool" where
  "edited c \<longleftrightarrow> uc_updated_at (ca_comment c) \<noteq> uc_created_at (ca_comment c)"

definition edited_violations ::
  "string \<Rightarrow> string \<Rightarrow> (int \<times> candidate) list \<Rightarrow> integrity_evidence_ref list" where
  "edited_violations run_id detection_head canonical =
     map (\<lambda>(seq, c). violation_ref ''edited'' run_id (comment_subject (uc_comment_id (ca_comment c))) detection_head
            [(''comment_id'', JStr (uc_comment_id (ca_comment c))), (''seq'', JInt seq)])
       (filter (\<lambda>(seq, c). edited c) canonical)"

definition reliable_of :: "(int \<times> candidate) list \<Rightarrow> (int \<times> candidate) list" where
  "reliable_of canonical = filter (\<lambda>(seq, c). \<not> edited c) canonical"

definition max_default :: "int list \<Rightarrow> int" where "max_default ns = (if ns = [] then 0 else Max (set ns))"

definition gap_violations :: "string \<Rightarrow> string \<Rightarrow> int list \<Rightarrow> int \<Rightarrow> integrity_evidence_ref list" where
  "gap_violations run_id detection_head seen high_water =
     map (\<lambda>seq. violation_ref ''gap'' run_id (seq_subject seq) detection_head
            [(''seq'', JInt seq), (''high_water'', JInt high_water)])
       (filter (\<lambda>seq. seq \<notin> set seen) [1..max (max_default seen) high_water])"

text \<open>The known records: missing ones, and those whose body has another hash, with their comment ids.\<close>

fun known_violations ::
  "string \<Rightarrow> string \<Rightarrow> (string \<times> unverified_comment) list \<Rightarrow> (string \<times> probe_outcome) list \<Rightarrow>
   known_record list \<Rightarrow> identity_error + integrity_evidence_ref list \<times> string list" where
  "known_violations run_id head pool probes [] = Inr ([], [])"
| "known_violations run_id head pool probes (k # ks) =
     (case map_of probes (kr_comment_id k) of
        Some (ProbeMissing _) \<Rightarrow>
          bind_result (known_violations run_id head pool probes ks) (\<lambda>(vs, tampered).
            Inr (violation_ref ''missing'' run_id (comment_subject (kr_comment_id k)) head
                  [(''comment_id'', JStr (kr_comment_id k)), (''seq'', JInt (kr_seq k))] # vs, tampered))
      | _ \<Rightarrow>
          (case map_of pool (kr_comment_id k) of
             None \<Rightarrow> Inl IdentityKeyError
           | Some current \<Rightarrow>
               bind_result (known_violations run_id head pool probes ks) (\<lambda>(vs, tampered).
                 Inr
                   (if uc_body_hash current \<noteq> kr_body_hash k
                    then
                      (violation_ref ''tamper'' run_id (comment_subject (kr_comment_id k)) head
                        [(''comment_id'', JStr (kr_comment_id k)), (''seq'', JInt (kr_seq k)),
                         (''expected'', JStr (kr_body_hash k)), (''observed'', JStr (uc_body_hash current))] # vs,
                       kr_comment_id k # tampered)
                    else (vs, tampered)))))"

text \<open>The links: the state of the loop is the set of broken sequence numbers and the violations.\<close>

definition eligible_anchors ::
  "(int \<times> candidate) list \<Rightarrow> string list \<Rightarrow> int list \<Rightarrow> int \<Rightarrow> int list" where
  "eligible_anchors reliable tampered broken seq =
     filter (\<lambda>n. n < seq \<and> n \<notin> set broken \<and>
       (case map_of reliable n of None \<Rightarrow> False
        | Some c \<Rightarrow> uc_comment_id (ca_comment c) \<notin> set tampered)) (map fst reliable)"

definition chain_step ::
  "string \<Rightarrow> string \<Rightarrow> (int \<times> candidate) list \<Rightarrow> string list \<Rightarrow> int \<times> candidate \<Rightarrow>
   int list \<times> integrity_evidence_ref list \<Rightarrow> int list \<times> integrity_evidence_ref list" where
  "chain_step run_id detection_head reliable tampered = (\<lambda>(seq, c) (broken, vs).
     (let anchor = cp_audit_prev (ca_payload c);
          previous_seq = (case anchor of None \<Rightarrow> seq - 1 | Some a \<Rightarrow> a);
          expected_anchor = max_default (eligible_anchors reliable tampered broken seq) in
      if anchor \<noteq> None \<and> anchor \<noteq> Some expected_anchor
      then
        (broken @ [seq],
         vs @ [violation_ref ''chain'' run_id (seq_subject seq) detection_head
           [(''seq'', JInt seq), (''expected_anchor'', JInt expected_anchor), (''observed_anchor'', JInt (the anchor))]])
      else if previous_seq < 1 then (broken, vs)
      else
        (case map_of reliable previous_seq of
           None \<Rightarrow> (broken, vs)
         | Some p \<Rightarrow>
             (let expected = uc_body_hash (ca_comment p) in
              if cp_prev (ca_payload c) \<noteq> Some expected
              then
                (broken @ [seq],
                 vs @ [violation_ref ''chain'' run_id (seq_subject seq) detection_head
                   [(''seq'', JInt seq), (''expected'', JStr expected),
                    (''observed'', case cp_prev (ca_payload c) of None \<Rightarrow> JNull | Some h \<Rightarrow> JStr h)]])
              else (broken, vs)))))"

definition verified_record_of :: "int \<times> candidate \<Rightarrow> verified_record" where
  "verified_record_of = (\<lambda>(seq, c).
     (let comment = ca_comment c; payload = ca_payload c in
      \<lparr>vr_seq = seq, vr_kind = cp_kind payload, vr_key = cp_key payload, vr_comment_id = uc_comment_id comment,
       vr_url = uc_url comment, vr_body = uc_body comment, vr_body_hash = uc_body_hash comment,
       vr_author_login = ca_author_login c, vr_head_sha = cp_head payload, vr_created_at = uc_created_at comment,
       vr_projection = cp_projection payload\<rparr>))"

definition verify_record_chain ::
  "unverified_comment list \<Rightarrow> string \<Rightarrow> string \<Rightarrow> string set \<Rightarrow> chain_checkpoint option \<Rightarrow>
   (string \<times> probe_outcome) list \<Rightarrow> identity_error + chain_verification" where
  "verify_record_chain comments run_id detection_head producers checkpoint probes =
     (let pool = dedupe comments probes;
          known = (case checkpoint of None \<Rightarrow> [] | Some cp \<Rightarrow> cc_known_records cp);
          high_water = (case checkpoint of None \<Rightarrow> 0 | Some cp \<Rightarrow> cc_high_water_mark cp) in
      if \<not> list_all (\<lambda>k. map_of pool (kr_comment_id k) \<noteq> None \<or> map_of probes (kr_comment_id k) \<noteq> None) known
      then Inl (IdentityError ''probe'')
      else
        (let classes = map (\<lambda>(i, c). classify run_id detection_head producers c) pool;
             groups = by_seq (candidates_of classes);
             canonical = canonical_of groups;
             reliable = reliable_of canonical;
             seen = map fst groups in
         bind_result (known_violations run_id detection_head pool probes known) (\<lambda>(lost, tampered).
           (let ordered = sort_key fst reliable;
                (broken, unlinked) = fold (chain_step run_id detection_head reliable tampered) ordered ([], []) in
            Inr
              \<lparr>cv_records =
                 map verified_record_of
                   (filter (\<lambda>(seq, c). seq \<notin> set broken \<and> uc_comment_id (ca_comment c) \<notin> set tampered) ordered),
               cv_violations =
                 canonicalize_integrity
                   (violating classes @ conflict_violations run_id detection_head groups @
                    edited_violations run_id detection_head canonical @
                    gap_violations run_id detection_head seen high_water @ lost @ unlinked),
               cv_max_seq = max_default seen,
               cv_assurance_high_water = high_water\<rparr>))))"

end
