(* ===== verification/Marker_Laws.thy ===== *)
theory Marker_Laws
  imports Utf8_Laws Json_Roundtrip Record_Chain
begin

text \<open>
  A marker attached to a body that does not contain the token is found again by \<open>extract_marker\<close> and read by
  \<open>parse_record_marker\<close> as the payload that was composed.
\<close>

section \<open>Keys of a composed payload\<close>

lemma add_projection_append:
  "add_projection base items = Inr p \<Longrightarrow> distinct (map fst (base @ items)) \<Longrightarrow>
   p = base @ items \<and> fst ` set items \<inter> STRUCTURAL_PAYLOAD_KEYS = {}"
proof (induction base items rule: add_projection.induct)
  case (2 base k v items)
  have "AList.update k v b = b @ [(k, v)]" if "k \<notin> fst ` set b" for b :: "(string \<times> json) list"
    using that by (induction b) auto
  moreover have "k \<notin> fst ` set base" using 2(3) by auto
  ultimately show ?case using 2 by (auto split: if_splits)
qed simp

lemma map_of_sorted: "distinct (map fst p) \<Longrightarrow> map_of (sort_key fst p) = map_of p"
  by (rule map_of_inject_set [THEN iffD2]) (simp_all add: distinct_map inj_on_def)

lemma distinct_sorted: "distinct (map fst p) \<Longrightarrow> distinct (map fst (sort_key fst p))"
  by (simp add: distinct_map inj_on_def)

lemma dumps_sorted: "dumps (JObj (sort_key fst p)) = dumps (JObj p)"
  using sort_key_id_if_sorted [of fst "sort_key fst p"] by simp

lemma parse_payload_sorted:
  assumes "distinct (map fst p)"
  shows "parse_payload (sort_key fst p) = parse_payload p"
  using decode_cong [OF map_of_sorted [OF assms] distinct_sorted [OF assms] assms]
  unfolding parse_payload_def nonempty_str_def map_of_sorted [OF assms] set_sort by (simp only:)

text \<open>The base of the payload, before its projection.\<close>

definition payload_base ::
  "string \<Rightarrow> record_kind \<Rightarrow> string \<Rightarrow> string \<Rightarrow> int \<Rightarrow> string option \<Rightarrow> int option \<Rightarrow> (string \<times> json) list" where
  "payload_base key kind run_id head_sha seq prev audit_prev =
     [(''key'', JStr key), (''kind'', JStr (kind_value kind)), (''run'', JStr run_id),
      (''head'', JStr head_sha), (''seq'', JInt seq)] @
     (case audit_prev of Some a \<Rightarrow> [(''audit_prev'', JInt a)] | None \<Rightarrow> []) @
     (case prev of Some p \<Rightarrow> [(''prev'', JStr p)] | None \<Rightarrow> [])"

definition link_ok :: "record_kind \<Rightarrow> int \<Rightarrow> string option \<Rightarrow> int option \<Rightarrow> bool" where
  "link_ok kind seq prev audit_prev \<longleftrightarrow>
     1 \<le> seq \<and> (case prev of Some p \<Rightarrow> is_hash p | None \<Rightarrow> True) \<and>
     (case audit_prev of
        Some a \<Rightarrow> kind = K_INTEGRITY_INCIDENT \<and> 0 \<le> a \<and> a < seq \<and> (a = 0 \<longleftrightarrow> prev = None)
      | None \<Rightarrow> seq = 1 \<longleftrightarrow> prev = None)"

lemma audit_link_iff:
  "audit_link_error kind seq (Some (JInt a)) (map_option JStr prev) = None \<longleftrightarrow>
   kind = K_INTEGRITY_INCIDENT \<and> 0 \<le> a \<and> a < seq \<and> (a = 0 \<longrightarrow> prev = None) \<and>
   (a \<noteq> 0 \<longrightarrow> (\<exists>p. prev = Some p \<and> is_hash p))"
  by (cases prev) (auto simp: audit_link_error_def)

lemma base_keys:
  "fst ` set (payload_base key kind run_id head_sha seq prev audit_prev) \<subseteq> STRUCTURAL_PAYLOAD_KEYS"
  "distinct (map fst (payload_base key kind run_id head_sha seq prev audit_prev))"
  by (auto simp: payload_base_def STRUCTURAL_PAYLOAD_KEYS_def split: option.splits)

lemma structural_not_projection: "STRUCTURAL_PAYLOAD_KEYS \<inter> PROJECTION_KEYS = {}"
  by (auto simp: STRUCTURAL_PAYLOAD_KEYS_def PROJECTION_KEYS_def projection_key_defs)

lemma compose_payload:
  assumes "compose_record_marker_payload key kind run_id head_sha seq prev projection audit_prev = Inr p"
    and "fst ` set projection \<subseteq> PROJECTION_KEYS" and "distinct (map fst projection)"
  shows "p = payload_base key kind run_id head_sha seq prev audit_prev @ projection"
    and "distinct (map fst p)" and "link_ok kind seq prev audit_prev"
    and "key \<noteq> []" "run_id \<noteq> []" "head_sha \<noteq> []" and "length (dumps (JObj p)) \<le> MAX_PAYLOAD_BYTES"
proof -
  let ?base = "payload_base key kind run_id head_sha seq prev audit_prev"
  have d: "distinct (map fst (?base @ projection))"
    using base_keys [of key kind run_id head_sha seq prev audit_prev] assms(2,3) structural_not_projection
    by auto
  have add: "add_projection ?base projection = Inr p"
    using assms(1) by (auto simp: compose_record_marker_payload_def payload_base_def bind_result_Inr split: if_splits)
  show "p = ?base @ projection" using add_projection_append [OF add d] by simp
  then show "distinct (map fst p)" using d by simp
  have "1 \<le> seq" "case prev of Some p \<Rightarrow> is_hash p | None \<Rightarrow> True"
    using assms(1) by (auto simp: compose_record_marker_payload_def bind_result_Inr split: if_splits option.splits)
  moreover have "case audit_prev of
      Some a \<Rightarrow> audit_link_error kind seq (Some (JInt a)) (map_option JStr prev) = None
    | None \<Rightarrow> seq = 1 \<longleftrightarrow> prev = None"
    using assms(1) by (auto simp: compose_record_marker_payload_def bind_result_Inr split: if_splits option.splits)
  ultimately show "link_ok kind seq prev audit_prev"
    unfolding audit_link_iff link_ok_def by (auto split: option.splits)
  show "key \<noteq> []" "run_id \<noteq> []" "head_sha \<noteq> []" "length (dumps (JObj p)) \<le> MAX_PAYLOAD_BYTES"
    using assms(1) by (auto simp: compose_record_marker_payload_def bind_result_Inr split: if_splits)
qed

section \<open>The payload is read back\<close>

lemma decode_projection_part:
  assumes "fst ` set projection \<subseteq> PROJECTION_KEYS" and "fst ` set base \<inter> PROJECTION_KEYS = {}"
  shows "decode_record_projection kind (base @ projection) = decode_record_projection kind projection"
proof -
  have "filter (\<lambda>(k, v). k \<in> PROJECTION_KEYS) base = []" using assms(2) by (auto simp: filter_empty_conv)
  then have "filter (\<lambda>(k, v). k \<in> PROJECTION_KEYS) (base @ projection) =
      filter (\<lambda>(k, v). k \<in> PROJECTION_KEYS) projection" by simp
  then show ?thesis unfolding decode_record_projection_def by (simp only:)
qed

lemma payload_lookup:
  assumes "fst ` set projection \<subseteq> PROJECTION_KEYS" and "k \<in> STRUCTURAL_PAYLOAD_KEYS"
  shows "map_of (base @ projection) k = map_of base k"
proof -
  have "map_of projection k = None"
    using assms structural_not_projection by (auto simp: map_of_eq_None_iff)
  then show ?thesis by (simp add: map_add_def split: option.split)
qed

lemma base_lookup:
  "map_of (payload_base key kind run_id head_sha seq prev audit_prev) ''key'' = Some (JStr key)"
  "map_of (payload_base key kind run_id head_sha seq prev audit_prev) ''kind'' = Some (JStr (kind_value kind))"
  "map_of (payload_base key kind run_id head_sha seq prev audit_prev) ''run'' = Some (JStr run_id)"
  "map_of (payload_base key kind run_id head_sha seq prev audit_prev) ''head'' = Some (JStr head_sha)"
  "map_of (payload_base key kind run_id head_sha seq prev audit_prev) ''seq'' = Some (JInt seq)"
  "map_of (payload_base key kind run_id head_sha seq prev audit_prev) ''prev'' = map_option JStr prev"
  "map_of (payload_base key kind run_id head_sha seq prev audit_prev) ''audit_prev'' = map_option JInt audit_prev"
  by (simp_all add: payload_base_def split: option.split)

lemma structural_keys:
  "''key'' \<in> STRUCTURAL_PAYLOAD_KEYS" "''kind'' \<in> STRUCTURAL_PAYLOAD_KEYS"
  "''run'' \<in> STRUCTURAL_PAYLOAD_KEYS" "''head'' \<in> STRUCTURAL_PAYLOAD_KEYS" "''seq'' \<in> STRUCTURAL_PAYLOAD_KEYS"
  "''prev'' \<in> STRUCTURAL_PAYLOAD_KEYS" "''audit_prev'' \<in> STRUCTURAL_PAYLOAD_KEYS"
  by (simp_all add: STRUCTURAL_PAYLOAD_KEYS_def)

lemma parse_composed:
  assumes "compose_record_marker_payload key kind run_id head_sha seq prev projection audit_prev = Inr p"
    and "fst ` set projection \<subseteq> PROJECTION_KEYS" and "distinct (map fst projection)"
    and "decode_record_projection kind projection = Inr dp"
  shows "parse_payload (sort_key fst p) =
    Inr \<lparr>cp_key = key, cp_kind = kind, cp_run = run_id, cp_head = head_sha, cp_seq = seq, cp_prev = prev,
         cp_projection = dp, cp_audit_prev = audit_prev\<rparr>"
proof -
  note p = compose_payload [OF assms(1-3)]
  let ?base = "payload_base key kind run_id head_sha seq prev audit_prev"
  have base: "fst ` set ?base \<subseteq> STRUCTURAL_PAYLOAD_KEYS" by (rule base_keys(1))
  then have "fst ` set ?base \<inter> PROJECTION_KEYS = {}" using structural_not_projection by blast
  then have dec: "decode_record_projection kind p = Inr dp"
    using decode_projection_part [OF assms(2), of ?base kind] assms(4) by (simp only: p(1))
  have keys: "fst ` set p \<subseteq> ALLOWED_PAYLOAD_KEYS"
    using base assms(2) unfolding p(1) ALLOWED_PAYLOAD_KEYS_def set_append image_Un by blast
  note look = structural_keys [THEN payload_lookup [OF assms(2)], of ?base, folded p(1), unfolded base_lookup]
  have "kind_value kind \<noteq> []" by (cases kind) simp_all
  then have fields: "nonempty_str p ''key'' = Some key" "nonempty_str p ''kind'' = Some (kind_value kind)"
    "nonempty_str p ''run'' = Some run_id" "nonempty_str p ''head'' = Some head_sha"
    using p(4-6) by (simp_all add: nonempty_str_def look)
  have link: "1 \<le> seq" "audit_prev = Some a \<Longrightarrow> audit_link_error kind seq (Some (JInt a)) (map_option JStr prev) = None"
    for a using p(3) by (auto simp: link_ok_def audit_link_iff split: option.splits)
  show ?thesis
    unfolding parse_payload_sorted [OF p(2)]
    unfolding parse_payload_def Let_def fields look
    using p(3) keys link dec kind_of_value [of K_INTEGRITY_INCIDENT]
    by (cases audit_prev; cases prev) (auto simp: link_ok_def as_str_def as_int_def split: if_splits)
qed

section \<open>The marker is found\<close>

lemma check_marker_items_iff:
  "check_marker_items items = Inr () \<longleftrightarrow>
   (\<forall>(k, v) \<in> set items. k \<in> ALLOWED_PAYLOAD_KEYS \<and> marker_value_ok v)"
  by (induction items rule: check_marker_items.induct) auto

lemma length_joined: "s \<in> set ss \<Longrightarrow> length s \<le> length (joined ss)"
  by (induction ss rule: joined.induct) auto

lemma length_dumps_item: "(k, v) \<in> set kvs \<Longrightarrow> length (dumps v) \<le> length (dumps (JObj kvs))"
  using length_joined [of "item (k, v)" "map item (sort_key fst kvs)"] by force

lemma length_show_int: "length (show_nat (nat \<bar>i\<bar>)) \<le> length (show_int i)"
  by (simp add: show_int_def)

lemma flat_payload:
  assumes "check_marker_items p = Inr ()" and "length (dumps (JObj p)) \<le> MAX_PAYLOAD_BYTES"
  shows "flat p"
proof -
  have "flat_value v" if kv: "(k, v) \<in> set p" for k v
  proof -
    have ok: "marker_value_ok v" using assms(1) kv unfolding check_marker_items_iff by blast
    have "length (dumps v) \<le> max_int_digits"
      using length_dumps_item [OF kv] assms(2) by (simp add: MAX_PAYLOAD_BYTES_def max_int_digits_def)
    then show ?thesis
      using ok length_show_int by (auto simp: marker_value_ok_def flat_value_def split: json.splits intro: le_trans)
  qed
  then show ?thesis by (auto simp: list_all_iff)
qed

lemma dumps_braces: "\<exists>s. dumps (JObj p) = CHR ''{'' # s @ ''}''"
  by auto

lemma rstrip_closed: "rstrip_spaces (s @ '' -->'') = s @ '' -->''"
proof -
  have heads: "list_all (\<lambda>(p, u). p \<noteq> [] \<and> hd p \<noteq> CHR ''>'') space_table" by code_simp
  have "list_all (\<lambda>(p, u). p \<noteq> [] \<and> hd p \<noteq> CHR ''>'') table \<Longrightarrow> strip_entry table (CHR ''>'' # t) = None"
    for table t
    by (induction table) (auto simp: prefix_Cons)
  from this [OF heads] show ?thesis by (simp add: rstrip_spaces_def)
qed

lemma marker_open_token: "marker_open = ''<!-- '' @ MARKER_TOKEN @ '':v1 ''"
  by (simp add: marker_open_def MARKER_VERSION_def)

declare marker_group.simps [simp del]

lemma marker_group_Cons:
  "\<not> prefix marker_open (c # s) \<Longrightarrow> marker_group (c # s) = marker_group s"
  by (simp add: marker_group.simps)

lemma marker_group_skip:
  assumes "newline \<notin> set marker_open" and "\<not> contains MARKER_TOKEN xs"
  shows "marker_group (xs @ newline # s) = marker_group (newline # s)"
  using assms(2)
proof (induction xs)
  case (Cons x xs)
  have "\<not> prefix marker_open (x # xs)"
  proof
    assume "prefix marker_open (x # xs)"
    then obtain r where "x # xs = ''<!-- '' @ MARKER_TOKEN @ '':v1 '' @ r"
      by (auto simp: prefix_def marker_open_token)
    then show False using Cons.prems contains_iff by metis
  qed
  then have "\<not> prefix marker_open (x # xs @ newline # s)"
    using prefix_separated [OF assms(1), of "x # xs" s] by simp
  moreover have "\<not> contains MARKER_TOKEN xs" using Cons.prems by simp
  ultimately show ?case using Cons.IH by (simp add: marker_group_Cons)
qed simp

lemma newline_not_open: "newline \<notin> set marker_open"
  by (simp add: marker_open_def MARKER_TOKEN_def MARKER_VERSION_def newline_def)

lemma marker_group_newline: "marker_group (newline # s) = marker_group s"
proof -
  have "\<not> prefix marker_open (newline # s)"
    by (simp add: marker_open_def newline_def)
  then show ?thesis by (rule marker_group_Cons)
qed

lemma marker_group_found:
  assumes "e = CHR ''{'' # r" and "r \<noteq> []"
  shows "marker_group (marker_open @ e) = Some e"
proof -
  obtain c cs where cs: "marker_open = c # cs" by (cases marker_open) (simp_all add: marker_open_def)
  have "2 \<le> length e" "prefix ''{'' e" using assms by (cases r, auto)+
  moreover have "drop (length marker_open) (c # cs @ e) = e" "prefix marker_open (c # cs @ e)"
    unfolding cs by simp_all
  ultimately have "marker_group (c # cs @ e) = Some e" unfolding marker_group.simps Let_def by simp
  then show ?thesis unfolding cs by simp
qed

lemma match_marker_attached:
  assumes "\<not> contains MARKER_TOKEN b" and "e = CHR ''{'' # r @ ''}''"
  shows "match_marker (b @ [newline, newline] @ marker_line e) = Some e"
proof -
  let ?t = "b @ newline # newline # marker_open @ e"
  have t: "b @ [newline, newline] @ marker_line e = ?t @ '' -->''"
    by (simp add: marker_line_def marker_close_def)
  have s: "suffix (''}'' @ marker_close) (?t @ '' -->'')"
    unfolding suffix_def assms(2) marker_close_def
    by (rule exI [of _ "b @ newline # newline # marker_open @ CHR ''{'' # r"]) simp
  have "marker_group ?t = marker_group (marker_open @ e)"
    using marker_group_skip [OF newline_not_open assms(1)] marker_group_newline by simp
  also have "\<dots> = Some e" by (rule marker_group_found [OF assms(2)]) simp
  finally show ?thesis
    unfolding t match_marker_def rstrip_closed using s by (simp add: marker_close_def Let_def)
qed

lemma rstrip_split: "\<exists>z. s = rstrip_newlines s @ z \<and> (z = [] \<or> hd z = newline)"
proof -
  let ?z = "takeWhile (\<lambda>c. c = newline) (rev s)"
  have "s = rstrip_newlines s @ rev ?z"
    unfolding rstrip_newlines_def rev_append [symmetric] takeWhile_dropWhile_id by simp
  moreover have "last ?z = newline" if "?z \<noteq> []"
    using set_takeWhileD [OF last_in_set [OF that]] by simp
  then have "rev ?z = [] \<or> hd (rev ?z) = newline" by (cases "?z = []") (simp_all add: hd_rev)
  ultimately show ?thesis by blast
qed

section \<open>The token occurs once\<close>

abbreviation mentions_token :: "string \<Rightarrow> bool" where
  "mentions_token s \<equiv> contains MARKER_TOKEN (upper s)"

lemma token_plain: "plain_upper MARKER_TOKEN"
  by (simp add: plain_upper_def MARKER_TOKEN_def ascii_def upper_char_def)

lemma separators [simp]:
  "ascii newline" "upper_char newline = newline" "newline \<notin> set MARKER_TOKEN"
  "ascii CHR '' ''" "upper_char CHR '' '' = CHR '' ''" "CHR '' '' \<notin> set MARKER_TOKEN"
  by (simp_all add: newline_def ascii_def upper_char_def MARKER_TOKEN_def)

lemma not_contains_upper: "\<not> mentions_token s \<Longrightarrow> \<not> contains MARKER_TOKEN s"
  using contains_upper [OF token_plain] by auto

lemma mentions_append:
  assumes "mentions_token b" and "z = [] \<or> hd z = newline"
  shows "mentions_token (b @ z)"
proof (cases z)
  case (Cons c zs)
  have "contains MARKER_TOKEN (upper b @ r)" for r
    using assms(1) unfolding contains_iff by (metis append_assoc)
  then show ?thesis using Cons assms(2) upper_separated [of newline b zs] by simp
qed (use assms in simp)

lemma upper_words:
  "upper (newline # ''<!--'') = newline # ''<!--''" "upper (MARKER_TOKEN @ '':v1'') = MARKER_TOKEN @ '':V1''"
  "upper ''-->'' = ''-->''"
  by code_simp+

lemma token_words:
  "occurrences MARKER_TOKEN (newline # ''<!--'') = 0" "occurrences MARKER_TOKEN (MARKER_TOKEN @ '':V1'') = 1"
  "occurrences MARKER_TOKEN ''-->'' = 0"
  by code_simp+

lemma occurrences_attached:
  "occurrences MARKER_TOKEN (upper (b @ [newline, newline] @ marker_line e)) =
   Suc (occurrences MARKER_TOKEN (upper b) + occurrences MARKER_TOKEN (upper e))"
proof -
  have "b @ [newline, newline] @ marker_line e =
      b @ newline # (newline # ''<!--'') @ CHR '' '' # (MARKER_TOKEN @ '':v1'') @ CHR '' '' # e @ CHR '' '' # ''-->''"
    by (simp add: marker_line_def marker_open_token marker_close_def)
  then have "upper (b @ [newline, newline] @ marker_line e) =
      upper b @ newline # (newline # ''<!--'') @ CHR '' '' # (MARKER_TOKEN @ '':V1'') @ CHR '' '' #
        upper e @ CHR '' '' # ''-->''"
    by (simp only: upper_separated separators upper_words)
  then show ?thesis
    by (simp only: occurrences_separated separators MARKER_TOKEN_nonempty token_words not_False_eq_True
        add_0_left add_0_right One_nat_def add_Suc_right add_Suc plus_1_eq_Suc)
qed

section \<open>Reading an attached marker\<close>

definition marker_for :: "(string \<times> json) list \<Rightarrow> extracted_marker" where
  "marker_for p = \<lparr>em_raw_json = dumps (JObj p), em_payload = Some (sort_key fst p)\<rparr>"

lemma attached_text: "attach_marker body p = Inr text \<Longrightarrow>
  text = rstrip_newlines body @ [newline, newline] @ marker_line (dumps (JObj p))"
  by (cases "check_marker_items p") (simp_all add: attach_marker_def Let_def split: if_splits)

lemma mentions_rstrip: "mentions_token (rstrip_newlines body) \<Longrightarrow> mentions_token body"
  using rstrip_split [of body] mentions_append [of "rstrip_newlines body"] by metis

lemma token_once:
  assumes "attach_marker body p = Inr text" and "\<not> mentions_token body" and "\<not> mentions_token (dumps (JObj p))"
  shows "occurrences MARKER_TOKEN (upper text) = 1"
  using assms(2,3) mentions_rstrip occurrences_zero [OF MARKER_TOKEN_nonempty]
  unfolding attached_text [OF assms(1)] occurrences_attached by (auto simp del: dumps.simps)

theorem attached_marker_read:
  assumes compose: "compose_record_marker_payload key kind run_id head_sha seq prev projection audit_prev = Inr p"
    and keys: "fst ` set projection \<subseteq> PROJECTION_KEYS" "distinct (map fst projection)"
    and decode: "decode_record_projection kind projection = Inr dp"
    and attach: "attach_marker body p = Inr text"
    and once: "occurrences MARKER_TOKEN (upper text) = 1"
    and budget: "0 < recursion_budget py"
  shows "extract_marker py text = Inr (Some (marker_for p))"
    and "uc_body c = text \<Longrightarrow> uc_marker c = Some (marker_for p) \<Longrightarrow>
      parse_record_marker c =
        Inr \<lparr>cp_key = key, cp_kind = kind, cp_run = run_id, cp_head = head_sha, cp_seq = seq, cp_prev = prev,
             cp_projection = dp, cp_audit_prev = audit_prev\<rparr>"
    and "mentions_token text"
proof -
  let ?e = "dumps (JObj p)" and ?b = "rstrip_newlines body"
  note p = compose_payload [OF compose keys]
  have items: "check_marker_items p = Inr ()"
    using attach by (cases "check_marker_items p") (simp_all add: attach_marker_def)
  note whole = attached_text [OF attach]
  obtain r where e: "?e = CHR ''{'' # r @ ''}''" using dumps_braces by blast
  have b: "\<not> mentions_token ?b"
    using once occurrences_zero [OF MARKER_TOKEN_nonempty] unfolding whole occurrences_attached by auto
  have "match_marker text = Some ?e"
    unfolding whole by (rule match_marker_attached [OF not_contains_upper [OF b] e])
  moreover have "loads (py\<lparr>accepts_constants := True\<rparr>) ?e = Inr (JObj (sort_key fst p))"
    by (rule loads_dumps [OF flat_payload [OF items p(7)] p(2)]) (simp add: budget)
  ultimately show "extract_marker py text = Inr (Some (marker_for p))"
    by (simp add: extract_marker_def marker_for_def)
  show "mentions_token text" using once occurrences_zero [OF MARKER_TOKEN_nonempty, of "upper text"] by auto
  have "suffix (newline # marker_line ?e) text"
    unfolding whole suffix_def by (rule exI [of _ "?b @ [newline]"]) simp
  then show "parse_record_marker c =
      Inr \<lparr>cp_key = key, cp_kind = kind, cp_run = run_id, cp_head = head_sha, cp_seq = seq, cp_prev = prev,
           cp_projection = dp, cp_audit_prev = audit_prev\<rparr>"
    if "uc_body c = text" "uc_marker c = Some (marker_for p)"
    using that once p(7) parse_composed [OF compose keys decode] dumps_sorted [of p]
    by (simp add: parse_record_marker_def marker_for_def del: dumps.simps)
qed

end
