(* ===== verification/Chain_Laws.thy ===== *)
theory Chain_Laws
  imports Marker_Laws
begin

text \<open>
  The verification of a chain taken apart: what the pool, the groups and the links are, and what the absence of
  violations says about them; then what one intact verification says about the record with a given number, and what two of
  them have in common: the hash of one record fixes the records before it.
\<close>

section \<open>The pool\<close>

lemma map_of_update: "map_of (AList.update k v al) = (map_of al)(k \<mapsto> v)"
  by (simp add: update_conv')

lemma set_update_subset: "set (AList.update k v al) \<subseteq> insert (k, v) (set al)"
  by (induction al) auto

lemma append_new: "k \<notin> fst ` set m \<Longrightarrow> append_to k v m = m @ [(k, [v])]"
  by (induction k v m rule: append_to.induct) auto

lemma pool_entries:
  "(i, c) \<in> set (fold add_observation cs pool) \<Longrightarrow>
   (\<forall>(j, d) \<in> set pool. uc_comment_id d = j) \<Longrightarrow> uc_comment_id c = i \<and> (c \<in> set cs \<or> (i, c) \<in> set pool)"
proof (induction cs arbitrary: pool)
  case (Cons x cs)
  have sub: "set (add_observation x pool) \<subseteq> insert (uc_comment_id x, x) (set pool)"
    by (auto simp: add_observation_def split: option.splits dest!: subsetD [OF set_update_subset])
  then have "\<forall>(j, d) \<in> set (add_observation x pool). uc_comment_id d = j" using Cons.prems(2) by auto
  from Cons.IH [OF _ this] Cons.prems(1) sub show ?case by auto
qed auto

lemma distinct_pool: "distinct (map fst pool) \<Longrightarrow> distinct (map fst (fold add_observation cs pool))"
  by (induction cs arbitrary: pool)
     (auto simp: add_observation_def distinct_update split: option.splits)

lemma dedupe_entries:
  assumes "(i, c) \<in> set (dedupe comments probes)"
  shows "uc_comment_id c = i \<and> c \<in> set comments \<union> set (probed_comments probes)"
  using pool_entries [of i c "comments @ probed_comments probes" "[]"] assms by (auto simp: dedupe_def)

lemma pool_distinct_comments:
  "distinct (map uc_comment_id cs) \<Longrightarrow> uc_comment_id ` set cs \<inter> fst ` set pool = {} \<Longrightarrow>
   fold add_observation cs pool = pool @ map (\<lambda>c. (uc_comment_id c, c)) cs"
proof (induction cs arbitrary: pool)
  case (Cons x cs)
  have "uc_comment_id x \<notin> fst ` set pool" using Cons.prems(2) by auto
  moreover from this have "map_of pool (uc_comment_id x) = None" by (simp add: map_of_eq_None_iff)
  moreover have "k \<notin> fst ` set al \<Longrightarrow> AList.update k v al = al @ [(k, v)]" for k :: string and v :: unverified_comment and al
    by (induction al) auto
  ultimately have "add_observation x pool = pool @ [(uc_comment_id x, x)]" by (simp add: add_observation_def)
  then show ?case using Cons.prems Cons.IH [of "pool @ [(uc_comment_id x, x)]"] by auto
qed simp

lemma dedupe_distinct:
  "distinct (map uc_comment_id cs) \<Longrightarrow> dedupe cs [] = map (\<lambda>c. (uc_comment_id c, c)) cs"
  using pool_distinct_comments [of cs "[]"] by (simp add: dedupe_def probed_comments_def List.map_filter_simps)

section \<open>Groups\<close>

abbreviation seq_of :: "candidate \<Rightarrow> int" where "seq_of c \<equiv> cp_seq (ca_payload c)"

lemma append_to_lookup:
  "map_of (append_to k v m) k' = (if k' = k then Some ((case map_of m k of None \<Rightarrow> [] | Some vs \<Rightarrow> vs) @ [v]) else map_of m k')"
  by (induction k v m rule: append_to.induct) auto

lemma append_to_keys: "fst ` set (append_to k v m) = insert k (fst ` set m)"
  by (induction k v m rule: append_to.induct) auto

lemma append_to_distinct: "distinct (map fst m) \<Longrightarrow> distinct (map fst (append_to k v m))"
  by (induction k v m rule: append_to.induct) (auto simp: append_to_keys)

lemma by_seq_snoc: "by_seq (cs @ [c]) = append_to (seq_of c) c (by_seq cs)"
  by (simp add: by_seq_def)

lemma by_seq_keys: "fst ` set (by_seq cs) = seq_of ` set cs"
  by (induction cs rule: rev_induct) (simp_all add: by_seq_snoc append_to_keys, simp add: by_seq_def)

lemma by_seq_distinct: "distinct (map fst (by_seq cs))"
  by (induction cs rule: rev_induct) (simp_all add: by_seq_snoc append_to_distinct, simp add: by_seq_def)

lemma by_seq_lookup:
  "map_of (by_seq cs) s = (if s \<in> seq_of ` set cs then Some (filter (\<lambda>c. seq_of c = s) cs) else None)"
proof (induction cs rule: rev_induct)
  case Nil
  then show ?case by (simp add: by_seq_def)
next
  case (snoc c cs)
  have "filter (\<lambda>c. seq_of c = s) cs = []" if "s \<notin> seq_of ` set cs" using that by (auto simp: filter_empty_conv)
  then show ?case using snoc by (auto simp: by_seq_snoc append_to_lookup)
qed

lemma by_seq_entry:
  assumes "(s, entries) \<in> set (by_seq cs)"
  shows "entries = filter (\<lambda>c. seq_of c = s) cs" and "entries \<noteq> []"
proof -
  have "map_of (by_seq cs) s = Some entries" using assms by_seq_distinct by (simp add: map_of_eq_Some_iff)
  then show "entries = filter (\<lambda>c. seq_of c = s) cs" "entries \<noteq> []"
    unfolding by_seq_lookup by (auto simp: filter_empty_conv split: if_splits)
qed

lemma by_seq_singletons:
  "distinct (map seq_of cs) \<Longrightarrow> by_seq cs = map (\<lambda>c. (seq_of c, [c])) cs"
proof (induction cs rule: rev_induct)
  case (snoc c cs)
  then have "seq_of c \<notin> fst ` set (map (\<lambda>c. (seq_of c, [c])) cs)" by auto
  from append_new [OF this] show ?case using snoc by (simp add: by_seq_snoc)
qed (simp add: by_seq_def)

lemma arg_min_list_member: "xs \<noteq> [] \<Longrightarrow> arg_min_list f xs \<in> set xs"
  by (rule arg_min_list_in)

section \<open>The links\<close>

lemma fold_clean_iff:
  assumes grow: "\<And>x b v. \<exists>b' v'. f x (b, v) = (b @ b', v @ v') \<and> (v' = [] \<longrightarrow> b' = [])"
  shows "snd (fold f xs ([], [])) = [] \<longleftrightarrow> (\<forall>x \<in> set xs. f x ([], []) = ([], []))"
    and "snd (fold f xs ([], [])) = [] \<Longrightarrow> fold f xs ([], []) = ([], [])"
proof -
  have keeps: "snd (fold f xs (b, v)) = [] \<Longrightarrow> v = []" for xs b v
  proof (induction xs arbitrary: b v)
    case (Cons x xs)
    obtain b' v' where "f x (b, v) = (b @ b', v @ v')" using grow by blast
    then show ?case using Cons.IH [of "b @ b'" "v @ v'"] Cons.prems by simp
  qed simp
  have all: "snd (fold f xs ([], [])) = [] \<Longrightarrow>
      (\<forall>x \<in> set xs. f x ([], []) = ([], [])) \<and> fold f xs ([], []) = ([], [])" for xs
  proof (induction xs)
    case (Cons x xs)
    obtain b' v' where f: "f x ([], []) = (b', v')" "v' = [] \<longrightarrow> b' = []" using grow [of x "[]" "[]"] by auto
    have "snd (fold f xs (b', v')) = []" using Cons.prems f(1) by (simp only: fold_simps)
    then have "v' = []" by (rule keeps)
    then have x: "f x ([], []) = ([], [])" using f by simp
    then have "snd (fold f xs ([], [])) = []" using Cons.prems by simp
    from Cons.IH [OF this] x show ?case by (metis fold_simps(2) set_ConsD)
  qed simp
  have converse: "\<forall>x \<in> set xs. f x ([], []) = ([], []) \<Longrightarrow> fold f xs ([], []) = ([], [])" for xs
  proof (induction xs)
    case (Cons x xs)
    then have "f x ([], []) = ([], [])" "fold f xs ([], []) = ([], [])" by (blast intro: list.set_intros)+
    then show ?case by simp
  qed simp
  show "snd (fold f xs ([], [])) = [] \<longleftrightarrow> (\<forall>x \<in> set xs. f x ([], []) = ([], []))"
  proof
    assume "\<forall>x \<in> set xs. f x ([], []) = ([], [])"
    from converse [OF this] show "snd (fold f xs ([], [])) = []" by simp
  qed (use all in blast)
  show "snd (fold f xs ([], [])) = [] \<Longrightarrow> fold f xs ([], []) = ([], [])" using all by blast
qed

lemma chain_step_grows:
  "\<exists>b' v'. chain_step run_id head reliable tampered x (b, v) = (b @ b', v @ v') \<and> (v' = [] \<longrightarrow> b' = [])"
proof (cases x)
  case (Pair s c)
  then show ?thesis by (auto simp: chain_step_def Let_def split: option.split)
qed

definition linked :: "(int \<times> candidate) list \<Rightarrow> int \<times> candidate \<Rightarrow> bool" where
  "linked reliable = (\<lambda>(s, c).
     (cp_audit_prev (ca_payload c) = None \<or> cp_audit_prev (ca_payload c) = Some (s - 1)) \<and>
     (2 \<le> s \<longrightarrow> (\<exists>p. map_of reliable (s - 1) = Some p \<and>
        cp_prev (ca_payload c) = Some (uc_body_hash (ca_comment p)))))"

lemma max_default_interval:
  assumes "set ns = {1..n}" and "0 \<le> n"
  shows "max_default ns = n"
proof (cases "ns = []")
  case True
  then show ?thesis using assms by (auto simp: max_default_def)
next
  case False
  then have "{1..n} \<noteq> {}" using assms(1) by (metis set_empty)
  then have "Max {1..n} = n" by (intro Max_eqI) auto
  then show ?thesis using False assms(1) by (simp add: max_default_def)
qed

lemma clean_link_iff:
  assumes keys: "fst ` set reliable = {1..m}" and x: "(s, c) \<in> set reliable"
  shows "chain_step run_id head reliable [] (s, c) ([], []) = ([], []) \<longleftrightarrow> linked reliable (s, c)"
proof -
  have s: "1 \<le> s" "s \<le> m" using keys x by force+
  have "map_of reliable n \<noteq> None" if "n \<in> fst ` set reliable" for n
    using that by (simp add: map_of_eq_None_iff)
  then have "set (eligible_anchors reliable [] [] s) = {n \<in> fst ` set reliable. n < s}"
    by (auto simp: eligible_anchors_def split: option.split)
  also have "\<dots> = {1..s - 1}" unfolding keys using s by auto
  finally have anchor: "max_default (eligible_anchors reliable [] [] s) = s - 1"
    using s by (intro max_default_interval) auto
  have "\<exists>p. map_of reliable (s - 1) = Some p" if "2 \<le> s"
  proof -
    have "s - 1 \<in> fst ` set reliable" unfolding keys using s that by simp
    then show ?thesis by (metis map_of_eq_None_iff option.exhaust)
  qed
  then show ?thesis
    using s anchor by (auto simp: chain_step_def linked_def Let_def split: option.splits if_splits)
qed

section \<open>What an intact chain is\<close>

definition candidates_in ::
  "string \<Rightarrow> string \<Rightarrow> string set \<Rightarrow> (string \<times> unverified_comment) list \<Rightarrow> candidate list" where
  "candidates_in run_id head producers pool =
     candidates_of (map (\<lambda>(i, c). classify run_id head producers c) pool)"

lemma candidates_in_iff:
  "x \<in> set (candidates_in run_id head producers pool) \<longleftrightarrow>
   (\<exists>(i, c) \<in> set pool. classify run_id head producers c = Candidate x)"
  by (force simp: candidates_in_def candidates_of_def List.map_filter_def split: classified.splits)

lemma violating_empty_iff:
  "violating cs = [] \<longleftrightarrow> (\<forall>c \<in> set cs. \<forall>v. c \<noteq> Violating v)"
  by (force simp: violating_def List.map_filter_def filter_empty_conv split: classified.splits)

lemma classify_candidate:
  "classify run_id head producers c = Candidate x \<longleftrightarrow>
   contains MARKER_TOKEN (upper (uc_body c)) \<and> ca_comment x = c \<and> parse_record_marker c = Inr (ca_payload x) \<and>
   cp_run (ca_payload x) = run_id \<and> ra_login (resolve_actor (uc_author_login c)) = Some (ca_author_login x) \<and>
   ca_author_login x \<in> producers"
  by (cases x) (auto simp: classify_def split: sum.splits option.splits)

lemma parse_payload_seq: "parse_payload items = Inr p \<Longrightarrow> 1 \<le> cp_seq p"
  by (auto simp: parse_payload_def Let_def bind_result_Inr split: option.split_asm json.split_asm if_split_asm)

lemma parse_marker_seq: "parse_record_marker c = Inr p \<Longrightarrow> 1 \<le> cp_seq p"
  by (auto simp: parse_record_marker_def dest: parse_payload_seq split: option.split_asm if_split_asm)

lemma known_clean:
  "known_violations run_id head pool probes ks = Inr ([], tampered) \<Longrightarrow>
   tampered = [] \<and> (\<forall>k \<in> set ks. \<exists>c. map_of pool (kr_comment_id k) = Some c \<and> uc_body_hash c = kr_body_hash k)"
  by (induction ks arbitrary: tampered)
     (auto simp: bind_result_Inr split: option.split_asm probe_outcome.split_asm if_split_asm)

abbreviation known_of :: "chain_checkpoint option \<Rightarrow> known_record list" where
  "known_of cp \<equiv> (case cp of None \<Rightarrow> [] | Some c \<Rightarrow> cc_known_records c)"

abbreviation high_water_of :: "chain_checkpoint option \<Rightarrow> int" where
  "high_water_of cp \<equiv> (case cp of None \<Rightarrow> 0 | Some c \<Rightarrow> cc_high_water_mark c)"

lemma gap_free:
  assumes gaps: "gap_violations run_id head seen hw = []" and pos: "\<And>s. s \<in> set seen \<Longrightarrow> 1 \<le> s"
  shows "set seen = {1..max_default seen}" and "0 \<le> max_default seen" and "hw \<le> max_default seen"
proof -
  have all: "{1..max (max_default seen) hw} \<subseteq> set seen"
    using gaps by (auto simp: gap_violations_def filter_empty_conv)
  have le: "s \<in> set seen \<Longrightarrow> s \<le> max_default seen" for s
    by (cases seen) (auto simp: max_default_def)
  show zero: "0 \<le> max_default seen"
    using pos [of "Max (set seen)"] Max_in [of "set seen"] by (cases "seen = []") (auto simp: max_default_def)
  show "set seen = {1..max_default seen}" using all le pos by fastforce
  show "hw \<le> max_default seen"
  proof (rule ccontr)
    assume "\<not> hw \<le> max_default seen"
    then have "hw \<in> set seen" using all zero by (auto simp: subset_iff)
    then show False using le \<open>\<not> hw \<le> max_default seen\<close> by blast
  qed
qed

text \<open>The candidates in the order of their numbers: the chain behind an intact verification.\<close>

definition chain_of :: "string \<Rightarrow> string \<Rightarrow> string set \<Rightarrow> (string \<times> unverified_comment) list \<Rightarrow> (int \<times> candidate) list" where
  "chain_of run_id head producers pool =
     sort_key fst (reliable_of (canonical_of (by_seq (candidates_in run_id head producers pool))))"

definition genuine :: "string \<Rightarrow> string set \<Rightarrow> (string \<times> unverified_comment) list \<Rightarrow> int \<times> candidate \<Rightarrow> bool" where
  "genuine run_id producers pool = (\<lambda>(s, c).
     seq_of c = s \<and> (uc_comment_id (ca_comment c), ca_comment c) \<in> set pool \<and> \<not> edited c \<and>
     parse_record_marker (ca_comment c) = Inr (ca_payload c) \<and> cp_run (ca_payload c) = run_id \<and>
     ra_login (resolve_actor (uc_author_login (ca_comment c))) = Some (ca_author_login c) \<and>
     ca_author_login c \<in> producers)"

lemma canonical_entry:
  assumes "(s, c) \<in> set (canonical_of (by_seq cs))"
  shows "c \<in> set cs \<and> seq_of c = s"
proof -
  obtain entries where e: "(s, entries) \<in> set (by_seq cs)" "c = arg_min_list canonical_key entries"
    using assms by (auto simp: canonical_of_def)
  then show ?thesis using by_seq_entry [OF e(1)] arg_min_list_member [of entries canonical_key] by auto
qed

lemma chain_genuine:
  assumes "x \<in> set (chain_of run_id head producers pool)" and "\<forall>(i, c) \<in> set pool. uc_comment_id c = i"
  shows "genuine run_id producers pool x"
proof -
  obtain s c where x: "x = (s, c)" by (cases x)
  then have r: "(s, c) \<in> set (canonical_of (by_seq (candidates_in run_id head producers pool)))" "\<not> edited c"
    using assms(1) by (auto simp: chain_of_def reliable_of_def)
  then have "c \<in> set (candidates_in run_id head producers pool)" "seq_of c = s" using canonical_entry by blast+
  then obtain i d where "(i, d) \<in> set pool" "classify run_id head producers d = Candidate c"
    by (auto simp: candidates_in_iff)
  then show ?thesis
    using assms(2) r(2) \<open>seq_of c = s\<close> by (auto simp: x genuine_def classify_candidate)
qed

lemma intact_chain_facts:
  assumes v: "verify_record_chain comments run_id head producers cp probes = Inr v" and i: "is_intact v"
  defines "chain \<equiv> chain_of run_id head producers (dedupe comments probes)"
  shows "map fst chain = [1..cv_max_seq v]"
    and "cv_records v = map verified_record_of chain"
    and "\<forall>x \<in> set chain. linked chain x"
    and "0 \<le> cv_max_seq v" and "high_water_of cp \<le> cv_max_seq v"
    and "\<forall>k \<in> set (known_of cp). \<exists>c. map_of (dedupe comments probes) (kr_comment_id k) = Some c \<and>
      uc_body_hash c = kr_body_hash k"
    and "\<forall>(j, c) \<in> set (dedupe comments probes). mentions_token (uc_body c) \<longrightarrow>
      (\<exists>p. parse_record_marker c = Inr p \<and> (cp_run p = run_id \<longrightarrow>
        (\<exists>login \<in> producers. ra_login (resolve_actor (uc_author_login c)) = Some login)))"
proof -
  let ?pool = "dedupe comments probes"
  let ?classes = "map (\<lambda>(i, c). classify run_id head producers c) ?pool"
  let ?cands = "candidates_in run_id head producers ?pool"
  let ?groups = "by_seq ?cands"
  let ?canonical = "canonical_of ?groups"
  let ?reliable = "reliable_of ?canonical"
  let ?links = "\<lambda>tampered. fold (chain_step run_id head ?reliable tampered) chain ([], [])"
  obtain lost tampered where parts:
    "known_violations run_id head ?pool probes (known_of cp) = Inr (lost, tampered)"
    "v = \<lparr>cv_records = map verified_record_of
            (filter (\<lambda>(seq, c). seq \<notin> set (fst (?links tampered)) \<and>
               uc_comment_id (ca_comment c) \<notin> set tampered) chain),
          cv_violations = canonicalize_integrity
            (violating ?classes @ conflict_violations run_id head ?groups @
             edited_violations run_id head ?canonical @
             gap_violations run_id head (map fst ?groups) (high_water_of cp) @ lost @ snd (?links tampered)),
          cv_max_seq = max_default (map fst ?groups), cv_assurance_high_water = high_water_of cp\<rparr>"
  proof -
    assume that: "\<And>lost tampered. known_violations run_id head ?pool probes (known_of cp) = Inr (lost, tampered) \<Longrightarrow>
        v = \<lparr>cv_records = map verified_record_of
            (filter (\<lambda>(seq, c). seq \<notin> set (fst (?links tampered)) \<and>
               uc_comment_id (ca_comment c) \<notin> set tampered) chain),
          cv_violations = canonicalize_integrity
            (violating ?classes @ conflict_violations run_id head ?groups @
             edited_violations run_id head ?canonical @
             gap_violations run_id head (map fst ?groups) (high_water_of cp) @ lost @ snd (?links tampered)),
          cv_max_seq = max_default (map fst ?groups), cv_assurance_high_water = high_water_of cp\<rparr> \<Longrightarrow> thesis"
    show thesis
      using v that unfolding verify_record_chain_def chain_def chain_of_def candidates_in_def Let_def
      by (auto simp: bind_result_Inr case_prod_unfold split: if_split_asm)
  qed
  have none: "violating ?classes = []" "conflict_violations run_id head ?groups = []"
    "edited_violations run_id head ?canonical = []"
    "gap_violations run_id head (map fst ?groups) (high_water_of cp) = []" "lost = []" "snd (?links tampered) = []"
    using i parts(2) by (simp_all add: is_intact_def)
  have known: "tampered = []" "\<forall>k \<in> set (known_of cp). \<exists>c. map_of ?pool (kr_comment_id k) = Some c \<and>
      uc_body_hash c = kr_body_hash k"
    using known_clean parts(1) none(5) by blast+
  have keys: "map fst ?reliable = map fst ?groups"
    using none(2,3)
    by (simp add: conflict_violations_def edited_violations_def canonical_of_def reliable_of_def
        filter_empty_conv filter_True split_beta flip: filter_False)
  have pos: "1 \<le> s" if "s \<in> set (map fst ?groups)" for s
    using that by_seq_keys [of ?cands] parse_marker_seq by (fastforce simp: candidates_in_iff classify_candidate)
  note gap = gap_free [OF none(4) pos]
  have m: "cv_max_seq v = max_default (map fst ?groups)" using parts(2) by simp
  show "0 \<le> cv_max_seq v" "high_water_of cp \<le> cv_max_seq v" using gap(2,3) m by simp_all
  have rk: "fst ` set ?reliable = {1..cv_max_seq v}" using gap(1) keys m by (metis set_map)
  have chain: "set chain = set ?reliable" "map_of chain = map_of ?reliable"
    using map_of_sorted [of ?reliable] by_seq_distinct keys by (simp_all add: chain_def chain_of_def)
  show "map fst chain = [1..cv_max_seq v]"
  proof (rule sorted_distinct_set_unique)
    show "sorted (map fst chain)" by (simp add: chain_def chain_of_def)
    have "distinct (map fst ?reliable)" using by_seq_distinct keys by metis
    then show "distinct (map fst chain)" unfolding chain_def chain_of_def by (rule distinct_sorted)
    show "set (map fst chain) = set [1..cv_max_seq v]" using rk chain(1) by simp
  qed simp_all
  have clean: "snd (fold (chain_step run_id head ?reliable []) chain ([], [])) = []"
    using none(6) known(1) by simp
  then show "cv_records v = map verified_record_of chain"
    using fold_clean_iff(2) [OF chain_step_grows clean] parts(2) known(1) by simp
  have "linked ?reliable x" if "x \<in> set chain" for x
  proof (cases x)
    case (Pair s c)
    with that chain(1) have "(s, c) \<in> set ?reliable" by simp
    then show ?thesis
      using fold_clean_iff(1) [OF chain_step_grows, THEN iffD1, OF clean] that clean_link_iff [OF rk] Pair by blast
  qed
  moreover have "linked ?reliable = linked chain" unfolding linked_def chain(2) ..
  ultimately show "\<forall>x \<in> set chain. linked chain x" by simp
  show "\<forall>k \<in> set (known_of cp). \<exists>c. map_of ?pool (kr_comment_id k) = Some c \<and> uc_body_hash c = kr_body_hash k"
    by (rule known(2))
  have "\<forall>(j, c) \<in> set ?pool. \<forall>w. classify run_id head producers c \<noteq> Violating w"
    using none(1) unfolding violating_empty_iff by auto
  then show "\<forall>(j, c) \<in> set ?pool. mentions_token (uc_body c) \<longrightarrow>
      (\<exists>p. parse_record_marker c = Inr p \<and> (cp_run p = run_id \<longrightarrow>
        (\<exists>login \<in> producers. ra_login (resolve_actor (uc_author_login c)) = Some login)))"
    unfolding classify_def by (fastforce split: sum.split_asm option.split_asm if_split_asm)
qed

section \<open>The record with a number\<close>

lemma map_fst_nth: "map fst xs = [1..m] \<Longrightarrow> i < length xs \<Longrightarrow> fst (xs ! i) = int i + 1"
proof -
  assume keys: "map fst xs = [1..m]" and i: "i < length xs"
  have "i < nat m" using i arg_cong [OF keys, of length] by simp
  then have "[1..m] ! i = 1 + int i" by (intro nth_upto) simp
  then show "fst (xs ! i) = int i + 1" using i keys by (metis nth_map add.commute)
qed

lemma map_fst_lookup:
  assumes "map fst xs = [1..m]" and "i < length xs"
  shows "map_of xs (int i + 1) = Some (snd (xs ! i))"
proof -
  have "distinct (map fst xs)" unfolding assms(1) by simp
  moreover have "(int i + 1, snd (xs ! i)) \<in> set xs"
    using nth_mem [OF assms(2)] map_fst_nth [OF assms] by (metis prod.collapse)
  ultimately show ?thesis by simp
qed

definition content :: "verified_record \<Rightarrow> int \<times> record_kind \<times> string \<times> string \<times> string \<times> decoded_projection" where
  "content r = (vr_seq r, vr_kind r, vr_key r, vr_head_sha r, vr_body r, vr_projection r)"

definition sources :: "unverified_comment list \<Rightarrow> (string \<times> probe_outcome) list \<Rightarrow> unverified_comment set" where
  "sources comments probes = set comments \<union> set (probed_comments probes)"

text \<open>A comment with its payload that a verified record is made of.\<close>

definition written_as ::
  "string \<Rightarrow> string set \<Rightarrow> unverified_comment \<Rightarrow> chain_payload \<Rightarrow> int \<Rightarrow> verified_record \<Rightarrow> bool" where
  "written_as run_id producers c p s r \<longleftrightarrow>
     parse_record_marker c = Inr p \<and> cp_run p = run_id \<and> cp_seq p = s \<and>
     content r = (s, cp_kind p, cp_key p, cp_head p, uc_body c, cp_projection p) \<and>
     vr_comment_id r = uc_comment_id c \<and> vr_body_hash r = uc_body_hash c \<and>
     vr_created_at r = uc_created_at c \<and> uc_updated_at c = uc_created_at c \<and>
     ra_login (resolve_actor (uc_author_login c)) = Some (vr_author_login r) \<and> vr_author_login r \<in> producers"

lemma intact_record:
  assumes v: "verify_record_chain comments run_id head producers cp probes = Inr v" "is_intact v"
    and i: "i < length (cv_records v)"
  shows "\<exists>c \<in> sources comments probes. \<exists>p. written_as run_id producers c p (int i + 1) (cv_records v ! i) \<and>
    (0 < i \<longrightarrow> cp_prev p = Some (vr_body_hash (cv_records v ! (i - 1))))"
proof -
  define chain where "chain = chain_of run_id head producers (dedupe comments probes)"
  note facts = intact_chain_facts [OF v, folded chain_def]
  have len: "length (cv_records v) = length chain" using facts(2) by simp
  then have mem: "chain ! i \<in> set chain" using i by simp
  obtain c where c: "chain ! i = (int i + 1, c)"
    using map_fst_nth [OF facts(1)] i len by (metis prod.collapse)
  have "\<forall>(j, d) \<in> set (dedupe comments probes). uc_comment_id d = j" using dedupe_entries by blast
  then have g: "genuine run_id producers (dedupe comments probes) (int i + 1, c)"
    using chain_genuine mem c unfolding chain_def by metis
  then have src: "ca_comment c \<in> sources comments probes"
    using dedupe_entries by (auto simp: genuine_def sources_def)
  have r: "cv_records v ! i = verified_record_of (int i + 1, c)" using facts(2) i len c by simp
  have "cp_prev (ca_payload c) = Some (vr_body_hash (cv_records v ! (i - 1)))" if pos: "0 < i"
  proof -
    have "linked chain (int i + 1, c)" using facts(3) mem c by metis
    then obtain p where p: "map_of chain (int i) = Some p" "cp_prev (ca_payload c) = Some (uc_body_hash (ca_comment p))"
      using pos by (auto simp: linked_def)
    moreover have "map_of chain (int (i - 1) + 1) = Some (snd (chain ! (i - 1)))"
      using map_fst_lookup [OF facts(1)] i len by simp
    moreover have "cv_records v ! (i - 1) = verified_record_of (chain ! (i - 1))" using facts(2) i len by simp
    ultimately show ?thesis using pos by (simp add: verified_record_of_def Let_def of_nat_diff split: prod.split)
  qed
  moreover have "written_as run_id producers (ca_comment c) (ca_payload c) (int i + 1) (cv_records v ! i)"
    using g unfolding r by (auto simp: written_as_def genuine_def edited_def content_def verified_record_of_def Let_def)
  ultimately show ?thesis using src by blast
qed

section \<open>Two verifications\<close>

lemma observed_same_body:
  assumes "observed py c" "observed py d" and "uc_body c = uc_body d"
  shows "uc_marker c = uc_marker d" and "parse_record_marker c = parse_record_marker d"
proof -
  show m: "uc_marker c = uc_marker d" using assms by (simp add: observed_def)
  show "parse_record_marker c = parse_record_marker d" unfolding parse_record_marker_def m assms(3) ..
qed

lemma same_hash_same_record:
  assumes c: "written_as run_id producers c p s r" "observed py c" and d: "written_as run_id' producers' d q s t" "observed py d"
    and inj: "inj_on body_hash_of A" "uc_body c \<in> A" "uc_body d \<in> A"
    and hash: "vr_body_hash r = vr_body_hash t"
  shows "p = q" and "content r = content t"
proof -
  have "body_hash_of (uc_body c) = body_hash_of (uc_body d)"
    using c d hash by (simp add: written_as_def observed_def)
  then have body: "uc_body c = uc_body d" using inj by (simp add: inj_on_eq_iff)
  then have "parse_record_marker c = parse_record_marker d" using observed_same_body(2) c(2) d(2) by blast
  then show "p = q" using c(1) d(1) by (simp add: written_as_def)
  then show "content r = content t" using body c(1) d(1) by (simp add: written_as_def)
qed

lemma intact_history:
  assumes v: "verify_record_chain comments run_id head producers cp probes = Inr v" "is_intact v"
    and w: "verify_record_chain comments' run_id' head' producers' cp' probes' = Inr w" "is_intact w"
    and obs: "\<forall>c \<in> sources comments probes \<union> sources comments' probes'. observed py c"
    and inj: "inj_on body_hash_of (uc_body ` (sources comments probes \<union> sources comments' probes'))"
    and n: "n < length (cv_records v)" "n < length (cv_records w)"
    and hash: "vr_body_hash (cv_records v ! n) = vr_body_hash (cv_records w ! n)"
    and i: "i \<le> n"
  shows "content (cv_records v ! i) = content (cv_records w ! i)"
  using n hash i
proof (induction n)
  case 0
  then show ?case
    using intact_record [OF v, of 0] intact_record [OF w, of 0] obs
      same_hash_same_record(2) [where ?A = "uc_body ` (sources comments probes \<union> sources comments' probes')", OF _ _ _ _ inj]
    by (metis UnI1 UnI2 image_eqI le_zero_eq)
next
  case (Suc n)
  obtain c p where c: "c \<in> sources comments probes" "written_as run_id producers c p (int (Suc n) + 1) (cv_records v ! Suc n)"
    "cp_prev p = Some (vr_body_hash (cv_records v ! n))"
    using intact_record [OF v Suc.prems(1)] by auto
  obtain d q where d: "d \<in> sources comments' probes'" "written_as run_id' producers' d q (int (Suc n) + 1) (cv_records w ! Suc n)"
    "cp_prev q = Some (vr_body_hash (cv_records w ! n))"
    using intact_record [OF w Suc.prems(2)] by auto
  note same = same_hash_same_record [OF c(2) _ d(2) _ inj _ _ Suc.prems(3)]
  have pq: "p = q" "content (cv_records v ! Suc n) = content (cv_records w ! Suc n)"
    using same c(1) d(1) obs by blast+
  then show ?case using Suc c(3) d(3) by (cases "i = Suc n") auto
qed

end
