(* ===== verification/Chain_Honest.thy ===== *)
theory Chain_Honest
  imports "HOL-Library.Multiset" Chain_Laws
begin

text \<open>
  A client that posts records the way the marker is meant to be used: every record is composed with the hash of
  the comment before it, its marker is attached to the body, and the comment is left as it is. What such a
  client posts verifies as an intact chain.
\<close>

section \<open>Posting\<close>

record draft =
  dr_key :: string
  dr_kind :: record_kind
  dr_head :: string
  dr_body :: string
  dr_projection :: "(string \<times> json) list"
  dr_login :: string
  dr_comment_id :: string
  dr_url :: string
  dr_time :: string

definition post_record :: "interpreter \<Rightarrow> string \<Rightarrow> int \<Rightarrow> string option \<Rightarrow> draft \<Rightarrow> unverified_comment option" where
  "post_record py run_id seq prev d =
     (case compose_record_marker_payload (dr_key d) (dr_kind d) run_id (dr_head d) seq prev (dr_projection d) None of
        Inl _ \<Rightarrow> None
      | Inr p \<Rightarrow>
          (case attach_marker (dr_body d) p of
             Inl _ \<Rightarrow> None
           | Inr body \<Rightarrow>
               (case extract_marker py body of
                  Inl _ \<Rightarrow> None
                | Inr marker \<Rightarrow>
                    Some \<lparr>uc_comment_id = dr_comment_id d, uc_url = dr_url d, uc_author_login = Some (dr_login d),
                          uc_created_at = dr_time d, uc_updated_at = dr_time d, uc_body = body, uc_reply_to = None,
                          uc_review_id = None, uc_body_hash = body_hash_of body, uc_marker = marker\<rparr>)))"

fun post_records ::
  "interpreter \<Rightarrow> string \<Rightarrow> int \<Rightarrow> string option \<Rightarrow> draft list \<Rightarrow> unverified_comment list option" where
  "post_records py run_id seq prev [] = Some []"
| "post_records py run_id seq prev (d # ds) =
     (case post_record py run_id seq prev d of
        None \<Rightarrow> None
      | Some c \<Rightarrow> map_option (Cons c) (post_records py run_id (seq + 1) (Some (uc_body_hash c)) ds))"

text \<open>The drafts that may be posted, and a body whose only token is the one of its marker.\<close>

definition draft_ok :: "string set \<Rightarrow> draft \<Rightarrow> bool" where
  "draft_ok producers d \<longleftrightarrow>
     fst ` set (dr_projection d) \<subseteq> PROJECTION_KEYS \<and> distinct (map fst (dr_projection d)) \<and>
     (case decode_record_projection (dr_kind d) (dr_projection d) of Inl _ \<Rightarrow> False | Inr _ \<Rightarrow> True) \<and>
     (case ra_login (resolve_actor (Some (dr_login d))) of None \<Rightarrow> False | Some login \<Rightarrow> login \<in> producers)"

abbreviation token_once_in :: "unverified_comment \<Rightarrow> bool" where
  "token_once_in c \<equiv> occurrences MARKER_TOKEN (upper (uc_body c)) = 1"

definition candidate_with :: "string \<Rightarrow> int \<Rightarrow> string option \<Rightarrow> unverified_comment \<Rightarrow> candidate \<Rightarrow> bool" where
  "candidate_with run_id s prev c x \<longleftrightarrow>
     ca_comment x = c \<and> cp_seq (ca_payload x) = s \<and> cp_prev (ca_payload x) = prev \<and>
     cp_audit_prev (ca_payload x) = None \<and> \<not> edited x"

lemma post_record_classified:
  assumes post: "post_record py run_id s prev d = Some c" and ok: "draft_ok producers d" "token_once_in c"
    and budget: "0 < recursion_budget py"
  shows "\<exists>x. classify run_id head producers c = Candidate x \<and> candidate_with run_id s prev c x"
proof -
  obtain p marker where
    compose: "compose_record_marker_payload (dr_key d) (dr_kind d) run_id (dr_head d) s prev (dr_projection d) None = Inr p"
    and attach: "attach_marker (dr_body d) p = Inr (uc_body c)"
    and marker: "extract_marker py (uc_body c) = Inr (uc_marker c)"
    and fs: "uc_author_login c = Some (dr_login d)" "uc_created_at c = uc_updated_at c"
    using post by (auto simp: post_record_def split: sum.split_asm)
  obtain dp where dp: "decode_record_projection (dr_kind d) (dr_projection d) = Inr dp"
    using ok(1) by (auto simp: draft_ok_def split: sum.split_asm)
  have keys: "fst ` set (dr_projection d) \<subseteq> PROJECTION_KEYS" "distinct (map fst (dr_projection d))"
    using ok(1) by (simp_all add: draft_ok_def)
  note read = attached_marker_read [OF compose keys dp attach ok(2) budget]
  have "uc_marker c = Some (marker_for p)" using marker read(1) by simp
  then have "parse_record_marker c =
      Inr \<lparr>cp_key = dr_key d, cp_kind = dr_kind d, cp_run = run_id, cp_head = dr_head d, cp_seq = s, cp_prev = prev,
           cp_projection = dp, cp_audit_prev = None\<rparr>"
    by (rule read(2) [OF refl])
  moreover obtain login where "ra_login (resolve_actor (Some (dr_login d))) = Some login" "login \<in> producers"
    using ok(1) by (auto simp: draft_ok_def split: option.split_asm)
  ultimately show ?thesis
    using read(3) fs by (auto simp: classify_def candidate_with_def edited_def)
qed

lemma post_records_nth:
  "post_records py run_id s prev ds = Some cs \<Longrightarrow>
   length cs = length ds \<and>
   (\<forall>i < length cs. post_record py run_id (s + int i) (if i = 0 then prev else Some (uc_body_hash (cs ! (i - 1)))) (ds ! i) = Some (cs ! i))"
proof (induction ds arbitrary: s prev cs)
  case (Cons d ds)
  then obtain c cs' where c: "post_record py run_id s prev d = Some c" "cs = c # cs'"
    "post_records py run_id (s + 1) (Some (uc_body_hash c)) ds = Some cs'"
    by (auto split: option.split_asm)
  note IH = Cons.IH [OF c(3)]
  show ?case
  proof (intro conjI allI impI)
    fix i assume "i < length cs"
    then show "post_record py run_id (s + int i) (if i = 0 then prev else Some (uc_body_hash (cs ! (i - 1)))) ((d # ds) ! i) = Some (cs ! i)"
      using IH [THEN conjunct2, rule_format, of "i - 1"] IH [THEN conjunct1] c(1,2)
      by (cases i; cases "i - 1") (auto simp: algebra_simps)
  qed (use IH c(2) in simp)
qed simp

section \<open>Verifying clean candidates\<close>

lemma known_all_present:
  "\<forall>k \<in> set ks. \<exists>c. map_of pool (kr_comment_id k) = Some c \<and> uc_body_hash c = kr_body_hash k \<Longrightarrow>
   known_violations run_id head pool [] ks = Inr ([], [])"
  by (induction ks) auto

lemma singletons:
  assumes "distinct (map seq_of cs)"
  shows "conflict_violations run_id head (by_seq cs) = []"
    and "canonical_of (by_seq cs) = map (\<lambda>c. (seq_of c, c)) cs"
    and "map fst (by_seq cs) = map seq_of cs"
  by (simp_all add: by_seq_singletons [OF assms] conflict_violations_def canonical_of_def conflicting_def
      filter_map comp_def filter_empty_conv)

lemma unedited:
  assumes "\<forall>c \<in> set cs. \<not> edited c"
  shows "edited_violations run_id head (map (\<lambda>c. (seq_of c, c)) cs) = []"
    and "reliable_of (map (\<lambda>c. (seq_of c, c)) cs) = map (\<lambda>c. (seq_of c, c)) cs"
  using assms by (auto simp: edited_violations_def reliable_of_def filter_empty_conv filter_id_conv)

lemma no_gaps:
  assumes "set seen = {1..n}" and "0 \<le> n" and "high_water \<le> n"
  shows "gap_violations run_id head seen high_water = []" and "max_default seen = n"
  using assms max_default_interval [OF assms(1,2)] by (auto simp: gap_violations_def filter_empty_conv)

lemma clean_verification:
  fixes comments run_id head producers
  defines "cs \<equiv> candidates_of (map (classify run_id head producers) comments)"
  assumes ids: "distinct (map uc_comment_id comments)"
    and clean: "\<forall>c \<in> set comments. \<forall>w. classify run_id head producers c \<noteq> Violating w"
    and seqs: "distinct (map seq_of cs)" "seq_of ` set cs = {1..n}" "0 \<le> n" "high_water_of cp \<le> n"
    and untouched: "\<forall>c \<in> set cs. \<not> edited c"
    and links: "\<forall>c \<in> set cs. linked (map (\<lambda>c. (seq_of c, c)) cs) (seq_of c, c)"
    and known: "\<forall>k \<in> set (known_of cp). \<exists>c \<in> set comments. uc_comment_id c = kr_comment_id k \<and> uc_body_hash c = kr_body_hash k"
  shows "verify_record_chain comments run_id head producers cp [] =
    Inr \<lparr>cv_records = map verified_record_of (sort_key fst (map (\<lambda>c. (seq_of c, c)) cs)), cv_violations = [],
         cv_max_seq = n, cv_assurance_high_water = high_water_of cp\<rparr>"
proof -
  let ?pool = "map (\<lambda>c. (uc_comment_id c, c)) comments" and ?entries = "map (\<lambda>c. (seq_of c, c)) cs"
  have pool: "dedupe comments [] = ?pool" by (rule dedupe_distinct [OF ids])
  have classes: "map (\<lambda>(i, c). classify run_id head producers c) ?pool = map (classify run_id head producers) comments"
    by simp
  have present: "\<forall>k \<in> set (known_of cp). \<exists>c. map_of ?pool (kr_comment_id k) = Some c \<and> uc_body_hash c = kr_body_hash k"
  proof
    fix k assume "k \<in> set (known_of cp)"
    then obtain c where "c \<in> set comments" "uc_comment_id c = kr_comment_id k" "uc_body_hash c = kr_body_hash k"
      using known by blast
    moreover have "distinct (map fst ?pool)" using ids by (simp add: comp_def)
    ultimately show "\<exists>c. map_of ?pool (kr_comment_id k) = Some c \<and> uc_body_hash c = kr_body_hash k"
      by (intro exI [of _ c]) (force simp: map_of_eq_Some_iff)
  qed
  have keys: "fst ` set ?entries = {1..n}" using seqs(2) by (simp add: image_image)
  have "\<forall>x \<in> set (sort_key fst ?entries). chain_step run_id head ?entries [] x ([], []) = ([], [])"
    using links clean_link_iff [OF keys] by auto
  then have fold: "fold (chain_step run_id head ?entries []) (sort_key fst ?entries) ([], []) = ([], [])"
    using fold_clean_iff [of "chain_step run_id head ?entries []" "sort_key fst ?entries", OF chain_step_grows] by blast
  have none: "violating (map (classify run_id head producers) comments) = []"
    using clean unfolding violating_empty_iff by auto
  have probed: "list_all (\<lambda>k. map_of ?pool (kr_comment_id k) \<noteq> None \<or> map_of [] (kr_comment_id k) \<noteq> None) (known_of cp)"
    using present by (auto simp: list_all_iff)
  have "set (map seq_of cs) = {1..n}" using seqs(2) by simp
  note gaps = no_gaps [OF this seqs(3,4)]
  show ?thesis
    unfolding verify_record_chain_def Let_def pool classes cs_def [symmetric] singletons [OF seqs(1)]
      unedited [OF untouched] known_all_present [OF present] none
    using probed gaps fold by simp
qed

section \<open>What was posted verifies\<close>

lemma classified_comment: "classify run_id head producers c = Candidate x \<Longrightarrow> ca_comment x = c"
  by (simp add: classify_candidate)

lemma candidates_comments:
  "map ca_comment (candidates_of (map (classify run_id head producers) comments)) =
   filter (\<lambda>c. \<exists>x. classify run_id head producers c = Candidate x) comments"
  by (induction comments)
     (auto simp: candidates_of_def List.map_filter_simps dest: classified_comment split: classified.split)

lemma candidates_set:
  "x \<in> set (candidates_of (map (classify run_id head producers) comments)) \<longleftrightarrow>
   (\<exists>c \<in> set comments. classify run_id head producers c = Candidate x)"
  by (force simp: candidates_of_def List.map_filter_def split: classified.splits)

lemma distinct_by_image:
  assumes "distinct xs" and "set xs = f ` A" and "\<And>a. a \<in> A \<Longrightarrow> g (f a) = h a" and "inj_on h A"
  shows "distinct (map g xs)" and "g ` set xs = h ` A"
proof -
  show "g ` set xs = h ` A" unfolding assms(2) image_image using assms(3) by simp
  have "inj_on g (f ` A)" using assms(3,4) by (auto simp: inj_on_def)
  then show "distinct (map g xs)" using assms(1,2) by (simp add: distinct_map)
qed

lemma successors: "(\<lambda>i. int i + 1) ` {..<k} = {1..int k}"
proof (intro equalityI subsetI)
  fix x assume "x \<in> {1..int k}"
  then have "x = int (nat (x - 1)) + 1" "nat (x - 1) \<in> {..<k}" by auto
  then show "x \<in> (\<lambda>i. int i + 1) ` {..<k}" by (rule image_eqI)
qed auto

lemma sorted_entries:
  fixes X :: "nat \<Rightarrow> candidate"
  assumes "distinct cs" and "set cs = X ` {..<k}" and "\<And>i. i < k \<Longrightarrow> seq_of (X i) = int i + 1"
  shows "sort_key fst (map (\<lambda>c. (seq_of c, c)) cs) = map (\<lambda>i. (int i + 1, X i)) [0..<k]"
proof (rule sort_key_inj_key_eq)
  let ?es = "map (\<lambda>c. (seq_of c, c)) cs" and ?xs = "map (\<lambda>i. (int i + 1, X i)) [0..<k]"
  have "set ?es = (\<lambda>c. (seq_of c, c)) ` X ` {..<k}" using assms(2) by simp
  also have "\<dots> = (\<lambda>i. (int i + 1, X i)) ` {..<k}"
    unfolding image_image using assms(3) by (intro image_cong) simp_all
  finally have set: "set ?es = set ?xs" by (simp add: atLeast0LessThan)
  have "distinct ?es" using assms(1) by (simp add: distinct_map inj_on_def)
  moreover have "distinct ?xs" by (simp add: distinct_map inj_on_def)
  ultimately show "mset ?es = mset ?xs" using set set_eq_iff_mset_eq_distinct by blast
  show "inj_on fst (set ?es)" unfolding set by (auto simp: inj_on_def)
  show "sorted (map fst ?xs)" by (simp add: sorted_iff_nth_mono comp_def)
qed

lemma posted_chain_intact:
  assumes post: "post_records py run_id 1 None ds = Some posted"
    and ok: "\<forall>d \<in> set ds. draft_ok producers d" "\<forall>c \<in> set posted. token_once_in c" "0 < recursion_budget py"
    and ids: "distinct (map uc_comment_id comments)"
    and comments: "set comments = set (take k posted) \<union> others" "k \<le> length posted"
    and others: "\<forall>c \<in> others. \<not> mentions_token (uc_body c) \<or>
      (\<exists>p. parse_record_marker c = Inr p \<and> cp_run p \<noteq> run_id)"
    and checkpoint: "high_water_of cp \<le> int k" "\<forall>r \<in> set (known_of cp).
      \<exists>c \<in> set (take k posted). uc_comment_id c = kr_comment_id r \<and> uc_body_hash c = kr_body_hash r"
  shows "\<exists>v. verify_record_chain comments run_id head producers cp [] = Inr v \<and> is_intact v \<and>
    cv_max_seq v = int k \<and> map vr_body (cv_records v) = map uc_body (take k posted)"
proof -
  let ?prev = "\<lambda>i. if i = 0 then None else Some (uc_body_hash (posted ! (i - 1)))"
  note nth = post_records_nth [OF post]
  have "\<exists>x. classify run_id head producers (posted ! i) = Candidate x \<and>
      candidate_with run_id (1 + int i) (?prev i) (posted ! i) x" if "i < length posted" for i
    using post_record_classified [of py run_id "1 + int i" "?prev i" "ds ! i" "posted ! i" producers head] nth ok that by simp
  then obtain X where X: "\<And>i. i < length posted \<Longrightarrow> classify run_id head producers (posted ! i) = Candidate (X i) \<and>
      candidate_with run_id (1 + int i) (?prev i) (posted ! i) (X i)" by metis
  define cs where "cs = candidates_of (map (classify run_id head producers) comments)"
  have other: "classify run_id head producers c = Unrelated" if "c \<in> others" for c
    using others that by (auto simp: classify_def)
  have kept: "set (take k posted) = (!) posted ` {..<k}" 
    using nth_image [OF comments(2)] by (simp add: atLeast0LessThan)
  have seq: "seq_of (X i) = int i + 1" if "i < k" for i
    using X [of i] that comments(2) by (simp add: candidate_with_def)
  have cand: "classify run_id head producers (posted ! i) = Candidate (X i)" if "i < k" for i
    using X [of i] that comments(2) by simp
  have set: "set cs = X ` {..<k}"
  proof (intro set_eqI)
    fix x show "x \<in> set cs \<longleftrightarrow> x \<in> X ` {..<k}"
      unfolding cs_def candidates_set comments(1) kept by (auto simp: bex_Un other cand)
  qed
  have "distinct (map ca_comment cs)"
    unfolding cs_def candidates_comments using ids by (simp add: distinct_map)
  then have dist: "distinct cs" by (simp add: distinct_map)
  note sorted = sorted_entries [OF dist set seq]
  have seqs: "distinct (map seq_of cs)" "seq_of ` set cs = {1..int k}"
  proof -
    have "inj_on (\<lambda>i. int i + 1) {..<k}" by (auto simp: inj_on_def)
    from distinct_by_image [OF dist set _ this, of seq_of] seq
    have "distinct (map seq_of cs)" "seq_of ` set cs = (\<lambda>i. int i + 1) ` {..<k}" by simp_all
    then show "distinct (map seq_of cs)" "seq_of ` set cs = {1..int k}" unfolding successors by simp_all
  qed
  have entry: "map_of (map (\<lambda>c. (seq_of c, c)) cs) (int i + 1) = Some (X i)" if "i < k" for i
  proof -
    have "X i \<in> set cs" using that set by blast
    then have "(seq_of (X i), X i) \<in> set (map (\<lambda>c. (seq_of c, c)) cs)" by simp
    then have "(int i + 1, X i) \<in> set (map (\<lambda>c. (seq_of c, c)) cs)" using seq [OF that] by simp
    then show ?thesis using seqs(1) by (intro map_of_is_SomeI) (simp_all add: comp_def)
  qed
  have links: "\<forall>c \<in> set cs. linked (map (\<lambda>c. (seq_of c, c)) cs) (seq_of c, c)"
  proof
    fix c assume "c \<in> set cs"
    then obtain i where i: "i < k" "c = X i" using set by auto
    have c: "cp_audit_prev (ca_payload c) = None" "cp_prev (ca_payload c) = ?prev i"
      using X [of i] i comments(2) by (simp_all add: candidate_with_def)
    have "map_of (map (\<lambda>c. (seq_of c, c)) cs) (int i) = Some (X (i - 1)) \<and> ca_comment (X (i - 1)) = posted ! (i - 1)" if "0 < i"
      using entry [of "i - 1"] X [of "i - 1"] i that comments(2) by (simp add: candidate_with_def of_nat_diff)
    then show "linked (map (\<lambda>c. (seq_of c, c)) cs) (seq_of c, c)"
      using c seq i by (auto simp: linked_def)
  qed
  have clean: "\<forall>c \<in> set comments. \<forall>w. classify run_id head producers c \<noteq> Violating w"
    unfolding comments(1) kept by (auto simp: other cand)
  have unedited: "\<forall>c \<in> set cs. \<not> edited c" using X comments(2) by (auto simp: set candidate_with_def)
  have known: "\<forall>r \<in> set (known_of cp). \<exists>c \<in> set comments. uc_comment_id c = kr_comment_id r \<and> uc_body_hash c = kr_body_hash r"
    using checkpoint(2) comments(1) by blast
  note v = clean_verification [OF ids clean, folded cs_def, OF seqs _ checkpoint(1) unedited links known]
  have "map (vr_body \<circ> verified_record_of) (map (\<lambda>i. (int i + 1, X i)) [0..<k]) = map (\<lambda>i. uc_body (posted ! i)) [0..<k]"
    using X comments(2) by (auto simp: verified_record_of_def Let_def candidate_with_def)
  also have "\<dots> = map uc_body (take k posted)" using comments(2) by (auto simp: list_eq_iff_nth_eq)
  finally show ?thesis using v sorted by (auto simp: is_intact_def comp_assoc)
qed

end
