(* ===== verification/Marker_Escape.thy ===== *)
theory Marker_Escape
  imports Marker_Laws
begin

text \<open>
  What escaping the token in an agent's body achieves and what it does not, and what \<open>extract_marker\<close> does with
  nested JSON.
\<close>

section \<open>No match is left\<close>

lemma escape_start: "fst (escape_tokens cs) = d # t \<Longrightarrow> \<not> ascii d \<Longrightarrow>
  \<exists>cs'. cs = d # cs' \<and> t = fst (escape_tokens cs')"
  by (cases cs) (auto simp: ascii_def ESCAPED_TOKEN_def split: option.splits prod.splits)

lemma match_escaped_letter:
  assumes "match_letter a (c # fst (escape_tokens cs)) = Some rest"
  shows "\<exists>rest'. match_letter a (c # cs) = Some rest' \<and> rest = fst (escape_tokens rest')"
proof (cases "upper_char c = a")
  case False
  then obtain d t where "fst (escape_tokens cs) = d # t" "a = CHR ''I''" "c = CHR 0xC4" "d = CHR 0xB0 \<or> d = CHR 0xB1" "rest = t"
    using assms by (cases "fst (escape_tokens cs)") (auto split: if_splits)
  moreover from this have "\<not> ascii d" by (auto simp: ascii_def)
  ultimately show ?thesis using escape_start [of cs d t] False by fastforce
qed (use assms in simp)

lemma token_over_escaped:
  "list_all (\<lambda>n. match_ignorecase (drop n MARKER_TOKEN) (ESCAPED_TOKEN @ s) = None) [0..<length MARKER_TOKEN]"
  by (simp add: MARKER_TOKEN_def ESCAPED_TOKEN_def upt_rec upper_char_def)

lemma suffix_over_escaped:
  assumes "suffix ts MARKER_TOKEN" and "ts \<noteq> []"
  shows "match_ignorecase ts (ESCAPED_TOKEN @ s) = None"
proof -
  obtain zs where zs: "MARKER_TOKEN = zs @ ts" using assms(1) by (auto simp: suffix_def)
  then have "drop (length zs) MARKER_TOKEN = ts" "length zs < length MARKER_TOKEN"
    unfolding zs using assms(2) by simp_all
  then show ?thesis using token_over_escaped [of s] by (auto simp: list_all_iff)
qed

lemma match_escaped:
  assumes "suffix ts MARKER_TOKEN" and "match_ignorecase ts (fst (escape_tokens cs)) \<noteq> None"
  shows "match_ignorecase ts cs \<noteq> None"
  using assms
proof (induction ts arbitrary: cs)
  case (Cons a ts)
  have suf: "suffix ts MARKER_TOKEN" using Cons.prems(1) by (rule suffix_ConsD)
  obtain c cs' where cs: "cs = c # cs'" using Cons.prems(2) by (cases cs) auto
  have "match_ignorecase MARKER_TOKEN cs = None"
    using Cons.prems suffix_over_escaped [OF Cons.prems(1)]
    by (auto simp: cs split: option.splits prod.splits simp del: match_ignorecase.simps)
  then have esc: "fst (escape_tokens cs) = c # fst (escape_tokens cs')"
    by (simp add: cs split: prod.split)
  then obtain rest where rest: "match_letter a (c # fst (escape_tokens cs')) = Some rest" "match_ignorecase ts rest \<noteq> None"
    using Cons.prems(2) by (auto split: option.splits simp del: match_letter.simps)
  from match_escaped_letter [OF rest(1)] obtain rest' where
    r: "match_letter a cs = Some rest'" "rest = fst (escape_tokens rest')" unfolding cs by blast
  then have "match_ignorecase ts rest' \<noteq> None" using Cons.IH [OF suf] rest(2) by blast
  then show ?case using r(1) by (simp del: match_letter.simps)
qed simp

lemma escape_no_match:
  "match_ignorecase MARKER_TOKEN (c # cs) = None \<Longrightarrow> match_ignorecase MARKER_TOKEN (c # fst (escape_tokens cs)) = None"
proof -
  assume none: "match_ignorecase MARKER_TOKEN (c # cs) = None"
  then have "fst (escape_tokens (c # cs)) = c # fst (escape_tokens cs)"
    by (simp split: prod.split del: match_ignorecase.simps)
  then show ?thesis using match_escaped [of MARKER_TOKEN "c # cs"] none by fastforce
qed

lemma escape_after_escaped:
  "escape_tokens (ESCAPED_TOKEN @ s) = (ESCAPED_TOKEN @ fst (escape_tokens s), snd (escape_tokens s))"
  by (simp add: ESCAPED_TOKEN_def MARKER_TOKEN_def upper_char_def split: prod.split)

lemma escape_idempotent: "escape_tokens (fst (escape_tokens body)) = (fst (escape_tokens body), 0)"
proof (induction body rule: escape_tokens.induct)
  case (2 c cs)
  show ?case
  proof (cases "match_ignorecase MARKER_TOKEN (c # cs)")
    case None
    obtain t n where esc: "escape_tokens cs = (t, n)" by (cases "escape_tokens cs")
    then have "match_ignorecase MARKER_TOKEN (c # t) = None" using escape_no_match [OF None] by simp
    then show ?thesis using 2(1) [OF None] None esc by (simp del: match_ignorecase.simps)
  next
    case (Some rest)
    then show ?thesis using 2(2) escape_after_escaped
      by (simp add: case_prod_unfold Let_def del: match_ignorecase.simps)
  qed
qed simp

section \<open>Plain text\<close>

lemma upper_map: "list_all ascii s \<Longrightarrow> upper s = map upper_char s"
  by (induction s) (simp_all add: upper_ascii del: upper.simps(2))

lemma match_plain:
  "list_all ascii s \<Longrightarrow> prefix ts (map upper_char s) \<Longrightarrow> match_ignorecase ts s \<noteq> None"
proof (induction ts arbitrary: s)
  case (Cons t ts)
  then show ?case by (cases s) (auto simp: prefix_def)
qed simp

lemma unescaped_plain:
  "list_all ascii s \<Longrightarrow> escape_tokens s = (s, 0) \<Longrightarrow> \<not> contains MARKER_TOKEN (map upper_char s)"
proof (induction s)
  case (Cons c s)
  have none: "match_ignorecase MARKER_TOKEN (c # s) = None"
  proof (rule ccontr)
    assume "match_ignorecase MARKER_TOKEN (c # s) \<noteq> None"
    then show False using Cons.prems(2) by (auto split: prod.splits simp del: match_ignorecase.simps)
  qed
  then have "escape_tokens s = (s, 0)" using Cons.prems(2) by (auto split: prod.splits)
  moreover have "\<not> prefix MARKER_TOKEN (map upper_char (c # s))"
    using match_plain [OF Cons.prems(1)] none by blast
  ultimately show ?case using Cons by simp
qed simp

lemma escape_plain: "list_all ascii s \<Longrightarrow> list_all ascii (fst (escape_tokens s))"
proof (induction s rule: escape_tokens.induct)
  case (2 c cs)
  have "suffix r s" if "match_ignorecase ts s = Some r" for ts r s
    using that
  proof (induction ts s rule: match_ignorecase.induct)
    case (2 t ts s)
    have "suffix r' s" if "match_letter t s = Some r'" for r'
      using that by (cases s) (auto simp: suffix_Cons suffix_drop split: if_splits)
    then show ?case using 2 by (auto split: option.splits intro: suffix_order.trans)
  qed simp
  then have "list_all ascii r" if "match_ignorecase MARKER_TOKEN (c # cs) = Some r" for r
    using that 2(3) set_mono_suffix by (fastforce simp: list_all_iff)
  moreover have "list_all ascii ESCAPED_TOKEN" by (simp add: ESCAPED_TOKEN_def ascii_def)
  ultimately show ?case using 2 by (auto split: option.split prod.split simp del: match_ignorecase.simps)
qed simp

lemma sanitized_plain:
  assumes "list_all ascii body"
  shows "\<not> mentions_token (fst (escape_tokens body))"
  using unescaped_plain [OF escape_plain [OF assms] escape_idempotent] upper_map [OF escape_plain [OF assms]] by simp

section \<open>A repeated token\<close>

lemma repeated_token_refused:
  assumes "uc_body c = b @ [newline, newline] @ marker_line e" and "uc_marker c \<noteq> None" and "mentions_token b"
  shows "parse_record_marker c = Inl ''marker repeated''"
proof -
  have "occurrences MARKER_TOKEN (upper b) \<noteq> 0" using assms(3) occurrences_zero [OF MARKER_TOKEN_nonempty] by blast
  then have "occurrences MARKER_TOKEN (upper (uc_body c)) \<noteq> 1" unfolding assms(1) occurrences_attached by simp
  then show ?thesis using assms(2) by (auto simp: parse_record_marker_def)
qed

section \<open>Nesting\<close>

lemma visible [simp]:
  "\<not> json_space CHR ''[''" "\<not> json_space CHR ''{''" "\<not> json_space CHR '':''" "\<not> json_space CHR 0x22"
  by (simp_all add: json_space_def)

lemma nested_arrays: "d < n \<Longrightarrow> parse_value py d (replicate n CHR ''['' @ s) = Inl RecursionError"
proof (induction d arbitrary: n)
  case (Suc d)
  then obtain m where n: "n = Suc m" "d < m" by (cases n) auto
  then obtain k where m: "m = Suc k" by (cases m) auto
  have "skip_space (replicate m CHR ''['' @ s) = replicate m CHR ''['' @ s" by (simp add: m)
  moreover have "parse_elements py d (replicate m CHR ''['' @ s) = Inl RecursionError"
    using Suc.IH [OF n(2)] by (simp add: parse_elements.simps)
  ultimately show ?case by (simp add: n(1) parse_value.simps) (simp add: m)
qed (auto simp: parse_value.simps gr0_conv_Suc)

definition nested_object :: "nat \<Rightarrow> string" where
  "nested_object n = CHR ''{'' # (CHR 0x22 # CHR ''a'' # CHR 0x22 # CHR '':'' # replicate n CHR ''['') @ ''}''"

lemma nested_object_loads:
  assumes "recursion_budget py \<le> Suc n"
  shows "loads py (nested_object (Suc n)) = Inl RecursionError"
proof (cases "recursion_budget py")
  case 0
  then show ?thesis by (simp add: loads_def nested_object_def parse_value.simps)
next
  case (Suc d)
  let ?s = "CHR 0x22 # CHR ''a'' # CHR 0x22 # CHR '':'' # replicate (Suc n) CHR ''['' @ ''}''"
  have "parse_value py d (replicate (Suc n) CHR ''['' @ ''}'') = Inl RecursionError"
    by (rule nested_arrays) (use assms Suc in simp)
  then have "parse_items py d ?s = Inl RecursionError"
    by (simp add: parse_items.simps scan_string.simps)
  then show ?thesis
    by (simp add: loads_def nested_object_def Suc parse_value.simps)
qed

definition nested_body :: "nat \<Rightarrow> string" where
  "nested_body n = [newline, newline] @ marker_line (nested_object n)"

lemma nested_body_extract:
  assumes "recursion_budget py \<le> Suc n"
  shows "extract_marker py (nested_body (Suc n)) = Inl RecursionError"
proof -
  have "match_marker ([] @ [newline, newline] @ marker_line (nested_object (Suc n))) = Some (nested_object (Suc n))"
    unfolding nested_object_def by (rule match_marker_attached [OF _ refl]) simp
  then show ?thesis using nested_object_loads [of "py\<lparr>accepts_constants := True\<rparr>" n] assms by (simp add: extract_marker_def nested_body_def)
qed

end
