(* ===== verification/Record_Properties.thy ===== *)
theory Record_Properties
  imports Chain_Honest Marker_Escape
begin

text \<open>
  The properties of the record protocol: the marker round trip, the escaping of the token, what an intact chain
  guarantees, that a well-behaved client gets one, and two defects.
\<close>

section \<open>A concrete record\<close>

definition sample_interpreter :: interpreter where
  "sample_interpreter = \<lparr>recursion_budget = 1000, float_text = \<lambda>s. s, accepts_constants = True\<rparr>"

definition sample_projection :: "(string \<times> json) list" where
  "sample_projection = [(''pay'', JStr (replicate 64 CHR ''a''))]"

definition sample_decoded :: decoded_projection where
  "sample_decoded =
     \<lparr>dp_payload_hash = replicate 64 CHR ''a'', dp_result = None, dp_round = None, dp_turn = None,
      dp_fingerprint = None, dp_subject_id = None, dp_target = None, dp_digest = None, dp_count = None\<rparr>"

definition sample_payload :: "(string \<times> json) list" where
  "sample_payload =
     [(''key'', JStr ''k1''), (''kind'', JStr ''GATE_ANSWER''), (''run'', JStr ''run1''),
      (''head'', JStr ''abc''), (''seq'', JInt 1), (''pay'', JStr (replicate 64 CHR ''a''))]"

definition sample_text :: string where
  "sample_text = ''The answer.'' @ [newline, newline] @ marker_line (dumps (JObj sample_payload))"

definition sample_draft :: draft where
  "sample_draft =
     \<lparr>dr_key = ''k1'', dr_kind = K_GATE_ANSWER, dr_head = ''abc'', dr_body = ''The answer.'',
      dr_projection = sample_projection, dr_login = ''Reviewer'', dr_comment_id = ''11'', dr_url = ''u'',
      dr_time = ''2026-01-01T00:00:00Z''\<rparr>"

definition sample_comment :: unverified_comment where
  "sample_comment =
     \<lparr>uc_comment_id = ''11'', uc_url = ''u'', uc_author_login = Some ''Reviewer'',
      uc_created_at = ''2026-01-01T00:00:00Z'', uc_updated_at = ''2026-01-01T00:00:00Z'', uc_body = sample_text,
      uc_reply_to = None, uc_review_id = None, uc_body_hash = body_hash_of sample_text,
      uc_marker = Some (marker_for sample_payload)\<rparr>"

definition sample_producers :: "string set" where "sample_producers = {''reviewer''}"

lemma sample_composed:
  "compose_record_marker_payload ''k1'' K_GATE_ANSWER ''run1'' ''abc'' 1 None sample_projection None = Inr sample_payload"
  by code_simp

lemma sample_keys: "fst ` set sample_projection \<subseteq> PROJECTION_KEYS" "distinct (map fst sample_projection)"
  by (simp_all add: sample_projection_def PROJECTION_KEYS_def projection_key_defs)

lemma sample_decodes: "decode_record_projection K_GATE_ANSWER sample_projection = Inr sample_decoded"
  by code_simp

lemma sample_attached: "attach_marker ''The answer.'' sample_payload = Inr sample_text"
  by code_simp

lemma sample_once: "occurrences MARKER_TOKEN (upper sample_text) = 1"
  by code_simp

lemma sample_budget: "0 < recursion_budget sample_interpreter"
  by (simp add: sample_interpreter_def)

lemmas sample_read = attached_marker_read [OF sample_composed sample_keys sample_decodes sample_attached sample_once sample_budget]

lemma sample_posted: "post_records sample_interpreter ''run1'' 1 None [sample_draft] = Some [sample_comment]"
  using sample_composed sample_attached sample_read(1)
  by (simp add: post_record_def sample_draft_def sample_comment_def)

lemma sample_draft_ok: "draft_ok sample_producers sample_draft"
  using sample_keys sample_decodes
  by (simp add: draft_ok_def sample_draft_def) code_simp

lemma sample_observed: "observed sample_interpreter sample_comment"
  using sample_read(1) by (simp add: observed_def sample_comment_def)

definition sample_checkpoint :: chain_checkpoint where
  "sample_checkpoint = \<lparr>cc_high_water_mark = 1, cc_known_records =
     [\<lparr>kr_seq = 1, kr_comment_id = ''11'', kr_body_hash = body_hash_of sample_text\<rparr>]\<rparr>"

lemma sample_verified:
  assumes "cp = None \<or> cp = Some sample_checkpoint"
  shows "\<exists>v. verify_record_chain [sample_comment] ''run1'' head sample_producers cp [] = Inr v \<and> is_intact v \<and>
    cv_max_seq v = 1 \<and> map vr_body (cv_records v) = [sample_text]"
  using posted_chain_intact [OF sample_posted, of sample_producers "[sample_comment]" 1 "{}" cp head]
    sample_draft_ok sample_once sample_budget assms
  by (auto simp: sample_comment_def sample_checkpoint_def)

section \<open>The marker\<close>

text \<open>
  C20. The marker round trip: a payload that \<open>compose_record_marker_payload\<close> accepts, attached to a body by
  \<open>attach_marker\<close> and posted, is read back by \<open>parse_record_marker\<close> from the comment that GitHub answers
  (\<open>comment_from_json\<close>), field by field, when neither the body nor the payload mentions the marker token.
\<close>

theorem composed_record_read_back:
  assumes "compose_record_marker_payload key kind run_id head_sha seq prev projection audit_prev = Inr p"
    and "fst ` set projection \<subseteq> PROJECTION_KEYS" and "distinct (map fst projection)"
    and "decode_record_projection kind projection = Inr dp"
    and "attach_marker body p = Inr text"
    and "\<not> contains MARKER_TOKEN (upper body)" and "\<not> contains MARKER_TOKEN (upper (dumps (JObj p)))"
    and "0 < recursion_budget py"
    and "comment_from_json py data = Inr c" and "uc_body c = text"
  shows "parse_record_marker c =
    Inr \<lparr>cp_key = key, cp_kind = kind, cp_run = run_id, cp_head = head_sha, cp_seq = seq, cp_prev = prev,
         cp_projection = dp, cp_audit_prev = audit_prev\<rparr>"
proof -
  note read = attached_marker_read [OF assms(1-5) token_once [OF assms(5-7)] assms(8)]
  have "uc_marker c = Some (marker_for p)"
    using comment_observed [OF assms(9)] read(1) assms(10) by (simp add: observed_def)
  from read(2) [OF assms(10) this] show ?thesis .
qed

definition sample_answer :: json where
  "sample_answer =
     JObj [(''id'', JInt 11), (''user'', JObj [(''login'', JStr ''Reviewer'')]), (''body'', JStr sample_text),
           (''html_url'', JStr ''u''), (''created_at'', JStr ''2026-01-01T00:00:00Z''),
           (''updated_at'', JStr ''2026-01-01T00:00:00Z'')]"

lemma sample_answer_read: "comment_from_json sample_interpreter sample_answer = Inr sample_comment"
proof -
  have "show_int 11 = ''11''" by code_simp
  then show ?thesis
    using sample_read(1)
    by (simp add: sample_answer_def author_login_of_def require_str_def optional_id_def marker_of_def sample_comment_def)
qed

theorem composed_record_read_back_witness:
  "parse_record_marker sample_comment =
     Inr \<lparr>cp_key = ''k1'', cp_kind = K_GATE_ANSWER, cp_run = ''run1'', cp_head = ''abc'', cp_seq = 1, cp_prev = None,
          cp_projection = sample_decoded, cp_audit_prev = None\<rparr>"
proof (rule composed_record_read_back [OF sample_composed sample_keys sample_decodes sample_attached _ _
      sample_budget sample_answer_read])
  show "\<not> contains MARKER_TOKEN (upper ''The answer.'')" by code_simp
  show "\<not> contains MARKER_TOKEN (upper (dumps (JObj sample_payload)))" by code_simp
qed (simp add: sample_comment_def)

section \<open>Intact chains\<close>

text \<open>
  C21. What an intact verification guarantees: the records are numbered 1, 2, ... without a gap up to the largest
  number, which is not below the high-water mark of the checkpoint; every record is what the marker of an unedited
  comment of the run by a producer says, and every record after the first carries the hash of the body of the record
  before it; and every comment the checkpoint knows is present with the body it had.
\<close>

theorem intact_chain_complete:
  assumes v: "verify_record_chain comments run_id head producers cp probes = Inr v" and i: "is_intact v"
  shows "map vr_seq (cv_records v) = [1..cv_max_seq v] \<and>
    (case cp of None \<Rightarrow> 0 | Some c \<Rightarrow> cc_high_water_mark c) \<le> cv_max_seq v \<and>
    (\<forall>i < length (cv_records v). \<exists>c \<in> sources comments probes. \<exists>p.
      written_as run_id producers c p (int i + 1) (cv_records v ! i) \<and>
      (0 < i \<longrightarrow> cp_prev p = Some (vr_body_hash (cv_records v ! (i - 1))))) \<and>
    (\<forall>k \<in> set (case cp of None \<Rightarrow> [] | Some c \<Rightarrow> cc_known_records c). \<exists>c \<in> sources comments probes.
      uc_comment_id c = kr_comment_id k \<and> uc_body_hash c = kr_body_hash k)"
proof (intro conjI ballI)
  note facts = intact_chain_facts [OF v i]
  have "vr_seq (verified_record_of x) = fst x" for x by (cases x) (simp add: verified_record_of_def Let_def)
  then show "map vr_seq (cv_records v) = [1..cv_max_seq v]" using facts(1,2) by (simp add: comp_def)
  show "(case cp of None \<Rightarrow> 0 | Some c \<Rightarrow> cc_high_water_mark c) \<le> cv_max_seq v" by (rule facts(5))
  show "\<forall>i < length (cv_records v). \<exists>c \<in> sources comments probes. \<exists>p.
      written_as run_id producers c p (int i + 1) (cv_records v ! i) \<and>
      (0 < i \<longrightarrow> cp_prev p = Some (vr_body_hash (cv_records v ! (i - 1))))"
    using intact_record [OF v i] by blast
  fix k assume "k \<in> set (case cp of None \<Rightarrow> [] | Some c \<Rightarrow> cc_known_records c)"
  then obtain c where c: "map_of (dedupe comments probes) (kr_comment_id k) = Some c" "uc_body_hash c = kr_body_hash k"
    using facts(6) by blast
  from dedupe_entries [OF map_of_SomeD [OF c(1)]]
  show "\<exists>c \<in> sources comments probes. uc_comment_id c = kr_comment_id k \<and> uc_body_hash c = kr_body_hash k"
    using c(2) by (auto simp: sources_def)
qed

theorem intact_chain_complete_witness:
  "\<exists>v. verify_record_chain [sample_comment] ''run1'' ''abc'' sample_producers (Some sample_checkpoint) [] = Inr v \<and>
     map vr_seq (cv_records v) = [1] \<and> map vr_body (cv_records v) = [sample_text]"
proof -
  from sample_verified [OF disjI2 [OF refl], of "''abc''"]
  obtain v where v: "verify_record_chain [sample_comment] ''run1'' ''abc'' sample_producers (Some sample_checkpoint) [] = Inr v"
    "is_intact v" "cv_max_seq v = 1" "map vr_body (cv_records v) = [sample_text]" by (elim exE conjE)
  from intact_chain_complete [OF v(1,2)] have "map vr_seq (cv_records v) = [1]" using v(3) by simp
  with v(1,4) show ?thesis by (intro exI [of _ v]) (simp only: simp_thms)
qed

text \<open>
  C22. The history is authenticated by one hash: of two intact verifications, of two sets of comments and for
  whatever producers and checkpoints, that show a record with the same number and the same body hash, all the
  earlier records have the same number, kind, key, head, body and projection, when no two of the observed bodies
  collide.
\<close>

theorem chain_history_fixed:
  assumes "verify_record_chain comments run_id head producers cp probes = Inr v" "is_intact v"
    and "verify_record_chain comments' run_id' head' producers' cp' probes' = Inr w" "is_intact w"
    and "\<forall>c \<in> sources comments probes \<union> sources comments' probes'. observed py c"
    and "inj_on body_hash_of (uc_body ` (sources comments probes \<union> sources comments' probes'))"
    and "n < length (cv_records v)" "n < length (cv_records w)"
    and "vr_body_hash (cv_records v ! n) = vr_body_hash (cv_records w ! n)"
    and "i \<le> n"
  shows "content (cv_records v ! i) = content (cv_records w ! i)"
  by (rule intact_history [OF assms])

lemma sample_sources: "sources [sample_comment] [] = {sample_comment}"
  by (simp add: sources_def probed_comments_def List.map_filter_simps)

lemma sample_hash:
  assumes "verify_record_chain [sample_comment] ''run1'' head sample_producers cp [] = Inr v" "is_intact v"
    and "map vr_body (cv_records v) = [sample_text]"
  shows "vr_body_hash (cv_records v ! 0) = body_hash_of sample_text" and "0 < length (cv_records v)"
proof -
  show "0 < length (cv_records v)" using arg_cong [OF assms(3), of length] by simp
  from intact_record [OF assms(1,2) this] obtain p where
    "written_as ''run1'' sample_producers sample_comment p (int 0 + 1) (cv_records v ! 0)"
    unfolding sample_sources by blast
  then have "vr_body_hash (cv_records v ! 0) = uc_body_hash sample_comment" unfolding written_as_def by blast
  then show "vr_body_hash (cv_records v ! 0) = body_hash_of sample_text" by (simp add: sample_comment_def)
qed

theorem chain_history_fixed_witness:
  "\<exists>v w. verify_record_chain [sample_comment] ''run1'' ''abc'' sample_producers None [] = Inr v \<and>
     verify_record_chain [sample_comment] ''run1'' ''def'' sample_producers (Some sample_checkpoint) [] = Inr w \<and>
     content (cv_records v ! 0) = content (cv_records w ! 0)"
proof -
  from sample_verified [OF disjI1 [OF refl], of "''abc''"]
  obtain v where v: "verify_record_chain [sample_comment] ''run1'' ''abc'' sample_producers None [] = Inr v"
    "is_intact v" "map vr_body (cv_records v) = [sample_text]" by (elim exE conjE)
  from sample_verified [OF disjI2 [OF refl], of "''def''"]
  obtain w where w: "verify_record_chain [sample_comment] ''run1'' ''def'' sample_producers (Some sample_checkpoint) [] = Inr w"
    "is_intact w" "map vr_body (cv_records w) = [sample_text]" by (elim exE conjE)
  have "content (cv_records v ! 0) = content (cv_records w ! 0)"
    using sample_hash [OF v] sample_hash [OF w] sample_observed
    by (intro chain_history_fixed [OF v(1,2) w(1,2), where py = sample_interpreter and n = 0]) (simp_all add: sample_sources)
  then show ?thesis using v w by blast
qed

text \<open>
  C23. A client that posts its records one after the other, each with the hash of the comment before it, with a readable
  projection, as an allowed producer and with no marker token besides that of the marker, and edits none, gets an
  intact verification with exactly its records, in whatever order the comments are listed and whatever else is in the
  conversation that is not taken for a record of this run: comments without the marker token, and well-formed records
  of other runs, by whomever. This also holds when only its first \<open>k\<close> comments are left: the loss
  of a tail is not visible unless the checkpoint has a high-water mark or a known record beyond it.
\<close>

theorem posted_records_verify:
  assumes "post_records py run_id 1 None drafts = Some posted"
    and "\<forall>d \<in> set drafts. draft_ok producers d"
    and "\<forall>c \<in> set posted. occurrences MARKER_TOKEN (upper (uc_body c)) = 1"
    and "0 < recursion_budget py"
    and "distinct (map uc_comment_id comments)"
    and "set comments = set (take k posted) \<union> others" "k \<le> length posted"
    and "\<forall>c \<in> others. \<not> contains MARKER_TOKEN (upper (uc_body c)) \<or>
      (\<exists>p. parse_record_marker c = Inr p \<and> cp_run p \<noteq> run_id)"
    and "(case cp of None \<Rightarrow> 0 | Some c \<Rightarrow> cc_high_water_mark c) \<le> int k"
    and "\<forall>r \<in> set (case cp of None \<Rightarrow> [] | Some c \<Rightarrow> cc_known_records c). \<exists>c \<in> set (take k posted).
      uc_comment_id c = kr_comment_id r \<and> uc_body_hash c = kr_body_hash r"
  shows "\<exists>v. verify_record_chain comments run_id head producers cp [] = Inr v \<and> is_intact v \<and>
    cv_max_seq v = int k \<and> map vr_body (cv_records v) = map uc_body (take k posted)"
  by (rule posted_chain_intact [OF assms])

theorem posted_records_verify_witness:
  "\<exists>v. verify_record_chain [sample_comment\<lparr>uc_comment_id := ''7'', uc_body := ''hello''\<rparr>, sample_comment] ''run1'' ''abc''
       sample_producers (Some sample_checkpoint) [] = Inr v \<and> is_intact v \<and> cv_max_seq v = 1 \<and>
     map vr_body (cv_records v) = [sample_text]"
proof -
  have other: "\<not> contains MARKER_TOKEN (upper ''hello'')" by code_simp
  show ?thesis
    using posted_records_verify [OF sample_posted, of sample_producers
        "[sample_comment\<lparr>uc_comment_id := ''7'', uc_body := ''hello''\<rparr>, sample_comment]" 1
        "{sample_comment\<lparr>uc_comment_id := ''7'', uc_body := ''hello''\<rparr>}" "Some sample_checkpoint" "''abc''"]
      sample_draft_ok sample_once sample_budget other
    by (simp add: sample_comment_def sample_checkpoint_def insert_commute)
qed

section \<open>Escaping\<close>

text \<open>
  \<open>sanitize_agent_body\<close> leaves nothing to escape: sanitizing its result again changes nothing and counts
  nothing; and the result of an ASCII body does not mention the token in any mix of upper and lower case, so that a
  marker attached to it is the only one.
\<close>

theorem sanitize_leaves_no_token:
  "sanitize_agent_body (sb_text (sanitize_agent_body body)) =
     \<lparr>sb_text = sb_text (sanitize_agent_body body), sb_escaped_count = 0\<rparr> \<and>
   (list_all ascii body \<longrightarrow> \<not> contains MARKER_TOKEN (upper (sb_text (sanitize_agent_body body))))"
  using escape_idempotent [of body] sanitized_plain [of body]
  by (simp add: sanitize_agent_body_def case_prod_unfold Let_def)

theorem sanitize_leaves_no_token_witness:
  "sb_text (sanitize_agent_body ''a cc_Review_META b'') = ''a CC~REVIEW~META b'' \<and>
   \<not> contains MARKER_TOKEN (upper ''a CC~REVIEW~META b'')"
proof -
  have "sb_text (sanitize_agent_body ''a cc_Review_META b'') = ''a CC~REVIEW~META b''" by code_simp
  moreover have "list_all ascii ''a cc_Review_META b''" by (simp add: ascii_def)
  ultimately show ?thesis using sanitize_leaves_no_token [of "''a cc_Review_META b''"] by simp
qed

section \<open>Two defects\<close>

text \<open>The token with U+1E9A, the small a with a right half ring, as its last letter.\<close>

definition look_alike :: string where "look_alike = ''CC_REVIEW_MET'' @ [CHR 0xE1, CHR 0xBA, CHR 0x9A]"

lemma violating_member: "Violating w \<in> set cs \<Longrightarrow> w \<in> set (violating cs)"
  by (induction cs) (auto simp: violating_def List.map_filter_simps split: classified.split)

text \<open>A comment of the pool that is not a record reports its violation, under a binding that names the comment.\<close>

lemma violating_reported:
  assumes v: "verify_record_chain comments run_id head producers cp probes = Inr v"
    and c: "(i, c) \<in> set (dedupe comments probes)" and bad: "classify run_id head producers c = Violating w"
  shows "ie_binding w \<in> ie_binding ` set (cv_violations v)"
proof -
  let ?classes = "map (\<lambda>(i, c). classify run_id head producers c) (dedupe comments probes)"
  have "Violating w \<in> set ?classes" using c bad by force
  then have "w \<in> set (violating ?classes)" by (rule violating_member)
  moreover obtain rest where "cv_violations v = canonicalize_integrity (violating ?classes @ rest)"
    using v by (auto simp: verify_record_chain_def Let_def bind_result_Inr case_prod_unfold split: if_split_asm)
  ultimately show ?thesis by (simp add: canonicalize_integrity_def key_set_canonicalize)
qed

text \<open>
  C24. A body that \<open>sanitize_agent_body\<close> leaves as it is, because no token matches, can make the record unreadable:
  the last letter of \<open>look_alike\<close> becomes an \<open>A\<close> under \<open>str.upper\<close>, so that \<open>parse_record_marker\<close> counts the token
  twice and refuses the record that the Controller itself attached to the body; and the verification of every chain
  in whose pool this comment is has the integrity violation of this comment, whatever the run, the producers, the
  checkpoint and the other comments.
\<close>

theorem sanitized_record_refused:
  assumes "attach_marker (sb_text (sanitize_agent_body look_alike)) p = Inr body"
    and "uc_body c = body" and "uc_marker c = Some m"
  shows "sb_escaped_count (sanitize_agent_body look_alike) = 0 \<and>
    parse_record_marker c = Inl ''marker repeated'' \<and>
    ((uc_comment_id c, c) \<in> set (dedupe comments probes) \<and>
       verify_record_chain comments run_id head producers cp probes = Inr v \<longrightarrow>
     \<not> is_intact v \<and> OpaqueBinding (''iv:marker:'' @ run_id @ '':c'' @ uc_comment_id c) \<in> ie_binding ` set (cv_violations v))"
proof -
  have clean: "sanitize_agent_body look_alike = \<lparr>sb_text = look_alike, sb_escaped_count = 0\<rparr>" by code_simp
  have two: "mentions_token look_alike" "rstrip_newlines look_alike = look_alike" by code_simp+
  have body: "uc_body c = look_alike @ [newline, newline] @ marker_line (dumps (JObj p))"
    using attached_text [OF assms(1)] assms(2) clean two(2) by simp
  have refused: "parse_record_marker c = Inl ''marker repeated''"
    by (rule repeated_token_refused [OF body _ two(1)]) (simp add: assms(3))
  have "mentions_token (uc_body c)"
    unfolding body using mentions_append [OF two(1), of "[newline, newline] @ marker_line (dumps (JObj p))"] by simp
  then have bad: "\<exists>fs. classify run_id head producers c =
      Violating (violation_ref ''marker'' run_id (CHR ''c'' # uc_comment_id c) head fs)"
    using refused by (auto simp: classify_def)
  then show ?thesis using clean refused violating_reported by (fastforce simp: violation_ref_def is_intact_def)
qed

lemma look_alike_attached:
  "attach_marker (sb_text (sanitize_agent_body look_alike)) sample_payload =
   Inr (look_alike @ [newline, newline] @ marker_line (dumps (JObj sample_payload)))"
  by code_simp

definition refused_comment :: unverified_comment where
  "refused_comment =
     sample_comment\<lparr>uc_body := look_alike @ [newline, newline] @ marker_line (dumps (JObj sample_payload)),
       uc_marker := Some (marker_for sample_payload)\<rparr>"

theorem sanitized_record_refused_witness:
  "parse_record_marker refused_comment = Inl ''marker repeated'' \<and>
   (\<exists>v. verify_record_chain [refused_comment] ''run1'' ''abc'' sample_producers None [] = Inr v \<and> \<not> is_intact v)"
proof -
  note refused = sanitized_record_refused [OF look_alike_attached, of refused_comment "marker_for sample_payload"]
  have pool: "dedupe [refused_comment] [] = [(uc_comment_id refused_comment, refused_comment)]"
    by (simp add: dedupe_distinct)
  obtain v where v: "verify_record_chain [refused_comment] ''run1'' ''abc'' sample_producers None [] = Inr v"
    by (simp add: verify_record_chain_def Let_def case_prod_unfold)
  have "parse_record_marker refused_comment = Inl ''marker repeated''"
    by (rule refused [THEN conjunct2, THEN conjunct1]) (simp_all add: refused_comment_def)
  moreover have "\<not> is_intact v"
    using refused [of "[refused_comment]" "[]" "''run1''" "''abc''" sample_producers None v] pool v
    by (simp add: refused_comment_def)
  ultimately show ?thesis using v by blast
qed

definition answer_with :: "string \<Rightarrow> json" where
  "answer_with body =
     JObj [(''id'', JInt 11), (''user'', JNull), (''body'', JStr body), (''html_url'', JStr ''u''),
           (''created_at'', JStr ''t''), (''updated_at'', JStr ''t'')]"

text \<open>
  C25. Reading the comments of a conversation can be made to raise \<open>RecursionError\<close> by anyone who can comment: for
  every recursion limit there is a body, 35 characters longer than the limit, whose marker holds JSON nested too
  deep; \<open>extract_marker\<close> only catches \<open>ValueError\<close>, and \<open>comment_from_json\<close> passes the exception on.
\<close>

theorem nested_marker_raises:
  assumes "recursion_budget py = Suc n"
  shows "comment_from_json py (answer_with (nested_body (Suc n))) = Inl CommentRecursionError \<and>
    length (nested_body (Suc n)) = recursion_budget py + 35"
  using nested_body_extract [of py n] assms
  by (simp add: answer_with_def author_login_of_def require_str_def optional_id_def marker_of_def)
     (simp add: nested_body_def nested_object_def marker_line_def marker_open_def marker_close_def MARKER_TOKEN_def MARKER_VERSION_def)

theorem nested_marker_raises_witness:
  "comment_from_json sample_interpreter (answer_with (nested_body 1000)) = Inl CommentRecursionError"
  using nested_marker_raises [of sample_interpreter 999] by (simp add: sample_interpreter_def)

end
