(* ===== verification/Json_Input.thy ===== *)
theory Json_Input
  imports Json_Laws
begin

text \<open>
  \<open>parse_json\<close> of \<open>schema/validate.py\<close>: JSON from outside is refused before it is parsed when it is nested deeper
  than \<open>MAX_JSON_DEPTH\<close>, and the constants \<open>NaN\<close>, \<open>Infinity\<close> and \<open>-Infinity\<close> are refused. The guard keeps the
  parser from exhausting the recursion limit.
\<close>

definition MAX_JSON_DEPTH :: nat where "MAX_JSON_DEPTH = 64"

text \<open>The rest after the closing quote of a string literal as \<open>_STRING_LITERAL\<close> matches it.\<close>

fun string_end :: "string \<Rightarrow> string option" where
  "string_end [] = None"
| "string_end (c # cs) =
     (if c = CHR 0x22 then Some cs
      else if c = CHR 0x5C then (case cs of [] \<Rightarrow> None | d # ds \<Rightarrow> if d = newline then None else string_end ds)
      else string_end cs)"

lemma string_end_shorter: "string_end s = Some r \<Longrightarrow> length r < length s"
  by (induction s rule: string_end.induct) (auto split: if_splits list.splits)

text \<open>\<open>_STRING_LITERAL.sub("", text)\<close>\<close>

function without_strings :: "string \<Rightarrow> string" where
  "without_strings [] = []"
| "without_strings (c # cs) =
     (if c = CHR 0x22
      then (case string_end cs of Some rest \<Rightarrow> without_strings rest | None \<Rightarrow> c # without_strings cs)
      else c # without_strings cs)"
  by pat_completeness auto

termination without_strings
  by (relation "measure length") (auto dest: string_end_shorter)

text \<open>The loop of \<open>ensure_json_depth\<close>, whose counter may become negative.\<close>

fun depth_ok :: "int \<Rightarrow> int \<Rightarrow> string \<Rightarrow> bool" where
  "depth_ok limit depth [] \<longleftrightarrow> True"
| "depth_ok limit depth (c # cs) \<longleftrightarrow>
     (if c \<in> {CHR ''['', CHR ''{''} then depth + 1 \<le> limit \<and> depth_ok limit (depth + 1) cs
      else if c \<in> {CHR '']'', CHR ''}''} then depth_ok limit (depth - 1) cs
      else depth_ok limit depth cs)"

definition ensure_json_depth :: "string \<Rightarrow> json_error + unit" where
  "ensure_json_depth text =
     (if depth_ok (int MAX_JSON_DEPTH) 0 (without_strings text) then Inr () else Inl ValueError)"

definition parse_json :: "interpreter \<Rightarrow> string \<Rightarrow> json_error + json" where
  "parse_json py text =
     bind_result (ensure_json_depth text) (\<lambda>_. loads (py\<lparr>accepts_constants := False\<rparr>) text)"

section \<open>The guard protects the parser\<close>

text \<open>The text is nested at most as deep as the budget allows, counted from the position of the parser.\<close>

definition fits :: "nat \<Rightarrow> string \<Rightarrow> bool" where
  "fits d s \<longleftrightarrow> depth_ok (int d) 0 (without_strings s)"

lemma depth_shift: "depth_ok (limit + k) (depth + k) s \<longleftrightarrow> depth_ok limit depth s"
proof (induction s arbitrary: depth)
  case (Cons c s)
  from Cons.IH [of "depth + 1"] Cons.IH [of "depth - 1"] Cons.IH [of depth] show ?case
    by (simp add: algebra_simps)
qed simp

lemma depth_above: "depth_ok limit (depth + 1) s \<longleftrightarrow> depth_ok (limit - 1) depth s"
  and depth_below: "depth_ok limit (depth - 1) s \<longleftrightarrow> depth_ok (limit + 1) depth s"
  using depth_shift [of "limit - 1" 1 depth s] depth_shift [of "limit + 1" "- 1" depth s] by simp_all

lemma fits_plain:
  "c \<notin> {CHR ''['', CHR ''{'', CHR '']'', CHR ''}'', CHR 0x22} \<Longrightarrow> fits d (c # s) \<longleftrightarrow> fits d s"
  by (simp add: fits_def)

lemma fits_open:
  assumes "c = CHR ''['' \<or> c = CHR ''{''"
  shows "fits d (c # s) \<longleftrightarrow> 1 \<le> d \<and> fits (d - 1) s"
proof -
  have "without_strings (c # s) = c # without_strings s" using assms by auto
  then have "fits d (c # s) \<longleftrightarrow> 1 \<le> d \<and> depth_ok (int d) (0 + 1) (without_strings s)"
    using assms by (auto simp: fits_def)
  then show ?thesis by (simp only: depth_above) (auto simp: fits_def of_nat_diff)
qed

lemma fits_close:
  assumes "c = CHR '']'' \<or> c = CHR ''}''"
  shows "fits d (c # s) \<longleftrightarrow> fits (d + 1) s"
proof -
  have "without_strings (c # s) = c # without_strings s" using assms by auto
  then have "fits d (c # s) \<longleftrightarrow> depth_ok (int d) (0 - 1) (without_strings s)"
    using assms by (auto simp: fits_def)
  then show ?thesis by (simp only: depth_below) (simp add: fits_def add.commute)
qed

lemma fits_string: "string_end s = Some r \<Longrightarrow> fits d (CHR 0x22 # s) \<longleftrightarrow> fits d r"
  by (simp add: fits_def)

lemma fits_space: "json_space c \<Longrightarrow> fits d (c # s) \<longleftrightarrow> fits d s"
  by (rule fits_plain) (auto simp: json_space_def)

lemma fits_skip: "fits d (skip_space s) \<longleftrightarrow> fits d s"
  unfolding skip_space_def by (induction s) (simp_all add: fits_space)

text \<open>A string that the parser reads ends where the pattern ends.\<close>

lemma hex_value_end: "hex_value c = Some w \<Longrightarrow> string_end (c # s) = string_end s"
proof -
  assume "hex_value c = Some w"
  moreover have "hex_value (CHR 0x22) = None" "hex_value (CHR 0x5C) = None" by code_simp+
  ultimately have "c \<noteq> CHR 0x22" "c \<noteq> CHR 0x5C" by auto
  then show "string_end (c # s) = string_end s" by simp
qed

lemma hex4_end: "hex4 s = Some (n, r) \<Longrightarrow> string_end s = string_end r"
  by (induction s rule: hex4.induct) (auto simp: hex_value_end simp del: string_end.simps split: option.splits)

lemma unescape_end: "unescape s = Some (t, r) \<Longrightarrow> \<exists>c rest. s = c # rest \<and> c \<noteq> newline \<and> string_end rest = string_end r"
proof -
  have low: "low_surrogate s = Some (m, r) \<Longrightarrow> string_end s = string_end r" for s m r
    by (auto simp: low_surrogate_def prefix_def newline_def split: if_splits option.splits dest!: hex4_end)
  show "unescape s = Some (t, r) \<Longrightarrow> \<exists>c rest. s = c # rest \<and> c \<noteq> newline \<and> string_end rest = string_end r"
    by (auto simp: unescape_def newline_def split: list.splits if_splits option.splits dest!: hex4_end low)
qed

lemma scan_string_end: "scan_string s = Some (t, r) \<Longrightarrow> string_end s = Some r"
proof (induction s arbitrary: t r rule: scan_string.induct)
  case (2 c cs)
  then show ?case
    by (auto split: if_splits option.splits dest!: unescape_end)
qed simp

text \<open>What the parser reads of a literal or a number has no bracket and no quote.\<close>

definition plain :: "char \<Rightarrow> bool" where
  "plain c \<longleftrightarrow> c \<notin> {CHR ''['', CHR ''{'', CHR '']'', CHR ''}'', CHR 0x22}"

definition consumes :: "string \<Rightarrow> string \<Rightarrow> bool" where
  "consumes s r \<longleftrightarrow> (\<exists>p. s = p @ r \<and> list_all plain p)"

lemma consumes_fits: "consumes s r \<Longrightarrow> fits d s \<longleftrightarrow> fits d r"
proof -
  have "list_all plain p \<Longrightarrow> fits d (p @ r) \<longleftrightarrow> fits d r" for p
    by (induction p) (simp_all add: plain_def fits_plain)
  then show "consumes s r \<Longrightarrow> fits d s \<longleftrightarrow> fits d r" by (auto simp: consumes_def)
qed

lemma consumes_refl [simp]: "consumes s s"
  by (simp add: consumes_def)

lemma consumes_Cons: "plain c \<Longrightarrow> consumes s r \<Longrightarrow> consumes (c # s) r"
  unfolding consumes_def by (metis append_Cons list.pred_inject(2))

lemma consumes_trans: "consumes s r \<Longrightarrow> consumes r t \<Longrightarrow> consumes s t"
  unfolding consumes_def by (metis append.assoc list_all_append)

lemma consumes_digits: "consumes s (dropWhile digit s)"
proof -
  have "digit c \<Longrightarrow> plain c" for c by (auto simp: digit_def plain_def)
  then have "list_all plain (takeWhile digit s)" using set_takeWhileD by (fastforce simp: list_all_iff)
  then show ?thesis unfolding consumes_def by (metis takeWhile_dropWhile_id)
qed

lemma scan_digits_consumes: "scan_digits s = Some (ds, r) \<Longrightarrow> consumes s r"
proof -
  have "plain (CHR ''0'')" by (simp add: plain_def)
  then show "scan_digits s = Some (ds, r) \<Longrightarrow> consumes s r"
    using consumes_digits [of s] by (cases s) (auto simp: scan_digits_def Let_def consumes_Cons split: if_splits)
qed

lemma scan_tail_consumes: "consumes s (snd (scan_fraction s))" "consumes s (snd (scan_sign s))"
  "consumes s (snd (scan_exponent s))"
proof -
  have marks: "list_all plain ''.+-eE''" by (simp add: plain_def)
  show "consumes s (snd (scan_fraction s))"
    using marks by (auto simp: scan_fraction_def split: list.split intro: consumes_Cons consumes_digits)
  show sign: "consumes s (snd (scan_sign s))" for s
    using marks by (auto simp: scan_sign_def split: list.split intro: consumes_Cons)
  show "consumes s (snd (scan_exponent s))"
    using marks consumes_trans [OF sign consumes_digits]
    by (auto simp: scan_exponent_def split: list.split intro!: consumes_Cons)
qed

lemma scan_simple_consumes:
  assumes "scan_simple py s = Inr (v, r)"
  shows "consumes s r"
proof (cases "scan_literal (literals py) s")
  case None
  then have number: "scan_number py s = Inr (v, r)" using assms(1) by (simp add: scan_simple_def)
  let ?s1 = "if prefix ''-'' s then drop 1 s else s"
  obtain ds s2 where ds: "scan_digits ?s1 = Some (ds, s2)"
    using number by (cases "scan_digits ?s1") (auto simp: scan_number_def Let_def)
  have r: "r = snd (scan_exponent (snd (scan_fraction s2)))"
    using number ds by (auto simp: scan_number_def Let_def case_prod_unfold split: if_splits)
  have "plain (CHR ''-'')" by (simp add: plain_def)
  then have "consumes s ?s1" by (cases s) (auto intro: consumes_Cons)
  then show ?thesis unfolding r using scan_digits_consumes [OF ds] scan_tail_consumes consumes_trans by metis
next
  case (Some w)
  have "scan_literal t s = Some (v, r) \<Longrightarrow> list_all (\<lambda>(p, u). list_all plain p) t \<Longrightarrow> consumes s r" for t
    by (induction t) (auto simp: prefix_def consumes_def split: if_splits)
  from this [of "literals py"] show ?thesis using Some assms(1) by (simp add: scan_simple_def literals_def plain_def)
qed

lemma scan_simple_error: "scan_simple py s \<noteq> Inl RecursionError"
  by (auto simp: scan_simple_def scan_number_def Let_def split: option.splits if_splits prod.splits)

definition guarded :: "nat \<Rightarrow> (json_error + 'a \<times> string) \<Rightarrow> bool" where
  "guarded d res \<longleftrightarrow> res \<noteq> Inl RecursionError \<and> (\<forall>v r. res = Inr (v, r) \<longrightarrow> fits d r)"

lemma drop_bracket: "prefix [c] (skip_space r) \<Longrightarrow> fits d r \<Longrightarrow> fits d (c # drop 1 (skip_space r))"
  using fits_skip [of d r] by (cases "skip_space r") auto

lemma fits_after_close:
  "prefix [c] (skip_space r) \<Longrightarrow> fits d r \<Longrightarrow> c = CHR '']'' \<or> c = CHR ''}'' \<Longrightarrow> fits (Suc d) (drop 1 (skip_space r))"
  using drop_bracket fits_close by fastforce

lemma fits_after_plain:
  "prefix [c] (skip_space r) \<Longrightarrow> fits d r \<Longrightarrow> plain c \<Longrightarrow> fits d (drop 1 (skip_space r))"
  using drop_bracket fits_plain by (fastforce simp: plain_def)

lemma parser_guarded:
  "fits d s \<Longrightarrow> guarded d (parse_value py d s)"
  "fits d s \<Longrightarrow> guarded (Suc d) (parse_items py d s)"
  "fits d s \<Longrightarrow> guarded (Suc d) (parse_elements py d s)"
proof (induction py d s and py d s and py d s rule: parse_value_parse_items_parse_elements.induct)
  case (1 py d s)
  show ?case
  proof (cases s)
    case (Cons c cs)
    consider "c = CHR 0x22" | "c = CHR ''{'' \<or> c = CHR ''[''" | "c \<notin> {CHR 0x22, CHR ''{'', CHR ''[''}" by blast
    then show ?thesis
    proof cases
      case 1
      then show ?thesis
        using \<open>fits d s\<close> scan_string_end fits_string unfolding parse_value.simps [of py d s]
        by (auto simp: Cons guarded_def split: option.split)
    next
      case 2
      then have d: "1 \<le> d" "fits (d - 1) (skip_space cs)" using \<open>fits d s\<close> fits_open fits_skip Cons by blast+
      have "fits d (drop 1 (skip_space cs))"
        if "prefix [b] (skip_space cs)" "b = CHR '']'' \<or> b = CHR ''}''" for b
        using fits_after_close [OF that(1) _ that(2), of "d - 1"] d fits_skip [of "d - 1" cs] by simp
      moreover have "guarded d (parse_items py (d - 1) (skip_space cs))"
        if "c = CHR ''{''" "\<not> prefix ''}'' (skip_space cs)"
        using "1.IH"(1) [OF Cons _ that(1) _ that(2) d(2)] d(1) that(1) by simp
      moreover have "guarded d (parse_elements py (d - 1) (skip_space cs))"
        if "c = CHR ''[''" "\<not> prefix '']'' (skip_space cs)"
        using "1.IH"(2) [OF Cons _ _ that(1) _ that(2) d(2)] d(1) that(1) by simp
      ultimately show ?thesis
        using 2 d(1) unfolding parse_value.simps [of py d s] guarded_def
        by (elim disjE) (simp_all add: Cons split: sum.split, blast+)
    next
      case 3
      moreover have "fits d r" if "scan_simple py s = Inr (v, r)" for v r
        using consumes_fits [OF scan_simple_consumes [OF that]] \<open>fits d s\<close> by blast
      ultimately show ?thesis
        using scan_simple_error unfolding parse_value.simps [of py d s] by (auto simp: Cons guarded_def)
    qed
  qed (simp add: parse_value.simps guarded_def)
next
  case (2 py d s)
  have "guarded (Suc d) (parse_items py d s)" if s: "s = CHR 0x22 # cs" and k: "scan_string cs = Some (k, r1)"
    and colon: "prefix '':'' (skip_space r1)" "length r1 < length s" for cs k r1
  proof -
    let ?v = "skip_space (drop 1 (skip_space r1))"
    have "fits d r1" using 2(3) s scan_string_end [OF k] fits_string by simp
    then have "fits d ?v" using fits_after_plain [OF colon(1)] fits_skip by (simp add: plain_def)
    then have v: "guarded d (parse_value py d ?v)" using 2(1) s k colon by auto
    show ?thesis
    proof (cases "parse_value py d ?v")
      case (Inr p)
      obtain v r2 where p: "p = (v, r2)" by (cases p)
      then have r2: "fits d r2" using v Inr by (simp add: guarded_def)
      then have "fits (Suc d) (drop 1 (skip_space r2))" if "prefix ''}'' (skip_space r2)"
        using fits_after_close [OF that] by simp
      moreover have "guarded (Suc d) (parse_items py d (skip_space (drop 1 (skip_space r2))))"
        if c: "prefix '','' (skip_space r2)" "length r2 < length s" "\<not> prefix ''}'' (skip_space r2)"
        using fits_after_plain [OF c(1) r2] fits_skip 2(2) s k colon Inr p c by (auto simp: plain_def)
      ultimately show ?thesis
        using s k colon Inr p unfolding parse_items.simps [of py d s] by (auto simp: guarded_def split: sum.split)
    next
      case (Inl e)
      then show ?thesis
        using s k colon v unfolding parse_items.simps [of py d s] by (auto simp: guarded_def)
    qed
  qed
  then show ?case
    unfolding parse_items.simps [of py d s] by (auto simp: guarded_def split: list.split option.split)
next
  case (3 py d s)
  have v: "guarded d (parse_value py d s)" using 3(1,3) by blast
  show ?case
  proof (cases "parse_value py d s")
    case (Inr p)
    obtain v r2 where p: "p = (v, r2)" by (cases p)
    then have r2: "fits d r2" using v Inr by (simp add: guarded_def)
    then have "fits (Suc d) (drop 1 (skip_space r2))" if "prefix '']'' (skip_space r2)"
      using fits_after_close [OF that] by simp
    moreover have "guarded (Suc d) (parse_elements py d (skip_space (drop 1 (skip_space r2))))"
      if c: "prefix '','' (skip_space r2)" "length r2 < length s" "\<not> prefix '']'' (skip_space r2)"
      using fits_after_plain [OF c(1) r2] fits_skip 3(2) Inr p c by (auto simp: plain_def)
    ultimately show ?thesis
      using Inr p unfolding parse_elements.simps [of py d s] by (auto simp: guarded_def split: sum.split)
  qed (use v in \<open>simp add: parse_elements.simps [of py d s] guarded_def\<close>)
qed

lemma fits_mono: "fits d s \<Longrightarrow> d \<le> e \<Longrightarrow> fits e s"
proof -
  have "depth_ok l k s \<Longrightarrow> l \<le> m \<Longrightarrow> depth_ok m k s" for l m k s by (induction s arbitrary: k) auto
  then show "fits d s \<Longrightarrow> d \<le> e \<Longrightarrow> fits e s" by (auto simp: fits_def)
qed

lemma parse_json_no_recursion_error:
  assumes "MAX_JSON_DEPTH \<le> recursion_budget py"
  shows "parse_json py s \<noteq> Inl RecursionError"
proof (cases "ensure_json_depth s")
  case (Inr u)
  then have "fits MAX_JSON_DEPTH s" by (simp add: ensure_json_depth_def fits_def split: if_splits)
  then have "fits (recursion_budget py) (skip_space s)" using assms fits_mono fits_skip by blast
  from parser_guarded(1) [OF this, of "py\<lparr>accepts_constants := False\<rparr>"] show ?thesis
    by (auto simp: parse_json_def Inr loads_def guarded_def split: sum.split)
qed (auto simp: parse_json_def ensure_json_depth_def split: if_splits)

end
