(* ===== verification/Validate.thy ===== *)
theory Validate
  imports Json_Input
begin

text \<open>
  \<open>schema/validate.py\<close>, \<open>schema/registry.py\<close> and \<open>schema/migrate.py\<close>: the description of a field, the check of a
  JSON value against it, the repair that loses nothing, and the stages that raw input passes: size, UTF-8, JSON,
  version, schema and migration. An error carries a code and a path only. A Python integer and a
  Python boolean are different constructors of \<open>json\<close>, so \<open>is_integer_token\<close> is a constructor test.
\<close>

section \<open>Errors\<close>

record public_error =
  pe_code :: string
  pe_path :: string

abbreviation public_error :: "string \<Rightarrow> string \<Rightarrow> public_error" where
  "public_error code path \<equiv> \<lparr>pe_code = code, pe_path = path\<rparr>"

definition MAX_PATH_LENGTH :: nat where "MAX_PATH_LENGTH = 120"

definition code_priority :: "string \<Rightarrow> nat" where
  "code_priority code =
     (if code = ''null_not_allowed'' then 0 else if code = ''type_mismatch'' then 1 else 99)"

text \<open>One error per path, at the place of the first one, with the code of the highest priority.\<close>

fun add_error :: "public_error \<Rightarrow> public_error list \<Rightarrow> public_error list" where
  "add_error e [] = [e]"
| "add_error e (b # bs) =
     (if pe_path b = pe_path e
      then (if code_priority (pe_code e) < code_priority (pe_code b) then e else b) # bs
      else b # add_error e bs)"

definition canonicalize_errors :: "public_error list \<Rightarrow> public_error list" where
  "canonicalize_errors errors = fold add_error errors []"

text \<open>
  \<open>str.isprintable\<close> on ASCII. The paths are built of the names of a specification, of numbers and of tokens, which
  are ASCII (\<open>error_paths\<close> in \<open>Validate_Laws\<close>), so no other code point is tested.
\<close>

definition printable :: "char \<Rightarrow> bool" where
  "printable c \<longleftrightarrow> CHR 0x20 \<le> c \<and> c \<noteq> CHR 0x7F"

definition ellipsis :: string where "ellipsis = [CHR 0xE2, CHR 0x80, CHR 0xA6]"

definition sanitize_path :: "string \<Rightarrow> string" where
  "sanitize_path path =
     (let cleaned = filter printable path in
      if MAX_PATH_LENGTH < length cleaned then take (MAX_PATH_LENGTH - 1) cleaned @ ellipsis else cleaned)"

text \<open>The number of a name among the sorted names, from 1.\<close>

definition rank :: "string list \<Rightarrow> string \<Rightarrow> nat" where
  "rank names name = length (takeWhile (\<lambda>n. n \<noteq> name) (sort names)) + 1"

definition unknown_field_token :: "string list \<Rightarrow> string \<Rightarrow> string" where
  "unknown_field_token names name = ''<unknown#'' @ show_nat (rank names name) @ ''>''"

definition map_key_token :: "string list \<Rightarrow> string \<Rightarrow> string" where
  "map_key_token names name = ''<key#'' @ show_nat (rank names name) @ ''>''"

section \<open>Fields\<close>

datatype json_type = StrType | IntType | BoolType | DictType | ListType

datatype field = Field
  (fl_types: "json_type list")
  (fl_required: bool)
  (fl_allow_none: bool)
  (fl_non_empty: bool)
  (fl_max_len: "nat option")
  (fl_enum: "string list option")
  (fl_fields: "(string \<times> field) list option")
  (fl_items: "field option")
  (fl_values: "field option")
  (fl_max_items: "nat option")
  (fl_default: "json option")

type_synonym fields = "(string \<times> field) list"

type_synonym payload = "(string \<times> json) list"

record version_spec =
  vs_fields :: fields
  vs_rules :: "(payload \<Rightarrow> public_error list) list"

text \<open>\<open>isinstance\<close>: a boolean is an instance of \<open>int\<close>.\<close>

fun isinstance :: "json \<Rightarrow> json_type \<Rightarrow> bool" where
  "isinstance (JStr _) t \<longleftrightarrow> t = StrType"
| "isinstance (JInt _) t \<longleftrightarrow> t = IntType"
| "isinstance (JBool _) t \<longleftrightarrow> t = BoolType \<or> t = IntType"
| "isinstance (JObj _) t \<longleftrightarrow> t = DictType"
| "isinstance (JArr _) t \<longleftrightarrow> t = ListType"
| "isinstance _ t \<longleftrightarrow> False"

fun is_integer_token :: "json \<Rightarrow> bool" where
  "is_integer_token (JInt _) \<longleftrightarrow> True"
| "is_integer_token _ \<longleftrightarrow> False"

definition type_matches :: "field \<Rightarrow> json \<Rightarrow> bool" where
  "type_matches spec v \<longleftrightarrow>
     (if IntType \<in> set (fl_types spec) \<and> BoolType \<notin> set (fl_types spec) \<and>
         \<not> list_ex (isinstance v) [StrType, ListType, DictType]
      then is_integer_token v
      else list_ex (isinstance v) (fl_types spec))"

section \<open>The check of a value\<close>

definition text_errors :: "field \<Rightarrow> string \<Rightarrow> string \<Rightarrow> public_error list" where
  "text_errors spec s path =
     (if fl_non_empty spec \<and> s = [] then [public_error ''empty_string'' path] else []) @
     (case fl_max_len spec of
        Some n \<Rightarrow> if n < code_points s then [public_error ''max_length'' path] else []
      | None \<Rightarrow> []) @
     (case fl_enum spec of
        Some words \<Rightarrow> if s \<notin> set words then [public_error ''enum_invalid'' path] else []
      | None \<Rightarrow> [])"

definition count_errors :: "field \<Rightarrow> json list \<Rightarrow> string \<Rightarrow> public_error list" where
  "count_errors spec vs path =
     (case fl_max_items spec of
        Some n \<Rightarrow> if n < length vs then [public_error ''max_items'' path] else []
      | None \<Rightarrow> [])"

definition key_prefix :: "string \<Rightarrow> string" where
  "key_prefix path = (if path = ''$'' then [] else path @ ''.'')"

definition unknown_errors :: "payload \<Rightarrow> fields \<Rightarrow> string \<Rightarrow> public_error list" where
  "unknown_errors items table path =
     (let unknown = filter (\<lambda>n. n \<notin> fst ` set table) (map fst items) in
      map (\<lambda>n. public_error ''unknown_field'' (key_prefix path @ unknown_field_token unknown n)) unknown)"

lemma size_field_parts [simp]:
  "fl_items spec = Some f \<Longrightarrow> size f < size spec"
  "fl_values spec = Some f \<Longrightarrow> size f < size spec"
  "fl_fields spec = Some fs \<Longrightarrow> size_list (size_prod (\<lambda>_. 0) size) fs < size spec"
  by (cases spec, simp)+

function check :: "json \<Rightarrow> field \<Rightarrow> string \<Rightarrow> public_error list"
  and check_fields :: "payload \<Rightarrow> fields \<Rightarrow> string \<Rightarrow> public_error list"
where
  "check v spec path =
     (if v = JNull then (if fl_allow_none spec then [] else [public_error ''null_not_allowed'' path])
      else if \<not> type_matches spec v then [public_error ''type_mismatch'' path]
      else
        (case v of
           JStr s \<Rightarrow> text_errors spec s path
         | JObj items \<Rightarrow>
             (case fl_fields spec of
                Some table \<Rightarrow> check_fields items table path @ unknown_errors items table path
              | None \<Rightarrow>
                  (case fl_values spec of
                     Some f \<Rightarrow>
                       concat (map (\<lambda>(k, w). check w f (path @ ''.'' @ map_key_token (map fst items) k)) items)
                   | None \<Rightarrow> []))
         | JArr vs \<Rightarrow>
             count_errors spec vs path @
             (case fl_items spec of
                Some f \<Rightarrow>
                  concat (map (\<lambda>(i, w). check w f (path @ ''['' @ show_nat i @ '']'')) (enumerate 0 vs))
              | None \<Rightarrow> [])
         | _ \<Rightarrow> []))"
| "check_fields items table path =
     (case table of
        [] \<Rightarrow> []
      | (name, spec) # rest \<Rightarrow>
          (case map_of items name of
             None \<Rightarrow>
               if fl_required spec then [public_error ''required_missing'' (key_prefix path @ name)] else []
           | Some v \<Rightarrow> check v spec (key_prefix path @ name)) @
          check_fields items rest path)"
  by pat_completeness auto

termination check
  by (relation "measure (\<lambda>x. case x of Inl (v, spec, path) \<Rightarrow> Suc (size spec)
        | Inr (items, table, path) \<Rightarrow> Suc (size_list (size_prod (\<lambda>_. 0) size) table))")
     auto

declare check.simps [simp del] check_fields.simps [simp del]

text \<open>\<open>_check_object\<close>\<close>

definition check_object :: "payload \<Rightarrow> fields \<Rightarrow> string \<Rightarrow> public_error list" where
  "check_object items table path = check_fields items table path @ unknown_errors items table path"

definition structural_errors :: "version_spec \<Rightarrow> payload \<Rightarrow> public_error list" where
  "structural_errors spec data =
     map (\<lambda>e. e\<lparr>pe_path := sanitize_path (pe_path e)\<rparr>)
       (canonicalize_errors
         (check_object data (vs_fields spec) ''$'' @ concat (map (\<lambda>rule. rule data) (vs_rules spec))))"

section \<open>Repair\<close>

definition byte_order_mark :: string where "byte_order_mark = [CHR 0xEF, CHR 0xBB, CHR 0xBF]"

definition strip_bom :: "string \<Rightarrow> string" where
  "strip_bom raw = (if prefix byte_order_mark raw then drop 3 raw else raw)"

text \<open>
  \<open>apply_defaults\<close>: the fields in their order. A missing optional field with a default gets it, an object that the
  specification describes further is repaired in its place, everything else is kept.
\<close>

function apply_defaults :: "fields \<Rightarrow> payload \<Rightarrow> payload" where
  "apply_defaults [] data = data"
| "apply_defaults ((name, spec) # rest) data =
     apply_defaults rest
       (case map_of data name of
          None \<Rightarrow>
            (case fl_default spec of
               Some d \<Rightarrow> if fl_required spec then data else data @ [(name, d)]
             | None \<Rightarrow> data)
        | Some v \<Rightarrow>
            (case fl_fields spec of
               None \<Rightarrow> data
             | Some table \<Rightarrow>
                 (case v of
                    JObj items \<Rightarrow> AList.update name (JObj (apply_defaults table items)) data
                  | _ \<Rightarrow> data)))"
  by pat_completeness auto

termination apply_defaults
  by (relation "measure (\<lambda>(table, data). size_list (size_prod (\<lambda>_. 0) size) table)")
     (auto dest!: size_field_parts(3))

section \<open>Definitions of schemas\<close>

record schema_definition =
  sd_kind :: string
  sd_versions :: "(int \<times> version_spec) list"
  sd_migrations :: "(int \<times> (payload \<Rightarrow> payload option)) list"
  sd_max_input_bytes :: nat

definition DEFAULT_MAX_INPUT_BYTES :: nat where "DEFAULT_MAX_INPUT_BYTES = 65536"

definition current_version :: "schema_definition \<Rightarrow> int" where
  "current_version d = fold max (map fst (sd_versions d)) 0"

text \<open>The specification of a version the definition has; the current one for a number it does not have.\<close>

definition spec_at :: "schema_definition \<Rightarrow> int \<Rightarrow> version_spec option" where
  "spec_at d version = map_of (sd_versions d) version"

text \<open>
  \<open>ValidationResult\<close>: a rejection names its stage and its errors, an acceptance carries the payload and its version.
  \<open>LookupFailure\<close> stands for a \<open>KeyError\<close>.
\<close>

datatype validation_result =
    Rejected (va_stage: string) (va_errors: "public_error list")
  | Accepted (va_payload: payload) (va_version: "int option")
  | LookupFailure

definition refuse :: "string \<Rightarrow> string \<Rightarrow> string \<Rightarrow> validation_result" where
  "refuse stage code path = Rejected stage [public_error code path]"

definition parse_json_object :: "interpreter \<Rightarrow> string \<Rightarrow> nat \<Rightarrow> validation_result + payload" where
  "parse_json_object py raw max_input_bytes =
     (if max_input_bytes < length raw then Inl (refuse ''size'' ''input_too_large'' ''$'')
      else if \<not> utf8_ok raw then Inl (refuse ''utf8'' ''invalid_utf8'' ''$'')
      else
        (case parse_json py raw of
           Inl _ \<Rightarrow> Inl (refuse ''json'' ''invalid_json'' ''$'')
         | Inr (JObj data) \<Rightarrow> Inr data
         | Inr _ \<Rightarrow> Inl (refuse ''schema'' ''root_not_object'' ''$'')))"

definition validate_parsed :: "schema_definition \<Rightarrow> payload \<Rightarrow> bool \<Rightarrow> validation_result" where
  "validate_parsed d data repair =
     (let version = (case map_of data ''schema_version'' of Some (JInt v) \<Rightarrow> Some v | _ \<Rightarrow> None) in
      if (case version of Some v \<Rightarrow> spec_at d v = None | None \<Rightarrow> False)
      then refuse ''version'' ''unknown_version'' ''schema_version''
      else
        (case spec_at d (case version of Some v \<Rightarrow> v | None \<Rightarrow> current_version d) of
           None \<Rightarrow> LookupFailure
         | Some spec \<Rightarrow>
             (let data' = (if repair then apply_defaults (vs_fields spec) data else data);
                  errors = structural_errors spec data' in
              if errors \<noteq> [] then Rejected ''schema'' errors else Accepted data' version)))"

definition pipeline :: "interpreter \<Rightarrow> schema_definition \<Rightarrow> string \<Rightarrow> bool \<Rightarrow> validation_result" where
  "pipeline py d raw repair =
     (case parse_json_object py (if repair then strip_bom raw else raw) (sd_max_input_bytes d) of
        Inl r \<Rightarrow> r
      | Inr data \<Rightarrow> validate_parsed d data repair)"

definition validate :: "interpreter \<Rightarrow> schema_definition \<Rightarrow> string \<Rightarrow> validation_result" where
  "validate py d raw = pipeline py d raw False"

definition validate_object :: "schema_definition \<Rightarrow> payload \<Rightarrow> validation_result" where
  "validate_object d data = validate_parsed d data False"

definition repair_and_validate :: "interpreter \<Rightarrow> schema_definition \<Rightarrow> string \<Rightarrow> validation_result" where
  "repair_and_validate py d raw = pipeline py d raw True"

section \<open>Migration\<close>

text \<open>
  The steps from a version to the current one. A step that is not registered is an error; a step that does not find
  a key it needs raises.
\<close>

function migrate_from :: "schema_definition \<Rightarrow> int \<Rightarrow> payload \<Rightarrow> validation_result + payload" where
  "migrate_from d version data =
     (if version < current_version d
      then
        (case map_of (sd_migrations d) version of
           None \<Rightarrow> Inl (refuse ''migration'' ''migration_unavailable'' ''schema_version'')
         | Some step \<Rightarrow>
             (case step data of
                None \<Rightarrow> Inl LookupFailure
              | Some migrated \<Rightarrow>
                  migrate_from d (version + 1) (AList.update ''schema_version'' (JInt (version + 1)) migrated)))
      else Inr data)"
  by pat_completeness auto

termination migrate_from
  by (relation "measure (\<lambda>(d, version, data). nat (current_version d - version))") auto

declare migrate_from.simps [simp del]

definition load_with_migration :: "interpreter \<Rightarrow> schema_definition \<Rightarrow> string \<Rightarrow> validation_result" where
  "load_with_migration py d raw =
     (case validate py d raw of
        Accepted data (Some version) \<Rightarrow>
          (case migrate_from d version data of
             Inl r \<Rightarrow> r
           | Inr data' \<Rightarrow>
               (case validate_object d data' of
                  Rejected _ errors \<Rightarrow> Rejected ''migration'' errors
                | r \<Rightarrow> r))
      | Accepted data None \<Rightarrow> refuse ''migration'' ''migration_unavailable'' ''schema_version''
      | r \<Rightarrow> r)"

section \<open>Field factories\<close>

definition plain_field :: "json_type \<Rightarrow> field" where
  "plain_field t = Field [t] True False False None None None None None None None"

definition optional :: "field \<Rightarrow> field" where
  "optional f = (case f of Field ts _ n e l w fs it vs mi df \<Rightarrow> Field ts False n e l w fs it vs mi df)"

definition nullable :: "field \<Rightarrow> field" where
  "nullable f = (case f of Field ts r _ e l w fs it vs mi df \<Rightarrow> Field ts r True e l w fs it vs mi df)"

definition with_default :: "json \<Rightarrow> field \<Rightarrow> field" where
  "with_default d f = (case f of Field ts r n e l w fs it vs mi _ \<Rightarrow> Field ts r n e l w fs it vs mi (Some d))"

definition bounded_text :: "bool \<Rightarrow> nat option \<Rightarrow> field" where
  "bounded_text non_empty max_len = Field [StrType] True False non_empty max_len None None None None None None"

definition text_field :: field where "text_field = bounded_text True (Some 10000)"

definition sha_field :: field where "sha_field = bounded_text True (Some 200)"

definition opaque_field :: field where "opaque_field = bounded_text True (Some 1000)"

definition integer_field :: field where "integer_field = plain_field IntType"

definition boolean_field :: field where "boolean_field = plain_field BoolType"

definition enum_field :: "string list \<Rightarrow> field" where
  "enum_field words = Field [StrType] True False False None (Some words) None None None None None"

definition obj_field :: "fields \<Rightarrow> field" where
  "obj_field table = Field [DictType] True False False None None (Some table) None None None None"

definition bounded_array :: "nat option \<Rightarrow> field \<Rightarrow> field" where
  "bounded_array max_items items = Field [ListType] True False False None None None (Some items) None max_items None"

definition array_field :: "field \<Rightarrow> field" where "array_field items = bounded_array None items"

definition map_field :: "field \<Rightarrow> field" where
  "map_field f = Field [DictType] True False False None None None None (Some f) None None"

definition schema_version_field :: field where "schema_version_field = plain_field IntType"

lemmas field_defs =
  plain_field_def optional_def nullable_def with_default_def bounded_text_def text_field_def sha_field_def
  opaque_field_def integer_field_def boolean_field_def enum_field_def obj_field_def bounded_array_def
  array_field_def map_field_def schema_version_field_def

text \<open>A definition with one version and the default limit.\<close>

definition single_version ::
  "string \<Rightarrow> fields \<Rightarrow> (payload \<Rightarrow> public_error list) list \<Rightarrow> schema_definition" where
  "single_version kind table rules =
     \<lparr>sd_kind = kind, sd_versions = [(1, \<lparr>vs_fields = table, vs_rules = rules\<rparr>)], sd_migrations = [],
      sd_max_input_bytes = DEFAULT_MAX_INPUT_BYTES\<rparr>"

end
