(* ===== verification/Schema_Records.thy ===== *)
theory Schema_Records
  imports Validate Projection
begin

text \<open>
  The schemas of the canonical records: \<open>schema/review.py\<close>, \<open>decision.py\<close>, \<open>merge.py\<close>, \<open>records.py\<close>,
  \<open>report.py\<close> and \<open>followup.py\<close>, each field table in the order of the source, with the rules across fields, and
  \<open>RECORD_DEFINITIONS\<close>. The vocabularies \<open>REVIEW_VERDICTS\<close>, \<open>CLARIFICATION_RESULTS\<close>, \<open>DECISION_VERDICTS\<close> and
  \<open>MERGE_METHODS\<close> stand in \<open>Projection\<close>.
\<close>

section \<open>Review and clarification\<close>

definition SEVERITIES :: "string list" where "SEVERITIES = [''HIGH'', ''MEDIUM'', ''LOW'']"

definition FINDING_FIELDS :: fields where
  "FINDING_FIELDS =
     [(''id'', opaque_field), (''fingerprint'', opaque_field), (''problem'', text_field),
      (''severity'', enum_field SEVERITIES), (''blocking'', boolean_field),
      (''scope'', optional text_field), (''suggested_fix'', optional text_field),
      (''evidence'', optional text_field), (''file'', optional text_field),
      (''line'', optional (nullable integer_field))]"

definition has_blocking :: "json list \<Rightarrow> bool" where
  "has_blocking findings =
     list_ex (\<lambda>f. case f of JObj kvs \<Rightarrow> map_of kvs ''blocking'' = Some (JBool True) | _ \<Rightarrow> False) findings"

definition rule_verdict_matches_blocking :: "payload \<Rightarrow> public_error list" where
  "rule_verdict_matches_blocking data =
     (case map_of data ''findings'' of
        Some (JArr findings) \<Rightarrow>
          if map_of data ''verdict'' = Some (JStr ''APPROVED'') \<and> has_blocking findings
          then [public_error ''cross_field'' ''verdict'']
          else if map_of data ''verdict'' = Some (JStr ''CHANGES_REQUESTED'') \<and> \<not> has_blocking findings
          then [public_error ''cross_field'' ''verdict'']
          else []
      | _ \<Rightarrow> [])"

definition review_result_fields :: fields where
  "review_result_fields =
     [(''schema_version'', schema_version_field), (''target_head_sha'', sha_field),
      (''round'', integer_field), (''verdict'', enum_field REVIEW_VERDICTS),
      (''findings'', array_field (obj_field FINDING_FIELDS)),
      (''verification_runs'',
         optional (array_field (obj_field [(''command'', text_field), (''result'', text_field)])))]"

definition REVIEW_RESULT :: schema_definition where
  "REVIEW_RESULT = single_version ''REVIEW_RESULT'' review_result_fields [rule_verdict_matches_blocking]"

definition fix_result_fields :: fields where
  "fix_result_fields =
     [(''schema_version'', schema_version_field), (''summary'', text_field),
      (''pre_head_sha'', sha_field), (''pushed_head_sha'', sha_field),
      (''dispositions'',
         array_field
           (obj_field
              [(''finding_id'', opaque_field), (''disposition'', text_field),
               (''note'', optional text_field)])),
      (''tests'',
         array_field
           (obj_field
              [(''command'', text_field), (''cwd'', optional text_field), (''result'', text_field),
               (''duration_ms'', optional integer_field)])),
      (''dirty_before'', optional boolean_field), (''dirty_after'', optional boolean_field)]"

definition FIX_RESULT :: schema_definition where
  "FIX_RESULT = single_version ''FIX_RESULT'' fix_result_fields []"

definition clarification_question_fields :: fields where
  "clarification_question_fields =
     [(''schema_version'', schema_version_field), (''run_id'', opaque_field),
      (''fingerprint'', opaque_field), (''turn'', integer_field), (''target_head_sha'', sha_field),
      (''reply_to'', optional opaque_field), (''target_finding'', opaque_field),
      (''question'', text_field), (''grounds'', text_field), (''expected_confirmation'', text_field)]"

definition CLARIFICATION_QUESTION :: schema_definition where
  "CLARIFICATION_QUESTION = single_version ''CLARIFICATION_QUESTION'' clarification_question_fields []"

definition rule_revised_requires_finding :: "payload \<Rightarrow> public_error list" where
  "rule_revised_requires_finding data =
     (if map_of data ''result'' = Some (JStr ''REVISED'') \<and> map_of data ''revised_finding'' = None
      then [public_error ''cross_field'' ''revised_finding''] else [])"

definition rule_more_evidence_requires_detail :: "payload \<Rightarrow> public_error list" where
  "rule_more_evidence_requires_detail data =
     (if map_of data ''result'' = Some (JStr ''MORE_EVIDENCE_REQUIRED'') \<and> map_of data ''required_evidence'' = None
      then [public_error ''cross_field'' ''required_evidence''] else [])"

definition clarification_answer_fields :: fields where
  "clarification_answer_fields =
     [(''schema_version'', schema_version_field), (''run_id'', opaque_field),
      (''fingerprint'', opaque_field), (''turn'', integer_field), (''target_head_sha'', sha_field),
      (''result'', enum_field CLARIFICATION_RESULTS), (''rationale'', text_field),
      (''evidence'', optional text_field), (''revised_finding'', optional (obj_field FINDING_FIELDS)),
      (''required_evidence'', optional text_field)]"

definition CLARIFICATION_ANSWER :: schema_definition where
  "CLARIFICATION_ANSWER =
     single_version ''CLARIFICATION_ANSWER'' clarification_answer_fields
       [rule_revised_requires_finding, rule_more_evidence_requires_detail]"

section \<open>Decisions\<close>

definition rule_candidates_not_empty :: "payload \<Rightarrow> public_error list" where
  "rule_candidates_not_empty data =
     (if map_of data ''candidates'' = Some (JArr []) then [public_error ''cross_field'' ''candidates''] else [])"

definition decision_request_fields :: fields where
  "decision_request_fields =
     [(''schema_version'', schema_version_field), (''target_head_sha'', sha_field),
      (''reason'', text_field), (''constraints'', text_field),
      (''candidates'',
         array_field
           (obj_field
              [(''content'', text_field), (''pros'', text_field), (''cons'', text_field),
               (''impact'', text_field)])),
      (''recommendation'', text_field)]"

definition DECISION_REQUEST :: schema_definition where
  "DECISION_REQUEST =
     single_version ''DECISION_REQUEST'' decision_request_fields
       [rule_candidates_not_empty]"

definition decision_verdict_fields :: fields where
  "decision_verdict_fields =
     [(''schema_version'', schema_version_field), (''target_head_sha'', sha_field),
      (''verdict'', enum_field DECISION_VERDICTS), (''rationale'', text_field),
      (''assessment'', optional text_field), (''fingerprint'', optional opaque_field)]"

definition DECISION_VERDICT :: schema_definition where
  "DECISION_VERDICT = single_version ''DECISION_VERDICT'' decision_verdict_fields []"

definition rule_brief_has_recommended :: "payload \<Rightarrow> public_error list" where
  "rule_brief_has_recommended data =
     (case map_of data ''candidates'' of
        Some (JArr candidates) \<Rightarrow>
          if list_ex (\<lambda>c. case c of JObj kvs \<Rightarrow> map_of kvs ''recommended'' = Some (JBool True) | _ \<Rightarrow> False) candidates
          then [] else [public_error ''cross_field'' ''candidates'']
      | _ \<Rightarrow> [])"

definition decision_brief_fields :: fields where
  "decision_brief_fields =
     [(''schema_version'', schema_version_field), (''decision_id'', opaque_field),
      (''target_head_sha'', sha_field), (''question'', text_field),
      (''constraints_and_impact'', text_field),
      (''candidates'',
         array_field
           (obj_field
              [(''number'', integer_field), (''content'', text_field), (''pros'', text_field),
               (''cons'', text_field), (''risk'', optional text_field),
               (''impact_if_deferred'', optional text_field), (''recommended'', boolean_field)])),
      (''claude_position'', text_field), (''codex_review'', text_field), (''disagreements'', text_field),
      (''recommendation'', text_field), (''how_to_answer'', text_field)]"

definition DECISION_BRIEF :: schema_definition where
  "DECISION_BRIEF =
     single_version ''DECISION_BRIEF'' decision_brief_fields
       [rule_candidates_not_empty, rule_brief_has_recommended]"

definition decision_record_fields :: fields where
  "decision_record_fields =
     [(''schema_version'', schema_version_field), (''decision_id'', opaque_field),
      (''target_head_sha'', sha_field), (''considered'', text_field), (''initial_position'', text_field),
      (''verdict'', enum_field DECISION_VERDICTS), (''verdict_rationale'', text_field),
      (''adopted_implementation'', text_field)]"

definition DECISION_RECORD :: schema_definition where
  "DECISION_RECORD = single_version ''DECISION_RECORD'' decision_record_fields []"

definition user_decision_fields :: fields where
  "user_decision_fields =
     [(''schema_version'', schema_version_field), (''decision_id'', opaque_field),
      (''target_head_sha'', sha_field), (''answer'', text_field), (''input_route'', text_field)]"

definition USER_DECISION :: schema_definition where
  "USER_DECISION = single_version ''USER_DECISION'' user_decision_fields []"

section \<open>Merge gate\<close>

definition MERGE_INTENTS :: "string list" where
  "MERGE_INTENTS = [''QUESTION'', ''REQUEST_CHANGES'', ''APPROVE_MERGE'', ''CANCEL'']"

definition rule_question_and_changes_have_body :: "payload \<Rightarrow> public_error list" where
  "rule_question_and_changes_have_body data =
     (if map_of data ''intent'' \<in> {Some (JStr ''QUESTION''), Some (JStr ''REQUEST_CHANGES'')} \<and>
         map_of data ''body'' = None
      then [public_error ''cross_field'' ''body''] else [])"

definition merge_intent_fields :: fields where
  "merge_intent_fields =
     [(''schema_version'', schema_version_field), (''intent'', enum_field MERGE_INTENTS),
      (''repository'', text_field), (''pr_number'', integer_field), (''target_head_sha'', sha_field),
      (''input_route'', text_field), (''body'', optional text_field)]"

definition MERGE_INTENT :: schema_definition where
  "MERGE_INTENT = single_version ''MERGE_INTENT'' merge_intent_fields [rule_question_and_changes_have_body]"

definition merge_approval_fields :: fields where
  "merge_approval_fields =
     [(''schema_version'', schema_version_field), (''repository'', text_field),
      (''pr_number'', integer_field), (''approved_head_sha'', sha_field),
      (''merge_method'', enum_field MERGE_METHODS), (''intent'', enum_field [''APPROVE_MERGE'']),
      (''input_route'', text_field), (''recorded_at'', opaque_field), (''comment_id'', opaque_field)]"

definition MERGE_APPROVAL :: schema_definition where
  "MERGE_APPROVAL = single_version ''MERGE_APPROVAL'' merge_approval_fields []"

definition merge_outcome_fields :: fields where
  "merge_outcome_fields =
     [(''schema_version'', schema_version_field), (''repository'', text_field),
      (''pr_number'', integer_field), (''approved_head_sha'', sha_field),
      (''merged_commit_sha'', sha_field), (''merge_method'', enum_field MERGE_METHODS),
      (''approval_record_url'', opaque_field), (''verified_on_github'', boolean_field),
      (''verification_detail'', optional text_field)]"

definition MERGE_OUTCOME_SCHEMA :: schema_definition where
  "MERGE_OUTCOME_SCHEMA = single_version ''MERGE_OUTCOME'' merge_outcome_fields []"

definition gate_question_fields :: fields where
  "gate_question_fields =
     [(''schema_version'', schema_version_field), (''target_head_sha'', sha_field),
      (''body'', text_field), (''input_route'', text_field)]"

definition GATE_QUESTION :: schema_definition where
  "GATE_QUESTION = single_version ''GATE_QUESTION'' gate_question_fields []"

definition gate_answer_fields :: fields where
  "gate_answer_fields =
     [(''schema_version'', schema_version_field), (''target_head_sha'', sha_field),
      (''body'', text_field), (''reply_to'', optional opaque_field)]"

definition GATE_ANSWER :: schema_definition where
  "GATE_ANSWER = single_version ''GATE_ANSWER'' gate_answer_fields []"

definition gate_changes_fields :: fields where
  "gate_changes_fields =
     [(''schema_version'', schema_version_field), (''target_head_sha'', sha_field),
      (''body'', text_field), (''input_route'', text_field)]"

definition GATE_CHANGES :: schema_definition where
  "GATE_CHANGES = single_version ''GATE_CHANGES'' gate_changes_fields []"

section \<open>Blocks, CI and incidents\<close>

definition permission_block_fields :: fields where
  "permission_block_fields =
     [(''schema_version'', schema_version_field), (''permission_id'', opaque_field),
      (''tool'', text_field), (''reason'', text_field), (''risk'', text_field),
      (''repository'', text_field), (''number'', integer_field), (''target_head_sha'', sha_field),
      (''requested_scope'', text_field), (''resume_command'', text_field)]"

definition PERMISSION_BLOCK :: schema_definition where
  "PERMISSION_BLOCK = single_version ''PERMISSION_BLOCK'' permission_block_fields []"

definition CHECK :: field where
  "CHECK =
     obj_field
       [(''check_name'', text_field), (''url'', optional opaque_field),
        (''result'', optional text_field)]"

definition ci_timeout_fields :: fields where
  "ci_timeout_fields =
     [(''schema_version'', schema_version_field), (''target_head_sha'', sha_field),
      (''checks'', array_field CHECK), (''waited_seconds'', integer_field)]"

definition CI_TIMEOUT :: schema_definition where
  "CI_TIMEOUT = single_version ''CI_TIMEOUT'' ci_timeout_fields []"

definition ci_code_failure_fields :: fields where
  "ci_code_failure_fields =
     [(''schema_version'', schema_version_field), (''target_head_sha'', sha_field),
      (''checks'', array_field CHECK), (''summary'', text_field)]"

definition CI_CODE_FAILURE :: schema_definition where
  "CI_CODE_FAILURE = single_version ''CI_CODE_FAILURE'' ci_code_failure_fields []"

definition external_dependency_fields :: fields where
  "external_dependency_fields =
     [(''schema_version'', schema_version_field), (''target_head_sha'', sha_field),
      (''description'', text_field), (''resume_hint'', optional text_field)]"

definition EXTERNAL_DEPENDENCY :: schema_definition where
  "EXTERNAL_DEPENDENCY = single_version ''EXTERNAL_DEPENDENCY'' external_dependency_fields []"

definition block_intervention_fields :: fields where
  "block_intervention_fields =
     [(''schema_version'', schema_version_field), (''target_block_binding'', opaque_field),
      (''target_head_sha'', sha_field), (''body'', text_field), (''input_route'', text_field)]"

definition BLOCK_INTERVENTION :: schema_definition where
  "BLOCK_INTERVENTION = single_version ''BLOCK_INTERVENTION'' block_intervention_fields []"

definition rule_violations_not_empty :: "payload \<Rightarrow> public_error list" where
  "rule_violations_not_empty data =
     (if map_of data ''violation_bindings'' = Some (JArr [])
      then [public_error ''cross_field'' ''violation_bindings''] else [])"

definition integrity_incident_fields :: fields where
  "integrity_incident_fields =
     [(''schema_version'', schema_version_field), (''violation_bindings'', array_field opaque_field),
      (''summary'', text_field),
      (''audit_reference'', optional (obj_field [(''kind'', text_field), (''binding'', opaque_field)]))]"

definition INTEGRITY_INCIDENT :: schema_definition where
  "INTEGRITY_INCIDENT =
     single_version ''INTEGRITY_INCIDENT'' integrity_incident_fields
       [rule_violations_not_empty]"

definition user_cancel_fields :: fields where
  "user_cancel_fields =
     [(''schema_version'', schema_version_field), (''target_head_sha'', sha_field),
      (''input_route'', text_field), (''reason'', optional text_field)]"

definition USER_CANCEL :: schema_definition where
  "USER_CANCEL = single_version ''USER_CANCEL'' user_cancel_fields []"

section \<open>Final report\<close>

definition REPORT_MAX_INPUT_BYTES :: nat where "REPORT_MAX_INPUT_BYTES = 262144"

definition rule_report_is_pre_merge :: "payload \<Rightarrow> public_error list" where
  "rule_report_is_pre_merge data =
     (if map_of data ''merged'' \<noteq> Some (JBool False) then [public_error ''cross_field'' ''merged''] else [])"

definition final_report_fields :: fields where
  "final_report_fields =
     [(''schema_version'', schema_version_field), (''language'', bounded_text True (Some 50)),
      (''summary'', text_field), (''why'', text_field),
      (''user_visible_changes'', array_field text_field),
      (''acceptance_criteria'',
         array_field
           (obj_field
              [(''criterion'', text_field), (''result'', text_field), (''evidence'', text_field)])),
      (''review_history'',
         array_field
           (obj_field
              [(''round'', integer_field),
               (''findings'',
                  array_field
                    (obj_field
                       [(''finding_id'', optional opaque_field), (''description'', text_field),
                        (''resolution'', text_field)]))])),
      (''approved_head_sha'', sha_field),
      (''local_tests'', array_field (obj_field [(''command'', text_field), (''result'', text_field)])),
      (''ci_results'',
         array_field
           (obj_field
              [(''check_name'', text_field), (''result'', text_field),
               (''url'', optional opaque_field)])),
      (''remaining_risks'', array_field text_field),
      (''followups'',
         array_field
           (obj_field
              [(''candidate_id'', opaque_field), (''title'', text_field),
               (''codex_evaluation'', text_field), (''permission_status'', text_field),
               (''created_issue_url'', optional opaque_field)])),
      (''pre_merge_checks'', array_field text_field), (''merged'', boolean_field)]"

definition FINAL_REPORT :: schema_definition where
  "FINAL_REPORT =
     \<lparr>sd_kind = ''FINAL_REPORT'',
      sd_versions = [(1, \<lparr>vs_fields = final_report_fields, vs_rules = [rule_report_is_pre_merge]\<rparr>)],
      sd_migrations = [], sd_max_input_bytes = REPORT_MAX_INPUT_BYTES\<rparr>"

section \<open>Follow-up\<close>

definition FOLLOWUP_VERDICTS :: "string list" where
  "FOLLOWUP_VERDICTS = [''CREATE_ISSUE'', ''SUMMARY_ONLY'', ''LINK_EXISTING'', ''REVISE_AND_RESUBMIT'']"

definition FOLLOWUP_PERMISSION_STATES :: "string list" where
  "FOLLOWUP_PERMISSION_STATES = [''APPROVED'', ''REPORT_ONLY'', ''REVISE'', ''UNANSWERED'']"

definition FOLLOWUP_MAX_CANDIDATES :: nat where "FOLLOWUP_MAX_CANDIDATES = 3"

definition followup_candidates_fields :: fields where
  "followup_candidates_fields =
     [(''schema_version'', schema_version_field), (''repository'', text_field),
      (''number'', integer_field), (''target_head_sha'', sha_field),
      (''candidates'',
         bounded_array (Some FOLLOWUP_MAX_CANDIDATES)
           (obj_field
              [(''candidate_id'', opaque_field), (''title'', text_field), (''background'', text_field),
               (''scope'', text_field), (''out_of_scope'', text_field),
               (''acceptance_criteria'', array_field text_field)]))]"

definition FOLLOWUP_CANDIDATES :: schema_definition where
  "FOLLOWUP_CANDIDATES = single_version ''FOLLOWUP_CANDIDATES'' followup_candidates_fields []"

definition rule_link_existing_requires_issue :: "payload \<Rightarrow> public_error list" where
  "rule_link_existing_requires_issue data =
     (case map_of data ''evaluations'' of
        Some (JArr evaluations) \<Rightarrow>
          List.map_filter
            (\<lambda>(i, item).
               (case item of
                  JObj kvs \<Rightarrow>
                    if map_of kvs ''verdict'' = Some (JStr ''LINK_EXISTING'') \<and> map_of kvs ''existing_issue'' = None
                    then Some (public_error ''cross_field'' (''evaluations['' @ show_nat i @ ''].existing_issue''))
                    else None
                | _ \<Rightarrow> None))
            (enumerate 0 evaluations)
      | _ \<Rightarrow> [])"

definition followup_evaluation_fields :: fields where
  "followup_evaluation_fields =
     [(''schema_version'', schema_version_field), (''target_head_sha'', sha_field),
      (''evaluations'',
         bounded_array (Some FOLLOWUP_MAX_CANDIDATES)
           (obj_field
              [(''candidate_id'', opaque_field), (''verdict'', enum_field FOLLOWUP_VERDICTS),
               (''reason'', text_field), (''existing_issue'', optional opaque_field)]))]"

definition FOLLOWUP_EVALUATION :: schema_definition where
  "FOLLOWUP_EVALUATION =
     single_version ''FOLLOWUP_EVALUATION'' followup_evaluation_fields
       [rule_link_existing_requires_issue]"

definition rule_approved_requires_authority :: "payload \<Rightarrow> public_error list" where
  "rule_approved_requires_authority data =
     (if map_of data ''status'' = Some (JStr ''APPROVED'')
      then (if map_of data ''input_route'' = None then [public_error ''cross_field'' ''input_route''] else []) @
           (if map_of data ''approval_comment_id'' = None
            then [public_error ''cross_field'' ''approval_comment_id''] else [])
      else [])"

definition followup_permission_fields :: fields where
  "followup_permission_fields =
     [(''schema_version'', schema_version_field), (''repository'', text_field),
      (''number'', integer_field), (''target_head_sha'', sha_field), (''candidate_id'', opaque_field),
      (''candidate_fingerprint'', opaque_field), (''body_hash'', opaque_field),
      (''status'', enum_field FOLLOWUP_PERMISSION_STATES), (''input_route'', optional text_field),
      (''approval_comment_id'', optional opaque_field), (''created_issue_url'', optional opaque_field),
      (''failure_reason'', optional text_field), (''resume_hint'', optional text_field)]"

definition FOLLOWUP_PERMISSION :: schema_definition where
  "FOLLOWUP_PERMISSION =
     single_version ''FOLLOWUP_PERMISSION'' followup_permission_fields
       [rule_approved_requires_authority]"

section \<open>The definition of a record kind\<close>

fun RECORD_DEFINITIONS :: "record_kind \<Rightarrow> schema_definition" where
  "RECORD_DEFINITIONS K_REVIEW_RESULT = REVIEW_RESULT"
| "RECORD_DEFINITIONS K_FIX_RESULT = FIX_RESULT"
| "RECORD_DEFINITIONS K_CLARIFICATION_QUESTION = CLARIFICATION_QUESTION"
| "RECORD_DEFINITIONS K_CLARIFICATION_ANSWER = CLARIFICATION_ANSWER"
| "RECORD_DEFINITIONS K_DECISION_REQUEST = DECISION_REQUEST"
| "RECORD_DEFINITIONS K_DECISION_VERDICT = DECISION_VERDICT"
| "RECORD_DEFINITIONS K_DECISION_BRIEF = DECISION_BRIEF"
| "RECORD_DEFINITIONS K_DECISION_RECORD = DECISION_RECORD"
| "RECORD_DEFINITIONS K_EXTERNAL_DEPENDENCY = EXTERNAL_DEPENDENCY"
| "RECORD_DEFINITIONS K_PERMISSION_BLOCK = PERMISSION_BLOCK"
| "RECORD_DEFINITIONS K_CI_TIMEOUT = CI_TIMEOUT"
| "RECORD_DEFINITIONS K_CI_CODE_FAILURE = CI_CODE_FAILURE"
| "RECORD_DEFINITIONS K_FINAL_REPORT = FINAL_REPORT"
| "RECORD_DEFINITIONS K_INTEGRITY_INCIDENT = INTEGRITY_INCIDENT"
| "RECORD_DEFINITIONS K_GATE_ANSWER = GATE_ANSWER"
| "RECORD_DEFINITIONS K_USER_DECISION = USER_DECISION"
| "RECORD_DEFINITIONS K_GATE_QUESTION = GATE_QUESTION"
| "RECORD_DEFINITIONS K_GATE_CHANGES = GATE_CHANGES"
| "RECORD_DEFINITIONS K_MERGE_APPROVAL = MERGE_APPROVAL"
| "RECORD_DEFINITIONS K_BLOCK_INTERVENTION = BLOCK_INTERVENTION"
| "RECORD_DEFINITIONS K_USER_CANCEL = USER_CANCEL"

end
