(* ===== verification/Validate_Laws.thy ===== *)
theory Validate_Laws
  imports Validate
begin

text \<open>
  What the validator means. \<open>has_type\<close> is a typing judgement for JSON values, given by rules; the check of a
  field reports no error exactly for the values of its type (\<open>check_iff\<close>). \<open>field_path\<close> are the paths of a
  specification with numbers in place of keys and positions; every error is reported at one of them.
\<close>

section \<open>Types of JSON values\<close>

inductive has_type :: "field \<Rightarrow> json \<Rightarrow> bool" where
  null: "fl_allow_none spec \<Longrightarrow> has_type spec JNull"
| integer: "IntType \<in> set (fl_types spec) \<Longrightarrow> has_type spec (JInt i)"
| boolean: "BoolType \<in> set (fl_types spec) \<Longrightarrow> has_type spec (JBool b)"
| string:
    "\<lbrakk>StrType \<in> set (fl_types spec); fl_non_empty spec \<longrightarrow> s \<noteq> [];
      \<forall>n. fl_max_len spec = Some n \<longrightarrow> code_points s \<le> n;
      \<forall>words. fl_enum spec = Some words \<longrightarrow> s \<in> set words\<rbrakk>
     \<Longrightarrow> has_type spec (JStr s)"
| object:
    "\<lbrakk>DictType \<in> set (fl_types spec); fl_fields spec = Some table; fst ` set items \<subseteq> fst ` set table;
      \<forall>(n, f) \<in> set table. fl_required f \<longrightarrow> n \<in> fst ` set items;
      \<forall>(n, f) \<in> set table. \<forall>v. map_of items n = Some v \<longrightarrow> has_type f v\<rbrakk>
     \<Longrightarrow> has_type spec (JObj items)"
| dictionary:
    "\<lbrakk>DictType \<in> set (fl_types spec); fl_fields spec = None; fl_values spec = Some f;
      \<forall>(k, v) \<in> set items. has_type f v\<rbrakk>
     \<Longrightarrow> has_type spec (JObj items)"
| any_object:
    "\<lbrakk>DictType \<in> set (fl_types spec); fl_fields spec = None; fl_values spec = None\<rbrakk>
     \<Longrightarrow> has_type spec (JObj items)"
| array:
    "\<lbrakk>ListType \<in> set (fl_types spec); \<forall>n. fl_max_items spec = Some n \<longrightarrow> length vs \<le> n;
      \<forall>f. fl_items spec = Some f \<longrightarrow> (\<forall>v \<in> set vs. has_type f v)\<rbrakk>
     \<Longrightarrow> has_type spec (JArr vs)"

inductive_simps has_type_simps:
  "has_type spec JNull" "has_type spec (JInt i)" "has_type spec (JBool b)" "has_type spec (JFloat t)"
  "has_type spec (JStr s)" "has_type spec (JObj items)" "has_type spec (JArr vs)"

text \<open>An object that has the fields of a table and no others.\<close>

definition has_fields :: "fields \<Rightarrow> payload \<Rightarrow> bool" where
  "has_fields table items \<longleftrightarrow>
     fst ` set items \<subseteq> fst ` set table \<and>
     (\<forall>(n, f) \<in> set table. fl_required f \<longrightarrow> n \<in> fst ` set items) \<and>
     (\<forall>(n, f) \<in> set table. \<forall>v. map_of items n = Some v \<longrightarrow> has_type f v)"

lemma has_fields_Nil: "has_fields [] items \<longleftrightarrow> items = []"
  by (simp add: has_fields_def)

lemma has_type_object:
  "fl_fields spec = Some table \<Longrightarrow>
   has_type spec (JObj items) \<longleftrightarrow> DictType \<in> set (fl_types spec) \<and> has_fields table items"
  by (simp add: has_type_simps has_fields_def)

lemma has_fields_lookup:
  "has_fields table items \<Longrightarrow> map_of table n = Some f \<Longrightarrow> map_of items n = Some v \<Longrightarrow> has_type f v"
  using map_of_SomeD [of table n f] by (fastforce simp: has_fields_def)

lemma has_fields_required:
  "has_fields table items \<Longrightarrow> map_of table n = Some f \<Longrightarrow> fl_required f \<Longrightarrow> \<exists>v. map_of items n = Some v"
  using map_of_SomeD [of table n f] by (fastforce simp: has_fields_def dom_map_of_conv_image_fst [symmetric])

lemma has_fields_key:
  "has_fields table items \<Longrightarrow> map_of items n = Some v \<Longrightarrow> \<exists>f. map_of table n = Some f"
  using map_of_SomeD [of items n v] unfolding has_fields_def
  by (metis (no_types, lifting) fst_conv image_iff in_mono map_of_eq_None_iff not_None_eq)

section \<open>The check decides the type\<close>

lemma text_errors_Nil:
  "text_errors spec s path = [] \<longleftrightarrow>
     (fl_non_empty spec \<longrightarrow> s \<noteq> []) \<and> (\<forall>n. fl_max_len spec = Some n \<longrightarrow> code_points s \<le> n) \<and>
     (\<forall>words. fl_enum spec = Some words \<longrightarrow> s \<in> set words)"
  by (auto simp: text_errors_def split: option.splits)

lemma count_errors_Nil:
  "count_errors spec vs path = [] \<longleftrightarrow> (\<forall>n. fl_max_items spec = Some n \<longrightarrow> length vs \<le> n)"
  by (auto simp: count_errors_def split: option.splits)

lemma unknown_errors_Nil: "unknown_errors items table path = [] \<longleftrightarrow> fst ` set items \<subseteq> fst ` set table"
  by (auto simp: unknown_errors_def Let_def filter_empty_conv)

lemma type_matches_simps [simp]:
  "type_matches spec (JInt i) \<longleftrightarrow> IntType \<in> set (fl_types spec)"
  "type_matches spec (JBool b) \<longleftrightarrow> BoolType \<in> set (fl_types spec)"
  "type_matches spec (JFloat t) \<longleftrightarrow> False"
  "type_matches spec (JStr s) \<longleftrightarrow> StrType \<in> set (fl_types spec)"
  "type_matches spec (JObj items) \<longleftrightarrow> DictType \<in> set (fl_types spec)"
  "type_matches spec (JArr vs) \<longleftrightarrow> ListType \<in> set (fl_types spec)"
  by (auto simp: type_matches_def list_ex_iff)

lemma enumerate_member: "(i, w) \<in> set (enumerate n vs) \<Longrightarrow> w \<in> set vs"
  by (auto simp: in_set_enumerate_eq)

lemma enumerate_values: "w \<in> set vs \<Longrightarrow> \<exists>i. (i, w) \<in> set (enumerate 0 vs)"
  by (simp only: in_set_conv_nth [of w vs]) (auto simp: in_set_enumerate_eq intro!: exI)

lemma check_value:
  "check JNull spec path = (if fl_allow_none spec then [] else [public_error ''null_not_allowed'' path])"
  "check (JInt i) spec path = (if IntType \<in> set (fl_types spec) then [] else [public_error ''type_mismatch'' path])"
  "check (JBool b) spec path = (if BoolType \<in> set (fl_types spec) then [] else [public_error ''type_mismatch'' path])"
  "check (JFloat t) spec path = [public_error ''type_mismatch'' path]"
  "check (JStr s) spec path =
     (if StrType \<in> set (fl_types spec) then text_errors spec s path else [public_error ''type_mismatch'' path])"
  "check (JObj items) spec path =
     (if DictType \<in> set (fl_types spec)
      then
        (case fl_fields spec of
           Some table \<Rightarrow> check_fields items table path @ unknown_errors items table path
         | None \<Rightarrow>
             (case fl_values spec of
                Some f \<Rightarrow> concat (map (\<lambda>(k, w). check w f (path @ ''.'' @ map_key_token (map fst items) k)) items)
              | None \<Rightarrow> []))
      else [public_error ''type_mismatch'' path])"
  "check (JArr vs) spec path =
     (if ListType \<in> set (fl_types spec)
      then
        count_errors spec vs path @
        (case fl_items spec of
           Some f \<Rightarrow> concat (map (\<lambda>(i, w). check w f (path @ ''['' @ show_nat i @ '']'')) (enumerate 0 vs))
         | None \<Rightarrow> [])
      else [public_error ''type_mismatch'' path])"
  by (simp_all add: check.simps)

lemma check_fields_simps:
  "check_fields items [] path = []"
  "check_fields items ((name, spec) # rest) path =
     (case map_of items name of
        None \<Rightarrow> if fl_required spec then [public_error ''required_missing'' (key_prefix path @ name)] else []
      | Some v \<Rightarrow> check v spec (key_prefix path @ name)) @
     check_fields items rest path"
  by (subst check_fields.simps, simp)+

lemma check_iff:
  "check v spec path = [] \<longleftrightarrow> has_type spec v"
  "check_fields items table path = [] \<longleftrightarrow>
     (\<forall>(n, f) \<in> set table. fl_required f \<longrightarrow> n \<in> fst ` set items) \<and>
     (\<forall>(n, f) \<in> set table. \<forall>v. map_of items n = Some v \<longrightarrow> has_type f v)"
proof (induction v spec path and items table path rule: check_check_fields.induct)
  case (1 v spec path)
  show ?case
  proof (cases v)
    case (JObj items)
    show ?thesis
    proof (cases "fl_fields spec")
      case (Some table)
      then show ?thesis
        using "1.IH"(3) [OF _ _ JObj Some] JObj Some
        by (auto simp: check_value has_type_simps unknown_errors_Nil)
    next
      case None
      show ?thesis
      proof (cases "fl_values spec")
        case (Some f)
        have "check w f (path @ ''.'' @ map_key_token (map fst items) k) = [] \<longleftrightarrow> has_type f w"
          if "(k, w) \<in> set items" "DictType \<in> set (fl_types spec)" for k w
          using "1.IH"(2) [OF _ _ JObj None Some that(1) refl] JObj that by simp
        then have "DictType \<in> set (fl_types spec) \<Longrightarrow>
          (\<forall>(k, w) \<in> set items. check w f (path @ ''.'' @ map_key_token (map fst items) k) = []) \<longleftrightarrow>
          (\<forall>(k, w) \<in> set items. has_type f w)"
          by blast
        then show ?thesis
          using JObj None Some by (simp add: check_value has_type_simps case_prod_beta)
      qed (use JObj None in \<open>simp add: check_value has_type_simps\<close>)
    qed
  next
    case (JArr vs)
    show ?thesis
    proof (cases "fl_items spec")
      case (Some f)
      have step: "check w f (path @ ''['' @ show_nat i @ '']'') = [] \<longleftrightarrow> has_type f w"
        if "(i, w) \<in> set (enumerate 0 vs)" "ListType \<in> set (fl_types spec)" for i w
        using "1.IH"(1) [OF _ _ JArr Some that(1) refl] JArr that by simp
      have "(\<forall>(i, w) \<in> set (enumerate 0 vs). has_type f w) \<longleftrightarrow> (\<forall>w \<in> set vs. has_type f w)"
        using enumerate_member enumerate_values by (metis (no_types, lifting) case_prodD case_prodI2)
      then have "ListType \<in> set (fl_types spec) \<Longrightarrow>
        (\<forall>(i, w) \<in> set (enumerate 0 vs). check w f (path @ ''['' @ show_nat i @ '']'') = []) \<longleftrightarrow>
        (\<forall>w \<in> set vs. has_type f w)"
        using step by blast
      then show ?thesis
        using JArr Some by (auto simp: check_value has_type_simps count_errors_Nil case_prod_beta)
    qed (use JArr in \<open>simp add: check_value has_type_simps count_errors_Nil\<close>)
  qed (auto simp: check_value has_type_simps text_errors_Nil)
next
  case (2 items table path)
  show ?case
  proof (cases table)
    case (Cons entry rest)
    obtain name spec where entry: "entry = (name, spec)" by (cases entry)
    have "map_of items name = None \<longleftrightarrow> name \<notin> fst ` set items" by (simp add: map_of_eq_None_iff)
    then show ?thesis
      using "2.IH"(2) [OF Cons entry [symmetric]] "2.IH"(1) [OF Cons entry [symmetric]] Cons entry
      by (cases "map_of items name") (auto simp: check_fields_simps)
  qed (simp add: check_fields_simps)
qed

lemma check_object_Nil: "check_object items table path = [] \<longleftrightarrow> has_fields table items"
  by (auto simp: check_object_def check_iff unknown_errors_Nil has_fields_def)

lemma add_error_not_Nil: "add_error e es \<noteq> []"
  by (cases es) auto

lemma canonicalize_errors_Nil: "canonicalize_errors es = [] \<longleftrightarrow> es = []"
proof -
  have "fold add_error es acc = [] \<longleftrightarrow> es = [] \<and> acc = []" for acc
    by (induction es arbitrary: acc) (auto simp: add_error_not_Nil)
  then show ?thesis by (simp add: canonicalize_errors_def)
qed

lemma structural_errors_Nil:
  "structural_errors spec data = [] \<longleftrightarrow>
     has_fields (vs_fields spec) data \<and> (\<forall>rule \<in> set (vs_rules spec). rule data = [])"
  by (simp add: structural_errors_def canonicalize_errors_Nil check_object_Nil)

definition version_of :: "payload \<Rightarrow> int option" where
  "version_of data = (case map_of data ''schema_version'' of Some (JInt v) \<Rightarrow> Some v | _ \<Rightarrow> None)"

definition valid_version :: "version_spec \<Rightarrow> payload \<Rightarrow> bool" where
  "valid_version spec data \<longleftrightarrow>
     has_fields (vs_fields spec) data \<and> (\<forall>rule \<in> set (vs_rules spec). rule data = [])"

text \<open>The specification that a payload is checked against.\<close>

definition spec_for_payload :: "schema_definition \<Rightarrow> payload \<Rightarrow> version_spec option" where
  "spec_for_payload d data =
     spec_at d (case version_of data of Some v \<Rightarrow> v | None \<Rightarrow> current_version d)"

lemma validate_object_Accepted:
  "validate_object d data = Accepted data' version \<longleftrightarrow>
     data' = data \<and> version = version_of data \<and>
     (\<exists>spec. spec_for_payload d data = Some spec \<and> valid_version spec data)"
  by (auto simp: validate_object_def validate_parsed_def Let_def version_of_def spec_for_payload_def refuse_def
      valid_version_def structural_errors_Nil split: option.splits json.splits if_splits)

section \<open>Where errors are reported\<close>

inductive field_path :: "field \<Rightarrow> string \<Rightarrow> bool" where
  here: "field_path f []"
| known: "\<lbrakk>fl_fields f = Some table; (n, g) \<in> set table; field_path g p\<rbrakk> \<Longrightarrow> field_path f (''.'' @ n @ p)"
| unknown: "fl_fields f = Some table \<Longrightarrow> field_path f (''.<unknown#'' @ show_nat k @ ''>'')"
| entry: "\<lbrakk>fl_values f = Some g; field_path g p\<rbrakk> \<Longrightarrow> field_path f (''.<key#'' @ show_nat k @ ''>'' @ p)"
| element: "\<lbrakk>fl_items f = Some g; field_path g p\<rbrakk> \<Longrightarrow> field_path f (''['' @ show_nat k @ '']'' @ p)"

definition table_path :: "fields \<Rightarrow> string \<Rightarrow> bool" where
  "table_path table p \<longleftrightarrow>
     (\<exists>(n, f) \<in> set table. \<exists>q. field_path f q \<and> p = n @ q) \<or> (\<exists>k. p = ''<unknown#'' @ show_nat k @ ''>'')"

lemma text_error_path: "e \<in> set (text_errors spec s path) \<Longrightarrow> pe_path e = path"
  by (auto simp: text_errors_def split: if_splits option.splits)

lemma count_error_path: "e \<in> set (count_errors spec vs path) \<Longrightarrow> pe_path e = path"
  by (auto simp: count_errors_def split: if_splits option.splits)

lemma unknown_error_path:
  "e \<in> set (unknown_errors items table path) \<Longrightarrow>
   \<exists>k. pe_path e = key_prefix path @ ''<unknown#'' @ show_nat k @ ''>''"
  by (auto simp: unknown_errors_def Let_def unknown_field_token_def)

lemma error_paths:
  "e \<in> set (check v spec path) \<Longrightarrow> path \<noteq> ''$'' \<Longrightarrow> \<exists>p. field_path spec p \<and> pe_path e = path @ p"
  "e \<in> set (check_fields items table path) \<Longrightarrow> (path = ''$'' \<Longrightarrow> ''$'' \<notin> fst ` set table) \<Longrightarrow>
   \<exists>(n, f) \<in> set table. \<exists>p. field_path f p \<and> pe_path e = key_prefix path @ n @ p"
proof (induction v spec path and items table path rule: check_check_fields.induct)
  case (1 v spec path)
  have root: "field_path spec []" by (rule field_path.here)
  show ?case
  proof (cases v)
    case (JObj items)
    show ?thesis
    proof (cases "DictType \<in> set (fl_types spec)")
      case typed: True
      consider (table) table where "fl_fields spec = Some table"
        | (map) f where "fl_fields spec = None" "fl_values spec = Some f"
        | (any) "fl_fields spec = None" "fl_values spec = None"
        by (cases "fl_fields spec"; cases "fl_values spec") auto
      then show ?thesis
      proof cases
        case table
        from "1.prems" consider "e \<in> set (check_fields items table path)" | "e \<in> set (unknown_errors items table path)"
          using typed table JObj by (auto simp: check_value)
        then show ?thesis
        proof cases
          case 1
          then show ?thesis
            using "1.IH"(3) [OF _ _ JObj table 1] typed JObj "1.prems"(2) field_path.known [OF table]
            by (fastforce simp: key_prefix_def)
        next
          case 2
          then show ?thesis
            using unknown_error_path [OF 2] field_path.unknown [OF table] "1.prems"(2) by (fastforce simp: key_prefix_def)
        qed
      next
        case map
        then obtain k w where w: "(k, w) \<in> set items" "e \<in> set (check w f (path @ ''.'' @ map_key_token (map fst items) k))"
          using "1.prems" typed JObj by (auto simp: check_value)
        then have "\<exists>p. field_path f p \<and> pe_path e = (path @ ''.'' @ map_key_token (map fst items) k) @ p"
          using "1.IH"(2) [OF _ _ JObj map w(1) refl w(2)] typed JObj by (auto simp: append_eq_Cons_conv)
        then show ?thesis
          using field_path.entry [OF map(2)] by (fastforce simp: map_key_token_def)
      qed (use "1.prems" typed JObj root in \<open>auto simp: check_value\<close>)
    qed (use "1.prems" JObj root in \<open>auto simp: check_value\<close>)
  next
    case (JArr vs)
    show ?thesis
    proof (cases "ListType \<in> set (fl_types spec)")
      case typed: True
      show ?thesis
      proof (cases "e \<in> set (count_errors spec vs path)")
        case False
        then obtain f i w where f: "fl_items spec = Some f" and w: "(i, w) \<in> set (enumerate 0 vs)"
          "e \<in> set (check w f (path @ ''['' @ show_nat i @ '']''))"
          using "1.prems" typed JArr by (cases "fl_items spec") (auto simp: check_value)
        then have "\<exists>p. field_path f p \<and> pe_path e = (path @ ''['' @ show_nat i @ '']'') @ p"
          using "1.IH"(1) [OF _ _ JArr f w(1) refl w(2)] typed JArr by (auto simp: append_eq_Cons_conv)
        then show ?thesis
          using field_path.element [OF f] by fastforce
      qed (use count_error_path root in force)
    qed (use "1.prems" JArr root in \<open>auto simp: check_value\<close>)
  qed (use "1.prems" root text_error_path in \<open>force simp: check_value split: if_splits\<close>)+
next
  case (2 items table path)
  show ?case
  proof (cases table)
    case (Cons entry rest)
    obtain name spec where entry: "entry = (name, spec)" by (cases entry)
    have table: "table = (name, spec) # rest" using Cons entry by simp
    have root: "field_path spec []" by (rule field_path.here)
    from "2.prems"(1) consider
        "map_of items name = None" "pe_path e = key_prefix path @ name"
      | v where "map_of items name = Some v" "e \<in> set (check v spec (key_prefix path @ name))"
      | "e \<in> set (check_fields items rest path)"
      by (auto simp: table check_fields_simps split: option.splits if_splits)
    then show ?thesis
    proof cases
      case 1
      then show ?thesis using root table by force
    next
      case (2 v)
      moreover have "key_prefix path @ name \<noteq> ''$''"
        using "2.prems"(2) table by (auto simp: key_prefix_def append_eq_Cons_conv)
      ultimately show ?thesis
        using "2.IH"(1) [OF Cons entry [symmetric] 2] table by fastforce
    next
      case 3
      then show ?thesis using "2.IH"(2) [OF Cons entry [symmetric] 3] "2.prems"(2) table by fastforce
    qed
  qed (use "2.prems" in \<open>simp add: check_fields_simps\<close>)
qed

lemma check_object_path:
  assumes "e \<in> set (check_object data table ''$'')" and "''$'' \<notin> fst ` set table"
  shows "table_path table (pe_path e)"
proof -
  consider "e \<in> set (check_fields data table ''$'')" | "e \<in> set (unknown_errors data table ''$'')"
    using assms(1) by (auto simp: check_object_def)
  then show ?thesis
  proof cases
    case 1
    then show ?thesis using error_paths(2) [OF 1] assms(2) by (fastforce simp: table_path_def key_prefix_def)
  next
    case 2
    then show ?thesis using unknown_error_path [OF 2] by (auto simp: table_path_def key_prefix_def)
  qed
qed

lemma canonicalize_errors_subset: "set (canonicalize_errors es) \<subseteq> set es"
proof -
  have add: "set (add_error e es) \<subseteq> insert e (set es)" for e es
    by (induction es) auto
  have "set (fold add_error es acc) \<subseteq> set es \<union> set acc" for acc
    by (induction es arbitrary: acc) (use add in fastforce)+
  from this [of "[]"] show ?thesis by (simp add: canonicalize_errors_def)
qed

lemma public_error_path:
  assumes "e \<in> set (structural_errors spec data)" and "''$'' \<notin> fst ` set (vs_fields spec)"
  shows "\<exists>p. pe_path e = sanitize_path p \<and>
    (table_path (vs_fields spec) p \<or> (\<exists>rule \<in> set (vs_rules spec). p \<in> pe_path ` set (rule data)))"
proof -
  obtain e' where "pe_path e = sanitize_path (pe_path e')"
    "e' \<in> set (check_object data (vs_fields spec) ''$'' @ concat (map (\<lambda>rule. rule data) (vs_rules spec)))"
    using assms(1) canonicalize_errors_subset by (fastforce simp: structural_errors_def)
  then show ?thesis using check_object_path [OF _ assms(2)] by auto
qed

lemma code_points_append: "code_points (s @ t) = code_points s + code_points t"
  by (simp add: code_points_def)

lemma code_points_le: "code_points s \<le> length s"
  by (simp add: code_points_def)

lemma sanitize_path_bound: "code_points (sanitize_path p) \<le> MAX_PATH_LENGTH"
proof -
  have "code_points ellipsis = 1" by code_simp
  moreover have "code_points (take (MAX_PATH_LENGTH - 1) q) \<le> MAX_PATH_LENGTH - 1" for q
    using code_points_le [of "take (MAX_PATH_LENGTH - 1) q"] by simp
  ultimately show ?thesis
    using code_points_le [of "filter printable p"]
    by (auto simp: sanitize_path_def Let_def code_points_append MAX_PATH_LENGTH_def add.commute
        intro: order_trans dest: add_right_mono)
qed

lemma sanitize_path_printable: "set (sanitize_path p) \<subseteq> Collect printable"
proof -
  have "set ellipsis \<subseteq> Collect printable" by (auto simp: ellipsis_def printable_def)
  then show ?thesis by (auto simp: sanitize_path_def Let_def dest: in_set_takeD)
qed

section \<open>Repair\<close>

text \<open>A value and what a repair may make of it: an object may get further keys, at any depth.\<close>

inductive repaired :: "json \<Rightarrow> json \<Rightarrow> bool" where
  same: "repaired v v"
| object: "(\<forall>n v. map_of items n = Some v \<longrightarrow> (\<exists>w. map_of items' n = Some w \<and> repaired v w)) \<Longrightarrow>
           repaired (JObj items) (JObj items')"

definition repaired_object :: "payload \<Rightarrow> payload \<Rightarrow> bool" where
  "repaired_object items items' \<longleftrightarrow>
     (\<forall>n v. map_of items n = Some v \<longrightarrow> (\<exists>w. map_of items' n = Some w \<and> repaired v w))"

lemma repaired_simple: "repaired v w \<Longrightarrow> (\<And>items. v \<noteq> JObj items) \<Longrightarrow> w = v"
  by (erule repaired.cases) auto

lemma repaired_trans: "repaired u v \<Longrightarrow> repaired v w \<Longrightarrow> repaired u w"
proof (induction arbitrary: w rule: repaired.induct)
  case (object items items')
  from object.prems show ?case
  proof (cases rule: repaired.cases)
    case same
    then show ?thesis using object.IH by (metis (no_types, lifting) repaired.object)
  next
    case (object items'')
    then show ?thesis
      unfolding object(1) by (intro repaired.object) (metis (no_types, lifting) object.IH)
  qed
qed

lemma repaired_object_trans: "repaired_object a b \<Longrightarrow> repaired_object b c \<Longrightarrow> repaired_object a c"
  unfolding repaired_object_def by (meson repaired_trans)

lemma repaired_object_refl: "repaired_object a a"
  by (auto simp: repaired_object_def intro: repaired.same)

lemma apply_defaults_repairs: "repaired_object data (apply_defaults table data)"
proof (induction table data rule: apply_defaults.induct)
  case (2 name spec rest data)
  let ?data = "case map_of data name of
      None \<Rightarrow> (case fl_default spec of Some d \<Rightarrow> if fl_required spec then data else data @ [(name, d)] | None \<Rightarrow> data)
    | Some v \<Rightarrow>
        (case fl_fields spec of
           None \<Rightarrow> data
         | Some table \<Rightarrow>
             (case v of JObj items \<Rightarrow> AList.update name (JObj (apply_defaults table items)) data | _ \<Rightarrow> data))"
  have "repaired_object data ?data"
  proof (cases "map_of data name")
    case None
    then show ?thesis
      by (auto simp: repaired_object_def map_add_def split: option.splits intro: repaired.same)
  next
    case (Some v)
    have "repaired_object data (AList.update name (JObj (apply_defaults table items)) data)"
      if "fl_fields spec = Some table" "v = JObj items" for table items
    proof -
      have "repaired v (JObj (apply_defaults table items))"
        using "2.IH"(1) [OF Some that] that by (auto simp: repaired_object_def intro: repaired.object)
      then show ?thesis using Some by (auto simp: repaired_object_def update_conv' intro: repaired.same)
    qed
    then show ?thesis
      using Some by (auto simp: repaired_object_refl split: option.splits json.splits)
  qed
  then show ?case using "2.IH"(2) repaired_object_trans unfolding apply_defaults.simps by blast
qed (simp add: repaired_object_refl)

text \<open>A key that the repair adds to an object is an optional field and has its declared default.\<close>

lemma apply_defaults_added:
  "map_of data n = None \<Longrightarrow> map_of (apply_defaults table data) n = Some v \<Longrightarrow> distinct (map fst table) \<Longrightarrow>
   \<exists>f. (n, f) \<in> set table \<and> \<not> fl_required f \<and> fl_default f = Some v"
proof (induction table data rule: apply_defaults.induct)
  case (2 name spec rest data)
  show ?case
  proof (cases "n = name")
    case True
    have keep: "map_of (apply_defaults rest d) name = map_of d name" for d
      using "2.prems"(3)
      by (induction rest d rule: apply_defaults.induct)
         (auto simp: update_conv' map_add_def split: option.splits json.splits)
    show ?thesis
      using "2.prems" True by (auto simp: keep map_add_def split: option.splits if_splits)
  next
    case False
    then show ?thesis
      using "2.IH"(2) "2.prems"
      by (fastforce simp: update_conv' map_add_def split: option.splits json.splits if_splits)
  qed
qed simp

end
