(* ===== verification/Projection_Build.thy ===== *)
theory Projection_Build
  imports Schema_Records Validate_Laws
begin

text \<open>
  \<open>build_record_projection\<close> of \<open>schema/projection.py\<close>: the part of a validated payload that goes into the marker
  of a record, and what the reader of the marker gets back from it.
\<close>

section \<open>Building\<close>

definition projectable :: "string \<Rightarrow> json \<Rightarrow> bool" where
  "projectable key v \<longleftrightarrow>
     (if key \<in> INTEGER_KEYS then (case v of JInt i \<Rightarrow> 1 \<le> i | _ \<Rightarrow> False)
      else (case v of JStr s \<Rightarrow> s \<noteq> [] | _ \<Rightarrow> False))"

fun project_fields :: "projection_field list \<Rightarrow> payload \<Rightarrow> projection_error + payload" where
  "project_fields [] data = Inr []"
| "project_fields (f # fs) data =
     (case map_of data (pf_source f) of
        None \<Rightarrow> if pf_required f then Inl (ProjectionError ''missing'') else project_fields fs data
      | Some v \<Rightarrow>
          if projectable (pf_key f) v
          then bind_result (project_fields fs data) (\<lambda>p. Inr ((pf_key f, v) # p))
          else Inl (ProjectionError ''value''))"

fun nonempty_texts :: "json list \<Rightarrow> string list option" where
  "nonempty_texts [] = Some []"
| "nonempty_texts (JStr s # vs) = (if s = [] then None else map_option (\<lambda>t. s # t) (nonempty_texts vs))"
| "nonempty_texts (_ # vs) = None"

definition project_digest :: "string option \<Rightarrow> payload \<Rightarrow> projection_error + payload" where
  "project_digest source data =
     (case source of
        None \<Rightarrow> Inr []
      | Some k \<Rightarrow>
          (case map_of data k of
             Some (JArr vs) \<Rightarrow>
               (case nonempty_texts vs of
                  None \<Rightarrow> Inl (ProjectionError ''digest'')
                | Some texts \<Rightarrow>
                    (let (digest, count) = canonical_set_digest texts in
                     Inr [(DIGEST_KEY, JStr digest), (COUNT_KEY, JInt (int count))]))
           | _ \<Rightarrow> Inl (ProjectionError ''digest'')))"

definition build_record_projection ::
  "record_kind \<Rightarrow> payload \<Rightarrow> string \<Rightarrow> string \<Rightarrow> projection_error + payload" where
  "build_record_projection kind payload head_sha body =
     (let spec = PROJECTION_SPECS kind in
      case validate_object (RECORD_DEFINITIONS kind) payload of
        Accepted data _ \<Rightarrow>
          if (case ps_head_source spec of Some source \<Rightarrow> map_of data source \<noteq> Some (JStr head_sha) | None \<Rightarrow> False)
          then Inl (ProjectionError ''head'')
          else
            bind_result (project_fields (ps_fields spec) data) (\<lambda>named.
            bind_result (project_digest (ps_digest_source spec) data) (\<lambda>digest.
              Inr (named @ digest @
                   [(PAYLOAD_HASH_KEY, JStr (semantic_payload_hash body data (named @ digest)))])))
      | _ \<Rightarrow> Inl (ProjectionError ''schema''))"

section \<open>What a projection contains\<close>

lemma project_fields_Cons:
  "project_fields (f # fs) data = Inr p \<longleftrightarrow>
     map_of data (pf_source f) = None \<and> \<not> pf_required f \<and> project_fields fs data = Inr p \<or>
     (\<exists>v q. map_of data (pf_source f) = Some v \<and> projectable (pf_key f) v \<and> project_fields fs data = Inr q \<and>
            p = (pf_key f, v) # q)"
  by (auto simp: bind_result_eq_Inr split: option.splits)

declare project_fields.simps(2) [simp del]

lemma project_fields_keys: "project_fields fs data = Inr p \<Longrightarrow> fst ` set p \<subseteq> pf_key ` set fs"
proof (induction fs arbitrary: p)
  case (Cons g fs)
  from Cons.prems consider "project_fields fs data = Inr p"
    | v q where "project_fields fs data = Inr q" "p = (pf_key g, v) # q"
    by (auto simp: project_fields_Cons)
  then show ?case
  proof cases
    case 1
    then show ?thesis using Cons.IH by auto
  next
    case (2 v q)
    then show ?thesis using Cons.IH [of q] by auto
  qed
qed simp

lemma project_fields_lookup:
  "project_fields fs data = Inr p \<Longrightarrow> distinct (map pf_key fs) \<Longrightarrow> f \<in> set fs \<Longrightarrow>
   map_of p (pf_key f) = map_of data (pf_source f) \<and> (pf_required f \<longrightarrow> map_of p (pf_key f) \<noteq> None)"
proof (induction fs arbitrary: p)
  case (Cons g fs)
  have absent: "project_fields fs data = Inr q \<Longrightarrow> map_of q (pf_key g) = None" for q
    using project_fields_keys [of fs data q] Cons.prems(2) by (auto simp: map_of_eq_None_iff)
  have other: "pf_key h \<noteq> pf_key g" if "h \<in> set fs" for h
    using Cons.prems(2) imageI [OF that, of pf_key] by auto
  show ?case
    using Cons.prems Cons.IH absent other by (fastforce simp: project_fields_Cons)
qed simp

lemma project_fields_distinct:
  "project_fields fs data = Inr p \<Longrightarrow> distinct (map pf_key fs) \<Longrightarrow> distinct (map fst p)"
proof (induction fs arbitrary: p)
  case (Cons g fs)
  have "project_fields fs data = Inr q \<Longrightarrow> pf_key g \<notin> fst ` set q" for q
    using project_fields_keys [of fs data q] Cons.prems(2) by auto
  then show ?case
    using Cons by (auto simp: project_fields_Cons)
qed simp

lemma project_fields_values: "project_fields fs data = Inr p \<Longrightarrow> (k, v) \<in> set p \<Longrightarrow> projectable k v"
  by (induction fs arbitrary: p) (auto simp: project_fields_Cons)

lemma nonempty_texts_Nil: "nonempty_texts vs = Some [] \<longleftrightarrow> vs = []"
  by (cases vs rule: nonempty_texts.cases) auto

lemma nonempty_texts_length: "nonempty_texts vs = Some texts \<Longrightarrow> length texts = length vs"
  by (induction vs arbitrary: texts rule: nonempty_texts.induct) (auto split: if_splits)

lemma project_digest_Inr:
  "project_digest source data = Inr d \<longleftrightarrow>
     source = None \<and> d = [] \<or>
     (\<exists>k vs texts. source = Some k \<and> map_of data k = Some (JArr vs) \<and> nonempty_texts vs = Some texts \<and>
        d = [(DIGEST_KEY, JStr (fst (canonical_set_digest texts))),
             (COUNT_KEY, JInt (int (snd (canonical_set_digest texts))))])"
  by (auto simp: project_digest_def case_prod_beta Let_def split: option.splits json.splits)

lemma build_Inr:
  assumes "build_record_projection kind payload head_sha body = Inr p"
  obtains spec named digest where
    "spec_for_payload (RECORD_DEFINITIONS kind) payload = Some spec" "valid_version spec payload"
    "project_fields (ps_fields (PROJECTION_SPECS kind)) payload = Inr named"
    "project_digest (ps_digest_source (PROJECTION_SPECS kind)) payload = Inr digest"
    "p = named @ digest @ [(PAYLOAD_HASH_KEY, JStr (semantic_payload_hash body payload (named @ digest)))]"
    "\<forall>source. ps_head_source (PROJECTION_SPECS kind) = Some source \<longrightarrow> map_of payload source = Some (JStr head_sha)"
proof -
  obtain data version where v: "validate_object (RECORD_DEFINITIONS kind) payload = Accepted data version"
    using assms by (cases "validate_object (RECORD_DEFINITIONS kind) payload")
      (auto simp: build_record_projection_def Let_def)
  then obtain spec where "data = payload" "spec_for_payload (RECORD_DEFINITIONS kind) payload = Some spec"
    "valid_version spec payload"
    by (auto simp: validate_object_Accepted)
  then show thesis
    using assms v that
    by (auto simp: build_record_projection_def Let_def bind_result_eq_Inr split: if_splits option.splits)
qed

section \<open>The schema behind a record kind\<close>

lemma record_spec:
  "spec_for_payload (RECORD_DEFINITIONS kind) data = Some spec \<Longrightarrow>
   \<exists>v. sd_versions (RECORD_DEFINITIONS kind) = [(v, spec)]"
proof -
  have "\<exists>v s. sd_versions (RECORD_DEFINITIONS kind) = [(v, s)]"
    by (cases kind) (simp_all add: single_version_def REVIEW_RESULT_def FIX_RESULT_def CLARIFICATION_QUESTION_def
        CLARIFICATION_ANSWER_def DECISION_REQUEST_def DECISION_VERDICT_def DECISION_BRIEF_def DECISION_RECORD_def
        EXTERNAL_DEPENDENCY_def PERMISSION_BLOCK_def CI_TIMEOUT_def CI_CODE_FAILURE_def FINAL_REPORT_def
        INTEGRITY_INCIDENT_def GATE_ANSWER_def USER_DECISION_def GATE_QUESTION_def GATE_CHANGES_def
        MERGE_APPROVAL_def BLOCK_INTERVENTION_def USER_CANCEL_def)
  then show "spec_for_payload (RECORD_DEFINITIONS kind) data = Some spec \<Longrightarrow> ?thesis"
    by (auto simp: spec_for_payload_def spec_at_def split: if_splits)
qed

text \<open>\<open>result_vocabulary\<close> is the enumeration of the field that is projected to the result, as the source looks it up.\<close>

definition result_source :: "record_kind \<Rightarrow> string option" where
  "result_source kind = map_option pf_source (find (\<lambda>f. pf_key f = RESULT_KEY) (ps_fields (PROJECTION_SPECS kind)))"

lemma result_vocabulary_schema:
  assumes "spec_for_payload (RECORD_DEFINITIONS kind) data = Some spec"
  shows "result_vocabulary kind =
    (case result_source kind of None \<Rightarrow> None
     | Some source \<Rightarrow> (case map_of (vs_fields spec) source of None \<Rightarrow> None | Some f \<Rightarrow> fl_enum f))"
  using record_spec [OF assms]
  by (cases kind)
     (auto simp: result_source_def spec_for_def field_of_def optional_field_def projection_key_defs single_version_def
        REVIEW_RESULT_def review_result_fields_def CLARIFICATION_ANSWER_def clarification_answer_fields_def
        DECISION_VERDICT_def decision_verdict_fields_def DECISION_RECORD_def decision_record_fields_def
        MERGE_APPROVAL_def merge_approval_fields_def enum_field_def)

lemma projection_keys_distinct: "distinct (map pf_key (ps_fields (PROJECTION_SPECS kind)))"
  by (cases kind) (simp_all add: spec_for_def field_of_def optional_field_def projection_key_defs)

lemma projection_keys_known:
  "pf_key ` set (ps_fields (PROJECTION_SPECS kind)) \<subseteq> PROJECTION_KEYS - {PAYLOAD_HASH_KEY, DIGEST_KEY, COUNT_KEY}"
  by (cases kind) (simp_all add: spec_for_def field_of_def optional_field_def projection_key_defs PROJECTION_KEYS_def)

lemma result_field:
  "f \<in> set (ps_fields (PROJECTION_SPECS kind)) \<Longrightarrow> pf_key f = RESULT_KEY \<Longrightarrow> result_source kind = Some (pf_source f)"
  by (cases kind) (auto simp: result_source_def spec_for_def field_of_def optional_field_def projection_key_defs)

section \<open>Reading back what was built\<close>

text \<open>The value that the reader of the marker has for a key.\<close>

definition read_back :: "decoded_projection \<Rightarrow> string \<Rightarrow> json option" where
  "read_back dp key =
     (if key = RESULT_KEY then map_option JStr (dp_result dp)
      else if key = ROUND_KEY then map_option JInt (dp_round dp)
      else if key = TURN_KEY then map_option JInt (dp_turn dp)
      else if key = FINGERPRINT_KEY then map_option JStr (dp_fingerprint dp)
      else if key = SUBJECT_KEY then map_option JStr (dp_subject_id dp)
      else if key = TARGET_KEY then map_option JStr (dp_target dp)
      else if key = DIGEST_KEY then map_option JStr (dp_digest dp)
      else if key = COUNT_KEY then map_option JInt (dp_count dp)
      else if key = PAYLOAD_HASH_KEY then Some (JStr (dp_payload_hash dp))
      else None)"

text \<open>What makes a dictionary of projected values readable for a kind.\<close>

definition readable :: "record_kind \<Rightarrow> payload \<Rightarrow> bool" where
  "readable kind p \<longleftrightarrow>
     fst ` set p \<subseteq> PROJECTION_KEYS \<inter> spec_keys (PROJECTION_SPECS kind) \<and>
     (\<forall>(k, v) \<in> set p. decoded_value k v \<noteq> None) \<and>
     as_str (map_of p PAYLOAD_HASH_KEY) \<noteq> None \<and>
     (\<forall>f \<in> set (ps_fields (PROJECTION_SPECS kind)). pf_required f \<longrightarrow> map_of p (pf_key f) \<noteq> None) \<and>
     (ps_digest_source (PROJECTION_SPECS kind) \<noteq> None \<longrightarrow> map_of p DIGEST_KEY \<noteq> None \<and> map_of p COUNT_KEY \<noteq> None) \<and>
     (\<forall>words r. result_vocabulary kind = Some words \<longrightarrow> map_of p RESULT_KEY = Some (JStr r) \<longrightarrow> r \<in> set words)"

lemma decoded_kinds:
  assumes "\<forall>(k, v) \<in> set p. decoded_value k v \<noteq> None" and "map_of p key = Some v"
  shows "if key \<in> INTEGER_KEYS then \<exists>i. v = JInt i else \<exists>s. v = JStr s"
proof -
  have "decoded_value key v \<noteq> None" using assms map_of_SomeD by fastforce
  then show ?thesis by (auto simp: decoded_value_def split: json.splits if_splits)
qed

lemma readable_decodes:
  assumes "readable kind p"
  shows "\<exists>dp. decode_record_projection kind p = Inr dp \<and> (\<forall>key \<in> PROJECTION_KEYS. read_back dp key = map_of p key)"
proof -
  have all: "filter (\<lambda>(k, v). k \<in> PROJECTION_KEYS) p = p"
    using assms by (auto simp: readable_def filter_id_conv)
  let ?s = "\<lambda>key. as_str (map_of p key)" and ?i = "\<lambda>key. as_int (map_of p key)"
  obtain hash where hash: "?s PAYLOAD_HASH_KEY = Some hash" using assms by (auto simp: readable_def)
  let ?dp = "\<lparr>dp_payload_hash = hash, dp_result = ?s RESULT_KEY, dp_round = ?i ROUND_KEY, dp_turn = ?i TURN_KEY,
    dp_fingerprint = ?s FINGERPRINT_KEY, dp_subject_id = ?s SUBJECT_KEY, dp_target = ?s TARGET_KEY,
    dp_digest = ?s DIGEST_KEY, dp_count = ?i COUNT_KEY\<rparr>"
  have "fst ` set p \<subseteq> spec_keys (PROJECTION_SPECS kind)" using assms by (simp add: readable_def)
  then have c1: "list_all (\<lambda>(k, v). k \<in> spec_keys (PROJECTION_SPECS kind)) p" by (auto simp: list_all_iff)
  have c2: "list_all (\<lambda>(k, v). decoded_value k v \<noteq> None) p"
    and c3: "list_all (\<lambda>f. pf_required f \<longrightarrow> map_of p (pf_key f) \<noteq> None) (ps_fields (PROJECTION_SPECS kind))"
    using assms by (simp_all add: readable_def list_all_iff)
  have c4: "\<not> (ps_digest_source (PROJECTION_SPECS kind) \<noteq> None \<and> (map_of p DIGEST_KEY = None \<or> map_of p COUNT_KEY = None))"
    using assms unfolding readable_def by blast
  have c5: "\<not> (case (result_vocabulary kind, ?s RESULT_KEY) of (Some words, Some r) \<Rightarrow> r \<notin> set words | _ \<Rightarrow> False)"
    using assms unfolding readable_def by (auto simp: as_str_def split: option.splits json.splits)
  have "decode_record_projection kind p = Inr ?dp"
    unfolding decode_record_projection_def Let_def all
    by (simp only: c1 c2 c3 c4 c5 hash if_False if_True option.case not_True_eq_False)
  moreover have "read_back ?dp key = map_of p key" if "key \<in> PROJECTION_KEYS" for key
  proof -
    have kinds: "map_of p key = Some v \<Longrightarrow> if key \<in> INTEGER_KEYS then \<exists>i. v = JInt i else \<exists>s. v = JStr s" for v
      by (rule decoded_kinds) (use assms in \<open>auto simp: readable_def\<close>)
    have texts: "key \<notin> INTEGER_KEYS \<Longrightarrow> map_option JStr (?s key) = map_of p key"
      using kinds by (cases "map_of p key") (auto simp: as_str_def)
    have ints: "key \<in> INTEGER_KEYS \<Longrightarrow> map_option JInt (?i key) = map_of p key"
      using kinds by (cases "map_of p key") (auto simp: as_int_def)
    from that consider "key = RESULT_KEY" | "key = ROUND_KEY" | "key = TURN_KEY" | "key = FINGERPRINT_KEY"
      | "key = SUBJECT_KEY" | "key = TARGET_KEY" | "key = PAYLOAD_HASH_KEY" | "key = DIGEST_KEY" | "key = COUNT_KEY"
      unfolding PROJECTION_KEYS_def by blast
    then show ?thesis
      by cases (use texts ints hash in \<open>simp_all add: read_back_def projection_key_defs INTEGER_KEYS_def\<close>)
  qed
  ultimately show ?thesis by blast
qed

lemma projectable_decoded: "projectable k v \<Longrightarrow> k \<notin> {PAYLOAD_HASH_KEY, DIGEST_KEY} \<Longrightarrow> decoded_value k v \<noteq> None"
  by (auto simp: projectable_def decoded_value_def split: if_splits json.splits)

lemma set_digest_form: "is_hex 64 (fst (canonical_set_digest ts))" "ts \<noteq> [] \<Longrightarrow> 1 \<le> snd (canonical_set_digest ts)"
  by (auto simp: canonical_set_digest_def Let_def Suc_le_eq)

lemma incident_violations:
  assumes "spec_for_payload (RECORD_DEFINITIONS K_INTEGRITY_INCIDENT) payload = Some spec" "valid_version spec payload"
  shows "map_of payload ''violation_bindings'' \<noteq> Some (JArr [])"
proof -
  have "rule_violations_not_empty \<in> set (vs_rules spec)"
    using record_spec [OF assms(1)] by (auto simp: INTEGRITY_INCIDENT_def single_version_def)
  then have "rule_violations_not_empty payload = []" using assms(2) by (auto simp: valid_version_def)
  then show ?thesis by (auto simp: rule_violations_not_empty_def split: if_splits)
qed

lemma digest_source_kind: "ps_digest_source (PROJECTION_SPECS kind) = Some k \<Longrightarrow>
    kind = K_INTEGRITY_INCIDENT \<and> k = ''violation_bindings'' \<and> ps_fields (PROJECTION_SPECS kind) = []"
  by (cases kind) (simp_all add: spec_for_def)

lemma named_result:
  assumes spec: "spec_for_payload (RECORD_DEFINITIONS kind) payload = Some spec" "valid_version spec payload"
    and words: "result_vocabulary kind = Some words"
    and f: "f \<in> set (ps_fields (PROJECTION_SPECS kind))" "pf_key f = RESULT_KEY"
    and r: "map_of payload (pf_source f) = Some (JStr r)"
  shows "r \<in> set words"
proof -
  obtain g where g: "map_of (vs_fields spec) (pf_source f) = Some g" "fl_enum g = Some words"
    using words unfolding result_vocabulary_schema [OF spec(1)] result_field [OF f] by (auto split: option.splits)
  then have "has_type g (JStr r)"
    using has_fields_lookup [OF _ g(1) r] spec(2) by (simp add: valid_version_def)
  then show ?thesis using g(2) by (simp add: has_type_simps)
qed

lemma built_readable:
  assumes spec: "spec_for_payload (RECORD_DEFINITIONS kind) payload = Some spec" "valid_version spec payload"
    and named: "project_fields (ps_fields (PROJECTION_SPECS kind)) payload = Inr named"
    and digest: "project_digest (ps_digest_source (PROJECTION_SPECS kind)) payload = Inr digest"
    and p: "p = named @ digest @ [(PAYLOAD_HASH_KEY, JStr (sha256_hex material))]"
  shows "readable kind p" and "map_of p PAYLOAD_HASH_KEY = Some (JStr (sha256_hex material))"
    and "\<And>f. f \<in> set (ps_fields (PROJECTION_SPECS kind)) \<Longrightarrow> map_of p (pf_key f) = map_of payload (pf_source f)"
    and "map_of p DIGEST_KEY = map_of digest DIGEST_KEY" and "map_of p COUNT_KEY = map_of digest COUNT_KEY"
proof -
  let ?fs = "ps_fields (PROJECTION_SPECS kind)"
  have keys: "fst ` set named \<subseteq> pf_key ` set ?fs" by (rule project_fields_keys [OF named])
  then have named_keys: "fst ` set named \<subseteq> PROJECTION_KEYS - {PAYLOAD_HASH_KEY, DIGEST_KEY, COUNT_KEY}"
    using projection_keys_known by (rule order_trans)
  have distinct3: "DIGEST_KEY \<noteq> COUNT_KEY" "DIGEST_KEY \<noteq> PAYLOAD_HASH_KEY" "COUNT_KEY \<noteq> PAYLOAD_HASH_KEY"
    "COUNT_KEY \<in> INTEGER_KEYS" "DIGEST_KEY \<notin> INTEGER_KEYS" "PAYLOAD_HASH_KEY \<notin> INTEGER_KEYS"
    by (simp_all add: projection_key_defs INTEGER_KEYS_def)
  have known: "{PAYLOAD_HASH_KEY, DIGEST_KEY, COUNT_KEY} \<subseteq> PROJECTION_KEYS" by (simp add: PROJECTION_KEYS_def)
  consider (no_digest) "ps_digest_source (PROJECTION_SPECS kind) = None" "digest = []"
    | (with_digest) ts where "ps_digest_source (PROJECTION_SPECS kind) \<noteq> None" "ts \<noteq> []"
        "digest = [(DIGEST_KEY, JStr (fst (canonical_set_digest ts))), (COUNT_KEY, JInt (int (snd (canonical_set_digest ts))))]"
  proof (cases "ps_digest_source (PROJECTION_SPECS kind)")
    case None
    then show ?thesis using no_digest digest by (simp add: project_digest_def)
  next
    case (Some k)
    then obtain vs texts where vs: "map_of payload k = Some (JArr vs)" "nonempty_texts vs = Some texts"
      "digest = [(DIGEST_KEY, JStr (fst (canonical_set_digest texts))), (COUNT_KEY, JInt (int (snd (canonical_set_digest texts))))]"
      using digest by (auto simp: project_digest_Inr)
    moreover have "vs \<noteq> []"
      using vs(1) incident_violations spec digest_source_kind [OF Some] by auto
    ultimately show ?thesis using with_digest [of texts] nonempty_texts_Nil [of vs] Some by auto
  qed
  then have d: "fst ` set digest \<subseteq> {DIGEST_KEY, COUNT_KEY} \<inter> spec_keys (PROJECTION_SPECS kind) \<and>
    (\<forall>(k, v) \<in> set digest. decoded_value k v \<noteq> None) \<and>
    (ps_digest_source (PROJECTION_SPECS kind) \<noteq> None \<longrightarrow> map_of digest DIGEST_KEY \<noteq> None \<and> map_of digest COUNT_KEY \<noteq> None)"
  proof cases
    case no_digest
    then show ?thesis by simp
  next
    case (with_digest ts)
    have "fst (canonical_set_digest ts) \<noteq> []" using set_digest_form(1) [of ts] by (auto simp: is_hex_def)
    then have "decoded_value DIGEST_KEY (JStr (fst (canonical_set_digest ts))) \<noteq> None"
      "decoded_value COUNT_KEY (JInt (int (snd (canonical_set_digest ts)))) \<noteq> None"
      using set_digest_form(1) [of ts] set_digest_form(2) [OF with_digest(2)] distinct3 by (simp_all add: decoded_value_def)
    then show ?thesis using with_digest(1) distinct3 by (auto simp add: with_digest(3) spec_keys_def)
  qed
  have absent: "map_of named k = None" if "k \<in> {PAYLOAD_HASH_KEY, DIGEST_KEY, COUNT_KEY}" for k
    using named_keys that by (auto simp: map_of_eq_None_iff)
  have absent_d: "map_of digest k = None" if "k \<notin> {DIGEST_KEY, COUNT_KEY}" for k
    using d that by (auto simp: map_of_eq_None_iff)
  show hash: "map_of p PAYLOAD_HASH_KEY = Some (JStr (sha256_hex material))"
    using absent absent_d distinct3 by (simp add: p map_add_def)
  show "map_of p DIGEST_KEY = map_of digest DIGEST_KEY" "map_of p COUNT_KEY = map_of digest COUNT_KEY"
    using absent distinct3 by (simp_all add: p map_add_def split: option.splits)
  have lookup: "map_of p (pf_key f) = map_of payload (pf_source f)"
    "pf_required f \<Longrightarrow> map_of p (pf_key f) \<noteq> None" if f: "f \<in> set ?fs" for f
  proof -
    have "pf_key f \<notin> {PAYLOAD_HASH_KEY, DIGEST_KEY, COUNT_KEY}" using projection_keys_known f by blast
    then have eq: "map_of p (pf_key f) = map_of named (pf_key f)"
      using absent_d by (simp add: p map_add_def split: option.splits)
    show "map_of p (pf_key f) = map_of payload (pf_source f)" "pf_required f \<Longrightarrow> map_of p (pf_key f) \<noteq> None"
      unfolding eq using project_fields_lookup [OF named projection_keys_distinct f] by blast+
  qed
  then show "\<And>f. f \<in> set ?fs \<Longrightarrow> map_of p (pf_key f) = map_of payload (pf_source f)" by blast
  show "readable kind p"
    unfolding readable_def
  proof (intro conjI)
    show "fst ` set p \<subseteq> PROJECTION_KEYS \<inter> spec_keys (PROJECTION_SPECS kind)"
      using keys named_keys d known by (auto simp: p spec_keys_def)
    have "decoded_value k v \<noteq> None" if "(k, v) \<in> set named" for k v
    proof (rule projectable_decoded)
      show "projectable k v" by (rule project_fields_values [OF named that])
      show "k \<notin> {PAYLOAD_HASH_KEY, DIGEST_KEY}" using named_keys that by force
    qed
    moreover have "decoded_value PAYLOAD_HASH_KEY (JStr (sha256_hex material)) \<noteq> None"
    proof -
      have "sha256_hex material \<noteq> []" using sha256_form [of material] by (auto simp: is_hex_def)
      then show ?thesis using distinct3 by (simp add: decoded_value_def)
    qed
    ultimately show "\<forall>(k, v) \<in> set p. decoded_value k v \<noteq> None" using d by (auto simp: p)
    show "as_str (map_of p PAYLOAD_HASH_KEY) \<noteq> None" by (simp add: hash as_str_def)
    show "\<forall>f \<in> set ?fs. pf_required f \<longrightarrow> map_of p (pf_key f) \<noteq> None" using lookup(2) by blast
    show "ps_digest_source (PROJECTION_SPECS kind) \<noteq> None \<longrightarrow> map_of p DIGEST_KEY \<noteq> None \<and> map_of p COUNT_KEY \<noteq> None"
      using d absent by (auto simp: p map_add_def split: option.splits)
    show "\<forall>words r. result_vocabulary kind = Some words \<longrightarrow> map_of p RESULT_KEY = Some (JStr r) \<longrightarrow> r \<in> set words"
    proof (intro allI impI)
      fix words r
      assume words: "result_vocabulary kind = Some words" and r: "map_of p RESULT_KEY = Some (JStr r)"
      obtain f where f: "f \<in> set ?fs" "pf_key f = RESULT_KEY"
        using result_vocabulary_fields [of kind] words by auto
      then show "r \<in> set words" using named_result [OF spec words f] lookup(1) [OF f(1)] r by simp
    qed
  qed
qed

end
