(* ===== verification/Policy.thy ===== *)
theory Policy
  imports Utf8
begin

text \<open>
  \<open>policy/permission_profile.py\<close> and \<open>policy/trust_rules.py\<close>: the choice of a permission profile, the check of
  a command line for forbidden flags, and the rules for pull requests from forks and unknown authors.
\<close>

section \<open>Permission profiles\<close>

datatype permission_profile = ProfileAuto | ProfileAcceptEdits | ProfileDefault | ProfileDontAsk

datatype profile_purpose = PurposeAutomation | PurposeInteractive | PurposeNonInteractive

fun fallback_profile :: "profile_purpose \<Rightarrow> permission_profile" where
  "fallback_profile PurposeAutomation = ProfileAcceptEdits"
| "fallback_profile PurposeInteractive = ProfileDefault"
| "fallback_profile PurposeNonInteractive = ProfileDontAsk"

definition select_profile :: "bool \<Rightarrow> profile_purpose \<Rightarrow> permission_profile" where
  "select_profile auto_mode_available purpose =
     (if auto_mode_available then ProfileAuto else fallback_profile purpose)"

section \<open>Forbidden flags\<close>

text \<open>
  The patterns are words, in any case, with separators of a given set between them. Under \<open>re.IGNORECASE\<close> the
  letters i, k and s also match the dotted and the dotless i, the Kelvin sign and the long s.
\<close>

datatype pattern_part = Word string | Separators "char set"

definition letter_variants :: "char \<Rightarrow> string list" where
  "letter_variants t =
     (if t = CHR ''i'' then [[CHR 0xC4, CHR 0xB0], [CHR 0xC4, CHR 0xB1]]
      else if t = CHR ''k'' then [[CHR 0xE2, CHR 0x84, CHR 0xAA]]
      else if t = CHR ''s'' then [[CHR 0xC5, CHR 0xBF]]
      else [])"

fun match_word :: "string \<Rightarrow> string \<Rightarrow> string option" where
  "match_word [] s = Some s"
| "match_word (t # ts) [] = None"
| "match_word (t # ts) (c # cs) =
     (if lower_char c = t then match_word ts cs
      else
        (case strip_entry (map (\<lambda>v. (v, [])) (letter_variants t)) (c # cs) of
           Some (u, rest) \<Rightarrow> match_word ts rest
         | None \<Rightarrow> None))"

text \<open>\<open>[\s...]*\<close>: white space and the given characters. No word starts with one of them, so nothing is given back.\<close>

function skip_separators :: "char set \<Rightarrow> string \<Rightarrow> string" where
  "skip_separators cs [] = []"
| "skip_separators cs (c # s) =
     (if c \<in> cs then skip_separators cs s
      else
        (case strip_entry leading_spaces (c # s) of
           Some (u, rest) \<Rightarrow> skip_separators cs rest
         | None \<Rightarrow> c # s))"
  by pat_completeness auto

termination skip_separators
  by (relation "measure (\<lambda>(cs, s). length s)") (auto dest: strip_entry_shorter [OF _ leading_spaces_nonempty])

fun match_parts :: "pattern_part list \<Rightarrow> string \<Rightarrow> bool" where
  "match_parts [] s \<longleftrightarrow> True"
| "match_parts (Word w # ps) s \<longleftrightarrow> (case match_word w s of None \<Rightarrow> False | Some rest \<Rightarrow> match_parts ps rest)"
| "match_parts (Separators cs # ps) s \<longleftrightarrow> match_parts ps (skip_separators cs s)"

fun search_parts :: "pattern_part list \<Rightarrow> string \<Rightarrow> bool" where
  "search_parts ps [] \<longleftrightarrow> match_parts ps []"
| "search_parts ps (c # cs) \<longleftrightarrow> match_parts ps (c # cs) \<or> search_parts ps cs"

fun words_with :: "char set \<Rightarrow> string list \<Rightarrow> pattern_part list" where
  "words_with cs [] = []"
| "words_with cs [w] = [Word w]"
| "words_with cs (w # ws) = Word w # Separators cs # words_with cs ws"

definition dash_chars :: "char set" where "dash_chars = {CHR ''_'', CHR ''-''}"

definition dot_chars :: "char set" where "dot_chars = {CHR ''_'', CHR ''.'', CHR ''='', CHR ''-''}"

definition toml_chars :: "char set" where
  "toml_chars = {CHR ''_'', CHR ''.'', CHR ''='', CHR ''['', CHR '']'', CHR 0x22, CHR 0x27, CHR ''-''}"

definition forbidden_flag_patterns :: "(string \<times> pattern_part list) list" where
  "forbidden_flag_patterns =
     [(''permission-bypass'', words_with dash_chars [''bypass'', ''permissions'']),
      (''permission-dangerous-skip'', words_with dash_chars [''dangerously'', ''skip'', ''permissions'']),
      (''codex-approval-sandbox-bypass'',
         words_with dash_chars [''dangerously'', ''bypass'', ''approvals'', ''and'', ''sandbox'']),
      (''codex-approval-sandbox-bypass'', words_with dash_chars [''dangerously'', ''bypass'', ''hook'', ''trust'']),
      (''codex-danger-full-access'', words_with dash_chars [''danger'', ''full'', ''access'']),
      (''codex-shell-environment-inherit-all'',
         words_with dot_chars [''shell'', ''environment'', ''policy'', ''inherit'', ''all'']),
      (''codex-sandbox-full-read'',
         [Word ''sandbox'', Separators toml_chars, Word ''permissions'', Separators toml_chars, Word ''disk'',
          Separators toml_chars, Word ''full'', Separators dash_chars, Word ''read'', Separators dash_chars,
          Word ''access''])]"

text \<open>\<open>ForbiddenFlagError\<close>, with the name of the pattern and the index of the argument.\<close>

datatype forbidden_flag = ForbiddenFlag string nat

fun flags_from :: "nat \<Rightarrow> string list \<Rightarrow> forbidden_flag + unit" where
  "flags_from i [] = Inr ()"
| "flags_from i (a # as) =
     (case find (\<lambda>(name, p). search_parts p a) forbidden_flag_patterns of
        Some (name, p) \<Rightarrow> Inl (ForbiddenFlag name i)
      | None \<Rightarrow> flags_from (Suc i) as)"

definition ensure_argv_allowed :: "string list \<Rightarrow> forbidden_flag + unit" where
  "ensure_argv_allowed argv = flags_from 0 argv"

section \<open>Trust rules\<close>

text \<open>
  \<open>str.casefold\<close>, on the ASCII letters and on the code points that fold to text with an ASCII letter. The other
  code points outside ASCII stand for themselves; repository names are ASCII on GitHub, and the paths below
  are only compared with ASCII names.
\<close>

definition fold_table :: "(string \<times> string) list" where
  "fold_table =
     [([CHR 0xC3, CHR 0x9F], ''ss''), ([CHR 0xC4, CHR 0xB0], [CHR ''i'', CHR 0xCC, CHR 0x87]),
      ([CHR 0xC5, CHR 0x89], [CHR 0xCA, CHR 0xBC, CHR ''n'']), ([CHR 0xC5, CHR 0xBF], ''s''),
      ([CHR 0xC7, CHR 0xB0], [CHR ''j'', CHR 0xCC, CHR 0x8C]),
      ([CHR 0xE1, CHR 0xBA, CHR 0x96], [CHR ''h'', CHR 0xCC, CHR 0xB1]),
      ([CHR 0xE1, CHR 0xBA, CHR 0x97], [CHR ''t'', CHR 0xCC, CHR 0x88]),
      ([CHR 0xE1, CHR 0xBA, CHR 0x98], [CHR ''w'', CHR 0xCC, CHR 0x8A]),
      ([CHR 0xE1, CHR 0xBA, CHR 0x99], [CHR ''y'', CHR 0xCC, CHR 0x8A]),
      ([CHR 0xE1, CHR 0xBA, CHR 0x9A], [CHR ''a'', CHR 0xCA, CHR 0xBE]),
      ([CHR 0xE1, CHR 0xBA, CHR 0x9E], ''ss''), ([CHR 0xE2, CHR 0x84, CHR 0xAA], ''k''),
      ([CHR 0xEF, CHR 0xAC, CHR 0x80], ''ff''), ([CHR 0xEF, CHR 0xAC, CHR 0x81], ''fi''),
      ([CHR 0xEF, CHR 0xAC, CHR 0x82], ''fl''), ([CHR 0xEF, CHR 0xAC, CHR 0x83], ''ffi''),
      ([CHR 0xEF, CHR 0xAC, CHR 0x84], ''ffl''), ([CHR 0xEF, CHR 0xAC, CHR 0x85], ''st''),
      ([CHR 0xEF, CHR 0xAC, CHR 0x86], ''st'')]"

lemma fold_table_nonempty: "list_all (\<lambda>(p, u). p \<noteq> []) fold_table"
  by (simp add: fold_table_def)

function casefold :: "string \<Rightarrow> string" where
  "casefold [] = []"
| "casefold (c # cs) =
     (case strip_entry fold_table (c # cs) of
        Some (u, rest) \<Rightarrow> u @ casefold rest
      | None \<Rightarrow> lower_char c # casefold cs)"
  by pat_completeness auto

termination casefold
  by (relation "measure length") (auto dest: strip_entry_shorter [OF _ fold_table_nonempty])

datatype restricted_action = AgentInstructions | Hooks | Workflows | Tests

definition all_restricted_actions :: "restricted_action set" where
  "all_restricted_actions = {AgentInstructions, Hooks, Workflows, Tests}"

record trust_input =
  ti_base_repository :: string
  ti_head_repository :: string
  ti_author_login :: string
  ti_trusted_authors :: "string set"
  ti_changed_paths :: "string list"

record trust_evaluation =
  te_fork :: bool
  te_untrusted_author :: bool
  te_agent_config_changes :: "string list"
  te_denied_actions :: "restricted_action set"
  te_display_prominently :: bool

fun split_slashes :: "string \<Rightarrow> string list" where
  "split_slashes [] = [[]]"
| "split_slashes (c # cs) =
     (if c = CHR ''/'' then [] # split_slashes cs
      else (case split_slashes cs of [] \<Rightarrow> [[c]] | p # ps \<Rightarrow> (c # p) # ps))"

definition normalize_components :: "string \<Rightarrow> string list" where
  "normalize_components path =
     (let normalized = casefold (map (\<lambda>c. if c = CHR 0x5C then CHR ''/'' else c) path) in
      filter (\<lambda>p. p \<noteq> [] \<and> p \<noteq> ''.'') (split_slashes normalized))"

definition agent_config_basenames :: "string set" where "agent_config_basenames = {''claude.md'', ''agents.md''}"

definition agent_config_directories :: "string set" where "agent_config_directories = {''.claude'', ''.codex''}"

definition is_agent_config_path :: "string \<Rightarrow> bool" where
  "is_agent_config_path path =
     (let components = normalize_components path in
      components \<noteq> [] \<and>
      (last components \<in> agent_config_basenames \<or>
       list_ex (\<lambda>p. p \<in> agent_config_directories) components \<or>
       list_ex (\<lambda>(a, b). a = ''.github'' \<and> b = ''workflows'') (zip components (tl components))))"

definition is_fork :: "string \<Rightarrow> string \<Rightarrow> bool" where
  "is_fork base_repository head_repository =
     (let base = casefold (strip_text base_repository); head = casefold (strip_text head_repository) in
      base = [] \<or> head = [] \<or> base \<noteq> head)"

definition evaluate_trust :: "trust_input \<Rightarrow> trust_evaluation" where
  "evaluate_trust t =
     (let fork = is_fork (ti_base_repository t) (ti_head_repository t);
          untrusted = (ti_trusted_authors t = {} \<or> ti_author_login t \<notin> ti_trusted_authors t);
          changes = filter is_agent_config_path (ti_changed_paths t);
          restricted = (fork \<or> untrusted) in
      \<lparr>te_fork = fork, te_untrusted_author = untrusted, te_agent_config_changes = changes,
       te_denied_actions = (if restricted then all_restricted_actions else {}),
       te_display_prominently = (restricted \<or> changes \<noteq> [])\<rparr>)"

end
