(* ===== verification/Gh.thy ===== *)
theory Gh
  imports Complex_Main Json_Input Policy
begin

text \<open>
  \<open>errors.py\<close> and \<open>transport/gh.py\<close>: a call of the \<open>gh\<close> command, the classification of its failures, and the
  bounded retry of reading calls. The command itself, the clock and \<open>sleep\<close> are arguments: the function that runs the
  command takes the state of the world and a call, and returns the new state and what the process
  left. Times in seconds are rational numbers. \<open>TransportError\<close> is kept with its stage and category; an
  exception of another type that the code does not catch has a constructor of its own.
\<close>

section \<open>Categories\<close>

datatype error_category = Transient | NotFound | AuthError | Permanent

definition classify_gh_failure :: "int option \<Rightarrow> int \<Rightarrow> bool \<Rightarrow> bool \<Rightarrow> error_category" where
  "classify_gh_failure http_status exit_code retry_after_present ratelimit_remaining_zero =
     (if exit_code = 4 then AuthError
      else if exit_code = 2 then Permanent
      else
        (case http_status of None \<Rightarrow> Transient
         | Some s \<Rightarrow>
             if s = 401 then AuthError
             else if s = 403 then (if retry_after_present \<or> ratelimit_remaining_zero then Transient else AuthError)
             else if s \<in> {404, 410} then NotFound
             else if s \<in> {409, 429} \<or> 500 \<le> s then Transient
             else Permanent))"

definition graphql_type_map :: "(string \<times> error_category) list" where
  "graphql_type_map = [(''RATE_LIMITED'', Transient), (''NOT_FOUND'', NotFound), (''FORBIDDEN'', AuthError)]"

definition classify_graphql_error_type :: "string \<Rightarrow> error_category" where
  "classify_graphql_error_type t = (case map_of graphql_type_map t of Some c \<Rightarrow> c | None \<Rightarrow> Permanent)"

record gh_failure =
  gf_category :: error_category
  gf_http_status :: "int option"
  gf_exit_code :: int
  gf_retry_after :: "rat option"
  gf_reset_epoch :: "rat option"

datatype transport_error =
    TransportError string error_category
  | GhTimeoutError
  | GhApiError gh_failure
  | FlagRefused forbidden_flag
  | UncaughtRecursion

section \<open>Effects\<close>

type_synonym ('w, 'a) io = "'w \<Rightarrow> 'w \<times> (transport_error + 'a)"

definition return :: "'a \<Rightarrow> ('w, 'a) io" where "return a = (\<lambda>w. (w, Inr a))"

definition fail :: "transport_error \<Rightarrow> ('w, 'a) io" where "fail e = (\<lambda>w. (w, Inl e))"

definition bind :: "('w, 'a) io \<Rightarrow> ('a \<Rightarrow> ('w, 'b) io) \<Rightarrow> ('w, 'b) io" where
  "bind m f = (\<lambda>w. case m w of (w', Inl e) \<Rightarrow> (w', Inl e) | (w', Inr a) \<Rightarrow> f a w')"

definition lift :: "transport_error + 'a \<Rightarrow> ('w, 'a) io" where "lift r = (\<lambda>w. (w, r))"

text \<open>A call of the command: its arguments, and the text of the file that \<open>-F body=@...\<close> names.\<close>

record gh_call =
  gc_argv :: "string list"
  gc_body :: "string option"

datatype process_result = GhCompleted int string | GhTimedOut

record 'w gh_context =
  gx_command :: "string list"
  gx_body_path :: string
  gx_python :: interpreter
  gx_run :: "gh_call \<Rightarrow> 'w \<Rightarrow> 'w \<times> process_result"

record repo_ref =
  rr_owner :: string
  rr_name :: string

definition name_form :: "string \<Rightarrow> bool" where
  "name_form s \<longleftrightarrow> s \<noteq> [] \<and> list_all (\<lambda>c. letter c \<or> digit c \<or> c \<in> {CHR ''.'', CHR ''_'', CHR ''-''}) s"

definition repo_ref_check :: "repo_ref \<Rightarrow> transport_error + unit" where
  "repo_ref_check r =
     guard_that (name_form (rr_owner r) \<and> name_form (rr_name r)) (TransportError ''validate'' Permanent)"

definition slug :: "repo_ref \<Rightarrow> string" where "slug r = rr_owner r @ CHR ''/'' # rr_name r"

section \<open>One call\<close>

definition run_gh :: "'w gh_context \<Rightarrow> string list \<Rightarrow> string option \<Rightarrow> nat \<Rightarrow> ('w, int \<times> string) io" where
  "run_gh cx argv_tail body max_output_bytes =
     (let argv = gx_command cx @ argv_tail in
      case ensure_argv_allowed argv of
        Inl f \<Rightarrow> fail (FlagRefused f)
      | Inr _ \<Rightarrow>
          (\<lambda>w. case gx_run cx \<lparr>gc_argv = argv, gc_body = body\<rparr> w of
                 (w', GhTimedOut) \<Rightarrow> (w', Inl GhTimeoutError)
               | (w', GhCompleted code out) \<Rightarrow>
                   if max_output_bytes < length out then (w', Inl (TransportError ''size'' Permanent))
                   else (w', Inr (code, out))))"

fun find_sub :: "string \<Rightarrow> string \<Rightarrow> nat option" where
  "find_sub t [] = (if t = [] then Some 0 else None)"
| "find_sub t (c # cs) = (if prefix t (c # cs) then Some 0 else map_option Suc (find_sub t cs))"

fun crlf_to_lf :: "string \<Rightarrow> string" where
  "crlf_to_lf (a # b # s) =
     (if a = carriage_return \<and> b = newline then newline # crlf_to_lf s else a # crlf_to_lf (b # s))"
| "crlf_to_lf s = s"

fun split_on :: "char \<Rightarrow> string \<Rightarrow> string list" where
  "split_on x [] = [[]]"
| "split_on x (c # cs) =
     (if c = x then [] # split_on x cs
      else (case split_on x cs of [] \<Rightarrow> [[c]] | p # ps \<Rightarrow> (c # p) # ps))"

text \<open>\<open>_STATUS_LINE\<close>: the three digits of the status.\<close>

definition status_line :: "string \<Rightarrow> int option" where
  "status_line s =
     (let v = drop 5 s; ver = takeWhile (\<lambda>c. digit c \<or> c = CHR ''.'') v; rest = drop (length ver) v;
          code = take 3 (drop 1 rest); tail = drop 4 rest in
      if prefix ''HTTP/'' s \<and> ver \<noteq> [] \<and> prefix '' '' rest \<and> length code = 3 \<and> list_all digit code \<and>
         (tail = [] \<or> prefix '' '' tail \<and> carriage_return \<notin> set tail \<and> newline \<notin> set tail)
      then Some (int (read_nat 0 code)) else None)"

definition header_of :: "string \<Rightarrow> (string \<times> string) option" where
  "header_of line =
     (if CHR '':'' \<in> set line
      then
        (let name = takeWhile (\<lambda>c. c \<noteq> CHR '':'') line in
         Some (casefold (strip_text name), strip_text (drop (Suc (length name)) line)))
      else None)"

definition parse_headers :: "string list \<Rightarrow> (string \<times> string) list" where
  "parse_headers lines = fold (\<lambda>(k, v). AList.update k v) (List.map_filter header_of lines) []"

definition boundary :: "string \<Rightarrow> (nat \<times> nat) option" where
  "boundary raw =
     (case (find_sub [carriage_return, newline, carriage_return, newline] raw, find_sub [newline, newline] raw) of
        (None, None) \<Rightarrow> None
      | (Some p, None) \<Rightarrow> Some (p, 4)
      | (None, Some q) \<Rightarrow> Some (q, 2)
      | (Some p, Some q) \<Rightarrow> if p < q then Some (p, 4) else Some (q, 2))"

definition parse_include_output :: "string \<Rightarrow> (int \<times> (string \<times> string) list \<times> string) option" where
  "parse_include_output raw =
     (case boundary raw of None \<Rightarrow> None
      | Some (pos, sep) \<Rightarrow>
          (case split_on newline (crlf_to_lf (take pos raw)) of [] \<Rightarrow> None
           | first # lines \<Rightarrow>
               (case status_line first of None \<Rightarrow> None
                | Some status \<Rightarrow> Some (status, parse_headers lines, drop (pos + sep) raw))))"

definition parse_float_header :: "(string \<times> string) list \<Rightarrow> string \<Rightarrow> rat option" where
  "parse_float_header headers name =
     (case map_of headers name of
        Some v \<Rightarrow> if v \<noteq> [] \<and> list_all digit v then Some (of_nat (read_nat 0 v)) else None
      | None \<Rightarrow> None)"

definition decode_json_body :: "interpreter \<Rightarrow> string \<Rightarrow> transport_error + json" where
  "decode_json_body py body =
     (if \<not> utf8_ok body then Inl (TransportError ''encoding'' Permanent)
      else
        (case parse_json py body of
           Inl ValueError \<Rightarrow> Inl (TransportError ''json'' Permanent)
         | Inl RecursionError \<Rightarrow> Inl UncaughtRecursion
         | Inr v \<Rightarrow> Inr v))"

definition graphql_error_types :: "json \<Rightarrow> string list option" where
  "graphql_error_types body =
     (case body of
        JObj items \<Rightarrow>
          (case map_of items ''errors'' of
             Some (JArr (e # es)) \<Rightarrow>
               Some (List.map_filter
                 (\<lambda>e. case e of JObj kvs \<Rightarrow> (case map_of kvs ''type'' of Some (JStr t) \<Rightarrow> Some t | _ \<Rightarrow> None) | _ \<Rightarrow> None)
                 (e # es))
           | _ \<Rightarrow> None)
      | _ \<Rightarrow> None)"

record api_response =
  ar_status :: int
  ar_headers :: "(string \<times> string) list"
  ar_body :: json

definition api_failure :: "int \<Rightarrow> (string \<times> string) list \<Rightarrow> int \<Rightarrow> gh_failure" where
  "api_failure status headers exit_code =
     (let retry_after = parse_float_header headers ''retry-after'';
          reset_epoch = parse_float_header headers ''x-ratelimit-reset'';
          remaining_zero = (map_of headers ''x-ratelimit-remaining'' = Some ''0'') in
      \<lparr>gf_category = classify_gh_failure (Some status) exit_code (retry_after \<noteq> None) remaining_zero,
       gf_http_status = Some status, gf_exit_code = exit_code, gf_retry_after = retry_after,
       gf_reset_epoch = (if remaining_zero then reset_epoch else None)\<rparr>)"

definition graphql_failure :: "json \<Rightarrow> int \<Rightarrow> int \<Rightarrow> gh_failure" where
  "graphql_failure body status exit_code =
     \<lparr>gf_category =
        (case graphql_error_types body of Some (t # ts) \<Rightarrow> classify_graphql_error_type t | _ \<Rightarrow> Permanent),
      gf_http_status = Some status, gf_exit_code = exit_code, gf_retry_after = None, gf_reset_epoch = None\<rparr>"

definition api_result :: "interpreter \<Rightarrow> int \<times> string \<Rightarrow> transport_error + api_response" where
  "api_result py = (\<lambda>(exit_code, out).
     (case parse_include_output out of
        None \<Rightarrow>
          if exit_code = 0 then Inl (TransportError ''include'' Permanent)
          else Inl (GhApiError
            \<lparr>gf_category = classify_gh_failure None exit_code False False, gf_http_status = None,
             gf_exit_code = exit_code, gf_retry_after = None, gf_reset_epoch = None\<rparr>)
      | Some (status, headers, body) \<Rightarrow>
          if exit_code = 0
          then bind_result (decode_json_body py body) (\<lambda>v.
            Inr \<lparr>ar_status = status, ar_headers = headers, ar_body = v\<rparr>)
          else if status = 200
          then bind_result (decode_json_body py body) (\<lambda>v. Inl (GhApiError (graphql_failure v status exit_code)))
          else Inl (GhApiError (api_failure status headers exit_code))))"

definition run_gh_api ::
  "'w gh_context \<Rightarrow> string list \<Rightarrow> string option \<Rightarrow> nat \<Rightarrow> ('w, api_response) io" where
  "run_gh_api cx rest body max_output_bytes =
     bind (run_gh cx ([''api'', ''--include''] @ rest) body max_output_bytes) (\<lambda>r. lift (api_result (gx_python cx) r))"

section \<open>Bounded retry\<close>

record 'w retry_policy =
  rp_max_attempts :: int
  rp_backoff :: rat
  rp_max_wait :: rat
  rp_sleep :: "rat \<Rightarrow> 'w \<Rightarrow> 'w"
  rp_now :: "'w \<Rightarrow> rat"

definition retry_wait :: "'w retry_policy \<Rightarrow> gh_failure \<Rightarrow> 'w \<Rightarrow> rat" where
  "retry_wait policy f w =
     (case gf_retry_after f of Some s \<Rightarrow> s
      | None \<Rightarrow> (case gf_reset_epoch f of Some t \<Rightarrow> max 0 (t - rp_now policy w) | None \<Rightarrow> rp_backoff policy))"

text \<open>The loop of \<open>run_gh_api_with_retry\<close>, over the call that it repeats.\<close>

function retry_from :: "('w, 'a) io \<Rightarrow> 'w retry_policy \<Rightarrow> int \<Rightarrow> ('w, 'a) io" where
  "retry_from call policy attempt w =
     (case call w of
        (w', Inl (GhApiError f)) \<Rightarrow>
          if gf_category f \<noteq> Transient \<or> rp_max_attempts policy \<le> attempt then (w', Inl (GhApiError f))
          else if rp_max_wait policy < retry_wait policy f w' then (w', Inl (GhApiError f))
          else retry_from call policy (attempt + 1) (rp_sleep policy (retry_wait policy f w') w')
      | r \<Rightarrow> r)"
  by pat_completeness auto

termination retry_from
  by (relation "measure (\<lambda>(call, policy, attempt, w). nat (rp_max_attempts policy - attempt))") auto

declare retry_from.simps [simp del]

definition run_gh_api_with_retry ::
  "'w gh_context \<Rightarrow> string list \<Rightarrow> nat \<Rightarrow> 'w retry_policy \<Rightarrow> ('w, api_response) io" where
  "run_gh_api_with_retry cx rest max_output_bytes policy =
     retry_from (run_gh_api cx rest None max_output_bytes) policy 1"

end
