(* ===== verification/Vocabulary.thy ===== *)
theory Vocabulary
  imports Ruledefs Projection Gh
begin

text \<open>
  The values of the enumerations, as they are written into payloads and read back by \<open>Enum(value)\<close>. An
  enumeration is an instance of the locale \<open>vocabulary\<close>: its members are complete and have distinct values, so
  reading a value gives the member that was written and nothing else.
\<close>

definition member_of :: "('a \<Rightarrow> string) \<Rightarrow> 'a list \<Rightarrow> string \<Rightarrow> 'a option" where
  "member_of val members s = find (\<lambda>x. val x = s) members"

locale vocabulary =
  fixes val :: "'a \<Rightarrow> string" and members :: "'a list"
  assumes complete: "x \<in> set members"
    and distinct_values: "distinct (map val members)"
begin

lemma value_inj [simp]: "val x = val y \<longleftrightarrow> x = y"
  using complete distinct_values by (auto simp: distinct_map dest: inj_onD)

lemma member_of_iff: "member_of val members s = Some x \<longleftrightarrow> s = val x"
proof
  assume "member_of val members s = Some x"
  then show "s = val x" by (auto simp: member_of_def find_Some_iff)
next
  assume s: "s = val x"
  have "find (\<lambda>y. val y = val x) members \<noteq> None"
    using complete [of x] by (auto simp: find_None_iff)
  then obtain y where y: "find (\<lambda>y. val y = val x) members = Some y" by auto
  then have "val y = val x" by (auto simp: find_Some_iff)
  then show "member_of val members s = Some x" using y s by (simp add: member_of_def)
qed

lemma member_of_value [simp]: "member_of val members (val x) = Some x"
  by (simp add: member_of_iff)

lemma member_of_sorted: "s \<in> set (sort (map val members)) \<longleftrightarrow> member_of val members s \<noteq> None"
  using complete by (auto simp: member_of_iff)

end

section \<open>\<open>State\<close>\<close>

fun state_value :: "state \<Rightarrow> string" where
  "state_value S_RUNNING_REVIEW = ''RUNNING_REVIEW''"
| "state_value S_CHANGES_REQUESTED = ''CHANGES_REQUESTED''"
| "state_value S_APPLYING_FIXES = ''APPLYING_FIXES''"
| "state_value S_CLARIFYING_REVIEW = ''CLARIFYING_REVIEW''"
| "state_value S_REVIEWING_DECISION_REQUEST = ''REVIEWING_DECISION_REQUEST''"
| "state_value S_AWAITING_USER_DECISION = ''AWAITING_USER_DECISION''"
| "state_value S_AWAITING_TOOL_PERMISSION = ''AWAITING_TOOL_PERMISSION''"
| "state_value S_WAITING_CI = ''WAITING_CI''"
| "state_value S_GENERATING_REPORT = ''GENERATING_REPORT''"
| "state_value S_READY_FOR_HUMAN_MERGE = ''READY_FOR_HUMAN_MERGE''"
| "state_value S_MERGING = ''MERGING''"
| "state_value S_MERGED = ''MERGED''"
| "state_value S_MERGE_FAILED = ''MERGE_FAILED''"
| "state_value S_BLOCKED = ''BLOCKED''"
| "state_value S_FAILED = ''FAILED''"
| "state_value S_CANCELLED = ''CANCELLED''"
| "state_value S_REPORT_FAILED = ''REPORT_FAILED''"

definition all_states :: "state list" where
  "all_states =
     [S_RUNNING_REVIEW, S_CHANGES_REQUESTED, S_APPLYING_FIXES, S_CLARIFYING_REVIEW,
      S_REVIEWING_DECISION_REQUEST, S_AWAITING_USER_DECISION, S_AWAITING_TOOL_PERMISSION,
      S_WAITING_CI, S_GENERATING_REPORT, S_READY_FOR_HUMAN_MERGE, S_MERGING, S_MERGED,
      S_MERGE_FAILED, S_BLOCKED, S_FAILED, S_CANCELLED, S_REPORT_FAILED]"

definition state_of_value :: "string \<Rightarrow> state option" where
  "state_of_value = member_of state_value all_states"

interpretation states: vocabulary state_value all_states
proof
  show "x \<in> set all_states" for x by (cases x) (simp_all add: all_states_def)
  show "distinct (map state_value all_states)" by code_simp
qed

lemma state_of_value [simp]: "state_of_value (state_value x) = Some x"
  by (simp add: state_of_value_def)

section \<open>\<open>Awaiting\<close>\<close>

fun awaiting_value :: "awaiting \<Rightarrow> string" where
  "awaiting_value A_CODEX_CODE_REVIEW = ''CODEX_CODE_REVIEW''"
| "awaiting_value A_CODEX_CLARIFICATION = ''CODEX_CLARIFICATION''"
| "awaiting_value A_CODEX_DECISION_VERDICT = ''CODEX_DECISION_VERDICT''"
| "awaiting_value A_HOST_APPLY_FINDINGS = ''HOST_APPLY_FINDINGS''"
| "awaiting_value A_HOST_DRAFT_DECISION_REQUEST = ''HOST_DRAFT_DECISION_REQUEST''"
| "awaiting_value A_HOST_DRAFT_DECISION_BRIEF = ''HOST_DRAFT_DECISION_BRIEF''"
| "awaiting_value A_HOST_RECORD_DECISION = ''HOST_RECORD_DECISION''"
| "awaiting_value A_HOST_REVISE_DECISION_REQUEST = ''HOST_REVISE_DECISION_REQUEST''"
| "awaiting_value A_HOST_ANSWER_GATE_QUESTION = ''HOST_ANSWER_GATE_QUESTION''"
| "awaiting_value A_CI_RESULT = ''CI_RESULT''"
| "awaiting_value A_REPORT = ''REPORT''"
| "awaiting_value A_MERGE_PRECONDITIONS = ''MERGE_PRECONDITIONS''"
| "awaiting_value A_MERGE_OUTCOME_EXECUTE = ''MERGE_OUTCOME_EXECUTE''"
| "awaiting_value A_MERGE_OUTCOME_CANCEL = ''MERGE_OUTCOME_CANCEL''"
| "awaiting_value A_MERGE_OUTCOME_FAILURE = ''MERGE_OUTCOME_FAILURE''"
| "awaiting_value A_USER_INPUT_DECISION = ''USER_INPUT_DECISION''"
| "awaiting_value A_USER_INPUT_GATE = ''USER_INPUT_GATE''"
| "awaiting_value A_USER_INPUT_PERMISSION = ''USER_INPUT_PERMISSION''"

definition all_awaitings :: "awaiting list" where
  "all_awaitings =
     [A_CODEX_CODE_REVIEW, A_CODEX_CLARIFICATION, A_CODEX_DECISION_VERDICT, A_HOST_APPLY_FINDINGS,
      A_HOST_DRAFT_DECISION_REQUEST, A_HOST_DRAFT_DECISION_BRIEF, A_HOST_RECORD_DECISION,
      A_HOST_REVISE_DECISION_REQUEST, A_HOST_ANSWER_GATE_QUESTION, A_CI_RESULT, A_REPORT,
      A_MERGE_PRECONDITIONS, A_MERGE_OUTCOME_EXECUTE, A_MERGE_OUTCOME_CANCEL,
      A_MERGE_OUTCOME_FAILURE, A_USER_INPUT_DECISION, A_USER_INPUT_GATE, A_USER_INPUT_PERMISSION]"

definition awaiting_of_value :: "string \<Rightarrow> awaiting option" where
  "awaiting_of_value = member_of awaiting_value all_awaitings"

interpretation awaitings: vocabulary awaiting_value all_awaitings
proof
  show "x \<in> set all_awaitings" for x by (cases x) (simp_all add: all_awaitings_def)
  show "distinct (map awaiting_value all_awaitings)" by code_simp
qed

lemma awaiting_of_value [simp]: "awaiting_of_value (awaiting_value x) = Some x"
  by (simp add: awaiting_of_value_def)

section \<open>\<open>Progress\<close>\<close>

fun progress_value :: "progress \<Rightarrow> string" where
  "progress_value P_CONTINUE = ''CONTINUE''"
| "progress_value P_LIMIT_REACHED = ''LIMIT_REACHED''"
| "progress_value P_NO_PROGRESS = ''NO_PROGRESS''"

definition all_progress_values :: "progress list" where
  "all_progress_values =
     [P_CONTINUE, P_LIMIT_REACHED, P_NO_PROGRESS]"

definition progress_of_value :: "string \<Rightarrow> progress option" where
  "progress_of_value = member_of progress_value all_progress_values"

interpretation progress_values: vocabulary progress_value all_progress_values
proof
  show "x \<in> set all_progress_values" for x by (cases x) (simp_all add: all_progress_values_def)
  show "distinct (map progress_value all_progress_values)" by code_simp
qed

lemma progress_of_value [simp]: "progress_of_value (progress_value x) = Some x"
  by (simp add: progress_of_value_def)

section \<open>\<open>Budget\<close>\<close>

fun budget_value :: "budget \<Rightarrow> string" where
  "budget_value B_REVIEW_ROUND = ''REVIEW_ROUND''"
| "budget_value B_CLARIFICATION_TURN = ''CLARIFICATION_TURN''"

definition all_budgets :: "budget list" where "all_budgets = [B_REVIEW_ROUND, B_CLARIFICATION_TURN]"

definition budget_of_value :: "string \<Rightarrow> budget option" where
  "budget_of_value = member_of budget_value all_budgets"

interpretation budgets: vocabulary budget_value all_budgets
proof
  show "x \<in> set all_budgets" for x by (cases x) (simp_all add: all_budgets_def)
  show "distinct (map budget_value all_budgets)" by code_simp
qed

lemma budget_of_value [simp]: "budget_of_value (budget_value x) = Some x"
  by (simp add: budget_of_value_def)

section \<open>\<open>IncidentTarget\<close>\<close>

fun incident_target_value :: "incident_target \<Rightarrow> string" where
  "incident_target_value IT_MERGED = ''MERGED''"
| "incident_target_value IT_CANCELLED = ''CANCELLED''"

definition all_incident_targets :: "incident_target list" where
  "all_incident_targets =
     [IT_MERGED, IT_CANCELLED]"

definition incident_target_of_value :: "string \<Rightarrow> incident_target option" where
  "incident_target_of_value = member_of incident_target_value all_incident_targets"

interpretation incident_targets: vocabulary incident_target_value all_incident_targets
proof
  show "x \<in> set all_incident_targets" for x by (cases x) (simp_all add: all_incident_targets_def)
  show "distinct (map incident_target_value all_incident_targets)" by code_simp
qed

lemma incident_target_of_value [simp]: "incident_target_of_value (incident_target_value x) = Some x"
  by (simp add: incident_target_of_value_def)

section \<open>\<open>HostAction\<close>\<close>

fun host_action_value :: "host_action \<Rightarrow> string" where
  "host_action_value HA_APPLY_FINDINGS = ''APPLY_FINDINGS''"
| "host_action_value HA_DRAFT_DECISION_REQUEST = ''DRAFT_DECISION_REQUEST''"
| "host_action_value HA_DRAFT_DECISION_BRIEF = ''DRAFT_DECISION_BRIEF''"
| "host_action_value HA_RECORD_DECISION = ''RECORD_DECISION''"
| "host_action_value HA_REVISE_DECISION_REQUEST = ''REVISE_DECISION_REQUEST''"
| "host_action_value HA_ANSWER_GATE_QUESTION = ''ANSWER_GATE_QUESTION''"

definition all_host_actions :: "host_action list" where
  "all_host_actions =
     [HA_APPLY_FINDINGS, HA_DRAFT_DECISION_REQUEST, HA_DRAFT_DECISION_BRIEF, HA_RECORD_DECISION,
      HA_REVISE_DECISION_REQUEST, HA_ANSWER_GATE_QUESTION]"

definition host_action_of_value :: "string \<Rightarrow> host_action option" where
  "host_action_of_value = member_of host_action_value all_host_actions"

interpretation host_actions: vocabulary host_action_value all_host_actions
proof
  show "x \<in> set all_host_actions" for x by (cases x) (simp_all add: all_host_actions_def)
  show "distinct (map host_action_value all_host_actions)" by code_simp
qed

lemma host_action_of_value [simp]: "host_action_of_value (host_action_value x) = Some x"
  by (simp add: host_action_of_value_def)

section \<open>\<open>ProcedureKind\<close>\<close>

fun procedure_kind_value :: "procedure_kind \<Rightarrow> string" where
  "procedure_kind_value PK_NORMAL = ''NORMAL''"
| "procedure_kind_value PK_CANCELLING = ''CANCELLING''"
| "procedure_kind_value PK_HALTING_FOR_BLOCK = ''HALTING_FOR_BLOCK''"
| "procedure_kind_value PK_RECORDING_INCIDENT = ''RECORDING_INCIDENT''"

definition all_procedure_kinds :: "procedure_kind list" where
  "all_procedure_kinds =
     [PK_NORMAL, PK_CANCELLING, PK_HALTING_FOR_BLOCK, PK_RECORDING_INCIDENT]"

definition procedure_kind_of_value :: "string \<Rightarrow> procedure_kind option" where
  "procedure_kind_of_value = member_of procedure_kind_value all_procedure_kinds"

interpretation procedure_kinds: vocabulary procedure_kind_value all_procedure_kinds
proof
  show "x \<in> set all_procedure_kinds" for x by (cases x) (simp_all add: all_procedure_kinds_def)
  show "distinct (map procedure_kind_value all_procedure_kinds)" by code_simp
qed

lemma procedure_kind_of_value [simp]: "procedure_kind_of_value (procedure_kind_value x) = Some x"
  by (simp add: procedure_kind_of_value_def)

section \<open>\<open>BlockKind\<close>\<close>

fun block_kind_value :: "block_kind \<Rightarrow> string" where
  "block_kind_value BK_PROGRESS = ''PROGRESS''"
| "block_kind_value BK_EXTERNAL_DEPENDENCY = ''EXTERNAL_DEPENDENCY''"
| "block_kind_value BK_RECORD_INTEGRITY = ''RECORD_INTEGRITY''"

definition all_block_kinds :: "block_kind list" where
  "all_block_kinds =
     [BK_PROGRESS, BK_EXTERNAL_DEPENDENCY, BK_RECORD_INTEGRITY]"

definition block_kind_of_value :: "string \<Rightarrow> block_kind option" where
  "block_kind_of_value = member_of block_kind_value all_block_kinds"

interpretation block_kinds: vocabulary block_kind_value all_block_kinds
proof
  show "x \<in> set all_block_kinds" for x by (cases x) (simp_all add: all_block_kinds_def)
  show "distinct (map block_kind_value all_block_kinds)" by code_simp
qed

lemma block_kind_of_value [simp]: "block_kind_of_value (block_kind_value x) = Some x"
  by (simp add: block_kind_of_value_def)

section \<open>\<open>ErrorCategory\<close>\<close>

fun error_category_value :: "error_category \<Rightarrow> string" where
  "error_category_value Transient = ''TRANSIENT''"
| "error_category_value NotFound = ''NOT_FOUND''"
| "error_category_value AuthError = ''AUTH''"
| "error_category_value Permanent = ''PERMANENT''"

definition all_error_categories :: "error_category list" where
  "all_error_categories =
     [Transient, NotFound, AuthError, Permanent]"

definition error_category_of_value :: "string \<Rightarrow> error_category option" where
  "error_category_of_value = member_of error_category_value all_error_categories"

interpretation error_categories: vocabulary error_category_value all_error_categories
proof
  show "x \<in> set all_error_categories" for x by (cases x) (simp_all add: all_error_categories_def)
  show "distinct (map error_category_value all_error_categories)" by code_simp
qed

lemma error_category_of_value [simp]: "error_category_of_value (error_category_value x) = Some x"
  by (simp add: error_category_of_value_def)

section \<open>\<open>RecordKind\<close>\<close>

interpretation record_kinds: vocabulary kind_value all_kinds
proof
  show "x \<in> set all_kinds" for x by (rule all_kinds_complete)
  show "distinct (map kind_value all_kinds)" by code_simp
qed

end
