(* ===== verification/Schema_Host.thy ===== *)
theory Schema_Host
  imports Validate Vocabulary
begin

text \<open>
  The schemas of the protocol with the host and the user, and of the files of a run: \<open>schema/action.py\<close>,
  \<open>user_input.py\<close>, \<open>agents.py\<close>, \<open>session.py\<close> and \<open>lock.py\<close>. A vocabulary that the source derives from an enumeration is
  derived from its members here. \<open>str.isprintable\<close> on arbitrary text is an argument of the rules of \<open>agents.py\<close>.
\<close>

section \<open>Host actions\<close>

definition HOST_ACTION_KINDS :: "string list" where
  "HOST_ACTION_KINDS = sort (map host_action_value all_host_actions)"

definition V1_ACTION_KINDS :: "string list" where
  "V1_ACTION_KINDS =
     [''APPLY_FINDINGS'', ''DRAFT_DECISION_REQUEST'', ''DRAFT_DECISION_BRIEF'', ''RECORD_DECISION'',
      ''REVISE_DECISION_REQUEST'', ''ANSWER_GATE_QUESTION'', ''ASK_CLARIFICATION'',
      ''ANSWER_CLARIFICATION'', ''DRAFT_FOLLOWUP_CANDIDATES'', ''STRUCTURE_USER_INTENT'',
      ''RUN_LOCAL_TESTS'', ''IMPLEMENT_ISSUE'']"

definition SUBMIT_OUTCOMES :: "string list" where "SUBMIT_OUTCOMES = [''COMPLETED'', ''FAILED'']"

definition SUBMIT_ERROR_CATEGORIES :: "string list" where
  "SUBMIT_ERROR_CATEGORIES = sort (map error_category_value all_error_categories)"

definition RECORD_KINDS :: "string list" where "RECORD_KINDS = sort (map kind_value all_kinds)"

definition HOST_ACTION_PAYLOADS :: "(string \<times> version_spec) list" where
  "HOST_ACTION_PAYLOADS =
     map (\<lambda>(action, table). (host_action_value action, \<lparr>vs_fields = table, vs_rules = []\<rparr>))
       [(HA_APPLY_FINDINGS, [(''round'', integer_field), (''finding_ids'', array_field opaque_field)]),
        (HA_DRAFT_DECISION_REQUEST, []),
        (HA_REVISE_DECISION_REQUEST, [(''decision_id'', opaque_field)]),
        (HA_DRAFT_DECISION_BRIEF, [(''decision_id'', opaque_field)]),
        (HA_RECORD_DECISION, [(''decision_id'', opaque_field)]),
        (HA_ANSWER_GATE_QUESTION, [(''question_comment_id'', opaque_field)])]"

definition rule_payload_matches_kind :: "payload \<Rightarrow> public_error list" where
  "rule_payload_matches_kind data =
     (case (map_of data ''action_kind'', map_of data ''payload'') of
        (Some (JStr kind), Some (JObj payload)) \<Rightarrow>
          (case map_of HOST_ACTION_PAYLOADS kind of
             None \<Rightarrow> []
           | Some spec \<Rightarrow>
               map (\<lambda>e. public_error (pe_code e) (''payload.'' @ pe_path e)) (structural_errors spec payload))
      | _ \<Rightarrow> [])"

definition binding_fields :: fields where
  "binding_fields =
     [(''schema_version'', schema_version_field), (''run_id'', opaque_field),
      (''action_id'', opaque_field), (''repository'', text_field), (''number'', integer_field),
      (''expected_head_sha'', sha_field), (''payload_hash'', opaque_field), (''nonce'', opaque_field),
      (''verified_records'',
         array_field (obj_field [(''comment_id'', opaque_field), (''head_sha'', sha_field)]))]"

definition host_action_fields_v1 :: fields where
  "host_action_fields_v1 =
     binding_fields @
     [(''action_kind'', enum_field V1_ACTION_KINDS), (''payload'', plain_field DictType)]"

definition host_action_fields_v2 :: fields where
  "host_action_fields_v2 =
     binding_fields @
     [(''action_kind'', enum_field HOST_ACTION_KINDS), (''result_path'', text_field),
      (''payload'', plain_field DictType)]"

definition HOST_ACTION :: schema_definition where
  "HOST_ACTION =
     \<lparr>sd_kind = ''HOST_ACTION'',
      sd_versions = [(1, \<lparr>vs_fields = host_action_fields_v1, vs_rules = []\<rparr>),
         (2, \<lparr>vs_fields = host_action_fields_v2, vs_rules = [rule_payload_matches_kind]\<rparr>)],
      sd_migrations = [], sd_max_input_bytes = DEFAULT_MAX_INPUT_BYTES\<rparr>"

definition rule_failed_requires_error_category :: "payload \<Rightarrow> public_error list" where
  "rule_failed_requires_error_category data =
     (if map_of data ''outcome'' = Some (JStr ''FAILED'') \<and> map_of data ''error_category'' = None
      then [public_error ''cross_field'' ''error_category''] else [])"

definition rule_outcome_fields_are_exclusive :: "payload \<Rightarrow> public_error list" where
  "rule_outcome_fields_are_exclusive data =
     (let has_kind = (map_of data ''result_kind'' \<noteq> None); has_category = (map_of data ''error_category'' \<noteq> None) in
      if map_of data ''outcome'' = Some (JStr ''COMPLETED'')
      then (if \<not> has_kind then [public_error ''cross_field'' ''result_kind''] else []) @
           (if has_category then [public_error ''cross_field'' ''error_category''] else [])
      else if map_of data ''outcome'' = Some (JStr ''FAILED'')
      then (if \<not> has_category then [public_error ''cross_field'' ''error_category''] else []) @
           (if has_kind then [public_error ''cross_field'' ''result_kind''] else [])
      else [])"

definition submit_fields :: "string list \<Rightarrow> bool \<Rightarrow> fields" where
  "submit_fields kinds typed_result =
     [(''schema_version'', schema_version_field), (''run_id'', opaque_field), (''action_id'', opaque_field),
      (''action_kind'', enum_field kinds), (''expected_head_sha'', sha_field), (''nonce'', opaque_field),
      (''result_hash'', opaque_field), (''outcome'', enum_field SUBMIT_OUTCOMES)] @
     (if typed_result
      then [(''result_kind'', optional (enum_field RECORD_KINDS)),
            (''error_category'', optional (enum_field SUBMIT_ERROR_CATEGORIES))]
      else [(''error_category'', optional text_field)])"

definition MAX_FAILURE_DETAIL_CHARS :: nat where "MAX_FAILURE_DETAIL_CHARS = 16384"

definition host_failure_fields :: fields where
  "host_failure_fields =
     [(''schema_version'', schema_version_field), (''action_kind'', enum_field HOST_ACTION_KINDS),
      (''error_category'', enum_field SUBMIT_ERROR_CATEGORIES), (''summary'', text_field),
      (''detail'', optional (bounded_text True (Some MAX_FAILURE_DETAIL_CHARS))),
      (''occurred_at'', optional text_field)]"

definition HOST_FAILURE :: schema_definition where
  "HOST_FAILURE = single_version ''HOST_FAILURE'' host_failure_fields []"

definition submit_fields_v1 :: fields where "submit_fields_v1 = submit_fields V1_ACTION_KINDS False"

definition submit_fields_v2 :: fields where "submit_fields_v2 = submit_fields HOST_ACTION_KINDS True"

definition SUBMIT :: schema_definition where
  "SUBMIT =
     \<lparr>sd_kind = ''SUBMIT'',
      sd_versions = [(1, \<lparr>vs_fields = submit_fields_v1, vs_rules = [rule_failed_requires_error_category]\<rparr>),
         (2, \<lparr>vs_fields = submit_fields_v2, vs_rules = [rule_outcome_fields_are_exclusive]\<rparr>)],
      sd_migrations = [], sd_max_input_bytes = DEFAULT_MAX_INPUT_BYTES\<rparr>"

section \<open>Requests to the user\<close>

definition USER_INPUT_AWAITINGS :: "awaiting list" where
  "USER_INPUT_AWAITINGS = [A_USER_INPUT_DECISION, A_USER_INPUT_GATE, A_USER_INPUT_PERMISSION]"

definition USER_AWAITING_VALUES :: "string list" where
  "USER_AWAITING_VALUES = sort (map awaiting_value USER_INPUT_AWAITINGS)"

definition USER_RECORD_KINDS :: "string list" where
  "USER_RECORD_KINDS = sort (map kind_value (filter (\<lambda>k. k \<in> USER_INPUT_RECORD_KINDS) all_kinds))"

definition HOST_TRANSCRIPT_ROUTE :: string where "HOST_TRANSCRIPT_ROUTE = ''host_transcript''"

definition GITHUB_COMMENT_ROUTE :: string where "GITHUB_COMMENT_ROUTE = ''github_comment''"

definition INPUT_ROUTES :: "string list" where
  "INPUT_ROUTES = [GITHUB_COMMENT_ROUTE, HOST_TRANSCRIPT_ROUTE]"

definition rule_exactly_one_wait :: "payload \<Rightarrow> public_error list" where
  "rule_exactly_one_wait data =
     (if (map_of data ''awaiting'' \<noteq> None) = (map_of data ''block_binding'' \<noteq> None)
      then [public_error ''cross_field'' ''awaiting''] else [])"

definition user_request_fields :: fields where
  "user_request_fields =
     [(''schema_version'', schema_version_field), (''run_id'', opaque_field),
      (''request_id'', opaque_field), (''repository'', text_field), (''number'', integer_field),
      (''expected_head_sha'', sha_field), (''awaiting'', optional (enum_field USER_AWAITING_VALUES)),
      (''block_binding'', optional opaque_field), (''nonce'', opaque_field),
      (''result_path'', text_field), (''since_seq'', integer_field),
      (''accepted_result_kinds'', array_field (enum_field USER_RECORD_KINDS)),
      (''verified_records'',
         array_field (obj_field [(''comment_id'', opaque_field), (''head_sha'', sha_field)]))]"

definition USER_REQUEST :: schema_definition where
  "USER_REQUEST = single_version ''USER_REQUEST'' user_request_fields [rule_exactly_one_wait]"

definition rule_result_kind_or_permission :: "payload \<Rightarrow> public_error list" where
  "rule_result_kind_or_permission data =
     (if map_of data ''result_kind'' \<noteq> None then []
      else if map_of data ''awaiting'' = Some (JStr (awaiting_value A_USER_INPUT_PERMISSION)) then []
      else [public_error ''cross_field'' ''result_kind''])"

definition user_submit_fields :: fields where
  "user_submit_fields =
     [(''schema_version'', schema_version_field), (''run_id'', opaque_field),
      (''request_id'', opaque_field), (''awaiting'', optional (enum_field USER_AWAITING_VALUES)),
      (''block_binding'', optional opaque_field), (''expected_head_sha'', sha_field),
      (''nonce'', opaque_field), (''result_hash'', opaque_field),
      (''result_kind'', optional (enum_field USER_RECORD_KINDS))]"

definition USER_SUBMIT :: schema_definition where
  "USER_SUBMIT =
     single_version ''USER_SUBMIT'' user_submit_fields
       [rule_exactly_one_wait, rule_result_kind_or_permission]"

definition permission_resume_fields :: fields where
  "permission_resume_fields =
     [(''schema_version'', schema_version_field), (''permission_id'', opaque_field),
      (''tool'', text_field), (''scope'', text_field), (''current_head_sha'', sha_field)]"

definition PERMISSION_RESUME :: schema_definition where
  "PERMISSION_RESUME = single_version ''PERMISSION_RESUME'' permission_resume_fields []"

section \<open>Selection of the agents\<close>

definition PROVIDERS :: "string list" where "PROVIDERS = [''claude'', ''codex'']"

definition CODER_MODES :: "string list" where "CODER_MODES = [''active'', ''headless'']"

definition REVIEWER_MODES :: "string list" where "REVIEWER_MODES = [''fresh'']"

definition CODER_PROFILE :: string where "CODER_PROFILE = ''coder_workspace''"

definition REVIEWER_PROFILE :: string where "REVIEWER_PROFILE = ''reviewer_isolated''"

definition role_errors :: "(string \<Rightarrow> bool) \<Rightarrow> payload \<Rightarrow> string \<Rightarrow> public_error list" where
  "role_errors printable_text data role =
     (case map_of data role of
        Some (JObj config) \<Rightarrow>
          (case map_of config ''adapter_contract_version'' of
             Some (JInt v) \<Rightarrow>
               if v < 1 then [public_error ''out_of_range'' (role @ ''.adapter_contract_version'')] else []
           | _ \<Rightarrow> []) @
          (case map_of config ''model'' of
             Some (JStr model) \<Rightarrow>
               if strip_text model = [] \<or> \<not> printable_text model
               then [public_error ''invalid_model'' (role @ ''.model'')] else []
           | _ \<Rightarrow> [])
      | _ \<Rightarrow> [])"

definition selection_rules :: "(string \<Rightarrow> bool) \<Rightarrow> payload \<Rightarrow> public_error list" where
  "selection_rules printable_text data =
     (case map_of data ''number'' of
        Some (JInt n) \<Rightarrow> if n < 1 then [public_error ''out_of_range'' ''number''] else []
      | _ \<Rightarrow> []) @
     role_errors printable_text data ''coder'' @ role_errors printable_text data ''reviewer''"

definition role_fields :: "string list \<Rightarrow> string \<Rightarrow> fields" where
  "role_fields modes profile =
     [(''provider'', enum_field PROVIDERS), (''model'', bounded_text True (Some 200)),
      (''mode'', enum_field modes), (''safety_profile'', enum_field [profile]),
      (''adapter_contract_version'', integer_field)]"

definition agent_selection_fields :: fields where
  "agent_selection_fields =
     [(''schema_version'', schema_version_field), (''run_id'', opaque_field),
      (''repository'', text_field), (''number'', integer_field),
      (''coder'', obj_field (role_fields CODER_MODES CODER_PROFILE)),
      (''reviewer'', obj_field (role_fields REVIEWER_MODES REVIEWER_PROFILE))]"

definition AGENT_SELECTION :: "(string \<Rightarrow> bool) \<Rightarrow> schema_definition" where
  "AGENT_SELECTION printable_text =
     single_version ''AGENT_SELECTION'' agent_selection_fields [selection_rules printable_text]"

section \<open>Session\<close>

definition env_map :: field where "env_map = map_field (bounded_text False (Some 10000))"

definition DEFAULT_CONTROLLER_SPEAKER :: string where "DEFAULT_CONTROLLER_SPEAKER = ''Controller''"

definition session_config_fields :: fields where
  "session_config_fields =
     [(''schema_version'', schema_version_field), (''run_id'', opaque_field),
      (''repository'', text_field), (''number'', integer_field), (''head_sha'', sha_field),
      (''gh_command'', array_field text_field), (''gh_workdir'', text_field),
      (''gh_timeout_ms'', integer_field), (''gh_grace_ms'', integer_field), (''gh_env'', env_map),
      (''retry_max_attempts'', integer_field), (''retry_backoff_ms'', integer_field),
      (''retry_max_wait_ms'', integer_field), (''search_since'', nullable text_field),
      (''search_attempts'', integer_field), (''search_backoff_ms'', integer_field),
      (''search_max_pages'', integer_field), (''detection_head'', sha_field),
      (''producer_logins'', array_field text_field), (''max_result_bytes'', integer_field),
      (''retry_budget'', integer_field), (''speaker'', text_field), (''model'', text_field),
      (''user_speaker'', text_field),
      (''controller_speaker'', with_default (JStr DEFAULT_CONTROLLER_SPEAKER) (optional text_field)),
      (''halt_grace_ms'', integer_field), (''agent_selection'', optional (obj_field agent_selection_fields)),
      (''agent_initialization'', optional (enum_field [''preparing'', ''ready''])),
      (''agent_initial_checkpoint'', optional sha_field)]"

definition SESSION_CONFIG :: schema_definition where
  "SESSION_CONFIG = single_version ''SESSION_CONFIG'' session_config_fields []"

section \<open>Lock\<close>

definition run_lock_fields :: fields where
  "run_lock_fields =
     [(''schema_version'', schema_version_field), (''run_id'', opaque_field),
      (''repository'', text_field), (''number'', integer_field), (''pid'', integer_field),
      (''host'', bounded_text True (Some 255)), (''acquired_at'', opaque_field),
      (''head_sha'', optional opaque_field)]"

definition RUN_LOCK :: schema_definition where
  "RUN_LOCK = single_version ''RUN_LOCK'' run_lock_fields []"

end
