(* ===== verification/Schema_Checkpoint.thy ===== *)
theory Schema_Checkpoint
  imports Schema_Host Rules_Workflow
begin

text \<open>
  \<open>schema/envelope.py\<close>: the checkpoint, its obligatory frame and its optional sections, in both versions, and the
  migration of the section of the host action from version 1 to version 2.
\<close>

definition CHECKPOINT_MAX_INPUT_BYTES :: nat where "CHECKPOINT_MAX_INPUT_BYTES = 262144"

definition MAX_SUBMIT_RECEIPTS :: nat where "MAX_SUBMIT_RECEIPTS = 32"

definition PROCEDURE_KINDS :: "string list" where "PROCEDURE_KINDS = sort (map procedure_kind_value all_procedure_kinds)"

definition INCIDENT_TARGETS :: "string list" where "INCIDENT_TARGETS = sort (map incident_target_value all_incident_targets)"

definition PROGRESS_VALUES :: "string list" where "PROGRESS_VALUES = sort (map progress_value all_progress_values)"

definition BUDGET_VALUES :: "string list" where "BUDGET_VALUES = sort (map budget_value all_budgets)"

definition CONTINUATION_IDS :: "string list" where "CONTINUATION_IDS = sort (map fst BLOCKED_CONTINUATIONS)"

definition MAX_ACTIVE_TREES :: nat where "MAX_ACTIVE_TREES = 8"

definition JOB_OBJECT_TREE :: string where "JOB_OBJECT_TREE = ''JOB_OBJECT''"

definition PROCESS_GROUP_TREE :: string where "PROCESS_GROUP_TREE = ''PROCESS_GROUP''"

definition TREE_KINDS :: "string list" where "TREE_KINDS = [JOB_OBJECT_TREE, PROCESS_GROUP_TREE]"

definition BLOCK_KINDS :: "string list" where "BLOCK_KINDS = sort (map block_kind_value all_block_kinds)"

definition STATE_VALUES :: "string list" where "STATE_VALUES = sort (map state_value all_states)"

definition AWAITING_VALUES :: "string list" where "AWAITING_VALUES = sort (map awaiting_value all_awaitings)"

definition RECORD_KIND_VALUES :: "string list" where "RECORD_KIND_VALUES = sort (map kind_value all_kinds)"

definition MAX_PENDING_BODY_CHARS :: nat where "MAX_PENDING_BODY_CHARS = 65536"

definition violation_field :: field where
  "violation_field =
     obj_field [(''binding'', opaque_field), (''descriptor'', opaque_field), (''head'', opaque_field)]"

definition pending_record_field :: field where
  "pending_record_field =
     optional
       (obj_field
          [(''kind'', enum_field RECORD_KIND_VALUES), (''binding'', opaque_field),
           (''source_state'', enum_field STATE_VALUES)])"

definition pending_action_fields :: fields where
  "pending_action_fields =
     [(''action_id'', opaque_field), (''action_kind'', enum_field HOST_ACTION_KINDS),
      (''nonce'', opaque_field), (''expected_head_sha'', sha_field), (''result_path'', text_field),
      (''envelope_path'', text_field), (''envelope_hash'', opaque_field),
      (''issued_at'', optional text_field)]"

definition receipt_fields :: "bool \<Rightarrow> fields" where
  "receipt_fields keyed =
     (if keyed then [(''action_id'', opaque_field), (''nonce'', opaque_field)] else []) @
     [(''outcome'', enum_field SUBMIT_OUTCOMES), (''submit_hash'', opaque_field),
      (''result_hash'', opaque_field), (''result_kind'', optional (enum_field RECORD_KIND_VALUES)),
      (''error_category'', optional (enum_field SUBMIT_ERROR_CATEGORIES)),
      (''accepted_at'', optional text_field)]"

definition host_action_v1 :: field where
  "host_action_v1 =
     optional
       (obj_field (pending_action_fields @ [(''submit'', optional (obj_field (receipt_fields False)))]))"

definition host_action_v2 :: field where
  "host_action_v2 =
     optional
       (obj_field
          [(''pending'',
              optional
                (obj_field
                   (pending_action_fields @
                    [(''correlation_id'', optional opaque_field), (''attempt'', optional integer_field)]))),
           (''receipts'',
              optional (bounded_array (Some MAX_SUBMIT_RECEIPTS) (obj_field (receipt_fields True))))])"

definition heads_section :: field where
  "heads_section =
     optional
       (obj_field
          [(''base_sha'', optional sha_field), (''observed_sha'', optional sha_field),
           (''approved_sha'', optional sha_field)])"

definition procedure_fields :: fields where
  "procedure_fields =
     [(''kind'', enum_field PROCEDURE_KINDS), (''attempt_binding'', optional opaque_field),
      (''violations'', optional (array_field violation_field)),
      (''target'', optional (enum_field INCIDENT_TARGETS)),
      (''audit'', pending_record_field)]"

definition evidence_fields :: fields where
  "evidence_fields =
     [(''kind'', enum_field RECORD_KIND_VALUES), (''binding'', opaque_field), (''ref'', opaque_field)]"

definition block_fields :: fields where
  "block_fields =
     [(''kind'', enum_field BLOCK_KINDS),
      (''violations'', optional (array_field violation_field)),
      (''binding'', optional opaque_field), (''head'', optional opaque_field),
      (''continuation'', optional (enum_field CONTINUATION_IDS)),
      (''reason'', optional (enum_field PROGRESS_VALUES)),
      (''budget'', optional (enum_field BUDGET_VALUES)),
      (''counter_snapshot'', optional opaque_field),
      (''fingerprint'', optional opaque_field),
      (''evidence'', optional (obj_field evidence_fields))]"

definition state_fields :: fields where
  "state_fields =
     [(''state'', optional (enum_field STATE_VALUES)), (''round'', optional integer_field),
      (''agent_role'', optional text_field), (''session_id'', optional opaque_field),
      (''awaiting'', optional (enum_field AWAITING_VALUES)),
      (''return_to'', optional (enum_field STATE_VALUES)),
      (''recovery_to'', optional (enum_field STATE_VALUES)),
      (''pending_record'', pending_record_field),
      (''procedure'', optional (obj_field procedure_fields)),
      (''block'', optional (obj_field block_fields)),
      (''deferred_integrity'', optional (array_field violation_field))]"

definition state_section :: field where
  "state_section = optional (obj_field state_fields)"

definition ledger_section :: field where
  "ledger_section =
     optional
       (obj_field
          [(''findings'',
              optional
                (array_field
                   (obj_field
                      [(''id'', opaque_field), (''fingerprint'', optional opaque_field),
                       (''resolution'', optional text_field)])))])"

definition conversation_section :: field where
  "conversation_section =
     optional
       (obj_field
          [(''cursor'', optional opaque_field), (''high_water_mark'', optional integer_field),
           (''records'',
              optional
                (array_field
                   (obj_field
                      [(''comment_id'', opaque_field), (''review_id'', optional opaque_field),
                       (''thread_id'', optional opaque_field), (''seq'', optional integer_field),
                       (''kind'', optional text_field), (''url'', optional opaque_field),
                       (''reply_to'', optional opaque_field), (''body_hash'', optional opaque_field),
                       (''author_role'', optional text_field), (''head_sha'', optional sha_field)])))])"

definition clarification_section :: field where
  "clarification_section =
     optional
       (obj_field [(''counter'', optional integer_field), (''fingerprint'', optional opaque_field)])"

definition coder_section :: field where
  "coder_section =
     optional
       (obj_field
          [(''pre_head_sha'', optional sha_field), (''post_head_sha'', optional sha_field),
           (''pushed_head_sha'', optional sha_field), (''dirty_before'', optional boolean_field),
           (''dirty_after'', optional boolean_field)])"

definition tests_section :: field where
  "tests_section =
     optional
       (array_field
          (obj_field
             [(''command'', text_field), (''cwd'', optional text_field), (''result'', text_field),
              (''duration_ms'', optional integer_field)]))"

definition ci_section :: field where
  "ci_section =
     optional
       (array_field
          (obj_field
             [(''check_name'', text_field), (''result'', text_field), (''url'', optional opaque_field)]))"

definition artifacts_section :: field where
  "artifacts_section = optional (array_field text_field)"

definition artifact_records_section :: field where
  "artifact_records_section =
     optional
       (array_field
          (obj_field
             [(''path'', text_field), (''kind'', text_field), (''content_hash'', opaque_field),
              (''approved_head_sha'', sha_field), (''record_binding'', optional opaque_field),
              (''comment_id'', optional opaque_field)]))"

definition transaction_section :: field where
  "transaction_section =
     optional
       (obj_field
          [(''binding'', opaque_field), (''kind'', enum_field RECORD_KIND_VALUES),
           (''seq'', integer_field), (''head_sha'', sha_field), (''payload_hash'', opaque_field),
           (''body'', bounded_text True (Some MAX_PENDING_BODY_CHARS)),
           (''body_hash'', optional opaque_field), (''audit_prev'', optional integer_field),
           (''audit_prev_hash'', optional sha_field),
           (''projection'',
              optional
                (obj_field
                   [(PAYLOAD_HASH_KEY, opaque_field), (RESULT_KEY, optional text_field),
                    (ROUND_KEY, optional integer_field), (TURN_KEY, optional integer_field),
                    (FINGERPRINT_KEY, optional opaque_field), (SUBJECT_KEY, optional opaque_field),
                    (TARGET_KEY, optional opaque_field), (DIGEST_KEY, optional opaque_field),
                    (COUNT_KEY, optional integer_field)]))])"

definition mutation_section :: field where
  "mutation_section =
     optional
       (obj_field
          [(''last_success'', optional opaque_field), (''idempotency_marker'', optional opaque_field),
           (''read_after_write_verified'', optional boolean_field)])"

definition error_section :: field where
  "error_section =
     optional
       (obj_field
          [(''category'', optional text_field), (''resume_point'', optional text_field),
           (''resume_command'', optional text_field)])"

definition decision_section :: field where
  "decision_section =
     optional
       (obj_field
          [(''decision_id'', optional opaque_field), (''claude_position'', optional text_field),
           (''codex_position'', optional text_field), (''user_answer'', optional text_field),
           (''answer_head_sha'', optional sha_field), (''answer_comment_id'', optional opaque_field),
           (''answer_body_hash'', optional opaque_field)])"

definition followup_section :: field where
  "followup_section =
     optional
       (array_field
          (obj_field
             [(''candidate_id'', opaque_field), (''fingerprint'', optional opaque_field),
              (''body_hash'', optional opaque_field), (''dedupe_result'', optional text_field),
              (''verdict'', optional text_field), (''permission_record'', optional opaque_field),
              (''created_issue_url'', optional opaque_field)]))"

definition permission_section :: field where
  "permission_section =
     optional
       (obj_field
          [(''mode'', optional text_field), (''profile'', optional text_field),
           (''permission_id'', optional opaque_field), (''blocked_tool'', optional text_field),
           (''risk'', optional text_field), (''requested_scope'', optional text_field),
           (''user_changes'', optional text_field), (''resume_checkpoint'', optional opaque_field),
           (''head_sha'', optional sha_field)])"

definition reviewer_section :: field where
  "reviewer_section =
     optional
       (obj_field
          [(''checkout_path'', optional text_field), (''sandbox_profile'', optional text_field),
           (''network_profile'', optional text_field), (''executed'', optional text_field),
           (''dirty_before'', optional boolean_field), (''dirty_after'', optional boolean_field),
           (''discard_result'', optional text_field)])"

definition processes_section :: field where
  "processes_section =
     optional
       (obj_field
          [(''trees'',
              optional
                (bounded_array (Some MAX_ACTIVE_TREES)
                   (obj_field
                      [(''kind'', enum_field TREE_KINDS), (''pid'', integer_field),
                       (''job_name'', optional text_field), (''pgid'', optional integer_field)])))])"

definition incident_record_section :: field where
  "incident_record_section =
     optional (obj_field [(''recorded_bindings'', optional (array_field opaque_field))])"

definition stop_request_section :: field where
  "stop_request_section =
     optional
       (obj_field
          [(''requested_at'', optional text_field), (''evidence'', optional opaque_field),
           (''source_state'', optional (enum_field STATE_VALUES))])"

definition merge_section :: field where
  "merge_section =
     optional
       (obj_field
          [(''intent'', optional text_field), (''pr_number'', optional integer_field),
           (''approved_head_sha'', optional sha_field), (''input_route'', optional text_field),
           (''approval_comment_id'', optional opaque_field),
           (''approval_body_hash'', optional opaque_field),
           (''candidate_fingerprint'', optional opaque_field),
           (''approval_binding'', optional opaque_field), (''merge_method'', optional text_field),
           (''api_result'', optional text_field), (''merged_commit_sha'', optional sha_field),
           (''verified_result'', optional text_field)])"

definition SECTIONS :: fields where
  "SECTIONS =
     [(''heads'', heads_section), (''state'', state_section), (''ledger'', ledger_section),
      (''conversation'', conversation_section), (''clarification'', clarification_section),
      (''coder'', coder_section), (''tests'', tests_section), (''ci'', ci_section),
      (''artifacts'', artifacts_section), (''artifact_records'', artifact_records_section),
      (''transaction'', transaction_section), (''mutation'', mutation_section),
      (''error'', error_section), (''decision'', decision_section), (''followup'', followup_section),
      (''permission'', permission_section), (''reviewer'', reviewer_section),
      (''processes'', processes_section), (''incident_record'', incident_record_section),
      (''stop_request'', stop_request_section), (''merge'', merge_section)]"

definition user_request_section :: field where
  "user_request_section =
     optional
       (obj_field
          [(''pending'',
              optional
                (obj_field
                   [(''request_id'', opaque_field),
                    (''awaiting'', optional (enum_field USER_AWAITING_VALUES)),
                    (''block_binding'', optional opaque_field), (''nonce'', opaque_field),
                    (''expected_head_sha'', sha_field), (''result_path'', text_field),
                    (''envelope_path'', text_field), (''envelope_hash'', opaque_field),
                    (''since_seq'', integer_field), (''issued_at'', optional text_field)])),
           (''receipt'',
              optional
                (obj_field
                   [(''request_id'', opaque_field), (''nonce'', opaque_field),
                    (''submit_hash'', opaque_field), (''result_hash'', opaque_field),
                    (''result_kind'', optional (enum_field RECORD_KIND_VALUES)),
                    (''intent_key'', optional opaque_field), (''accepted_at'', optional text_field)])),
           (''consumed'',
              optional
                (obj_field
                   [(''intent_key'', opaque_field), (''binding'', opaque_field),
                    (''route'', enum_field INPUT_ROUTES)]))])"

definition envelope_fields :: "field \<Rightarrow> fields" where
  "envelope_fields host_action =
     [(''schema_version'', schema_version_field), (''run_id'', opaque_field),
      (''repository'', text_field), (''number'', integer_field)] @
     SECTIONS @
     [(''agent_selection'', optional (obj_field [(''digest'', sha_field)])),
      (''host_action'', host_action), (''user_request'', user_request_section)]"

definition V1_PENDING_KEYS :: "string list" where "V1_PENDING_KEYS = map fst pending_action_fields"

definition checkpoint_v1_to_v2 :: "payload \<Rightarrow> payload option" where
  "checkpoint_v1_to_v2 payload =
     (case map_of payload ''host_action'' of
        Some (JObj items) \<Rightarrow>
          (let pending = List.map_filter (\<lambda>k. map_option (\<lambda>v. (k, v)) (map_of items k)) V1_PENDING_KEYS in
           case map_of items ''submit'' of
             Some (JObj submit) \<Rightarrow>
               (case (map_of items ''action_id'', map_of items ''nonce'') of
                  (Some action_id, Some nonce) \<Rightarrow>
                    Some (AList.update ''host_action''
                      (JObj [(''pending'', JObj pending),
                             (''receipts'',
                                JArr [JObj (AList.update ''nonce'' nonce (AList.update ''action_id'' action_id submit))])])
                      payload)
                | _ \<Rightarrow> None)
           | _ \<Rightarrow> Some (AList.update ''host_action'' (JObj [(''pending'', JObj pending)]) payload))
      | _ \<Rightarrow> Some payload)"

definition checkpoint_fields_v1 :: fields where "checkpoint_fields_v1 = envelope_fields host_action_v1"

definition checkpoint_fields_v2 :: fields where "checkpoint_fields_v2 = envelope_fields host_action_v2"

definition CHECKPOINT :: schema_definition where
  "CHECKPOINT =
     \<lparr>sd_kind = ''CHECKPOINT'',
      sd_versions = [(1, \<lparr>vs_fields = checkpoint_fields_v1, vs_rules = []\<rparr>),
         (2, \<lparr>vs_fields = checkpoint_fields_v2, vs_rules = []\<rparr>)],
      sd_migrations = [(1, checkpoint_v1_to_v2)], sd_max_input_bytes = CHECKPOINT_MAX_INPUT_BYTES\<rparr>"

end
