(* ===== verification/Checkpoint_View.thy ===== *)
theory Checkpoint_View
  imports Schema_Checkpoint
begin

text \<open>
  \<open>workflow/checkpoint_view.py\<close>: the readers and writers of the sections of a checkpoint payload. A reader gives
  \<open>Inl\<close> with a reason where the source returns \<open>SectionUnavailable\<close>; the reasons are names. A writer returns a
  new payload.
\<close>

section \<open>Access to a payload\<close>

text \<open>\<open>source.get(name)\<close>, with \<open>None\<close> for a missing key and for \<open>null\<close>.\<close>

definition get :: "payload \<Rightarrow> string \<Rightarrow> json option" where
  "get source name = (case map_of source name of Some JNull \<Rightarrow> None | r \<Rightarrow> r)"

definition text_of :: "payload \<Rightarrow> string \<Rightarrow> string option" where
  "text_of source name = (case map_of source name of Some (JStr s) \<Rightarrow> if s = [] then None else Some s | _ \<Rightarrow> None)"

definition required_text :: "payload \<Rightarrow> string \<Rightarrow> string + string" where
  "required_text source name = (case text_of source name of None \<Rightarrow> Inl name | Some s \<Rightarrow> Inr s)"

definition set_optional :: "string \<Rightarrow> json option \<Rightarrow> payload \<Rightarrow> payload" where
  "set_optional name v items = (case v of None \<Rightarrow> items | Some w \<Rightarrow> AList.update name w items)"

definition object_at :: "payload \<Rightarrow> string \<Rightarrow> payload" where
  "object_at payload name = (case map_of payload name of Some (JObj items) \<Rightarrow> items | _ \<Rightarrow> [])"

text \<open>A section: absent, an object, or unavailable.\<close>

definition section_of :: "payload \<Rightarrow> string \<Rightarrow> string + payload option" where
  "section_of payload name =
     (case get payload name of
        None \<Rightarrow> Inr None
      | Some (JObj items) \<Rightarrow> Inr (Some items)
      | Some _ \<Rightarrow> Inl name)"

text \<open>A value that must be the value of a member of an enumeration when it is present.\<close>

definition optional_member :: "(string \<Rightarrow> 'a option) \<Rightarrow> string option \<Rightarrow> string \<Rightarrow> string + 'a option" where
  "optional_member member s reason =
     (case s of None \<Rightarrow> Inr None
      | Some t \<Rightarrow> (case member t of None \<Rightarrow> Inl reason | Some x \<Rightarrow> Inr (Some x)))"

definition required_member :: "(string \<Rightarrow> 'a option) \<Rightarrow> payload \<Rightarrow> string \<Rightarrow> string + 'a" where
  "required_member member source name =
     bind_result (required_text source name) (\<lambda>s. case member s of None \<Rightarrow> Inl name | Some x \<Rightarrow> Inr x)"

section \<open>The state of the machine: reading\<close>

definition violation_of :: "json \<Rightarrow> string + integrity_evidence_ref" where
  "violation_of entry =
     (case entry of
        JObj items \<Rightarrow>
          bind_result (required_text items ''binding'') (\<lambda>b.
          bind_result (required_text items ''descriptor'') (\<lambda>d.
          bind_result (required_text items ''head'') (\<lambda>h.
            Inr \<lparr>ie_binding = OpaqueBinding b, ie_descriptor = OpaqueRef d, ie_head = OpaqueRef h\<rparr>)))
      | _ \<Rightarrow> Inl ''violation'')"

fun map_result :: "('a \<Rightarrow> 'e + 'b) \<Rightarrow> 'a list \<Rightarrow> 'e + 'b list" where
  "map_result f [] = Inr []"
| "map_result f (x # xs) = bind_result (f x) (\<lambda>y. bind_result (map_result f xs) (\<lambda>ys. Inr (y # ys)))"

definition violations_of :: "json option \<Rightarrow> string + integrity_evidence_ref list" where
  "violations_of section =
     (case section of None \<Rightarrow> Inr [] | Some (JArr vs) \<Rightarrow> map_result violation_of vs | Some _ \<Rightarrow> Inl ''violations'')"

definition pending_record_of :: "payload \<Rightarrow> string + pending_record" where
  "pending_record_of items =
     bind_result (required_member kind_of_value items ''kind'') (\<lambda>k.
     bind_result (required_text items ''binding'') (\<lambda>b.
     bind_result (required_member state_of_value items ''source_state'') (\<lambda>s.
       Inr \<lparr>pr_kind = k, pr_binding = OpaqueBinding b, pr_source_state = s\<rparr>)))"

definition optional_record :: "payload \<Rightarrow> string \<Rightarrow> string + pending_record option" where
  "optional_record items name =
     bind_result (section_of items name) (\<lambda>entry.
       case entry of None \<Rightarrow> Inr None | Some r \<Rightarrow> bind_result (pending_record_of r) (\<lambda>p. Inr (Some p)))"

text \<open>A check of the domain as a reason of unavailability.\<close>

definition checked :: "domain_error + 'a \<Rightarrow> string + 'a" where
  "checked r = (case r of Inl _ \<Rightarrow> Inl ''illegal'' | Inr a \<Rightarrow> Inr a)"

definition procedure_of :: "json option \<Rightarrow> string + procedure" where
  "procedure_of section =
     (case section of
        None \<Rightarrow> Inr NormalProcedure
      | Some (JObj items) \<Rightarrow>
          (case Option.bind (text_of items ''kind'') procedure_kind_of_value of
             None \<Rightarrow> Inl ''procedure kind''
           | Some PK_NORMAL \<Rightarrow> Inr NormalProcedure
           | Some PK_CANCELLING \<Rightarrow>
               bind_result (required_text items ''attempt_binding'') (\<lambda>a. Inr (CancellingProcedure (OpaqueBinding a)))
           | Some PK_HALTING_FOR_BLOCK \<Rightarrow>
               bind_result (violations_of (get items ''violations'')) (\<lambda>vs.
               bind_result (checked (mk_integrity_block vs)) (\<lambda>b.
               bind_result (required_text items ''attempt_binding'') (\<lambda>a.
                 checked (mk_halting b (OpaqueBinding a)))))
           | Some PK_RECORDING_INCIDENT \<Rightarrow>
               bind_result (required_member incident_target_of_value items ''target'') (\<lambda>t.
               bind_result (optional_record items ''audit'') (\<lambda>audit.
                 Inr (RecordingIncidentProcedure t audit))))
      | Some _ \<Rightarrow> Inl ''procedure'')"

definition continuation_of :: "payload \<Rightarrow> string + blocked_continuation" where
  "continuation_of items =
     bind_result (required_text items ''continuation'') (\<lambda>key.
       case map_of BLOCKED_CONTINUATIONS key of None \<Rightarrow> Inl ''continuation'' | Some c \<Rightarrow> Inr c)"

definition block_evidence_of :: "json option \<Rightarrow> string + record_evidence" where
  "block_evidence_of section =
     (case section of
        Some (JObj items) \<Rightarrow>
          bind_result (required_member kind_of_value items ''kind'') (\<lambda>k.
          bind_result (required_text items ''binding'') (\<lambda>b.
          bind_result (required_text items ''ref'') (\<lambda>r.
            Inr \<lparr>re_kind = k, re_binding = OpaqueBinding b, re_ref = OpaqueRef r\<rparr>)))
      | _ \<Rightarrow> Inl ''evidence'')"

definition progress_block_of :: "payload \<Rightarrow> string + block_context" where
  "progress_block_of items =
     bind_result (required_text items ''binding'') (\<lambda>b.
     bind_result (required_text items ''head'') (\<lambda>h.
     bind_result (continuation_of items) (\<lambda>c.
     bind_result (required_member progress_of_value items ''reason'') (\<lambda>reason.
     bind_result (required_member budget_of_value items ''budget'') (\<lambda>budget.
     bind_result (required_text items ''counter_snapshot'') (\<lambda>counter.
     bind_result (required_text items ''fingerprint'') (\<lambda>fp.
     bind_result
       (checked (mk_progress_block
          \<lparr>pb_binding = OpaqueBinding b, pb_head = OpaqueRef h, pb_continuation = c, pb_reason = reason,
           pb_budget = budget, pb_counter_snapshot = OpaqueSnapshot counter,
           pb_fingerprint = OpaqueFingerprint fp\<rparr>))
       (\<lambda>p. Inr (ProgressBlock p)))))))))"

definition block_of :: "json option \<Rightarrow> string + block_context option" where
  "block_of section =
     (case section of
        None \<Rightarrow> Inr None
      | Some (JObj items) \<Rightarrow>
          (case Option.bind (text_of items ''kind'') block_kind_of_value of
             None \<Rightarrow> Inl ''block kind''
           | Some BK_RECORD_INTEGRITY \<Rightarrow>
               bind_result (violations_of (get items ''violations'')) (\<lambda>vs.
               bind_result (checked (mk_integrity_block vs)) (\<lambda>b. Inr (Some (RecordIntegrityBlock b))))
           | Some BK_PROGRESS \<Rightarrow> bind_result (progress_block_of items) (\<lambda>b. Inr (Some b))
           | Some BK_EXTERNAL_DEPENDENCY \<Rightarrow>
               bind_result (required_text items ''binding'') (\<lambda>b.
               bind_result (required_text items ''head'') (\<lambda>h.
               bind_result (continuation_of items) (\<lambda>c.
               bind_result (block_evidence_of (get items ''evidence'')) (\<lambda>e.
                 Inr (Some (ExternalDependencyBlock
                   \<lparr>xb_binding = OpaqueBinding b, xb_head = OpaqueRef h, xb_continuation = c, xb_evidence = e\<rparr>)))))))
      | Some _ \<Rightarrow> Inl ''block'')"

definition read_machine_state :: "payload \<Rightarrow> string + machine_state" where
  "read_machine_state payload =
     bind_result (section_of payload ''state'') (\<lambda>section.
       case section of
         None \<Rightarrow> Inl ''state missing''
       | Some items \<Rightarrow>
           bind_result (required_member state_of_value items ''state'') (\<lambda>s.
           bind_result (optional_record items ''pending_record'') (\<lambda>pending.
           bind_result (procedure_of (get items ''procedure'')) (\<lambda>procedure.
           bind_result (optional_member awaiting_of_value (text_of items ''awaiting'') ''awaiting'') (\<lambda>awaiting.
           bind_result (violations_of (get items ''deferred_integrity'')) (\<lambda>deferred.
           bind_result (optional_member state_of_value (text_of items ''return_to'') ''return_to'') (\<lambda>return_to.
           bind_result (optional_member state_of_value (text_of items ''recovery_to'') ''recovery_to'') (\<lambda>recovery_to.
           bind_result (block_of (get items ''block'')) (\<lambda>block.
             checked (mk_machine_state
               \<lparr>ms_state = s, ms_procedure = procedure, ms_awaiting = awaiting, ms_pending_record = pending,
                ms_deferred_integrity = deferred, ms_return_to = return_to, ms_recovery_to = recovery_to,
                ms_block = block\<rparr>))))))))))"

section \<open>The state of the machine: writing\<close>

definition pending_record_entry :: "pending_record \<Rightarrow> json" where
  "pending_record_entry r =
     JObj [(''kind'', JStr (kind_value (pr_kind r))), (''binding'', JStr (binding_value (pr_binding r))),
           (''source_state'', JStr (state_value (pr_source_state r)))]"

definition violation_entries :: "integrity_evidence_ref list \<Rightarrow> json" where
  "violation_entries vs =
     JArr (map (\<lambda>v. JObj [(''binding'', JStr (binding_value (ie_binding v))),
                        (''descriptor'', JStr (ref_value (ie_descriptor v))), (''head'', JStr (ref_value (ie_head v)))]) vs)"

definition continuation_id :: "blocked_continuation \<Rightarrow> string option" where
  "continuation_id c = map_option fst (find (\<lambda>(key, known). known = c) BLOCKED_CONTINUATIONS)"

fun procedure_entry :: "procedure \<Rightarrow> json option" where
  "procedure_entry NormalProcedure = None"
| "procedure_entry (CancellingProcedure a) =
     Some (JObj [(''kind'', JStr (procedure_kind_value PK_CANCELLING)), (''attempt_binding'', JStr (binding_value a))])"
| "procedure_entry (HaltingForBlockProcedure b a) =
     Some (JObj [(''kind'', JStr (procedure_kind_value PK_HALTING_FOR_BLOCK)),
                 (''attempt_binding'', JStr (binding_value a)), (''violations'', violation_entries (ri_violations b))])"
| "procedure_entry (RecordingIncidentProcedure t audit) =
     Some (JObj (set_optional ''audit'' (map_option pending_record_entry audit)
       [(''kind'', JStr (procedure_kind_value PK_RECORDING_INCIDENT)), (''target'', JStr (incident_target_value t))]))"

fun block_entry :: "block_context \<Rightarrow> json option" where
  "block_entry (RecordIntegrityBlock b) =
     Some (JObj [(''kind'', JStr (block_kind_value BK_RECORD_INTEGRITY)),
                 (''violations'', violation_entries (ri_violations b))])"
| "block_entry (ProgressBlock b) =
     (case continuation_id (pb_continuation b) of
        None \<Rightarrow> None
      | Some key \<Rightarrow>
          Some (JObj [(''binding'', JStr (binding_value (pb_binding b))), (''head'', JStr (ref_value (pb_head b))),
            (''continuation'', JStr key), (''kind'', JStr (block_kind_value BK_PROGRESS)),
            (''reason'', JStr (progress_value (pb_reason b))), (''budget'', JStr (budget_value (pb_budget b))),
            (''counter_snapshot'', JStr (snapshot_value (pb_counter_snapshot b))),
            (''fingerprint'', JStr (fingerprint_value (pb_fingerprint b)))]))"
| "block_entry (ExternalDependencyBlock b) =
     (case continuation_id (xb_continuation b) of
        None \<Rightarrow> None
      | Some key \<Rightarrow>
          Some (JObj [(''binding'', JStr (binding_value (xb_binding b))), (''head'', JStr (ref_value (xb_head b))),
            (''continuation'', JStr key), (''kind'', JStr (block_kind_value BK_EXTERNAL_DEPENDENCY)),
            (''evidence'', JObj [(''kind'', JStr (kind_value (re_kind (xb_evidence b)))),
               (''binding'', JStr (binding_value (re_binding (xb_evidence b)))),
               (''ref'', JStr (ref_value (re_ref (xb_evidence b))))])]))"

definition state_field_names :: "string list" where
  "state_field_names =
     [''awaiting'', ''return_to'', ''recovery_to'', ''pending_record'', ''procedure'', ''block'', ''deferred_integrity'']"

definition state_entries :: "machine_state \<Rightarrow> payload \<Rightarrow> payload" where
  "state_entries ms items =
     set_optional ''deferred_integrity''
       (if ms_deferred_integrity ms = [] then None else Some (violation_entries (ms_deferred_integrity ms)))
     (set_optional ''block'' (Option.bind (ms_block ms) block_entry)
     (set_optional ''procedure'' (procedure_entry (ms_procedure ms))
     (set_optional ''pending_record'' (map_option pending_record_entry (ms_pending_record ms))
     (set_optional ''recovery_to'' (map_option (JStr \<circ> state_value) (ms_recovery_to ms))
     (set_optional ''return_to'' (map_option (JStr \<circ> state_value) (ms_return_to ms))
     (set_optional ''awaiting'' (map_option (JStr \<circ> awaiting_value) (ms_awaiting ms))
     (AList.update ''state'' (JStr (state_value (ms_state ms)))
     (fold AList.delete state_field_names items))))))))"

definition with_machine_state :: "payload \<Rightarrow> machine_state \<Rightarrow> payload" where
  "with_machine_state payload ms =
     AList.update ''state'' (JObj (state_entries ms (object_at payload ''state''))) payload"

definition with_verified_machine_state :: "payload \<Rightarrow> machine_state \<Rightarrow> string + payload" where
  "with_verified_machine_state payload ms =
     (let updated = with_machine_state payload ms in
      bind_result (read_machine_state updated) (\<lambda>restored.
        if restored \<noteq> ms then Inl ''not restored'' else Inr updated))"

end
