(* ===== verification/Checkpoint_Laws.thy ===== *)
theory Checkpoint_Laws
  imports Checkpoint_View Machine_Safety
begin

text \<open>
  What is written into the section of the machine state is read back: for every state of the invariant whose
  opaque values are not empty.
\<close>

section \<open>The texts of a state\<close>

definition violation_texts :: "integrity_evidence_ref list \<Rightarrow> string list" where
  "violation_texts vs =
     concat (map (\<lambda>v. [binding_value (ie_binding v), ref_value (ie_descriptor v), ref_value (ie_head v)]) vs)"

fun procedure_texts :: "procedure \<Rightarrow> string list" where
  "procedure_texts NormalProcedure = []"
| "procedure_texts (CancellingProcedure a) = [binding_value a]"
| "procedure_texts (HaltingForBlockProcedure b a) = binding_value a # violation_texts (ri_violations b)"
| "procedure_texts (RecordingIncidentProcedure t audit) =
     (case audit of None \<Rightarrow> [] | Some r \<Rightarrow> [binding_value (pr_binding r)])"

fun block_texts :: "block_context \<Rightarrow> string list" where
  "block_texts (RecordIntegrityBlock b) = violation_texts (ri_violations b)"
| "block_texts (ProgressBlock b) =
     [binding_value (pb_binding b), ref_value (pb_head b), snapshot_value (pb_counter_snapshot b),
      fingerprint_value (pb_fingerprint b)]"
| "block_texts (ExternalDependencyBlock b) =
     [binding_value (xb_binding b), ref_value (xb_head b), binding_value (re_binding (xb_evidence b)),
      ref_value (re_ref (xb_evidence b))]"

definition state_texts :: "machine_state \<Rightarrow> string list" where
  "state_texts ms =
     (case ms_pending_record ms of None \<Rightarrow> [] | Some r \<Rightarrow> [binding_value (pr_binding r)]) @
     procedure_texts (ms_procedure ms) @ violation_texts (ms_deferred_integrity ms) @
     (case ms_block ms of None \<Rightarrow> [] | Some b \<Rightarrow> block_texts b)"

section \<open>Dictionaries\<close>

lemma map_of_set_optional:
  "map_of (set_optional name v items) =
     (case v of None \<Rightarrow> map_of items | Some w \<Rightarrow> (map_of items)(name \<mapsto> w))"
  by (auto simp: set_optional_def update_conv' split: option.split)

lemma required_text_Inr: "s \<noteq> [] \<Longrightarrow> map_of items name = Some (JStr s) \<Longrightarrow> required_text items name = Inr s"
  by (simp add: required_text_def text_of_def)

lemma state_value_nonempty [simp]: "state_value x \<noteq> []"
  by (cases x) simp_all

lemma awaiting_value_nonempty [simp]: "awaiting_value x \<noteq> []"
  by (cases x) simp_all

lemma progress_value_nonempty [simp]: "progress_value x \<noteq> []"
  by (cases x) simp_all

lemma budget_value_nonempty [simp]: "budget_value x \<noteq> []"
  by (cases x) simp_all

lemma incident_target_value_nonempty [simp]: "incident_target_value x \<noteq> []"
  by (cases x) simp_all

lemma procedure_kind_value_nonempty [simp]: "procedure_kind_value x \<noteq> []"
  by (cases x) simp_all

lemma block_kind_value_nonempty [simp]: "block_kind_value x \<noteq> []"
  by (cases x) simp_all

lemma kind_value_nonempty [simp]: "kind_value k \<noteq> []"
  by (cases k) simp_all

lemma required_member_Inr:
  "map_of items name = Some (JStr s) \<Longrightarrow> s \<noteq> [] \<Longrightarrow> member s = Some x \<Longrightarrow> required_member member items name = Inr x"
  by (simp add: required_member_def required_text_Inr)

text \<open>Values stay as they are written, for the laws of the vocabularies.\<close>

declare procedure_kind_value.simps [simp del] block_kind_value.simps [simp del] state_value.simps [simp del]
  awaiting_value.simps [simp del] kind_value.simps [simp del] progress_value.simps [simp del]
  budget_value.simps [simp del] incident_target_value.simps [simp del]

section \<open>The parts of a state\<close>

lemma violations_read:
  "[] \<notin> set (violation_texts vs) \<Longrightarrow> violations_of (Some (violation_entries vs)) = Inr vs"
proof -
  have one: "binding_value (ie_binding v) \<noteq> [] \<Longrightarrow> ref_value (ie_descriptor v) \<noteq> [] \<Longrightarrow> ref_value (ie_head v) \<noteq> [] \<Longrightarrow>
    violation_of (JObj [(''binding'', JStr (binding_value (ie_binding v))),
      (''descriptor'', JStr (ref_value (ie_descriptor v))), (''head'', JStr (ref_value (ie_head v)))]) = Inr v" for v
    by (simp add: violation_of_def required_text_def text_of_def)
  show "[] \<notin> set (violation_texts vs) \<Longrightarrow> ?thesis"
    unfolding violations_of_def violation_entries_def
    by (induction vs) (auto simp: violation_texts_def one)
qed

lemma pending_record_read:
  assumes "binding_value (pr_binding r) \<noteq> []"
  shows "\<exists>items. pending_record_entry r = JObj items \<and> pending_record_of items = Inr r"
  using assms by (simp add: pending_record_entry_def pending_record_of_def required_member_Inr required_text_Inr)

lemma optional_record_read:
  assumes "map_of items name = map_option pending_record_entry r"
    and "\<forall>x. r = Some x \<longrightarrow> binding_value (pr_binding x) \<noteq> []"
  shows "optional_record items name = Inr r"
proof (cases r)
  case (Some x)
  then obtain entry where "pending_record_entry x = JObj entry" "pending_record_of entry = Inr x"
    using pending_record_read [of x] assms(2) by blast
  then show ?thesis using assms(1) Some by (simp add: optional_record_def section_of_def get_def)
qed (use assms(1) in \<open>simp add: optional_record_def section_of_def get_def\<close>)

lemma procedure_read:
  assumes "procedure_check p = Inr ()" and "[] \<notin> set (procedure_texts p)"
  shows "procedure_of (procedure_entry p) = Inr p"
proof (cases p)
  case (HaltingForBlockProcedure b a)
  then have "mk_integrity_block (ri_violations b) = Inr b" "mk_halting b a = Inr p"
    using assms(1) by (cases b, auto simp: guard_all_Inr mk_integrity_block_Inr mk_halting_Inr)
  moreover have "violations_of (Some (violation_entries (ri_violations b))) = Inr (ri_violations b)"
    using assms(2) HaltingForBlockProcedure by (intro violations_read) auto
  moreover have "binding_value a \<noteq> []" using assms(2) HaltingForBlockProcedure by auto
  moreover have "\<exists>es. violation_entries (ri_violations b) = JArr es" by (simp add: violation_entries_def)
  ultimately show ?thesis
    using HaltingForBlockProcedure
    by (auto simp: procedure_of_def text_of_def required_text_def checked_def get_def)
next
  case (RecordingIncidentProcedure t audit)
  let ?items = "set_optional ''audit'' (map_option pending_record_entry audit)
       [(''kind'', JStr (procedure_kind_value PK_RECORDING_INCIDENT)), (''target'', JStr (incident_target_value t))]"
  have lookups: "map_of ?items ''kind'' = Some (JStr (procedure_kind_value PK_RECORDING_INCIDENT))"
    "map_of ?items ''target'' = Some (JStr (incident_target_value t))"
    "map_of ?items ''audit'' = map_option pending_record_entry audit"
    by (auto simp: map_of_set_optional split: option.split)
  have "optional_record ?items ''audit'' = Inr audit"
    by (rule optional_record_read [OF lookups(3)])
       (use assms(2) RecordingIncidentProcedure in \<open>auto split: option.splits\<close>)
  then show ?thesis
    using lookups(1,2) RecordingIncidentProcedure
    by (simp add: procedure_of_def required_member_Inr text_of_def)
qed (use assms in \<open>auto simp: procedure_of_def text_of_def required_text_def\<close>)

lemma continuation_id_lookup:
  "c \<in> registry_continuations \<Longrightarrow> \<exists>key. continuation_id c = Some key \<and> key \<noteq> [] \<and> map_of BLOCKED_CONTINUATIONS key = Some c"
  by (auto simp: registry_continuations_def BLOCKED_CONTINUATIONS_def continuation_id_def)

lemma block_read:
  assumes "block_check b = Inr ()" and "[] \<notin> set (block_texts b)"
    and "\<forall>c. block_continuation b = Some c \<longrightarrow> c \<in> registry_continuations"
  shows "\<exists>entry. block_entry b = Some (JObj entry) \<and> block_of (Some (JObj entry)) = Inr (Some b)"
proof (cases b)
  case (RecordIntegrityBlock r)
  then have "mk_integrity_block (ri_violations r) = Inr r"
    using assms(1) by (cases r) (auto simp: mk_integrity_block_Inr)
  moreover have "violations_of (Some (violation_entries (ri_violations r))) = Inr (ri_violations r)"
    using assms(2) RecordIntegrityBlock by (intro violations_read) auto
  moreover have "\<exists>es. violation_entries (ri_violations r) = JArr es" by (simp add: violation_entries_def)
  ultimately show ?thesis
    using RecordIntegrityBlock by (auto simp: block_of_def text_of_def checked_def get_def)
next
  case (ProgressBlock p)
  moreover have "mk_progress_block p = Inr p"
    using assms(1) ProgressBlock by (simp add: mk_progress_block_Inr progress_block_check_def)
  moreover obtain key where "continuation_id (pb_continuation p) = Some key" "key \<noteq> []"
    "map_of BLOCKED_CONTINUATIONS key = Some (pb_continuation p)"
    using continuation_id_lookup [of "pb_continuation p"] assms(3) ProgressBlock by auto
  moreover have "binding_value (pb_binding p) \<noteq> []" "ref_value (pb_head p) \<noteq> []"
    "snapshot_value (pb_counter_snapshot p) \<noteq> []" "fingerprint_value (pb_fingerprint p) \<noteq> []"
    using assms(2) ProgressBlock by auto
  ultimately show ?thesis
    by (cases p) (simp add: block_of_def text_of_def required_text_def checked_def progress_block_of_def
        continuation_of_def required_member_def)
next
  case (ExternalDependencyBlock x)
  moreover obtain key where "continuation_id (xb_continuation x) = Some key" "key \<noteq> []"
    "map_of BLOCKED_CONTINUATIONS key = Some (xb_continuation x)"
    using continuation_id_lookup [of "xb_continuation x"] assms(3) ExternalDependencyBlock by auto
  moreover have "binding_value (xb_binding x) \<noteq> []" "ref_value (xb_head x) \<noteq> []"
    "binding_value (re_binding (xb_evidence x)) \<noteq> []" "ref_value (re_ref (xb_evidence x)) \<noteq> []"
    using assms(2) ExternalDependencyBlock by auto
  ultimately show ?thesis
    by (cases x) (simp add: block_of_def text_of_def required_text_def checked_def block_evidence_of_def get_def
        continuation_of_def required_member_def)
qed

section \<open>The whole state\<close>

lemma state_names: "''state'' \<notin> set state_field_names" "distinct state_field_names"
  by (simp_all add: state_field_names_def)

lemma map_of_deleted:
  "map_of (fold AList.delete ks items) k = (if k \<in> set ks then None else map_of items k)"
proof (induction ks arbitrary: items)
  case (Cons n ks)
  then show ?case by (simp add: delete_conv')
qed simp

lemma state_entries_lookup:
  fixes ms items
  defines "e \<equiv> map_of (state_entries ms items)"
  shows "e ''state'' = Some (JStr (state_value (ms_state ms)))"
    and "e ''awaiting'' = map_option (JStr \<circ> awaiting_value) (ms_awaiting ms)"
    and "e ''return_to'' = map_option (JStr \<circ> state_value) (ms_return_to ms)"
    and "e ''recovery_to'' = map_option (JStr \<circ> state_value) (ms_recovery_to ms)"
    and "e ''pending_record'' = map_option pending_record_entry (ms_pending_record ms)"
    and "e ''procedure'' = procedure_entry (ms_procedure ms)"
    and "e ''block'' = Option.bind (ms_block ms) block_entry"
    and "e ''deferred_integrity'' =
      (if ms_deferred_integrity ms = [] then None else Some (violation_entries (ms_deferred_integrity ms)))"
    and "k \<notin> insert ''state'' (set state_field_names) \<Longrightarrow> e k = map_of items k"
  unfolding e_def state_entries_def map_of_set_optional update_conv' map_of_deleted
  by (auto simp: map_of_deleted state_field_names_def split: option.split)

lemma optional_member_read:
  "(\<And>x. member (val x) = Some x) \<Longrightarrow> (\<And>x. val x \<noteq> []) \<Longrightarrow>
   map_of items name = map_option (JStr \<circ> val) v \<Longrightarrow>
   optional_member member (text_of items name) reason = Inr v"
  by (cases v) (simp_all add: optional_member_def text_of_def)

lemma machine_state_read:
  assumes inv: "machine_inv ms" and texts: "[] \<notin> set (state_texts ms)"
  shows "read_machine_state (with_machine_state payload ms) = Inr ms"
proof -
  let ?items = "state_entries ms (object_at payload ''state'')"
  note lookup = state_entries_lookup [where ms = ms and items = "object_at payload ''state''"]
  have ok: "constructible ms" using inv by (simp add: machine_inv_def)
  have "section_of (with_machine_state payload ms) ''state'' = Inr (Some ?items)"
    by (simp add: section_of_def get_def with_machine_state_def update_conv')
  moreover have "required_member state_of_value ?items ''state'' = Inr (ms_state ms)"
    by (rule required_member_Inr [OF lookup(1)]) simp_all
  moreover have "optional_record ?items ''pending_record'' = Inr (ms_pending_record ms)"
    by (rule optional_record_read [OF lookup(5)]) (use texts in \<open>auto simp: state_texts_def\<close>)
  moreover have "procedure_of (get ?items ''procedure'') = Inr (ms_procedure ms)"
  proof -
    have "get ?items ''procedure'' = procedure_entry (ms_procedure ms)"
      using lookup(6) by (cases "ms_procedure ms") (simp_all add: get_def)
    then show ?thesis
      using procedure_read [of "ms_procedure ms"] constructible_checks(1) [OF ok] texts by (simp add: state_texts_def)
  qed
  moreover have "optional_member awaiting_of_value (text_of ?items ''awaiting'') ''awaiting'' = Inr (ms_awaiting ms)"
    by (rule optional_member_read [OF _ _ lookup(2)]) simp_all
  moreover have "violations_of (get ?items ''deferred_integrity'') = Inr (ms_deferred_integrity ms)"
    using lookup(8) violations_read [of "ms_deferred_integrity ms"] texts
    by (auto simp: state_texts_def get_def violations_of_def violation_entries_def)
  moreover have "optional_member state_of_value (text_of ?items ''return_to'') ''return_to'' = Inr (ms_return_to ms)"
    by (rule optional_member_read [OF _ _ lookup(3)]) simp_all
  moreover have "optional_member state_of_value (text_of ?items ''recovery_to'') ''recovery_to'' = Inr (ms_recovery_to ms)"
    by (rule optional_member_read [OF _ _ lookup(4)]) simp_all
  moreover have "block_of (get ?items ''block'') = Inr (ms_block ms)"
  proof (cases "ms_block ms")
    case (Some b)
    have "\<forall>c. block_continuation b = Some c \<longrightarrow> c \<in> registry_continuations"
      using inv Some by (auto simp: machine_inv_def split: option.splits)
    moreover have "[] \<notin> set (block_texts b)" using texts Some by (simp add: state_texts_def)
    ultimately obtain entry where "block_entry b = Some (JObj entry)" "block_of (Some (JObj entry)) = Inr (Some b)"
      using block_read [of b] constructible_block_check [OF ok Some] by blast
    then show ?thesis using lookup(7) Some by (simp add: get_def)
  qed (use lookup(7) in \<open>simp add: get_def block_of_def\<close>)
  moreover have "mk_machine_state
      \<lparr>ms_state = ms_state ms, ms_procedure = ms_procedure ms, ms_awaiting = ms_awaiting ms,
       ms_pending_record = ms_pending_record ms, ms_deferred_integrity = ms_deferred_integrity ms,
       ms_return_to = ms_return_to ms, ms_recovery_to = ms_recovery_to ms, ms_block = ms_block ms\<rparr> = Inr ms"
    using ok by (cases ms) (simp add: mk_machine_state_Inr constructible_def)
  ultimately show ?thesis by (simp add: read_machine_state_def checked_def)
qed

end
