(* ===== verification/Schema_Laws.thy ===== *)
theory Schema_Laws
  imports Projection_Build Checkpoint_Laws Json_Roundtrip
begin

text \<open>
  Laws of the validator (what it accepts, which paths it reports, what a repair adds), of the migration of
  checkpoints, and the types of a saved machine state. A checkpoint of version 1 serves as the example.
\<close>

section \<open>Acceptance\<close>

lemma parsed_object:
  "parse_json_object py raw n = Inr data \<longleftrightarrow>
     length raw \<le> n \<and> utf8_ok raw \<and> parse_json py raw = Inr (JObj data)"
  by (auto simp: parse_json_object_def refuse_def split: sum.splits json.splits)

lemma pipeline_Accepted:
  "pipeline py d raw repair = Accepted data version \<longleftrightarrow>
     (\<exists>parsed. parse_json_object py (if repair then strip_bom raw else raw) (sd_max_input_bytes d) = Inr parsed \<and>
        validate_parsed d parsed repair = Accepted data version)"
  by (auto simp: pipeline_def parse_json_object_def refuse_def split: sum.splits if_splits json.splits)

lemma validate_accepts_typed:
  "validate py d raw = Accepted data version \<longleftrightarrow>
     length raw \<le> sd_max_input_bytes d \<and> utf8_ok raw \<and> parse_json py raw = Inr (JObj data) \<and>
     version = version_of data \<and> (\<exists>spec. spec_for_payload d data = Some spec \<and> valid_version spec data)"
proof -
  have "validate py d raw = Accepted data version \<longleftrightarrow>
      (\<exists>parsed. parse_json_object py raw (sd_max_input_bytes d) = Inr parsed \<and>
         validate_object d parsed = Accepted data version)"
    by (simp add: validate_def pipeline_Accepted validate_object_def)
  then show ?thesis by (auto simp: parsed_object validate_object_Accepted)
qed

section \<open>The registry\<close>

text \<open>
  \<open>schema/__init__.py\<close>: the definitions of the package, and \<open>build_registry\<close>, which raises when a kind is repeated. As in
  \<open>Schema_Host\<close>, \<open>str.isprintable\<close> on arbitrary text is an argument.
\<close>

definition DEFINITIONS :: "(string \<Rightarrow> bool) \<Rightarrow> schema_definition list" where
  "DEFINITIONS printable_text =
     [REVIEW_RESULT, FIX_RESULT, CLARIFICATION_QUESTION, CLARIFICATION_ANSWER, DECISION_REQUEST,
      DECISION_VERDICT, DECISION_BRIEF, DECISION_RECORD, USER_DECISION, FOLLOWUP_CANDIDATES,
      FOLLOWUP_EVALUATION, FOLLOWUP_PERMISSION, FINAL_REPORT, MERGE_INTENT, MERGE_APPROVAL,
      MERGE_OUTCOME_SCHEMA, GATE_QUESTION, GATE_ANSWER, GATE_CHANGES, HOST_ACTION, SUBMIT, HOST_FAILURE,
      USER_REQUEST, USER_SUBMIT, PERMISSION_RESUME, SESSION_CONFIG, AGENT_SELECTION printable_text,
      PERMISSION_BLOCK, CI_TIMEOUT, CI_CODE_FAILURE, EXTERNAL_DEPENDENCY, BLOCK_INTERVENTION,
      INTEGRITY_INCIDENT, USER_CANCEL, CHECKPOINT, RUN_LOCK]"

fun build_registry_from ::
  "(string \<rightharpoonup> schema_definition) \<Rightarrow> schema_definition list \<Rightarrow> string + (string \<rightharpoonup> schema_definition)" where
  "build_registry_from registry [] = Inr registry"
| "build_registry_from registry (d # ds) =
     (if registry (sd_kind d) \<noteq> None then Inl (sd_kind d)
      else build_registry_from (registry(sd_kind d \<mapsto> d)) ds)"

definition build_registry :: "schema_definition list \<Rightarrow> string + (string \<rightharpoonup> schema_definition)" where
  "build_registry ds = build_registry_from Map.empty ds"

lemma build_registry_from_distinct:
  "distinct (map sd_kind ds) \<Longrightarrow> \<forall>d \<in> set ds. registry (sd_kind d) = None \<Longrightarrow>
   \<exists>r. build_registry_from registry ds = Inr r \<and> (\<forall>d \<in> set ds. r (sd_kind d) = Some d) \<and>
     (\<forall>k. k \<notin> sd_kind ` set ds \<longrightarrow> r k = registry k)"
proof (induction ds arbitrary: registry)
  case (Cons d ds)
  have "sd_kind x \<noteq> sd_kind d" if "x \<in> set ds" for x
    using Cons.prems(1) that by (metis distinct.simps(2) image_eqI image_set list.simps(9))
  then have "\<forall>x \<in> set ds. (registry(sd_kind d \<mapsto> d)) (sd_kind x) = None" using Cons.prems(2) by simp
  from Cons.IH [where registry = "registry(sd_kind d \<mapsto> d)", OF _ this] Cons.prems(1)
  obtain r where "build_registry_from (registry(sd_kind d \<mapsto> d)) ds = Inr r" "\<forall>x \<in> set ds. r (sd_kind x) = Some x"
    "\<forall>k. k \<notin> sd_kind ` set ds \<longrightarrow> r k = (registry(sd_kind d \<mapsto> d)) k"
    by (metis distinct.simps(2) list.simps(9))
  then show ?case using Cons.prems by (intro exI [of _ r]) auto
qed simp

lemmas schema_definition_defs =   single_version_def HOST_ACTION_def SUBMIT_def AGENT_SELECTION_def
  FINAL_REPORT_def CHECKPOINT_def REVIEW_RESULT_def FIX_RESULT_def CLARIFICATION_QUESTION_def
  CLARIFICATION_ANSWER_def DECISION_REQUEST_def DECISION_VERDICT_def DECISION_BRIEF_def DECISION_RECORD_def
  USER_DECISION_def FOLLOWUP_CANDIDATES_def FOLLOWUP_EVALUATION_def FOLLOWUP_PERMISSION_def MERGE_INTENT_def
  MERGE_APPROVAL_def MERGE_OUTCOME_SCHEMA_def GATE_QUESTION_def GATE_ANSWER_def GATE_CHANGES_def
  HOST_FAILURE_def USER_REQUEST_def USER_SUBMIT_def PERMISSION_RESUME_def SESSION_CONFIG_def
  PERMISSION_BLOCK_def CI_TIMEOUT_def CI_CODE_FAILURE_def EXTERNAL_DEPENDENCY_def BLOCK_INTERVENTION_def
  INTEGRITY_INCIDENT_def USER_CANCEL_def RUN_LOCK_def

lemma definition_kinds: "distinct (map sd_kind (DEFINITIONS printable_text))"
  by (simp add: DEFINITIONS_def schema_definition_defs)

text \<open>The package registers every definition under its kind, and nothing else.\<close>

lemma registry_complete:
  "\<exists>r. build_registry (DEFINITIONS printable_text) = Inr r \<and>
     (\<forall>d. r (sd_kind d) = Some d \<longleftrightarrow> d \<in> set (DEFINITIONS printable_text))"
proof -
  let ?ds = "DEFINITIONS printable_text"
  have "\<forall>d \<in> set ?ds. Map.empty (sd_kind d) = (None :: schema_definition option)" by blast
  from build_registry_from_distinct [OF definition_kinds this]
  obtain r where r: "build_registry_from Map.empty ?ds = Inr r" "\<forall>d \<in> set ?ds. r (sd_kind d) = Some d"
    "\<forall>k. k \<notin> sd_kind ` set ?ds \<longrightarrow> r k = None"
    by blast
  have "r (sd_kind d) = Some d \<longleftrightarrow> d \<in> set ?ds" for d
  proof
    assume d: "r (sd_kind d) = Some d"
    then have "sd_kind d \<in> sd_kind ` set ?ds" using r(3) by (metis option.distinct(1))
    then obtain x where "x \<in> set ?ds" "sd_kind d = sd_kind x" by blast
    then show "d \<in> set ?ds" using r(2) d by (metis option.inject)
  qed (use r(2) in blast)
  then show ?thesis using r(1) unfolding build_registry_def by blast
qed

section \<open>Errors\<close>

lemma sanitize_plain: "sanitize_path ''$'' = ''$''" "sanitize_path ''schema_version'' = ''schema_version''"
  by code_simp+

text \<open>
  The paths that may be reported for a definition, whatever the payload is: those of its field tables, and for a host action those
  of the tables of its payloads, below \<open>payload\<close>.
\<close>

definition reportable :: "schema_definition \<Rightarrow> string \<Rightarrow> bool" where
  "reportable d p \<longleftrightarrow>
     p = ''$'' \<or> p = ''schema_version'' \<or> (\<exists>(v, spec) \<in> set (sd_versions d). table_path (vs_fields spec) p) \<or>
     d = HOST_ACTION \<and> (\<exists>(kind, spec) \<in> set HOST_ACTION_PAYLOADS. \<exists>q. table_path (vs_fields spec) q \<and>
       p = ''payload.'' @ sanitize_path q)"

text \<open>The rules across fields report such paths only, and no field has the name of the root.\<close>

definition public_rules :: "schema_definition \<Rightarrow> bool" where
  "public_rules d \<longleftrightarrow>
     (\<forall>(v, spec) \<in> set (sd_versions d). ''$'' \<notin> fst ` set (vs_fields spec) \<and>
        (\<forall>rule \<in> set (vs_rules spec). \<forall>data. \<forall>e \<in> set (rule data). reportable d (pe_path e)))"

lemma parse_refusal:
  assumes "parse_json_object py raw n = Inl (Rejected stage errors)" and "e \<in> set errors"
  shows "pe_path e = ''$''"
  using assms by (auto simp: parse_json_object_def refuse_def split: if_splits sum.splits json.splits)

lemma parsed_refusal:
  assumes r: "validate_parsed d data repair = Rejected stage errors" and e: "e \<in> set errors"
    and names: "public_rules d"
  shows "\<exists>p. reportable d p \<and> pe_path e = sanitize_path p"
proof -
  define version where "version = (case map_of data ''schema_version'' of Some (JInt v) \<Rightarrow> Some v | _ \<Rightarrow> None)"
  define v where "v = (case version of Some v \<Rightarrow> v | None \<Rightarrow> current_version d)"
  consider "errors = [public_error ''unknown_version'' ''schema_version'']"
    | spec data' where "spec_at d v = Some spec" "errors = structural_errors spec data'"
    using r unfolding validate_parsed_def Let_def version_def [symmetric] v_def [symmetric]
    by (auto simp: refuse_def split: option.splits if_splits)
  then show ?thesis
  proof cases
    case 1
    then show ?thesis using e sanitize_plain(2) by (intro exI [of _ "''schema_version''"]) (simp add: reportable_def)
  next
    case 2
    then have spec: "(v, spec) \<in> set (sd_versions d)" by (simp add: spec_at_def map_of_SomeD)
    have "''$'' \<notin> fst ` set (vs_fields spec)" using names spec unfolding public_rules_def by blast
    with e 2(2) obtain p where p: "pe_path e = sanitize_path p"
      "table_path (vs_fields spec) p \<or> (\<exists>rule \<in> set (vs_rules spec). p \<in> pe_path ` set (rule data'))"
      using public_error_path by blast
    then have "reportable d p" using spec names unfolding reportable_def public_rules_def by blast
    then show ?thesis using p(1) by blast
  qed
qed

lemma pipeline_refusal:
  assumes r: "pipeline py d raw repair = Rejected stage errors" and e: "e \<in> set errors"
    and names: "public_rules d"
  shows "\<exists>p. reportable d p \<and> pe_path e = sanitize_path p"
proof (cases "parse_json_object py (if repair then strip_bom raw else raw) (sd_max_input_bytes d)")
  case (Inl r')
  then have "pe_path e = ''$''" using r e parse_refusal unfolding pipeline_def by (auto split: if_splits)
  then show ?thesis using sanitize_plain(1) by (intro exI [of _ "''$''"]) (simp add: reportable_def)
next
  case (Inr data)
  then show ?thesis using r parsed_refusal [OF _ e names] by (simp add: pipeline_def)
qed

lemma migration_refusal:
  "migrate_from d version data = Inl (Rejected stage errors) \<Longrightarrow> e \<in> set errors \<Longrightarrow> pe_path e = ''schema_version''"
proof (induction d version data rule: migrate_from.induct)
  case (1 d version data)
  from "1.prems" show ?case
    by (subst (asm) migrate_from.simps) (auto simp: refuse_def split: if_splits option.splits dest: "1.IH")
qed

lemma load_refusal:
  assumes r: "load_with_migration py d raw = Rejected stage errors" and e: "e \<in> set errors"
    and names: "public_rules d"
  shows "\<exists>p. reportable d p \<and> pe_path e = sanitize_path p"
proof (cases "validate py d raw")
  case (Rejected stage' errors')
  then show ?thesis
    using r e pipeline_refusal [OF _ _ names, of py raw False] by (auto simp: load_with_migration_def validate_def)
next
  case (Accepted data version)
  then show ?thesis
  proof (cases version)
    case None
    then have "pe_path e = ''schema_version''" using Accepted r e by (auto simp: load_with_migration_def refuse_def)
    then show ?thesis using sanitize_plain(2) by (intro exI [of _ "''schema_version''"]) (simp add: reportable_def)
  next
    case (Some v)
    show ?thesis
    proof (cases "migrate_from d v data")
      case (Inl r')
      then have "pe_path e = ''schema_version''"
        using Accepted Some r e migration_refusal by (auto simp: load_with_migration_def)
      then show ?thesis using sanitize_plain(2) by (intro exI [of _ "''schema_version''"]) (simp add: reportable_def)
    next
      case (Inr data')
      then obtain stage' where "validate_object d data' = Rejected stage' errors"
        using Accepted Some r by (auto simp: load_with_migration_def split: validation_result.splits)
      then show ?thesis using parsed_refusal [OF _ e names] unfolding validate_object_def by blast
    qed
  qed
qed (use r in \<open>simp add: load_with_migration_def\<close>)

section \<open>The rules of the package\<close>

lemma public_rulesI:
  "(\<And>v spec. (v, spec) \<in> set (sd_versions d) \<Longrightarrow> ''$'' \<notin> fst ` set (vs_fields spec)) \<Longrightarrow>
   (\<And>v spec rule data e. (v, spec) \<in> set (sd_versions d) \<Longrightarrow> rule \<in> set (vs_rules spec) \<Longrightarrow> e \<in> set (rule data) \<Longrightarrow>
      reportable d (pe_path e)) \<Longrightarrow> public_rules d"
  by (auto simp: public_rules_def)

lemma top_path: "(n, f) \<in> set table \<Longrightarrow> table_path table n"
  using field_path.here [of f] by (fastforce simp: table_path_def)

lemma inner_path: "(n, f) \<in> set table \<Longrightarrow> field_path f q \<Longrightarrow> table_path table (n @ q)"
  by (force simp: table_path_def)

lemma public_single:
  "''$'' \<notin> fst ` set table \<Longrightarrow>
   (\<And>rule data e. rule \<in> set rules \<Longrightarrow> e \<in> set (rule data) \<Longrightarrow> table_path table (pe_path e)) \<Longrightarrow>
   public_rules (single_version kind table rules)"
  by (auto simp: public_rules_def reportable_def single_version_def)

definition reports :: "(payload \<Rightarrow> public_error list) \<Rightarrow> string set \<Rightarrow> bool" where
  "reports rule ps \<longleftrightarrow> (\<forall>data. pe_path ` set (rule data) \<subseteq> ps)"

lemma rule_paths:
  "reports rule_verdict_matches_blocking {''verdict''}" "reports rule_revised_requires_finding {''revised_finding''}"
  "reports rule_more_evidence_requires_detail {''required_evidence''}" "reports rule_candidates_not_empty {''candidates''}"
  "reports rule_brief_has_recommended {''candidates''}" "reports rule_question_and_changes_have_body {''body''}"
  "reports rule_violations_not_empty {''violation_bindings''}" "reports rule_report_is_pre_merge {''merged''}"
  "reports rule_approved_requires_authority {''input_route'', ''approval_comment_id''}"
  "reports rule_exactly_one_wait {''awaiting''}" "reports rule_result_kind_or_permission {''result_kind''}"
  "reports rule_failed_requires_error_category {''error_category''}"
  "reports rule_outcome_fields_are_exclusive {''result_kind'', ''error_category''}"
  by (auto simp: reports_def rule_verdict_matches_blocking_def rule_revised_requires_finding_def
      rule_more_evidence_requires_detail_def rule_candidates_not_empty_def rule_brief_has_recommended_def
      rule_question_and_changes_have_body_def rule_violations_not_empty_def rule_report_is_pre_merge_def
      rule_approved_requires_authority_def rule_exactly_one_wait_def rule_result_kind_or_permission_def
      rule_failed_requires_error_category_def rule_outcome_fields_are_exclusive_def Let_def
      split: option.splits json.splits if_splits)

lemma reports_within: "reports rule ps \<Longrightarrow> ps \<subseteq> qs \<Longrightarrow> reports rule qs"
  by (auto simp: reports_def)

lemmas rules_within = rule_paths [THEN reports_within]

text \<open>A version whose rules report names of its own fields.\<close>

definition plain_version :: "version_spec \<Rightarrow> bool" where
  "plain_version spec \<longleftrightarrow> ''$'' \<notin> fst ` set (vs_fields spec) \<and>
     (\<forall>rule \<in> set (vs_rules spec). reports rule (fst ` set (vs_fields spec)))"

lemma plain_versions_public:
  assumes "\<forall>(v, spec) \<in> set (sd_versions d). plain_version spec"
  shows "public_rules d"
proof (rule public_rulesI)
  fix v spec assume spec: "(v, spec) \<in> set (sd_versions d)"
  then have plain: "plain_version spec" using assms by blast
  then show "''$'' \<notin> fst ` set (vs_fields spec)" by (simp add: plain_version_def)
  fix rule data e assume "rule \<in> set (vs_rules spec)" "e \<in> set (rule data)"
  then have "pe_path e \<in> fst ` set (vs_fields spec)" using plain by (fastforce simp: plain_version_def reports_def)
  then show "reportable d (pe_path e)" using spec top_path by (fastforce simp: reportable_def)
qed

lemma plain_definitions_1:
  "\<forall>(v, spec) \<in> set (sd_versions REVIEW_RESULT). plain_version spec"
  "\<forall>(v, spec) \<in> set (sd_versions FIX_RESULT). plain_version spec"
  "\<forall>(v, spec) \<in> set (sd_versions CLARIFICATION_QUESTION). plain_version spec"
  "\<forall>(v, spec) \<in> set (sd_versions CLARIFICATION_ANSWER). plain_version spec"
  "\<forall>(v, spec) \<in> set (sd_versions DECISION_REQUEST). plain_version spec"
  "\<forall>(v, spec) \<in> set (sd_versions DECISION_VERDICT). plain_version spec"
  by (auto simp: single_version_def plain_version_def REVIEW_RESULT_def review_result_fields_def FIX_RESULT_def
    fix_result_fields_def CLARIFICATION_QUESTION_def clarification_question_fields_def CLARIFICATION_ANSWER_def
    clarification_answer_fields_def DECISION_REQUEST_def decision_request_fields_def DECISION_VERDICT_def
    decision_verdict_fields_def intro!: rules_within)

lemma plain_definitions_2:
  "\<forall>(v, spec) \<in> set (sd_versions DECISION_BRIEF). plain_version spec"
  "\<forall>(v, spec) \<in> set (sd_versions DECISION_RECORD). plain_version spec"
  "\<forall>(v, spec) \<in> set (sd_versions USER_DECISION). plain_version spec"
  "\<forall>(v, spec) \<in> set (sd_versions FOLLOWUP_CANDIDATES). plain_version spec"
  "\<forall>(v, spec) \<in> set (sd_versions FOLLOWUP_PERMISSION). plain_version spec"
  "\<forall>(v, spec) \<in> set (sd_versions FINAL_REPORT). plain_version spec"
  by (auto simp: single_version_def plain_version_def DECISION_BRIEF_def decision_brief_fields_def
    DECISION_RECORD_def decision_record_fields_def USER_DECISION_def user_decision_fields_def
    FOLLOWUP_CANDIDATES_def followup_candidates_fields_def FOLLOWUP_PERMISSION_def followup_permission_fields_def
    FINAL_REPORT_def final_report_fields_def intro!: rules_within)

lemma plain_definitions_3:
  "\<forall>(v, spec) \<in> set (sd_versions MERGE_INTENT). plain_version spec"
  "\<forall>(v, spec) \<in> set (sd_versions MERGE_APPROVAL). plain_version spec"
  "\<forall>(v, spec) \<in> set (sd_versions MERGE_OUTCOME_SCHEMA). plain_version spec"
  "\<forall>(v, spec) \<in> set (sd_versions GATE_QUESTION). plain_version spec"
  "\<forall>(v, spec) \<in> set (sd_versions GATE_ANSWER). plain_version spec"
  "\<forall>(v, spec) \<in> set (sd_versions GATE_CHANGES). plain_version spec"
  by (auto simp: single_version_def plain_version_def MERGE_INTENT_def merge_intent_fields_def MERGE_APPROVAL_def
    merge_approval_fields_def MERGE_OUTCOME_SCHEMA_def merge_outcome_fields_def GATE_QUESTION_def
    gate_question_fields_def GATE_ANSWER_def gate_answer_fields_def GATE_CHANGES_def gate_changes_fields_def intro!:
    rules_within)

lemma plain_definitions_4:
  "\<forall>(v, spec) \<in> set (sd_versions SUBMIT). plain_version spec"
  "\<forall>(v, spec) \<in> set (sd_versions HOST_FAILURE). plain_version spec"
  "\<forall>(v, spec) \<in> set (sd_versions USER_REQUEST). plain_version spec"
  "\<forall>(v, spec) \<in> set (sd_versions USER_SUBMIT). plain_version spec"
  "\<forall>(v, spec) \<in> set (sd_versions PERMISSION_RESUME). plain_version spec"
  "\<forall>(v, spec) \<in> set (sd_versions SESSION_CONFIG). plain_version spec"
  by (auto simp: single_version_def plain_version_def SUBMIT_def submit_fields_def submit_fields_v1_def
    submit_fields_v2_def HOST_FAILURE_def host_failure_fields_def USER_REQUEST_def user_request_fields_def
    USER_SUBMIT_def user_submit_fields_def PERMISSION_RESUME_def permission_resume_fields_def SESSION_CONFIG_def
    session_config_fields_def intro!: rules_within)

lemma plain_definitions_5:
  "\<forall>(v, spec) \<in> set (sd_versions PERMISSION_BLOCK). plain_version spec"
  "\<forall>(v, spec) \<in> set (sd_versions CI_TIMEOUT). plain_version spec"
  "\<forall>(v, spec) \<in> set (sd_versions CI_CODE_FAILURE). plain_version spec"
  "\<forall>(v, spec) \<in> set (sd_versions EXTERNAL_DEPENDENCY). plain_version spec"
  "\<forall>(v, spec) \<in> set (sd_versions BLOCK_INTERVENTION). plain_version spec"
  "\<forall>(v, spec) \<in> set (sd_versions INTEGRITY_INCIDENT). plain_version spec"
  by (auto simp: single_version_def plain_version_def PERMISSION_BLOCK_def permission_block_fields_def
    CI_TIMEOUT_def ci_timeout_fields_def CI_CODE_FAILURE_def ci_code_failure_fields_def EXTERNAL_DEPENDENCY_def
    external_dependency_fields_def BLOCK_INTERVENTION_def block_intervention_fields_def INTEGRITY_INCIDENT_def
    integrity_incident_fields_def intro!: rules_within)

lemma plain_definitions_6:
  "\<forall>(v, spec) \<in> set (sd_versions USER_CANCEL). plain_version spec"
  "\<forall>(v, spec) \<in> set (sd_versions CHECKPOINT). plain_version spec"
  "\<forall>(v, spec) \<in> set (sd_versions RUN_LOCK). plain_version spec"
  by (auto simp: single_version_def plain_version_def USER_CANCEL_def user_cancel_fields_def CHECKPOINT_def
    envelope_fields_def SECTIONS_def checkpoint_fields_v1_def checkpoint_fields_v2_def RUN_LOCK_def
    run_lock_fields_def intro!: rules_within)

text \<open>The three definitions whose rules report paths below a field.\<close>

lemma role_path:
  assumes "(role, obj_field (role_fields modes profile)) \<in> set table"
    and "e \<in> set (role_errors printable_text data role)"
  shows "table_path table (pe_path e)"
proof -
  have "\<exists>n \<in> {''adapter_contract_version'', ''model''}. pe_path e = role @ ''.'' @ n"
    using assms(2) by (auto simp: role_errors_def split: option.splits json.splits if_splits)
  then obtain n where n: "n \<in> {''adapter_contract_version'', ''model''}" "pe_path e = role @ ''.'' @ n @ []" by auto
  from n(1) have "n \<in> fst ` set (role_fields modes profile)" by (auto simp: role_fields_def)
  then obtain f where "(n, f) \<in> set (role_fields modes profile)" by auto
  then have "field_path (obj_field (role_fields modes profile)) (''.'' @ n @ [])"
    by (intro field_path.known [OF _ _ field_path.here]) (simp_all add: obj_field_def)
  then show ?thesis unfolding n(2) by (rule inner_path [OF assms(1)])
qed

lemma agent_selection_public: "public_rules (AGENT_SELECTION printable_text)"
  unfolding AGENT_SELECTION_def
proof (rule public_single)
  show "''$'' \<notin> fst ` set agent_selection_fields" by (simp add: agent_selection_fields_def)
  fix rule data e assume "rule \<in> set [selection_rules printable_text]" "e \<in> set (rule data)"
  then consider "e = public_error ''out_of_range'' ''number''" | "e \<in> set (role_errors printable_text data ''coder'')"
    | "e \<in> set (role_errors printable_text data ''reviewer'')"
    by (auto simp: selection_rules_def split: option.splits json.splits if_splits)
  then show "table_path agent_selection_fields (pe_path e)"
  proof cases
    case 1
    then show ?thesis using top_path [of "''number''" integer_field] by (simp add: agent_selection_fields_def)
  next
    case 2
    then show ?thesis by (rule role_path [rotated]) (simp add: agent_selection_fields_def)
  next
    case 3
    then show ?thesis by (rule role_path [rotated]) (simp add: agent_selection_fields_def)
  qed
qed

lemma followup_evaluation_public: "public_rules FOLLOWUP_EVALUATION"
  unfolding FOLLOWUP_EVALUATION_def
proof (rule public_single)
  show "''$'' \<notin> fst ` set followup_evaluation_fields" by (simp add: followup_evaluation_fields_def)
  fix rule data e assume "rule \<in> set [rule_link_existing_requires_issue]" "e \<in> set (rule data)"
  then obtain i where i: "pe_path e = ''evaluations'' @ ''['' @ show_nat i @ '']'' @ ''.'' @ ''existing_issue'' @ []"
    by (auto simp: rule_link_existing_requires_issue_def List.map_filter_def split: option.splits json.splits if_splits)
  obtain table where table: "(''existing_issue'', optional opaque_field) \<in> set table"
    "(''evaluations'', bounded_array (Some FOLLOWUP_MAX_CANDIDATES) (obj_field table)) \<in> set followup_evaluation_fields"
    by (simp add: followup_evaluation_fields_def bounded_array_def obj_field_def)
  have "field_path (obj_field table) (''.'' @ ''existing_issue'' @ [])"
    by (rule field_path.known [OF _ table(1) field_path.here]) (simp add: obj_field_def)
  then have "field_path (bounded_array (Some FOLLOWUP_MAX_CANDIDATES) (obj_field table))
      (''['' @ show_nat i @ '']'' @ ''.'' @ ''existing_issue'' @ [])"
    by (rule field_path.element [rotated]) (simp add: bounded_array_def)
  then show "table_path followup_evaluation_fields (pe_path e)" unfolding i by (rule inner_path [OF table(2)])
qed

lemma payload_tables: "(kind, spec) \<in> set HOST_ACTION_PAYLOADS \<Longrightarrow> vs_rules spec = [] \<and> ''$'' \<notin> fst ` set (vs_fields spec)"
  by (auto simp: HOST_ACTION_PAYLOADS_def)

lemma host_action_public: "public_rules HOST_ACTION"
proof (rule public_rulesI)
  fix v spec assume spec: "(v, spec) \<in> set (sd_versions HOST_ACTION)"
  then show "''$'' \<notin> fst ` set (vs_fields spec)"
    by (auto simp: HOST_ACTION_def host_action_fields_v1_def host_action_fields_v2_def binding_fields_def)
  fix rule data e assume "rule \<in> set (vs_rules spec)" and e: "e \<in> set (rule data)"
  then have "rule = rule_payload_matches_kind" using spec by (auto simp: HOST_ACTION_def)
  with e obtain kind table inner where table: "map_of HOST_ACTION_PAYLOADS kind = Some table"
    "pe_path e \<in> (\<lambda>e. ''payload.'' @ pe_path e) ` set (structural_errors table inner)"
    by (fastforce simp: rule_payload_matches_kind_def dest!: sym [of "Some u" for u] split: option.splits json.splits)
  then obtain e' where inner: "(kind, table) \<in> set HOST_ACTION_PAYLOADS" "e' \<in> set (structural_errors table inner)"
    "pe_path e = ''payload.'' @ pe_path e'" by (auto dest: map_of_SomeD)
  then obtain q where "pe_path e' = sanitize_path q" "table_path (vs_fields table) q"
    using public_error_path [OF inner(2)] payload_tables [OF inner(1)] by auto
  then show "reportable HOST_ACTION (pe_path e)" using inner by (auto simp: reportable_def)
qed

lemma definitions_public:
  assumes "d \<in> set (DEFINITIONS printable_text)"
  shows "public_rules d"
proof -
  note plain = plain_definitions_1 plain_definitions_2 plain_definitions_3 plain_definitions_4 plain_definitions_5 plain_definitions_6
  show ?thesis
    using assms plain [THEN plain_versions_public] agent_selection_public followup_evaluation_public host_action_public
    unfolding DEFINITIONS_def by (simp only: list.set insert_iff empty_iff) blast
qed

section \<open>Migration\<close>

lemma has_fields_lookups:
  "has_fields t items \<longleftrightarrow>
     (\<forall>m. map_of items m \<noteq> None \<longrightarrow> m \<in> fst ` set t) \<and>
     (\<forall>m g. (m, g) \<in> set t \<longrightarrow> (fl_required g \<longrightarrow> map_of items m \<noteq> None) \<and>
        (\<forall>v. map_of items m = Some v \<longrightarrow> has_type g v))"
  unfolding has_fields_def map_of_eq_None_iff by (auto simp: subset_iff)

lemma has_fields_changed:
  assumes fields: "has_fields t items" and same: "\<And>m g. (m, g) \<in> set t' \<Longrightarrow> m \<noteq> n \<Longrightarrow> (m, g) \<in> set t"
    and new: "\<And>g. (n, g) \<in> set t' \<Longrightarrow> has_type g v" and n: "n \<in> fst ` set t'" and names: "fst ` set t \<subseteq> fst ` set t'"
  shows "has_fields t' (AList.update n v items)"
proof -
  have "m \<in> fst ` set t'" if "((map_of items)(n \<mapsto> v)) m \<noteq> None" for m
    using that fields n names unfolding has_fields_lookups by (cases "m = n") auto
  moreover have "(fl_required g \<longrightarrow> ((map_of items)(n \<mapsto> v)) m \<noteq> None) \<and>
      (\<forall>w. ((map_of items)(n \<mapsto> v)) m = Some w \<longrightarrow> has_type g w)" if "(m, g) \<in> set t'" for m g
  proof (cases "m = n")
    case False
    then have "(m, g) \<in> set t" using same that by simp
    then show ?thesis using fields False unfolding has_fields_lookups by simp
  qed (use that new in simp)
  ultimately show ?thesis unfolding has_fields_lookups update_conv' by blast
qed

lemma has_fields_kept:
  assumes fields: "has_fields t items" and names: "fst ` set t \<subseteq> fst ` set t'"
    and same: "\<And>m g. (m, g) \<in> set t' \<Longrightarrow> (m, g) \<in> set t \<or> map_of items m = None \<and> \<not> fl_required g"
  shows "has_fields t' items"
  unfolding has_fields_lookups
proof (intro conjI allI impI)
  show "m \<in> fst ` set t'" if "map_of items m \<noteq> None" for m
    using that fields names unfolding has_fields_lookups by blast
  fix m g
  assume g: "(m, g) \<in> set t'"
  show "map_of items m \<noteq> None" if "fl_required g"
    using that same [OF g] fields unfolding has_fields_lookups by blast
  show "has_type g v" if "map_of items m = Some v" for v
    using that same [OF g] fields unfolding has_fields_lookups by (metis option.distinct(1))
qed

lemma map_of_selected:
  "map_of (List.map_filter (\<lambda>k. map_option (\<lambda>v. (k, v)) (map_of items k)) ks) n =
     (if n \<in> set ks then map_of items n else None)"
  by (induction ks) (auto simp: List.map_filter_def split: option.splits)

lemma typed_optional [simp]: "has_type (optional f) v \<longleftrightarrow> has_type f v"
  by (cases f; cases v) (simp_all add: optional_def has_type_simps)

lemma typed_object: "has_type (obj_field t) v \<longleftrightarrow> (\<exists>items. v = JObj items \<and> has_fields t items)"
  by (cases v) (simp_all add: obj_field_def has_type_simps has_fields_def)

lemma typed_array:
  "has_type (bounded_array (Some n) f) v \<longleftrightarrow> (\<exists>vs. v = JArr vs \<and> length vs \<le> n \<and> (\<forall>w \<in> set vs. has_type f w))"
  by (cases v) (auto simp: bounded_array_def has_type_simps)

lemma required_optional [simp]: "\<not> fl_required (optional f)"
  by (cases f) (simp add: optional_def)

text \<open>The fields of a version 1 action that become the pending action of version 2.\<close>

lemma migrated_pending:
  assumes "has_fields (pending_action_fields @ [(''submit'', optional (obj_field (receipt_fields False)))]) items"
  shows "has_fields (pending_action_fields @ [(''correlation_id'', optional opaque_field), (''attempt'', optional integer_field)])
    (List.map_filter (\<lambda>k. map_option (\<lambda>v. (k, v)) (map_of items k)) V1_PENDING_KEYS)"
proof -
  have extra: "''correlation_id'' \<notin> set V1_PENDING_KEYS" "''attempt'' \<notin> set V1_PENDING_KEYS"
    by (simp_all add: V1_PENDING_KEYS_def pending_action_fields_def)
  have known: "m \<in> set V1_PENDING_KEYS" if "(m, g) \<in> set pending_action_fields" for m g
    using that by (force simp: V1_PENDING_KEYS_def)
  have fields: "(m, g) \<in> set pending_action_fields \<Longrightarrow> (fl_required g \<longrightarrow> map_of items m \<noteq> None) \<and>
      (\<forall>v. map_of items m = Some v \<longrightarrow> has_type g v)" for m g
    using assms unfolding has_fields_lookups by simp
  show ?thesis
    unfolding has_fields_lookups map_of_selected
  proof (intro conjI allI impI)
    fix m :: string
    assume "(if m \<in> set V1_PENDING_KEYS then map_of items m else None) \<noteq> None"
    then show "m \<in> fst ` set (pending_action_fields @
        [(''correlation_id'', optional opaque_field), (''attempt'', optional integer_field)])"
      by (auto simp: V1_PENDING_KEYS_def split: if_splits)
  next
    fix m g
    assume g: "(m, g) \<in> set (pending_action_fields @
        [(''correlation_id'', optional opaque_field), (''attempt'', optional integer_field)])"
    then consider "(m, g) \<in> set pending_action_fields" | "m \<notin> set V1_PENDING_KEYS" "\<not> fl_required g"
      using extra by auto
    note cases = this
    show "(if m \<in> set V1_PENDING_KEYS then map_of items m else None) \<noteq> None" if "fl_required g"
      using cases that fields known by (cases rule: cases) auto
    show "has_type g v" if "(if m \<in> set V1_PENDING_KEYS then map_of items m else None) = Some v" for v
      using cases that fields by (cases rule: cases) (auto split: if_splits)
  qed
qed

lemma migrated_receipt:
  assumes submit: "has_fields (receipt_fields False) submit"
    and id: "has_type opaque_field i" and nonce: "has_type opaque_field n"
  shows "has_fields (receipt_fields True) (AList.update ''nonce'' n (AList.update ''action_id'' i submit))"
proof -
  let ?t = "(''action_id'', opaque_field) # receipt_fields False"
  have "has_fields ?t (AList.update ''action_id'' i submit)"
    by (rule has_fields_changed [OF submit]) (use id in \<open>auto simp: receipt_fields_def\<close>)
  then show ?thesis
    by (rule has_fields_changed) (use nonce in \<open>auto simp: receipt_fields_def\<close>)
qed

text \<open>What became of the host action: nothing of it is lost.\<close>

definition action_migrated :: "payload \<Rightarrow> json option \<Rightarrow> bool" where
  "action_migrated items action \<longleftrightarrow>
     (\<exists>action' pending. action = Some (JObj action') \<and> map_of action' ''pending'' = Some (JObj pending) \<and>
        (\<forall>k. k \<noteq> ''submit'' \<longrightarrow> map_of pending k = map_of items k) \<and>
        (\<forall>submit. map_of items ''submit'' = Some (JObj submit) \<longrightarrow>
           (\<exists>receipt. map_of action' ''receipts'' = Some (JArr [JObj receipt]) \<and>
              map_of receipt ''action_id'' = map_of items ''action_id'' \<and>
              map_of receipt ''nonce'' = map_of items ''nonce'' \<and>
              (\<forall>k. k \<notin> {''action_id'', ''nonce''} \<longrightarrow> map_of receipt k = map_of submit k))))"

abbreviation action_v1_fields :: fields where
  "action_v1_fields \<equiv> pending_action_fields @ [(''submit'', optional (obj_field (receipt_fields False)))]"

lemma migrated_action:
  assumes action: "map_of data ''host_action'' = Some (JObj items)" and items: "has_fields action_v1_fields items"
  obtains v where "checkpoint_v1_to_v2 data = Some (AList.update ''host_action'' v data)"
    "has_type host_action_v2 v" "action_migrated items (Some v)"
proof -
  let ?pending = "List.map_filter (\<lambda>k. map_option (\<lambda>v. (k, v)) (map_of items k)) V1_PENDING_KEYS"
  note pending = migrated_pending [OF items]
  have typed: "map_of items m = Some v \<Longrightarrow> (m, g) \<in> set action_v1_fields \<Longrightarrow> has_type g v" for m v g
    using items unfolding has_fields_lookups by blast
  have known: "k \<in> set V1_PENDING_KEYS \<or> k = ''submit''" if "map_of items k \<noteq> None" for k
    using that items unfolding has_fields_lookups by (auto simp: V1_PENDING_KEYS_def)
  have kept: "map_of ?pending k = map_of items k" if "k \<noteq> ''submit''" for k
    using known [of k] that unfolding map_of_selected by (cases "map_of items k") auto
  show thesis
  proof (cases "map_of items ''submit''")
    case None
    show thesis
    proof (rule that)
      show "checkpoint_v1_to_v2 data = Some (AList.update ''host_action'' (JObj [(''pending'', JObj ?pending)]) data)"
        using action None by (simp add: checkpoint_v1_to_v2_def)
      show "has_type host_action_v2 (JObj [(''pending'', JObj ?pending)])"
        using pending by (simp add: host_action_v2_def typed_object has_fields_lookups)
      show "action_migrated items (Some (JObj [(''pending'', JObj ?pending)]))"
        using None kept by (simp add: action_migrated_def)
    qed
  next
    case (Some w)
    then obtain submit where w: "w = JObj submit" and submit: "has_fields (receipt_fields False) submit"
      using typed [of "''submit''" w "optional (obj_field (receipt_fields False))"] by (auto simp: typed_object)
    have "map_of action_v1_fields ''action_id'' = Some opaque_field" "map_of action_v1_fields ''nonce'' = Some opaque_field"
      "fl_required opaque_field"
      by (simp_all add: pending_action_fields_def opaque_field_def bounded_text_def)
    then obtain i n where i: "map_of items ''action_id'' = Some i" and n: "map_of items ''nonce'' = Some n"
      using has_fields_required [OF items] by blast
    have "has_type opaque_field i" "has_type opaque_field n"
      using typed [OF i, of opaque_field] typed [OF n, of opaque_field] by (simp_all add: pending_action_fields_def)
    note receipt = migrated_receipt [OF submit this]
    let ?receipt = "AList.update ''nonce'' n (AList.update ''action_id'' i submit)"
    let ?v = "JObj [(''pending'', JObj ?pending), (''receipts'', JArr [JObj ?receipt])]"
    show thesis
    proof (rule that)
      show "checkpoint_v1_to_v2 data = Some (AList.update ''host_action'' ?v data)"
        using action Some w i n by (simp add: checkpoint_v1_to_v2_def)
      show "has_type host_action_v2 ?v"
        using pending receipt
        by (simp add: host_action_v2_def typed_object typed_array has_fields_lookups MAX_SUBMIT_RECEIPTS_def)
      show "action_migrated items (Some ?v)"
        using Some w i n kept by (simp add: action_migrated_def update_conv')
    qed
  qed
qed

lemma envelope_names:
  "fst ` set (envelope_fields h) = fst ` set checkpoint_fields_v2"
  "(m, g) \<in> set (envelope_fields h) \<Longrightarrow> m \<noteq> ''host_action'' \<Longrightarrow> (m, g) \<in> set (envelope_fields h')"
  "(''host_action'', g) \<in> set (envelope_fields h) \<longleftrightarrow> g = h"
  "(''schema_version'', g) \<in> set (envelope_fields h) \<longleftrightarrow> g = schema_version_field"
  "{''host_action'', ''schema_version''} \<subseteq> fst ` set (envelope_fields h)"
  by (auto simp: envelope_fields_def SECTIONS_def checkpoint_fields_v2_def)

lemma typed_version [simp]: "has_type schema_version_field (JInt v)"
  by (simp add: schema_version_field_def plain_field_def has_type_simps)

lemma version_updated:
  "has_fields checkpoint_fields_v2 data \<Longrightarrow>
   has_fields checkpoint_fields_v2 (AList.update ''schema_version'' (JInt v) data)"
  by (erule has_fields_changed) (use envelope_names in \<open>auto simp: checkpoint_fields_v2_def\<close>)

lemma checkpoint_step:
  assumes data: "has_fields checkpoint_fields_v1 data"
  obtains data' where "checkpoint_v1_to_v2 data = Some data'" "has_fields checkpoint_fields_v2 data'"
    "\<And>n. n \<noteq> ''host_action'' \<Longrightarrow> map_of data' n = map_of data n"
    "\<And>items. map_of data ''host_action'' = Some (JObj items) \<Longrightarrow> action_migrated items (map_of data' ''host_action'')"
proof (cases "map_of data ''host_action''")
  case None
  then have "checkpoint_v1_to_v2 data = Some data" by (simp add: checkpoint_v1_to_v2_def)
  moreover have "has_fields checkpoint_fields_v2 data"
  proof (rule has_fields_kept [OF data])
    fix m g
    assume g: "(m, g) \<in> set checkpoint_fields_v2"
    show "(m, g) \<in> set checkpoint_fields_v1 \<or> map_of data m = None \<and> \<not> fl_required g"
    proof (cases "m = ''host_action''")
      case True
      then have "g = host_action_v2" using g envelope_names(3) by (simp add: checkpoint_fields_v2_def)
      then show ?thesis using True None by (simp add: host_action_v2_def)
    qed (use g envelope_names(2) in \<open>simp add: checkpoint_fields_v1_def checkpoint_fields_v2_def\<close>)
  qed (simp add: checkpoint_fields_v1_def envelope_names(1))
  ultimately show ?thesis using None by (intro that) simp_all
next
  case (Some v)
  have "(''host_action'', host_action_v1) \<in> set checkpoint_fields_v1"
    using envelope_names(3) by (simp add: checkpoint_fields_v1_def)
  then have "has_type host_action_v1 v" using data Some unfolding has_fields_lookups by blast
  then obtain items where v: "v = JObj items" and items: "has_fields action_v1_fields items"
    by (auto simp: host_action_v1_def typed_object)
  obtain w where w: "checkpoint_v1_to_v2 data = Some (AList.update ''host_action'' w data)"
    "has_type host_action_v2 w" "action_migrated items (Some w)"
    using migrated_action [OF Some [unfolded v] items] .
  show ?thesis
  proof (rule that [OF w(1)])
    show "has_fields checkpoint_fields_v2 (AList.update ''host_action'' w data)"
      by (rule has_fields_changed [OF data])
        (use envelope_names w(2) in \<open>auto simp: checkpoint_fields_v1_def checkpoint_fields_v2_def\<close>)
  qed (use w(3) Some v in \<open>simp_all add: update_conv'\<close>)
qed

lemma checkpoint_versions:
  "current_version CHECKPOINT = 2"
  "spec_at CHECKPOINT v = Some spec \<longleftrightarrow>
     v = 1 \<and> spec = \<lparr>vs_fields = checkpoint_fields_v1, vs_rules = []\<rparr> \<or>
     v = 2 \<and> spec = \<lparr>vs_fields = checkpoint_fields_v2, vs_rules = []\<rparr>"
  "map_of (sd_migrations CHECKPOINT) 1 = Some checkpoint_v1_to_v2"
  by (auto simp: current_version_def CHECKPOINT_def spec_at_def)

lemma valid_checkpoint:
  assumes "spec_for_payload CHECKPOINT data = Some spec" and "valid_version spec data"
  shows "version_of data = Some 1 \<and> has_fields checkpoint_fields_v1 data \<or>
    version_of data = Some 2 \<and> has_fields checkpoint_fields_v2 data"
proof -
  obtain v where v: "v = 1 \<and> has_fields checkpoint_fields_v1 data \<or> v = 2 \<and> has_fields checkpoint_fields_v2 data"
    "v = (case version_of data of Some v \<Rightarrow> v | None \<Rightarrow> 2)"
    using assms by (auto simp: spec_for_payload_def checkpoint_versions valid_version_def split: option.splits)
  then have "has_fields checkpoint_fields_v1 data \<or> has_fields checkpoint_fields_v2 data" by blast
  then obtain w where "map_of data ''schema_version'' = Some w" "has_type schema_version_field w"
    using envelope_names(4) unfolding has_fields_lookups checkpoint_fields_v1_def checkpoint_fields_v2_def
    by (metis (no_types, lifting) option.exhaust schema_version_field_def plain_field_def field.sel(2))
  then have "version_of data \<noteq> None"
    by (cases w) (simp_all add: version_of_def schema_version_field_def plain_field_def has_type_simps)
  then show ?thesis using v by auto
qed

lemma load_checkpoint:
  assumes v: "validate py CHECKPOINT raw = Accepted data version"
  obtains data' where "load_with_migration py CHECKPOINT raw = Accepted data' (Some 2)"
    "has_fields checkpoint_fields_v2 data'"
    "version = Some 2 \<Longrightarrow> data' = data"
    "\<And>n. n \<notin> {''host_action'', ''schema_version''} \<Longrightarrow> map_of data' n = map_of data n"
    "\<And>items. version = Some 1 \<Longrightarrow> map_of data ''host_action'' = Some (JObj items) \<Longrightarrow>
       action_migrated items (map_of data' ''host_action'')"
    "version = Some 1 \<or> version = Some 2"
proof -
  from v consider "version = Some 1" "has_fields checkpoint_fields_v1 data"
    | "version = Some 2" "has_fields checkpoint_fields_v2 data" "version_of data = Some 2"
    unfolding validate_accepts_typed using valid_checkpoint by blast
  then show thesis
  proof cases
    case 1
    obtain d where d: "checkpoint_v1_to_v2 data = Some d" "has_fields checkpoint_fields_v2 d"
      "\<And>n. n \<noteq> ''host_action'' \<Longrightarrow> map_of d n = map_of data n"
      "\<And>items. map_of data ''host_action'' = Some (JObj items) \<Longrightarrow> action_migrated items (map_of d ''host_action'')"
      by (rule checkpoint_step [OF 1(2)]) (rule that, assumption+)
    let ?d = "AList.update ''schema_version'' (JInt 2) d"
    have "migrate_from CHECKPOINT 2 ?d = Inr ?d" by (subst migrate_from.simps) (simp add: checkpoint_versions)
    then have m: "migrate_from CHECKPOINT 1 data = Inr ?d"
      by (subst migrate_from.simps) (simp add: checkpoint_versions d(1))
    have typed: "has_fields checkpoint_fields_v2 ?d" by (rule version_updated [OF d(2)])
    have "validate_object CHECKPOINT ?d = Accepted ?d (Some 2)"
      using typed by (simp add: validate_object_Accepted version_of_def update_conv' spec_for_payload_def
          checkpoint_versions valid_version_def)
    then have "load_with_migration py CHECKPOINT raw = Accepted ?d (Some 2)"
      using v 1(1) m by (simp add: load_with_migration_def)
    then show thesis using typed d(3,4) 1(1) by (intro that [of ?d]) (simp_all add: update_conv')
  next
    case 2
    have "migrate_from CHECKPOINT 2 data = Inr data" by (subst migrate_from.simps) (simp add: checkpoint_versions)
    moreover have "validate_object CHECKPOINT data = Accepted data (Some 2)"
      using 2(2,3) by (simp add: validate_object_Accepted spec_for_payload_def checkpoint_versions valid_version_def)
    ultimately have "load_with_migration py CHECKPOINT raw = Accepted data (Some 2)"
      using v 2(1) by (simp add: load_with_migration_def)
    then show thesis using 2(1,2) by (intro that [of data]) simp_all
  qed
qed

section \<open>A checkpoint of version 1\<close>

definition example_interpreter :: interpreter where
  "example_interpreter = \<lparr>recursion_budget = 1000, float_text = \<lambda>s. s, accepts_constants = True\<rparr>"

definition old_checkpoint :: payload where
  "old_checkpoint =
     [(''number'', JInt 1), (''repository'', JStr ''r''), (''run_id'', JStr ''a''), (''schema_version'', JInt 1)]"

lemma sections_optional:
  "\<not> fl_required heads_section" "\<not> fl_required state_section" "\<not> fl_required ledger_section"
  "\<not> fl_required conversation_section" "\<not> fl_required clarification_section" "\<not> fl_required coder_section"
  "\<not> fl_required tests_section" "\<not> fl_required ci_section" "\<not> fl_required artifacts_section"
  "\<not> fl_required artifact_records_section" "\<not> fl_required transaction_section" "\<not> fl_required mutation_section"
  "\<not> fl_required error_section" "\<not> fl_required decision_section" "\<not> fl_required followup_section"
  "\<not> fl_required permission_section" "\<not> fl_required reviewer_section" "\<not> fl_required processes_section"
  "\<not> fl_required incident_record_section" "\<not> fl_required stop_request_section" "\<not> fl_required merge_section"
  "\<not> fl_required host_action_v1" "\<not> fl_required user_request_section"
  by (simp_all only: heads_section_def state_section_def ledger_section_def conversation_section_def
    clarification_section_def coder_section_def tests_section_def ci_section_def artifacts_section_def
    artifact_records_section_def transaction_section_def mutation_section_def error_section_def
    decision_section_def followup_section_def permission_section_def reviewer_section_def processes_section_def
    incident_record_section_def stop_request_section_def merge_section_def host_action_v1_def
    user_request_section_def required_optional not_False_eq_True)

lemma old_checkpoint_typed: "has_fields checkpoint_fields_v1 old_checkpoint"
proof -
  have "has_type opaque_field (JStr ''a'')" "has_type text_field (JStr ''r'')" "has_type integer_field (JInt 1)"
    using code_points_le [of "''a''"] code_points_le [of "''r''"] by (simp_all add: field_defs has_type_simps)
  then show ?thesis
    by (simp add: has_fields_def old_checkpoint_def checkpoint_fields_v1_def envelope_fields_def SECTIONS_def
        sections_optional)
qed

lemma old_text: "dumps (JObj old_checkpoint) =
     ''{'' @ [CHR 0x22] @ ''number'' @ [CHR 0x22] @ '':1,'' @ [CHR 0x22] @ ''repository'' @ [CHR 0x22] @ '':'' @ [CHR 0x22] @
     ''r'' @ [CHR 0x22] @ '','' @ [CHR 0x22] @ ''run_id'' @ [CHR 0x22] @ '':'' @ [CHR 0x22] @ ''a'' @ [CHR 0x22] @ '','' @
     [CHR 0x22] @ ''schema_version'' @ [CHR 0x22] @ '':1}''"
  by code_simp

lemma old_text_utf8: "utf8_ok (dumps (JObj old_checkpoint))" by code_simp

lemma old_text_depth: "ensure_json_depth (dumps (JObj old_checkpoint)) = Inr ()" by code_simp

lemma old_text_length: "length (dumps (JObj old_checkpoint)) \<le> 262144" unfolding old_text by simp

lemma old_text_parsed: "parse_json example_interpreter (dumps (JObj old_checkpoint)) = Inr (JObj old_checkpoint)"
proof -
  have "flat old_checkpoint" "distinct (map fst old_checkpoint)" "sort_key fst old_checkpoint = old_checkpoint"
    by code_simp+
  then show ?thesis using loads_dumps [of old_checkpoint "example_interpreter\<lparr>accepts_constants := False\<rparr>"] old_text_depth
    by (simp add: parse_json_def example_interpreter_def)
qed

lemma old_text_accepted: "validate example_interpreter CHECKPOINT (dumps (JObj old_checkpoint)) = Accepted old_checkpoint (Some 1)"
  unfolding validate_accepts_typed
  using old_text_length old_text_utf8 old_text_parsed old_checkpoint_typed
  by (simp add: CHECKPOINT_def CHECKPOINT_MAX_INPUT_BYTES_def version_of_def old_checkpoint_def
      spec_for_payload_def spec_at_def valid_version_def)

section \<open>The saved state is typed\<close>

definition short :: "string \<Rightarrow> bool" where
  "short s \<longleftrightarrow> s \<noteq> [] \<and> code_points s \<le> 1000"

lemma typed_opaque: "has_type opaque_field (JStr s) \<longleftrightarrow> short s"
  by (simp add: opaque_field_def bounded_text_def has_type_simps short_def)

lemma typed_enum: "has_type (enum_field ws) (JStr s) \<longleftrightarrow> s \<in> set ws"
  by (simp add: enum_field_def has_type_simps)

lemma typed_array_field: "has_type (array_field f) (JArr vs) \<longleftrightarrow> (\<forall>v \<in> set vs. has_type f v)"
  by (simp add: array_field_def bounded_array_def has_type_simps)

lemma typed_vocabulary:
  "state_value s \<in> set STATE_VALUES" "awaiting_value a \<in> set AWAITING_VALUES" "kind_value k \<in> set RECORD_KIND_VALUES"
  "procedure_kind_value p \<in> set PROCEDURE_KINDS" "incident_target_value t \<in> set INCIDENT_TARGETS"
  "block_kind_value b \<in> set BLOCK_KINDS" "progress_value r \<in> set PROGRESS_VALUES" "budget_value u \<in> set BUDGET_VALUES"
  unfolding STATE_VALUES_def AWAITING_VALUES_def RECORD_KIND_VALUES_def PROCEDURE_KINDS_def INCIDENT_TARGETS_def
    BLOCK_KINDS_def PROGRESS_VALUES_def BUDGET_VALUES_def
  by (simp_all add: states.complete awaitings.complete record_kinds.complete procedure_kinds.complete
      incident_targets.complete block_kinds.complete progress_values.complete budgets.complete)

lemma typed_pending_record: "short (binding_value (pr_binding r)) \<Longrightarrow> has_type pending_record_field (pending_record_entry r)"
  by (simp add: pending_record_field_def pending_record_entry_def typed_object has_fields_def typed_enum typed_opaque
      typed_vocabulary)

lemma typed_violations:
  "list_all short (violation_texts vs) \<Longrightarrow> has_type (array_field violation_field) (violation_entries vs)"
  by (auto simp: violation_entries_def typed_array_field violation_field_def typed_object has_fields_def typed_opaque
      violation_texts_def list_all_iff)

lemma pending_record_not_required [simp]: "\<not> fl_required pending_record_field"
  by (simp add: pending_record_field_def)

lemma typed_procedure:
  assumes "list_all short (procedure_texts p)" and "procedure_entry p = Some v"
  shows "has_type (obj_field procedure_fields) v"
  using assms
  by (cases p) (auto simp: typed_object procedure_fields_def has_fields_def typed_enum typed_opaque typed_vocabulary
      typed_violations typed_pending_record set_optional_def split: option.splits)

lemma continuation_known: "continuation_id c = Some key \<Longrightarrow> key \<in> set CONTINUATION_IDS"
proof -
  assume "continuation_id c = Some key"
  then obtain i where "i < length BLOCKED_CONTINUATIONS" "BLOCKED_CONTINUATIONS ! i = (key, c)"
    by (auto simp: continuation_id_def find_Some_iff)
  then have "(key, c) \<in> set BLOCKED_CONTINUATIONS" by (metis nth_mem)
  then show ?thesis by (force simp: CONTINUATION_IDS_def)
qed

lemma typed_block:
  assumes "list_all short (block_texts b)" and "block_entry b = Some v"
  shows "has_type (obj_field block_fields) v"
  using assms
  by (cases b) (auto simp: typed_object block_fields_def evidence_fields_def has_fields_def typed_enum typed_opaque
      typed_vocabulary typed_violations continuation_known split: option.splits)

lemma typed_state:
  assumes texts: "list_all short (state_texts ms)" and items: "has_fields state_fields items"
  shows "has_fields state_fields (state_entries ms items)"
proof -
  note lookup = state_entries_lookup [where ms = ms and items = items]
  have known: "k \<in> fst ` set state_fields" if "map_of (state_entries ms items) k \<noteq> None" for k
  proof (cases "k \<in> insert ''state'' (set state_field_names)")
    case True
    then show ?thesis by (auto simp: state_field_names_def state_fields_def)
  next
    case False
    then show ?thesis using lookup(9) that items unfolding has_fields_lookups by simp
  qed
  have kept: "map_of (state_entries ms items) k = Some v \<Longrightarrow> has_type g v"
    if "(k, g) \<in> set state_fields" "k \<notin> insert ''state'' (set state_field_names)" for k g v
    using that(1) lookup(9) [OF that(2)] items unfolding has_fields_lookups by simp
  have parts: "ms_pending_record ms = Some r \<Longrightarrow> short (binding_value (pr_binding r))"
    "list_all short (procedure_texts (ms_procedure ms))" "list_all short (violation_texts (ms_deferred_integrity ms))"
    "ms_block ms = Some b \<Longrightarrow> list_all short (block_texts b)" for r b
    using texts by (auto simp: state_texts_def)
  let ?typed = "\<lambda>k g. \<forall>v. map_of (state_entries ms items) k = Some v \<longrightarrow> has_type g v"
  have "?typed ''round'' (optional integer_field)" "?typed ''agent_role'' (optional text_field)"
    "?typed ''session_id'' (optional opaque_field)"
    using kept [of "''round''" "optional integer_field"] kept [of "''agent_role''" "optional text_field"]
      kept [of "''session_id''" "optional opaque_field"]
    by (simp_all add: state_fields_def state_field_names_def)
  moreover have "?typed ''state'' (optional (enum_field STATE_VALUES))"
    "?typed ''awaiting'' (optional (enum_field AWAITING_VALUES))"
    "?typed ''return_to'' (optional (enum_field STATE_VALUES))"
    "?typed ''recovery_to'' (optional (enum_field STATE_VALUES))"
    using lookup(1-4) by (auto simp: typed_enum typed_vocabulary)
  moreover have "?typed ''pending_record'' pending_record_field"
    using lookup(5) parts(1) by (auto simp: typed_pending_record)
  moreover have "?typed ''procedure'' (optional (obj_field procedure_fields))"
    using lookup(6) parts(2) typed_procedure by simp
  moreover have "?typed ''block'' (optional (obj_field block_fields))"
    using lookup(7) parts(4) typed_block by (cases "ms_block ms") simp_all
  moreover have "?typed ''deferred_integrity'' (optional (array_field violation_field))"
    using lookup(8) parts(3) typed_violations by simp
  ultimately have "list_all (\<lambda>(k, g). ?typed k g) state_fields"
    unfolding state_fields_def by (simp only: list.pred_inject prod.case simp_thms)
  then have typed: "(k, g) \<in> set state_fields \<Longrightarrow> map_of (state_entries ms items) k = Some v \<Longrightarrow> has_type g v" for k g v
    unfolding list_all_iff by blast
  have "\<not> fl_required g" if "(k, g) \<in> set state_fields" for k g
    using that by (auto simp: state_fields_def pending_record_field_def)
  then show ?thesis using known typed unfolding has_fields_lookups by blast
qed

lemma checkpoint_fields_simps:
  "(''state'', g) \<in> set checkpoint_fields_v2 \<longleftrightarrow> g = state_section"
  by (auto simp: checkpoint_fields_v2_def envelope_fields_def SECTIONS_def)

lemma saved_typed:
  assumes texts: "list_all short (state_texts ms)" and payload: "has_fields checkpoint_fields_v2 payload"
  shows "has_fields checkpoint_fields_v2 (with_machine_state payload ms)"
proof -
  have "has_fields state_fields (object_at payload ''state'')"
  proof (cases "map_of payload ''state''")
    case None
    have "\<not> fl_required g" if "(k, g) \<in> set state_fields" for k g
      using that by (auto simp: state_fields_def)
    then show ?thesis using None by (auto simp: object_at_def has_fields_lookups)
  next
    case (Some v)
    then have "has_type state_section v"
      using payload checkpoint_fields_simps unfolding has_fields_lookups by blast
    then show ?thesis using Some by (auto simp: state_section_def typed_object object_at_def)
  qed
  then have "has_type state_section (JObj (state_entries ms (object_at payload ''state'')))"
    using typed_state [OF texts] by (simp add: state_section_def typed_object)
  then show ?thesis
    unfolding with_machine_state_def
    by (intro has_fields_changed [OF payload]) (use checkpoint_fields_simps in force)+
qed

end
