(* ===== verification/Schema_Properties.thy ===== *)
theory Schema_Properties
  imports Schema_Laws Machine_Properties
begin

text \<open>
  The properties of the validator, of the migration of checkpoints, of the projections of records and of the saved
  machine state.
\<close>

section \<open>The validator\<close>

text \<open>
  C26. The validator accepts exactly the typed payloads: bytes are accepted when they are not too long, are UTF-8 and
  the JSON text of an object whose version the schema has, and which has the type that the fields of this version
  describe and breaks none of its rules; the payload that is returned is this object, unchanged.
\<close>

theorem accepted_iff_typed:
  "validate py d raw = Accepted data version \<longleftrightarrow>
     length raw \<le> sd_max_input_bytes d \<and> utf8_ok raw \<and> parse_json py raw = Inr (JObj data) \<and>
     version = version_of data \<and>
     (\<exists>spec. spec_for_payload d data = Some spec \<and> has_fields (vs_fields spec) data \<and>
        concat (map (\<lambda>rule. rule data) (vs_rules spec)) = [])"
  unfolding validate_accepts_typed valid_version_def by simp

text \<open>
  C27. A rejection quotes nothing of the input: for every definition of the package, the path of every error, of the
  strict validation, the repairing one and the one with migration, is a sanitized path of names of the fields of this
  definition (for a host action, of its payloads too), numbers, and numbered tokens for unknown names and keys,
  whatever was read, also of an error of a rule across fields; it is printable and has at most 120 code points,
  however deep and long the input is.
\<close>

theorem reported_paths_public:
  assumes "d \<in> set (DEFINITIONS printable_text)"
    and "r = validate py d raw \<or> r = repair_and_validate py d raw \<or> r = load_with_migration py d raw"
    and "r = Rejected stage errors" and "e \<in> set errors"
  shows "(\<exists>p. reportable d p \<and> pe_path e = sanitize_path p) \<and> code_points (pe_path e) \<le> 120 \<and>
    set (pe_path e) \<subseteq> Collect printable"
proof (intro conjI)
  show "\<exists>p. reportable d p \<and> pe_path e = sanitize_path p"
    using assms(2-) pipeline_refusal load_refusal definitions_public [OF assms(1)]
    unfolding validate_def repair_and_validate_def by blast
  then obtain p where "pe_path e = sanitize_path p" by blast
  then show "code_points (pe_path e) \<le> 120" "set (pe_path e) \<subseteq> Collect printable"
    using sanitize_path_bound sanitize_path_printable by (simp_all add: MAX_PATH_LENGTH_def)
qed

lemma unterminated: "validate example_interpreter RUN_LOCK ''{'' = refuse ''json'' ''invalid_json'' ''$''"
proof -
  have "utf8_ok ''{''" "parse_json example_interpreter ''{'' = Inl ValueError" by code_simp+
  then show ?thesis
    by (simp add: validate_def pipeline_def parse_json_object_def RUN_LOCK_def single_version_def
        DEFAULT_MAX_INPUT_BYTES_def)
qed

theorem reported_paths_public_witness:
  "(\<exists>p. reportable RUN_LOCK p \<and> pe_path (public_error ''invalid_json'' ''$'') = sanitize_path p) \<and>
   code_points (pe_path (public_error ''invalid_json'' ''$'')) \<le> 120 \<and>
   set (pe_path (public_error ''invalid_json'' ''$'')) \<subseteq> Collect printable"
proof (rule reported_paths_public [where d = RUN_LOCK and printable_text = "\<lambda>s. True"])
  show "validate example_interpreter RUN_LOCK ''{'' = validate example_interpreter RUN_LOCK ''{'' \<or>
      validate example_interpreter RUN_LOCK ''{'' = repair_and_validate example_interpreter RUN_LOCK ''{'' \<or>
      validate example_interpreter RUN_LOCK ''{'' = load_with_migration example_interpreter RUN_LOCK ''{''"
    by simp
  show "validate example_interpreter RUN_LOCK ''{'' = Rejected ''json'' [public_error ''invalid_json'' ''$'']"
    using unterminated by (simp add: refuse_def)
qed (simp_all add: DEFINITIONS_def [of "\<lambda>s. True"])

text \<open>
  The repair changes nothing that was there: what it accepts is the parsed object, in which every key keeps its value (an
  object inside may get further keys), and a key that was missing has exactly the default of an
  optional field of the schema; so no obligatory value is ever made up. The result is typed.
\<close>

theorem repair_adds_defaults:
  assumes "repair_and_validate py d raw = Accepted data version"
    and "\<forall>(v, spec) \<in> set (sd_versions d). distinct (map fst (vs_fields spec))"
  shows "\<exists>parsed spec. parse_json py (strip_bom raw) = Inr (JObj parsed) \<and> spec_for_payload d parsed = Some spec \<and>
      valid_version spec data \<and> repaired_object parsed data \<and>
      (\<forall>n v. map_of parsed n = None \<longrightarrow> map_of data n = Some v \<longrightarrow>
         (\<exists>f. (n, f) \<in> set (vs_fields spec) \<and> \<not> fl_required f \<and> fl_default f = Some v))"
proof -
  obtain parsed where parsed: "parse_json py (strip_bom raw) = Inr (JObj parsed)"
    and v: "validate_parsed d parsed True = Accepted data version"
    using assms(1) by (auto simp: repair_and_validate_def pipeline_Accepted parsed_object)
  then obtain spec where spec: "spec_for_payload d parsed = Some spec" and data: "data = apply_defaults (vs_fields spec) parsed"
    "structural_errors spec data = []"
    by (auto simp: validate_parsed_def Let_def spec_for_payload_def version_of_def refuse_def
        split: option.splits if_splits json.splits)
  have "\<exists>v. (v, spec) \<in> set (sd_versions d)"
    using spec by (auto simp: spec_for_payload_def spec_at_def dest: map_of_SomeD)
  then have "distinct (map fst (vs_fields spec))" using assms(2) by blast
  then show ?thesis
    using parsed spec data apply_defaults_repairs apply_defaults_added unfolding structural_errors_Nil valid_version_def
    by metis
qed

definition speaker_schema :: schema_definition where
  "speaker_schema =
     single_version ''EXAMPLE'' [(''speaker'', with_default (JStr DEFAULT_CONTROLLER_SPEAKER) (optional text_field))] []"

lemma speaker_repaired:
  "repair_and_validate example_interpreter speaker_schema (byte_order_mark @ ''{}'') =
     Accepted [(''speaker'', JStr DEFAULT_CONTROLLER_SPEAKER)] None"
proof -
  let ?spec = "\<lparr>vs_fields = [(''speaker'', with_default (JStr DEFAULT_CONTROLLER_SPEAKER) (optional text_field))], vs_rules = []\<rparr>"
  have parsed: "utf8_ok ''{}''" "parse_json example_interpreter ''{}'' = Inr (JObj [])" by code_simp+
  have "has_type text_field (JStr DEFAULT_CONTROLLER_SPEAKER)"
    using code_points_le [of DEFAULT_CONTROLLER_SPEAKER]
    by (simp add: text_field_def bounded_text_def has_type_simps DEFAULT_CONTROLLER_SPEAKER_def)
  then have "structural_errors ?spec [(''speaker'', JStr DEFAULT_CONTROLLER_SPEAKER)] = []"
    unfolding structural_errors_Nil
    by (simp add: has_fields_def with_default_def optional_def text_field_def bounded_text_def has_type_simps)
  moreover have "apply_defaults (vs_fields ?spec) [] = [(''speaker'', JStr DEFAULT_CONTROLLER_SPEAKER)]"
    by (simp add: with_default_def optional_def text_field_def bounded_text_def)
  ultimately have "validate_parsed speaker_schema [] True = Accepted [(''speaker'', JStr DEFAULT_CONTROLLER_SPEAKER)] None"
    by (simp add: validate_parsed_def speaker_schema_def single_version_def spec_at_def current_version_def)
  then show ?thesis
    using parsed by (simp add: repair_and_validate_def pipeline_def parse_json_object_def strip_bom_def
        byte_order_mark_def speaker_schema_def single_version_def DEFAULT_MAX_INPUT_BYTES_def)
qed

theorem repair_adds_defaults_witness:
  "\<exists>parsed spec. parse_json example_interpreter (strip_bom (byte_order_mark @ ''{}'')) = Inr (JObj parsed) \<and>
     valid_version spec [(''speaker'', JStr DEFAULT_CONTROLLER_SPEAKER)]"
  using repair_adds_defaults [OF speaker_repaired] by (auto simp: speaker_schema_def single_version_def)

section \<open>Checkpoints\<close>

text \<open>
  C28. Loading a checkpoint that validates never fails and loses nothing: whatever the version, the result has version 2
  and the type of version 2. A checkpoint of version 2 is returned as it is; of one of version 1 every
  section but the host action is kept, the pending action keeps every key, and its submit
  becomes the one receipt, with the identity of the action and every other key.
\<close>

theorem checkpoint_migration_total:
  assumes "validate py CHECKPOINT raw = Accepted data version"
  shows "\<exists>data'. load_with_migration py CHECKPOINT raw = Accepted data' (Some 2) \<and>
      has_fields checkpoint_fields_v2 data' \<and> (version = Some 2 \<and> data' = data \<or> version = Some 1) \<and>
      (\<forall>n. n \<notin> {''host_action'', ''schema_version''} \<longrightarrow> map_of data' n = map_of data n) \<and>
      (version = Some 1 \<longrightarrow> (\<forall>items. map_of data ''host_action'' = Some (JObj items) \<longrightarrow>
         action_migrated items (map_of data' ''host_action'')))"
  by (rule load_checkpoint [OF assms]) blast

theorem checkpoint_migration_total_witness:
  "\<exists>data'. load_with_migration example_interpreter CHECKPOINT (dumps (JObj old_checkpoint)) = Accepted data' (Some 2) \<and>
     map_of data' ''run_id'' = Some (JStr ''a'')"
proof -
  have "map_of old_checkpoint ''run_id'' = Some (JStr ''a'')" by (simp add: old_checkpoint_def)
  then show ?thesis using checkpoint_migration_total [OF old_text_accepted] by fastforce
qed

text \<open>
  C29. A saved machine state is restored: of every reachable state whose texts are not empty and have at most 1000 code points, the
  checkpoint that \<open>with_machine_state\<close> writes reads back as exactly this state, passes its own
  verification, still has the type of the checkpoint schema, and has every other section unchanged.
\<close>

theorem saved_state_restored:
  assumes "reachable ms" and "list_all short (state_texts ms)"
  shows "read_machine_state (with_machine_state payload ms) = Inr ms \<and>
    with_verified_machine_state payload ms = Inr (with_machine_state payload ms) \<and>
    (has_fields checkpoint_fields_v2 payload \<longrightarrow> has_fields checkpoint_fields_v2 (with_machine_state payload ms)) \<and>
    (\<forall>k. k \<noteq> ''state'' \<longrightarrow> map_of (with_machine_state payload ms) k = map_of payload k)"
proof (intro conjI)
  have "[] \<notin> set (state_texts ms)" using assms(2) by (auto simp: list_all_iff short_def)
  then show read: "read_machine_state (with_machine_state payload ms) = Inr ms"
    by (rule machine_state_read [OF reachable_inv [OF assms(1)]])
  then show "with_verified_machine_state payload ms = Inr (with_machine_state payload ms)"
    by (simp add: with_verified_machine_state_def Let_def)
qed (use saved_typed [OF assms(2)] in \<open>simp_all add: with_machine_state_def update_conv'\<close>)

theorem saved_state_restored_witness:
  "read_machine_state (with_machine_state old_checkpoint halting_state) = Inr halting_state"
proof (rule saved_state_restored [OF halting_reachable, THEN conjunct1])
  have "code_points ''v'' = 1" "code_points ''d'' = 1" "code_points ''h'' = 1" by code_simp+
  then show "list_all short (state_texts halting_state)"
    by (simp add: short_def state_texts_def halting_state_def MachineState_def violation_texts_def violation_def)
qed

section \<open>Projections\<close>

text \<open>
  C30. What goes into the marker of a record comes out again: when a projection is built of a payload, it is readable for
  its kind, every projected field is decoded to the value that the payload has under the source
  of the field, and the decoded hash is the one over the body, the payload and the rest of the projection;
  and the payload was valid for the schema of its kind and named the head of the run, where its kind has one.
\<close>

theorem projection_read_back:
  assumes "build_record_projection kind payload head_sha body = Inr p"
  shows "\<exists>dp rest. decode_record_projection kind p = Inr dp \<and>
      (\<forall>f \<in> set (ps_fields (PROJECTION_SPECS kind)). read_back dp (pf_key f) = map_of payload (pf_source f)) \<and>
      p = rest @ [(PAYLOAD_HASH_KEY, JStr (dp_payload_hash dp))] \<and>
      dp_payload_hash dp = semantic_payload_hash body payload rest \<and>
      (\<exists>version. validate_object (RECORD_DEFINITIONS kind) payload = Accepted payload version) \<and>
      (\<forall>source. ps_head_source (PROJECTION_SPECS kind) = Some source \<longrightarrow> map_of payload source = Some (JStr head_sha))"
proof -
  obtain spec named digest where parts: "spec_for_payload (RECORD_DEFINITIONS kind) payload = Some spec"
    "valid_version spec payload" "project_fields (ps_fields (PROJECTION_SPECS kind)) payload = Inr named"
    "project_digest (ps_digest_source (PROJECTION_SPECS kind)) payload = Inr digest"
    and p: "p = named @ digest @ [(PAYLOAD_HASH_KEY, JStr (semantic_payload_hash body payload (named @ digest)))]"
    and head: "\<forall>source. ps_head_source (PROJECTION_SPECS kind) = Some source \<longrightarrow> map_of payload source = Some (JStr head_sha)"
    using assms by (rule build_Inr)
  note built = built_readable [OF parts p [unfolded semantic_payload_hash_def]]
  obtain dp where dp: "decode_record_projection kind p = Inr dp" "\<forall>key \<in> PROJECTION_KEYS. read_back dp key = map_of p key"
    using readable_decodes [OF built(1)] by blast
  have hash: "PAYLOAD_HASH_KEY \<in> PROJECTION_KEYS" by (simp add: PROJECTION_KEYS_def)
  have "read_back dp PAYLOAD_HASH_KEY = Some (JStr (dp_payload_hash dp))"
    by (simp add: read_back_def projection_key_defs)
  then have "dp_payload_hash dp = semantic_payload_hash body payload (named @ digest)"
    using dp(2) hash built(2) by (simp add: semantic_payload_hash_def)
  moreover have "read_back dp (pf_key f) = map_of payload (pf_source f)" if "f \<in> set (ps_fields (PROJECTION_SPECS kind))" for f
    using projection_keys_known that dp(2) built(3) [OF that] by fastforce
  moreover have "validate_object (RECORD_DEFINITIONS kind) payload = Accepted payload (version_of payload)"
    using parts(1,2) by (simp add: validate_object_Accepted)
  ultimately show ?thesis using dp(1) p head by (intro exI [of _ dp] exI [of _ "named @ digest"]) auto
qed

definition approval_payload :: payload where
  "approval_payload =
     [(''schema_version'', JInt 1), (''repository'', JStr ''r''), (''pr_number'', JInt 1),
      (''approved_head_sha'', JStr ''h''), (''merge_method'', JStr ''squash''), (''intent'', JStr ''APPROVE_MERGE''),
      (''input_route'', JStr ''u''), (''recorded_at'', JStr ''t''), (''comment_id'', JStr ''1'')]"

lemma approval_valid: "validate_object MERGE_APPROVAL approval_payload = Accepted approval_payload (Some 1)"
proof -
  have "code_points ''h'' = 1" "code_points ''r'' = 1" "code_points ''u'' = 1" "code_points ''t'' = 1" "code_points ''1'' = 1"
    by code_simp+
  then have "has_fields merge_approval_fields approval_payload"
    by (simp add: has_fields_def merge_approval_fields_def approval_payload_def field_defs has_type_simps MERGE_METHODS_def)
  then show ?thesis
    by (simp add: validate_object_Accepted version_of_def approval_payload_def spec_for_payload_def MERGE_APPROVAL_def
        single_version_def spec_at_def valid_version_def)
qed

theorem projection_read_back_witness:
  "\<exists>p dp. build_record_projection K_MERGE_APPROVAL approval_payload ''h'' ''Merge.'' = Inr p \<and>
     decode_record_projection K_MERGE_APPROVAL p = Inr dp \<and> read_back dp RESULT_KEY = Some (JStr ''squash'')"
proof -
  let ?named = "[(RESULT_KEY, JStr ''squash'')]"
  have "project_fields (ps_fields (PROJECTION_SPECS K_MERGE_APPROVAL)) approval_payload = Inr ?named"
    by (simp add: project_fields.simps spec_for_def field_of_def approval_payload_def projectable_def INTEGER_KEYS_def
        projection_key_defs)
  moreover have "map_of approval_payload ''approved_head_sha'' = Some (JStr ''h'')" by (simp add: approval_payload_def)
  ultimately have "build_record_projection K_MERGE_APPROVAL approval_payload ''h'' ''Merge.'' =
      Inr (?named @ [(PAYLOAD_HASH_KEY, JStr (semantic_payload_hash ''Merge.'' approval_payload ?named))])"
    by (simp add: build_record_projection_def Let_def approval_valid spec_for_def project_digest_def)
  then obtain p where p: "build_record_projection K_MERGE_APPROVAL approval_payload ''h'' ''Merge.'' = Inr p" by blast
  then obtain dp where "decode_record_projection K_MERGE_APPROVAL p = Inr dp"
    "\<forall>f \<in> set (ps_fields (PROJECTION_SPECS K_MERGE_APPROVAL)). read_back dp (pf_key f) = map_of approval_payload (pf_source f)"
    using projection_read_back by blast
  then show ?thesis using p by (auto simp: spec_for_def field_of_def approval_payload_def)
qed

end
