(* ===== verification/Pending.thy ===== *)
theory Pending
  imports Record_Chain
begin

text \<open>
  \<open>state/pending.py\<close>: a record that was interrupted before or during its posting is composed again from what the
  checkpoint kept, and either posted with the same text, or recognised among the verified records, or
  refused. The reasons of a refusal are names.
\<close>

record pending_transaction =
  pt_binding :: string
  pt_kind :: record_kind
  pt_seq :: int
  pt_head_sha :: string
  pt_payload_hash :: string
  pt_body :: string
  pt_projection :: "(string \<times> json) list"
  pt_body_hash :: "string option"
  pt_audit_prev :: "int option"
  pt_audit_prev_hash :: "string option"

datatype pending_outcome =
    PendingAbsent
  | PendingAlreadyPosted verified_record
  | PendingReissueRequired pending_transaction string string
  | PendingUnavailable string

section \<open>Reading the checkpoint\<close>

text \<open>The section of the checkpoint payload, a JSON value; \<open>None\<close> stands for a missing key.\<close>

definition projection_value_ok :: "json \<Rightarrow> bool" where
  "projection_value_ok v = (case v of JStr _ \<Rightarrow> True | JInt _ \<Rightarrow> True | _ \<Rightarrow> False)"

definition projection_of :: "json option \<Rightarrow> (string \<times> json) list option" where
  "projection_of section =
     (case section of
        Some (JObj items) \<Rightarrow>
          if list_all (\<lambda>(k, v). k \<in> PROJECTION_KEYS \<and> projection_value_ok v) items then Some items else None
      | _ \<Rightarrow> None)"

definition transaction_str :: "(string \<times> json) list \<Rightarrow> string \<Rightarrow> string + string" where
  "transaction_str section name =
     (case map_of section name of
        Some (JStr s) \<Rightarrow> if s = [] then Inl ''field'' else Inr s
      | _ \<Rightarrow> Inl ''field'')"

definition transaction_link :: "(string \<times> json) list \<Rightarrow> record_kind \<Rightarrow> int \<Rightarrow> string + unit" where
  "transaction_link section kind seq =
     (if map_of section ''audit_prev'' \<noteq> None then
        (case audit_link_error kind seq (map_of section ''audit_prev'') (map_of section ''audit_prev_hash'') of
           Some e \<Rightarrow> Inl e
         | None \<Rightarrow> bind_result (transaction_str section ''body_hash'') (\<lambda>_. Inr ()))
      else if map_of section ''audit_prev_hash'' \<noteq> None then Inl ''audit_prev_hash alone''
      else Inr ())"

definition read_section :: "(string \<times> json) list \<Rightarrow> string + pending_transaction" where
  "read_section section =
     bind_result (transaction_str section ''binding'') (\<lambda>binding.
     bind_result (transaction_str section ''kind'') (\<lambda>kind_text.
     bind_result (transaction_str section ''head_sha'') (\<lambda>head_sha.
     bind_result (transaction_str section ''payload_hash'') (\<lambda>payload_hash.
     bind_result (transaction_str section ''body'') (\<lambda>body.
       (case map_of section ''seq'' of
          Some (JInt seq) \<Rightarrow>
            if seq < 1 then Inl ''seq''
            else
              (case projection_of (map_of section ''projection'') of
                 None \<Rightarrow> Inl ''projection''
               | Some projection \<Rightarrow>
                   if map_of projection PAYLOAD_HASH_KEY \<noteq> Some (JStr payload_hash) then Inl ''projection''
                   else
                     (case kind_of_value kind_text of
                        None \<Rightarrow> Inl ''kind''
                      | Some kind \<Rightarrow>
                          bind_result (transaction_link section kind seq) (\<lambda>_.
                            Inr \<lparr>pt_binding = binding, pt_kind = kind, pt_seq = seq, pt_head_sha = head_sha,
                                 pt_payload_hash = payload_hash, pt_body = body, pt_projection = projection,
                                 pt_body_hash = as_str (map_of section ''body_hash''),
                                 pt_audit_prev = as_int (map_of section ''audit_prev''),
                                 pt_audit_prev_hash = as_str (map_of section ''audit_prev_hash'')\<rparr>)))
        | _ \<Rightarrow> Inl ''seq''))))))"

definition read_transaction :: "(string \<times> json) list \<Rightarrow> string + pending_transaction option" where
  "read_transaction payload =
     (case map_of payload ''transaction'' of
        None \<Rightarrow> Inr None
      | Some JNull \<Rightarrow> Inr None
      | Some (JObj section) \<Rightarrow> bind_result (read_section section) (\<lambda>t. Inr (Some t))
      | _ \<Rightarrow> Inl ''transaction'')"

section \<open>The evaluation\<close>

definition record_at :: "verified_record list \<Rightarrow> int \<Rightarrow> verified_record option" where
  "record_at records seq = map_of (rev (map (\<lambda>r. (vr_seq r, r)) records)) seq"

text \<open>The hash of the record that the pending one is linked to, or the reason why it cannot be determined.\<close>

definition previous_hash :: "pending_transaction \<Rightarrow> verified_record list \<Rightarrow> string + string option" where
  "previous_hash t records =
     (case pt_audit_prev t of
        Some a \<Rightarrow>
          (case audit_link_error (pt_kind t) (pt_seq t) (Some (JInt a)) (map_option JStr (pt_audit_prev_hash t)) of
             Some e \<Rightarrow> Inl e
           | None \<Rightarrow>
               (let anchor = max_default (filter (\<lambda>n. n < pt_seq t) (map vr_seq records)) in
                if anchor \<noteq> a then Inl ''anchor''
                else if anchor \<noteq> 0 \<and> map_option vr_body_hash (record_at records anchor) \<noteq> pt_audit_prev_hash t
                  then Inl ''anchor hash''
                else if pt_body_hash t = None then Inl ''body hash''
                else Inr (pt_audit_prev_hash t)))
      | None \<Rightarrow>
          if pt_seq t < 2 then Inr None
          else
            (case record_at records (pt_seq t - 1) of
               None \<Rightarrow> Inl ''previous record''
             | Some earlier \<Rightarrow> Inr (Some (vr_body_hash earlier))))"

text \<open>The complete text of the record, with its marker.\<close>

definition complete_body :: "pending_transaction \<Rightarrow> string \<Rightarrow> string option \<Rightarrow> string option" where
  "complete_body t run_id previous =
     (case compose_record_marker_payload (pt_binding t) (pt_kind t) run_id (pt_head_sha t) (pt_seq t) previous
             (pt_projection t) (pt_audit_prev t) of
        Inl _ \<Rightarrow> None
      | Inr payload \<Rightarrow> (case attach_marker (pt_body t) payload of Inl _ \<Rightarrow> None | Inr body \<Rightarrow> Some body))"

definition evaluate_pending :: "pending_transaction \<Rightarrow> string \<Rightarrow> verified_record list \<Rightarrow> pending_outcome" where
  "evaluate_pending t run_id records =
     (let occupant = record_at records (pt_seq t) in
      if (case occupant of Some r \<Rightarrow> vr_key r \<noteq> pt_binding t | None \<Rightarrow> False) then PendingUnavailable ''occupied''
      else
        (case previous_hash t records of
           Inl e \<Rightarrow> PendingUnavailable e
         | Inr previous \<Rightarrow>
             (case complete_body t run_id previous of
                None \<Rightarrow> PendingUnavailable ''marker''
              | Some body \<Rightarrow>
                  (let digest = body_hash_of body in
                   if (case pt_body_hash t of Some h \<Rightarrow> h \<noteq> digest | None \<Rightarrow> False)
                   then PendingUnavailable ''recorded hash''
                   else
                     (case occupant of
                        Some r \<Rightarrow>
                          if vr_body_hash r \<noteq> digest then PendingUnavailable ''posted body''
                          else PendingAlreadyPosted r
                      | None \<Rightarrow> PendingReissueRequired t body digest)))))"

end
