(* ===== verification/Pull_Request.thy ===== *)
theory Pull_Request
  imports Conversation
begin

text \<open>
  \<open>transport/pull_request.py\<close>: the metadata of a pull request, read from the JSON that GitHub answers.
\<close>

record unverified_pull_request =
  pr_number :: int
  pr_state :: string
  pr_merged :: bool
  pr_head_sha :: string
  pr_head_ref :: string
  pr_head_repository :: string
  pr_base_sha :: string
  pr_base_ref :: string
  pr_base_repository :: string
  pr_author_login :: "string option"
  pr_updated_at :: string

text \<open>The argument is what \<open>dict.get\<close> returns: \<open>None\<close> for a missing key. Both refuse with \<open>TransportError("metadata", ...)\<close>.\<close>

definition dict_value :: "json option \<Rightarrow> comment_error + (string \<times> json) list" where
  "dict_value v = (case v of Some (JObj items) \<Rightarrow> Inr items | _ \<Rightarrow> Inl MetadataError)"

definition str_value :: "json option \<Rightarrow> comment_error + string" where
  "str_value v = (case v of Some (JStr s) \<Rightarrow> Inr s | _ \<Rightarrow> Inl MetadataError)"

definition repository_of :: "(string \<times> json) list \<Rightarrow> comment_error + string" where
  "repository_of side =
     (case map_of side ''repo'' of
        None \<Rightarrow> Inr []
      | Some JNull \<Rightarrow> Inr []
      | Some v \<Rightarrow> bind_result (dict_value (Some v)) (\<lambda>r. str_value (map_of r ''full_name'')))"

definition side_of :: "(string \<times> json) list \<Rightarrow> string \<Rightarrow> comment_error + string \<times> string \<times> string" where
  "side_of data label =
     bind_result (dict_value (map_of data label)) (\<lambda>side.
     bind_result (str_value (map_of side ''sha'')) (\<lambda>sha.
     bind_result (str_value (map_of side ''ref'')) (\<lambda>ref.
     bind_result (repository_of side) (\<lambda>repository.
       Inr (sha, ref, repository)))))"

definition pull_author :: "(string \<times> json) list \<Rightarrow> comment_error + string option" where
  "pull_author body =
     (case map_of body ''user'' of
        None \<Rightarrow> Inr None
      | Some JNull \<Rightarrow> Inr None
      | Some v \<Rightarrow>
          bind_result (dict_value (Some v)) (\<lambda>user.
          bind_result (str_value (map_of user ''login'')) (\<lambda>login. Inr (Some login))))"

definition pull_request_from_json :: "json \<Rightarrow> comment_error + unverified_pull_request" where
  "pull_request_from_json data =
     bind_result (dict_value (Some data)) (\<lambda>body.
       (case map_of body ''number'' of
          Some (JInt number) \<Rightarrow>
            (case map_of body ''merged'' of
               Some (JBool merged) \<Rightarrow>
                 bind_result (pull_author body) (\<lambda>author.
                 bind_result (side_of body ''head'') (\<lambda>(head_sha, head_ref, head_repository).
                 bind_result (side_of body ''base'') (\<lambda>(base_sha, base_ref, base_repository).
                 bind_result (str_value (map_of body ''state'')) (\<lambda>state.
                 bind_result (str_value (map_of body ''updated_at'')) (\<lambda>updated.
                   Inr \<lparr>pr_number = number, pr_state = state, pr_merged = merged, pr_head_sha = head_sha,
                        pr_head_ref = head_ref, pr_head_repository = head_repository, pr_base_sha = base_sha,
                        pr_base_ref = base_ref, pr_base_repository = base_repository, pr_author_login = author,
                        pr_updated_at = updated\<rparr>)))))
             | _ \<Rightarrow> Inl MetadataError)
        | _ \<Rightarrow> Inl MetadataError))"

end
