(* ===== verification/Reconcile.thy ===== *)
theory Reconcile
  imports States Pull_Request Record_Chain
begin

text \<open>
  \<open>state/reconcile.py\<close>: on a resume the head that GitHub advertises is compared with the approvals of the
  verified records. The explanations for people (\<open>detail\<close>, \<open>reason\<close>) are left out.
\<close>

section \<open>Observations\<close>

record head_observation =
  ho_head_sha :: string
  ho_base_sha :: string
  ho_pull_state :: string
  ho_merged :: bool

text \<open>\<open>HeadUnobservable\<close> names the side whose SHA is malformed.\<close>

datatype head_unobservable = HeadUnobservable string

definition observe_head :: "unverified_pull_request \<Rightarrow> head_unobservable + head_observation" where
  "observe_head pull =
     (if \<not> is_hex 40 (pr_head_sha pull) then Inl (HeadUnobservable ''head'')
      else if \<not> is_hex 40 (pr_base_sha pull) then Inl (HeadUnobservable ''base'')
      else Inr \<lparr>ho_head_sha = pr_head_sha pull, ho_base_sha = pr_base_sha pull, ho_pull_state = pr_state pull,
                ho_merged = pr_merged pull\<rparr>)"

record checkpoint_heads =
  ch_observed_sha :: "string option"
  ch_approved_sha :: "string option"
  ch_base_sha :: "string option"
  ch_coder_pushed_sha :: "string option"

definition optional_sha :: "json option \<Rightarrow> string \<Rightarrow> string option" where
  "optional_sha section k =
     (case section of
        Some (JObj items) \<Rightarrow> (case map_of items k of Some (JStr s) \<Rightarrow> Some s | _ \<Rightarrow> None)
      | _ \<Rightarrow> None)"

definition read_checkpoint_heads :: "(string \<times> json) list \<Rightarrow> checkpoint_heads" where
  "read_checkpoint_heads payload =
     (let heads = map_of payload ''heads''; coder = map_of payload ''coder'' in
      \<lparr>ch_observed_sha = optional_sha heads ''observed_sha'', ch_approved_sha = optional_sha heads ''approved_sha'',
       ch_base_sha = optional_sha heads ''base_sha'', ch_coder_pushed_sha = optional_sha coder ''pushed_head_sha''\<rparr>)"

section \<open>Approvals\<close>

record approval_evidence =
  ae_kind :: record_kind
  ae_binding :: string
  ae_head_sha :: string
  ae_comment_id :: string
  ae_detail :: "string option"

datatype approval_state = Valid | Superseded | Voided

record approval_status =
  as_evidence :: approval_evidence
  as_state :: approval_state

definition is_approval :: "verified_record \<Rightarrow> bool" where
  "is_approval r \<longleftrightarrow>
     vr_kind r = K_MERGE_APPROVAL \<or>
     vr_kind r = K_REVIEW_RESULT \<and> dp_result (vr_projection r) = Some ''APPROVED''"

definition collect_approvals :: "verified_record list \<Rightarrow> approval_evidence list" where
  "collect_approvals records =
     map (\<lambda>r. \<lparr>ae_kind = vr_kind r, ae_binding = vr_key r, ae_head_sha = vr_head_sha r,
                ae_comment_id = vr_comment_id r, ae_detail = dp_result (vr_projection r)\<rparr>)
       (filter is_approval records)"

definition epoch_established :: "approval_evidence list \<Rightarrow> string \<Rightarrow> bool" where
  "epoch_established approvals head \<longleftrightarrow>
     list_ex (\<lambda>e. ae_kind e = K_REVIEW_RESULT \<and> ae_head_sha e = head) approvals"

definition evaluate_approvals :: "approval_evidence list \<Rightarrow> string \<Rightarrow> approval_status list" where
  "evaluate_approvals approvals head =
     (let superseded = epoch_established approvals head in
      map (\<lambda>e. \<lparr>as_evidence = e,
                 as_state = (if ae_head_sha e = head then Valid else if superseded then Superseded else Voided)\<rparr>)
        approvals)"

section \<open>The verdict\<close>

datatype head_change = Unchanged | CoderPush | ExternalUpdate | UnknownChange

definition classify_head :: "head_observation \<Rightarrow> checkpoint_heads \<Rightarrow> head_change" where
  "classify_head observation heads =
     (if ch_observed_sha heads = None then UnknownChange
      else if ch_observed_sha heads = Some (ho_head_sha observation) then Unchanged
      else if ch_coder_pushed_sha heads = Some (ho_head_sha observation) then CoderPush
      else ExternalUpdate)"

datatype resume_verdict = ResumeOk | FallbackRequired | SameHeadValidated

text \<open>\<open>HeadReconciliation\<close>, or \<open>ReconciliationStopped\<close> with the missing kinds; both carry what was observed.\<close>

record observed_facts =
  of_change :: head_change
  of_observation :: head_observation
  of_approvals :: "approval_status list"

datatype reconciliation_result =
    HeadReconciliation resume_verdict observed_facts
  | ReconciliationStopped "record_kind list" observed_facts

definition merge_gate_approvals :: "record_kind list" where
  "merge_gate_approvals = [K_MERGE_APPROVAL, K_REVIEW_RESULT]"

definition missing_approvals :: "approval_status list \<Rightarrow> record_kind list" where
  "missing_approvals statuses =
     filter (\<lambda>k. \<not> list_ex (\<lambda>s. as_state s = Valid \<and> ae_kind (as_evidence s) = k) statuses) merge_gate_approvals"

definition reconcile_head ::
  "head_observation \<Rightarrow> verified_record list \<Rightarrow> checkpoint_heads \<Rightarrow> state option \<Rightarrow> approval_evidence list \<Rightarrow>
   reconciliation_result" where
  "reconcile_head observation records heads checkpoint_state external_approvals =
     (let change = classify_head observation heads;
          statuses = evaluate_approvals (collect_approvals records @ external_approvals) (ho_head_sha observation);
          facts = \<lparr>of_change = change, of_observation = observation, of_approvals = statuses\<rparr> in
      if list_ex (\<lambda>s. as_state s = Voided) statuses then HeadReconciliation FallbackRequired facts
      else if change \<in> {CoderPush, ExternalUpdate} then HeadReconciliation FallbackRequired facts
      else if checkpoint_state = Some S_MERGE_FAILED
      then
        (let missing = missing_approvals statuses in
         if missing = [] then HeadReconciliation SameHeadValidated facts
         else ReconciliationStopped missing facts)
      else HeadReconciliation ResumeOk facts)"

section \<open>Laws\<close>

lemma status_state:
  assumes "s \<in> set (evaluate_approvals approvals head)"
  shows "as_evidence s \<in> set approvals"
    and "as_state s = Valid \<longleftrightarrow> ae_head_sha (as_evidence s) = head"
    and "as_state s = Superseded \<longleftrightarrow> ae_head_sha (as_evidence s) \<noteq> head \<and> epoch_established approvals head"
    and "as_state s = Voided \<longleftrightarrow> ae_head_sha (as_evidence s) \<noteq> head \<and> \<not> epoch_established approvals head"
  using assms by (auto simp: evaluate_approvals_def Let_def split: if_splits)

lemma evidence_of: "as_evidence ` set (evaluate_approvals approvals head) = set approvals"
  by (simp add: evaluate_approvals_def Let_def image_image)

lemma voided_iff:
  "list_ex (\<lambda>s. as_state s = Voided) (evaluate_approvals approvals head) \<longleftrightarrow>
   (\<exists>e \<in> set approvals. ae_head_sha e \<noteq> head) \<and> \<not> epoch_established approvals head"
  by (auto simp: list_ex_iff evaluate_approvals_def Let_def)

lemma missing_iff:
  "missing_approvals (evaluate_approvals approvals head) = [] \<longleftrightarrow>
   (\<forall>k \<in> {K_MERGE_APPROVAL, K_REVIEW_RESULT}. \<exists>e \<in> set approvals. ae_kind e = k \<and> ae_head_sha e = head)"
  by (auto simp: missing_approvals_def merge_gate_approvals_def list_ex_iff evaluate_approvals_def Let_def)

lemma collected_iff:
  "e \<in> set (collect_approvals records) \<longleftrightarrow>
   (\<exists>r \<in> set records. is_approval r \<and> ae_kind e = vr_kind r \<and> ae_binding e = vr_key r \<and>
      ae_head_sha e = vr_head_sha r \<and> ae_comment_id e = vr_comment_id r \<and> ae_detail e = dp_result (vr_projection r))"
  by (auto simp: collect_approvals_def image_iff)

end
