(* ===== verification/Transport_Properties.thy ===== *)
theory Transport_Properties
  imports Gh Pending Reconcile Record_Properties
begin

text \<open>
  The properties of the calls of the \<open>gh\<close> command (\<open>transport/gh.py\<close>), of the guarded JSON parser
  (\<open>schema/validate.py\<close>), of an interrupted record (\<open>state/pending.py\<close>) and of the reconciliation of a resumed
  run (\<open>state/reconcile.py\<close>).
\<close>

section \<open>Calls\<close>

text \<open>
  The guard in front of the JSON parser: whatever the bytes are, \<open>parse_json\<close> does not raise \<open>RecursionError\<close>,
  when the interpreter allows the depth of \<open>MAX_JSON_DEPTH\<close>; so a hostile text is refused as
  invalid JSON, unlike in \<open>extract_marker\<close>, which has no guard.
\<close>

theorem guarded_json_no_recursion:
  assumes "MAX_JSON_DEPTH \<le> recursion_budget py"
  shows "parse_json py s \<noteq> Inl RecursionError \<and> (utf8_ok s \<longrightarrow> decode_json_body py s \<noteq> Inl UncaughtRecursion)"
proof (intro conjI)
  show r: "parse_json py s \<noteq> Inl RecursionError" by (rule parse_json_no_recursion_error [OF assms])
  show "utf8_ok s \<longrightarrow> decode_json_body py s \<noteq> Inl UncaughtRecursion"
    using r by (auto simp: decode_json_body_def split: sum.splits json_error.splits)
qed

theorem guarded_json_no_recursion_witness:
  "parse_json \<lparr>recursion_budget = 1000, float_text = \<lambda>s. s, accepts_constants = True\<rparr> (replicate 5000 (CHR ''['')) \<noteq>
     Inl RecursionError"
  by (rule guarded_json_no_recursion [THEN conjunct1]) (simp add: MAX_JSON_DEPTH_def)

lemma run_gh_calls:
  assumes "\<And>c w. n (fst (gx_run cx c w)) = n w + (1::int)"
  shows "n (fst (run_gh_api cx rest body m w)) \<le> n w + 1"
  using assms [of "\<lparr>gc_argv = gx_command cx @ [''api'', ''--include''] @ rest, gc_body = body\<rparr>" w]
  by (auto simp: run_gh_api_def run_gh_def bind_def lift_def fail_def Let_def case_prod_beta
      split: sum.split process_result.split prod.split if_splits)

lemma run_gh_time:
  assumes "\<And>c w. t (fst (gx_run cx c w)) = (t w :: rat)"
  shows "t (fst (run_gh_api cx rest body m w)) = t w"
  using assms [of "\<lparr>gc_argv = gx_command cx @ [''api'', ''--include''] @ rest, gc_body = body\<rparr>" w]
  by (auto simp: run_gh_api_def run_gh_def bind_def lift_def fail_def Let_def case_prod_beta
      split: sum.split process_result.split prod.split if_splits)

lemma retry_bounded:
  assumes n: "\<And>w. n (fst (call w)) \<le> n w + (1::int)" "\<And>s w. n (rp_sleep policy s w) = n w"
    and t: "\<And>w. t (fst (call w)) = t w" "\<And>s w. t (rp_sleep policy s w) = t w + (s::rat)"
  shows "n (fst (retry_from call policy k w)) \<le> n w + max 1 (rp_max_attempts policy - k + 1) \<and>
    t (fst (retry_from call policy k w)) \<le> t w + rat_of_int (max 0 (rp_max_attempts policy - k)) * max 0 (rp_max_wait policy) \<and>
    (\<exists>v. retry_from call policy k w = call v)"
  using n t
proof (induction call policy k w rule: retry_from.induct)
  case (1 call policy k w)
  let ?r = "retry_from call policy"
  show ?case
  proof (cases "\<exists>w' f. call w = (w', Inl (GhApiError f)) \<and> gf_category f = Transient \<and> k < rp_max_attempts policy \<and>
      retry_wait policy f w' \<le> rp_max_wait policy")
    case False
    then have "?r k w = call w"
      by (subst retry_from.simps) (auto split: prod.splits sum.splits transport_error.splits)
    then show ?thesis using "1.prems"(1,3) [of w] by (auto intro: order_trans)
  next
    case True
    then obtain w' f where c: "call w = (w', Inl (GhApiError f))" "gf_category f = Transient"
      "k < rp_max_attempts policy" "retry_wait policy f w' \<le> rp_max_wait policy" by blast
    let ?s = "retry_wait policy f w'"
    have r: "?r k w = ?r (k + 1) (rp_sleep policy ?s w')" using c by (subst retry_from.simps) simp
    note IH = "1.IH" [OF c(1) [symmetric] refl refl _ _ "1.prems"]
    have IH: "n (fst (?r (k + 1) (rp_sleep policy ?s w'))) \<le>
        n (rp_sleep policy ?s w') + max 1 (rp_max_attempts policy - (k + 1) + 1) \<and>
      t (fst (?r (k + 1) (rp_sleep policy ?s w'))) \<le>
        t (rp_sleep policy ?s w') + rat_of_int (max 0 (rp_max_attempts policy - (k + 1))) * max 0 (rp_max_wait policy) \<and>
      (\<exists>v. ?r (k + 1) (rp_sleep policy ?s w') = call v)"
      using IH c by simp
    have "n w' \<le> n w + 1" "t w' = t w" using "1.prems"(1,3) [of w] c(1) by simp_all
    moreover have "rat_of_int (max 0 (rp_max_attempts policy - k)) =
        rat_of_int (max 0 (rp_max_attempts policy - (k + 1))) + 1"
      using c(3) by simp
    moreover have "?s \<le> max 0 (rp_max_wait policy)" using c(4) by simp
    ultimately show ?thesis using IH "1.prems"(2,4) c(3) unfolding r by (auto simp: algebra_simps)
  qed
qed

text \<open>
  C31. The retry of a reading call is bounded: however the command behaves, it is run at most \<open>max_attempts\<close> times (and
  once when this is less than one), the time slept in between is at most \<open>max_attempts - 1\<close> times the longest wait that the policy allows,
  and the result is the one of the last call. \<open>n\<close> counts the runs of the command, \<open>t\<close> is the clock.
\<close>

theorem retry_runs_bounded:
  assumes "\<And>c w. n (fst (gx_run cx c w)) = n w + (1::int)" and "\<And>s w. n (rp_sleep policy s w) = n w"
    and "\<And>c w. t (fst (gx_run cx c w)) = t w" and "\<And>s w. t (rp_sleep policy s w) = t w + (s::rat)"
  shows "n (fst (run_gh_api_with_retry cx rest m policy w)) \<le> n w + max 1 (rp_max_attempts policy) \<and>
    t (fst (run_gh_api_with_retry cx rest m policy w)) \<le>
      t w + rat_of_int (max 0 (rp_max_attempts policy - 1)) * max 0 (rp_max_wait policy) \<and>
    (\<exists>v. run_gh_api_with_retry cx rest m policy w = run_gh_api cx rest None m v)"
proof (intro conjI)
  note bound = retry_bounded [of n "run_gh_api cx rest None m" policy t 1 w]
  have "n (fst (run_gh_api cx rest None m v)) \<le> n v + 1" "t (fst (run_gh_api cx rest None m v)) = t v" for v
    by (rule run_gh_calls [where n = n and cx = cx, OF assms(1)], rule run_gh_time [where t = t and cx = cx, OF assms(3)])
  then show "n (fst (run_gh_api_with_retry cx rest m policy w)) \<le> n w + max 1 (rp_max_attempts policy)"
    "t (fst (run_gh_api_with_retry cx rest m policy w)) \<le>
      t w + rat_of_int (max 0 (rp_max_attempts policy - 1)) * max 0 (rp_max_wait policy)"
    "\<exists>v. run_gh_api_with_retry cx rest m policy w = run_gh_api cx rest None m v"
    using bound assms(2,4) unfolding run_gh_api_with_retry_def by simp_all
qed

text \<open>A world with a counter and a clock, in which the command never answers.\<close>

definition silent_context :: "(int \<times> rat) gh_context" where
  "silent_context =
     \<lparr>gx_command = [''gh''], gx_body_path = ''b'',
      gx_python = \<lparr>recursion_budget = 1000, float_text = \<lambda>s. s, accepts_constants = True\<rparr>,
      gx_run = \<lambda>c (n, t). ((n + 1, t), GhCompleted 1 [])\<rparr>"

definition patient_policy :: "(int \<times> rat) retry_policy" where
  "patient_policy =
     \<lparr>rp_max_attempts = 3, rp_backoff = 2, rp_max_wait = 5, rp_sleep = \<lambda>s (n, t). (n, t + s), rp_now = snd\<rparr>"

theorem retry_runs_bounded_witness:
  "fst (fst (run_gh_api_with_retry silent_context [''x''] 10 patient_policy (0, 0))) \<le> 3 \<and>
   snd (fst (run_gh_api_with_retry silent_context [''x''] 10 patient_policy (0, 0))) \<le> 10"
proof -
  let ?r = "run_gh_api_with_retry silent_context [''x''] 10 patient_policy (0, 0)"
  have "fst (fst ?r) \<le> fst ((0, 0) :: int \<times> rat) + max 1 (rp_max_attempts patient_policy) \<and>
      snd (fst ?r) \<le> snd ((0, 0) :: int \<times> rat) +
        rat_of_int (max 0 (rp_max_attempts patient_policy - 1)) * max 0 (rp_max_wait patient_policy) \<and>
      (\<exists>v. ?r = run_gh_api silent_context [''x''] None 10 v)"
    by (rule retry_runs_bounded) (simp_all add: silent_context_def patient_policy_def case_prod_beta)
  then show ?thesis by (simp add: patient_policy_def)
qed

section \<open>A record that was interrupted\<close>

lemma record_at_snoc:
  "record_at (records @ [r]) seq = (if seq = vr_seq r then Some r else record_at records seq)"
  by (simp add: record_at_def)

lemma anchor_before: "max_default (filter (\<lambda>n. n < k) ns) \<noteq> 0 \<Longrightarrow> max_default (filter (\<lambda>n. n < k) ns) < k"
proof -
  assume "max_default (filter (\<lambda>n. n < k) ns) \<noteq> 0"
  then have ne: "filter (\<lambda>n. n < k) ns \<noteq> []" by (auto simp: max_default_def)
  then have "Max (set (filter (\<lambda>n. n < k) ns)) \<in> set (filter (\<lambda>n. n < k) ns)" by (intro Max_in) (auto simp: filter_empty_conv)
  then show ?thesis using ne by (simp add: max_default_def)
qed

lemma previous_hash_snoc:
  assumes "vr_seq r = pt_seq t"
  shows "previous_hash t (records @ [r]) = previous_hash t records"
proof -
  let ?anchor = "max_default (filter (\<lambda>n. n < pt_seq t) (map vr_seq records))"
  have f: "filter (\<lambda>n. n < pt_seq t) (map vr_seq (records @ [r])) = filter (\<lambda>n. n < pt_seq t) (map vr_seq records)"
    using assms by simp
  have a: "?anchor \<noteq> 0 \<Longrightarrow> record_at (records @ [r]) ?anchor = record_at records ?anchor"
    using anchor_before [of "pt_seq t" "map vr_seq records"] assms by (simp add: record_at_snoc)
  have b: "record_at (records @ [r]) (pt_seq t - 1) = record_at records (pt_seq t - 1)"
    using assms by (simp add: record_at_snoc)
  show ?thesis
    unfolding previous_hash_def f Let_def b using a by (cases "?anchor = 0") (simp_all only: simp_thms)
qed

text \<open>
  An interrupted record is posted once: when its evaluation asks for a reissue, the text has the hash that
  the checkpoint kept, if it kept one; and once a comment with this text is among the
  verified records, the same evaluation recognises it instead of asking again, while a record with another
  key or another text at its number makes the run stop.
\<close>

theorem reissued_once:
  assumes "evaluate_pending t run_id records = PendingReissueRequired t' body digest" and "vr_seq r = pt_seq t"
  shows "(t' = t \<and> digest = body_hash_of body \<and> record_at records (pt_seq t) = None \<and>
      (pt_body_hash t = None \<or> pt_body_hash t = Some digest)) \<and>
    evaluate_pending t run_id (records @ [r]) =
      (if vr_key r = pt_binding t \<and> vr_body_hash r = digest then PendingAlreadyPosted r
       else if vr_key r = pt_binding t then PendingUnavailable ''posted body''
       else PendingUnavailable ''occupied'')"
proof (rule conjI)
  obtain previous where previous: "previous_hash t records = Inr previous" "complete_body t run_id previous = Some body"
    and r: "t' = t" "digest = body_hash_of body" "record_at records (pt_seq t) = None"
      "pt_body_hash t = None \<or> pt_body_hash t = Some digest"
    using assms(1) by (auto simp: evaluate_pending_def Let_def split: option.splits if_splits sum.splits)
  then show "t' = t \<and> digest = body_hash_of body \<and> record_at records (pt_seq t) = None \<and>
      (pt_body_hash t = None \<or> pt_body_hash t = Some digest)" by blast
  have "previous_hash t (records @ [r]) = Inr previous" using previous(1) previous_hash_snoc [OF assms(2)] by simp
  then show "evaluate_pending t run_id (records @ [r]) =
      (if vr_key r = pt_binding t \<and> vr_body_hash r = digest then PendingAlreadyPosted r
       else if vr_key r = pt_binding t then PendingUnavailable ''posted body''
       else PendingUnavailable ''occupied'')"
    using previous(2) r assms(2) by (auto simp: evaluate_pending_def record_at_snoc Let_def)
qed

definition sample_transaction :: pending_transaction where
  "sample_transaction =
     \<lparr>pt_binding = ''k1'', pt_kind = K_GATE_ANSWER, pt_seq = 1, pt_head_sha = ''abc'',
      pt_payload_hash = replicate 64 CHR ''a'', pt_body = ''The answer.'', pt_projection = sample_projection,
      pt_body_hash = None, pt_audit_prev = None, pt_audit_prev_hash = None\<rparr>"

definition sample_record :: verified_record where
  "sample_record =
     \<lparr>vr_seq = 1, vr_kind = K_GATE_ANSWER, vr_key = ''k1'', vr_comment_id = ''11'', vr_url = ''u'',
      vr_body = sample_text, vr_body_hash = body_hash_of sample_text, vr_author_login = ''reviewer'',
      vr_head_sha = ''abc'', vr_created_at = ''t'', vr_projection = sample_decoded\<rparr>"

theorem reissued_once_witness:
  "evaluate_pending sample_transaction ''run1'' [] =
     PendingReissueRequired sample_transaction sample_text (body_hash_of sample_text) \<and>
   evaluate_pending sample_transaction ''run1'' ([] @ [sample_record]) = PendingAlreadyPosted sample_record"
proof -
  have "evaluate_pending sample_transaction ''run1'' [] =
      PendingReissueRequired sample_transaction sample_text (body_hash_of sample_text)"
    using sample_composed sample_attached
    by (simp add: evaluate_pending_def record_at_def previous_hash_def complete_body_def sample_transaction_def)
  then show ?thesis
    using reissued_once [of sample_transaction "''run1''" "[]" sample_transaction sample_text
        "body_hash_of sample_text" sample_record]
    by (simp add: sample_transaction_def sample_record_def)
qed

section \<open>The reconciliation of a resumed run\<close>

text \<open>
  C40. A run is resumed where it stood only when no approval is stale: without a fallback to a fresh review, the advertised head is the observed one
  or nothing was observed, and every approval, of the verified records or from outside, is for the
  advertised head, or a review of this head was approved. A run whose merge failed is
  resumed only when both a merge approval and an approved review exist for exactly this head.
\<close>

theorem resumed_without_stale_approvals:
  assumes "reconcile_head observation records heads checkpoint_state external = HeadReconciliation verdict facts"
    and "verdict \<noteq> FallbackRequired"
  defines "approvals \<equiv> set (collect_approvals records) \<union> set external"
  shows "ch_observed_sha heads \<in> {None, Some (ho_head_sha observation)} \<and>
    (\<forall>e \<in> approvals. ae_head_sha e = ho_head_sha observation \<or>
      (\<exists>review \<in> approvals. ae_kind review = K_REVIEW_RESULT \<and> ae_head_sha review = ho_head_sha observation)) \<and>
    (verdict = SameHeadValidated \<longleftrightarrow> checkpoint_state = Some S_MERGE_FAILED) \<and>
    (checkpoint_state = Some S_MERGE_FAILED \<longrightarrow> (\<forall>kind \<in> {K_MERGE_APPROVAL, K_REVIEW_RESULT}.
      \<exists>e \<in> approvals. ae_kind e = kind \<and> ae_head_sha e = ho_head_sha observation))"
proof (intro conjI)
  let ?statuses = "evaluate_approvals (collect_approvals records @ external) (ho_head_sha observation)"
  have not_voided: "\<not> list_ex (\<lambda>s. as_state s = Voided) ?statuses"
    and change: "classify_head observation heads \<notin> {CoderPush, ExternalUpdate}"
    and v: "verdict = SameHeadValidated \<longleftrightarrow> checkpoint_state = Some S_MERGE_FAILED"
    and missing: "checkpoint_state = Some S_MERGE_FAILED \<longrightarrow> missing_approvals ?statuses = []"
    using assms(1,2) by (auto simp: reconcile_head_def Let_def split: if_splits)
  show "ch_observed_sha heads \<in> {None, Some (ho_head_sha observation)}"
    using change by (auto simp: classify_head_def split: if_splits)
  show "\<forall>e \<in> approvals. ae_head_sha e = ho_head_sha observation \<or>
      (\<exists>review \<in> approvals. ae_kind review = K_REVIEW_RESULT \<and> ae_head_sha review = ho_head_sha observation)"
    using not_voided unfolding voided_iff epoch_established_def approvals_def by (auto simp: list_ex_iff)
  show "checkpoint_state = Some S_MERGE_FAILED \<longrightarrow> (\<forall>kind \<in> {K_MERGE_APPROVAL, K_REVIEW_RESULT}.
      \<exists>e \<in> approvals. ae_kind e = kind \<and> ae_head_sha e = ho_head_sha observation)"
    using missing unfolding missing_iff approvals_def by auto
qed (use assms in \<open>auto simp: reconcile_head_def Let_def split: if_splits\<close>)

definition merge_evidence :: "record_kind \<Rightarrow> approval_evidence" where
  "merge_evidence kind =
     \<lparr>ae_kind = kind, ae_binding = ''b'', ae_head_sha = ''h'', ae_comment_id = ''1'', ae_detail = Some ''APPROVED''\<rparr>"

theorem resumed_without_stale_approvals_witness:
  "let o1 = \<lparr>ho_head_sha = ''h'', ho_base_sha = ''b'', ho_pull_state = ''open'', ho_merged = False\<rparr>;
       hs = \<lparr>ch_observed_sha = Some ''h'', ch_approved_sha = None, ch_base_sha = None, ch_coder_pushed_sha = None\<rparr>;
       ext = [merge_evidence K_MERGE_APPROVAL, merge_evidence K_REVIEW_RESULT] in
   \<exists>facts. reconcile_head o1 [] hs (Some S_MERGE_FAILED) ext = HeadReconciliation SameHeadValidated facts \<and>
     ch_observed_sha hs \<in> {None, Some (ho_head_sha o1)}"
proof -
  let ?o = "\<lparr>ho_head_sha = ''h'', ho_base_sha = ''b'', ho_pull_state = ''open'', ho_merged = False\<rparr>"
  let ?hs = "\<lparr>ch_observed_sha = Some ''h'', ch_approved_sha = None, ch_base_sha = None, ch_coder_pushed_sha = None\<rparr>"
  let ?ext = "[merge_evidence K_MERGE_APPROVAL, merge_evidence K_REVIEW_RESULT]"
  have "\<exists>facts. reconcile_head ?o [] ?hs (Some S_MERGE_FAILED) ?ext = HeadReconciliation SameHeadValidated facts"
    by (simp add: reconcile_head_def Let_def classify_head_def evaluate_approvals_def collect_approvals_def
        epoch_established_def merge_evidence_def missing_approvals_def merge_gate_approvals_def)
  then obtain facts where
    facts: "reconcile_head ?o [] ?hs (Some S_MERGE_FAILED) ?ext = HeadReconciliation SameHeadValidated facts" by blast
  have "ch_observed_sha ?hs \<in> {None, Some (ho_head_sha ?o)}"
    by (rule resumed_without_stale_approvals [OF facts, THEN conjunct1]) simp
  then show ?thesis using facts by (simp add: Let_def)
qed

end
