(* ===== verification/Checkpoint_Sections.thy ===== *)
theory Checkpoint_Sections
  imports Checkpoint_View
begin

text \<open>
  The other sections of \<open>workflow/checkpoint_view.py\<close>: the pending host action and the ledger of accepted
  submissions, the request to the user, the recorded violations, the process trees and the request to stop.
\<close>

section \<open>Host actions: reading\<close>

record pending_action =
  pa_action_id :: string
  pa_action_kind :: string
  pa_nonce :: string
  pa_expected_head_sha :: string
  pa_result_path :: string
  pa_envelope_path :: string
  pa_envelope_hash :: string
  pa_correlation_id :: string
  pa_attempt :: int
  pa_issued_at :: "string option"

record submit_receipt =
  sr_action_id :: string
  sr_nonce :: string
  sr_outcome :: string
  sr_submit_hash :: string
  sr_result_hash :: string
  sr_result_kind :: "record_kind option"
  sr_error_category :: "error_category option"
  sr_accepted_at :: "string option"

definition read_pending_entry :: "payload \<Rightarrow> string + pending_action" where
  "read_pending_entry items =
     bind_result (required_text items ''action_id'') (\<lambda>action_id.
     bind_result (required_text items ''action_kind'') (\<lambda>action_kind.
     bind_result (required_text items ''nonce'') (\<lambda>nonce.
     bind_result (required_text items ''expected_head_sha'') (\<lambda>head.
     bind_result (required_text items ''result_path'') (\<lambda>result_path.
     bind_result (required_text items ''envelope_path'') (\<lambda>envelope_path.
     bind_result (required_text items ''envelope_hash'') (\<lambda>envelope_hash.
       (case (case map_of items ''attempt'' of None \<Rightarrow> JInt 1 | Some v \<Rightarrow> v) of
          JInt attempt \<Rightarrow>
            if attempt < 1 then Inl ''attempt''
            else Inr
              \<lparr>pa_action_id = action_id, pa_action_kind = action_kind, pa_nonce = nonce, pa_expected_head_sha = head,
               pa_result_path = result_path, pa_envelope_path = envelope_path, pa_envelope_hash = envelope_hash,
               pa_correlation_id = (case text_of items ''correlation_id'' of Some c \<Rightarrow> c | None \<Rightarrow> action_id),
               pa_attempt = attempt, pa_issued_at = text_of items ''issued_at''\<rparr>
        | _ \<Rightarrow> Inl ''attempt''))))))))"

definition read_pending_action :: "payload \<Rightarrow> string + pending_action option" where
  "read_pending_action payload =
     bind_result (section_of payload ''host_action'') (\<lambda>section.
       case section of None \<Rightarrow> Inr None
       | Some items \<Rightarrow>
           bind_result (section_of items ''pending'') (\<lambda>pending.
             case pending of None \<Rightarrow> Inr None
             | Some entry \<Rightarrow> bind_result (read_pending_entry entry) (\<lambda>a. Inr (Some a))))"

definition receipt_of :: "json \<Rightarrow> string + submit_receipt" where
  "receipt_of entry =
     (case entry of
        JObj items \<Rightarrow>
          bind_result (required_text items ''action_id'') (\<lambda>action_id.
          bind_result (required_text items ''nonce'') (\<lambda>nonce.
          bind_result (required_text items ''outcome'') (\<lambda>outcome.
          bind_result (required_text items ''submit_hash'') (\<lambda>submit_hash.
          bind_result (required_text items ''result_hash'') (\<lambda>result_hash.
          bind_result (optional_member kind_of_value (text_of items ''result_kind'') ''result_kind'') (\<lambda>kind.
          bind_result (optional_member error_category_of_value (text_of items ''error_category'') ''error_category'')
            (\<lambda>category.
            Inr \<lparr>sr_action_id = action_id, sr_nonce = nonce, sr_outcome = outcome, sr_submit_hash = submit_hash,
                 sr_result_hash = result_hash, sr_result_kind = kind, sr_error_category = category,
                 sr_accepted_at = text_of items ''accepted_at''\<rparr>)))))))
      | _ \<Rightarrow> Inl ''receipt'')"

definition read_receipts :: "payload \<Rightarrow> string + submit_receipt list" where
  "read_receipts payload =
     bind_result (section_of payload ''host_action'') (\<lambda>section.
       case section of None \<Rightarrow> Inr []
       | Some items \<Rightarrow>
           (case get items ''receipts'' of
              None \<Rightarrow> Inr []
            | Some (JArr entries) \<Rightarrow> map_result receipt_of entries
            | Some _ \<Rightarrow> Inl ''receipts''))"

fun find_receipt :: "submit_receipt list \<Rightarrow> string \<Rightarrow> string \<Rightarrow> submit_receipt option" where
  "find_receipt [] action_id nonce = None"
| "find_receipt (r # rs) action_id nonce =
     (if sr_action_id r = action_id \<and> sr_nonce r = nonce then Some r else find_receipt rs action_id nonce)"

section \<open>Host actions: writing\<close>

text \<open>\<open>_with_section\<close>: an empty section is removed.\<close>

definition with_section :: "string \<Rightarrow> payload \<Rightarrow> payload \<Rightarrow> payload" where
  "with_section name payload items =
     (if items = [] then AList.delete name payload else AList.update name (JObj items) payload)"

definition optional_text :: "string option \<Rightarrow> json option" where "optional_text s = map_option JStr s"

definition pending_section :: "pending_action \<Rightarrow> payload" where
  "pending_section a =
     set_optional ''issued_at'' (optional_text (pa_issued_at a))
       [(''action_id'', JStr (pa_action_id a)), (''action_kind'', JStr (pa_action_kind a)),
        (''nonce'', JStr (pa_nonce a)), (''expected_head_sha'', JStr (pa_expected_head_sha a)),
        (''result_path'', JStr (pa_result_path a)), (''envelope_path'', JStr (pa_envelope_path a)),
        (''envelope_hash'', JStr (pa_envelope_hash a)), (''correlation_id'', JStr (pa_correlation_id a)),
        (''attempt'', JInt (pa_attempt a))]"

definition with_retry_attempt :: "payload \<Rightarrow> pending_action \<Rightarrow> payload" where
  "with_retry_attempt payload a =
     with_section ''host_action'' payload
       (AList.update ''pending'' (JObj (pending_section a)) (object_at payload ''host_action''))"

definition with_new_logical_action :: "payload \<Rightarrow> pending_action \<Rightarrow> payload" where
  "with_new_logical_action payload a =
     with_section ''host_action'' payload
       (AList.update ''pending'' (JObj (pending_section a))
         (AList.delete ''receipts'' (object_at payload ''host_action'')))"

definition without_pending_action :: "payload \<Rightarrow> payload" where
  "without_pending_action payload =
     with_section ''host_action'' payload (AList.delete ''pending'' (object_at payload ''host_action''))"

definition receipt_entry :: "submit_receipt \<Rightarrow> payload" where
  "receipt_entry r =
     set_optional ''accepted_at'' (optional_text (sr_accepted_at r))
     (set_optional ''error_category'' (map_option (JStr \<circ> error_category_value) (sr_error_category r))
     (set_optional ''result_kind'' (map_option (JStr \<circ> kind_value) (sr_result_kind r))
       [(''action_id'', JStr (sr_action_id r)), (''nonce'', JStr (sr_nonce r)), (''outcome'', JStr (sr_outcome r)),
        (''submit_hash'', JStr (sr_submit_hash r)), (''result_hash'', JStr (sr_result_hash r))]))"

definition with_receipt :: "payload \<Rightarrow> submit_receipt \<Rightarrow> payload" where
  "with_receipt payload r =
     (let items = object_at payload ''host_action'';
          ledger = (case map_of items ''receipts'' of Some (JArr entries) \<Rightarrow> entries | _ \<Rightarrow> []) in
      with_section ''host_action'' payload
        (AList.update ''receipts'' (JArr (ledger @ [JObj (receipt_entry r)])) items))"

definition next_attempt ::
  "pending_action \<Rightarrow> string \<Rightarrow> string \<Rightarrow> string \<Rightarrow> string \<Rightarrow> string \<Rightarrow> string \<Rightarrow> pending_action" where
  "next_attempt a action_id nonce result_path envelope_path envelope_hash issued_at =
     a\<lparr>pa_action_id := action_id, pa_nonce := nonce, pa_result_path := result_path,
       pa_envelope_path := envelope_path, pa_envelope_hash := envelope_hash, pa_attempt := pa_attempt a + 1,
       pa_issued_at := Some issued_at\<rparr>"

section \<open>Requests to the user\<close>

record pending_user_request =
  pu_request_id :: string
  pu_awaiting :: "awaiting option"
  pu_nonce :: string
  pu_expected_head_sha :: string
  pu_result_path :: string
  pu_envelope_path :: string
  pu_envelope_hash :: string
  pu_since_seq :: int
  pu_block_binding :: "string option"
  pu_issued_at :: "string option"

definition waits_for_block :: "pending_user_request \<Rightarrow> bool" where
  "waits_for_block r \<longleftrightarrow> pu_block_binding r \<noteq> None"

record user_request_receipt =
  ur_request_id :: string
  ur_nonce :: string
  ur_submit_hash :: string
  ur_result_hash :: string
  ur_intent_key :: "string option"
  ur_result_kind :: "record_kind option"
  ur_accepted_at :: "string option"

record consumed_intent =
  ci_intent_key :: string
  ci_binding :: string
  ci_route :: string

text \<open>\<open>_entry_of(_user_section(payload), name)\<close>\<close>

definition user_entry :: "payload \<Rightarrow> string \<Rightarrow> string + payload option" where
  "user_entry payload name =
     bind_result (section_of payload ''user_request'') (\<lambda>section.
       case section of None \<Rightarrow> Inr None | Some items \<Rightarrow> section_of items name)"

definition read_request_entry :: "payload \<Rightarrow> string + pending_user_request" where
  "read_request_entry items =
     bind_result (required_text items ''request_id'') (\<lambda>request_id.
     bind_result (required_text items ''nonce'') (\<lambda>nonce.
     bind_result (required_text items ''expected_head_sha'') (\<lambda>head.
     bind_result (required_text items ''result_path'') (\<lambda>result_path.
     bind_result (required_text items ''envelope_path'') (\<lambda>envelope_path.
     bind_result (required_text items ''envelope_hash'') (\<lambda>envelope_hash.
       (case map_of items ''since_seq'' of
          Some (JInt since) \<Rightarrow>
            if since < 0 then Inl ''since_seq''
            else if (text_of items ''awaiting'' = None) = (text_of items ''block_binding'' = None)
            then Inl ''awaiting or block_binding''
            else
              bind_result (optional_member awaiting_of_value (text_of items ''awaiting'') ''awaiting'') (\<lambda>awaiting.
                Inr \<lparr>pu_request_id = request_id, pu_awaiting = awaiting, pu_nonce = nonce,
                     pu_expected_head_sha = head, pu_result_path = result_path, pu_envelope_path = envelope_path,
                     pu_envelope_hash = envelope_hash, pu_since_seq = since,
                     pu_block_binding = text_of items ''block_binding'', pu_issued_at = text_of items ''issued_at''\<rparr>)
        | _ \<Rightarrow> Inl ''since_seq'')))))))"

definition read_user_request :: "payload \<Rightarrow> string + pending_user_request option" where
  "read_user_request payload =
     bind_result (user_entry payload ''pending'') (\<lambda>entry.
       case entry of None \<Rightarrow> Inr None | Some items \<Rightarrow> bind_result (read_request_entry items) (\<lambda>r. Inr (Some r)))"

definition read_receipt_entry :: "payload \<Rightarrow> string + user_request_receipt" where
  "read_receipt_entry items =
     bind_result (required_text items ''request_id'') (\<lambda>request_id.
     bind_result (required_text items ''nonce'') (\<lambda>nonce.
     bind_result (required_text items ''submit_hash'') (\<lambda>submit_hash.
     bind_result (required_text items ''result_hash'') (\<lambda>result_hash.
     bind_result (optional_member kind_of_value (text_of items ''result_kind'') ''result_kind'') (\<lambda>kind.
       Inr \<lparr>ur_request_id = request_id, ur_nonce = nonce, ur_submit_hash = submit_hash, ur_result_hash = result_hash,
            ur_intent_key = text_of items ''intent_key'', ur_result_kind = kind,
            ur_accepted_at = text_of items ''accepted_at''\<rparr>)))))"

definition read_user_receipt :: "payload \<Rightarrow> string + user_request_receipt option" where
  "read_user_receipt payload =
     bind_result (user_entry payload ''receipt'') (\<lambda>entry.
       case entry of None \<Rightarrow> Inr None | Some items \<Rightarrow> bind_result (read_receipt_entry items) (\<lambda>r. Inr (Some r)))"

definition read_consumed_intent :: "payload \<Rightarrow> string + consumed_intent option" where
  "read_consumed_intent payload =
     bind_result (user_entry payload ''consumed'') (\<lambda>entry.
       case entry of None \<Rightarrow> Inr None
       | Some items \<Rightarrow>
           bind_result (required_text items ''intent_key'') (\<lambda>intent_key.
           bind_result (required_text items ''binding'') (\<lambda>binding.
           bind_result (required_text items ''route'') (\<lambda>route.
             Inr (Some \<lparr>ci_intent_key = intent_key, ci_binding = binding, ci_route = route\<rparr>)))))"

record user_request_state =
  us_pending :: "pending_user_request option"
  us_receipt :: "user_request_receipt option"
  us_consumed :: "consumed_intent option"

definition read_user_section :: "payload \<Rightarrow> string + user_request_state" where
  "read_user_section payload =
     bind_result (read_user_request payload) (\<lambda>pending.
     bind_result (read_user_receipt payload) (\<lambda>receipt.
     bind_result (read_consumed_intent payload) (\<lambda>consumed.
       Inr \<lparr>us_pending = pending, us_receipt = receipt, us_consumed = consumed\<rparr>)))"

definition request_entry :: "pending_user_request \<Rightarrow> payload" where
  "request_entry r =
     set_optional ''issued_at'' (optional_text (pu_issued_at r))
     (set_optional ''block_binding'' (optional_text (pu_block_binding r))
     (set_optional ''awaiting'' (map_option (JStr \<circ> awaiting_value) (pu_awaiting r))
       [(''request_id'', JStr (pu_request_id r)), (''nonce'', JStr (pu_nonce r)),
        (''expected_head_sha'', JStr (pu_expected_head_sha r)), (''result_path'', JStr (pu_result_path r)),
        (''envelope_path'', JStr (pu_envelope_path r)), (''envelope_hash'', JStr (pu_envelope_hash r)),
        (''since_seq'', JInt (pu_since_seq r))]))"

definition with_user_request :: "payload \<Rightarrow> pending_user_request \<Rightarrow> payload" where
  "with_user_request payload r =
     with_section ''user_request'' payload [(''pending'', JObj (request_entry r))]"

definition without_user_request :: "payload \<Rightarrow> payload" where
  "without_user_request payload =
     with_section ''user_request'' payload (AList.delete ''pending'' (object_at payload ''user_request''))"

definition with_user_receipt :: "payload \<Rightarrow> user_request_receipt \<Rightarrow> payload" where
  "with_user_receipt payload r =
     with_section ''user_request'' payload
       (AList.update ''receipt''
         (JObj
           (set_optional ''accepted_at'' (optional_text (ur_accepted_at r))
           (set_optional ''result_kind'' (map_option (JStr \<circ> kind_value) (ur_result_kind r))
           (set_optional ''intent_key'' (optional_text (ur_intent_key r))
             [(''request_id'', JStr (ur_request_id r)), (''nonce'', JStr (ur_nonce r)),
              (''submit_hash'', JStr (ur_submit_hash r)), (''result_hash'', JStr (ur_result_hash r))]))))
         (object_at payload ''user_request''))"

definition with_consumed_intent :: "payload \<Rightarrow> consumed_intent \<Rightarrow> payload" where
  "with_consumed_intent payload c =
     with_section ''user_request'' payload
       (AList.update ''consumed''
         (JObj [(''intent_key'', JStr (ci_intent_key c)), (''binding'', JStr (ci_binding c)),
                (''route'', JStr (ci_route c))])
         (object_at payload ''user_request''))"

section \<open>Recorded violations\<close>

fun all_texts :: "json list \<Rightarrow> string list option" where
  "all_texts [] = Some []"
| "all_texts (JStr s # vs) = map_option (\<lambda>t. s # t) (all_texts vs)"
| "all_texts (_ # vs) = None"

definition read_recorded_violations :: "payload \<Rightarrow> string + string list" where
  "read_recorded_violations payload =
     bind_result (section_of payload ''incident_record'') (\<lambda>section.
       case section of None \<Rightarrow> Inr []
       | Some items \<Rightarrow>
           (case get items ''recorded_bindings'' of
              None \<Rightarrow> Inr []
            | Some (JArr vs) \<Rightarrow>
                (case all_texts vs of None \<Rightarrow> Inl ''recorded_bindings'' | Some texts \<Rightarrow> Inr texts)
            | Some _ \<Rightarrow> Inl ''recorded_bindings''))"

definition with_recorded_violations :: "payload \<Rightarrow> string list \<Rightarrow> string + payload" where
  "with_recorded_violations payload bindings =
     bind_result (read_recorded_violations payload) (\<lambda>known.
       Inr (AList.update ''incident_record''
         (JObj [(''recorded_bindings'', JArr (map JStr (sort (remdups (known @ bindings)))))]) payload))"

section \<open>Process trees\<close>

datatype tree_ref = JobObjectRef int string | ProcessGroupRef int int

fun positive_int :: "json option \<Rightarrow> int option" where
  "positive_int (Some (JInt i)) = (if i < 1 then None else Some i)"
| "positive_int _ = None"

definition tree_ref_of :: "json \<Rightarrow> string + tree_ref" where
  "tree_ref_of entry =
     (case entry of
        JObj items \<Rightarrow>
          (case positive_int (map_of items ''pid'') of
             None \<Rightarrow> Inl ''pid''
           | Some pid \<Rightarrow>
               if text_of items ''kind'' = Some JOB_OBJECT_TREE
               then bind_result (required_text items ''job_name'') (\<lambda>job. Inr (JobObjectRef pid job))
               else if text_of items ''kind'' = Some PROCESS_GROUP_TREE
               then (case positive_int (map_of items ''pgid'') of
                       None \<Rightarrow> Inl ''pgid''
                     | Some pgid \<Rightarrow> Inr (ProcessGroupRef pid pgid))
               else Inl ''tree kind'')
      | _ \<Rightarrow> Inl ''tree'')"

definition read_active_trees :: "payload \<Rightarrow> string + tree_ref list" where
  "read_active_trees payload =
     bind_result (section_of payload ''processes'') (\<lambda>section.
       case section of None \<Rightarrow> Inr []
       | Some items \<Rightarrow>
           (case get items ''trees'' of
              None \<Rightarrow> Inr []
            | Some (JArr entries) \<Rightarrow> map_result tree_ref_of entries
            | Some _ \<Rightarrow> Inl ''trees''))"

fun tree_entry :: "tree_ref \<Rightarrow> json" where
  "tree_entry (JobObjectRef pid job) =
     JObj [(''kind'', JStr JOB_OBJECT_TREE), (''pid'', JInt pid), (''job_name'', JStr job)]"
| "tree_entry (ProcessGroupRef pid pgid) =
     JObj [(''kind'', JStr PROCESS_GROUP_TREE), (''pid'', JInt pid), (''pgid'', JInt pgid)]"

definition with_active_trees :: "payload \<Rightarrow> tree_ref list \<Rightarrow> payload" where
  "with_active_trees payload refs =
     (if refs = [] then AList.delete ''processes'' payload
      else AList.update ''processes'' (JObj [(''trees'', JArr (map tree_entry refs))]) payload)"

definition with_tree_added :: "payload \<Rightarrow> tree_ref \<Rightarrow> string + payload" where
  "with_tree_added payload ref =
     bind_result (read_active_trees payload) (\<lambda>refs.
       if ref \<in> set refs then Inr payload else Inr (with_active_trees payload (refs @ [ref])))"

definition with_tree_removed :: "payload \<Rightarrow> tree_ref \<Rightarrow> string + payload" where
  "with_tree_removed payload ref =
     bind_result (read_active_trees payload) (\<lambda>refs. Inr (with_active_trees payload (filter (\<lambda>r. r \<noteq> ref) refs)))"

section \<open>The request to stop\<close>

record stop_request =
  sq_requested_at :: string
  sq_evidence :: opaque_ref
  sq_source_state :: state

definition read_stop_request :: "payload \<Rightarrow> string + stop_request option" where
  "read_stop_request payload =
     bind_result (section_of payload ''stop_request'') (\<lambda>section.
       case section of None \<Rightarrow> Inr None
       | Some items \<Rightarrow>
           bind_result (required_text items ''requested_at'') (\<lambda>requested_at.
           bind_result (required_text items ''evidence'') (\<lambda>evidence.
             (case map_of items ''source_state'' of
                Some (JStr s) \<Rightarrow>
                  (case state_of_value s of
                     None \<Rightarrow> Inl ''source_state''
                   | Some st \<Rightarrow>
                       Inr (Some \<lparr>sq_requested_at = requested_at, sq_evidence = OpaqueRef evidence,
                                  sq_source_state = st\<rparr>))
              | _ \<Rightarrow> Inl ''source_state''))))"

definition with_stop_request :: "payload \<Rightarrow> stop_request option \<Rightarrow> payload" where
  "with_stop_request payload request =
     (case request of
        None \<Rightarrow> AList.delete ''stop_request'' payload
      | Some r \<Rightarrow>
          AList.update ''stop_request''
            (JObj [(''requested_at'', JStr (sq_requested_at r)), (''evidence'', JStr (ref_value (sq_evidence r))),
                   (''source_state'', JStr (state_value (sq_source_state r)))])
            payload)"

end
