(* ===== verification/Posting.thy ===== *)
theory Posting
  imports Gh Conversation Pull_Request
begin

text \<open>
  The part of \<open>transport/conversation.py\<close> and \<open>transport/pull_request.py\<close> that calls GitHub: one comment is posted or
  read, the comments since a cursor are fetched page by page, and \<open>ensure_comment_posted\<close> posts a record once. The calls are functions of the state of the
  world, as in \<open>Gh\<close>; the body of a comment goes through a private file, which the call carries as its text.
\<close>

section \<open>Single calls\<close>

definition MAX_SINGLE_RESPONSE_BYTES :: nat where "MAX_SINGLE_RESPONSE_BYTES = 2097152"

definition MAX_LIST_RESPONSE_BYTES :: nat where "MAX_LIST_RESPONSE_BYTES = 33554432"

definition MAX_COMMENT_CHARS :: nat where "MAX_COMMENT_CHARS = 65536"

definition repo_path :: "repo_ref \<Rightarrow> string \<Rightarrow> string" where
  "repo_path repo rest = ''repos/'' @ slug repo @ rest"

definition comment_failure :: "comment_error \<Rightarrow> transport_error" where
  "comment_failure e =
     (case e of MetadataError \<Rightarrow> TransportError ''metadata'' Permanent | CommentRecursionError \<Rightarrow> UncaughtRecursion)"

definition from_json :: "comment_error + 'a \<Rightarrow> transport_error + 'a" where
  "from_json r = (case r of Inl e \<Rightarrow> Inl (comment_failure e) | Inr x \<Rightarrow> Inr x)"

definition comment_of :: "'w gh_context \<Rightarrow> json \<Rightarrow> transport_error + unverified_comment" where
  "comment_of cx v = from_json (comment_from_json (gx_python cx) v)"

definition post_issue_comment ::
  "'w gh_context \<Rightarrow> repo_ref \<Rightarrow> int \<Rightarrow> string \<Rightarrow> ('w, unverified_comment) io" where
  "post_issue_comment cx repo number body =
     (let text = normalize_newlines body in
      if MAX_COMMENT_CHARS < code_points text then fail (TransportError ''body'' Permanent)
      else
        bind
          (run_gh_api cx
             [''-X'', ''POST'', repo_path repo (''/issues/'' @ show_int number @ ''/comments''), ''-F'',
              ''body=@'' @ gx_body_path cx]
             (Some text) MAX_SINGLE_RESPONSE_BYTES)
          (\<lambda>r. lift (comment_of cx (ar_body r))))"

definition get_issue_comment ::
  "'w gh_context \<Rightarrow> repo_ref \<Rightarrow> string \<Rightarrow> 'w retry_policy \<Rightarrow> ('w, unverified_comment) io" where
  "get_issue_comment cx repo comment_id policy =
     bind
       (run_gh_api_with_retry cx [''-X'', ''GET'', repo_path repo (''/issues/comments/'' @ comment_id)]
          MAX_SINGLE_RESPONSE_BYTES policy)
       (\<lambda>r. lift (comment_of cx (ar_body r)))"

definition verify_comment ::
  "'w gh_context \<Rightarrow> repo_ref \<Rightarrow> string \<Rightarrow> string \<Rightarrow> 'w retry_policy \<Rightarrow> ('w, unverified_comment \<times> bool) io" where
  "verify_comment cx repo comment_id expected_body_hash policy =
     bind (get_issue_comment cx repo comment_id policy)
       (\<lambda>c. return (c, uc_body_hash c = expected_body_hash))"

definition get_pull_request ::
  "'w gh_context \<Rightarrow> repo_ref \<Rightarrow> int \<Rightarrow> 'w retry_policy \<Rightarrow> ('w, unverified_pull_request) io" where
  "get_pull_request cx repo number policy =
     bind
       (run_gh_api_with_retry cx [repo_path repo (''/pulls/'' @ show_int number)] MAX_SINGLE_RESPONSE_BYTES policy)
       (\<lambda>r. lift (from_json (pull_request_from_json (ar_body r))))"

section \<open>The comments since a cursor\<close>

definition cursor_char :: "char \<Rightarrow> bool" where
  "cursor_char c \<longleftrightarrow> digit c \<or> letter c \<or> c \<in> {CHR '':'', CHR ''+'', CHR ''.'', CHR ''-''}"

definition cursor_form :: "string \<Rightarrow> bool" where
  "cursor_form s \<longleftrightarrow> s \<noteq> [] \<and> list_all cursor_char s"

record fetch_result =
  fr_comments :: "unverified_comment list"
  fr_next_cursor :: "string option"

fun comments_of :: "'w gh_context \<Rightarrow> json list \<Rightarrow> transport_error + unverified_comment list" where
  "comments_of cx [] = Inr []"
| "comments_of cx (v # vs) =
     bind_result (comment_of cx v) (\<lambda>c. bind_result (comments_of cx vs) (\<lambda>cs. Inr (c # cs)))"

definition page_path :: "repo_ref \<Rightarrow> int \<Rightarrow> string option \<Rightarrow> int \<Rightarrow> string" where
  "page_path repo number since page =
     repo_path repo (''/issues/'' @ show_int number @ ''/comments?per_page=100&page='' @ show_int page) @
     (case since of Some s \<Rightarrow> ''&since='' @ s | None \<Rightarrow> [])"

definition next_link :: string where "next_link = ''rel='' @ [CHR 0x22] @ ''next'' @ [CHR 0x22]"

definition has_next :: "api_response \<Rightarrow> bool" where
  "has_next r \<longleftrightarrow> (case map_of (ar_headers r) ''link'' of Some link \<Rightarrow> contains next_link link | None \<Rightarrow> False)"

text \<open>One page: its comments, and whether the answer names a next one.\<close>

definition fetch_page ::
  "'w gh_context \<Rightarrow> repo_ref \<Rightarrow> int \<Rightarrow> string option \<Rightarrow> 'w retry_policy \<Rightarrow> int \<Rightarrow>
   ('w, unverified_comment list \<times> bool) io" where
  "fetch_page cx repo number since policy page =
     bind
       (run_gh_api_with_retry cx [''-X'', ''GET'', page_path repo number since page] MAX_LIST_RESPONSE_BYTES policy)
       (\<lambda>r. lift
         (case ar_body r of
            JArr entries \<Rightarrow> bind_result (comments_of cx entries) (\<lambda>cs. Inr (cs, has_next r))
          | _ \<Rightarrow> Inl (TransportError ''metadata'' Permanent)))"

text \<open>The loop over the pages, with the function that fetches one page as an argument.\<close>

function pages_from ::
  "(int \<Rightarrow> ('w, unverified_comment list \<times> bool) io) \<Rightarrow> int \<Rightarrow> int \<Rightarrow> unverified_comment list \<Rightarrow>
   ('w, unverified_comment list) io" where
  "pages_from fetch max_pages page collected w =
     (case fetch page w of
        (w', Inl e) \<Rightarrow> (w', Inl e)
      | (w', Inr (cs, again)) \<Rightarrow>
          if \<not> again then (w', Inr (collected @ cs))
          else if max_pages < page + 1 then (w', Inl (TransportError ''pagination'' Permanent))
          else pages_from fetch max_pages (page + 1) (collected @ cs) w')"
  by pat_completeness auto

termination pages_from
  by (relation "measure (\<lambda>(fetch, max_pages, page, collected, w). nat (max_pages + 1 - page))") auto

declare pages_from.simps [simp del]

definition latest :: "string option \<Rightarrow> unverified_comment list \<Rightarrow> string option" where
  "latest since comments = (if comments = [] then since else Some (Max (set (map uc_updated_at comments))))"

definition fetch_comments_since ::
  "'w gh_context \<Rightarrow> repo_ref \<Rightarrow> int \<Rightarrow> string option \<Rightarrow> 'w retry_policy \<Rightarrow> int \<Rightarrow> ('w, fetch_result) io" where
  "fetch_comments_since cx repo number since policy max_pages =
     (if (case since of Some s \<Rightarrow> \<not> cursor_form s | None \<Rightarrow> False) then fail (TransportError ''cursor'' Permanent)
      else
        bind (pages_from (fetch_page cx repo number since policy) max_pages 1 [])
          (\<lambda>cs. return \<lparr>fr_comments = cs, fr_next_cursor = latest since cs\<rparr>))"

section \<open>Posting once\<close>

datatype post_route = POSTED | FOUND_EXISTING | FOUND_AFTER_TIMEOUT | REPOSTED_AFTER_TIMEOUT

datatype ensure_outcome =
    PostVerified post_route unverified_comment string
  | PostHashMismatch post_route unverified_comment string

record search_window =
  sw_since :: "string option"
  sw_attempts :: int
  sw_backoff :: rat
  sw_max_pages :: int

text \<open>The loop of \<open>_search_with_backoff\<close>, with the number of attempts that are left.\<close>

fun search_from ::
  "('w, fetch_result) io \<Rightarrow> ('w \<Rightarrow> 'w) \<Rightarrow> string \<Rightarrow> string \<Rightarrow> nat \<Rightarrow> ('w, unverified_comment option) io" where
  "search_from fetch pause key expected_hash 0 w = (w, Inr None)"
| "search_from fetch pause key expected_hash (Suc k) w =
     (case fetch w of
        (w', Inl e) \<Rightarrow> (w', Inl e)
      | (w', Inr r) \<Rightarrow>
          (case find_comment_by_marker (fr_comments r) key expected_hash of
             Some c \<Rightarrow> (w', Inr (Some c))
           | None \<Rightarrow> search_from fetch pause key expected_hash k (if k = 0 then w' else pause w')))"

definition search_with_backoff ::
  "'w gh_context \<Rightarrow> repo_ref \<Rightarrow> int \<Rightarrow> string \<Rightarrow> string \<Rightarrow> search_window \<Rightarrow> 'w retry_policy \<Rightarrow>
   ('w, unverified_comment option) io" where
  "search_with_backoff cx repo number key expected_hash window policy =
     search_from (fetch_comments_since cx repo number (sw_since window) policy (sw_max_pages window))
       (rp_sleep policy (sw_backoff window)) key expected_hash (nat (sw_attempts window))"

definition key_failure :: "key_error \<Rightarrow> transport_error" where
  "key_failure e = (case e of KeyRecursionError \<Rightarrow> UncaughtRecursion | _ \<Rightarrow> TransportError ''marker'' Permanent)"

text \<open>A failure after which the comment may or may not have been posted.\<close>

definition outcome_unknown :: "transport_error \<Rightarrow> bool" where
  "outcome_unknown e = (case e of GhTimeoutError \<Rightarrow> True | GhApiError f \<Rightarrow> gf_category f = Transient | _ \<Rightarrow> False)"

definition verified_outcome ::
  "'w gh_context \<Rightarrow> repo_ref \<Rightarrow> 'w retry_policy \<Rightarrow> string \<Rightarrow> post_route \<Rightarrow> unverified_comment \<Rightarrow> ('w, ensure_outcome) io" where
  "verified_outcome cx repo policy expected_hash route posted =
     bind (verify_comment cx repo (uc_comment_id posted) expected_hash policy) (\<lambda>(fetched, matched).
       return (if matched then PostVerified route fetched expected_hash
               else PostHashMismatch route fetched expected_hash))"

definition post_or_find ::
  "'w gh_context \<Rightarrow> repo_ref \<Rightarrow> int \<Rightarrow> string \<Rightarrow> string \<Rightarrow> string \<Rightarrow> search_window \<Rightarrow> 'w retry_policy \<Rightarrow>
   ('w, post_route \<times> unverified_comment) io" where
  "post_or_find cx repo number text key expected_hash window policy w =
     (case post_issue_comment cx repo number text w of
        (w', Inr posted) \<Rightarrow> (w', Inr (POSTED, posted))
      | (w', Inl e) \<Rightarrow>
          if \<not> outcome_unknown e then (w', Inl e)
          else
            bind (search_with_backoff cx repo number key expected_hash window policy) (\<lambda>found.
              case found of
                Some c \<Rightarrow> return (FOUND_AFTER_TIMEOUT, c)
              | None \<Rightarrow>
                  bind (post_issue_comment cx repo number text) (\<lambda>posted. return (REPOSTED_AFTER_TIMEOUT, posted))) w')"

definition ensure_comment_posted ::
  "'w gh_context \<Rightarrow> repo_ref \<Rightarrow> int \<Rightarrow> string \<Rightarrow> search_window \<Rightarrow> 'w retry_policy \<Rightarrow> ('w, ensure_outcome) io" where
  "ensure_comment_posted cx repo number body window policy =
     (let text = normalize_newlines body in
      case require_marker_key (gx_python cx) text of
        Inl e \<Rightarrow> fail (key_failure e)
      | Inr key \<Rightarrow>
          (let expected_hash = body_hash_of text in
           bind
             (search_with_backoff cx repo number key expected_hash (window\<lparr>sw_attempts := 1, sw_backoff := 0\<rparr>) policy)
             (\<lambda>existing.
               case existing of
                 Some c \<Rightarrow> verified_outcome cx repo policy expected_hash FOUND_EXISTING c
               | None \<Rightarrow>
                   bind (post_or_find cx repo number text key expected_hash window policy)
                     (\<lambda>(route, posted). verified_outcome cx repo policy expected_hash route posted))))"

end
