(* ===== verification/Posting_Properties.thy ===== *)
theory Posting_Properties
  imports Posting
begin

text \<open>
  How often a record is posted (\<open>ensure_comment_posted\<close> of \<open>transport/conversation.py\<close>), and what its outcome shows;
  and the pages that a search reads.
\<close>

section \<open>Counting\<close>

text \<open>The action raises the counter of the world by at most the given number, whether it fails or not.\<close>

definition raises :: "('w \<Rightarrow> int) \<Rightarrow> int \<Rightarrow> ('w, 'a) io \<Rightarrow> bool" where
  "raises n k m \<longleftrightarrow> (\<forall>w. n w \<le> n (fst (m w)) \<and> n (fst (m w)) \<le> n w + k)"

lemma raises_pure:
  "0 \<le> k \<Longrightarrow> raises n k (return x)" "0 \<le> k \<Longrightarrow> raises n k (fail e)" "0 \<le> k \<Longrightarrow> raises n k (lift r)"
  by (simp_all add: raises_def return_def fail_def lift_def)

lemma raises_bind:
  assumes "raises n a m" and "\<And>x. raises n b (f x)" and "0 \<le> b"
  shows "raises n (a + b) (bind m f)"
  unfolding raises_def
proof
  fix w
  obtain w' r where m: "m w = (w', r)" by fastforce
  then have w': "n w \<le> n w'" "n w' \<le> n w + a" using assms(1) by (auto simp: raises_def dest: spec [of _ w])
  show "n w \<le> n (fst (bind m f w)) \<and> n (fst (bind m f w)) \<le> n w + (a + b)"
  proof (cases r)
    case (Inl e)
    then show ?thesis using m w' assms(3) by (simp add: bind_def)
  next
    case (Inr x)
    then have "n w' \<le> n (fst (f x w'))" "n (fst (f x w')) \<le> n w' + b" using assms(2) by (auto simp: raises_def)
    then show ?thesis using Inr m w' by (simp add: bind_def)
  qed
qed

lemma raises_bind0: "raises n a m \<Longrightarrow> (\<And>x. raises n 0 (f x)) \<Longrightarrow> raises n a (bind m f)"
  using raises_bind [of n a m 0 f] by simp

text \<open>A counter of the runs of the command that post something.\<close>

definition counts_posts :: "'w gh_context \<Rightarrow> 'w retry_policy \<Rightarrow> ('w \<Rightarrow> int) \<Rightarrow> bool" where
  "counts_posts cx policy n \<longleftrightarrow>
     (\<forall>c w. n (fst (gx_run cx c w)) = n w + (if ''POST'' \<in> set (gc_argv c) then 1 else 0)) \<and>
     (\<forall>s w. n (rp_sleep policy s w) = n w) \<and> ''POST'' \<notin> set (gx_command cx)"

lemma raises_run:
  assumes "counts_posts cx policy n"
  shows "raises n (if ''POST'' \<in> set rest then 1 else 0) (run_gh_api cx rest body m)"
proof -
  have "raises n (if ''POST'' \<in> set rest then 1 else 0) (run_gh cx ([''api'', ''--include''] @ rest) body m)"
    unfolding raises_def
  proof
    fix w
    let ?c = "\<lparr>gc_argv = gx_command cx @ [''api'', ''--include''] @ rest, gc_body = body\<rparr>"
    have "n (fst (gx_run cx ?c w)) = n w + (if ''POST'' \<in> set rest then 1 else 0)"
      using assms by (simp add: counts_posts_def)
    then show "n w \<le> n (fst (run_gh cx ([''api'', ''--include''] @ rest) body m w)) \<and>
        n (fst (run_gh cx ([''api'', ''--include''] @ rest) body m w)) \<le> n w + (if ''POST'' \<in> set rest then 1 else 0)"
      by (auto simp: run_gh_def Let_def fail_def split: sum.split prod.split process_result.split)
  qed
  then show ?thesis unfolding run_gh_api_def by (rule raises_bind0) (simp add: raises_pure)
qed

lemma raises_retry_from:
  assumes "raises n 0 call" and "\<And>s w. n (rp_sleep policy s w) = n w"
  shows "raises n 0 (retry_from call policy k)"
proof -
  have "n (fst (retry_from call policy k w)) = n w" for w
    using assms
  proof (induction call policy k w rule: retry_from.induct)
    case (1 call policy k w)
    obtain w' r where c: "call w = (w', r)" by fastforce
    then have w': "n w' = n w" using "1.prems"(1) by (auto simp: raises_def dest: spec [of _ w])
    show ?case
    proof (cases "\<exists>f. r = Inl (GhApiError f) \<and> gf_category f = Transient \<and> k < rp_max_attempts policy \<and>
        retry_wait policy f w' \<le> rp_max_wait policy")
      case True
      then obtain f where f: "r = Inl (GhApiError f)" "gf_category f = Transient" "k < rp_max_attempts policy"
        "retry_wait policy f w' \<le> rp_max_wait policy" by blast
      then show ?thesis
        using "1.IH" [OF c [symmetric] f(1) refl _ _ "1.prems"] c w' "1.prems"(2) by (subst retry_from.simps) simp
    next
      case False
      then have "fst (retry_from call policy k w) = w'"
        using c by (subst retry_from.simps) (auto split: sum.splits transport_error.splits)
      then show ?thesis using w' by simp
    qed
  qed
  then show ?thesis by (simp add: raises_def)
qed

lemma raises_retry:
  assumes "counts_posts cx policy n" and "''POST'' \<notin> set rest"
  shows "raises n 0 (run_gh_api_with_retry cx rest m policy)"
  unfolding run_gh_api_with_retry_def
  by (rule raises_retry_from) (use assms raises_run [OF assms(1), of rest None m] in \<open>simp_all add: counts_posts_def\<close>)

lemma repo_path_not_post: "repo_path repo s \<noteq> ''POST''" "page_path repo number since page \<noteq> ''POST''"
  "''POST'' \<noteq> repo_path repo s" "''POST'' \<noteq> page_path repo number since page"
  by (simp_all add: repo_path_def page_path_def)

lemma raises_post:
  assumes "counts_posts cx policy n"
  shows "raises n 1 (post_issue_comment cx repo number body)"
proof -
  have call: "raises n 1 (run_gh_api cx [''-X'', ''POST'', path, ''-F'', f] t m)" for path f t m
    using raises_run [OF assms, of "[''-X'', ''POST'', path, ''-F'', f]" t m] by simp
  show ?thesis
    unfolding post_issue_comment_def Let_def by (auto intro: raises_bind0 [OF call] raises_pure)
qed

lemma raises_get:
  assumes "counts_posts cx policy n"
  shows "raises n 0 (get_issue_comment cx repo c policy)" "raises n 0 (verify_comment cx repo c h policy)"
    "raises n 0 (fetch_page cx repo number since policy page)"
proof -
  show get: "raises n 0 (get_issue_comment cx repo c policy)"
    unfolding get_issue_comment_def
    by (rule raises_bind0, rule raises_retry [OF assms]) (simp_all add: repo_path_not_post raises_pure)
  show "raises n 0 (verify_comment cx repo c h policy)"
    unfolding verify_comment_def by (rule raises_bind0 [OF get]) (simp add: raises_pure)
  show "raises n 0 (fetch_page cx repo number since policy page)"
    unfolding fetch_page_def
    by (rule raises_bind0, rule raises_retry [OF assms]) (simp_all add: repo_path_not_post raises_pure)
qed

lemma raises_pages:
  assumes "\<And>page. raises n 0 (fetch page)"
  shows "raises n 0 (pages_from fetch max_pages page collected)"
proof -
  have "n (fst (pages_from fetch max_pages page collected w)) = n w" for w
    using assms
  proof (induction fetch max_pages page collected w rule: pages_from.induct)
    case (1 fetch max_pages page collected w)
    obtain w' r where c: "fetch page w = (w', r)" by fastforce
    then have w': "n w' = n w" using "1.prems" [of page] by (auto simp: raises_def dest: spec [of _ w])
    show ?case
    proof (cases "\<exists>cs. r = Inr (cs, True) \<and> \<not> max_pages < page + 1")
      case True
      then obtain cs where "r = Inr (cs, True)" "\<not> max_pages < page + 1" by blast
      then show ?thesis
        using "1.IH" [OF c [symmetric] _ refl _ _ "1.prems"] c w' by (subst pages_from.simps) simp
    next
      case False
      then have "fst (pages_from fetch max_pages page collected w) = w'"
        using c by (subst pages_from.simps) (auto split: sum.splits)
      then show ?thesis using w' by simp
    qed
  qed
  then show ?thesis by (simp add: raises_def)
qed

lemma raises_search:
  assumes "counts_posts cx policy n"
  shows "raises n 0 (search_with_backoff cx repo number key h window policy)"
proof -
  let ?fetch = "fetch_comments_since cx repo number (sw_since window) policy (sw_max_pages window)"
  have fetch: "raises n 0 ?fetch"
    unfolding fetch_comments_since_def
    by (auto intro!: raises_bind0 [OF raises_pages] raises_get(3) [OF assms] raises_pure)
  have "n (fst (search_from ?fetch (rp_sleep policy s) key h k w)) = n w" for s k w
  proof (induction k arbitrary: w)
    case (Suc k)
    obtain w' r where c: "?fetch w = (w', r)" by fastforce
    then have w': "n w' = n w" using fetch by (auto simp: raises_def dest: spec [of _ w])
    have "n (rp_sleep policy s v) = n v" for v using assms by (simp add: counts_posts_def)
    then show ?case using c w' Suc.IH by (auto split: sum.split option.split)
  qed simp
  then show ?thesis by (simp add: raises_def search_with_backoff_def)
qed

lemma raises_outcome:
  assumes "counts_posts cx policy n"
  shows "raises n 0 (verified_outcome cx repo policy h route c)"
  unfolding verified_outcome_def
  by (rule raises_bind0 [OF raises_get(2) [OF assms]]) (auto simp: raises_pure split: prod.split)

lemma bind_Inr: "bind m f w = (w', Inr y) \<longleftrightarrow> (\<exists>v x. m w = (v, Inr x) \<and> f x v = (w', Inr y))"
  by (auto simp: bind_def split: prod.split sum.split)

lemma raised: "raises n k m \<Longrightarrow> m w = (w', r) \<Longrightarrow> n w \<le> n w' \<and> n w' \<le> n w + k"
  by (auto simp: raises_def dest: spec [of _ w])

text \<open>What a verified outcome shows.\<close>

lemma comment_of_observed: "comment_of cx v = Inr c \<Longrightarrow> observed (gx_python cx) c"
  by (auto simp: comment_of_def from_json_def comment_observed split: sum.split_asm)

lemma verified_outcome_facts:
  assumes "verified_outcome cx repo policy h route c w = (w', Inr (PostVerified route' c' h'))"
  shows "route' = route \<and> h' = h \<and> uc_body_hash c' = h \<and> observed (gx_python cx) c'"
proof -
  obtain v x where x: "verify_comment cx repo (uc_comment_id c) h policy w = (v, Inr x)"
    and r: "(\<lambda>(fetched, matched).
       return (if matched then PostVerified route fetched h else PostHashMismatch route fetched h)) x v =
       (w', Inr (PostVerified route' c' h'))"
    using assms unfolding verified_outcome_def bind_Inr by blast
  then have v: "verify_comment cx repo (uc_comment_id c) h policy w = (v, Inr (c', True))" "route' = route" "h' = h"
    by (auto simp: return_def split: prod.splits if_splits)
  from v(1) obtain u where "get_issue_comment cx repo (uc_comment_id c) policy w = (u, Inr c')" "uc_body_hash c' = h"
    by (auto simp: verify_comment_def bind_Inr return_def)
  moreover from this(1) have "observed (gx_python cx) c'"
    by (auto simp: get_issue_comment_def bind_Inr lift_def comment_of_observed)
  ultimately show ?thesis using v by simp
qed

text \<open>How many posts the route stands for.\<close>

fun posts_of :: "post_route \<Rightarrow> int" where
  "posts_of FOUND_EXISTING = 0"
| "posts_of POSTED = 1"
| "posts_of FOUND_AFTER_TIMEOUT = 1"
| "posts_of REPOSTED_AFTER_TIMEOUT = 2"

lemma post_or_find_posts:
  assumes n: "counts_posts cx policy n"
    and r: "post_or_find cx repo number text key h window policy w = (w', r)"
  shows "n w \<le> n w' \<and> n w' \<le> n w + (case r of Inr (route, c) \<Rightarrow> posts_of route | Inl e \<Rightarrow> 2) \<and>
    (case r of Inr (route, c) \<Rightarrow> route \<noteq> FOUND_EXISTING | Inl e \<Rightarrow> True)"
proof (cases "\<exists>v e. post_issue_comment cx repo number text w = (v, Inl e) \<and> outcome_unknown e")
  case False
  obtain v s where s: "post_issue_comment cx repo number text w = (v, s)" by fastforce
  then show ?thesis
    using False r raised [OF raises_post [OF n] s] by (cases s) (auto simp: post_or_find_def)
next
  case True
  then obtain v e where v: "post_issue_comment cx repo number text w = (v, Inl e)" "outcome_unknown e" by blast
  obtain u f where u: "search_with_backoff cx repo number key h window policy v = (u, f)" by fastforce
  note steps = raised [OF raises_post [OF n] v(1)] raised [OF raises_search [OF n] u]
  show ?thesis
  proof (cases "f = Inr None")
    case True
    obtain x s where x: "post_issue_comment cx repo number text u = (x, s)" by fastforce
    then show ?thesis
      using True r v u steps raised [OF raises_post [OF n] x]
      by (cases s) (auto simp: post_or_find_def bind_def return_def)
  next
    case False
    then show ?thesis
      using r v u steps by (auto simp: post_or_find_def bind_def return_def split: sum.splits option.splits)
  qed
qed

text \<open>A second post needs a first one with an unknown outcome and a search in vain.\<close>

lemma post_or_find_again:
  assumes n: "counts_posts cx policy n"
    and r: "post_or_find cx repo number text key h window policy w = (w', r)" and twice: "n w + 1 < n w'"
  shows "\<exists>v e u. post_issue_comment cx repo number text w = (v, Inl e) \<and> outcome_unknown e \<and>
    search_with_backoff cx repo number key h window policy v = (u, Inr None)"
proof -
  obtain v s where s: "post_issue_comment cx repo number text w = (v, s)" by fastforce
  note once = raised [OF raises_post [OF n] s]
  have "\<exists>e. s = Inl e \<and> outcome_unknown e"
    using r s once twice by (cases s) (auto simp: post_or_find_def split: if_splits)
  then obtain e where e: "s = Inl e" "outcome_unknown e" by blast
  obtain u f where u: "search_with_backoff cx repo number key h window policy v = (u, f)" by fastforce
  have "f = Inr None"
  proof (rule ccontr)
    assume "f \<noteq> Inr None"
    then have "w' = u" using r s e u by (auto simp: post_or_find_def bind_def return_def split: sum.splits option.splits)
    then show False using once raised [OF raises_search [OF n] u] twice by simp
  qed
  then show ?thesis using s e u by blast
qed

text \<open>The ways through the operation.\<close>

lemma ensure_cases:
  assumes "ensure_comment_posted cx repo number body window policy w = (w', r)"
  obtains (refused) e where "w' = w" "r = Inl e"
    | (searched) e key where "r = Inl e"
        "search_with_backoff cx repo number key (body_hash_of (normalize_newlines body))
           (window\<lparr>sw_attempts := 1, sw_backoff := 0\<rparr>) policy w = (w', Inl e)"
        "require_marker_key (gx_python cx) (normalize_newlines body) = Inr key"
    | (existing) v c' key where
        "search_with_backoff cx repo number key (body_hash_of (normalize_newlines body))
           (window\<lparr>sw_attempts := 1, sw_backoff := 0\<rparr>) policy w = (v, Inr (Some c'))"
        "verified_outcome cx repo policy (body_hash_of (normalize_newlines body)) FOUND_EXISTING c' v = (w', r)"
        "require_marker_key (gx_python cx) (normalize_newlines body) = Inr key"
    | (failed) v e key where "r = Inl e"
        "search_with_backoff cx repo number key (body_hash_of (normalize_newlines body))
           (window\<lparr>sw_attempts := 1, sw_backoff := 0\<rparr>) policy w = (v, Inr None)"
        "post_or_find cx repo number (normalize_newlines body) key (body_hash_of (normalize_newlines body)) window policy v
         = (w', Inl e)"
        "require_marker_key (gx_python cx) (normalize_newlines body) = Inr key"
    | (posted) v u route c' key where
        "search_with_backoff cx repo number key (body_hash_of (normalize_newlines body))
           (window\<lparr>sw_attempts := 1, sw_backoff := 0\<rparr>) policy w = (v, Inr None)"
        "post_or_find cx repo number (normalize_newlines body) key (body_hash_of (normalize_newlines body)) window policy v
         = (u, Inr (route, c'))"
        "verified_outcome cx repo policy (body_hash_of (normalize_newlines body)) route c' u = (w', r)"
        "require_marker_key (gx_python cx) (normalize_newlines body) = Inr key"
  using assms
  by (auto simp: ensure_comment_posted_def Let_def fail_def bind_def split: sum.splits option.splits prod.splits)

lemma verified_within:
  assumes n: "counts_posts cx policy n"
    and "verified_outcome cx repo policy h route c w = (w', r)" and "n w \<le> b + posts_of route"
  shows "n w' \<le> b + (case r of Inr (PostVerified route' c' h') \<Rightarrow> posts_of route' | _ \<Rightarrow> 2)"
proof -
  have w': "n w' \<le> n w" using raised [OF raises_outcome [OF n] assms(2)] by simp
  have two: "posts_of route \<le> 2" by (cases route) simp_all
  show ?thesis
  proof (cases "\<exists>route' c' h'. r = Inr (PostVerified route' c' h')")
    case True
    then obtain route' c' h' where r: "r = Inr (PostVerified route' c' h')" by blast
    have "route' = route" using verified_outcome_facts [OF assms(2) [unfolded r]] by simp
    then show ?thesis using r w' assms(3) by simp
  next
    case False
    then have "(case r of Inr (PostVerified route' c' h') \<Rightarrow> posts_of route' | _ \<Rightarrow> 2) = 2"
      by (simp split: sum.split ensure_outcome.split)
    then show ?thesis using w' assms(3) two by linarith
  qed
qed

lemma ensure_within:
  assumes n: "counts_posts cx policy n"
    and r: "ensure_comment_posted cx repo number body window policy w = (w', r)"
  shows "n w' \<le> n w + (case r of Inr (PostVerified route c h) \<Rightarrow> posts_of route | _ \<Rightarrow> 2)"
  using r
proof (cases rule: ensure_cases)
  case refused
  then show ?thesis by simp
next
  case searched
  then show ?thesis using raised [OF raises_search [OF n] searched(2)] by simp
next
  case existing
  show ?thesis
    using raised [OF raises_search [OF n] existing(1)] by (intro verified_within [OF n existing(2)]) simp
next
  case failed
  then show ?thesis
    using raised [OF raises_search [OF n] failed(2)] post_or_find_posts [OF n failed(3)] by simp
next
  case posted
  show ?thesis
    using raised [OF raises_search [OF n] posted(1)] post_or_find_posts [OF n posted(2)]
    by (intro verified_within [OF n posted(3)]) simp
qed

lemma ensure_verified:
  assumes "ensure_comment_posted cx repo number body window policy w = (w', Inr (PostVerified route c h))"
  shows "h = body_hash_of (normalize_newlines body) \<and> uc_body_hash c = h \<and> observed (gx_python cx) c"
  using assms
proof (cases rule: ensure_cases)
  case existing
  then show ?thesis using verified_outcome_facts [OF existing(2)] by simp
next
  case posted
  then show ?thesis using verified_outcome_facts [OF posted(3)] by simp
qed simp_all

text \<open>Which searches preceded a first and a second post.\<close>

lemma ensure_searched:
  assumes n: "counts_posts cx policy n"
    and r: "ensure_comment_posted cx repo number body window policy w = (w', r)" and some: "n w < n w'"
  obtains key v where "require_marker_key (gx_python cx) (normalize_newlines body) = Inr key"
    "search_with_backoff cx repo number key (body_hash_of (normalize_newlines body))
       (window\<lparr>sw_attempts := 1, sw_backoff := 0\<rparr>) policy w = (v, Inr None)"
    "n w + 1 < n w' \<longrightarrow> (\<exists>u e x. post_issue_comment cx repo number (normalize_newlines body) v = (u, Inl e) \<and>
       outcome_unknown e \<and>
       search_with_backoff cx repo number key (body_hash_of (normalize_newlines body)) window policy u = (x, Inr None))"
  using r
proof (cases rule: ensure_cases)
  case refused
  then show thesis using some by simp
next
  case searched
  then show thesis using some raised [OF raises_search [OF n] searched(2)] by simp
next
  case existing
  then show thesis using some raised [OF raises_search [OF n] existing(1)] raised [OF raises_outcome [OF n] existing(2)] by simp
next
  case (failed v e key)
  have "n v = n w" using raised [OF raises_search [OF n] failed(2)] by simp
  then show thesis using that [OF failed(4,2)] post_or_find_again [OF n failed(3)] by simp
next
  case (posted v u route c' key)
  have "n v = n w" "n w' = n u"
    using raised [OF raises_search [OF n] posted(1)] raised [OF raises_outcome [OF n] posted(3)] by simp_all
  then show thesis using that [OF posted(4,1)] post_or_find_again [OF n posted(2)] by simp
qed

section \<open>At most two comments\<close>

text \<open>
  C32. A record is posted once, and once more only when the outcome of the first post is not known and no search finds
  it: whatever GitHub answers and in whatever order, \<open>ensure_comment_posted\<close> runs at most two commands that post. It
  runs one only after a search for the key and the hash that found nothing, and a second one only when the first
  attempt to post, after that search, failed in a way that leaves its outcome unknown, and a second search, with the
  whole window, found nothing either. A verified outcome posted at most as often as its route says (not at all when
  the comment existed), and its comment was read back from GitHub with the hash of the normalised body that was asked for.
\<close>

theorem posted_at_most_twice:
  assumes n: "counts_posts cx policy n"
    and r: "ensure_comment_posted cx repo number body window policy w = (w', r)"
  shows "n w' \<le> n w + 2 \<and>
    (n w < n w' \<longrightarrow> (\<exists>key v.
      require_marker_key (gx_python cx) (normalize_newlines body) = Inr key \<and>
      search_with_backoff cx repo number key (body_hash_of (normalize_newlines body))
        (window\<lparr>sw_attempts := 1, sw_backoff := 0\<rparr>) policy w = (v, Inr None) \<and>
      (n w + 1 < n w' \<longrightarrow> (\<exists>u e x.
        post_issue_comment cx repo number (normalize_newlines body) v = (u, Inl e) \<and> outcome_unknown e \<and>
        search_with_backoff cx repo number key (body_hash_of (normalize_newlines body)) window policy u =
          (x, Inr None))))) \<and>
    (\<forall>route c h. r = Inr (PostVerified route c h) \<longrightarrow>
      n w' \<le> n w + posts_of route \<and> h = body_hash_of (normalize_newlines body) \<and> uc_body_hash c = h \<and>
      observed (gx_python cx) c)"
proof (intro conjI allI impI)
  have "posts_of route' \<le> 2" for route' by (cases route') simp_all
  then show "n w' \<le> n w + 2" using ensure_within [OF n r] by (auto split: sum.splits ensure_outcome.splits intro: order_trans)
next
  assume some: "n w < n w'"
  show "\<exists>key v. require_marker_key (gx_python cx) (normalize_newlines body) = Inr key \<and>
      search_with_backoff cx repo number key (body_hash_of (normalize_newlines body))
        (window\<lparr>sw_attempts := 1, sw_backoff := 0\<rparr>) policy w = (v, Inr None) \<and>
      (n w + 1 < n w' \<longrightarrow> (\<exists>u e x.
        post_issue_comment cx repo number (normalize_newlines body) v = (u, Inl e) \<and> outcome_unknown e \<and>
        search_with_backoff cx repo number key (body_hash_of (normalize_newlines body)) window policy u =
          (x, Inr None)))"
  proof -
    obtain key v where "require_marker_key (gx_python cx) (normalize_newlines body) = Inr key"
      "search_with_backoff cx repo number key (body_hash_of (normalize_newlines body))
         (window\<lparr>sw_attempts := 1, sw_backoff := 0\<rparr>) policy w = (v, Inr None)"
      "n w + 1 < n w' \<longrightarrow> (\<exists>u e x. post_issue_comment cx repo number (normalize_newlines body) v = (u, Inl e) \<and>
         outcome_unknown e \<and>
         search_with_backoff cx repo number key (body_hash_of (normalize_newlines body)) window policy u = (x, Inr None))"
      by (rule ensure_searched [OF n r some])
    then show ?thesis by (intro exI [of _ key] exI [of _ v] conjI)
  qed
next
  fix route c h
  assume p: "r = Inr (PostVerified route c h)"
  show "n w' \<le> n w + posts_of route" using ensure_within [OF n r] p by simp
  show "h = body_hash_of (normalize_newlines body)" "uc_body_hash c = h" "observed (gx_python cx) c"
    using ensure_verified [OF r [unfolded p]] by simp_all
qed

text \<open>A world in which every post times out and no comment is ever found, with a counter of the posts.\<close>

definition lost_context :: "int gh_context" where
  "lost_context =
     \<lparr>gx_command = [''gh''], gx_body_path = ''b'',
      gx_python = \<lparr>recursion_budget = 1000, float_text = \<lambda>s. s, accepts_constants = True\<rparr>,
      gx_run = \<lambda>c n. if ''POST'' \<in> set (gc_argv c) then (n + 1, GhTimedOut)
                     else (n, GhCompleted 0 (''HTTP/2 200'' @ [newline, newline] @ ''[]''))\<rparr>"

definition still_policy :: "int retry_policy" where
  "still_policy = \<lparr>rp_max_attempts = 1, rp_backoff = 0, rp_max_wait = 0, rp_sleep = \<lambda>s n. n, rp_now = \<lambda>n. 0\<rparr>"

definition keyed_body :: string where "keyed_body = marker_line (dumps (JObj [(''key'', JStr ''k'')]))"

definition one_search :: search_window where
  "one_search = \<lparr>sw_since = None, sw_attempts = 1, sw_backoff = 0, sw_max_pages = 1\<rparr>"

abbreviation sample_repo :: repo_ref where "sample_repo \<equiv> \<lparr>rr_owner = ''o'', rr_name = ''r''\<rparr>"

lemma lost_key: "require_marker_key (gx_python lost_context) (normalize_newlines keyed_body) = Inr ''k''"
  by code_simp

lemma lost_answer:
  "api_result (gx_python lost_context) (0, ''HTTP/2 200'' @ [newline, newline] @ ''[]'') =
   Inr \<lparr>ar_status = 200, ar_headers = [], ar_body = JArr []\<rparr>"
  by code_simp

lemma lost_page: "fetch_page lost_context sample_repo 1 None still_policy 1 n = (n, Inr ([], False))"
proof -
  let ?path = "page_path sample_repo 1 None 1"
  have "ensure_argv_allowed ([''gh''] @ [''api'', ''--include''] @ [''-X'', ''GET'', ?path]) = Inr ()"
    "''POST'' \<notin> set ([''gh''] @ [''api'', ''--include''] @ [''-X'', ''GET'', ?path])"
    "length (''HTTP/2 200'' @ [newline, newline] @ ''[]'') = 14"
    by code_simp+
  then have "run_gh lost_context ([''api'', ''--include''] @ [''-X'', ''GET'', ?path]) None MAX_LIST_RESPONSE_BYTES n =
      (n, Inr (0, ''HTTP/2 200'' @ [newline, newline] @ ''[]''))"
    by (simp add: run_gh_def lost_context_def MAX_LIST_RESPONSE_BYTES_def)
  then show ?thesis
    using lost_answer
    by (simp add: fetch_page_def run_gh_api_with_retry_def retry_from.simps run_gh_api_def bind_def lift_def has_next_def)
qed

lemma lost_search: "search_with_backoff lost_context sample_repo 1 k h (one_search\<lparr>sw_backoff := b\<rparr>) still_policy n = (n, Inr None)"
  by (simp add: search_with_backoff_def one_search_def fetch_comments_since_def pages_from.simps lost_page bind_def
      return_def find_comment_by_marker_def)

lemma lost_post:
  "post_issue_comment lost_context sample_repo 1 (normalize_newlines keyed_body) n = (n + 1, Inl GhTimeoutError)"
proof -
  let ?tail = "[''-X'', ''POST'', repo_path sample_repo (''/issues/'' @ show_int 1 @ ''/comments''), ''-F'', ''body=@b'']"
  have "ensure_argv_allowed ([''gh''] @ [''api'', ''--include''] @ ?tail) = Inr ()" by code_simp
  then have "run_gh lost_context ([''api'', ''--include''] @ ?tail) t MAX_SINGLE_RESPONSE_BYTES n = (n + 1, Inl GhTimeoutError)"
    for t by (simp add: run_gh_def lost_context_def)
  moreover have "code_points (normalize_newlines (normalize_newlines keyed_body)) \<le> 100" by code_simp
  ultimately show ?thesis
    by (simp add: post_issue_comment_def run_gh_api_def bind_def lost_context_def MAX_COMMENT_CHARS_def)
qed

lemma lost_outcome: "ensure_comment_posted lost_context sample_repo 1 keyed_body one_search still_policy n = (n + 2, Inl GhTimeoutError)"
proof -
  have "one_search\<lparr>sw_attempts := 1, sw_backoff := 0\<rparr> = one_search\<lparr>sw_backoff := 0\<rparr>"
    "search_with_backoff lost_context sample_repo 1 k h one_search still_policy m = (m, Inr None)" for k h m
    using lost_search [where b = 0] by (simp_all add: one_search_def)
  then show ?thesis
    by (simp add: ensure_comment_posted_def Let_def lost_key lost_search bind_def post_or_find_def lost_post outcome_unknown_def)
qed

theorem posted_at_most_twice_witness:
  "ensure_comment_posted lost_context sample_repo 1 keyed_body one_search still_policy 0 = (2, Inl GhTimeoutError) \<and>
   (\<exists>v u e. post_issue_comment lost_context sample_repo 1 (normalize_newlines keyed_body) v = (u, Inl e) \<and> outcome_unknown e)"
proof -
  have "counts_posts lost_context still_policy (\<lambda>n. n)"
    by (simp add: counts_posts_def lost_context_def still_policy_def)
  from posted_at_most_twice [OF this lost_outcome [of 0]]
  have "\<exists>v u e. post_issue_comment lost_context sample_repo 1 (normalize_newlines keyed_body) v = (u, Inl e) \<and> outcome_unknown e"
    by auto
  then show ?thesis using lost_outcome [of 0] by simp
qed

end
