(* ===== verification/Transaction.thy ===== *)
theory Transaction
  imports Pending Projection_Build Machine
begin

text \<open>
  \<open>workflow/transaction.py\<close>: the values that the checkpoint keeps before a record is posted, the step of the state machine
  that announces the record, and the section of the checkpoint, which \<open>Pending\<close> reads back. The texts of a refusal are names.
\<close>

section \<open>Issuing\<close>

record issued_transaction =
  it_binding :: string
  it_kind :: record_kind
  it_seq :: int
  it_head_sha :: string
  it_payload_hash :: string
  it_body :: string
  it_projection :: "(string \<times> json) list"
  it_body_hash :: string
  it_marked_body :: string
  it_audit_prev :: "int option"
  it_audit_prev_hash :: "string option"

definition next_sequence :: "verified_record list \<Rightarrow> int" where
  "next_sequence records = max_default (map vr_seq records) + 1"

text \<open>\<open>str(projection["pay"])\<close>: the builder always writes a text under this key.\<close>

definition projected_hash :: "payload \<Rightarrow> string" where
  "projected_hash projection = (case map_of projection PAYLOAD_HASH_KEY of Some (JStr s) \<Rightarrow> s | _ \<Rightarrow> [])"

text \<open>The sequence number, the anchor and the previous hash of the next record.\<close>

definition record_link ::
  "verified_record list \<Rightarrow> chain_verification option \<Rightarrow> (int \<times> int option \<times> string option) option" where
  "record_link records audit_chain =
     (case audit_chain of
        Some chain \<Rightarrow>
          (let anchor = max_default (map vr_seq records) in
           Some (max (max anchor (cv_max_seq chain)) (cv_assurance_high_water chain) + 1, Some anchor,
                 map_option vr_body_hash (find (\<lambda>r. vr_seq r = anchor) records)))
      | None \<Rightarrow>
          (let seq = next_sequence records in
           if 2 \<le> seq
           then map_option (\<lambda>earlier. (seq, None, Some (vr_body_hash earlier))) (record_at records (seq - 1))
           else Some (seq, None, None)))"

definition unless_error :: "string \<Rightarrow> 'e + 'a \<Rightarrow> string + 'a" where
  "unless_error name r = (case r of Inl _ \<Rightarrow> Inl name | Inr x \<Rightarrow> Inr x)"

definition issue_transaction ::
  "record_kind \<Rightarrow> payload \<Rightarrow> string \<Rightarrow> string \<Rightarrow> string \<Rightarrow> verified_record list \<Rightarrow> chain_verification option \<Rightarrow>
   string + issued_transaction" where
  "issue_transaction kind payload run_id head_sha body records audit_chain =
     (case record_link records audit_chain of
        None \<Rightarrow> Inl ''previous record''
      | Some (seq, anchor, previous) \<Rightarrow>
          bind_result (unless_error ''projection'' (build_record_projection kind payload head_sha body)) (\<lambda>projection.
          (let payload_hash = projected_hash projection in
           bind_result (unless_error ''binding'' (derive_record_binding run_id seq kind head_sha payload_hash)) (\<lambda>binding.
           bind_result
             (unless_error ''payload''
               (compose_record_marker_payload binding kind run_id head_sha seq previous projection anchor)) (\<lambda>marker.
           bind_result (unless_error ''marker'' (attach_marker body marker)) (\<lambda>marked.
             Inr \<lparr>it_binding = binding, it_kind = kind, it_seq = seq, it_head_sha = head_sha,
                  it_payload_hash = payload_hash, it_body = body, it_projection = projection,
                  it_body_hash = body_hash_of marked, it_marked_body = marked, it_audit_prev = anchor,
                  it_audit_prev_hash = (if anchor \<noteq> None then previous else None)\<rparr>))))))"

section \<open>The record and the state machine\<close>

datatype produce_code = ChainViolation | TransactionUnavailable | IllegalEvent

record produced_record =
  pd_transaction :: issued_transaction
  pd_machine_state :: machine_state
  pd_commands :: "command list"

definition is_integrity_audit :: "machine_state \<Rightarrow> record_kind \<Rightarrow> bool" where
  "is_integrity_audit ms kind \<longleftrightarrow>
     kind = K_INTEGRITY_INCIDENT \<and> (case ms_procedure ms of RecordingIncidentProcedure _ _ \<Rightarrow> True | _ \<Rightarrow> False)"

text \<open>An event is constructed, which may fail, and given to the machine.\<close>

definition announce :: "machine_state \<Rightarrow> event \<Rightarrow> step_result" where
  "announce ms e = bind_result (event_post_init e) (\<lambda>_. transition ms e)"

text \<open>The exceptions that \<open>produce_record\<close> turns into a value; the others pass.\<close>

definition caught :: "domain_error \<Rightarrow> bool" where
  "caught e = (case e of TransitionRejected _ _ _ \<Rightarrow> True | IllegalEventError _ \<Rightarrow> True | _ \<Rightarrow> False)"

definition produce_record ::
  "machine_state \<Rightarrow> record_kind \<Rightarrow> payload \<Rightarrow> string \<Rightarrow> string \<Rightarrow> string \<Rightarrow> chain_verification \<Rightarrow>
   domain_error + (produce_code + produced_record)" where
  "produce_record ms kind payload run_id head_sha body chain =
     (if \<not> is_intact chain \<and> \<not> is_integrity_audit ms kind then Inr (Inl ChainViolation)
      else
        (case issue_transaction kind payload run_id head_sha body (cv_records chain)
                (if is_integrity_audit ms kind then Some chain else None) of
           Inl _ \<Rightarrow> Inr (Inl TransactionUnavailable)
         | Inr issued \<Rightarrow>
             (case announce ms (RecordProduced kind (OpaqueBinding (it_binding issued))) of
                Inl e \<Rightarrow> if caught e then Inr (Inl IllegalEvent) else Inl e
              | Inr (updated, commands) \<Rightarrow>
                  Inr (Inr \<lparr>pd_transaction = issued, pd_machine_state = updated, pd_commands = commands\<rparr>))))"

section \<open>The section of the checkpoint\<close>

definition transaction_section_of :: "issued_transaction \<Rightarrow> (string \<times> json) list" where
  "transaction_section_of t =
     [(''binding'', JStr (it_binding t)), (''kind'', JStr (kind_value (it_kind t))), (''seq'', JInt (it_seq t)),
      (''head_sha'', JStr (it_head_sha t)), (''payload_hash'', JStr (it_payload_hash t)), (''body'', JStr (it_body t)),
      (''body_hash'', JStr (it_body_hash t)), (''projection'', JObj (it_projection t))] @
     (case it_audit_prev t of
        None \<Rightarrow> []
      | Some anchor \<Rightarrow>
          (''audit_prev'', JInt anchor) #
          (case it_audit_prev_hash t of None \<Rightarrow> [] | Some h \<Rightarrow> [(''audit_prev_hash'', JStr h)]))"

end
