(* ===== verification/Transaction_Properties.thy ===== *)
theory Transaction_Properties
  imports Transaction Record_Slot
begin

text \<open>
  What an issued transaction leaves in the checkpoint is enough to post the same record after an interruption
  (\<open>state/pending.py\<close> reads what \<open>workflow/transaction.py\<close> wrote), and a produced record fills the slot of the state machine.
\<close>

section \<open>What was issued\<close>

lemma unless_error_Inr [simp]: "unless_error name r = Inr x \<longleftrightarrow> r = Inr x"
  by (simp add: unless_error_def split: sum.split)

text \<open>The hash in the marker: the explicit one of an audit record, or that of the record before.\<close>

definition linked_hash :: "verified_record list \<Rightarrow> int \<Rightarrow> int option \<Rightarrow> string option \<Rightarrow> string option" where
  "linked_hash records seq anchor h =
     (if anchor \<noteq> None then h
      else if seq < 2 then None else map_option vr_body_hash (record_at records (seq - 1)))"

lemma issue_Inr:
  assumes "issue_transaction kind payload run_id head_sha body records audit_chain = Inr t"
  obtains marker where
    "record_link records audit_chain =
       Some (it_seq t, it_audit_prev t, linked_hash records (it_seq t) (it_audit_prev t) (it_audit_prev_hash t))"
    "build_record_projection kind payload head_sha body = Inr (it_projection t)"
    "it_payload_hash t = projected_hash (it_projection t)"
    "derive_record_binding run_id (it_seq t) kind head_sha (it_payload_hash t) = Inr (it_binding t)"
    "compose_record_marker_payload (it_binding t) kind run_id head_sha (it_seq t)
       (linked_hash records (it_seq t) (it_audit_prev t) (it_audit_prev_hash t)) (it_projection t) (it_audit_prev t) = Inr marker"
    "attach_marker body marker = Inr (it_marked_body t)"
    "it_body_hash t = body_hash_of (it_marked_body t)" "it_kind t = kind" "it_head_sha t = head_sha" "it_body t = body"
    "it_audit_prev t = None \<longrightarrow> it_audit_prev_hash t = None"
proof -
  obtain seq anchor previous where link: "record_link records audit_chain = Some (seq, anchor, previous)"
    using assms by (auto simp: issue_transaction_def split: option.splits prod.splits)
  have prev: "anchor = None \<Longrightarrow> previous = (if seq < 2 then None else map_option vr_body_hash (record_at records (seq - 1)))"
    using link by (auto simp: record_link_def Let_def split: option.splits if_splits)
  from assms link obtain projection binding marker marked where
    r: "build_record_projection kind payload head_sha body = Inr projection"
      "derive_record_binding run_id seq kind head_sha (projected_hash projection) = Inr binding"
      "compose_record_marker_payload binding kind run_id head_sha seq previous projection anchor = Inr marker"
      "attach_marker body marker = Inr marked"
    and t: "t = \<lparr>it_binding = binding, it_kind = kind, it_seq = seq, it_head_sha = head_sha,
                  it_payload_hash = projected_hash projection, it_body = body, it_projection = projection,
                  it_body_hash = body_hash_of marked, it_marked_body = marked, it_audit_prev = anchor,
                  it_audit_prev_hash = (if anchor \<noteq> None then previous else None)\<rparr>"
    unfolding issue_transaction_def by (simp add: bind_result_eq_Inr Let_def) blast
  have "linked_hash records seq anchor (if anchor \<noteq> None then previous else None) = previous"
    using prev by (simp add: linked_hash_def)
  then show thesis using that [of marker] link r by (simp add: t)
qed


lemma issued_projection:
  assumes "build_record_projection kind payload head_sha body = Inr p"
  shows "projection_of (Some (JObj p)) = Some p" and "map_of p PAYLOAD_HASH_KEY = Some (JStr (projected_hash p))"
    and "is_hex 64 (projected_hash p)"
proof -
  obtain spec named digest where parts: "spec_for_payload (RECORD_DEFINITIONS kind) payload = Some spec"
    "valid_version spec payload" "project_fields (ps_fields (PROJECTION_SPECS kind)) payload = Inr named"
    "project_digest (ps_digest_source (PROJECTION_SPECS kind)) payload = Inr digest"
    and p: "p = named @ digest @ [(PAYLOAD_HASH_KEY, JStr (semantic_payload_hash body payload (named @ digest)))]"
    using assms by (rule build_Inr)
  note built = built_readable [OF parts p [unfolded semantic_payload_hash_def]]
  show hash: "map_of p PAYLOAD_HASH_KEY = Some (JStr (projected_hash p))" "is_hex 64 (projected_hash p)"
    using built(2) by (simp_all add: projected_hash_def)
  have "k \<in> PROJECTION_KEYS \<and> projection_value_ok v" if "(k, v) \<in> set p" for k v
  proof -
    have "decoded_value k v \<noteq> None" "k \<in> PROJECTION_KEYS" using built(1) that by (auto simp: readable_def)
    then show ?thesis by (auto simp: decoded_value_def projection_value_ok_def split: json.splits if_splits)
  qed
  then show "projection_of (Some (JObj p)) = Some p" by (auto simp: projection_of_def list_all_iff)
qed

lemma derived_binding:
  assumes "derive_record_binding run_id seq kind head_sha h = Inr b"
  shows "b \<noteq> []" "head_sha \<noteq> []" "1 \<le> seq" "h \<noteq> []"
  using assms by (auto simp: derive_record_binding_def bind_result_eq_Inr Let_def is_hex_def split: if_splits)

section \<open>The link to the chain\<close>

lemma below_next: "\<forall>r \<in> set records. vr_seq r \<le> max_default (map vr_seq records)"
  by (auto simp: max_default_def)

lemma record_at_above: "\<forall>r \<in> set records. vr_seq r < seq \<Longrightarrow> record_at records seq = None"
  by (force simp: record_at_def map_of_eq_None_iff)

lemma record_at_find:
  assumes "distinct (map vr_seq records)"
  shows "record_at records seq = find (\<lambda>r. vr_seq r = seq) records"
proof -
  have "record_at records seq = map_of (map (\<lambda>r. (vr_seq r, r)) records) seq"
    unfolding record_at_def by (rule fun_cong, rule map_of_inject_set [THEN iffD2]) (use assms in \<open>simp_all add: comp_def flip: rev_map\<close>)
  also have "\<dots> = find (\<lambda>r. vr_seq r = seq) records" by (induction records) auto
  finally show ?thesis .
qed

lemma link_above:
  assumes "record_link records audit_chain = Some (seq, anchor, previous)"
  shows "\<forall>r \<in> set records. vr_seq r < seq" and "anchor = None \<Longrightarrow> seq = next_sequence records"
    and "anchor \<noteq> None \<Longrightarrow> anchor = Some (max_default (map vr_seq records)) \<and>
      previous = map_option vr_body_hash (find (\<lambda>r. vr_seq r = max_default (map vr_seq records)) records)"
proof -
  show "\<forall>r \<in> set records. vr_seq r < seq"
    using assms below_next [of records]
    by (fastforce simp: record_link_def next_sequence_def Let_def split: option.splits if_splits)
qed (use assms in \<open>auto simp: record_link_def Let_def split: option.splits if_splits\<close>)

lemma kept_previous:
  assumes link: "record_link records audit_chain = Some (seq, pt_audit_prev p, linked_hash records seq (pt_audit_prev p) (pt_audit_prev_hash p))"
    and composed: "compose_record_marker_payload key (pt_kind p) run_id head_sha seq
      (linked_hash records seq (pt_audit_prev p) (pt_audit_prev_hash p)) projection (pt_audit_prev p)
      = Inr marker"
    and p: "pt_seq p = seq" "pt_body_hash p \<noteq> None" and distinct: "distinct (map vr_seq records)"
  shows "previous_hash p records = Inr (linked_hash records seq (pt_audit_prev p) (pt_audit_prev_hash p))"
proof (cases "pt_audit_prev p")
  case None
  have "2 \<le> seq \<Longrightarrow> record_at records (seq - 1) \<noteq> None"
    using link None by (auto simp: record_link_def Let_def split: option.splits if_splits)
  then show ?thesis using None p(1) by (auto simp: previous_hash_def linked_hash_def)
next
  case (Some a)
  let ?m = "max_default (map vr_seq records)"
  have a: "a = ?m" "pt_audit_prev_hash p = map_option vr_body_hash (record_at records ?m)"
    using link_above(3) [OF link] Some record_at_find [OF distinct] by (auto simp: linked_hash_def)
  have "filter (\<lambda>n. n < seq) (map vr_seq records) = map vr_seq records"
    using link_above(1) [OF link] by (auto simp: filter_id_conv)
  moreover have "audit_link_error (pt_kind p) seq (Some (JInt a)) (map_option JStr (pt_audit_prev_hash p)) = None"
    using composed Some by (auto simp: compose_record_marker_payload_def linked_hash_def split: if_splits)
  ultimately show ?thesis using Some a p by (simp add: previous_hash_def Let_def linked_hash_def)
qed

section \<open>Reading the section back\<close>

definition pending_of :: "issued_transaction \<Rightarrow> pending_transaction" where
  "pending_of t =
     \<lparr>pt_binding = it_binding t, pt_kind = it_kind t, pt_seq = it_seq t, pt_head_sha = it_head_sha t,
      pt_payload_hash = it_payload_hash t, pt_body = it_body t, pt_projection = it_projection t,
      pt_body_hash = Some (it_body_hash t), pt_audit_prev = it_audit_prev t, pt_audit_prev_hash = it_audit_prev_hash t\<rparr>"

lemma section_lookup:
  "map_of (transaction_section_of t) ''binding'' = Some (JStr (it_binding t))"
  "map_of (transaction_section_of t) ''kind'' = Some (JStr (kind_value (it_kind t)))"
  "map_of (transaction_section_of t) ''seq'' = Some (JInt (it_seq t))"
  "map_of (transaction_section_of t) ''head_sha'' = Some (JStr (it_head_sha t))"
  "map_of (transaction_section_of t) ''payload_hash'' = Some (JStr (it_payload_hash t))"
  "map_of (transaction_section_of t) ''body'' = Some (JStr (it_body t))"
  "map_of (transaction_section_of t) ''body_hash'' = Some (JStr (it_body_hash t))"
  "map_of (transaction_section_of t) ''projection'' = Some (JObj (it_projection t))"
  "map_of (transaction_section_of t) ''audit_prev'' = map_option JInt (it_audit_prev t)"
  "map_of (transaction_section_of t) ''audit_prev_hash'' =
     (if it_audit_prev t = None then None else map_option JStr (it_audit_prev_hash t))"
  by (auto simp: transaction_section_of_def split: option.split)

lemma section_read:
  assumes issued: "issue_transaction kind payload run_id head_sha body records audit_chain = Inr t" and "body \<noteq> []"
  shows "read_section (transaction_section_of t) = Inr (pending_of t)"
proof -
  obtain marker where
    p: "build_record_projection kind payload head_sha body = Inr (it_projection t)"
      "it_payload_hash t = projected_hash (it_projection t)"
    and b: "derive_record_binding run_id (it_seq t) kind head_sha (it_payload_hash t) = Inr (it_binding t)"
    and c: "compose_record_marker_payload (it_binding t) kind run_id head_sha (it_seq t)
       (linked_hash records (it_seq t) (it_audit_prev t) (it_audit_prev_hash t)) (it_projection t) (it_audit_prev t)
       = Inr marker"
    and t: "it_body_hash t = body_hash_of (it_marked_body t)" "it_kind t = kind" "it_head_sha t = head_sha" "it_body t = body"
      "it_audit_prev t = None \<longrightarrow> it_audit_prev_hash t = None"
    using issued by (rule issue_Inr)
  note proj = issued_projection [OF p(1)]
  note texts = derived_binding [OF b]
  have body_hash: "it_body_hash t \<noteq> []" using t(1) sha256_form [of "it_marked_body t"] by (auto simp: body_hash_of_def is_hex_def)
  have link: "transaction_link (transaction_section_of t) kind (it_seq t) = Inr ()"
  proof (cases "it_audit_prev t")
    case None
    then show ?thesis using t(5) by (simp add: transaction_link_def section_lookup)
  next
    case (Some a)
    then have "audit_link_error kind (it_seq t) (Some (JInt a)) (map_option JStr (it_audit_prev_hash t)) = None"
      using c by (auto simp: compose_record_marker_payload_def linked_hash_def split: if_splits)
    then show ?thesis using Some body_hash by (simp add: transaction_link_def section_lookup transaction_str_def)
  qed
  have kind: "kind_value kind \<noteq> []" by (cases kind) simp_all
  show ?thesis
    using proj texts kind link t p(2) assms(2)
    by (auto simp: read_section_def transaction_str_def section_lookup pending_of_def as_str_def as_int_def
        split: option.split)
qed

text \<open>The same record again, from what was kept and the records that were there.\<close>

lemma reissue_issued:
  assumes issued: "issue_transaction kind payload run_id head_sha body records audit_chain = Inr t"
    and "distinct (map vr_seq records)"
  shows "evaluate_pending (pending_of t) run_id records =
    PendingReissueRequired (pending_of t) (it_marked_body t) (it_body_hash t)"
proof -
  obtain marker where
    l: "record_link records audit_chain =
       Some (it_seq t, it_audit_prev t, linked_hash records (it_seq t) (it_audit_prev t) (it_audit_prev_hash t))"
    and c: "compose_record_marker_payload (it_binding t) kind run_id head_sha (it_seq t)
       (linked_hash records (it_seq t) (it_audit_prev t) (it_audit_prev_hash t)) (it_projection t) (it_audit_prev t)
       = Inr marker"
    and m: "attach_marker body marker = Inr (it_marked_body t)"
    and t: "it_body_hash t = body_hash_of (it_marked_body t)" "it_kind t = kind" "it_head_sha t = head_sha" "it_body t = body"
    using issued by (rule issue_Inr)
  have "record_at records (it_seq t) = None" by (rule record_at_above [OF link_above(1) [OF l]])
  moreover have "previous_hash (pending_of t) records =
      Inr (linked_hash records (it_seq t) (it_audit_prev t) (it_audit_prev_hash t))"
    using kept_previous [of records audit_chain "it_seq t" "pending_of t"] l c t(2) assms(2) by (simp add: pending_of_def)
  ultimately show ?thesis
    using c m t by (simp add: evaluate_pending_def complete_body_def pending_of_def Let_def)
qed

section \<open>Producing and resuming\<close>

lemma produce_Inr:
  assumes "produce_record ms kind payload run_id head_sha body chain = Inr (Inr r)"
  shows "is_intact chain \<or> is_integrity_audit ms kind"
    and "issue_transaction kind payload run_id head_sha body (cv_records chain)
      (if is_integrity_audit ms kind then Some chain else None) = Inr (pd_transaction r)"
    and "transition ms (RecordProduced kind (OpaqueBinding (it_binding (pd_transaction r)))) =
      Inr (pd_machine_state r, pd_commands r)"
  using assms
  by (auto simp: produce_record_def announce_def bind_result_eq_Inr split: if_splits sum.split_asm prod.split_asm)

text \<open>
  C33. A record survives an interruption before its posting: when \<open>produce_record\<close> accepts it, the chain was intact or the
  record is the audit of an integrity violation, the only command is to persist it, the slot of the machine holds its kind and
  its binding, and whatever else the checkpoint holds, its section \<open>transaction\<close> is read back as a transaction with
  this binding that is evaluated to a reissue of exactly the marked text and the hash that were issued.
\<close>

theorem produced_survives_interruption:
  assumes produced: "produce_record ms kind payload run_id head_sha body chain = Inr (Inr r)"
    and "distinct (map vr_seq (cv_records chain))" and "body \<noteq> []"
    and "map_of checkpoint ''transaction'' = Some (JObj (transaction_section_of (pd_transaction r)))"
  shows "(is_intact chain \<or> is_integrity_audit ms kind) \<and>
    pd_commands r = [PersistRecord kind (OpaqueBinding (it_binding (pd_transaction r)))] \<and>
    ms_pending_record (pd_machine_state r) = Some
      \<lparr>pr_kind = kind, pr_binding = OpaqueBinding (it_binding (pd_transaction r)), pr_source_state = ms_state ms\<rparr> \<and>
    (\<exists>p. read_transaction checkpoint = Inr (Some p) \<and> pt_binding p = it_binding (pd_transaction r) \<and>
      evaluate_pending p run_id (cv_records chain) =
        PendingReissueRequired p (it_marked_body (pd_transaction r)) (it_body_hash (pd_transaction r)))"
proof (intro conjI)
  note p = produce_Inr [OF produced]
  show "is_intact chain \<or> is_integrity_audit ms kind" by (rule p(1))
  show "pd_commands r = [PersistRecord kind (OpaqueBinding (it_binding (pd_transaction r)))]"
    "ms_pending_record (pd_machine_state r) = Some
      \<lparr>pr_kind = kind, pr_binding = OpaqueBinding (it_binding (pd_transaction r)), pr_source_state = ms_state ms\<rparr>"
    using produced_step [OF p(3)] by simp_all
  have "read_transaction checkpoint = Inr (Some (pending_of (pd_transaction r)))"
    using section_read [OF p(2) assms(3)] assms(4) by (simp add: read_transaction_def)
  then show "\<exists>p. read_transaction checkpoint = Inr (Some p) \<and> pt_binding p = it_binding (pd_transaction r) \<and>
      evaluate_pending p run_id (cv_records chain) =
        PendingReissueRequired p (it_marked_body (pd_transaction r)) (it_body_hash (pd_transaction r))"
    using reissue_issued [OF p(2) assms(2)] by (simp add: pending_of_def)
qed

section \<open>An approval at the gate\<close>

definition gate_state :: machine_state where
  "gate_state = MachineState S_READY_FOR_HUMAN_MERGE\<lparr>ms_awaiting := Some A_USER_INPUT_GATE\<rparr>"

definition empty_chain :: chain_verification where
  "empty_chain = \<lparr>cv_records = [], cv_violations = [], cv_max_seq = 0, cv_assurance_high_water = 0\<rparr>"

definition merge_head :: string where "merge_head = replicate 40 CHR ''a''"

definition merge_payload :: payload where
  "merge_payload =
     [(''schema_version'', JInt 1), (''repository'', JStr ''r''), (''pr_number'', JInt 1),
      (''approved_head_sha'', JStr merge_head), (''merge_method'', JStr ''squash''), (''intent'', JStr ''APPROVE_MERGE''),
      (''input_route'', JStr ''u''), (''recorded_at'', JStr ''t''), (''comment_id'', JStr ''1'')]"

lemma merge_payload_valid: "validate_object MERGE_APPROVAL merge_payload = Accepted merge_payload (Some 1)"
proof -
  have "code_points merge_head = 40" "code_points ''r'' = 1" "code_points ''u'' = 1" "code_points ''t'' = 1"
    "code_points ''1'' = 1" "merge_head \<noteq> []"
    by code_simp+
  then have "has_fields merge_approval_fields merge_payload"
    by (simp add: has_fields_def merge_approval_fields_def merge_payload_def field_defs has_type_simps MERGE_METHODS_def)
  then show ?thesis
    by (simp add: validate_object_Accepted version_of_def merge_payload_def spec_for_payload_def MERGE_APPROVAL_def
        single_version_def spec_at_def valid_version_def)
qed

lemma merge_projection:
  "\<exists>h. is_hex 64 h \<and> build_record_projection K_MERGE_APPROVAL merge_payload merge_head ''Merge.'' =
     Inr [(RESULT_KEY, JStr ''squash''), (PAYLOAD_HASH_KEY, JStr h)]"
proof -
  have "project_fields (ps_fields (PROJECTION_SPECS K_MERGE_APPROVAL)) merge_payload = Inr [(RESULT_KEY, JStr ''squash'')]"
    by (simp add: project_fields.simps spec_for_def field_of_def merge_payload_def projectable_def INTEGER_KEYS_def
        projection_key_defs)
  moreover have "map_of merge_payload ''approved_head_sha'' = Some (JStr merge_head)" by (simp add: merge_payload_def)
  ultimately have "build_record_projection K_MERGE_APPROVAL merge_payload merge_head ''Merge.'' =
      Inr [(RESULT_KEY, JStr ''squash''), (PAYLOAD_HASH_KEY,
             JStr (semantic_payload_hash ''Merge.'' merge_payload [(RESULT_KEY, JStr ''squash'')]))]"
    by (simp add: build_record_projection_def Let_def merge_payload_valid spec_for_def project_digest_def)
  then show ?thesis using sha256_form unfolding semantic_payload_hash_def by blast
qed

lemma length_escape: "length (escape_char c) \<le> 6"
  by (auto simp: escape_char_def)

lemma length_quoted: "length (quoted s) \<le> 6 * length s + 2"
proof -
  have "length (concat (map escape_char s)) \<le> 6 * length s"
    by (induction s) (simp_all add: add_mono length_escape)
  then show ?thesis by (simp add: quoted_def)
qed

lemma length_joined_le: "length (joined ts) \<le> sum_list (map (\<lambda>t. Suc (length t)) ts)"
  by (induction ts rule: joined.induct) simp_all

lemma sum_list_inserted: "sum_list (map f (insort_key g x xs)) = f x + sum_list (map f xs :: nat list)"
  by (induction xs) simp_all

lemma sum_list_sorted: "sum_list (map f (sort_key g xs)) = sum_list (map f xs :: nat list)"
  by (induction xs) (simp_all add: sum_list_inserted)

lemma length_object:
  "length (dumps (JObj kvs)) \<le> 2 + sum_list (map (\<lambda>(k, v). length (quoted k) + length (dumps v) + 2) kvs)"
proof -
  let ?item = "\<lambda>(k, v). quoted k @ CHR '':'' # dumps v"
  have "length (joined (map ?item (sort_key fst kvs))) \<le>
      sum_list (map (\<lambda>(k, v). length (quoted k) + length (dumps v) + 2) (sort_key fst kvs))"
    using length_joined_le [of "map ?item (sort_key fst kvs)"] by (simp add: comp_def case_prod_unfold)
  also have "\<dots> = sum_list (map (\<lambda>(k, v). length (quoted k) + length (dumps v) + 2) kvs)"
    by (rule sum_list_sorted)
  finally show ?thesis by simp
qed

lemma merge_issued:
  "\<exists>t. issue_transaction K_MERGE_APPROVAL merge_payload ''run1'' merge_head ''Merge.'' [] None = Inr t"
proof -
  obtain h where h: "length h = 64" "is_hex 64 h"
    and projection: "build_record_projection K_MERGE_APPROVAL merge_payload merge_head ''Merge.'' =
      Inr [(RESULT_KEY, JStr ''squash''), (PAYLOAD_HASH_KEY, JStr h)]"
    using merge_projection by (auto simp: is_hex_def)
  have forms: "run_id_form ''run1''" "is_hex 40 merge_head" "padded 1 = ''00000001''" by code_simp+
  then obtain d where binding: "derive_record_binding ''run1'' 1 K_MERGE_APPROVAL merge_head h = Inr (''cr:run1:00000001:'' @ d)"
    and d: "length d = 64"
    using h(2) sha256_form by (auto simp: derive_record_binding_def validate_run_id_def Let_def is_hex_def)
  let ?marker = "[(''key'', JStr (''cr:run1:00000001:'' @ d)), (''kind'', JStr ''MERGE_APPROVAL''), (''run'', JStr ''run1''),
      (''head'', JStr merge_head), (''seq'', JInt 1), (RESULT_KEY, JStr ''squash''), (PAYLOAD_HASH_KEY, JStr h)]"
  have "length (dumps (JObj ?marker)) \<le> MAX_PAYLOAD_BYTES"
  proof -
    have "length (dumps (JStr (''cr:run1:00000001:'' @ d))) \<le> 510" "length (dumps (JStr h)) \<le> 386"
      using length_quoted [of "''cr:run1:00000001:'' @ d"] length_quoted [of h] h(1) d by simp_all
    moreover have "length (dumps (JStr merge_head)) = 42" "length (dumps (JInt 1)) = 1"
      "length (dumps (JStr ''MERGE_APPROVAL'')) = 16" "length (dumps (JStr ''run1'')) = 6"
      "length (dumps (JStr ''squash'')) = 8" "length (quoted ''key'') = 5" "length (quoted ''kind'') = 6"
      "length (quoted ''run'') = 5" "length (quoted ''head'') = 6" "length (quoted ''seq'') = 5"
      "length (quoted RESULT_KEY) = 5" "length (quoted PAYLOAD_HASH_KEY) = 5"
      by code_simp+
    ultimately show ?thesis
      using length_object [of ?marker] unfolding MAX_PAYLOAD_BYTES_def by simp
  qed
  moreover have "check_marker_items ?marker = Inr ()"
    by (simp add: ALLOWED_PAYLOAD_KEYS_def STRUCTURAL_PAYLOAD_KEYS_def PROJECTION_KEYS_def projection_key_defs marker_value_ok_def)
  moreover have "compose_record_marker_payload (''cr:run1:00000001:'' @ d) K_MERGE_APPROVAL ''run1'' merge_head 1 None
      [(RESULT_KEY, JStr ''squash''), (PAYLOAD_HASH_KEY, JStr h)] None = Inr ?marker"
    using calculation(1)
    by (simp add: compose_record_marker_payload_def STRUCTURAL_PAYLOAD_KEYS_def projection_key_defs merge_head_def)
  ultimately show ?thesis
    using projection binding
    by (simp add: issue_transaction_def record_link_def next_sequence_def max_default_def Let_def unless_error_def
        projected_hash_def projection_key_defs attach_marker_def)
qed

lemma merge_announced:
  "\<exists>ms cs. transition gate_state (RecordProduced K_MERGE_APPROVAL b) = Inr (ms, cs)"
  by (simp add: gate_state_def run_eval)

theorem produced_survives_interruption_witness:
  "\<exists>r p. produce_record gate_state K_MERGE_APPROVAL merge_payload ''run1'' merge_head ''Merge.'' empty_chain = Inr (Inr r) \<and>
     read_transaction [(''transaction'', JObj (transaction_section_of (pd_transaction r)))] = Inr (Some p) \<and>
     evaluate_pending p ''run1'' [] =
       PendingReissueRequired p (it_marked_body (pd_transaction r)) (it_body_hash (pd_transaction r))"
proof -
  obtain t where t: "issue_transaction K_MERGE_APPROVAL merge_payload ''run1'' merge_head ''Merge.'' [] None = Inr t"
    using merge_issued by blast
  obtain ms cs where m: "transition gate_state (RecordProduced K_MERGE_APPROVAL (OpaqueBinding (it_binding t))) = Inr (ms, cs)"
    using merge_announced by blast
  have "produce_record gate_state K_MERGE_APPROVAL merge_payload ''run1'' merge_head ''Merge.'' empty_chain =
      Inr (Inr \<lparr>pd_transaction = t, pd_machine_state = ms, pd_commands = cs\<rparr>)"
    using t m by (simp add: produce_record_def is_integrity_audit_def announce_def is_intact_def empty_chain_def verified_event_check_def)
  from produced_survives_interruption [OF this, of "[(''transaction'', JObj (transaction_section_of t))]"]
  show ?thesis using \<open>produce_record _ _ _ _ _ _ _ = _\<close> by (fastforce simp: empty_chain_def)
qed

end
