(* ===== verification/Actions.thy ===== *)
theory Actions
  imports Schema_Records Vocabulary Machine
begin

text \<open>
  \<open>workflow/actions.py\<close>: what the host is asked for in each wait of the state machine, which records it may return,
  the event that each record becomes, and the key that identifies one intent of the user on both input routes. The
  texts of an \<open>ActionRegistryError\<close> are names.
\<close>

section \<open>Results\<close>

text \<open>
  A result has the schema that the registry holds for its name and an event class; \<open>rv_extra_event_inputs\<close> names the
  arguments of the event besides the evidence.
\<close>

record result_variant =
  rv_record_kind :: record_kind
  rv_result_definition :: schema_definition
  rv_event :: event_type
  rv_extra_event_inputs :: "string list"
  rv_port_mapped :: bool

definition ResultVariant :: "record_kind \<Rightarrow> schema_definition \<Rightarrow> event_type \<Rightarrow> string list \<Rightarrow> result_variant" where
  "ResultVariant kind definition event inputs =
     \<lparr>rv_record_kind = kind, rv_result_definition = definition, rv_event = event,
      rv_extra_event_inputs = inputs, rv_port_mapped = False\<rparr>"

definition RESULT_VARIANTS :: "(record_kind \<times> result_variant) list" where
  "RESULT_VARIANTS =
     [(K_FIX_RESULT, ResultVariant K_FIX_RESULT FIX_RESULT ET_FixResultVerified [''report'']),
      (K_CLARIFICATION_QUESTION,
         ResultVariant K_CLARIFICATION_QUESTION CLARIFICATION_QUESTION ET_ClarificationQuestionVerified [''report'']),
      (K_DECISION_REQUEST, ResultVariant K_DECISION_REQUEST DECISION_REQUEST ET_DecisionRequestVerified []),
      (K_EXTERNAL_DEPENDENCY,
         ResultVariant K_EXTERNAL_DEPENDENCY EXTERNAL_DEPENDENCY ET_ExternalDependencyVerified [''head'']),
      (K_PERMISSION_BLOCK, ResultVariant K_PERMISSION_BLOCK PERMISSION_BLOCK ET_ToolPermissionBlocked []),
      (K_DECISION_BRIEF, ResultVariant K_DECISION_BRIEF DECISION_BRIEF ET_DecisionBriefVerified []),
      (K_DECISION_RECORD, ResultVariant K_DECISION_RECORD DECISION_RECORD ET_DecisionRecordVerified []),
      (K_GATE_ANSWER, ResultVariant K_GATE_ANSWER GATE_ANSWER ET_GateAnswerVerified []),
      (K_USER_DECISION, ResultVariant K_USER_DECISION USER_DECISION ET_UserDecisionVerified []),
      (K_GATE_QUESTION, ResultVariant K_GATE_QUESTION GATE_QUESTION ET_GateQuestionVerified []),
      (K_GATE_CHANGES, ResultVariant K_GATE_CHANGES GATE_CHANGES ET_GateChangesVerified []),
      (K_MERGE_APPROVAL, ResultVariant K_MERGE_APPROVAL MERGE_APPROVAL ET_MergeApprovalVerified []),
      (K_BLOCK_INTERVENTION,
         (ResultVariant K_BLOCK_INTERVENTION BLOCK_INTERVENTION ET_BlockResolvedIntervention [])\<lparr>rv_port_mapped := True\<rparr>),
      (K_USER_CANCEL, ResultVariant K_USER_CANCEL USER_CANCEL ET_UserCancelVerified [])]"

section \<open>Host actions\<close>

record action_spec =
  as_action :: host_action
  as_awaiting :: awaiting
  as_result_kinds :: "record_kind list"
  as_evidence_kinds :: "record_kind list"

definition ACTION_SPECS :: "(host_action \<times> action_spec) list" where
  "ACTION_SPECS =
     [(HA_APPLY_FINDINGS,
       \<lparr>as_action = HA_APPLY_FINDINGS, as_awaiting = A_HOST_APPLY_FINDINGS,
        as_result_kinds =
          [K_FIX_RESULT, K_CLARIFICATION_QUESTION, K_DECISION_REQUEST, K_EXTERNAL_DEPENDENCY, K_PERMISSION_BLOCK],
        as_evidence_kinds = [K_REVIEW_RESULT, K_CLARIFICATION_ANSWER]\<rparr>),
      (HA_DRAFT_DECISION_REQUEST,
       \<lparr>as_action = HA_DRAFT_DECISION_REQUEST, as_awaiting = A_HOST_DRAFT_DECISION_REQUEST,
        as_result_kinds = [K_DECISION_REQUEST], as_evidence_kinds = [K_REVIEW_RESULT]\<rparr>),
      (HA_REVISE_DECISION_REQUEST,
       \<lparr>as_action = HA_REVISE_DECISION_REQUEST, as_awaiting = A_HOST_REVISE_DECISION_REQUEST,
        as_result_kinds = [K_DECISION_REQUEST], as_evidence_kinds = [K_DECISION_REQUEST, K_DECISION_VERDICT]\<rparr>),
      (HA_DRAFT_DECISION_BRIEF,
       \<lparr>as_action = HA_DRAFT_DECISION_BRIEF, as_awaiting = A_HOST_DRAFT_DECISION_BRIEF,
        as_result_kinds = [K_DECISION_BRIEF], as_evidence_kinds = [K_DECISION_REQUEST, K_DECISION_VERDICT]\<rparr>),
      (HA_RECORD_DECISION,
       \<lparr>as_action = HA_RECORD_DECISION, as_awaiting = A_HOST_RECORD_DECISION,
        as_result_kinds = [K_DECISION_RECORD], as_evidence_kinds = [K_DECISION_BRIEF, K_USER_DECISION]\<rparr>),
      (HA_ANSWER_GATE_QUESTION,
       \<lparr>as_action = HA_ANSWER_GATE_QUESTION, as_awaiting = A_HOST_ANSWER_GATE_QUESTION,
        as_result_kinds = [K_GATE_ANSWER], as_evidence_kinds = [K_GATE_QUESTION]\<rparr>)]"

text \<open>The \<open>variant_for\<close> of the three kinds of specifications.\<close>

definition variant_among :: "record_kind list \<Rightarrow> record_kind \<Rightarrow> result_variant option" where
  "variant_among kinds kind = (if kind \<notin> set kinds then None else map_of RESULT_VARIANTS kind)"

datatype registry_error = ActionRegistryError string | EventError domain_error

definition spec_for_action :: "host_action \<Rightarrow> registry_error + action_spec" where
  "spec_for_action action =
     (case map_of ACTION_SPECS action of None \<Rightarrow> Inl (ActionRegistryError ''action'') | Some spec \<Rightarrow> Inr spec)"

definition spec_for_awaiting :: "awaiting \<Rightarrow> action_spec option" where
  "spec_for_awaiting a = find (\<lambda>spec. as_awaiting spec = a) (map snd ACTION_SPECS)"

definition spec_for_kind :: "string \<Rightarrow> action_spec option" where
  "spec_for_kind kind = find (\<lambda>spec. host_action_value (as_action spec) = kind) (map snd ACTION_SPECS)"

section \<open>Events\<close>

text \<open>The arguments of an event besides the evidence; the name of an argument goes with its type.\<close>

datatype event_input = ReportInput progress_report | HeadInput opaque_ref | OtherInput string

fun input_name :: "event_input \<Rightarrow> string" where
  "input_name (ReportInput _) = ''report''"
| "input_name (HeadInput _) = ''head''"
| "input_name (OtherInput n) = n"

text \<open>\<open>factory(evidence=evidence, **inputs)\<close>, a \<open>TypeError\<close> when the constructor has other parameters.\<close>

definition evidence_events :: "(event_type \<times> (record_evidence \<Rightarrow> event)) list" where
  "evidence_events =
     [(ET_DecisionRequestVerified, DecisionRequestVerified), (ET_ToolPermissionBlocked, ToolPermissionBlocked),
      (ET_DecisionBriefVerified, DecisionBriefVerified), (ET_DecisionRecordVerified, DecisionRecordVerified),
      (ET_GateAnswerVerified, GateAnswerVerified), (ET_UserDecisionVerified, UserDecisionVerified),
      (ET_GateQuestionVerified, GateQuestionVerified), (ET_GateChangesVerified, GateChangesVerified),
      (ET_MergeApprovalVerified, MergeApprovalVerified), (ET_UserCancelVerified, UserCancelVerified)]"

definition make_event :: "event_type \<Rightarrow> record_evidence \<Rightarrow> event_input list \<Rightarrow> event option" where
  "make_event et ev inputs =
     (case inputs of
        [] \<Rightarrow> map_option (\<lambda>f. f ev) (map_of evidence_events et)
      | [ReportInput r] \<Rightarrow>
          if et = ET_FixResultVerified then Some (FixResultVerified ev r)
          else if et = ET_ClarificationQuestionVerified then Some (ClarificationQuestionVerified ev r)
          else None
      | [HeadInput h] \<Rightarrow> if et = ET_ExternalDependencyVerified then Some (ExternalDependencyVerified ev h) else None
      | _ \<Rightarrow> None)"

definition build_event :: "result_variant \<Rightarrow> record_evidence \<Rightarrow> event_input list \<Rightarrow> registry_error + event" where
  "build_event variant evidence inputs =
     (if rv_port_mapped variant then Inl (ActionRegistryError ''port'')
      else if set (map input_name inputs) \<noteq> set (rv_extra_event_inputs variant) then Inl (ActionRegistryError ''inputs'')
      else
        (case make_event (rv_event variant) evidence inputs of
           None \<Rightarrow> Inl (ActionRegistryError ''TypeError'')
         | Some e \<Rightarrow> (case event_post_init e of Inl d \<Rightarrow> Inl (EventError d) | Inr _ \<Rightarrow> Inr e)))"

section \<open>Requests to the user\<close>

record user_request_spec =
  us_awaiting :: awaiting
  us_result_kinds :: "record_kind list"
  us_evidence_kinds :: "record_kind list"
  us_resume_event :: "event_type option"

definition USER_REQUEST_SPECS :: "(awaiting \<times> user_request_spec) list" where
  "USER_REQUEST_SPECS =
     [(A_USER_INPUT_DECISION,
       \<lparr>us_awaiting = A_USER_INPUT_DECISION, us_result_kinds = [K_USER_DECISION, K_USER_CANCEL],
        us_evidence_kinds = [K_DECISION_BRIEF], us_resume_event = None\<rparr>),
      (A_USER_INPUT_GATE,
       \<lparr>us_awaiting = A_USER_INPUT_GATE,
        us_result_kinds = [K_GATE_QUESTION, K_GATE_CHANGES, K_MERGE_APPROVAL, K_USER_CANCEL],
        us_evidence_kinds = [K_FINAL_REPORT], us_resume_event = None\<rparr>),
      (A_USER_INPUT_PERMISSION,
       \<lparr>us_awaiting = A_USER_INPUT_PERMISSION, us_result_kinds = [K_USER_CANCEL],
        us_evidence_kinds = [K_PERMISSION_BLOCK], us_resume_event = Some ET_PermissionResumeValidated\<rparr>)]"

definition user_spec_for :: "awaiting \<Rightarrow> user_request_spec option" where
  "user_spec_for a = map_of USER_REQUEST_SPECS a"

record block_request_spec =
  bs_block_kind :: block_kind
  bs_result_kinds :: "record_kind list"
  bs_reasons :: "progress list option"
  bs_evidence_kinds :: "record_kind list"

definition BLOCK_REQUEST_SPECS :: "block_request_spec list" where
  "BLOCK_REQUEST_SPECS =
     [\<lparr>bs_block_kind = BK_PROGRESS, bs_result_kinds = [K_BLOCK_INTERVENTION, K_USER_CANCEL],
       bs_reasons = Some [P_NO_PROGRESS], bs_evidence_kinds = []\<rparr>,
      \<lparr>bs_block_kind = BK_EXTERNAL_DEPENDENCY, bs_result_kinds = [K_BLOCK_INTERVENTION, K_USER_CANCEL],
       bs_reasons = None, bs_evidence_kinds = [K_EXTERNAL_DEPENDENCY]\<rparr>]"

definition block_binding_of :: "block_context \<Rightarrow> string option" where
  "block_binding_of b =
     (case b of ProgressBlock p \<Rightarrow> Some (binding_value (pb_binding p))
      | ExternalDependencyBlock x \<Rightarrow> Some (binding_value (xb_binding x))
      | RecordIntegrityBlock _ \<Rightarrow> None)"

definition accepts_block :: "block_context \<Rightarrow> block_request_spec \<Rightarrow> bool" where
  "accepts_block b spec \<longleftrightarrow>
     (case b of
        ProgressBlock p \<Rightarrow>
          bs_block_kind spec = BK_PROGRESS \<and>
          (case bs_reasons spec of Some reasons \<Rightarrow> pb_reason p \<in> set reasons | None \<Rightarrow> False)
      | ExternalDependencyBlock _ \<Rightarrow> bs_block_kind spec = BK_EXTERNAL_DEPENDENCY
      | RecordIntegrityBlock _ \<Rightarrow> False)"

definition block_spec_for :: "block_context \<Rightarrow> block_request_spec option" where
  "block_spec_for b = find (accepts_block b) BLOCK_REQUEST_SPECS"

section \<open>The key of an intent\<close>

definition INTENT_KEY_PREFIX :: string where "INTENT_KEY_PREFIX = ''ui:''"

definition INTENT_VALUE_FIELDS :: "(record_kind \<times> string) list" where
  "INTENT_VALUE_FIELDS = [(K_USER_DECISION, ''answer'')]"

definition BODY_VALUE_FIELDS :: "(record_kind \<times> string) list" where
  "BODY_VALUE_FIELDS =
     [(K_USER_DECISION, ''answer''), (K_GATE_QUESTION, ''body''), (K_GATE_CHANGES, ''body''),
      (K_USER_CANCEL, ''reason''), (K_BLOCK_INTERVENTION, ''body'')]"

definition intent_digest :: "string \<Rightarrow> string" where
  "intent_digest v = sha256_hex (strip_text (normalize_newlines v))"

text \<open>
  The payload passed the schema of its kind, in which the field is an obligatory text; without it the call is an error
  of the caller (\<open>KeyError\<close>).
\<close>

definition intent_value_of :: "record_kind \<Rightarrow> payload \<Rightarrow> registry_error + string option" where
  "intent_value_of kind payload =
     (case map_of INTENT_VALUE_FIELDS kind of
        None \<Rightarrow> Inr None
      | Some name \<Rightarrow>
          (case map_of payload name of
             Some (JStr s) \<Rightarrow> Inr (Some s)
           | _ \<Rightarrow> Inl (ActionRegistryError ''KeyError'')))"

datatype wait_instance = AwaitingInstance awaiting int | BlockInstance string

fun instance_fields :: "wait_instance \<Rightarrow> (string \<times> json) list" where
  "instance_fields (BlockInstance b) = [(''block'', JStr b)]"
| "instance_fields (AwaitingInstance a since) = [(''awaiting'', JStr (awaiting_value a)), (''since'', JInt since)]"

definition intent_key ::
  "string \<Rightarrow> wait_instance \<Rightarrow> string \<Rightarrow> record_kind \<Rightarrow> string option \<Rightarrow> registry_error + string" where
  "intent_key run_id inst head_sha kind intent_value =
     (if (map_of INTENT_VALUE_FIELDS kind = None) \<noteq> (intent_value = None) then Inl (ActionRegistryError ''intent value'')
      else
        Inr (INTENT_KEY_PREFIX @ dumps (JObj
          ([(''head'', JStr head_sha),
            (''intent'', case intent_value of None \<Rightarrow> JNull | Some v \<Rightarrow> JStr (intent_digest v)),
            (''kind'', JStr (kind_value kind)), (''run'', JStr run_id)] @ instance_fields inst))))"

end
