(* ===== verification/Actions_Properties.thy ===== *)
theory Actions_Properties
  imports Actions Record_Slot Json_Roundtrip
begin

text \<open>
  What the host and the user are asked for agrees with what the state machine accepts; an intent of the user has one
  key on every route.
\<close>

section \<open>What the machine accepts\<close>

text \<open>Which rule announces a record, read off the registry: the kind with the state, the wait or the block.\<close>

definition announcing_table :: "(record_kind \<times> state \<times> awaiting option) set" where
  "announcing_table =
     {(K_REVIEW_RESULT, S_RUNNING_REVIEW, Some A_CODEX_CODE_REVIEW),
      (K_PERMISSION_BLOCK, S_RUNNING_REVIEW, Some A_CODEX_CODE_REVIEW),
      (K_CLARIFICATION_QUESTION, S_CHANGES_REQUESTED, Some A_HOST_APPLY_FINDINGS),
      (K_FIX_RESULT, S_APPLYING_FIXES, Some A_HOST_APPLY_FINDINGS),
      (K_DECISION_REQUEST, S_APPLYING_FIXES, Some A_HOST_APPLY_FINDINGS),
      (K_EXTERNAL_DEPENDENCY, S_APPLYING_FIXES, Some A_HOST_APPLY_FINDINGS),
      (K_PERMISSION_BLOCK, S_APPLYING_FIXES, Some A_HOST_APPLY_FINDINGS),
      (K_CLARIFICATION_ANSWER, S_CLARIFYING_REVIEW, Some A_CODEX_CLARIFICATION),
      (K_DECISION_REQUEST, S_REVIEWING_DECISION_REQUEST, Some A_HOST_DRAFT_DECISION_REQUEST),
      (K_DECISION_REQUEST, S_REVIEWING_DECISION_REQUEST, Some A_HOST_REVISE_DECISION_REQUEST),
      (K_DECISION_VERDICT, S_REVIEWING_DECISION_REQUEST, Some A_CODEX_DECISION_VERDICT),
      (K_DECISION_BRIEF, S_REVIEWING_DECISION_REQUEST, Some A_HOST_DRAFT_DECISION_BRIEF),
      (K_DECISION_RECORD, S_REVIEWING_DECISION_REQUEST, Some A_HOST_RECORD_DECISION),
      (K_CI_TIMEOUT, S_WAITING_CI, Some A_CI_RESULT), (K_CI_CODE_FAILURE, S_WAITING_CI, Some A_CI_RESULT),
      (K_FINAL_REPORT, S_GENERATING_REPORT, Some A_REPORT),
      (K_GATE_ANSWER, S_READY_FOR_HUMAN_MERGE, Some A_HOST_ANSWER_GATE_QUESTION),
      (K_GATE_QUESTION, S_READY_FOR_HUMAN_MERGE, Some A_USER_INPUT_GATE),
      (K_GATE_CHANGES, S_READY_FOR_HUMAN_MERGE, Some A_USER_INPUT_GATE),
      (K_MERGE_APPROVAL, S_READY_FOR_HUMAN_MERGE, Some A_USER_INPUT_GATE),
      (K_USER_DECISION, S_AWAITING_USER_DECISION, Some A_USER_INPUT_DECISION)}"

definition announced :: "machine_state \<Rightarrow> record_kind \<Rightarrow> bool" where
  "announced ms k \<longleftrightarrow>
     k = K_USER_CANCEL \<or>
     k = K_BLOCK_INTERVENTION \<and> (\<exists>b. ms_block ms = Some b \<and> block_spec_for b \<noteq> None) \<or>
     (k, ms_state ms, ms_awaiting ms) \<in> announcing_table"

lemma block_guard:
  "block_spec_for b \<noteq> None \<longleftrightarrow>
     (case b of ProgressBlock p \<Rightarrow> pb_reason p = P_NO_PROGRESS | ExternalDependencyBlock _ \<Rightarrow> True
      | RecordIntegrityBlock _ \<Rightarrow> False)"
  by (simp add: block_spec_for_def BLOCK_REQUEST_SPECS_def accepts_block_def split: block_context.split)

lemma announcing_rules:
  assumes "ms_procedure ms = NormalProcedure" and "ms_pending_record ms = None"
  shows "rule_matches (produced_rule rid k states awaitings) ms (RecordProduced k' b) \<longleftrightarrow>
      k' = k \<and> ms_state ms \<in> states \<and> ms_awaiting ms \<in> awaitings"
    and "rule_matches rule_P_21 ms (RecordProduced k' b) \<longleftrightarrow> k' = K_USER_CANCEL \<and> ms_state ms \<in> NON_TERMINAL"
    and "rule_matches rule_P_22 ms (RecordProduced k' b) \<longleftrightarrow>
      k' = K_BLOCK_INTERVENTION \<and> ms_state ms = S_BLOCKED \<and>
      (\<exists>p. ms_block ms = Some (ProgressBlock p) \<and> pb_reason p = P_NO_PROGRESS)"
    and "rule_matches rule_P_23 ms (RecordProduced k' b) \<longleftrightarrow>
      k' = K_BLOCK_INTERVENTION \<and> ms_state ms = S_BLOCKED \<and> (\<exists>x. ms_block ms = Some (ExternalDependencyBlock x))"
    and "\<not> rule_matches rule_I_P ms (RecordProduced k' b)"
  using assms
  by (auto simp: rule_matches_def matches_def derive_guard_key_def produced_rule_def rule_P_21_def rule_P_22_def
      rule_P_23_def rule_I_P_def Match_def derive_pending_def split: option.splits block_context.splits)

lemma announced_iff:
  assumes "ms_procedure ms = NormalProcedure" and "ms_pending_record ms = None"
    and "ms_state ms \<in> NON_TERMINAL" and "\<And>c. ms_block ms = Some c \<Longrightarrow> ms_state ms = S_BLOCKED"
  shows "(\<exists>r \<in> set (rules_for ET_RecordProduced). rule_matches r ms (RecordProduced k b)) \<longleftrightarrow> announced ms k"
proof -
  have block: "(\<exists>c. ms_block ms = Some c \<and> block_spec_for c \<noteq> None) \<longleftrightarrow>
      ms_state ms = S_BLOCKED \<and> (\<exists>p. ms_block ms = Some (ProgressBlock p) \<and> pb_reason p = P_NO_PROGRESS) \<or>
      ms_state ms = S_BLOCKED \<and> (\<exists>x. ms_block ms = Some (ExternalDependencyBlock x))"
  proof (cases "ms_block ms")
    case (Some c)
    then show ?thesis using assms(4) block_guard [of c] by (cases c) simp_all
  qed simp
  note rules = announcing_rules [OF assms(1,2)]
    rule_P_01_def rule_P_02_def rule_P_03_def rule_P_04_def rule_P_05_def rule_P_06_def rule_P_07_def rule_P_08_def
    rule_P_09_def rule_P_10_def rule_P_11_def rule_P_12_def rule_P_13_def rule_P_14_def rule_P_15_def rule_P_16_def
    rule_P_17_def rule_P_18_def rule_P_19_def rule_P_20_def
  show ?thesis
    unfolding rules_for_simps announced_def announcing_table_def block list.set bex_simps rules insert_iff empty_iff prod.inject
    using assms(3) by (cases k; simp add: announcing_rules(5) [OF assms(1,2)]; blast?)
qed

lemma accepted_iff:
  assumes inv: "machine_inv ms" and n: "ms_procedure ms = NormalProcedure" "ms_pending_record ms = None"
    and live: "ms_state ms \<in> NON_TERMINAL"
  shows "(\<exists>x. transition ms (RecordProduced k b) = Inr x) \<longleftrightarrow> announced ms k"
proof -
  have blocked: "ms_state ms = S_BLOCKED" if "ms_block ms = Some c" for c
    using machine_inv_constructible [OF inv] that by (auto simp: constructible_def machine_state_post_init_Inr)
  have iff: "(\<exists>r \<in> set (rules_for ET_RecordProduced). rule_matches r ms (RecordProduced k b)) \<longleftrightarrow> announced ms k"
    by (rule announced_iff [OF n live blocked])
  show ?thesis
  proof
    assume "\<exists>x. transition ms (RecordProduced k b) = Inr x"
    then obtain x where "transition ms (RecordProduced k b) = Inr x" by blast
    then show "announced ms k" by (rule transition_accepted) (use iff in auto)
  next
    assume "announced ms k"
    then obtain r where r: "r \<in> set (rules_for ET_RecordProduced)" "rule_matches r ms (RecordProduced k b)" using iff by blast
    then have "transition ms (RecordProduced k b) = rule_effect r ms (RecordProduced k b)" "r \<in> set REGISTRY"
      using transition_by_rule [of r "RecordProduced k b" ms] by (auto simp: rules_for_filter)
    moreover have "legal_event (RecordProduced k b)" by (simp add: verified_event_check_def)
    ultimately show "\<exists>x. transition ms (RecordProduced k b) = Inr x"
      using registry_sound [of r ms "RecordProduced k b"] inv r(2) by (auto simp: sound_result_def)
  qed
qed

section \<open>The tables agree with the machine\<close>

text \<open>The kinds of records that some state with the wait accepts.\<close>

definition accepted_in :: "awaiting \<Rightarrow> record_kind set" where
  "accepted_in a =
     {k. \<exists>ms b x. machine_inv ms \<and> ms_awaiting ms = Some a \<and> transition ms (RecordProduced k b) = Inr x}"

lemma waiting_plain:
  assumes "machine_inv ms" and "ms_awaiting ms = Some a"
  shows "ms_procedure ms = NormalProcedure" "ms_state ms \<in> NON_TERMINAL"
  using machine_inv_constructible [OF assms(1)] assms(2)
  by (auto simp: constructible_def machine_state_post_init_Inr NON_TERMINAL_def)

lemma accepted_in_iff:
  "k \<in> accepted_in a \<longleftrightarrow> (\<exists>ms. machine_inv ms \<and> ms_awaiting ms = Some a \<and> ms_pending_record ms = None \<and> announced ms k)"
proof -
  have "(\<exists>b x. transition ms (RecordProduced k b) = Inr x) \<longleftrightarrow> ms_pending_record ms = None \<and> announced ms k"
    if "machine_inv ms" "ms_awaiting ms = Some a" for ms
  proof (cases "ms_pending_record ms")
    case None
    then show ?thesis using accepted_iff [OF that(1) waiting_plain(1) [OF that] None waiting_plain(2) [OF that]] by blast
  next
    case (Some p)
    then show ?thesis using produced_step by fastforce
  qed
  then show ?thesis unfolding accepted_in_def by blast
qed

lemma accepted_plain:
  assumes "plain_target s (Some a)" and "s \<noteq> S_MERGING" and "announced (MachineState s\<lparr>ms_awaiting := Some a\<rparr>) k"
  shows "k \<in> accepted_in a"
  unfolding accepted_in_iff
  by (rule exI [of _ "MachineState s\<lparr>ms_awaiting := Some a\<rparr>"])
    (use plain_inv [OF assms(1)] assms(2,3) in \<open>simp add: MachineState_def\<close>)

lemma waiting_unblocked: "machine_inv ms \<Longrightarrow> ms_awaiting ms = Some a \<Longrightarrow> ms_block ms = None"
  using machine_inv_constructible [of ms] by (auto simp: constructible_def machine_state_post_init_Inr)

lemma accepted_waiting:
  assumes "k \<in> accepted_in a"
  shows "k = K_USER_CANCEL \<or> (\<exists>s. (k, s, Some a) \<in> announcing_table)"
  using assms waiting_unblocked unfolding accepted_in_iff announced_def by auto

lemma table_plain: "(k, s, Some a) \<in> announcing_table \<Longrightarrow> plain_target s (Some a) \<and> s \<noteq> S_MERGING"
  by (auto simp: announcing_table_def plain_target_def)

lemma accepted_table:
  assumes "plain_target s (Some a)" and "s \<noteq> S_MERGING"
  shows "accepted_in a = insert K_USER_CANCEL {k. \<exists>s. (k, s, Some a) \<in> announcing_table}"
proof (intro set_eqI iffI)
  fix k
  assume k: "k \<in> insert K_USER_CANCEL {k. \<exists>s. (k, s, Some a) \<in> announcing_table}"
  show "k \<in> accepted_in a"
  proof (cases "k = K_USER_CANCEL")
    case True
    then show ?thesis using accepted_plain [OF assms] by (simp add: announced_def)
  next
    case False
    then obtain t where t: "(k, t, Some a) \<in> announcing_table" using k by blast
    then have "announced (MachineState t\<lparr>ms_awaiting := Some a\<rparr>) k" by (simp add: announced_def MachineState_def)
    then show ?thesis using accepted_plain [of t a k] table_plain [OF t] by blast
  qed
qed (use accepted_waiting in auto)

lemma accepted_permission: "accepted_in A_USER_INPUT_PERMISSION = {K_USER_CANCEL}"
proof -
  let ?ms = "MachineState S_AWAITING_TOOL_PERMISSION\<lparr>ms_awaiting := Some A_USER_INPUT_PERMISSION,
    ms_return_to := Some S_RUNNING_REVIEW\<rparr>"
  have "machine_inv ?ms"
    by (simp add: machine_inv_def constructible_def machine_state_post_init_Inr MachineState_def
        canonicalize_integrity_def)
  then have "K_USER_CANCEL \<in> accepted_in A_USER_INPUT_PERMISSION"
    unfolding accepted_in_iff by (intro exI [of _ ?ms]) (simp add: announced_def MachineState_def)
  then show ?thesis using accepted_waiting [of _ A_USER_INPUT_PERMISSION] by (auto simp: announcing_table_def)
qed

lemma block_requests:
  assumes "machine_inv ms" and "ms_procedure ms = NormalProcedure" and "ms_pending_record ms = None"
    and block: "ms_block ms = Some c"
  shows "{k. \<exists>b x. transition ms (RecordProduced k b) = Inr x} =
    (case block_spec_for c of Some spec \<Rightarrow> set (bs_result_kinds spec) | None \<Rightarrow> {K_USER_CANCEL})"
proof -
  have "ms_state ms = S_BLOCKED" "ms_awaiting ms = None"
    using machine_inv_constructible [OF assms(1)] block by (auto simp: constructible_def machine_state_post_init_Inr)
  then have "{k. \<exists>b x. transition ms (RecordProduced k b) = Inr x} =
      {k. k = K_USER_CANCEL \<or> k = K_BLOCK_INTERVENTION \<and> block_spec_for c \<noteq> None}"
    using accepted_iff [OF assms(1-3)] block by (auto simp: announced_def announcing_table_def NON_TERMINAL_def)
  moreover have "block_spec_for c = Some spec \<Longrightarrow> set (bs_result_kinds spec) = {K_BLOCK_INTERVENTION, K_USER_CANCEL}" for spec
    by (auto simp: block_spec_for_def BLOCK_REQUEST_SPECS_def split: if_splits)
  ultimately show ?thesis by (auto split: option.split)
qed

text \<open>
  C34. What is asked for is what the machine accepts. For every action of the host, the kinds of results in the registry are,
  with a cancellation, the kinds of records that some state with its wait accepts; for every request to the user they are
  exactly these kinds; and a block is answered by exactly the kinds that its specification lists, or, when none exists, by a
  cancellation alone.
\<close>

theorem requests_match_machine:
  "(\<forall>(action, spec) \<in> set ACTION_SPECS.
      accepted_in (as_awaiting spec) = insert K_USER_CANCEL (set (as_result_kinds spec))) \<and>
   (\<forall>(a, spec) \<in> set USER_REQUEST_SPECS. accepted_in a = set (us_result_kinds spec)) \<and>
   (\<forall>ms c. machine_inv ms \<and> ms_procedure ms = NormalProcedure \<and> ms_pending_record ms = None \<and> ms_block ms = Some c \<longrightarrow>
      {k. \<exists>b x. transition ms (RecordProduced k b) = Inr x} =
      (case block_spec_for c of Some spec \<Rightarrow> set (bs_result_kinds spec) | None \<Rightarrow> {K_USER_CANCEL}))"
proof (intro conjI)
  have home: "accepted_in A_HOST_APPLY_FINDINGS = insert K_USER_CANCEL {k. \<exists>s. (k, s, Some A_HOST_APPLY_FINDINGS) \<in> announcing_table}"
    by (rule accepted_table [of S_APPLYING_FIXES]) (simp_all add: plain_target_def)
  have decision: "accepted_in a = insert K_USER_CANCEL {k. \<exists>s. (k, s, Some a) \<in> announcing_table}"
    if "S_REVIEWING_DECISION_REQUEST \<in> AWAITING_HOME a" for a
    by (rule accepted_table [of S_REVIEWING_DECISION_REQUEST]) (use that in \<open>simp_all add: plain_target_def\<close>)
  have gate: "accepted_in a = insert K_USER_CANCEL {k. \<exists>s. (k, s, Some a) \<in> announcing_table}"
    if "S_READY_FOR_HUMAN_MERGE \<in> AWAITING_HOME a" for a
    by (rule accepted_table [of S_READY_FOR_HUMAN_MERGE]) (use that in \<open>simp_all add: plain_target_def\<close>)
  have user: "accepted_in A_USER_INPUT_DECISION = insert K_USER_CANCEL {k. \<exists>s. (k, s, Some A_USER_INPUT_DECISION) \<in> announcing_table}"
    by (rule accepted_table [of S_AWAITING_USER_DECISION]) (simp_all add: plain_target_def)
  show "\<forall>(action, spec) \<in> set ACTION_SPECS.
      accepted_in (as_awaiting spec) = insert K_USER_CANCEL (set (as_result_kinds spec))"
    by (auto simp: ACTION_SPECS_def home decision gate announcing_table_def)
  show "\<forall>(a, spec) \<in> set USER_REQUEST_SPECS. accepted_in a = set (us_result_kinds spec)"
    by (auto simp: USER_REQUEST_SPECS_def user gate accepted_permission announcing_table_def)
qed (use block_requests in blast)

definition waiting_dependency :: block_context where
  "waiting_dependency =
     ExternalDependencyBlock \<lparr>xb_binding = OpaqueBinding ''b'', xb_head = OpaqueRef ''h'',
       xb_continuation = CONT_EXTERNAL_DEPENDENCY, xb_evidence = evidence_of K_EXTERNAL_DEPENDENCY\<rparr>"

theorem requests_match_machine_witness:
  "accepted_in A_USER_INPUT_GATE = {K_GATE_QUESTION, K_GATE_CHANGES, K_MERGE_APPROVAL, K_USER_CANCEL} \<and>
   {k. \<exists>b x. transition (MachineState S_BLOCKED\<lparr>ms_block := Some waiting_dependency\<rparr>) (RecordProduced k b) = Inr x} =
     {K_BLOCK_INTERVENTION, K_USER_CANCEL}"
proof -
  let ?ms = "MachineState S_BLOCKED\<lparr>ms_block := Some waiting_dependency\<rparr>"
  have "machine_inv ?ms"
    by (rule blocked_inv) (simp_all add: waiting_dependency_def evidence_of_def registry_continuations_def BLOCKED_CONTINUATIONS_def)
  then have "machine_inv ?ms \<and> ms_procedure ?ms = NormalProcedure \<and> ms_pending_record ?ms = None \<and>
      ms_block ?ms = Some waiting_dependency"
    by (simp add: MachineState_def)
  then have "{k. \<exists>b x. transition ?ms (RecordProduced k b) = Inr x} =
      (case block_spec_for waiting_dependency of Some spec \<Rightarrow> set (bs_result_kinds spec) | None \<Rightarrow> {K_USER_CANCEL})"
    using requests_match_machine by blast
  moreover have "(A_USER_INPUT_GATE, \<lparr>us_awaiting = A_USER_INPUT_GATE,
      us_result_kinds = [K_GATE_QUESTION, K_GATE_CHANGES, K_MERGE_APPROVAL, K_USER_CANCEL],
      us_evidence_kinds = [K_FINAL_REPORT], us_resume_event = None\<rparr>) \<in> set USER_REQUEST_SPECS"
    by (simp add: USER_REQUEST_SPECS_def)
  then have "accepted_in A_USER_INPUT_GATE = {K_GATE_QUESTION, K_GATE_CHANGES, K_MERGE_APPROVAL, K_USER_CANCEL}"
    using requests_match_machine by fastforce
  ultimately show ?thesis
    by (simp add: block_spec_for_def BLOCK_REQUEST_SPECS_def accepts_block_def waiting_dependency_def)
qed

section \<open>Events\<close>

text \<open>What a variant builds is an event of its class with the evidence, which the constructor accepts.\<close>

lemma built_event:
  assumes "build_event v ev inputs = Inr e"
  shows "event_type_of e = rv_event v \<and> verified_evidence e = Some ev \<and> event_post_init e = Inr ()"
proof -
  have "make_event (rv_event v) ev inputs = Some e" "event_post_init e = Inr ()"
    using assms by (auto simp: build_event_def split: if_splits option.splits sum.splits)
  then show ?thesis
    by (auto simp: make_event_def evidence_events_def split: list.splits event_input.splits if_splits)
qed

section \<open>One key for one intent\<close>

lemma quoted_append: "quoted s @ r = quoted t @ q \<longleftrightarrow> s = t \<and> r = q"
proof
  assume "quoted s @ r = quoted t @ q"
  then have "concat (map escape_char s) @ CHR 0x22 # r = concat (map escape_char t) @ CHR 0x22 # q"
    by (simp add: quoted_def)
  from arg_cong [OF this, of scan_string] show "s = t \<and> r = q" unfolding scan_quoted by simp
qed simp

lemma quoted_inject: "quoted s = quoted t \<longleftrightarrow> s = t"
  using quoted_append [of s "[]" t "[]"] by simp

lemma awaiting_value_inject: "awaiting_value a = awaiting_value b \<longleftrightarrow> a = b"
  by (metis awaiting_of_value option.inject)

lemma kind_value_inject: "kind_value a = kind_value b \<longleftrightarrow> a = b"
  by (metis kind_of_value option.inject)

lemma show_nat_inject: "show_nat m = show_nat n \<longleftrightarrow> m = n"
  by (metis read_show_nat)

lemma show_int_inject: "show_int i = show_int j \<longleftrightarrow> i = j"
proof -
  have "CHR ''-'' \<notin> set (show_nat n)" for n using show_nat_digits [of n] by (auto simp: list_all_iff digit_def)
  then have "show_nat n \<noteq> CHR ''-'' # s" "CHR ''-'' # s \<noteq> show_nat n" for n s by (metis list.set_intros(1))+
  then show ?thesis by (auto simp: show_int_def show_nat_inject)
qed

text \<open>The texts of the two kinds of keys, in the order of the names.\<close>

definition intent_json :: "string option \<Rightarrow> json" where
  "intent_json v = (case v of None \<Rightarrow> JNull | Some w \<Rightarrow> JStr (intent_digest w))"

lemma intent_key_text:
  "intent_key run inst head kind v = Inr key \<Longrightarrow>
   key = ''ui:{'' @
     (case inst of
        AwaitingInstance a since \<Rightarrow>
          quoted ''awaiting'' @ '':'' @ quoted (awaiting_value a) @ '','' @ quoted ''head'' @ '':'' @ quoted head @ '','' @
          quoted ''intent'' @ '':'' @ dumps (intent_json v) @ '','' @ quoted ''kind'' @ '':'' @ quoted (kind_value kind) @
          '','' @ quoted ''run'' @ '':'' @ quoted run @ '','' @ quoted ''since'' @ '':'' @ show_int since
      | BlockInstance b \<Rightarrow>
          quoted ''block'' @ '':'' @ quoted b @ '','' @ quoted ''head'' @ '':'' @ quoted head @ '','' @
          quoted ''intent'' @ '':'' @ dumps (intent_json v) @ '','' @ quoted ''kind'' @ '':'' @ quoted (kind_value kind) @
          '','' @ quoted ''run'' @ '':'' @ quoted run) @ ''}''"
  by (auto simp: intent_key_def INTENT_KEY_PREFIX_def intent_json_def sort_key_def split: if_splits wait_instance.split)

lemma null_not_quoted: "''null'' @ r \<noteq> quoted s @ q" "quoted s @ q \<noteq> ''null'' @ r"
  by (simp_all add: quoted_def)

lemma intent_json_append:
  "dumps (intent_json v) @ r = dumps (intent_json w) @ q \<longleftrightarrow> map_option intent_digest v = map_option intent_digest w \<and> r = q"
  using null_not_quoted by (cases v; cases w) (auto simp: intent_json_def quoted_append)

text \<open>
  C35. The key of an intent identifies it: two inputs have the same key, on whichever route they came and whatever characters their texts
  contain, only when they are of the same run, the same wait or block, the same head and the same kind, and their values
  have the same digest.
\<close>

theorem intent_key_identifies:
  assumes "intent_key run inst head kind v = Inr key" and "intent_key run' inst' head' kind' v' = Inr key"
  shows "run' = run \<and> inst' = inst \<and> head' = head \<and> kind' = kind \<and>
    map_option intent_digest v' = map_option intent_digest v"
  using intent_key_text [OF assms(1)] intent_key_text [OF assms(2)]
  by (cases inst; cases inst')
    (simp_all add: quoted_append quoted_inject intent_json_append awaiting_value_inject kind_value_inject show_int_inject
      del: append.simps append_Cons)

theorem intent_key_identifies_witness:
  "\<exists>key. intent_key ''r1'' (AwaitingInstance A_USER_INPUT_DECISION 3) ''h'' K_USER_DECISION (Some ''yes '') = Inr key \<and>
     intent_key ''r1'' (AwaitingInstance A_USER_INPUT_DECISION 3) ''h'' K_USER_DECISION (Some ''yes'') = Inr key \<and>
     intent_digest ''yes'' = intent_digest ''yes ''"
proof -
  have "strip_text (normalize_newlines ''yes '') = strip_text (normalize_newlines ''yes'')" by code_simp
  then have digest: "intent_digest ''yes '' = intent_digest ''yes''" by (simp add: intent_digest_def)
  obtain key where
    key: "intent_key ''r1'' (AwaitingInstance A_USER_INPUT_DECISION 3) ''h'' K_USER_DECISION (Some ''yes '') = Inr key"
    "intent_key ''r1'' (AwaitingInstance A_USER_INPUT_DECISION 3) ''h'' K_USER_DECISION (Some ''yes'') = Inr key"
    by (simp add: intent_key_def INTENT_VALUE_FIELDS_def digest)
  then show ?thesis using intent_key_identifies [OF key] by simp
qed

end
