(* ===== verification/Store.thy ===== *)
theory Store
  imports Schema_Checkpoint
begin

text \<open>
  \<open>state/store.py\<close>: the checkpoint of one run on the disk, with the check before it is written, the structured result of reading
  it and the guard around an update. The file is its bytes and whether it belongs to its creator alone; the calls of the
  operating system that create and remove the guard directory, and the pauses, are functions of the state of the world.
\<close>

section \<open>The file\<close>

record checkpoint_file =
  cf_bytes :: string
  cf_private :: bool

record disk =
  dk_file :: "checkpoint_file option"
  dk_writable :: bool

text \<open>The second one is the exception that a migration which finds a key missing lets through.\<close>

datatype store_error = CheckpointStoreError string | StoreKeyError

datatype checkpoint_load_result =
    CheckpointLoaded payload int
  | CheckpointMissing
  | CheckpointUnreadable
  | CheckpointPermissionViolation
  | CheckpointSchemaInvalid string "public_error list"
  | CheckpointMigrationUnavailable "public_error list"
  | LoadRaised store_error

text \<open>
  \<open>replace_private_text\<close> and \<open>write_private_text\<close> leave the whole text or fail with the file as it was; a disk on which
  they fail is not writable. That the synchronisation of the directory or the check of the file fails after
  \<open>os.replace\<close>, with the new text in place, is not modelled.
\<close>

definition save_checkpoint :: "disk \<Rightarrow> payload \<Rightarrow> store_error + disk" where
  "save_checkpoint d payload =
     (case validate_object CHECKPOINT payload of
        Rejected _ _ \<Rightarrow> Inl (CheckpointStoreError ''validate'')
      | LookupFailure \<Rightarrow> Inl StoreKeyError
      | Accepted _ _ \<Rightarrow>
          if (case dk_file d of Some f \<Rightarrow> \<not> cf_private f | None \<Rightarrow> False) \<or> \<not> dk_writable d
          then Inl (CheckpointStoreError ''write'')
          else Inr (d\<lparr>dk_file := Some \<lparr>cf_bytes = dumps (JObj payload), cf_private = True\<rparr>\<rparr>))"

definition load_checkpoint :: "interpreter \<Rightarrow> disk \<Rightarrow> checkpoint_load_result" where
  "load_checkpoint py d =
     (case dk_file d of
        None \<Rightarrow> CheckpointMissing
      | Some f \<Rightarrow>
          if \<not> cf_private f then CheckpointPermissionViolation
          else
            (case load_with_migration py CHECKPOINT (cf_bytes f) of
               Accepted payload (Some version) \<Rightarrow> CheckpointLoaded payload version
             | Accepted payload None \<Rightarrow> CheckpointUnreadable
             | LookupFailure \<Rightarrow> LoadRaised StoreKeyError
             | Rejected stage errors \<Rightarrow>
                 if stage = ''migration'' then CheckpointMigrationUnavailable errors
                 else CheckpointSchemaInvalid stage errors))"

section \<open>The guard\<close>

definition GUARD_ATTEMPTS :: int where "GUARD_ATTEMPTS = 200"

definition GUARD_WAIT_SECONDS :: rat where "GUARD_WAIT_SECONDS = 1 / 100"

text \<open>What \<open>os.mkdir\<close> does to the guard directory.\<close>

datatype mkdir_result = Made | FileExists | MkdirFailed

record 'w guard_calls =
  gd_mkdir :: "'w \<Rightarrow> 'w \<times> mkdir_result"
  gd_rmdir :: "'w \<Rightarrow> 'w \<times> bool"
  gd_sleep :: "rat \<Rightarrow> 'w \<Rightarrow> 'w"

text \<open>The loop of \<open>_take_guard\<close>, with the number of attempts that remain after the next one.\<close>

fun take_guard :: "'w guard_calls \<Rightarrow> rat \<Rightarrow> nat \<Rightarrow> 'w \<Rightarrow> 'w \<times> (store_error + unit)" where
  "take_guard g wait k w =
     (case gd_mkdir g w of
        (w', Made) \<Rightarrow> (w', Inr ())
      | (w', MkdirFailed) \<Rightarrow> (w', Inl (CheckpointStoreError ''guard''))
      | (w', FileExists) \<Rightarrow>
          (case k of
             0 \<Rightarrow> (w', Inl (CheckpointStoreError ''guard''))
           | Suc k' \<Rightarrow> take_guard g wait k' (gd_sleep g wait w')))"

declare take_guard.simps [simp del]

definition release_guard :: "'w guard_calls \<Rightarrow> 'w \<Rightarrow> 'w \<times> (store_error + unit)" where
  "release_guard g w =
     (case gd_rmdir g w of (w', ok) \<Rightarrow> (w', if ok then Inr () else Inl (CheckpointStoreError ''guard'')))"

text \<open>The update under the guard; an error of the release replaces the result of the update.\<close>

definition checkpoint_guard ::
  "'w guard_calls \<Rightarrow> int \<Rightarrow> rat \<Rightarrow> ('w \<Rightarrow> 'w \<times> (store_error + 'a)) \<Rightarrow> 'w \<Rightarrow> 'w \<times> (store_error + 'a)" where
  "checkpoint_guard g attempts wait update w =
     (case take_guard g wait (nat (max attempts 1 - 1)) w of
        (w', Inl e) \<Rightarrow> (w', Inl e)
      | (w', Inr _) \<Rightarrow>
          (case update w' of (v, r) \<Rightarrow>
             (case release_guard g v of
                (v', Inl e) \<Rightarrow> (v', Inl e)
              | (v', Inr _) \<Rightarrow> (v', r))))"

end
