(* ===== verification/Run_Context.thy ===== *)
theory Run_Context
  imports Store Checkpoint_Sections Posting Transaction
begin

text \<open>
  \<open>workflow/run_context.py\<close>, and the effects that the steps of the engine share: a step reads and writes the checkpoint on
  the disk and calls ports, which act on the rest of the world. It ends with a value, with the outcome \<open>EngineStopped\<close>, of
  which only the code is kept, or with an exception. The directory of the run is there and belongs to its creator alone.
\<close>

section \<open>Effects of a step\<close>

datatype stop =
    EngineStopped string
  | StoreRaised store_error
  | DomainRaised domain_error
  | TransportRaised transport_error
  | RunIdRaised
  | HeaderRaised
  | InterruptRaised

type_synonym 'w system = "disk \<times> 'w"

type_synonym ('w, 'a) step = "'w system \<Rightarrow> 'w system \<times> (stop + 'a)"

definition done_with :: "'a \<Rightarrow> ('w, 'a) step" where "done_with a s = (s, Inr a)"

definition stopped :: "stop \<Rightarrow> ('w, 'a) step" where "stopped e s = (s, Inl e)"

definition and_then :: "('w, 'a) step \<Rightarrow> ('a \<Rightarrow> ('w, 'b) step) \<Rightarrow> ('w, 'b) step" where
  "and_then m f s = (case m s of (s', Inl e) \<Rightarrow> (s', Inl e) | (s', Inr a) \<Rightarrow> f a s')"

text \<open>A value that is there or not, with the code of the outcome when it is not.\<close>

definition or_stop :: "string \<Rightarrow> 'e + 'a \<Rightarrow> ('w, 'a) step" where
  "or_stop code r = (case r of Inl _ \<Rightarrow> stopped (EngineStopped code) | Inr a \<Rightarrow> done_with a)"

text \<open>The code catches the two exceptions of a rejected event; any other passes.\<close>

definition caught_as :: "string \<Rightarrow> domain_error + 'a \<Rightarrow> ('w, 'a) step" where
  "caught_as code r =
     (case r of
        Inr a \<Rightarrow> done_with a
      | Inl e \<Rightarrow> stopped (if caught e then EngineStopped code else DomainRaised e))"

definition save :: "payload \<Rightarrow> ('w, unit) step" where
  "save payload s =
     (case save_checkpoint (fst s) payload of
        Inl e \<Rightarrow> (s, Inl (StoreRaised e))
      | Inr d \<Rightarrow> ((d, snd s), Inr ()))"

text \<open>A port, and a call of GitHub, act on the world only.\<close>

definition on_world :: "('w \<Rightarrow> 'w \<times> 'a) \<Rightarrow> ('w, 'a) step" where
  "on_world port s = (case port (snd s) of (w, a) \<Rightarrow> ((fst s, w), Inr a))"

definition from_port :: "('w, 'a) io \<Rightarrow> ('w, 'a) step" where
  "from_port port =
     and_then (on_world port) (\<lambda>r. case r of Inl e \<Rightarrow> stopped (TransportRaised e) | Inr a \<Rightarrow> done_with a)"

section \<open>Loading a run\<close>

record run_context =
  rc_payload :: payload
  rc_machine_state :: machine_state

text \<open>
  A loaded payload has passed its schema, so a comparison of JSON values is the comparison of the Python values:
  the number is an integer and not a boolean or a float.
\<close>

definition load_run :: "interpreter \<Rightarrow> string \<Rightarrow> string \<Rightarrow> int \<Rightarrow> ('w, run_context) step" where
  "load_run py run_id repository number s =
     (if \<not> run_id_form run_id then (s, Inl RunIdRaised)
      else
        (case load_checkpoint py (fst s) of
           LoadRaised e \<Rightarrow> (s, Inl (StoreRaised e))
         | CheckpointLoaded payload _ \<Rightarrow>
             if map_of payload ''run_id'' \<noteq> Some (JStr run_id) then stopped (EngineStopped ''run_mismatch'') s
             else if map_of payload ''repository'' \<noteq> Some (JStr repository) \<or>
                map_of payload ''number'' \<noteq> Some (JInt number)
             then stopped (EngineStopped ''target_mismatch'') s
             else
               and_then (or_stop ''state_unavailable'' (read_machine_state payload))
                 (\<lambda>ms. done_with \<lparr>rc_payload = payload, rc_machine_state = ms\<rparr>) s
         | _ \<Rightarrow> stopped (EngineStopped ''checkpoint_unavailable'') s))"

section \<open>Laws of the effects\<close>

lemma and_then_Inr:
  "and_then m f s = (s'', Inr b) \<longleftrightarrow> (\<exists>s' a. m s = (s', Inr a) \<and> f a s' = (s'', Inr b))"
  by (auto simp: and_then_def split: prod.splits sum.splits)

lemma done_with_iff [simp]: "done_with a s = (s', r) \<longleftrightarrow> s' = s \<and> r = Inr a"
  by (auto simp: done_with_def)

lemma stopped_iff [simp]: "stopped e s = (s', r) \<longleftrightarrow> s' = s \<and> r = Inl e"
  by (auto simp: stopped_def)

lemma or_stop_Inr [simp]: "or_stop code r s = (s', Inr a) \<longleftrightarrow> s' = s \<and> r = Inr a"
  by (auto simp: or_stop_def split: sum.splits)

lemma caught_as_Inr [simp]: "caught_as code r s = (s', Inr a) \<longleftrightarrow> s' = s \<and> r = Inr a"
  by (auto simp: caught_as_def split: sum.splits)

lemma save_Inr: "save payload s = (s', Inr u) \<longleftrightarrow> (\<exists>d. save_checkpoint (fst s) payload = Inr d \<and> s' = (d, snd s))"
  by (auto simp: save_def split: sum.splits)

lemma saved_file: "save_checkpoint d payload = Inr d' \<Longrightarrow> dk_file d' = Some \<lparr>cf_bytes = dumps (JObj payload), cf_private = True\<rparr>"
  by (auto simp: save_checkpoint_def split: validation_result.splits if_splits)

lemma on_world_Inr: "on_world port s = (s', r) \<longleftrightarrow> (\<exists>w a. port (snd s) = (w, a) \<and> s' = (fst s, w) \<and> r = Inr a)"
  by (auto simp: on_world_def split: prod.splits)

lemma from_port_Inr: "from_port port s = (s', Inr a) \<longleftrightarrow> (\<exists>w. port (snd s) = (w, Inr a) \<and> s' = (fst s, w))"
  by (cases "port (snd s)"; cases "snd (port (snd s))") (auto simp: from_port_def and_then_Inr on_world_Inr)

lemma load_run_Inr:
  "load_run py run_id repository number s = (s', Inr run) \<longleftrightarrow>
     s' = s \<and> run_id_form run_id \<and>
     (\<exists>version. load_checkpoint py (fst s) = CheckpointLoaded (rc_payload run) version) \<and>
     map_of (rc_payload run) ''run_id'' = Some (JStr run_id) \<and>
     map_of (rc_payload run) ''repository'' = Some (JStr repository) \<and>
     map_of (rc_payload run) ''number'' = Some (JInt number) \<and>
     read_machine_state (rc_payload run) = Inr (rc_machine_state run)"
  by (cases run) (auto simp: load_run_def and_then_Inr split: checkpoint_load_result.splits if_splits)

end
