(* ===== verification/Halting.thy ===== *)
theory Halting
  imports Run_Context Sha256
begin

text \<open>
  \<open>workflow/halt.py\<close> and \<open>workflow/emergency.py\<close>: the process trees of the ledger are stopped before the state that says so is
  saved; an emergency stop is written to the checkpoint before any tree is stopped. The port that stops a tree acts on the
  world; it answers, fails with \<open>ProcessError\<close>, or is interrupted. What \<open>stop_tree_by_ref\<close> returns is a parameter.
\<close>

section \<open>Stopping trees\<close>

datatype 'r stop_answer = TreeEnded 'r | StopProcessError | StopInterrupted

type_synonym ('w, 'r) stop_port = "tree_ref \<Rightarrow> rat \<Rightarrow> 'w \<Rightarrow> 'w \<times> 'r stop_answer"

text \<open>Whether a second interrupt was received, when somebody listens.\<close>

type_synonym 'w escalation = "('w \<Rightarrow> bool) option"

definition FORCE_GRACE_SECONDS :: rat where "FORCE_GRACE_SECONDS = 0"

definition force_requested :: "'w escalation \<Rightarrow> 'w \<Rightarrow> bool" where
  "force_requested escalation w = (case escalation of None \<Rightarrow> False | Some f \<Rightarrow> f w)"

definition stop_one ::
  "('w, 'r) stop_port \<Rightarrow> tree_ref \<Rightarrow> rat \<Rightarrow> 'w escalation \<Rightarrow> 'w \<Rightarrow> 'w \<times> 'r stop_answer" where
  "stop_one port ref grace escalation w =
     (case port ref (if force_requested escalation w then FORCE_GRACE_SECONDS else grace) w of
        (w', StopInterrupted) \<Rightarrow>
          if force_requested escalation w' then port ref FORCE_GRACE_SECONDS w' else (w', StopInterrupted)
      | (w', answer) \<Rightarrow> (w', answer))"

text \<open>The second result has the trees that are not stopped, the one that failed first.\<close>

datatype 'r trees_outcome = TreesStopped "'r list" | TreeStopFailed "tree_ref list"

fun stop_trees_from ::
  "('w, 'r) stop_port \<Rightarrow> rat \<Rightarrow> 'w escalation \<Rightarrow> 'r list \<Rightarrow> tree_ref list \<Rightarrow> ('w, 'r trees_outcome) step" where
  "stop_trees_from port grace escalation results [] = done_with (TreesStopped results)"
| "stop_trees_from port grace escalation results (ref # refs) =
     and_then (on_world (stop_one port ref grace escalation)) (\<lambda>answer.
       case answer of
         TreeEnded r \<Rightarrow> stop_trees_from port grace escalation (results @ [r]) refs
       | StopProcessError \<Rightarrow> done_with (TreeStopFailed (ref # refs))
       | StopInterrupted \<Rightarrow> stopped InterruptRaised)"

definition stop_trees :: "('w, 'r) stop_port \<Rightarrow> rat \<Rightarrow> 'w escalation \<Rightarrow> tree_ref list \<Rightarrow> ('w, 'r trees_outcome) step" where
  "stop_trees port grace escalation refs = stop_trees_from port grace escalation [] refs"

section \<open>Halting\<close>

datatype 'r halt_outcome =
    HaltCompleted machine_state "command list" "'r list"
  | HaltFailed machine_state "command list"

definition completion_event_for :: "procedure \<Rightarrow> event option" where
  "completion_event_for p =
     (case p of
        CancellingProcedure binding \<Rightarrow> Some (CancellationCompleted (Some binding) None)
      | HaltingForBlockProcedure _ binding \<Rightarrow> Some (BlockHaltCompleted binding)
      | _ \<Rightarrow> None)"

definition accepted :: "run_context \<Rightarrow> event \<Rightarrow> ('w, machine_state \<times> command list) step" where
  "accepted run e = caught_as ''illegal_event'' (transition (rc_machine_state run) e)"

definition save_stopped :: "run_context \<Rightarrow> machine_state \<Rightarrow> tree_ref list \<Rightarrow> ('w, unit) step" where
  "save_stopped run ms refs =
     and_then (or_stop ''state_not_persistable'' (with_verified_machine_state (rc_payload run) ms)) (\<lambda>payload.
       save (with_active_trees payload refs))"

definition halt_run :: "('w, 'r) stop_port \<Rightarrow> rat \<Rightarrow> 'w escalation \<Rightarrow> run_context \<Rightarrow> ('w, 'r halt_outcome) step" where
  "halt_run port grace escalation run =
     (case completion_event_for (ms_procedure (rc_machine_state run)) of
        None \<Rightarrow> stopped (EngineStopped ''no_halt_procedure'')
      | Some e \<Rightarrow>
          and_then (accepted run e) (\<lambda>(ms, commands).
          and_then (or_stop ''processes_unavailable'' (read_active_trees (rc_payload run))) (\<lambda>refs.
          and_then (stop_trees port grace escalation refs) (\<lambda>outcome.
            case outcome of
              TreeStopFailed remaining \<Rightarrow>
                and_then (accepted run RunFailed) (\<lambda>(failed, reissued).
                and_then (save_stopped run failed remaining) (\<lambda>_. done_with (HaltFailed failed reissued)))
            | TreesStopped results \<Rightarrow>
                and_then (save_stopped run ms []) (\<lambda>_. done_with (HaltCompleted ms commands results))))))"

definition halt ::
  "interpreter \<Rightarrow> ('w, 'r) stop_port \<Rightarrow> rat \<Rightarrow> 'w escalation \<Rightarrow> string \<Rightarrow> string \<Rightarrow> int \<Rightarrow> ('w, 'r halt_outcome) step" where
  "halt py port grace escalation run_id repository number =
     and_then (load_run py run_id repository number) (halt_run port grace escalation)"

section \<open>The emergency stop\<close>

definition EVIDENCE_PREFIX :: string where "EVIDENCE_PREFIX = ''es:''"

definition stop_evidence :: "string \<Rightarrow> string \<Rightarrow> int \<Rightarrow> string \<Rightarrow> opaque_ref" where
  "stop_evidence run_id repository number requested_at =
     OpaqueRef (EVIDENCE_PREFIX @ sha256_hex (dumps (JObj
       [(''at'', JStr requested_at), (''number'', JInt number), (''repository'', JStr repository), (''run'', JStr run_id)])))"

text \<open>The request, and whether it was there already.\<close>

definition request_emergency_stop ::
  "interpreter \<Rightarrow> string \<Rightarrow> string \<Rightarrow> int \<Rightarrow> string \<Rightarrow> ('w, stop_request \<times> bool) step" where
  "request_emergency_stop py run_id repository number requested_at =
     and_then (load_run py run_id repository number) (\<lambda>run.
     and_then (or_stop ''stop_request_unavailable'' (read_stop_request (rc_payload run))) (\<lambda>existing.
       case existing of
         Some request \<Rightarrow> done_with (request, True)
       | None \<Rightarrow>
           (let request =
              \<lparr>sq_requested_at = requested_at, sq_evidence = stop_evidence run_id repository number requested_at,
               sq_source_state = ms_state (rc_machine_state run)\<rparr> in
            and_then (save (with_stop_request (rc_payload run) (Some request))) (\<lambda>_. done_with (request, False)))))"

definition emergency_completion ::
  "run_context \<Rightarrow> stop_request \<Rightarrow> ('w, (machine_state \<times> command list) option) step" where
  "emergency_completion run request =
     (if ms_state (rc_machine_state run) \<in> TERMINAL_STATES \<or> ms_procedure (rc_machine_state run) \<noteq> NormalProcedure
      then done_with None
      else
        and_then (accepted run (CancellationCompleted None (Some (sq_evidence request)))) (\<lambda>applied.
          done_with (Some applied)))"

datatype 'r emergency_outcome =
    EmergencyStopCompleted machine_state "command list" "'r list" bool
  | EmergencyStopFailed

definition emergency_stop_run ::
  "('w, 'r) stop_port \<Rightarrow> rat \<Rightarrow> 'w escalation \<Rightarrow> run_context \<Rightarrow> ('w, 'r emergency_outcome) step" where
  "emergency_stop_run port grace escalation run =
     and_then (or_stop ''stop_request_unavailable'' (read_stop_request (rc_payload run))) (\<lambda>found.
       case found of
         None \<Rightarrow> stopped (EngineStopped ''no_stop_request'')
       | Some request \<Rightarrow>
           and_then (emergency_completion run request) (\<lambda>applied.
           and_then (or_stop ''processes_unavailable'' (read_active_trees (rc_payload run))) (\<lambda>refs.
           and_then (stop_trees port grace escalation refs) (\<lambda>outcome.
             case outcome of
               TreeStopFailed _ \<Rightarrow> done_with EmergencyStopFailed
             | TreesStopped results \<Rightarrow>
                 (let (ms, commands) = (case applied of None \<Rightarrow> (rc_machine_state run, []) | Some a \<Rightarrow> a) in
                  and_then (or_stop ''state_not_persistable'' (with_verified_machine_state (rc_payload run) ms)) (\<lambda>payload.
                  and_then (save (with_stop_request (with_active_trees payload []) None)) (\<lambda>_.
                    done_with (EmergencyStopCompleted ms commands results (applied \<noteq> None))))))))) "

definition emergency_stop ::
  "interpreter \<Rightarrow> ('w, 'r) stop_port \<Rightarrow> rat \<Rightarrow> 'w escalation \<Rightarrow> string \<Rightarrow> string \<Rightarrow> int \<Rightarrow>
   ('w, 'r emergency_outcome) step" where
  "emergency_stop py port grace escalation run_id repository number =
     and_then (load_run py run_id repository number) (emergency_stop_run port grace escalation)"

end
