(* ===== verification/Persistence.thy ===== *)
theory Persistence
  imports Run_Context Actions
begin

text \<open>
  \<open>workflow/persistence.py\<close>: the record that waits in \<open>pending_record\<close> is posted, found again in the verified chain, and
  given to the state machine. The two ports, which verify the chain of the run and build the event of a record, are arguments.
\<close>

datatype persist_outcome =
    RecordPersisted verified_record machine_state "command list" bool
  | IntegrityDetected "integrity_evidence_ref list" machine_state "command list"
  | PersistFailed transport_error machine_state "command list"

record 'w persist_ports =
  pp_chain :: "string \<Rightarrow> ('w, chain_verification) io"
  pp_event_for :: "record_evidence \<Rightarrow> verified_record \<Rightarrow> registry_error + event"

text \<open>How a record is posted: the context of the calls, where to, and the bounds of the search.\<close>

record 'w posting =
  po_context :: "'w gh_context"
  po_repo :: repo_ref
  po_number :: int
  po_policy :: "'w retry_policy"
  po_window :: search_window

section \<open>Violations\<close>

definition apply_event :: "run_context \<Rightarrow> event \<Rightarrow> ('w, machine_state \<times> command list) step" where
  "apply_event run e =
     and_then (caught_as ''illegal_event'' (transition (rc_machine_state run) e)) (\<lambda>(ms, commands).
     and_then (or_stop ''state_not_persistable'' (with_verified_machine_state (rc_payload run) ms)) (\<lambda>payload.
     and_then (save payload) (\<lambda>_. done_with (ms, commands))))"

text \<open>
  The loop over the violations, with the state and the commands so far. The event is constructed outside the \<open>try\<close> of
  \<open>_apply\<close>; it has no check that could fail.
\<close>

fun detect_from ::
  "run_context \<Rightarrow> command list \<Rightarrow> integrity_evidence_ref list \<Rightarrow> ('w, machine_state \<times> command list) step" where
  "detect_from current collected [] = done_with (rc_machine_state current, collected)"
| "detect_from current collected (v # vs) =
     and_then (apply_event current (RecordIntegrityViolationDetected v)) (\<lambda>(ms, commands).
       detect_from (current\<lparr>rc_machine_state := ms\<rparr>) (collected @ commands) vs)"

definition detect_violations :: "run_context \<Rightarrow> integrity_evidence_ref list \<Rightarrow> ('w, persist_outcome) step" where
  "detect_violations run violations =
     and_then (detect_from run [] violations) (\<lambda>(ms, commands). done_with (IntegrityDetected violations ms commands))"

definition unknown_violations ::
  "run_context \<Rightarrow> integrity_evidence_ref list \<Rightarrow> string list \<Rightarrow> integrity_evidence_ref list" where
  "unknown_violations run violations recorded =
     (if (case ms_pending_record (rc_machine_state run) of
            None \<Rightarrow> True | Some p \<Rightarrow> pr_kind p \<noteq> K_INTEGRITY_INCIDENT)
      then violations
      else
        (let known = set (map (binding_value \<circ> ie_binding) (ms_deferred_integrity (rc_machine_state run))) \<union> set recorded
         in filter (\<lambda>v. binding_value (ie_binding v) \<notin> known) violations))"

definition integrity_gate :: "run_context \<Rightarrow> chain_verification \<Rightarrow> ('w, persist_outcome option) step" where
  "integrity_gate run chain =
     and_then (or_stop ''incident_ledger_unavailable'' (read_recorded_violations (rc_payload run))) (\<lambda>recorded.
       (let unknown = unknown_violations run (cv_violations chain) recorded in
        if unknown = [] then done_with None
        else and_then (detect_violations run unknown) (\<lambda>r. done_with (Some r))))"

section \<open>Posting\<close>

text \<open>\<open>_post\<close> catches \<open>TransportError\<close> with its subclasses; a refused flag and a recursion error pass.\<close>

definition is_transport_error :: "transport_error \<Rightarrow> bool" where
  "is_transport_error e = (case e of FlagRefused _ \<Rightarrow> False | UncaughtRecursion \<Rightarrow> False | _ \<Rightarrow> True)"

definition post_record :: "'w posting \<Rightarrow> string \<Rightarrow> ('w, transport_error option) step" where
  "post_record po body =
     and_then
       (on_world (ensure_comment_posted (po_context po) (po_repo po) (po_number po) body (po_window po) (po_policy po)))
       (\<lambda>r. case r of
          Inr _ \<Rightarrow> done_with None
        | Inl e \<Rightarrow> if is_transport_error e then done_with (Some e) else stopped (TransportRaised e))"

section \<open>The verified record\<close>

definition with_recorded :: "payload \<Rightarrow> event \<Rightarrow> string + payload" where
  "with_recorded payload e =
     (case e of
        IntegrityIncidentVerified _ bindings \<Rightarrow> with_recorded_violations payload (map binding_value bindings)
      | _ \<Rightarrow> Inr payload)"

definition event_of_record :: "'w persist_ports \<Rightarrow> verified_record \<Rightarrow> string \<Rightarrow> ('w, event) step" where
  "event_of_record ports r binding =
     (case pp_event_for ports
            \<lparr>re_kind = vr_kind r, re_binding = OpaqueBinding binding, re_ref = OpaqueRef (vr_comment_id r)\<rparr> r of
        Inr e \<Rightarrow> done_with e
      | Inl (ActionRegistryError _) \<Rightarrow> stopped (EngineStopped ''event_unavailable'')
      | Inl (EventError (IllegalEventError _)) \<Rightarrow> stopped (EngineStopped ''event_unavailable'')
      | Inl (EventError e) \<Rightarrow> stopped (DomainRaised e))"

definition advance_with ::
  "'w persist_ports \<Rightarrow> run_context \<Rightarrow> verified_record \<Rightarrow> string \<Rightarrow> bool \<Rightarrow> ('w, persist_outcome) step" where
  "advance_with ports run r binding posted =
     and_then (event_of_record ports r binding) (\<lambda>e.
     and_then (caught_as ''illegal_event'' (transition (rc_machine_state run) e)) (\<lambda>(ms, commands).
     and_then (or_stop ''incident_ledger_unavailable'' (with_recorded (rc_payload run) e)) (\<lambda>ledger.
     and_then (or_stop ''state_not_persistable'' (with_verified_machine_state ledger ms)) (\<lambda>payload.
     and_then (save (AList.delete ''transaction'' payload)) (\<lambda>_.
       done_with (RecordPersisted r ms commands posted))))))"

definition verify_and_advance ::
  "'w persist_ports \<Rightarrow> run_context \<Rightarrow> pending_transaction \<Rightarrow> string \<Rightarrow> bool \<Rightarrow> ('w, persist_outcome) step" where
  "verify_and_advance ports run t run_id posted =
     and_then (from_port (pp_chain ports run_id)) (\<lambda>chain.
     and_then (integrity_gate run chain) (\<lambda>detected.
       case detected of
         Some outcome \<Rightarrow> done_with outcome
       | None \<Rightarrow>
           (case find (\<lambda>r. vr_key r = pt_binding t) (cv_records chain) of
              None \<Rightarrow> stopped (EngineStopped ''record_unverified'')
            | Some r \<Rightarrow>
                if Some (vr_body_hash r) \<noteq> pt_body_hash t then stopped (EngineStopped ''record_body_mismatch'')
                else advance_with ports run r (pt_binding t) posted)))"

section \<open>One record\<close>

definition transaction_of :: "run_context \<Rightarrow> ('w, pending_transaction) step" where
  "transaction_of run =
     (case ms_pending_record (rc_machine_state run) of
        None \<Rightarrow> stopped (EngineStopped ''no_pending_record'')
      | Some pending \<Rightarrow>
          and_then (or_stop ''transaction_unavailable'' (read_transaction (rc_payload run))) (\<lambda>found.
            case found of
              None \<Rightarrow> stopped (EngineStopped ''transaction_missing'')
            | Some t \<Rightarrow>
                if pt_binding t \<noteq> binding_value (pr_binding pending) \<or> pt_kind t \<noteq> pr_kind pending
                then stopped (EngineStopped ''transaction_mismatch'')
                else if pt_body_hash t = None then stopped (EngineStopped ''body_hash_missing'')
                else done_with t))"

definition sequence_occupied :: "pending_transaction \<Rightarrow> chain_verification \<Rightarrow> bool" where
  "sequence_occupied t chain \<longleftrightarrow>
     pt_kind t = K_INTEGRITY_INCIDENT \<and>
     \<not> (\<exists>r \<in> set (cv_records chain). vr_key r = pt_binding t) \<and>
     pt_seq t \<le> max (cv_max_seq chain) (cv_assurance_high_water chain)"

definition persist_pending ::
  "'w persist_ports \<Rightarrow> 'w posting \<Rightarrow> run_context \<Rightarrow> pending_transaction \<Rightarrow> string \<Rightarrow> chain_verification \<Rightarrow>
   ('w, persist_outcome) step" where
  "persist_pending ports po run t run_id chain =
     (if sequence_occupied t chain then stopped (EngineStopped ''incident_sequence_occupied'')
      else
        (case evaluate_pending t run_id (cv_records chain) of
           PendingUnavailable _ \<Rightarrow> stopped (EngineStopped ''pending_unavailable'')
         | PendingReissueRequired _ body _ \<Rightarrow>
             and_then (post_record po body) (\<lambda>failure.
               case failure of
                 Some e \<Rightarrow>
                   and_then (apply_event run RunFailed) (\<lambda>(ms, commands). done_with (PersistFailed e ms commands))
               | None \<Rightarrow> verify_and_advance ports run t run_id True)
         | PendingAlreadyPosted _ \<Rightarrow> verify_and_advance ports run t run_id False
         | PendingAbsent \<Rightarrow> stopped (EngineStopped ''pending_unexpected'')))"

definition persist ::
  "interpreter \<Rightarrow> 'w persist_ports \<Rightarrow> 'w posting \<Rightarrow> string \<Rightarrow> string \<Rightarrow> ('w, persist_outcome) step" where
  "persist py ports po run_id repository =
     and_then (load_run py run_id repository (po_number po)) (\<lambda>run.
     and_then (transaction_of run) (\<lambda>t.
     and_then (from_port (pp_chain ports run_id)) (\<lambda>chain.
     and_then (integrity_gate run chain) (\<lambda>detected.
       case detected of
         Some outcome \<Rightarrow> done_with outcome
       | None \<Rightarrow> persist_pending ports po run t run_id chain))))"

end
