(* ===== verification/Json_Nested.thy ===== *)
theory Json_Nested
  imports Json_Roundtrip Json_Input
begin

text \<open>
  Reading back what was written, for nested values: the text that \<open>json.dumps\<close> writes for a value without floats passes the guard of
  \<open>parse_json\<close>, is UTF-8, and is read as the value with the keys of every object in order.
\<close>

section \<open>Values\<close>

text \<open>
  A value without floats that is nested at most so deep, whose integers Python converts, whose texts are UTF-8 and
  whose objects have distinct keys.
\<close>

definition plain_scalar :: "json \<Rightarrow> bool" where
  "plain_scalar v =
     (case v of JNull \<Rightarrow> True | JBool _ \<Rightarrow> True | JInt i \<Rightarrow> length (show_nat (nat \<bar>i\<bar>)) \<le> max_int_digits
      | JStr s \<Rightarrow> utf8_ok s | _ \<Rightarrow> False)"

fun plain :: "nat \<Rightarrow> json \<Rightarrow> bool" where
  "plain 0 v \<longleftrightarrow> plain_scalar v"
| "plain (Suc d) (JArr vs) \<longleftrightarrow> list_all (plain d) vs"
| "plain (Suc d) (JObj kvs) \<longleftrightarrow> distinct (map fst kvs) \<and> list_all (\<lambda>(k, v). utf8_ok k \<and> plain d v) kvs"
| "plain (Suc d) v \<longleftrightarrow> plain_scalar v"

text \<open>The value with the keys of every object in order.\<close>

function ordered :: "json \<Rightarrow> json" where
  "ordered (JArr vs) = JArr (map ordered vs)"
| "ordered (JObj kvs) = JObj (map (\<lambda>(k, v). (k, ordered v)) (sort_key fst kvs))"
| "ordered JNull = JNull"
| "ordered (JBool b) = JBool b"
| "ordered (JInt i) = JInt i"
| "ordered (JFloat t) = JFloat t"
| "ordered (JStr s) = JStr s"
  by pat_completeness auto

termination ordered
  by (relation "measure size") (auto dest: size_value_of_items simp: less_Suc_eq_le size_list_estimation')

definition ordered_items :: "(string \<times> json) list \<Rightarrow> (string \<times> json) list" where
  "ordered_items kvs = map (\<lambda>(k, v). (k, ordered v)) (sort_key fst kvs)"

section \<open>Reading\<close>

lemma bracket_simps [simp]: "stops_number CHR '']''" "\<not> json_space CHR '']''" "\<not> json_space CHR ''[''"
  by (simp_all add: stops_number_def digit_def json_space_def)

lemma plain_not_float: "\<not> plain d (JFloat t)"
  by (cases d) (simp_all add: plain_scalar_def)

lemma dumps_start:
  assumes "plain d v"
  shows "\<exists>c s. dumps v = c # s \<and> \<not> json_space c \<and> c \<noteq> CHR '']'' \<and> c \<noteq> CHR ''}''"
proof (cases v)
  case (JInt i)
  have "\<not> list_ex digit [CHR 0x20, CHR 0x09, CHR 0x0A, CHR 0x0D, CHR '']'', CHR ''}'']" by code_simp
  then have "digit c \<Longrightarrow> \<not> json_space c \<and> c \<noteq> CHR '']'' \<and> c \<noteq> CHR ''}''" for c by (auto simp: json_space_def)
  moreover have "\<not> json_space CHR ''-''" by (simp add: json_space_def)
  ultimately show ?thesis using JInt show_int_cases [of i] by fastforce
qed (use assms plain_not_float in \<open>auto simp: quoted_def json_space_def\<close>)

lemma dumps_not_space: "plain d v \<Longrightarrow> skip_space (dumps v @ s) = dumps v @ s"
  using dumps_start [of d v] by auto

lemma parse_scalar:
  assumes "plain_scalar v" and "stops_number c"
  shows "parse_value py e (dumps v @ c # r) = Inr (ordered v, c # r)"
proof (cases v)
  case (JInt i)
  then show ?thesis using parse_flat_value [of v c py e r] assms by (simp add: flat_value_def plain_scalar_def)
next
  case (JStr s)
  then show ?thesis by (simp add: parse_value.simps quoted_def scan_quoted)
qed (use assms(1) in \<open>auto simp: plain_scalar_def parse_value.simps scan_simple_def literals_def\<close>)

text \<open>The values of an array and the items of an object, when each of them is read back.\<close>

definition reads :: "interpreter \<Rightarrow> nat \<Rightarrow> json \<Rightarrow> bool" where
  "reads py e v \<longleftrightarrow>
     (\<forall>c r. stops_number c \<longrightarrow> parse_value py e (dumps v @ c # r) = Inr (ordered v, c # r)) \<and>
     (\<forall>s. skip_space (dumps v @ s) = dumps v @ s) \<and> dumps v \<noteq> []"

lemma parse_array:
  "vs \<noteq> [] \<Longrightarrow> \<forall>v \<in> set vs. reads py e v \<Longrightarrow>
   parse_elements py e (joined (map dumps vs) @ CHR '']'' # r) = Inr (map ordered vs, r)"
proof (induction vs rule: induct_list012)
  case (2 v)
  then show ?case by (simp add: parse_elements.simps [of py e "dumps v @ CHR '']'' # r"] reads_def)
next
  case (3 v w vs)
  let ?rest = "joined (map dumps (w # vs)) @ CHR '']'' # r"
  have "skip_space ?rest = ?rest" using 3(4) by (cases vs) (simp_all add: reads_def)
  then show ?case
    using 3 by (simp add: parse_elements.simps [of py e "dumps v @ CHR '','' # s" for s] reads_def)
qed simp

lemma parse_read_item:
  assumes "reads py e v" and "stops_number c" and "\<not> json_space c"
  shows "parse_items py e (item (k, v) @ c # r) =
    (if c = CHR ''}'' then Inr ([(k, ordered v)], r)
     else if c = CHR '','' then
       (case parse_items py e (skip_space r) of Inl err \<Rightarrow> Inl err | Inr (kvs, r') \<Rightarrow> Inr ((k, ordered v) # kvs, r'))
     else Inl ValueError)"
  using assms scan_quoted [of k "CHR '':'' # dumps v @ c # r"]
  by (simp add: parse_items.simps [of py e "CHR 0x22 # s" for s] quoted_def reads_def del: concat.simps)

lemma parse_object:
  "kvs \<noteq> [] \<Longrightarrow> \<forall>(k, v) \<in> set kvs. reads py e v \<Longrightarrow>
   parse_items py e (joined (map item kvs) @ CHR ''}'' # r) = Inr (map (\<lambda>(k, v). (k, ordered v)) kvs, r)"
proof (induction kvs rule: induct_list012)
  case (2 x)
  then show ?case using parse_read_item [of py e "snd x" "CHR ''}''" "fst x" r] by (cases x) simp
next
  case (3 x y kvs)
  obtain k v where x: "x = (k, v)" by (cases x)
  let ?r = "joined (map item (y # kvs)) @ CHR ''}'' # r"
  have "\<exists>s. ?r = CHR 0x22 # s" by (cases y; cases kvs) (auto simp: quoted_def)
  then have "skip_space ?r = ?r" by auto
  then show ?case
    using 3 parse_read_item [of py e v "CHR '',''" k ?r] by (simp add: x)
qed simp

lemma ordered_keys: "map fst (ordered_items kvs) = map fst (sort_key fst kvs)"
  by (simp add: ordered_items_def comp_def case_prod_beta)

lemma dict_of_ordered: "distinct (map fst kvs) \<Longrightarrow> dict_of (ordered_items kvs) = ordered_items kvs"
  by (rule dict_of_distinct) (simp add: ordered_keys distinct_map inj_on_def)

text \<open>Whatever follows a container.\<close>

lemma parse_container:
  assumes "plain (Suc d) v" and "\<not> plain_scalar v" and "\<And>w. plain d w \<Longrightarrow> reads py e w"
  shows "parse_value py (Suc e) (dumps v @ r) = Inr (ordered v, r)"
proof (cases v)
  case (JArr vs)
  have vs: "\<forall>w \<in> set vs. reads py e w" "\<forall>w \<in> set vs. plain d w" using assms(1,3) JArr by (auto simp: list_all_iff)
  show ?thesis
  proof (cases vs)
    case Nil
    then show ?thesis by (simp add: JArr parse_value.simps)
  next
    case (Cons w ws)
    let ?s = "joined (map dumps vs) @ CHR '']'' # r"
    have "skip_space ?s = ?s" "\<not> prefix '']'' ?s"
      using dumps_start [of d w] vs(2) Cons by (cases ws; auto)+
    then show ?thesis
      using parse_array [OF _ vs(1), of r] Cons by (simp add: JArr parse_value.simps)
  qed
next
  case (JObj kvs)
  have kvs: "\<forall>(k, w) \<in> set (sort_key fst kvs). reads py e w" "distinct (map fst kvs)"
    using assms(1,3) JObj by (auto simp: list_all_iff)
  show ?thesis
  proof (cases "sort_key fst kvs")
    case Nil
    then have "kvs = []" by (metis set_empty set_sort)
    then show ?thesis by (simp add: JObj parse_value.simps)
  next
    case (Cons x xs)
    let ?s = "joined (map item (sort_key fst kvs)) @ CHR ''}'' # r"
    have "\<exists>u. ?s = CHR 0x22 # u" unfolding Cons by (cases x; cases xs) (auto simp: quoted_def)
    then have "skip_space ?s = ?s" "\<not> prefix ''}'' ?s" by auto
    moreover have "parse_items py e ?s = Inr (ordered_items kvs, r)"
      using parse_object [OF _ kvs(1), of r] Cons by (simp add: ordered_items_def)
    ultimately show ?thesis
      using dict_of_ordered [OF kvs(2)] by (simp add: JObj parse_value.simps ordered_items_def)
  qed
qed (use assms(1,2) in simp_all)

lemma parse_plain: "plain d v \<Longrightarrow> d \<le> e \<Longrightarrow> reads py e v"
proof (induction d arbitrary: v e)
  case 0
  then show ?case using parse_scalar dumps_start [of 0 v] dumps_not_space [of 0 v] by (auto simp: reads_def)
next
  case (Suc d)
  then obtain e' where e: "e = Suc e'" "d \<le> e'" by (cases e) auto
  show ?case
  proof (cases "plain_scalar v")
    case True
    then show ?thesis using parse_scalar Suc.prems(1) dumps_start [of "Suc d" v] dumps_not_space [of "Suc d" v] by (auto simp: reads_def)
  next
    case False
    have "parse_value py e (dumps v @ r) = Inr (ordered v, r)" for r
      unfolding e(1) by (rule parse_container [OF Suc.prems(1) False]) (use Suc.IH e(2) in blast)
    then show ?thesis using Suc.prems(1) dumps_start [of "Suc d" v] dumps_not_space [of "Suc d" v] by (auto simp: reads_def)
  qed
qed

theorem loads_nested:
  assumes "plain d (JObj kvs)" and "0 < d" and "d \<le> recursion_budget py"
  shows "loads py (dumps (JObj kvs)) = Inr (ordered (JObj kvs))"
proof -
  obtain c e where d: "d = Suc c" "recursion_budget py = Suc e" "c \<le> e" using assms(2,3) by (cases d; cases "recursion_budget py") auto
  have "parse_value py (recursion_budget py) (dumps (JObj kvs) @ []) = Inr (ordered (JObj kvs), [])"
    unfolding d(2) by (rule parse_container [of c]) (use assms(1) d parse_plain in \<open>auto simp: plain_scalar_def\<close>)
  then show ?thesis using dumps_not_space [OF assms(1), of "[]"] by (simp add: loads_def skip_space_def)
qed

section \<open>The guard\<close>

lemma hex_char_plain: "n < 16 \<Longrightarrow> hex_char n \<noteq> CHR 0x22 \<and> hex_char n \<noteq> CHR 0x5C"
proof -
  have "\<forall>n \<in> set [0..<16]. hex_char n \<noteq> CHR 0x22 \<and> hex_char n \<noteq> CHR 0x5C" by code_simp
  then show "n < 16 \<Longrightarrow> ?thesis" by simp
qed

lemma string_end_escaped: "string_end (escape_char c @ u) = string_end u"
proof (cases "c < CHR 0x20")
  case True
  then have n: "(of_char c :: nat) < 32" by (simp add: less_char_nat)
  then have "hex_char (of_char c div 16) \<noteq> CHR 0x22 \<and> hex_char (of_char c div 16) \<noteq> CHR 0x5C"
    "hex_char (of_char c mod 16) \<noteq> CHR 0x22 \<and> hex_char (of_char c mod 16) \<noteq> CHR 0x5C"
    by (auto intro!: hex_char_plain [THEN conjunct1] hex_char_plain [THEN conjunct2])
  then show ?thesis by (simp add: escape_char_def newline_def)
next
  case False
  then show ?thesis by (simp add: escape_char_def newline_def)
qed

lemma string_end_quoted: "string_end (concat (map escape_char t) @ CHR 0x22 # s) = Some s"
proof (induction t)
  case (Cons c t)
  then show ?case by (simp add: string_end_escaped)
qed simp

lemma without_quoted: "without_strings (quoted t @ s) = without_strings s"
  using string_end_quoted [of t s] by (simp add: quoted_def)

definition neutral :: "char \<Rightarrow> bool" where
  "neutral c \<longleftrightarrow> c \<notin> {CHR ''['', CHR ''{'', CHR '']'', CHR ''}'', CHR 0x22}"

lemma without_neutral: "list_all neutral x \<Longrightarrow> without_strings (x @ s) = x @ without_strings s"
  by (induction x) (simp_all add: neutral_def)

lemma depth_neutral: "list_all neutral x \<Longrightarrow> depth_ok limit k (x @ s) \<longleftrightarrow> depth_ok limit k s"
  by (induction x) (simp_all add: neutral_def)

lemma digit_neutral: "digit c \<Longrightarrow> neutral c"
proof -
  have "\<not> list_ex digit (CHR 0x22 # ''[]{}'')" by code_simp
  then show "digit c \<Longrightarrow> neutral c" by (auto simp: neutral_def)
qed

lemma scalar_guard:
  assumes "plain_scalar v"
  shows "depth_ok limit k (without_strings (dumps v @ s)) \<longleftrightarrow> depth_ok limit k (without_strings s)"
proof (cases v)
  case (JInt i)
  have "list_all neutral (show_nat n)" for n
    using show_nat_digits [of n] by (auto simp: list_all_iff digit_neutral)
  then have "list_all neutral (show_int i)" by (simp add: show_int_def neutral_def)
  then show ?thesis by (simp add: JInt without_neutral depth_neutral)
qed (use assms in \<open>auto simp: plain_scalar_def without_quoted\<close>)

text \<open>A value whose nesting is below the limit leaves the guard where it was.\<close>

definition guards :: "int \<Rightarrow> int \<Rightarrow> json \<Rightarrow> bool" where
  "guards limit k v \<longleftrightarrow>
     (\<forall>s. depth_ok limit k (without_strings (dumps v @ s)) \<longleftrightarrow> depth_ok limit k (without_strings s))"

lemma guard_array:
  "\<forall>v \<in> set vs. guards limit k v \<Longrightarrow>
   depth_ok limit k (without_strings (joined (map dumps vs) @ s)) \<longleftrightarrow> depth_ok limit k (without_strings s)"
proof (induction vs rule: induct_list012)
  case (3 v w vs)
  then show ?case by (simp add: guards_def)
qed (simp_all add: guards_def)

lemma guard_object:
  "\<forall>(key, v) \<in> set kvs. guards limit k v \<Longrightarrow>
   depth_ok limit k (without_strings (joined (map item kvs) @ s)) \<longleftrightarrow> depth_ok limit k (without_strings s)"
proof (induction kvs rule: induct_list012)
  case (3 x y kvs)
  then show ?case by (cases x) (simp add: guards_def without_quoted)
qed (auto simp: guards_def without_quoted)

lemma plain_guard: "plain d v \<Longrightarrow> int d + k \<le> limit \<Longrightarrow> guards limit k v"
proof (induction d arbitrary: v k)
  case 0
  then show ?case using scalar_guard by (simp add: guards_def)
next
  case (Suc d)
  have inner: "plain d w \<Longrightarrow> guards limit (k + 1) w" for w by (rule Suc.IH) (use Suc.prems(2) in auto)
  show ?case
  proof (cases v)
    case (JArr vs)
    then have "\<forall>w \<in> set vs. guards limit (k + 1) w" using Suc.prems(1) inner by (auto simp: list_all_iff)
    then show ?thesis using guard_array Suc.prems(2) by (simp add: guards_def JArr)
  next
    case (JObj kvs)
    then have "\<forall>(key, w) \<in> set (sort_key fst kvs). guards limit (k + 1) w"
      using Suc.prems(1) inner by (auto simp: list_all_iff)
    then show ?thesis using guard_object Suc.prems(2) by (simp add: guards_def JObj)
  qed (use Suc.prems scalar_guard [of v limit k] in \<open>auto simp: guards_def plain_scalar_def\<close>)
qed

theorem parse_nested:
  assumes "plain MAX_JSON_DEPTH (JObj kvs)" and "MAX_JSON_DEPTH \<le> recursion_budget py"
  shows "parse_json py (dumps (JObj kvs)) = Inr (ordered (JObj kvs))"
proof -
  have "depth_ok (int MAX_JSON_DEPTH) 0 (without_strings (dumps (JObj kvs) @ [])) \<longleftrightarrow>
      depth_ok (int MAX_JSON_DEPTH) 0 (without_strings [])"
    using plain_guard [OF assms(1), of 0 "int MAX_JSON_DEPTH"] unfolding guards_def by simp
  then have "ensure_json_depth (dumps (JObj kvs)) = Inr ()" by (simp add: ensure_json_depth_def)
  then show ?thesis
    using loads_nested [OF assms(1), of "py\<lparr>accepts_constants := False\<rparr>"] assms(2) by (simp add: parse_json_def MAX_JSON_DEPTH_def)
qed

section \<open>UTF-8\<close>

text \<open>A text that decodes is made of ASCII characters and of the bytes of longer ones.\<close>

lemma utf8_induct [consumes 1, case_names Nil ascii long]:
  assumes "utf8_ok s" and "P []"
    and "\<And>a s. a < CHR 0x80 \<Longrightarrow> utf8_ok s \<Longrightarrow> P s \<Longrightarrow> P (a # s)"
    and long: "\<And>x s. list_all (\<lambda>c. \<not> c < CHR 0x80) x \<Longrightarrow> \<forall>t. utf8_ok (x @ t) \<longleftrightarrow> utf8_ok t \<Longrightarrow> utf8_ok s \<Longrightarrow> P s \<Longrightarrow> P (x @ s)"
  shows "P s"
  using assms(1)
proof (induction s rule: utf8_ok.induct)
  case (2 a s)
  have high: "continuation c \<Longrightarrow> \<not> c < CHR 0x80" for c by (auto simp: continuation_def)
  show ?case
  proof (cases "a < CHR 0x80")
    case True
    then show ?thesis using 2 assms(3) by simp
  next
    case a: False
    then obtain b s2 where s: "s = b # s2" using "2.prems" by (cases s) simp_all
    show ?thesis
    proof (cases "CHR 0xC2 \<le> a \<and> a < CHR 0xE0")
      case True
      have ok: "continuation b" "utf8_ok s2" using True "2.prems" a s by simp_all
      have "P ([a, b] @ s2)"
        by (rule long) (use ok a True high "2.IH"(2) [OF a s True ok(2)] in auto)
      then show ?thesis using s by simp
    next
      case two: False
      then obtain c s3 where s2: "s2 = c # s3" using "2.prems" a s by (cases s2) (auto split: if_splits)
      show ?thesis
      proof (cases "CHR 0xE0 \<le> a \<and> a < CHR 0xF0")
        case True
        have ok: "continuation b" "continuation c" "a = CHR 0xE0 \<longrightarrow> CHR 0xA0 \<le> b" "a = CHR 0xED \<longrightarrow> b < CHR 0xA0" "utf8_ok s3"
          using True "2.prems" a two s s2 by (auto split: if_splits)
        have "P ([a, b, c] @ s3)"
          by (rule long) (use ok a two True high "2.IH"(3) [OF a s two s2 True ok(5)] in auto)
        then show ?thesis using s s2 by simp
      next
        case three: False
        then obtain d s4 where s3: "s3 = d # s4" using "2.prems" a two s s2 by (cases s3) (auto split: if_splits)
        have ok: "CHR 0xF0 \<le> a" "a < CHR 0xF5" "continuation b" "continuation c" "continuation d"
          "a = CHR 0xF0 \<longrightarrow> CHR 0x90 \<le> b" "a = CHR 0xF4 \<longrightarrow> b < CHR 0x90" "utf8_ok s4"
          using three "2.prems" a two s s2 s3 by (auto split: if_splits)
        have "P ([a, b, c, d] @ s4)"
          by (rule long) (use ok a two three high "2.IH"(4) [OF a s two s2 three s3 ok(8)] in auto)
        then show ?thesis using s s2 s3 by simp
      qed
    qed
  qed
qed (use assms(2) in simp)

lemma utf8_append: "utf8_ok s \<Longrightarrow> utf8_ok (s @ t) \<longleftrightarrow> utf8_ok t"
  by (induction s rule: utf8_induct) simp_all

lemma utf8_ascii: "list_all (\<lambda>c. c < CHR 0x80) s \<Longrightarrow> utf8_ok s"
  by (induction s) simp_all

lemma escape_ascii: "c < CHR 0x80 \<Longrightarrow> list_all (\<lambda>d. d < CHR 0x80) (escape_char c)"
proof -
  assume c: "c < CHR 0x80"
  have hex: "n < 16 \<Longrightarrow> hex_char n < CHR 0x80" for n
  proof -
    have "\<forall>n \<in> set [0..<16]. hex_char n < CHR 0x80" by code_simp
    then show "n < 16 \<Longrightarrow> ?thesis" by simp
  qed
  show ?thesis
  proof (cases "c < CHR 0x20")
    case True
    then have n: "(of_char c :: nat) < 32" by (simp add: less_char_nat)
    then have "hex_char (of_char c div 16) < CHR 0x80" "hex_char (of_char c mod 16) < CHR 0x80"
      by (auto intro!: hex)
    then show ?thesis using c by (simp add: escape_char_def)
  qed (use c in \<open>simp add: escape_char_def\<close>)
qed

lemma escape_high: "list_all (\<lambda>c. \<not> c < CHR 0x80) x \<Longrightarrow> concat (map escape_char x) = x"
proof (induction x)
  case (Cons c x)
  have "\<not> c < CHR 0x20" using Cons.prems by (auto simp: less_char_nat)
  moreover have "c \<notin> {CHR 0x22, CHR 0x5C, CHR 0x0A, CHR 0x0D, CHR 0x09, CHR 0x0C, CHR 0x08}" using Cons.prems by auto
  ultimately have "escape_char c = [c]" by (simp add: escape_char_def)
  then show ?case using Cons by simp
qed simp

lemma utf8_quoted: "utf8_ok t \<Longrightarrow> utf8_ok (quoted t)"
proof -
  assume "utf8_ok t"
  then have "utf8_ok (concat (map escape_char t))"
  proof (induction t rule: utf8_induct)
    case (ascii a s)
    then show ?case by (simp add: utf8_append utf8_ascii escape_ascii)
  next
    case (long x s)
    then show ?case by (simp add: escape_high)
  qed simp
  then show ?thesis by (simp add: quoted_def utf8_append)
qed

lemma utf8_scalar: "plain_scalar v \<Longrightarrow> utf8_ok (dumps v)"
proof (cases v)
  case (JInt i)
  have "digit c \<Longrightarrow> c < CHR 0x80" for c by (auto simp: digit_def less_char_nat less_eq_char_def)
  then have "list_all (\<lambda>c. c < CHR 0x80) (show_nat n)" for n using show_nat_digits [of n] by (auto simp: list_all_iff)
  then show ?thesis by (simp add: JInt show_int_def utf8_ascii)
qed (auto simp: plain_scalar_def utf8_quoted)

lemma utf8_joined: "\<forall>t \<in> set ts. utf8_ok t \<Longrightarrow> utf8_ok (joined ts)"
  by (induction ts rule: joined.induct) (simp_all add: utf8_append)

theorem utf8_dumps: "plain d v \<Longrightarrow> utf8_ok (dumps v)"
proof (induction d arbitrary: v)
  case (Suc d)
  show ?case
  proof (cases v)
    case (JArr vs)
    then have "utf8_ok (joined (map dumps vs))" using Suc by (intro utf8_joined) (auto simp: list_all_iff)
    then show ?thesis by (simp add: JArr utf8_append)
  next
    case (JObj kvs)
    then have "utf8_ok (joined (map item (sort_key fst kvs)))"
      using Suc by (intro utf8_joined) (auto simp: list_all_iff utf8_append utf8_quoted)
    then show ?thesis by (simp add: JObj utf8_append)
  qed (use Suc.prems utf8_scalar [of v] in \<open>auto simp: plain_scalar_def\<close>)
qed (simp add: utf8_scalar)

end
