(* ===== verification/Store_Properties.thy ===== *)
theory Store_Properties
  imports Store Json_Nested Schema_Laws Marker_Laws
begin

text \<open>
  Which checkpoints that were saved are read again (\<open>state/store.py\<close> with \<open>schema/migrate.py\<close>).
\<close>

section \<open>The order of the keys does not matter for the type\<close>

lemma ordered_lookup:
  assumes "distinct (map fst kvs)"
  shows "map_of (ordered_items kvs) n = map_option ordered (map_of kvs n)"
proof -
  have "map_of (sort_key fst kvs) n = map_of kvs n"
    by (rule fun_cong [OF map_of_inject_set [THEN iffD2]]) (use assms in \<open>simp_all add: distinct_map inj_on_def\<close>)
  then show ?thesis by (simp add: ordered_items_def map_of_map)
qed

lemma ordered_set: "set (ordered_items kvs) = (\<lambda>(k, v). (k, ordered v)) ` set kvs"
  by (simp add: ordered_items_def)

lemma ordered_names: "fst ` set (ordered_items kvs) = fst ` set kvs"
  by (force simp: ordered_set)

lemma ordered_object: "ordered (JObj kvs) = JObj (ordered_items kvs)"
  by (simp add: ordered_items_def)

lemma ordered_scalar: "plain_scalar v \<Longrightarrow> ordered v = v"
  by (cases v) (simp_all add: plain_scalar_def)

lemma ordered_fields:
  assumes "distinct (map fst kvs)" and "\<And>k w f. (k, w) \<in> set kvs \<Longrightarrow> has_type f w \<Longrightarrow> has_type f (ordered w)"
    and "has_fields table kvs"
  shows "has_fields table (ordered_items kvs)"
proof -
  have "has_type f v" if t: "(n, f) \<in> set table" and v: "map_of (ordered_items kvs) n = Some v" for n f v
  proof -
    obtain w where w: "map_of kvs n = Some w" "v = ordered w" using v ordered_lookup [OF assms(1)] by auto
    then have "has_type f w" using assms(3) t by (auto simp: has_fields_def)
    then show ?thesis using assms(2) w map_of_SomeD by fastforce
  qed
  then show ?thesis using assms(3) by (auto simp: has_fields_def ordered_names)
qed

lemma ordered_typed: "plain d v \<Longrightarrow> has_type f v \<Longrightarrow> has_type f (ordered v)"
proof (induction d arbitrary: f v)
  case (Suc d)
  show ?case
  proof (cases v)
    case (JArr vs)
    then show ?thesis using Suc by (auto simp: has_type_simps list_all_iff)
  next
    case (JObj kvs)
    then have d: "distinct (map fst kvs)" and p: "\<And>k w g. (k, w) \<in> set kvs \<Longrightarrow> has_type g w \<Longrightarrow> has_type g (ordered w)"
      using Suc by (auto simp: list_all_iff)
    show ?thesis
    proof (cases "fl_fields f")
      case None
      then show ?thesis using Suc.prems(2) p unfolding JObj ordered_object by (fastforce simp: has_type_simps ordered_set)
    next
      case (Some table)
      have "has_fields table (ordered_items kvs)" if "has_fields table kvs"
        by (rule ordered_fields [OF d _ that]) (use p in blast)
      then show ?thesis using Suc.prems(2) unfolding JObj ordered_object has_type_object [OF Some] by blast
    qed
  qed (use Suc.prems in simp_all)
qed (simp add: ordered_scalar)

section \<open>Saving and loading\<close>

lemma ordered_checkpoint:
  assumes "plain d (JObj payload)" and "0 < d" and "has_fields checkpoint_fields_v2 payload"
    and "version_of payload = Some 2"
  shows "has_fields checkpoint_fields_v2 (ordered_items payload)" and "version_of (ordered_items payload) = Some 2"
proof -
  have d: "distinct (map fst payload)" and p: "\<And>k w. (k, w) \<in> set payload \<Longrightarrow> plain (d - 1) w"
    using assms(1,2) by (cases d; auto simp: list_all_iff)+
  show "has_fields checkpoint_fields_v2 (ordered_items payload)"
    by (rule ordered_fields [OF d _ assms(3)]) (use p ordered_typed in blast)
  show "version_of (ordered_items payload) = Some 2"
    using assms(4) by (auto simp: version_of_def ordered_lookup [OF d] split: option.splits json.splits)
qed

lemma saved_payload:
  assumes "save_checkpoint d payload = Inr d'" and "version_of payload = Some 2"
  shows "has_fields checkpoint_fields_v2 payload"
    and "dk_file d' = Some \<lparr>cf_bytes = dumps (JObj payload), cf_private = True\<rparr>"
proof -
  obtain version where "validate_object CHECKPOINT payload = Accepted payload version"
    using assms(1) by (auto simp: save_checkpoint_def validate_object_Accepted split: validation_result.splits)
  then obtain spec where "spec_for_payload CHECKPOINT payload = Some spec" "valid_version spec payload"
    by (auto simp: validate_object_Accepted)
  from valid_checkpoint [OF this] show "has_fields checkpoint_fields_v2 payload" using assms(2) by auto
qed (use assms(1) in \<open>auto simp: save_checkpoint_def split: validation_result.splits if_splits\<close>)

lemma saved_loads:
  assumes save: "save_checkpoint d payload = Inr d'" and version: "version_of payload = Some 2"
    and plain: "plain MAX_JSON_DEPTH (JObj payload)" and budget: "MAX_JSON_DEPTH \<le> recursion_budget py"
    and size: "\<not> CHECKPOINT_MAX_INPUT_BYTES < length (dumps (JObj payload))"
  shows "load_checkpoint py d' = CheckpointLoaded (ordered_items payload) 2"
proof -
  let ?p = "ordered_items payload"
  have typed: "has_fields checkpoint_fields_v2 ?p" "version_of ?p = Some 2"
    using ordered_checkpoint [OF plain _ saved_payload(1) [OF save version] version] by (simp_all add: MAX_JSON_DEPTH_def)
  then have spec: "spec_for_payload CHECKPOINT ?p = Some \<lparr>vs_fields = checkpoint_fields_v2, vs_rules = []\<rparr>"
    "valid_version \<lparr>vs_fields = checkpoint_fields_v2, vs_rules = []\<rparr> ?p"
    by (simp_all add: spec_for_payload_def checkpoint_versions valid_version_def)
  moreover have "parse_json py (dumps (JObj payload)) = Inr (JObj ?p)"
    using parse_nested [OF plain budget] unfolding ordered_object .
  ultimately have "validate py CHECKPOINT (dumps (JObj payload)) = Accepted ?p (Some 2)"
    using size utf8_dumps [OF plain] typed(2) by (simp add: validate_accepts_typed CHECKPOINT_def)
  moreover have "migrate_from CHECKPOINT 2 ?p = Inr ?p" by (subst migrate_from.simps) (simp add: checkpoint_versions)
  moreover have "validate_object CHECKPOINT ?p = Accepted ?p (Some 2)"
    using spec typed(2) by (simp add: validate_object_Accepted)
  ultimately show ?thesis
    using size saved_payload(2) [OF save version] by (simp add: load_checkpoint_def load_with_migration_def)
qed

text \<open>
  C39. A checkpoint that was saved is loaded again, unless it is too large. Of the payload that \<open>save_checkpoint\<close> wrote,
  \<open>load_checkpoint\<close> gives back every value, in objects whose keys are in order; but saving does not look at the size of the text,
  so when it has more than \<open>CHECKPOINT_MAX_INPUT_BYTES\<close> bytes, the file on the disk is one that loading refuses.
\<close>

theorem saved_checkpoint_loads:
  assumes save: "save_checkpoint d payload = Inr d'" and version: "version_of payload = Some 2"
    and plain: "plain MAX_JSON_DEPTH (JObj payload)" and budget: "MAX_JSON_DEPTH \<le> recursion_budget py"
  shows "load_checkpoint py d' =
    (if CHECKPOINT_MAX_INPUT_BYTES < length (dumps (JObj payload))
     then CheckpointSchemaInvalid ''size'' [public_error ''input_too_large'' ''$'']
     else CheckpointLoaded (ordered_items payload) 2)"
proof (cases "CHECKPOINT_MAX_INPUT_BYTES < length (dumps (JObj payload))")
  case True
  then have "validate py CHECKPOINT (dumps (JObj payload)) = refuse ''size'' ''input_too_large'' ''$''"
    by (simp add: validate_def pipeline_def parse_json_object_def CHECKPOINT_def)
  then show ?thesis
    using True saved_payload(2) [OF save version] by (simp add: load_checkpoint_def load_with_migration_def refuse_def)
next
  case False
  show ?thesis using saved_loads [OF save version plain budget False] False by simp
qed

section \<open>A checkpoint that cannot be loaded\<close>

text \<open>A pending record with a body of the greatest length, in characters of four bytes.\<close>

definition wide :: string where "wide = [CHR 0xF0, CHR 0x9F, CHR 0x98, CHR 0x80]"

definition wide_body :: string where "wide_body = concat (replicate 65536 wide)"

definition wide_checkpoint :: payload where
  "wide_checkpoint =
     [(''number'', JInt 1), (''repository'', JStr ''r''), (''run_id'', JStr ''a''), (''schema_version'', JInt 2),
      (''transaction'', JObj
         [(''binding'', JStr ''b''), (''kind'', JStr ''GATE_ANSWER''), (''seq'', JInt 1), (''head_sha'', JStr ''h''),
          (''payload_hash'', JStr ''p''), (''body'', JStr wide_body)])]"

lemma wide_facts: "utf8_ok wide_body" "code_points wide_body = 65536" "length wide_body = 262144" "wide_body \<noteq> []"
proof -
  have w: "utf8_ok wide" "code_points wide = 1" "length wide = 4" by code_simp+
  have "utf8_ok (concat (replicate n wide))" for n by (induction n) (simp_all add: utf8_append w(1))
  then show "utf8_ok wide_body" by (simp add: wide_body_def)
  have "code_points (concat (replicate n wide)) = n" for n
    using w(2) by (induction n) (simp_all add: code_points_def)
  then show "code_points wide_body = 65536" by (simp add: wide_body_def)
  have "length (concat (replicate n wide)) = 4 * n" for n using w(3) by (induction n) simp_all
  from this [of 65536] show l: "length wide_body = 262144" by (simp add: wide_body_def)
  show "wide_body \<noteq> []" using l by auto
qed

lemma wide_typed: "has_fields checkpoint_fields_v2 wide_checkpoint"
proof -
  have "has_type opaque_field (JStr ''a'')" "has_type text_field (JStr ''r'')" "has_type integer_field (JInt 1)"
    using code_points_le [of "''a''"] code_points_le [of "''r''"] by (simp_all add: field_defs has_type_simps)
  moreover have "has_type transaction_section (snd (wide_checkpoint ! 4))"
    using wide_facts code_points_le [of "''b''"] code_points_le [of "''h''"] code_points_le [of "''p''"]
    by (simp add: wide_checkpoint_def transaction_section_def field_defs has_type_simps RECORD_KIND_VALUES_def
        MAX_PENDING_BODY_CHARS_def all_kinds_def)
  moreover have "\<not> fl_required host_action_v2" by (simp add: host_action_v2_def required_optional)
  ultimately show ?thesis
    by (simp add: has_fields_def wide_checkpoint_def checkpoint_fields_v2_def envelope_fields_def SECTIONS_def
        sections_optional)
qed

lemma wide_plain: "plain MAX_JSON_DEPTH (JObj wide_checkpoint)"
proof -
  have depth: "MAX_JSON_DEPTH = Suc (Suc 62)" by (simp add: MAX_JSON_DEPTH_def)
  have ints: "plain_scalar (JInt 1)" "plain_scalar (JInt 2)" by code_simp+
  have body: "plain_scalar (JStr wide_body)" using wide_facts(1) by (simp add: plain_scalar_def)
  have ascii: "plain_scalar (JStr s)" if "list_all (\<lambda>c. c < CHR 0x80) s" for s
    using utf8_ascii [OF that] by (simp add: plain_scalar_def)
  have short: "plain_scalar (JStr ''r'')" "plain_scalar (JStr ''a'')" "plain_scalar (JStr ''b'')" "plain_scalar (JStr ''h'')"
    "plain_scalar (JStr ''p'')" "plain_scalar (JStr ''GATE_ANSWER'')"
    by (rule ascii, code_simp)+
  have names: "list_all (\<lambda>s. utf8_ok s) [''number'', ''repository'', ''run_id'', ''schema_version'', ''transaction'', ''binding'', ''kind'',
    ''seq'', ''head_sha'', ''payload_hash'', ''body'']"
    by code_simp
  have scalar: "plain n v" if "plain_scalar v" for n v
    using that by (cases n; cases v) (simp_all add: plain_scalar_def)
  have "plain (Suc (Suc n)) (JObj wide_checkpoint)" for n
    using scalar [OF body] scalar [OF ints(1)] scalar [OF ints(2)] scalar [OF short(1)] scalar [OF short(2)]
      scalar [OF short(3)] scalar [OF short(4)] scalar [OF short(5)] scalar [OF short(6)] names
    by (simp add: wide_checkpoint_def)
  then show ?thesis unfolding depth .
qed

lemma wide_length: "CHECKPOINT_MAX_INPUT_BYTES < length (dumps (JObj wide_checkpoint))"
proof -
  let ?t = "[(''binding'', JStr ''b''), (''kind'', JStr ''GATE_ANSWER''), (''seq'', JInt 1), (''head_sha'', JStr ''h''),
          (''payload_hash'', JStr ''p''), (''body'', JStr wide_body)]"
  have "length (dumps (JStr wide_body)) \<le> length (dumps (JObj ?t))" by (rule length_dumps_item [of "''body''"]) simp
  also have "\<dots> \<le> length (dumps (JObj wide_checkpoint))"
    by (rule length_dumps_item [of "''transaction''"]) (simp add: wide_checkpoint_def)
  finally have "length (dumps (JStr wide_body)) \<le> length (dumps (JObj wide_checkpoint))" .
  moreover have "length wide_body + 2 \<le> length (dumps (JStr wide_body))"
  proof -
    have "1 \<le> length (escape_char c)" for c by (simp add: escape_char_def)
    then have "length s \<le> length (concat (map escape_char s))" for s
    proof (induction s)
      case (Cons a s)
      then show ?case using add_mono [OF \<open>\<And>c. 1 \<le> length (escape_char c)\<close> [of a] Cons.IH] by simp
    qed simp
    then show ?thesis by (simp add: quoted_def)
  qed
  ultimately show ?thesis using wide_facts(3) by (simp add: CHECKPOINT_MAX_INPUT_BYTES_def)
qed

theorem saved_checkpoint_loads_witness:
  "\<exists>d. save_checkpoint \<lparr>dk_file = None, dk_writable = True\<rparr> wide_checkpoint = Inr d \<and>
     load_checkpoint example_interpreter d = CheckpointSchemaInvalid ''size'' [public_error ''input_too_large'' ''$'']"
proof -
  have version: "version_of wide_checkpoint = Some 2" by (simp add: version_of_def wide_checkpoint_def)
  have "spec_for_payload CHECKPOINT wide_checkpoint = Some \<lparr>vs_fields = checkpoint_fields_v2, vs_rules = []\<rparr>"
    "valid_version \<lparr>vs_fields = checkpoint_fields_v2, vs_rules = []\<rparr> wide_checkpoint"
    using version wide_typed by (simp_all add: spec_for_payload_def checkpoint_versions valid_version_def)
  then have "validate_object CHECKPOINT wide_checkpoint = Accepted wide_checkpoint (Some 2)"
    using version by (simp add: validate_object_Accepted)
  then obtain d where d: "save_checkpoint \<lparr>dk_file = None, dk_writable = True\<rparr> wide_checkpoint = Inr d"
    by (simp add: save_checkpoint_def)
  have "MAX_JSON_DEPTH \<le> recursion_budget example_interpreter" by (simp add: MAX_JSON_DEPTH_def example_interpreter_def)
  from saved_checkpoint_loads [OF d version wide_plain this] show ?thesis using d wide_length by simp
qed

end
