(* ===== verification/Persistence_Properties.thy ===== *)
theory Persistence_Properties
  imports Persistence Posting_Properties Store_Properties Transaction_Properties Scenarios
begin

text \<open>
  What a persisted record implies (\<open>workflow/persistence.py\<close>): a case analysis of the successful runs of each function, the
  property of the whole step, and a run of it on a concrete checkpoint, where a record of a permission block was posted and the
  run was interrupted before the checkpoint was saved. Everything but the hash of that record is a constant.
\<close>

section \<open>Successful steps\<close>

lemma gate_passed:
  assumes "integrity_gate run chain s = (s', Inr None)"
  shows "s' = s \<and> (\<exists>recorded. read_recorded_violations (rc_payload run) = Inr recorded \<and>
    unknown_violations run (cv_violations chain) recorded = [])"
  using assms by (auto simp: integrity_gate_def and_then_Inr Let_def split: if_splits)

lemma detected_outcome:
  "detect_violations run vs s = (s', Inr r) \<Longrightarrow> \<exists>ms cs. r = IntegrityDetected vs ms cs"
  by (auto simp: detect_violations_def and_then_Inr)

lemma gate_outcome:
  "integrity_gate run chain s = (s', Inr (Some r)) \<Longrightarrow> \<exists>vs ms cs. r = IntegrityDetected vs ms cs"
  by (auto simp: integrity_gate_def and_then_Inr Let_def dest: detected_outcome split: if_splits)

lemma gate_not_persisted: "integrity_gate run chain s \<noteq> (s', Inr (Some (RecordPersisted r ms commands posted)))"
  using gate_outcome by blast

lemma no_unknown:
  assumes "unknown_violations run vs recorded = []" and "v \<in> set vs"
  shows "(\<exists>p. ms_pending_record (rc_machine_state run) = Some p \<and> pr_kind p = K_INTEGRITY_INCIDENT) \<and>
    (ie_binding v \<in> ie_binding ` set (ms_deferred_integrity (rc_machine_state run)) \<or>
     binding_value (ie_binding v) \<in> set recorded)"
  using assms opaque_binding.expand
  by (fastforce simp: unknown_violations_def Let_def filter_empty_conv split: if_splits option.splits)

lemma event_of_record_Inr:
  "event_of_record ports r binding s = (s', Inr e) \<longleftrightarrow>
     s' = s \<and> pp_event_for ports \<lparr>re_kind = vr_kind r, re_binding = OpaqueBinding binding, re_ref = OpaqueRef (vr_comment_id r)\<rparr> r = Inr e"
  by (auto simp: event_of_record_def split: sum.splits registry_error.splits domain_error.splits)

lemma transaction_of_Inr:
  assumes "transaction_of run s = (s', Inr t)"
  shows "s' = s \<and> read_transaction (rc_payload run) = Inr (Some t) \<and> pt_body_hash t \<noteq> None \<and>
    (\<exists>p. ms_pending_record (rc_machine_state run) = Some p \<and> pt_binding t = binding_value (pr_binding p) \<and> pt_kind t = pr_kind p)"
proof -
  obtain p where p: "ms_pending_record (rc_machine_state run) = Some p"
    using assms by (cases "ms_pending_record (rc_machine_state run)") (simp_all add: transaction_of_def)
  obtain found where found: "read_transaction (rc_payload run) = Inr found"
    using assms by (auto simp: transaction_of_def p and_then_Inr)
  then obtain u where "found = Some u"
    using assms by (cases found) (simp_all add: transaction_of_def p and_then_Inr)
  then show ?thesis
    using assms found p
    by (simp add: transaction_of_def and_then_Inr split: if_split_asm)
qed

lemma read_state_delete: "k \<noteq> ''state'' \<Longrightarrow> read_machine_state (AList.delete k p) = read_machine_state p"
  by (simp add: read_machine_state_def section_of_def get_def delete_conv')

lemma verified_state_read: "with_verified_machine_state p ms = Inr q \<Longrightarrow> read_machine_state q = Inr ms"
  by (auto simp: with_verified_machine_state_def Let_def bind_result_Inr split: if_splits)

lemma advance_with_Inr:
  assumes "advance_with ports run r binding posted s = (s', Inr ended)"
  obtains e ms commands payload where "ended = RecordPersisted r ms commands posted"
    and "pp_event_for ports
      \<lparr>re_kind = vr_kind r, re_binding = OpaqueBinding binding, re_ref = OpaqueRef (vr_comment_id r)\<rparr> r = Inr e"
    and "transition (rc_machine_state run) e = Inr (ms, commands)"
    and "save_checkpoint (fst s) payload = Inr (fst s')" and "snd s' = snd s"
    and "map_of payload ''transaction'' = None" and "read_machine_state payload = Inr ms"
proof -
  obtain e ms commands ledger p where parts: "event_of_record ports r binding s = (s, Inr e)"
    "transition (rc_machine_state run) e = Inr (ms, commands)" "with_verified_machine_state ledger ms = Inr p"
    "save (AList.delete ''transaction'' p) s = (s', Inr ())" "ended = RecordPersisted r ms commands posted"
    using assms by (auto simp: advance_with_def and_then_Inr event_of_record_Inr)
  show thesis
    by (rule that [OF parts(5) _ parts(2), of "AList.delete ''transaction'' p"])
      (use parts verified_state_read in \<open>auto simp: event_of_record_Inr save_Inr delete_conv' read_state_delete\<close>)
qed

lemma verify_and_advance_Inr:
  assumes "verify_and_advance ports run t run_id posted s = (s', Inr (RecordPersisted r ms commands posted'))"
  obtains w chain where "posted' = posted" and "pp_chain ports run_id (snd s) = (w, Inr chain)"
    and "integrity_gate run chain (fst s, w) = ((fst s, w), Inr None)"
    and "r \<in> set (cv_records chain)" and "vr_key r = pt_binding t" and "pt_body_hash t = Some (vr_body_hash r)"
    and "advance_with ports run r (pt_binding t) posted (fst s, w) = (s', Inr (RecordPersisted r ms commands posted))"
proof -
  obtain w chain s1 d where c: "pp_chain ports run_id (snd s) = (w, Inr chain)" "integrity_gate run chain (fst s, w) = (s1, Inr d)"
    "(case d of Some ended \<Rightarrow> done_with ended
      | None \<Rightarrow>
          (case find (\<lambda>r. vr_key r = pt_binding t) (cv_records chain) of
             None \<Rightarrow> stopped (EngineStopped ''record_unverified'')
           | Some r \<Rightarrow>
               if Some (vr_body_hash r) \<noteq> pt_body_hash t then stopped (EngineStopped ''record_body_mismatch'')
               else advance_with ports run r (pt_binding t) posted)) s1 = (s', Inr (RecordPersisted r ms commands posted'))"
    using assms by (auto simp: verify_and_advance_def and_then_Inr from_port_Inr)
  have d: "d = None"
  proof (cases d)
    case (Some x)
    then have "x = RecordPersisted r ms commands posted'" using c(3) by simp
    then show ?thesis using gate_not_persisted c(2) Some by blast
  qed simp
  then have s1: "s1 = (fst s, w)" using gate_passed c(2) by blast
  obtain r' where f: "find (\<lambda>r. vr_key r = pt_binding t) (cv_records chain) = Some r'" "pt_body_hash t = Some (vr_body_hash r')"
    and adv: "advance_with ports run r' (pt_binding t) posted (fst s, w) = (s', Inr (RecordPersisted r ms commands posted'))"
    using c(3) d s1 by (auto split: option.splits if_splits)
  then have "r' = r \<and> posted' = posted" by (auto elim: advance_with_Inr)
  moreover have "r' \<in> set (cv_records chain)" "vr_key r' = pt_binding t"
    using f(1) by (auto simp: find_Some_iff)
  ultimately show thesis using that [of w chain] c(1,2) d s1 f(2) adv by simp
qed

lemma post_record_within:
  assumes "counts_posts (po_context po) (po_policy po) n" and "post_record po body s = (s', Inr failure)"
  shows "fst s' = fst s \<and> n (snd s') \<le> n (snd s) + 2"
proof -
  obtain w r where e: "ensure_comment_posted (po_context po) (po_repo po) (po_number po) body (po_window po) (po_policy po) (snd s) = (w, r)"
    by fastforce
  then have "s' = (fst s, w)" using assms(2)
    by (auto simp: post_record_def and_then_Inr on_world_Inr split: sum.splits if_splits)
  moreover have "posts_of route \<le> 2" for route by (cases route) simp_all
  then have "n w \<le> n (snd s) + 2"
    using ensure_within [OF assms(1) e] by (auto split: sum.splits ensure_outcome.splits intro: order_trans)
  ultimately show ?thesis by simp
qed

lemma evaluated_body:
  assumes "evaluate_pending t run_id records = ended" and "\<And>e. ended \<noteq> PendingUnavailable e" and "pt_body_hash t = Some h"
  obtains previous body where "complete_body t run_id previous = Some body" and "h = body_hash_of body"
    and "ended \<noteq> PendingAbsent"
    and "record_at records (pt_seq t) = None \<longleftrightarrow> (\<exists>u b d. ended = PendingReissueRequired u b d)"
  using assms
  by (auto simp: evaluate_pending_def Let_def split: if_splits sum.splits option.splits)

lemma persist_pending_Inr:
  assumes n: "counts_posts (po_context po) (po_policy po) n"
    and p: "persist_pending ports po run t run_id chain s = (s', Inr (RecordPersisted r ms commands posted))"
  obtains w ended where "evaluate_pending t run_id (cv_records chain) = ended" and "\<And>e. ended \<noteq> PendingUnavailable e"
    and "verify_and_advance ports run t run_id posted (fst s, w) = (s', Inr (RecordPersisted r ms commands posted))"
    and "n w \<le> n (snd s) + (if posted then 2 else 0)"
    and "posted \<longleftrightarrow> (\<exists>u b d. ended = PendingReissueRequired u b d)"
proof (cases "evaluate_pending t run_id (cv_records chain)")
  case (PendingAlreadyPosted r')
  then have v: "verify_and_advance ports run t run_id False s = (s', Inr (RecordPersisted r ms commands posted))"
    using p by (simp add: persist_pending_def split: if_splits)
  moreover have "posted = False" using v by (rule verify_and_advance_Inr)
  ultimately show thesis using that [OF PendingAlreadyPosted, of "snd s"] by simp
next
  case (PendingReissueRequired u body digest)
  then obtain s1 where c: "post_record po body s = (s1, Inr None)"
    and v: "verify_and_advance ports run t run_id True s1 = (s', Inr (RecordPersisted r ms commands posted))"
    using p by (auto simp: persist_pending_def and_then_Inr split: if_splits option.splits)
  have "fst s1 = fst s \<and> n (snd s1) \<le> n (snd s) + 2" by (rule post_record_within [OF n c])
  moreover have "posted = True" using v by (rule verify_and_advance_Inr)
  ultimately show thesis using that [OF PendingReissueRequired, of "snd s1"] v by (simp add: prod_eq_iff) (metis prod.collapse)
qed (use p in \<open>auto simp: persist_pending_def split: if_splits\<close>)

lemma persist_Inr:
  assumes "persist py ports po run_id repository s = (s', Inr (RecordPersisted r ms commands posted))"
  obtains run t w before where "load_run py run_id repository (po_number po) s = (s, Inr run)"
    and "transaction_of run s = (s, Inr t)" and "pp_chain ports run_id (snd s) = (w, Inr before)"
    and "integrity_gate run before (fst s, w) = ((fst s, w), Inr None)"
    and "persist_pending ports po run t run_id before (fst s, w) = (s', Inr (RecordPersisted r ms commands posted))"
proof -
  obtain s1 s2 s3 w run t before d where c: "load_run py run_id repository (po_number po) s = (s1, Inr run)"
    "transaction_of run s1 = (s2, Inr t)" "pp_chain ports run_id (snd s2) = (w, Inr before)"
    "integrity_gate run before (fst s2, w) = (s3, Inr d)"
    "(case d of Some ended \<Rightarrow> done_with ended | None \<Rightarrow> persist_pending ports po run t run_id before) s3 =
       (s', Inr (RecordPersisted r ms commands posted))"
    using assms unfolding persist_def and_then_Inr from_port_Inr by auto
  have s: "s1 = s" "s2 = s" using c(1,2) load_run_Inr transaction_of_Inr by blast+
  have d: "d = None"
  proof (cases d)
    case (Some x)
    then have "x = RecordPersisted r ms commands posted" using c(5) by simp
    then show ?thesis using gate_not_persisted c(4) Some by blast
  qed simp
  then have "s3 = (fst s, w)" using gate_passed c(4) s by blast
  then show thesis using that [of run t w before] c d s by simp
qed

section \<open>A persisted record\<close>

text \<open>
  C36. When \<open>persist\<close> says that a record is persisted, it is: the record is in the chain that was verified after the posting,
  with the binding that the checkpoint kept, and its body has the hash of the text composed from what the
  checkpoint kept; every violation of that chain, and of the one before the posting, was known, and the record is then an integrity
  incident; the state machine accepted the event of this very record; and the checkpoint on the disk has the new state and no transaction any
  more. At most two commands that post were run, and none when the chain had a record with this number before,
  which is the case after an interruption between the posting and the saving.
\<close>

theorem persisted_record_verified:
  assumes n: "counts_posts (po_context po) (po_policy po) n" and quiet: "\<And>r w. n (fst (pp_chain ports r w)) = n w"
    and p: "persist py ports po run_id repository s = (s', Inr (RecordPersisted r ms commands posted))"
  shows "\<exists>run t before after w w' previous body recorded e payload.
    load_run py run_id repository (po_number po) s = (s, Inr run) \<and> read_transaction (rc_payload run) = Inr (Some t) \<and>
    pp_chain ports run_id (snd s) = (w, Inr before) \<and> pp_chain ports run_id w' = (snd s', Inr after) \<and>
    r \<in> set (cv_records after) \<and> vr_key r = pt_binding t \<and>
    complete_body t run_id previous = Some body \<and> vr_body_hash r = body_hash_of body \<and>
    read_recorded_violations (rc_payload run) = Inr recorded \<and>
    (\<forall>v \<in> set (cv_violations before @ cv_violations after). pt_kind t = K_INTEGRITY_INCIDENT \<and>
      (ie_binding v \<in> ie_binding ` set (ms_deferred_integrity (rc_machine_state run)) \<or>
       binding_value (ie_binding v) \<in> set recorded)) \<and>
    pp_event_for ports
      \<lparr>re_kind = vr_kind r, re_binding = OpaqueBinding (vr_key r), re_ref = OpaqueRef (vr_comment_id r)\<rparr> r = Inr e \<and>
    transition (rc_machine_state run) e = Inr (ms, commands) \<and>
    dk_file (fst s') = Some \<lparr>cf_bytes = dumps (JObj payload), cf_private = True\<rparr> \<and>
    map_of payload ''transaction'' = None \<and> read_machine_state payload = Inr ms \<and>
    (posted \<longleftrightarrow> record_at (cv_records before) (pt_seq t) = None) \<and>
    n (snd s') \<le> n (snd s) + (if posted then 2 else 0)"
proof -
  obtain run t w before where load: "load_run py run_id repository (po_number po) s = (s, Inr run)"
    and t: "transaction_of run s = (s, Inr t)" and before: "pp_chain ports run_id (snd s) = (w, Inr before)"
    and gate: "integrity_gate run before (fst s, w) = ((fst s, w), Inr None)"
    and pending: "persist_pending ports po run t run_id before (fst s, w) = (s', Inr (RecordPersisted r ms commands posted))"
    using p by (rule persist_Inr)
  note t' = transaction_of_Inr [OF t]
  obtain v ended where ended: "evaluate_pending t run_id (cv_records before) = ended" "\<And>e. ended \<noteq> PendingUnavailable e"
    and advance: "verify_and_advance ports run t run_id posted (fst s, v) = (s', Inr (RecordPersisted r ms commands posted))"
    and v: "n v \<le> n w + (if posted then 2 else 0)" "posted \<longleftrightarrow> (\<exists>u b d. ended = PendingReissueRequired u b d)"
    by (rule persist_pending_Inr [OF n pending]) simp
  obtain w2 after where after: "pp_chain ports run_id v = (w2, Inr after)" "integrity_gate run after (fst s, w2) = ((fst s, w2), Inr None)"
    and r: "r \<in> set (cv_records after)" "vr_key r = pt_binding t" "pt_body_hash t = Some (vr_body_hash r)"
    and step: "advance_with ports run r (pt_binding t) posted (fst s, w2) = (s', Inr (RecordPersisted r ms commands posted))"
    using advance by (rule verify_and_advance_Inr) auto
  obtain e payload where e: "pp_event_for ports
      \<lparr>re_kind = vr_kind r, re_binding = OpaqueBinding (pt_binding t), re_ref = OpaqueRef (vr_comment_id r)\<rparr> r = Inr e"
    "transition (rc_machine_state run) e = Inr (ms, commands)" "save_checkpoint (fst s) payload = Inr (fst s')" "snd s' = w2"
    "map_of payload ''transaction'' = None" "read_machine_state payload = Inr ms"
    using step by (rule advance_with_Inr) auto
  obtain previous body where body: "complete_body t run_id previous = Some body" "vr_body_hash r = body_hash_of body"
    "posted \<longleftrightarrow> record_at (cv_records before) (pt_seq t) = None"
    by (rule evaluated_body [OF ended r(3)]) (use v(2) in simp)
  have written: "dk_file (fst s') = Some \<lparr>cf_bytes = dumps (JObj payload), cf_private = True\<rparr>"
    by (rule saved_file [OF e(3)])
  obtain recorded where recorded: "read_recorded_violations (rc_payload run) = Inr recorded"
    "unknown_violations run (cv_violations before) recorded = []" "unknown_violations run (cv_violations after) recorded = []"
    using gate_passed [OF gate] gate_passed [OF after(2)] by auto
  have known: "\<forall>v \<in> set (cv_violations before @ cv_violations after). pt_kind t = K_INTEGRITY_INCIDENT \<and>
      (ie_binding v \<in> ie_binding ` set (ms_deferred_integrity (rc_machine_state run)) \<or>
       binding_value (ie_binding v) \<in> set recorded)"
    using no_unknown [OF recorded(2)] no_unknown [OF recorded(3)] t' by fastforce
  have "n (snd s') \<le> n (snd s) + (if posted then 2 else 0)"
    using v(1) quiet [of run_id "snd s"] quiet [of run_id v] before after(1) e(4) by simp
  then show ?thesis
    using load t' before after(1) r body recorded(1) known e written
    by (intro exI [of _ run] exI [of _ t] exI [of _ before] exI [of _ after] exI [of _ w] exI [of _ v] exI [of _ previous]
        exI [of _ body] exI [of _ recorded] exI [of _ e] exI [of _ payload]) simp
qed

section \<open>A concrete checkpoint\<close>

definition waiting_state :: machine_state where
  "waiting_state = MachineState S_RUNNING_REVIEW\<lparr>ms_pending_record :=
     Some \<lparr>pr_kind = K_PERMISSION_BLOCK, pr_binding = bn, pr_source_state = S_RUNNING_REVIEW\<rparr>\<rparr>"

definition blocked_state :: machine_state where
  "blocked_state = MachineState S_AWAITING_TOOL_PERMISSION\<lparr>ms_awaiting := Some A_USER_INPUT_PERMISSION,
     ms_return_to := Some S_RUNNING_REVIEW\<rparr>"

definition zeros :: string where "zeros = replicate 64 CHR ''0''"

definition waiting_transaction :: "string \<Rightarrow> pending_transaction" where
  "waiting_transaction h =
     \<lparr>pt_binding = ''b'', pt_kind = K_PERMISSION_BLOCK, pt_seq = 1, pt_head_sha = merge_head, pt_payload_hash = zeros,
      pt_body = ''x'', pt_projection = [(PAYLOAD_HASH_KEY, JStr zeros)], pt_body_hash = Some h, pt_audit_prev = None,
      pt_audit_prev_hash = None\<rparr>"

definition waiting_section :: "string \<Rightarrow> payload" where
  "waiting_section h =
     [(''binding'', JStr ''b''), (''body'', JStr ''x''), (''body_hash'', JStr h), (''head_sha'', JStr merge_head),
      (''kind'', JStr ''PERMISSION_BLOCK''), (''payload_hash'', JStr zeros),
      (''projection'', JObj [(PAYLOAD_HASH_KEY, JStr zeros)]), (''seq'', JInt 1)]"

definition bare_checkpoint :: payload where
  "bare_checkpoint =
     [(''number'', JInt 1), (''repository'', JStr ''r''), (''run_id'', JStr ''run1''), (''schema_version'', JInt 2)]"

text \<open>The checkpoint in the order of its keys, before and after the step.\<close>

definition waiting_checkpoint :: "string \<Rightarrow> payload" where
  "waiting_checkpoint h =
     AList.update ''transaction'' (JObj (waiting_section h)) (with_machine_state bare_checkpoint waiting_state)"

definition blocked_checkpoint :: payload where
  "blocked_checkpoint = with_machine_state bare_checkpoint blocked_state"

lemma waiting_ordered: "ordered_items (waiting_checkpoint h) =
   [(''number'', JInt 1), (''repository'', JStr ''r''), (''run_id'', JStr ''run1''), (''schema_version'', JInt 2),
    (''state'', JObj [(''pending_record'', JObj [(''binding'', JStr ''b''), (''kind'', JStr ''PERMISSION_BLOCK''),
       (''source_state'', JStr (state_value S_RUNNING_REVIEW))]), (''state'', JStr (state_value S_RUNNING_REVIEW))]),
    (''transaction'', JObj (waiting_section h))]"
  by code_simp

lemma waiting_read: "read_machine_state (ordered_items (waiting_checkpoint h)) = Inr waiting_state"
  unfolding waiting_ordered by code_simp

lemma blocked_written: "with_verified_machine_state (ordered_items (waiting_checkpoint h)) blocked_state =
   Inr (blocked_checkpoint @ [(''transaction'', JObj (waiting_section h))])"
  unfolding waiting_ordered by code_simp

lemma blocked_without: "AList.delete ''transaction'' (blocked_checkpoint @ [(''transaction'', JObj sec)]) = blocked_checkpoint"
  by code_simp

section \<open>The checkpoints are valid\<close>

lemma short_texts: "short ''b''" "short ''r''" "short ''run1''" "short merge_head" "short zeros"
  by code_simp+

lemma bare_typed: "has_fields checkpoint_fields_v2 bare_checkpoint"
proof -
  have "\<not> fl_required host_action_v2" by (simp add: host_action_v2_def required_optional)
  then show ?thesis using short_texts
    by (simp add: has_fields_def bare_checkpoint_def checkpoint_fields_v2_def envelope_fields_def SECTIONS_def
        sections_optional short_def field_defs has_type_simps)
qed

lemma blocked_typed: "has_fields checkpoint_fields_v2 blocked_checkpoint"
  unfolding blocked_checkpoint_def
  by (rule saved_typed [OF _ bare_typed]) (simp add: state_texts_def blocked_state_def MachineState_def violation_texts_def)

lemma waiting_section_typed:
  assumes "short h"
  shows "has_type transaction_section (JObj (waiting_section h))"
proof -
  have "code_points ''x'' = 1" "code_points merge_head = 40" by code_simp+
  then show ?thesis using assms short_texts
    by (simp add: waiting_section_def transaction_section_def field_defs has_type_simps RECORD_KIND_VALUES_def all_kinds_def
        MAX_PENDING_BODY_CHARS_def short_def projection_key_defs)
qed

lemma checkpoint_names: "distinct (map fst checkpoint_fields_v2)"
  by (simp add: checkpoint_fields_v2_def envelope_fields_def SECTIONS_def)

lemma section_typed:
  assumes "has_fields checkpoint_fields_v2 p" and "(n, f) \<in> set checkpoint_fields_v2" and "has_type f v"
  shows "has_fields checkpoint_fields_v2 (AList.update n v p)"
  using assms(1)
proof (rule has_fields_changed)
  show "has_type g v" if "(n, g) \<in> set checkpoint_fields_v2" for g
    using eq_key_imp_eq_value [OF checkpoint_names that assms(2)] assms(3) by simp
  show "n \<in> fst ` set checkpoint_fields_v2" using assms(2) by force
qed simp_all

lemma checkpoint_sections:
  "(''transaction'', transaction_section) \<in> set checkpoint_fields_v2"
  "(''processes'', processes_section) \<in> set checkpoint_fields_v2"
  "(''stop_request'', stop_request_section) \<in> set checkpoint_fields_v2"
  by (simp_all add: checkpoint_fields_v2_def envelope_fields_def SECTIONS_def)

lemma waiting_typed:
  assumes "short h"
  shows "has_fields checkpoint_fields_v2 (waiting_checkpoint h)"
proof -
  have "has_fields checkpoint_fields_v2 (with_machine_state bare_checkpoint waiting_state)"
    using short_texts(1)
    by (intro saved_typed [OF _ bare_typed]) (simp add: state_texts_def waiting_state_def MachineState_def violation_texts_def bn_def)
  then show ?thesis
    unfolding waiting_checkpoint_def
    by (rule section_typed [OF _ checkpoint_sections(1) waiting_section_typed [OF assms]])
qed

section \<open>The checkpoint is small and plain\<close>

lemma waiting_items: "waiting_checkpoint h =
   [(''number'', JInt 1), (''repository'', JStr ''r''), (''run_id'', JStr ''run1''), (''schema_version'', JInt 2),
    (''state'', JObj [(''state'', JStr (state_value S_RUNNING_REVIEW)),
       (''pending_record'', JObj [(''kind'', JStr ''PERMISSION_BLOCK''), (''binding'', JStr ''b''),
         (''source_state'', JStr (state_value S_RUNNING_REVIEW))])]),
    (''transaction'', JObj (waiting_section h))]"
  by code_simp

lemma plain_leaf: "plain_scalar v \<Longrightarrow> plain n v"
  by (cases n; cases v) (simp_all add: plain_scalar_def)

lemma plain_ascii: "list_all (\<lambda>c. c < CHR 0x80) s \<Longrightarrow> plain n (JStr s)"
  using utf8_ascii by (auto intro: plain_leaf simp: plain_scalar_def)

lemma waiting_checkpoint_plain:
  assumes "list_all (\<lambda>c. c < CHR 0x80) h"
  shows "plain MAX_JSON_DEPTH (JObj (waiting_checkpoint h))"
proof -
  have depth: "MAX_JSON_DEPTH = Suc (Suc (Suc 61))" by (simp add: MAX_JSON_DEPTH_def)
  have ints: "plain n (JInt 1)" "plain n (JInt 2)" for n by (rule plain_leaf, code_simp)+
  have texts: "plain n (JStr ''r'')" "plain n (JStr ''run1'')" "plain n (JStr ''b'')" "plain n (JStr ''x'')" "plain n (JStr zeros)"
    "plain n (JStr merge_head)" "plain n (JStr ''PERMISSION_BLOCK'')" "plain n (JStr (state_value S_RUNNING_REVIEW))" for n
    by (rule plain_ascii, code_simp)+
  have names: "list_all utf8_ok [''number'', ''repository'', ''run_id'', ''schema_version'', ''state'', ''transaction'', ''binding'',
    ''body'', ''body_hash'', ''head_sha'', ''kind'', ''payload_hash'', ''projection'', ''seq'', ''pending_record'', ''source_state'',
    PAYLOAD_HASH_KEY]"
    by code_simp
  have "plain (Suc (Suc (Suc n))) (JObj (waiting_checkpoint h))" for n
    using names plain_ascii [OF assms] texts ints by (simp add: waiting_items waiting_section_def)
  then show ?thesis unfolding depth .
qed

lemma waiting_small:
  assumes "length h = 64"
  shows "\<not> CHECKPOINT_MAX_INPUT_BYTES < length (dumps (JObj (waiting_checkpoint h)))"
proof -
  have "length (dumps (JStr h)) \<le> 386" using length_quoted [of h] assms by simp
  moreover have "length (dumps (JStr merge_head)) = 42" "length (dumps (JStr zeros)) = 66" "length (dumps (JInt 1)) = 1"
    "length (dumps (JStr ''b'')) = 3" "length (dumps (JStr ''x'')) = 3" "length (dumps (JStr ''PERMISSION_BLOCK'')) = 18"
    "length (dumps (JObj [(PAYLOAD_HASH_KEY, JStr zeros)])) = 74" "length (quoted ''binding'') = 9" "length (quoted ''body'') = 6"
    "length (quoted ''body_hash'') = 11" "length (quoted ''head_sha'') = 10" "length (quoted ''kind'') = 6"
    "length (quoted ''payload_hash'') = 14" "length (quoted ''projection'') = 12" "length (quoted ''seq'') = 5"
    by code_simp+
  ultimately have "length (dumps (JObj (waiting_section h))) \<le> 700"
    using length_object [of "waiting_section h"] by (simp add: waiting_section_def)
  moreover have "length (dumps (snd (waiting_checkpoint h ! 4))) \<le> 200" "length (dumps (JStr ''r'')) = 3"
    "length (dumps (JStr ''run1'')) = 6" "length (dumps (JInt 2)) = 1" "length (quoted ''number'') = 8"
    "length (quoted ''repository'') = 12" "length (quoted ''run_id'') = 8" "length (quoted ''schema_version'') = 16"
    "length (quoted ''state'') = 7" "length (quoted ''transaction'') = 13"
    unfolding waiting_items by code_simp+
  ultimately show ?thesis
    using length_object [of "waiting_checkpoint h"] \<open>length (dumps (JInt 1)) = 1\<close>
    by (simp add: waiting_items CHECKPOINT_MAX_INPUT_BYTES_def)
qed

section \<open>The run\<close>

definition waiting_body :: string where "waiting_body = the (complete_body (waiting_transaction []) ''run1'' None)"

definition waiting_hash :: string where "waiting_hash = body_hash_of waiting_body"

lemma waiting_complete: "complete_body (waiting_transaction h) ''run1'' None = Some waiting_body"
  by code_simp

definition posted_record :: verified_record where
  "posted_record =
     \<lparr>vr_seq = 1, vr_kind = K_PERMISSION_BLOCK, vr_key = ''b'', vr_comment_id = ''1'', vr_url = ''u'', vr_body = waiting_body,
      vr_body_hash = waiting_hash, vr_author_login = ''a'', vr_head_sha = merge_head, vr_created_at = ''t'',
      vr_projection = \<lparr>dp_payload_hash = zeros, dp_result = None, dp_round = None, dp_turn = None, dp_fingerprint = None,
        dp_subject_id = None, dp_target = None, dp_digest = None, dp_count = None\<rparr>\<rparr>"

definition posted_ports :: "int persist_ports" where
  "posted_ports =
     \<lparr>pp_chain = \<lambda>_ w. (w, Inr \<lparr>cv_records = [posted_record], cv_violations = [], cv_max_seq = 1, cv_assurance_high_water = 0\<rparr>),
      pp_event_for = \<lambda>evidence _. Inr (ToolPermissionBlocked evidence)\<rparr>"

definition lost_posting :: "int posting" where
  "lost_posting =
     \<lparr>po_context = lost_context, po_repo = sample_repo, po_number = 1, po_policy = still_policy, po_window = one_search\<rparr>"

lemma waiting_transaction_read:
  "read_transaction (ordered_items (waiting_checkpoint h)) = Inr (Some (waiting_transaction h))"
  unfolding waiting_ordered waiting_section_def by code_simp

lemma waiting_evaluated:
  "evaluate_pending (waiting_transaction waiting_hash) ''run1'' [posted_record] = PendingAlreadyPosted posted_record"
proof -
  have "record_at [posted_record] 1 = Some posted_record" by (simp add: record_at_def posted_record_def)
  moreover have "previous_hash (waiting_transaction waiting_hash) [posted_record] = Inr None"
    by (simp add: previous_hash_def waiting_transaction_def)
  moreover have "pt_seq (waiting_transaction waiting_hash) = 1" "pt_body_hash (waiting_transaction waiting_hash) = Some waiting_hash"
    "pt_binding (waiting_transaction waiting_hash) = ''b''" "vr_key posted_record = ''b''"
    "vr_body_hash posted_record = waiting_hash"
    by (simp_all add: waiting_transaction_def posted_record_def)
  ultimately show ?thesis
    using waiting_complete [of waiting_hash] by (simp add: evaluate_pending_def waiting_hash_def)
qed

lemma waiting_blocked:
  "transition waiting_state (ToolPermissionBlocked \<lparr>re_kind = K_PERMISSION_BLOCK, re_binding = OpaqueBinding ''b'', re_ref = OpaqueRef ''1''\<rparr>) =
     Inr (blocked_state, [])"
  by (simp add: waiting_state_def blocked_state_def event_eval run_eval)

lemma saved_valid:
  assumes "has_fields checkpoint_fields_v2 p" and "version_of p = Some 2" and "dk_writable d"
    and "\<And>f. dk_file d = Some f \<Longrightarrow> cf_private f"
  shows "save_checkpoint d p = Inr (d\<lparr>dk_file := Some \<lparr>cf_bytes = dumps (JObj p), cf_private = True\<rparr>\<rparr>)"
proof -
  have "spec_for_payload CHECKPOINT p = Some \<lparr>vs_fields = checkpoint_fields_v2, vs_rules = []\<rparr>"
    "valid_version \<lparr>vs_fields = checkpoint_fields_v2, vs_rules = []\<rparr> p"
    using assms(1,2) by (simp_all add: spec_for_payload_def checkpoint_versions valid_version_def)
  then have "validate_object CHECKPOINT p = Accepted p (Some 2)"
    using assms(2) by (simp add: validate_object_Accepted)
  then show ?thesis using assms(3,4) by (auto simp: save_checkpoint_def simp del: dumps.simps split: option.split)
qed

definition fresh_disk :: disk where "fresh_disk = \<lparr>dk_file = None, dk_writable = True\<rparr>"

definition disk_with :: "payload \<Rightarrow> disk" where
  "disk_with p = fresh_disk\<lparr>dk_file := Some \<lparr>cf_bytes = dumps (JObj p), cf_private = True\<rparr>\<rparr>"

lemma waiting_hash_form: "length waiting_hash = 64" "short waiting_hash" "list_all (\<lambda>c. c < CHR 0x80) waiting_hash"
proof -
  have hex: "is_hex 64 waiting_hash" unfolding waiting_hash_def body_hash_of_def by (rule sha256_form)
  then show l: "length waiting_hash = 64" by (simp add: is_hex_def)
  have "waiting_hash \<noteq> []" using l by auto
  then show "short waiting_hash" using l code_points_le [of waiting_hash] by (simp add: short_def)
  have "CHR ''9'' < CHR 0x80" "CHR ''f'' < CHR 0x80" by code_simp+
  then have "c < CHR 0x80" if "hex_digit c" for c
    using that by (auto simp: hex_digit_def digit_def intro: le_less_trans)
  then show "list_all (\<lambda>c. c < CHR 0x80) waiting_hash" using hex by (auto simp: is_hex_def list_all_iff)
qed

lemma plain_distinct: "plain d (JObj p) \<Longrightarrow> 0 < d \<Longrightarrow> distinct (map fst p)"
  by (cases d) simp_all

lemma saved_run_loads:
  assumes typed: "has_fields checkpoint_fields_v2 p" "version_of p = Some 2"
    and plain: "plain MAX_JSON_DEPTH (JObj p)" and small: "\<not> CHECKPOINT_MAX_INPUT_BYTES < length (dumps (JObj p))"
    and run: "run_id_form run_id" "map_of p ''run_id'' = Some (JStr run_id)" "map_of p ''repository'' = Some (JStr repository)"
      "map_of p ''number'' = Some (JInt number)" "read_machine_state (ordered_items p) = Inr ms"
  shows "load_run example_interpreter run_id repository number (disk_with p, w) =
     ((disk_with p, w), Inr \<lparr>rc_payload = ordered_items p, rc_machine_state = ms\<rparr>)"
proof -
  have "save_checkpoint fresh_disk p = Inr (disk_with p)"
    using saved_valid [OF typed, of fresh_disk] by (simp add: fresh_disk_def disk_with_def del: dumps.simps)
  moreover have "MAX_JSON_DEPTH \<le> recursion_budget example_interpreter"
    by (simp add: MAX_JSON_DEPTH_def example_interpreter_def)
  ultimately have "load_checkpoint example_interpreter (disk_with p) = CheckpointLoaded (ordered_items p) 2"
    by (rule saved_loads [OF _ typed(2) plain _ small])
  moreover have "distinct (map fst p)" using plain_distinct [OF plain] by (simp add: MAX_JSON_DEPTH_def)
  ultimately show ?thesis unfolding load_run_Inr using run by (simp add: ordered_lookup)
qed

lemma waiting_loaded:
  "load_run example_interpreter ''run1'' ''r'' 1 (disk_with (waiting_checkpoint waiting_hash), w) =
     ((disk_with (waiting_checkpoint waiting_hash), w),
      Inr \<lparr>rc_payload = ordered_items (waiting_checkpoint waiting_hash), rc_machine_state = waiting_state\<rparr>)"
proof (rule saved_run_loads [OF waiting_typed [OF waiting_hash_form(2)] _ waiting_checkpoint_plain [OF waiting_hash_form(3)]
      waiting_small [OF waiting_hash_form(1)] _ _ _ _ waiting_read])
  show "run_id_form ''run1''" by code_simp
qed (simp_all add: waiting_ordered version_of_def waiting_items)

lemma waiting_persisted:
  "persist example_interpreter posted_ports lost_posting ''run1'' ''r'' (disk_with (waiting_checkpoint waiting_hash), 0) =
     ((disk_with blocked_checkpoint, 0), Inr (RecordPersisted posted_record blocked_state [] False))"
proof -
  let ?run = "\<lparr>rc_payload = ordered_items (waiting_checkpoint waiting_hash), rc_machine_state = waiting_state\<rparr>"
  let ?s = "(disk_with (waiting_checkpoint waiting_hash), 0 :: int)"
  let ?chain = "\<lparr>cv_records = [posted_record], cv_violations = [], cv_max_seq = 1, cv_assurance_high_water = 0\<rparr>"
  have t: "transaction_of ?run s = (s, Inr (waiting_transaction waiting_hash))" for s :: "int system"
  proof -
    have "ms_pending_record waiting_state = Some \<lparr>pr_kind = K_PERMISSION_BLOCK, pr_binding = bn, pr_source_state = S_RUNNING_REVIEW\<rparr>"
      by (simp add: waiting_state_def MachineState_def)
    then show ?thesis
      by (simp add: transaction_of_def and_then_def or_stop_def done_with_def waiting_transaction_read)
        (simp add: waiting_transaction_def bn_def done_with_def)
  qed
  have ledger: "read_recorded_violations (ordered_items (waiting_checkpoint waiting_hash)) = Inr []"
    by (simp add: waiting_ordered read_recorded_violations_def section_of_def get_def)
  then have gate: "integrity_gate ?run ?chain s = (s, Inr None)" for s :: "int system"
    by (simp add: integrity_gate_def and_then_def or_stop_def done_with_def unknown_violations_def split: option.split)
  have chain: "from_port (pp_chain posted_ports r) s = (s, Inr ?chain)" for r and s :: "int system"
    by (simp add: from_port_Inr posted_ports_def)
  have "save_checkpoint (disk_with p) blocked_checkpoint = Inr (disk_with blocked_checkpoint)" for p
    using saved_valid [OF blocked_typed, of "disk_with p"]
    by (simp add: disk_with_def fresh_disk_def version_of_def blocked_checkpoint_def bare_checkpoint_def with_machine_state_def del: dumps.simps)
  then have advance: "advance_with posted_ports ?run posted_record ''b'' False ?s =
      ((disk_with blocked_checkpoint, 0), Inr (RecordPersisted posted_record blocked_state [] False))"
    using waiting_blocked blocked_written [of waiting_hash] blocked_without
    by (simp add: advance_with_def and_then_def event_of_record_def posted_ports_def posted_record_def caught_as_def done_with_def
        or_stop_def with_recorded_def save_def)
  have "verify_and_advance posted_ports ?run (waiting_transaction waiting_hash) ''run1'' False ?s =
      ((disk_with blocked_checkpoint, 0), Inr (RecordPersisted posted_record blocked_state [] False))"
    using advance
    by (simp add: verify_and_advance_def and_then_def chain gate)
      (simp add: waiting_transaction_def posted_record_def)
  moreover have "\<not> sequence_occupied (waiting_transaction waiting_hash) ?chain"
    by (simp add: sequence_occupied_def waiting_transaction_def)
  ultimately show ?thesis
    using waiting_loaded [of "0 :: int"] waiting_evaluated
    by (simp add: persist_def and_then_def lost_posting_def t chain gate persist_pending_def)
qed

theorem persisted_record_verified_witness:
  "\<exists>d payload. persist example_interpreter posted_ports lost_posting ''run1'' ''r'' (disk_with (waiting_checkpoint waiting_hash), 0) =
       ((d, 0), Inr (RecordPersisted posted_record blocked_state [] False)) \<and>
     dk_file d = Some \<lparr>cf_bytes = dumps (JObj payload), cf_private = True\<rparr> \<and> map_of payload ''transaction'' = None \<and>
     read_machine_state payload = Inr blocked_state"
proof -
  have "counts_posts (po_context lost_posting) (po_policy lost_posting) (\<lambda>n. n)"
    by (simp add: counts_posts_def lost_posting_def lost_context_def still_policy_def)
  moreover have "fst (pp_chain posted_ports r w) = w" for r w by (simp add: posted_ports_def)
  ultimately show ?thesis
    using persisted_record_verified [OF _ _ waiting_persisted, where n = "\<lambda>n. n"] waiting_persisted
    by (simp del: dumps.simps) blast
qed

end
