(* ===== verification/Halting_Properties.thy ===== *)
theory Halting_Properties
  imports Halting Persistence_Properties Machine_Protocols
begin

text \<open>
  What is known about the process trees and the checkpoint after a halt and after an emergency stop (\<open>workflow/halt.py\<close>,
  \<open>workflow/emergency.py\<close>), and two instances: a cancellation whose process tree is stopped, and an emergency stop of a run that
  is merging. The world of the instances is the number of trees that were stopped.
\<close>

section \<open>The state machine\<close>

lemma completion_accepted:
  assumes inv: "machine_inv ms" and e: "completion_event_for (ms_procedure ms) = Some e"
  obtains ms' cs where "transition ms e = Inr (ms', cs)" "completion_event_for (ms_procedure ms') = None"
proof (cases "ms_procedure ms")
  case (CancellingProcedure c)
  then have e': "e = CancellationCompleted (Some c) None" using e by (simp add: completion_event_for_def)
  have "\<exists>ms' cs. transition ms e = Inr (ms', cs) \<and> completion_event_for (ms_procedure ms') = None"
    unfolding e' cancel_completion [OF inv CancellingProcedure]
    by (cases "ms_deferred_integrity ms = []") (simp_all add: completion_event_for_def MachineState_def)
  then show thesis using that by blast
next
  case (HaltingForBlockProcedure b a)
  then have e': "e = BlockHaltCompleted a" using e by (simp add: completion_event_for_def)
  have s: "ms_state ms \<in> ACTIVE_STATES" "ms_state ms \<noteq> S_MERGING"
    using constructible_checks(7) [OF machine_inv_constructible [OF inv]] HaltingForBlockProcedure by auto
  have "rule_matches rule_B_HC ms e"
    using HaltingForBlockProcedure s by (simp add: e' match_eval rule_B_HC_def binding_match_of_def del: in_ACTIVE)
  then obtain ms' cs where st: "transition ms e = Inr (ms', cs)" "rule_effect rule_B_HC ms e = Inr (ms', cs)"
    by (rule rule_step [rotated 3]) (simp_all add: e' rules_for_simps inv verified_event_check_def)
  then have "completion_event_for (ms_procedure ms') = None" using HaltingForBlockProcedure
    by (auto simp: rule_B_HC_def halt_completed_effect_def returning_Inr MachineState_def completion_event_for_def)
  then show thesis using that st(1) by blast
qed (use e in \<open>simp_all add: completion_event_for_def\<close>)

text \<open>A failure while a halt is asked for asks for it again.\<close>

lemma failure_reissues:
  assumes "machine_inv ms" and "completion_event_for (ms_procedure ms) = Some e"
  shows "\<exists>b. transition ms RunFailed = Inr (ms, [HaltRun b])"
  using failure_repeats_request [OF assms(1)] assms(2)
  by (cases "ms_procedure ms") (simp_all add: completion_event_for_def procedure_request_def)

section \<open>The ledger\<close>

definition storable :: "tree_ref \<Rightarrow> bool" where
  "storable ref = (case ref of JobObjectRef pid job \<Rightarrow> 1 \<le> pid \<and> job \<noteq> [] | ProcessGroupRef pid pgid \<Rightarrow> 1 \<le> pid \<and> 1 \<le> pgid)"

lemma positive_int_Some: "positive_int v = Some i \<longleftrightarrow> v = Some (JInt i) \<and> 1 \<le> i"
  by (cases v; cases "the v") auto

lemma tree_ref_storable: "tree_ref_of v = Inr ref \<Longrightarrow> storable ref"
  by (cases v) (auto simp: tree_ref_of_def storable_def bind_result_Inr positive_int_Some required_text_def text_of_def
      split: option.splits if_splits json.splits)

lemma tree_kinds: "JOB_OBJECT_TREE \<noteq> PROCESS_GROUP_TREE" "JOB_OBJECT_TREE \<noteq> []" "PROCESS_GROUP_TREE \<noteq> []"
  by (simp_all add: JOB_OBJECT_TREE_def PROCESS_GROUP_TREE_def)

lemma tree_entry_read: "storable ref \<Longrightarrow> tree_ref_of (tree_entry ref) = Inr ref"
  using tree_kinds
  by (cases ref) (auto simp: tree_ref_of_def storable_def required_text_def text_of_def)

lemma map_result_Inr: "map_result f xs = Inr ys \<longleftrightarrow> list_all2 (\<lambda>x y. f x = Inr y) xs ys"
  by (induction f xs arbitrary: ys rule: map_result.induct) (auto simp: bind_result_Inr list_all2_Cons1)

lemma ledger_entries:
  assumes "read_active_trees p = Inr refs"
  shows "\<forall>ref \<in> set refs. tree_ref_of (tree_entry ref) = Inr ref"
proof -
  obtain part where part: "section_of p ''processes'' = Inr part"
    using assms by (auto simp: read_active_trees_def bind_result_Inr)
  have "refs = [] \<or> (\<exists>entries. map_result tree_ref_of entries = Inr refs)"
  proof (cases part)
    case (Some items)
    then show ?thesis using assms part
      by (cases "get items ''trees''"; cases "the (get items ''trees'')")
        (auto simp: read_active_trees_def)
  qed (use assms part in \<open>simp add: read_active_trees_def\<close>)
  then have "storable ref" if "ref \<in> set refs" for ref
    using that by (auto simp: map_result_Inr list_all2_conv_all_nth in_set_conv_nth) (metis tree_ref_storable)
  then show ?thesis by (simp add: tree_entry_read)
qed

lemma ledger_written:
  assumes "\<forall>ref \<in> set refs. tree_ref_of (tree_entry ref) = Inr ref"
  shows "read_active_trees (with_active_trees p refs) = Inr refs"
proof (cases refs)
  case Nil
  then show ?thesis by (simp add: read_active_trees_def with_active_trees_def section_of_def get_def delete_conv')
next
  case (Cons r rs)
  have "map_result tree_ref_of (map tree_entry refs) = Inr refs"
    using assms by (auto simp: map_result_Inr list_all2_conv_all_nth)
  then show ?thesis using Cons
    by (simp add: read_active_trees_def with_active_trees_def section_of_def get_def update_conv')
qed

section \<open>The trees\<close>

text \<open>
  What \<open>stop_tree_by_ref\<close> promises: a call never adds a running tree, and when it returns, its tree does not run. The running
  trees are a function of the world.
\<close>

definition stops_trees :: "('w, 'r) stop_port \<Rightarrow> ('w \<Rightarrow> tree_ref set) \<Rightarrow> bool" where
  "stops_trees port alive \<longleftrightarrow>
     (\<forall>ref grace w w' answer. port ref grace w = (w', answer) \<longrightarrow>
        alive w' \<subseteq> alive w \<and> (\<forall>r. answer = TreeEnded r \<longrightarrow> ref \<notin> alive w'))"

lemma stop_one_stops:
  assumes port: "stops_trees port alive" and s: "stop_one port ref grace escalation w = (w', answer)"
  shows "alive w' \<subseteq> alive w \<and> (\<forall>r. answer = TreeEnded r \<longrightarrow> ref \<notin> alive w')"
proof -
  obtain v a where v: "port ref (if force_requested escalation w then FORCE_GRACE_SECONDS else grace) w = (v, a)"
    by fastforce
  note first = port [unfolded stops_trees_def, rule_format, OF v]
  show ?thesis
  proof (cases "a = StopInterrupted \<and> force_requested escalation v")
    case True
    then have "port ref FORCE_GRACE_SECONDS v = (w', answer)" using s v by (simp add: stop_one_def)
    from port [unfolded stops_trees_def, rule_format, OF this] show ?thesis using first by blast
  next
    case False
    then have "w' = v \<and> answer = a" using s v by (cases a) (auto simp: stop_one_def)
    then show ?thesis using first by simp
  qed
qed

lemma stop_trees_from_stops:
  assumes port: "stops_trees port alive" and s: "stop_trees_from port grace escalation results refs s = (s', r)"
  shows "fst s' = fst s \<and> alive (snd s') \<subseteq> alive (snd s) \<and>
    (\<forall>out. r = Inr (TreesStopped out) \<longrightarrow> alive (snd s') \<inter> set refs = {} \<and> length out = length results + length refs) \<and>
    (\<forall>rest. r = Inr (TreeStopFailed rest) \<longrightarrow>
       rest \<noteq> [] \<and> set rest \<subseteq> set refs \<and> alive (snd s') \<inter> set refs \<subseteq> set rest) \<and>
    (\<forall>e. r = Inl e \<longrightarrow> e = InterruptRaised)"
  using s
proof (induction refs arbitrary: results s)
  case Nil
  then show ?case by auto
next
  case (Cons ref refs)
  obtain w a where o: "stop_one port ref grace escalation (snd s) = (w, a)" by fastforce
  note one = stop_one_stops [OF port o]
  show ?case
  proof (cases a)
    case (TreeEnded x)
    then have "stop_trees_from port grace escalation (results @ [x]) refs (fst s, w) = (s', r)"
      using Cons.prems o by (simp add: and_then_def on_world_def)
    from Cons.IH [OF this] one TreeEnded show ?thesis by auto
  next
    case StopProcessError
    then show ?thesis using Cons.prems o one by (auto simp: and_then_def on_world_def)
  next
    case StopInterrupted
    then show ?thesis using Cons.prems o one by (auto simp: and_then_def on_world_def)
  qed
qed

lemmas stop_trees_stops = stop_trees_from_stops [where results = "[]", folded stop_trees_def]

section \<open>Halting\<close>

lemma save_stopped_cases:
  assumes "save_stopped run ms refs s = (s', r)"
  shows "(\<exists>e. r = Inl e \<and> e \<noteq> EngineStopped ''illegal_event'') \<and> s' = s \<or>
    (\<exists>q payload. r = Inr () \<and> with_verified_machine_state (rc_payload run) ms = Inr q \<and> payload = with_active_trees q refs \<and>
       save_checkpoint (fst s) payload = Inr (fst s') \<and> snd s' = snd s)"
  using assms by (auto simp: save_stopped_def and_then_def or_stop_def save_def done_with_def stopped_def split: sum.splits)

lemma saved_ledger:
  assumes "with_verified_machine_state p ms = Inr q" and "\<forall>ref \<in> set refs. tree_ref_of (tree_entry ref) = Inr ref"
  shows "read_machine_state (with_active_trees q refs) = Inr ms" and "read_active_trees (with_active_trees q refs) = Inr refs"
proof -
  have "read_machine_state q = Inr ms"
    using assms(1) by (auto simp: with_verified_machine_state_def Let_def bind_result_Inr split: if_splits)
  then show "read_machine_state (with_active_trees q refs) = Inr ms"
    by (simp add: with_active_trees_def read_machine_state_def section_of_def get_def delete_conv' update_conv')
  show "read_active_trees (with_active_trees q refs) = Inr refs" by (rule ledger_written [OF assms(2)])
qed

text \<open>
  C37. A halt is complete only when every tree of the ledger has ended. Whatever happens to the step (a tree that cannot be
  stopped, an interrupt, a failure to write), the checkpoint on the disk is the one from before, or it lists every tree of the ledger
  that may still run; and it says that the procedure is done only when no tree of the ledger runs. The state machine never refuses
  the events of a halt; after a failure the state is the same and the halt is asked for again.
\<close>

theorem halt_stops_before_saving:
  assumes port: "stops_trees port alive"
    and load: "load_run py run_id repository number s = (s, Inr run)" and reach: "reachable (rc_machine_state run)"
    and refs: "read_active_trees (rc_payload run) = Inr refs"
    and halt: "halt py port grace escalation run_id repository number s = (s', r)"
  shows "r \<noteq> Inl (EngineStopped ''illegal_event'') \<and> alive (snd s') \<subseteq> alive (snd s) \<and>
    (case r of
       Inl _ \<Rightarrow> fst s' = fst s
     | Inr ended \<Rightarrow>
         (\<exists>payload ms remaining. dk_file (fst s') = Some \<lparr>cf_bytes = dumps (JObj payload), cf_private = True\<rparr> \<and>
            read_machine_state payload = Inr ms \<and> read_active_trees payload = Inr remaining \<and>
            set remaining \<subseteq> set refs \<and> alive (snd s') \<inter> set refs \<subseteq> set remaining \<and>
            (case ended of
               HaltCompleted ms' commands results \<Rightarrow>
                 ms' = ms \<and> remaining = [] \<and> length results = length refs \<and>
                 completion_event_for (ms_procedure (rc_machine_state run)) \<noteq> None \<and>
                 completion_event_for (ms_procedure ms) = None
             | HaltFailed ms' commands \<Rightarrow>
                 ms' = ms \<and> ms = rc_machine_state run \<and> remaining \<noteq> [] \<and> (\<exists>b. commands = [HaltRun b]))))"
proof -
  let ?ms = "rc_machine_state run"
  note inv = reachable_inv [OF reach]
  have run: "halt_run port grace escalation run s = (s', r)" using halt load by (simp add: halt_def and_then_def)
  show ?thesis
  proof (cases "completion_event_for (ms_procedure ?ms)")
    case None
    then have "s' = s \<and> r = Inl (EngineStopped ''no_halt_procedure'')" using run by (simp add: halt_run_def)
    then show ?thesis by simp
  next
    case (Some e)
    obtain ms cs where step: "transition ?ms e = Inr (ms, cs)" "completion_event_for (ms_procedure ms) = None"
      by (rule completion_accepted [OF inv Some])
    obtain b where fail: "transition ?ms RunFailed = Inr (?ms, [HaltRun b])" using failure_reissues [OF inv Some] by blast
    obtain s1 o1 where st: "stop_trees port grace escalation refs s = (s1, o1)" by fastforce
    note stops = stop_trees_stops [OF port st]
    have rest: "(case o1 of
        Inl e \<Rightarrow> (s1, Inl e)
      | Inr (TreeStopFailed remaining) \<Rightarrow>
          and_then (save_stopped run ?ms remaining) (\<lambda>_. done_with (HaltFailed ?ms [HaltRun b])) s1
      | Inr (TreesStopped results) \<Rightarrow>
          and_then (save_stopped run ms []) (\<lambda>_. done_with (HaltCompleted ms cs results)) s1) = (s', r)"
      using run Some step(1) fail refs st
      by (cases o1; cases "projr o1")
        (simp_all add: halt_run_def and_then_def accepted_def caught_as_def or_stop_def done_with_def)
    note entries = ledger_entries [OF refs]
    show ?thesis
    proof (cases o1)
      case (Inl e')
      then have "s' = s1 \<and> r = Inl e'" using rest by simp
      then show ?thesis using stops Inl by simp
    next
      case (Inr out)
      show ?thesis
      proof (cases out)
        case (TreesStopped results)
        obtain s2 u where sv: "save_stopped run ms [] s1 = (s2, u)" by fastforce
        then have r': "(s', r) = (case u of Inl e' \<Rightarrow> (s2, Inl e') | Inr _ \<Rightarrow> (s2, Inr (HaltCompleted ms cs results)))"
          using rest Inr TreesStopped by (auto simp: and_then_def done_with_def split: sum.splits)
        from save_stopped_cases [OF sv] show ?thesis
        proof (elim disjE conjE exE)
          fix q payload
          assume w: "u = Inr ()" "with_verified_machine_state (rc_payload run) ms = Inr q" "payload = with_active_trees q []"
            "save_checkpoint (fst s1) payload = Inr (fst s2)" "snd s2 = snd s1"
          have "alive (snd s1) \<inter> set refs = {}" "length results = length refs" using stops Inr TreesStopped by auto
          then show ?thesis
            using r' w saved_file [OF w(4)] saved_ledger [OF w(2), of "[]"] stops Some step(2) by auto
        qed (use r' stops in auto)
      next
        case (TreeStopFailed remaining)
        obtain s2 u where sv: "save_stopped run ?ms remaining s1 = (s2, u)" by fastforce
        then have r': "(s', r) = (case u of Inl e' \<Rightarrow> (s2, Inl e') | Inr _ \<Rightarrow> (s2, Inr (HaltFailed ?ms [HaltRun b])))"
          using rest Inr TreeStopFailed by (auto simp: and_then_def done_with_def split: sum.splits)
        have some: "remaining \<noteq> []" "set remaining \<subseteq> set refs" "alive (snd s1) \<inter> set refs \<subseteq> set remaining"
          using stops Inr TreeStopFailed by auto
        from save_stopped_cases [OF sv] show ?thesis
        proof (elim disjE conjE exE)
          fix q payload
          assume w: "u = Inr ()" "with_verified_machine_state (rc_payload run) ?ms = Inr q"
            "payload = with_active_trees q remaining" "save_checkpoint (fst s1) payload = Inr (fst s2)" "snd s2 = snd s1"
          have "\<forall>ref \<in> set remaining. tree_ref_of (tree_entry ref) = Inr ref" using entries some(2) by blast
          then show ?thesis
            using r' w saved_file [OF w(4)] saved_ledger [OF w(2), of remaining] stops some by auto
        qed (use r' stops in auto)
      qed
    qed
  qed
qed

section \<open>The emergency stop\<close>

lemma emergency_refused:
  assumes "ms_state ms = S_MERGING"
  shows "transition ms (CancellationCompleted None (Some ev)) = Inl (rejected ms (CancellationCompleted None (Some ev)) NoMatchingRule)"
  using assms
  by (simp add: transition_def select_rule_def rules_for_simps match_eval rule_C_03_def rule_C_04_def rule_C_05_def)

lemma emergency_accepted:
  assumes inv: "machine_inv ms" and n: "ms_procedure ms = NormalProcedure" and nt: "ms_state ms \<notin> TERMINAL_STATES"
    and m: "ms_state ms \<noteq> S_MERGING"
  shows "transition ms (CancellationCompleted None (Some ev)) = Inr (MachineState S_CANCELLED, [])"
proof -
  let ?e = "CancellationCompleted None (Some ev)"
  have d: "ms_deferred_integrity ms = []" using frame_deferred [OF machine_inv_constructible [OF inv] n m] .
  have "rule_matches rule_C_05 ms ?e"
    using n nt m d by (simp add: match_eval rule_C_05_def binding_match_of_def)
  then obtain ms' cs where "transition ms ?e = Inr (ms', cs)" "rule_effect rule_C_05 ms ?e = Inr (ms', cs)"
    by (rule rule_step [rotated 3]) (simp_all add: rules_for_simps inv)
  then show ?thesis by (auto simp: rule_C_05_def bare_cancelled_effect_def returning_Inr)
qed

lemma emergency_completion_cases:
  assumes inv: "machine_inv (rc_machine_state run)"
  shows "emergency_completion run request s =
    (if ms_state (rc_machine_state run) \<in> TERMINAL_STATES \<or> ms_procedure (rc_machine_state run) \<noteq> NormalProcedure
     then (s, Inr None)
     else if ms_state (rc_machine_state run) = S_MERGING then (s, Inl (EngineStopped ''illegal_event''))
     else (s, Inr (Some (MachineState S_CANCELLED, []))))"
  using emergency_refused [of "rc_machine_state run"] emergency_accepted [OF inv]
  by (simp add: emergency_completion_def accepted_def and_then_def caught_as_def caught_def rejected_def done_with_def stopped_def)

text \<open>
  C38. An emergency stop either ends every tree of the ledger, and only then removes the request and saves; or it leaves the
  checkpoint, with the request, as it was. It cancels the run, unless the run has ended or a procedure of its own is in
  progress. Only in the state \<open>MERGING\<close> with no procedure in progress it does nothing at all: no rule of the state machine accepts
  the completion there, so the step stops before the first tree with \<open>illegal_event\<close>, and the request stays in the
  checkpoint; a merging run that records an incident has its trees stopped like any other.
\<close>

theorem emergency_stop_outcomes:
  assumes port: "stops_trees port alive"
    and load: "load_run py run_id repository number s = (s, Inr run)" and reach: "reachable (rc_machine_state run)"
    and request: "read_stop_request (rc_payload run) = Inr (Some request)"
    and refs: "read_active_trees (rc_payload run) = Inr refs"
    and stop: "emergency_stop py port grace escalation run_id repository number s = (s', r)"
  shows "(r = Inl (EngineStopped ''illegal_event'') \<longleftrightarrow>
      ms_state (rc_machine_state run) = S_MERGING \<and> ms_procedure (rc_machine_state run) = NormalProcedure) \<and>
    (r = Inl (EngineStopped ''illegal_event'') \<longrightarrow> s' = s) \<and> alive (snd s') \<subseteq> alive (snd s) \<and>
    (case r of
       Inr (EmergencyStopCompleted ms commands results cancelled) \<Rightarrow>
         alive (snd s') \<inter> set refs = {} \<and> length results = length refs \<and> commands = [] \<and>
         ms = (if cancelled then MachineState S_CANCELLED else rc_machine_state run) \<and>
         (cancelled \<longleftrightarrow> ms_state (rc_machine_state run) \<notin> TERMINAL_STATES \<and>
            ms_procedure (rc_machine_state run) = NormalProcedure) \<and>
         (\<exists>payload. dk_file (fst s') = Some \<lparr>cf_bytes = dumps (JObj payload), cf_private = True\<rparr> \<and>
            read_machine_state payload = Inr ms \<and> read_active_trees payload = Inr [] \<and>
            read_stop_request payload = Inr None)
     | _ \<Rightarrow> fst s' = fst s)"
proof -
  let ?ms = "rc_machine_state run"
  note inv = reachable_inv [OF reach]
  have run: "emergency_stop_run port grace escalation run s = (s', r)" using stop load by (simp add: emergency_stop_def and_then_def)
  show ?thesis
  proof (cases "ms_state ?ms = S_MERGING \<and> ms_procedure ?ms = NormalProcedure")
    case True
    then have "s' = s \<and> r = Inl (EngineStopped ''illegal_event'')"
      using run request by (simp add: emergency_stop_run_def and_then_def or_stop_def done_with_def emergency_completion_cases [OF inv])
    then show ?thesis using True by simp
  next
    case False
    let ?quiet = "ms_state ?ms \<in> TERMINAL_STATES \<or> ms_procedure ?ms \<noteq> NormalProcedure"
    let ?new = "if ?quiet then ?ms else MachineState S_CANCELLED"
    obtain s1 o1 where st: "stop_trees port grace escalation refs s = (s1, o1)" by fastforce
    note stops = stop_trees_stops [OF port st]
    have completion: "emergency_completion run request s = (s, Inr (if ?quiet then None else Some (MachineState S_CANCELLED, [])))"
      using False by (simp add: emergency_completion_cases [OF inv])
    have rest: "(case o1 of
        Inl e \<Rightarrow> (s1, Inl e)
      | Inr (TreeStopFailed _) \<Rightarrow> (s1, Inr EmergencyStopFailed)
      | Inr (TreesStopped results) \<Rightarrow>
          and_then (or_stop ''state_not_persistable'' (with_verified_machine_state (rc_payload run) ?new)) (\<lambda>payload.
          and_then (save (with_stop_request (with_active_trees payload []) None)) (\<lambda>_.
            done_with (EmergencyStopCompleted ?new [] results (\<not> ?quiet)))) s1) = (s', r)"
      using run request refs st completion
      by (cases o1; cases "projr o1"; cases ?quiet)
        (simp_all add: emergency_stop_run_def and_then_def or_stop_def done_with_def del: in_TERMINAL)
    show ?thesis
    proof (cases o1)
      case (Inl e)
      then show ?thesis using rest stops False by auto
    next
      case (Inr out)
      show ?thesis
      proof (cases out)
        case (TreeStopFailed remaining)
        then show ?thesis using rest Inr stops False by auto
      next
        case (TreesStopped results)
        have ended: "alive (snd s1) \<inter> set refs = {}" "length results = length refs" using stops Inr TreesStopped by auto
        show ?thesis
        proof (cases "with_verified_machine_state (rc_payload run) ?new")
          case (Inl e)
          then have "s' = s1 \<and> r = Inl (EngineStopped ''state_not_persistable'')"
            using rest Inr TreesStopped by (simp add: and_then_def or_stop_def stopped_def)
          then show ?thesis using stops False by auto
        next
          case (Inr q)
          let ?payload = "with_stop_request (with_active_trees q []) None"
          have w: "(s', r) = (case save_checkpoint (fst s1) ?payload of
              Inl e \<Rightarrow> (s1, Inl (StoreRaised e))
            | Inr d \<Rightarrow> ((d, snd s1), Inr (EmergencyStopCompleted ?new [] results (\<not> ?quiet))))"
            using rest \<open>o1 = Inr out\<close> TreesStopped Inr
            by (auto simp: and_then_def or_stop_def done_with_def save_def split: sum.splits)
          have "read_machine_state q = Inr ?new"
            using Inr by (auto simp: with_verified_machine_state_def Let_def bind_result_Inr split: if_split_asm)
          then have "read_machine_state ?payload = Inr ?new" "read_active_trees ?payload = Inr []"
            "read_stop_request ?payload = Inr None"
            by (simp_all add: with_active_trees_def with_stop_request_def read_machine_state_def read_active_trees_def
                read_stop_request_def section_of_def get_def delete_conv' del: in_TERMINAL)
          then show ?thesis
            using w ended stops False saved_file [of "fst s1" ?payload]
            by (cases "save_checkpoint (fst s1) ?payload") (auto simp del: dumps.simps)
        qed
      qed
    qed
  qed
qed

definition one_tree :: tree_ref where "one_tree = JobObjectRef 7 ''j''"

definition running :: "int \<Rightarrow> tree_ref set" where "running w = (if w \<le> 0 then {one_tree} else {})"

definition one_tree_port :: "(int, unit) stop_port" where
  "one_tree_port ref grace w = (if ref = one_tree then (max 1 w, TreeEnded ()) else (w, TreeEnded ()))"

lemma one_tree_stops: "stops_trees one_tree_port running"
  by (auto simp: stops_trees_def one_tree_port_def running_def)

definition cancelling_checkpoint :: payload where
  "cancelling_checkpoint = with_active_trees (with_machine_state bare_checkpoint cancelling_state) [one_tree]"

definition merging_checkpoint :: payload where
  "merging_checkpoint =
     with_stop_request (with_active_trees (with_machine_state bare_checkpoint merging_state) [one_tree])
       (Some \<lparr>sq_requested_at = ''t'', sq_evidence = OpaqueRef ''e'', sq_source_state = S_MERGING\<rparr>)"

lemmas no_violations = violation_texts_def MachineState_def

lemma short_j: "short ''j''" "short ''t''" "short ''e''"
  by code_simp+

lemma trees_typed: "has_type processes_section (JObj [(''trees'', JArr [tree_entry one_tree])])"
  using short_j
  by (simp add: processes_section_def one_tree_def field_defs has_type_simps TREE_KINDS_def MAX_ACTIVE_TREES_def short_def)

lemma with_trees_typed:
  "has_fields checkpoint_fields_v2 p \<Longrightarrow> has_fields checkpoint_fields_v2 (with_active_trees p [one_tree])"
  using section_typed [OF _ checkpoint_sections(2) trees_typed] by (simp add: with_active_trees_def)

lemma cancelling_typed: "has_fields checkpoint_fields_v2 cancelling_checkpoint"
  unfolding cancelling_checkpoint_def
  by (rule with_trees_typed, rule saved_typed [OF _ bare_typed])
    (use short_texts in \<open>simp add: state_texts_def cancelling_state_def no_violations bn_def\<close>)

lemma merging_typed: "has_fields checkpoint_fields_v2 merging_checkpoint"
proof -
  have "has_fields checkpoint_fields_v2 (with_active_trees (with_machine_state bare_checkpoint merging_state) [one_tree])"
    by (rule with_trees_typed, rule saved_typed [OF _ bare_typed])
      (simp add: state_texts_def merging_state_def no_violations)
  moreover have "has_type stop_request_section
      (JObj [(''requested_at'', JStr ''t''), (''evidence'', JStr ''e''), (''source_state'', JStr (state_value S_MERGING))])"
    using short_j
    by (simp add: stop_request_section_def field_defs has_type_simps STATE_VALUES_def all_states_def short_def)
  ultimately show ?thesis
    using section_typed [OF _ checkpoint_sections(3)]
    by (simp add: merging_checkpoint_def with_stop_request_def)
qed

section \<open>Loading them\<close>

lemma cancelling_items: "cancelling_checkpoint =
   [(''number'', JInt 1), (''repository'', JStr ''r''), (''run_id'', JStr ''run1''), (''schema_version'', JInt 2),
    (''state'', JObj [(''state'', JStr ''RUNNING_REVIEW''),
       (''procedure'', JObj [(''kind'', JStr ''CANCELLING''), (''attempt_binding'', JStr ''b'')])]),
    (''processes'', JObj [(''trees'', JArr [tree_entry one_tree])])]"
  by code_simp

lemma merging_items: "merging_checkpoint =
   [(''number'', JInt 1), (''repository'', JStr ''r''), (''run_id'', JStr ''run1''), (''schema_version'', JInt 2),
    (''state'', JObj [(''state'', JStr ''MERGING''), (''awaiting'', JStr ''MERGE_PRECONDITIONS'')]),
    (''processes'', JObj [(''trees'', JArr [tree_entry one_tree])]),
    (''stop_request'', JObj [(''requested_at'', JStr ''t''), (''evidence'', JStr ''e''), (''source_state'', JStr ''MERGING'')])]"
  by code_simp

lemma plain_leaves:
  "plain n (JInt 1)" "plain n (JInt 2)" "plain n (JInt 7)" "plain n (JStr ''r'')" "plain n (JStr ''run1'')" "plain n (JStr ''b'')"
  "plain n (JStr ''j'')" "plain n (JStr ''t'')" "plain n (JStr ''e'')" "plain n (JStr ''RUNNING_REVIEW'')"
  "plain n (JStr ''CANCELLING'')" "plain n (JStr ''MERGING'')" "plain n (JStr ''MERGE_PRECONDITIONS'')"
  "plain n (JStr JOB_OBJECT_TREE)"
  by (rule plain_leaf, code_simp | rule plain_ascii, code_simp)+

lemma plain_names:
  "list_all utf8_ok [''number'', ''repository'', ''run_id'', ''schema_version'', ''state'', ''processes'', ''stop_request'',
    ''procedure'', ''kind'', ''attempt_binding'', ''trees'', ''pid'', ''job_name'', ''awaiting'', ''requested_at'', ''evidence'',
    ''source_state'']"
  by code_simp

lemma depth_four: "(\<And>n. plain (Suc (Suc (Suc (Suc n)))) v) \<Longrightarrow> plain MAX_JSON_DEPTH v"
proof -
  assume v: "\<And>n. plain (Suc (Suc (Suc (Suc n)))) v"
  have "MAX_JSON_DEPTH = Suc (Suc (Suc (Suc 60)))" by (simp add: MAX_JSON_DEPTH_def)
  then show "plain MAX_JSON_DEPTH v" using v [of 60] by argo
qed

lemma cancelling_plain: "plain MAX_JSON_DEPTH (JObj cancelling_checkpoint)"
  by (rule depth_four) (use plain_names plain_leaves in \<open>simp add: cancelling_items one_tree_def\<close>)

lemma merging_plain: "plain MAX_JSON_DEPTH (JObj merging_checkpoint)"
  by (rule depth_four) (use plain_names plain_leaves in \<open>simp add: merging_items one_tree_def\<close>)

lemma runs_small:
  "\<not> CHECKPOINT_MAX_INPUT_BYTES < length (dumps (JObj cancelling_checkpoint))"
  "\<not> CHECKPOINT_MAX_INPUT_BYTES < length (dumps (JObj merging_checkpoint))"
proof -
  have "length (dumps (JObj merging_checkpoint)) = 270" "length (dumps (JObj cancelling_checkpoint)) \<le> 300" by code_simp+
  then show "\<not> CHECKPOINT_MAX_INPUT_BYTES < length (dumps (JObj cancelling_checkpoint))"
    "\<not> CHECKPOINT_MAX_INPUT_BYTES < length (dumps (JObj merging_checkpoint))"
    by (simp_all only: CHECKPOINT_MAX_INPUT_BYTES_def)
qed

lemma runs_read:
  "read_machine_state (ordered_items cancelling_checkpoint) = Inr cancelling_state"
  "read_machine_state (ordered_items merging_checkpoint) = Inr merging_state"
  "read_active_trees (ordered_items cancelling_checkpoint) = Inr [one_tree]"
  "read_active_trees (ordered_items merging_checkpoint) = Inr [one_tree]"
  "read_stop_request (ordered_items merging_checkpoint) =
     Inr (Some \<lparr>sq_requested_at = ''t'', sq_evidence = OpaqueRef ''e'', sq_source_state = S_MERGING\<rparr>)"
  by code_simp+

lemma cancelling_loaded:
  "load_run example_interpreter ''run1'' ''r'' 1 (disk_with cancelling_checkpoint, w) =
     ((disk_with cancelling_checkpoint, w),
      Inr \<lparr>rc_payload = ordered_items cancelling_checkpoint, rc_machine_state = cancelling_state\<rparr>)"
proof (rule saved_run_loads [OF cancelling_typed _ cancelling_plain runs_small(1) _ _ _ _ runs_read(1)])
  show "run_id_form ''run1''" by code_simp
qed (simp_all add: version_of_def cancelling_items)

lemma merging_loaded:
  "load_run example_interpreter ''run1'' ''r'' 1 (disk_with merging_checkpoint, w) =
     ((disk_with merging_checkpoint, w),
      Inr \<lparr>rc_payload = ordered_items merging_checkpoint, rc_machine_state = merging_state\<rparr>)"
proof (rule saved_run_loads [OF merging_typed _ merging_plain runs_small(2) _ _ _ _ runs_read(2)])
  show "run_id_form ''run1''" by code_simp
qed (simp_all add: version_of_def merging_items)

section \<open>The instances\<close>

lemma cancelling_halts:
  "\<exists>d. halt example_interpreter one_tree_port 5 None ''run1'' ''r'' 1 (disk_with cancelling_checkpoint, 0) =
     ((d, 1), Inr (HaltCompleted (MachineState S_CANCELLED) [] [()]))"
proof -
  let ?run = "\<lparr>rc_payload = ordered_items cancelling_checkpoint, rc_machine_state = cancelling_state\<rparr>"
  let ?done = "with_machine_state bare_checkpoint (MachineState S_CANCELLED)"
  have step: "transition cancelling_state (CancellationCompleted (Some bn) None) = Inr (MachineState S_CANCELLED, [])"
    by (simp add: cancelling_state_def event_eval run_eval)
  have stop: "stop_trees one_tree_port 5 None [one_tree] s = ((fst s, max 1 (snd s)), Inr (TreesStopped [()]))" for s
    by (simp add: stop_trees_def and_then_def on_world_def stop_one_def one_tree_port_def force_requested_def done_with_def)
  have payload: "map_sum id (\<lambda>p. with_active_trees p []) (with_verified_machine_state (ordered_items cancelling_checkpoint) (MachineState S_CANCELLED)) =
      Inr ?done"
    by code_simp
  have "has_fields checkpoint_fields_v2 ?done"
    by (rule saved_typed [OF _ bare_typed]) (simp add: state_texts_def no_violations)
  moreover have "version_of ?done = Some 2"
    by (simp add: version_of_def with_machine_state_def bare_checkpoint_def)
  ultimately have "save_checkpoint (disk_with cancelling_checkpoint) ?done =
      Inr (disk_with cancelling_checkpoint\<lparr>dk_file := Some \<lparr>cf_bytes = dumps (JObj ?done), cf_private = True\<rparr>\<rparr>)"
    by (rule saved_valid) (simp_all add: disk_with_def fresh_disk_def)
  then have saved: "save_stopped ?run (MachineState S_CANCELLED) [] (disk_with cancelling_checkpoint, w) =
      ((disk_with cancelling_checkpoint\<lparr>dk_file := Some \<lparr>cf_bytes = dumps (JObj ?done), cf_private = True\<rparr>\<rparr>, w), Inr ())" for w :: int
    using payload by (auto simp: save_stopped_def and_then_def or_stop_def save_def done_with_def simp del: dumps.simps split: sum.splits)
  have procedure: "ms_procedure cancelling_state = CancellingProcedure bn" by (simp add: cancelling_state_def)
  show ?thesis
    using cancelling_loaded [of "0 :: int"] step stop saved [of 1] runs_read(3)
    by (simp add: halt_def and_then_def halt_run_def procedure completion_event_for_def accepted_def caught_as_def or_stop_def
        done_with_def del: dumps.simps)
qed

theorem halt_stops_before_saving_witness:
  "\<exists>d payload. halt example_interpreter one_tree_port 5 None ''run1'' ''r'' 1 (disk_with cancelling_checkpoint, 0) =
       ((d, 1), Inr (HaltCompleted (MachineState S_CANCELLED) [] [()])) \<and>
     dk_file d = Some \<lparr>cf_bytes = dumps (JObj payload), cf_private = True\<rparr> \<and>
     read_machine_state payload = Inr (MachineState S_CANCELLED) \<and> read_active_trees payload = Inr []"
proof -
  obtain d where h: "halt example_interpreter one_tree_port 5 None ''run1'' ''r'' 1 (disk_with cancelling_checkpoint, 0) =
     ((d, 1), Inr (HaltCompleted (MachineState S_CANCELLED) [] [()]))"
    using cancelling_halts by blast
  from halt_stops_before_saving [OF one_tree_stops cancelling_loaded _ _ h] runs_read(3) cancelling_reachable h
  show ?thesis by (auto simp del: dumps.simps)
qed

theorem emergency_stop_outcomes_witness:
  "emergency_stop example_interpreter one_tree_port 5 None ''run1'' ''r'' 1 (disk_with merging_checkpoint, 0) =
     ((disk_with merging_checkpoint, 0), Inl (EngineStopped ''illegal_event'')) \<and> running 0 = {one_tree}"
proof -
  obtain s' r where h: "emergency_stop example_interpreter one_tree_port 5 None ''run1'' ''r'' 1 (disk_with merging_checkpoint, 0) = (s', r)"
    by fastforce
  have "ms_state merging_state = S_MERGING" "ms_procedure merging_state = NormalProcedure" "running 0 = {one_tree}"
    by (simp_all add: merging_state_def MachineState_def running_def)
  with emergency_stop_outcomes [OF one_tree_stops merging_loaded _ _ _ h] runs_read(4,5) merging_reachable h
  show ?thesis by simp
qed

end
