(* ===== verification/Spec2Isabelle.thy ===== *)
theory Spec2Isabelle
  imports Machine_Roundtrips Record_Properties Schema_Properties Transport_Properties Checkpoint_Sections Posting_Properties Transaction_Properties Actions_Properties Halting_Properties
begin

text \<open>
  A verification development for \<open>claude_code_codex_review_loop\<close>, a controller that drives a pull
  request through an automatic review: Codex reviews the head, the host agent applies the findings,
  questions and decisions are exchanged, CI is awaited, and a person approves the merge. The sources
  are under \<open>src/src/claude_code_codex_review_loop\<close>.

  \<^bold>\<open>The program.\<close> The package \<open>domain\<close> is a pure state machine: \<open>transition(ms, event)\<close> returns a new
  machine state and the commands to execute. The other packages observe the world (GitHub comments,
  CI, processes), build events from what they verified, and execute commands: \<open>transport\<close> talks to
  GitHub, \<open>identity\<close> verifies who wrote a record and that the chain of records is intact, \<open>schema\<close>
  validates payloads, \<open>state\<close> keeps checkpoints, \<open>workflow\<close> is the engine, \<open>runtime\<close> and \<open>process\<close> start the
  agents.

  \<^bold>\<open>The domain model.\<close> \<open>States\<close>, \<open>Values\<close>, \<open>Commands\<close>, \<open>Machine_State\<close> and \<open>Events\<close> hold the data: an
  enum is a datatype with its members, a frozen dataclass a record, a union of dataclasses a datatype
  whose constructors carry the fields. A \<open>__post_init__\<close> check is a function into \<open>domain_error + unit\<close>
  and the constructor it guards is \<open>mk_...\<close>, into \<open>domain_error + 'a\<close>; error texts are dropped, error
  codes kept. \<open>Ruledefs\<close> models \<open>_ruledefs.py\<close> (the guard key, \<open>Match.matches\<close>, the shared tables),
  \<open>Rules_Workflow\<close>, \<open>Rules_Recovery\<close> and \<open>Rules_Integrity\<close> the three rule modules, with one definition
  \<open>rule_<id>\<close> per rule, and \<open>Machine\<close> models \<open>machine.py\<close>: the registry, its check, the index,
  \<open>initialize\<close>, \<open>select_rule\<close> and \<open>transition\<close>. An exception a rule body would raise on data that its
  guard excludes (\<open>AttributeError\<close>, \<open>KeyError\<close>) is a value of \<open>domain_error\<close>.

  \<^bold>\<open>The lemmas.\<close> \<open>Interfaces\<close> has two locales. \<open>exclusive_table\<close> is a table in which at most one entry
  matches a key; \<open>Registry_Checks\<close> discharges it for the registry. \<open>safe_step_system\<close> is a step function
  with an invariant that every legal step keeps; \<open>Machine_Safety\<close> discharges it for \<open>transition\<close>, from
  the soundness of each rule (\<open>Machine_Invariant\<close>, \<open>Soundness_Workflow\<close>, \<open>Soundness_Recovery\<close>,
  \<open>Soundness_Integrity\<close>), so that runs, reachability and the induction over them are proved once.
  \<open>Lifecycle\<close> is an abstract specification of a run, with its phase and its open and held violations;
  \<open>Lifecycle_Rules\<close> and \<open>Lifecycle_Refinement\<close> prove that the machine refines it, and \<open>Lifecycle_Laws\<close>
  derive the safety of merging, halting, cancelling and incident recording from the specification.
  \<open>Machine_Commands\<close>, \<open>Resumption\<close>, \<open>Blocks\<close>, \<open>Escape\<close> and \<open>Record_Slot\<close> prove what commands a step may
  emit, that a resume repeats, that a block is transparent, that every run can end, and how the slot
  of the pending record is used. \<open>Scenarios\<close> has the concrete runs that instances use.
  \<open>Machine_Properties\<close>, \<open>Machine_Protocols\<close> and \<open>Machine_Roundtrips\<close> state the properties.

  \<^bold>\<open>The record protocol.\<close> The records of a run are comments on the pull request; a marker at the end of a
  comment carries the machine-readable part. \<open>Projection\<close> models \<open>schema/projection.py\<close>, \<open>Marker\<close>
  \<open>transport/marker.py\<close>, \<open>Conversation\<close> the reading of comments in \<open>transport/conversation.py\<close>, and
  \<open>Record_Chain\<close> \<open>identity/actor.py\<close> and \<open>identity/record_chain.py\<close>. Underneath, \<open>Utf8\<close>, \<open>Json\<close> and
  \<open>Sha256\<close> model what the code uses of the standard library: a \<open>str\<close> is the list of its UTF-8 bytes,
  \<open>json.dumps\<close> and \<open>json.loads\<close> are functions on such lists, and \<open>hashlib.sha256\<close> is computed on 32-bit
  words. Two facts about the interpreter, how deep it may still recurse and how it prints a float, are
  arguments, in the record \<open>interpreter\<close>. \<open>Utf8_Laws\<close>, \<open>Json_Roundtrip\<close>, \<open>Marker_Laws\<close> and \<open>Marker_Escape\<close>
  show what searching, upper-casing, printing, parsing, attaching and escaping do; \<open>Chain_Laws\<close> takes
  the verification of a chain apart and follows the hashes back, \<open>Chain_Honest\<close> shows what a
  well-behaved client gets, and \<open>Record_Properties\<close> states the properties and two defects.

  \<^bold>\<open>Payloads.\<close> \<open>Json_Input\<close> is the JSON parser with its depth guard, \<open>Validate\<close> models \<open>schema/validate.py\<close>,
  \<open>schema/registry.py\<close> and \<open>schema/migrate.py\<close>; a payload is an association list in the order of the
  dictionary, a rule or a migration of a schema a function, as in the code. \<open>Schema_Records\<close>, \<open>Schema_Host\<close> and
  \<open>Schema_Checkpoint\<close> are the field tables of the schema modules with their rules, over the enumeration
  values of \<open>Vocabulary\<close>. \<open>Validate_Laws\<close> gives the type system that the check decides, the grammar
  of the reported paths and what a repair changes; \<open>Schema_Laws\<close> has the registry of the package (\<open>schema/__init__.py\<close>), the paths its
  rules report, the migration of a checkpoint and the type of a saved state. \<open>Projection_Build\<close> builds the projection of a record from its payload and shows that it is read back.
  \<open>Schema_Properties\<close> states the properties.

  \<^bold>\<open>The checkpoint.\<close> \<open>Checkpoint_View\<close> and \<open>Checkpoint_Sections\<close> model \<open>workflow/checkpoint_view.py\<close>: how the machine
  state, the pending action, the receipts, the user request, the violations, the process trees and the stop
  request are read from and written to the checkpoint. \<open>Checkpoint_Laws\<close> proves that a saved state reads back.

  \<^bold>\<open>Observing and resuming.\<close> \<open>Policy\<close> models the forbidden flags, the profiles and the trust rules of \<open>policy\<close>; \<open>Gh\<close> the
  calls of \<open>transport/gh.py\<close> with the classification of their failures and the bounded retry, where the
  process, the clock and the sleep are arguments over a state of the world; \<open>Pull_Request\<close> the metadata of a pull request.
  \<open>Pending\<close> models \<open>state/pending.py\<close>, a record whose posting was interrupted, and \<open>Reconcile\<close>
  \<open>state/reconcile.py\<close>, the comparison of a resumed run with the advertised head. \<open>Transport_Properties\<close> states
  the properties.

  \<^bold>\<open>Producing and posting.\<close> \<open>Transaction\<close> models \<open>workflow/transaction.py\<close>, the values of a record before it is posted, and
  \<open>Actions\<close> \<open>workflow/actions.py\<close>, the registry of what the host and the user are asked for. \<open>Posting\<close> models the part of
  \<open>transport/conversation.py\<close> that posts a record once, over the calls of \<open>Gh\<close>. \<open>Transaction_Properties\<close>, \<open>Actions_Properties\<close> and
  \<open>Posting_Properties\<close> state their properties.

  \<^bold>\<open>The steps of the engine.\<close> \<open>Store\<close> models \<open>state/store.py\<close>: the checkpoint on the disk and the guard around its update.
  \<open>Run_Context\<close> models \<open>workflow/run_context.py\<close>; a step is a function on the disk and the rest of the world, which ends with a value, with
  \<open>EngineStopped\<close> or with an exception, and a port is an argument that acts on the world. \<open>Persistence\<close> models \<open>workflow/persistence.py\<close>, which
  posts, verifies and enters one record, and \<open>Halting\<close> models \<open>workflow/halt.py\<close> and \<open>workflow/emergency.py\<close>. \<open>Json_Nested\<close> shows that nested
  JSON reads back, \<open>Store_Properties\<close> which saved checkpoints load again, \<open>Persistence_Properties\<close> what a persisted
  record implies and \<open>Halting_Properties\<close> what is known about process trees and checkpoint when a step ends. Each has a run on
  a concrete checkpoint, and the last one shows that an emergency stop does nothing while a run is merging and has no procedure in progress.

  \<^bold>\<open>Bounds.\<close> The model of the domain needs no fuel: the machine has no loop beyond folds over the
  registry. Opaque identifiers are strings; their order, which the canonical order of violations uses,
  is the lexicographic order of bytes, which for UTF-8 is the order of code points. The functions on
  texts and JSON recurse on shorter texts; the only bound is the recursion budget of the interpreter,
  beyond which \<open>json.loads\<close> raises, as in Python.

  The retry of \<open>Gh\<close> and the migration of \<open>Validate\<close> are functions whose termination is proved by a measure: the attempts and
  the versions that are left. Times are rational numbers. What GitHub answers is assumed to be bytes; header texts are
  read as ASCII.

  \<^bold>\<open>Not modelled.\<close> Of the workflow, \<open>engine.py\<close> with \<open>user_input.py\<close>, \<open>results.py\<close> and \<open>incident.py\<close>, which choose the
  next step and accept the files of the host, the order in which a resume reads its files, and the review threads are not modelled.
  A lone surrogate in a text is hashed and written as three bytes, where \<open>str.encode\<close> raises; a save that fails leaves the file as
  it was, also where the code fails after the replacement, when it synchronises the directory or checks the new file.
  The directory of a run and the checks of its path are taken as done. Processes, locks, HTTP and the file permissions of the operating systems are input and output;
  the redaction is a table of regular expressions with look-behind; the prompts and the rendering of texts are templates.
\<close>

end
